(* ===== verification/Prelude.thy ===== *)
theory Prelude
  imports Main "HOL-Library.Word" "HOL-Library.AList"
begin

text \<open>
  Shared vocabulary of the development: the types every component uses (characters, bytes,
  C++ strings, string-keyed maps, results with an exception message), the C library's character
  classification in the C locale over the ASCII codes, decimal formatting of integers, and the
  generic lemmas on lists and association lists that the component proofs share.

  Conventions.  A \<open>std::string\<close> is a \<open>string\<close> (a list of 8-bit \<open>char\<close>s), a
  \<open>std::vector\<close> a list.  A \<open>std::unordered_map\<close> or \<open>std::map\<close> with string keys is an
  association list \<open>'v smap\<close> whose keys are distinct; the list order of an unordered map stands
  for its unspecified iteration order, so a theorem about every association list covers every
  iteration order.  A thrown \<open>std::exception\<close> is \<open>Inl\<close> of its \<open>what()\<close> text.
\<close>

section \<open>Collections of facts\<close>

named_theorems res_simps "case analysis of results, exceptions and optional values"
named_theorems smap_simps "string-keyed maps"
named_theorems len_bounds "length facts used by termination arguments"

section \<open>Types\<close>

type_synonym byte = "8 word"
type_synonym u32 = "32 word"
type_synonym exn = string
type_synonym 'a result = "exn + 'a"
type_synonym 'v smap = "(string \<times> 'v) list"

abbreviation Ok :: "'a \<Rightarrow> 'e + 'a" where
  "Ok \<equiv> Inr"

abbreviation Throw :: "'e \<Rightarrow> 'e + 'a" where
  "Throw \<equiv> Inl"

section \<open>Results\<close>

definition bind_res :: "'e + 'a \<Rightarrow> ('a \<Rightarrow> 'e + 'b) \<Rightarrow> 'e + 'b" where
  "bind_res r f = (case r of Inl e \<Rightarrow> Inl e | Inr a \<Rightarrow> f a)"

lemma bind_res_simps [simp]:
  "bind_res (Inl e) f = Inl e"
  "bind_res (Inr a) f = f a"
  by (simp_all add: bind_res_def)

lemma bind_res_eq_Inr [res_simps]:
  "bind_res r f = Inr b \<longleftrightarrow> (\<exists>a. r = Inr a \<and> f a = Inr b)"
  by (cases r) auto

lemma bind_res_assoc: "bind_res (bind_res r f) g = bind_res r (\<lambda>a. bind_res (f a) g)"
  by (cases r) auto

lemma bind_res_cong [fundef_cong]:
  "r = r' \<Longrightarrow> (\<And>a. r' = Inr a \<Longrightarrow> f a = g a) \<Longrightarrow> bind_res r f = bind_res r' g"
  by (cases r') auto

section \<open>Characters (C locale, ASCII codes)\<close>

definition code :: "char \<Rightarrow> nat" where
  "code c = of_char c"

definition is_upper :: "char \<Rightarrow> bool" where
  "is_upper c \<longleftrightarrow> 65 \<le> code c \<and> code c \<le> 90"

definition is_lower :: "char \<Rightarrow> bool" where
  "is_lower c \<longleftrightarrow> 97 \<le> code c \<and> code c \<le> 122"

definition to_lower :: "char \<Rightarrow> char" where
  "to_lower c = (if is_upper c then char_of (code c + 32) else c)"

definition to_upper :: "char \<Rightarrow> char" where
  "to_upper c = (if is_lower c then char_of (code c - 32) else c)"

definition is_cntrl :: "char \<Rightarrow> bool" where
  "is_cntrl c \<longleftrightarrow> code c < 32 \<or> code c = 127"

definition is_print :: "char \<Rightarrow> bool" where
  "is_print c \<longleftrightarrow> 32 \<le> code c \<and> code c < 127"

definition is_digit :: "char \<Rightarrow> bool" where
  "is_digit c \<longleftrightarrow> 48 \<le> code c \<and> code c \<le> 57"

definition newline :: char where
  "newline = char_of (10::nat)"

lemma code_bound [simp]: "code c < 256"
  by (simp add: code_def)

lemma code_char_of [simp]: "code (char_of n) = n mod 256"
  by (simp add: code_def)

lemma char_of_code [simp]: "char_of (code c) = c"
  by (simp add: code_def)

lemma code_inj: "code c = code d \<longleftrightarrow> c = d"
  by (metis char_of_code)

lemma code_to_lower: "code (to_lower c) = (if is_upper c then code c + 32 else code c)"
  by (auto simp: to_lower_def is_upper_def)

lemma to_lower_not_upper [simp]: "\<not> is_upper (to_lower c)"
  by (auto simp: is_upper_def code_to_lower)

lemma to_lower_idem [simp]: "to_lower (to_lower c) = to_lower c"
  by (subst to_lower_def) simp

section \<open>Bytes and strings\<close>

text \<open>
  The server runs on z/OS, where the execution character set is IBM-1047: a \<open>char\<close> literal is
  an EBCDIC byte.  A model character is the ISO 8859-1 code point that the byte stands for, so
  literals, \<open>isupper\<close>, \<open>tolower\<close> and comparisons read as in the source; where the code
  works on the bytes themselves (base64), \<open>byte_of\<close> gives the byte in memory.  The two code
  pages are permutations of each other.
\<close>

definition e2a_table :: "nat list" where
  "e2a_table =
    [0, 1, 2, 3, 156, 9, 134, 127, 151, 141, 142, 11, 12, 13, 14, 15,
     16, 17, 18, 19, 157, 10, 8, 135, 24, 25, 146, 143, 28, 29, 30, 31,
     128, 129, 130, 131, 132, 133, 23, 27, 136, 137, 138, 139, 140, 5, 6, 7,
     144, 145, 22, 147, 148, 149, 150, 4, 152, 153, 154, 155, 20, 21, 158, 26,
     32, 160, 226, 228, 224, 225, 227, 229, 231, 241, 162, 46, 60, 40, 43, 124,
     38, 233, 234, 235, 232, 237, 238, 239, 236, 223, 33, 36, 42, 41, 59, 94,
     45, 47, 194, 196, 192, 193, 195, 197, 199, 209, 166, 44, 37, 95, 62, 63,
     248, 201, 202, 203, 200, 205, 206, 207, 204, 96, 58, 35, 64, 39, 61, 34,
     216, 97, 98, 99, 100, 101, 102, 103, 104, 105, 171, 187, 240, 253, 254, 177,
     176, 106, 107, 108, 109, 110, 111, 112, 113, 114, 170, 186, 230, 184, 198, 164,
     181, 126, 115, 116, 117, 118, 119, 120, 121, 122, 161, 191, 208, 91, 222, 174,
     172, 163, 165, 183, 169, 167, 182, 188, 189, 190, 221, 168, 175, 93, 180, 215,
     123, 65, 66, 67, 68, 69, 70, 71, 72, 73, 173, 244, 246, 242, 243, 245,
     125, 74, 75, 76, 77, 78, 79, 80, 81, 82, 185, 251, 252, 249, 250, 255,
     92, 247, 83, 84, 85, 86, 87, 88, 89, 90, 178, 212, 214, 210, 211, 213,
     48, 49, 50, 51, 52, 53, 54, 55, 56, 57, 179, 219, 220, 217, 218, 159]"

definition a2e :: "nat \<Rightarrow> nat" where
  "a2e c = length (takeWhile (\<lambda>x. x \<noteq> c) e2a_table)"

definition byte_of :: "char \<Rightarrow> byte" where
  "byte_of c = word_of_nat (a2e (code c))"

definition char_of_byte :: "byte \<Rightarrow> char" where
  "char_of_byte b = char_of (e2a_table ! unat b)"

definition bytes_of :: "string \<Rightarrow> byte list" where
  "bytes_of s = map byte_of s"

definition string_of :: "byte list \<Rightarrow> string" where
  "string_of bs = map char_of_byte bs"

lemma length_e2a_table [simp]: "length e2a_table = 256"
  by (simp add: e2a_table_def)

lemma distinct_e2a_table: "distinct e2a_table"
  by (simp add: e2a_table_def)

lemma e2a_table_bounded: "\<forall>c\<in>set e2a_table. c < 256"
  by (simp add: e2a_table_def)

lemma set_e2a_table: "set e2a_table = {..<256}"
proof (rule card_subset_eq)
  show "set e2a_table \<subseteq> {..<256}"
    using e2a_table_bounded by auto
  show "card (set e2a_table) = card {..<256::nat}"
    using distinct_e2a_table by (simp add: distinct_card)
qed simp

lemma a2e_bound: "c < 256 \<Longrightarrow> a2e c < 256"
  and e2a_a2e: "c < 256 \<Longrightarrow> e2a_table ! a2e c = c"
proof -
  assume "c < 256"
  then have "c \<in> set e2a_table"
    by (simp add: set_e2a_table)
  then have "takeWhile (\<lambda>x. x \<noteq> c) e2a_table \<noteq> e2a_table"
    by (auto simp: takeWhile_eq_all_conv)
  then have "a2e c < length e2a_table"
    unfolding a2e_def
    by (metis le_neq_implies_less length_takeWhile_le takeWhile_eq_take take_all_iff)
  then show "a2e c < 256" and "e2a_table ! a2e c = c"
    using nth_length_takeWhile [of "\<lambda>x. x \<noteq> c" e2a_table] by (simp_all add: a2e_def)
qed

lemma a2e_e2a: "i < 256 \<Longrightarrow> a2e (e2a_table ! i) = i"
proof -
  assume i: "i < 256"
  then have "e2a_table ! i < 256"
    using e2a_table_bounded by simp
  with i show ?thesis
    using e2a_a2e a2e_bound distinct_e2a_table by (metis length_e2a_table nth_eq_iff_index_eq)
qed

lemma unat_byte_of: "unat (byte_of c) = a2e (code c)"
  using a2e_bound [OF code_bound] by (simp add: byte_of_def unat_of_nat)

lemma char_of_byte_of [simp]: "char_of_byte (byte_of c) = c"
  by (simp add: char_of_byte_def unat_byte_of e2a_a2e)

lemma byte_of_char_of_byte [simp]: "byte_of (char_of_byte b) = b"
proof -
  have b: "unat b < 256"
    using unsigned_less [of b, where ?'a = nat] by simp
  then have "e2a_table ! unat b < 256"
    using e2a_table_bounded by simp
  with b show ?thesis
    by (simp add: byte_of_def char_of_byte_def a2e_e2a)
qed

lemma string_of_bytes_of [simp]: "string_of (bytes_of s) = s"
  by (simp add: string_of_def bytes_of_def comp_def)

lemma bytes_of_string_of [simp]: "bytes_of (string_of bs) = bs"
  by (simp add: string_of_def bytes_of_def comp_def)

lemma length_bytes_of [simp]: "length (bytes_of s) = length s"
  by (simp add: bytes_of_def)

lemma length_string_of [simp]: "length (string_of bs) = length bs"
  by (simp add: string_of_def)

section \<open>Decimal formatting of integers\<close>

text \<open>\<open>std::to_string\<close> and \<open>operator<<\<close> on integers, without locale grouping.\<close>

function show_nat :: "nat \<Rightarrow> string" where
  "show_nat n = (if n < 10 then [char_of (48 + n)] else show_nat (n div 10) @ [char_of (48 + n mod 10)])"
  by pat_completeness auto
termination
  by (relation "measure id") auto

declare show_nat.simps [simp del]

definition show_int :: "int \<Rightarrow> string" where
  "show_int i = (if i < 0 then CHR ''-'' # show_nat (nat (- i)) else show_nat (nat i))"

lemma show_nat_nonempty [simp]: "show_nat n \<noteq> []"
  by (subst show_nat.simps) simp

section \<open>String-keyed maps\<close>

text \<open>
  \<open>m[k] = v\<close> is \<open>AList.update k v m\<close>, \<open>m.erase(k)\<close> is \<open>AList.delete k m\<close>,
  \<open>m.find(k)\<close> is \<open>map_of m k\<close>.  The map's own invariant is that no key occurs twice.
\<close>

definition keys_ok :: "'v smap \<Rightarrow> bool" where
  "keys_ok m \<longleftrightarrow> distinct (map fst m)"

lemma keys_ok_Nil [simp]: "keys_ok []"
  by (simp add: keys_ok_def)

lemma keys_ok_update [simp, smap_simps]: "keys_ok m \<Longrightarrow> keys_ok (AList.update k v m)"
  by (simp add: keys_ok_def distinct_update)

lemma keys_ok_delete [simp, smap_simps]: "keys_ok m \<Longrightarrow> keys_ok (AList.delete k m)"
  by (simp add: keys_ok_def distinct_delete)

lemma keys_ok_Cons: "keys_ok ((k, v) # m) \<longleftrightarrow> k \<notin> fst ` set m \<and> keys_ok m"
  by (simp add: keys_ok_def)

lemma map_of_update [smap_simps]: "map_of (AList.update k v m) = (map_of m)(k \<mapsto> v)"
  by (rule update_conv')

lemma map_of_delete [smap_simps]: "map_of (AList.delete k m) = (map_of m)(k := None)"
  by (rule delete_conv')

lemma in_keys_iff: "k \<in> fst ` set m \<longleftrightarrow> map_of m k \<noteq> None"
  by (simp add: map_of_eq_None_iff)

lemma map_of_member: "keys_ok m \<Longrightarrow> (k, v) \<in> set m \<longleftrightarrow> map_of m k = Some v"
  by (simp add: keys_ok_def)

section \<open>Lists\<close>

lemma mod_split_length [len_bounds]:
  "(n::nat) > 0 \<Longrightarrow> n dvd length (take (length xs - length xs mod n) xs)"
  by (simp add: minus_mod_eq_mult_div)

lemma take_drop_mod: "take (length xs - length xs mod n) xs @ drop (length xs - length xs mod n) xs = xs"
  by simp

lemma length_drop_mod [len_bounds]:
  "length (drop (length xs - length xs mod n) xs) = length xs mod n"
  by (cases "n = 0") (auto simp: mod_less_eq_dividend)

section \<open>Transition systems\<close>

text \<open>The contract of an inductive invariant, and what its client gets: the invariant holds in
  every state that steps reach from an initial one.\<close>

locale invariant_system =
  fixes init :: "'s \<Rightarrow> bool"
    and step :: "'s \<Rightarrow> 's \<Rightarrow> bool"
    and inv :: "'s \<Rightarrow> bool"
  assumes inv_init: "init s \<Longrightarrow> inv s"
    and inv_step: "step s s' \<Longrightarrow> inv s \<Longrightarrow> inv s'"
begin

lemma inv_steps: "step\<^sup>*\<^sup>* s s' \<Longrightarrow> inv s \<Longrightarrow> inv s'"
  by (induction rule: rtranclp_induct) (auto intro: inv_step)

lemma reachable_inv: "step\<^sup>*\<^sup>* s s' \<Longrightarrow> init s \<Longrightarrow> inv s'"
  by (blast intro: inv_steps inv_init)

end

end
