(* ===== verification/Base64.thy ===== *)
theory Base64
  imports Prelude
begin

text \<open>
  The codec of \<open>zbase64.h\<close>: the encoder with its unrolled four-block loop, the EBCDIC
  decoder with its validation, and the two streaming variants that carry the bytes of an
  incomplete group from one chunk to the next in a \<open>left_over\<close> vector.  The locale
  \<open>chunk_codec\<close> states what a chunked conversion promises; both codecs are interpretations.
\<close>

unbundle bit_operations_syntax

section \<open>Tables\<close>

text \<open>The encoder's table holds character literals, which are IBM-1047 bytes on z/OS.\<close>

definition encode_table_ascii :: "byte list" where
  "encode_table_ascii = bytes_of ''ABCDEFGHIJKLMNOPQRSTUVWXYZabcdefghijklmnopqrstuvwxyz0123456789+/''"

text \<open>The decode table, entry by entry as its initialiser writes it (255: invalid).\<close>

definition ebcdic_decode :: "byte \<Rightarrow> byte" where
  "ebcdic_decode b = (let c = unat b in
     if 193 \<le> c \<and> c < 193 + 9 then word_of_nat (c - 193)
     else if 209 \<le> c \<and> c < 209 + 9 then word_of_nat (9 + (c - 209))
     else if 226 \<le> c \<and> c < 226 + 8 then word_of_nat (18 + (c - 226))
     else if 129 \<le> c \<and> c < 129 + 9 then word_of_nat (26 + (c - 129))
     else if 145 \<le> c \<and> c < 145 + 9 then word_of_nat (35 + (c - 145))
     else if 162 \<le> c \<and> c < 162 + 8 then word_of_nat (44 + (c - 162))
     else if 240 \<le> c \<and> c < 240 + 10 then word_of_nat (52 + (c - 240))
     else if c = 78 then 62
     else if c = 97 then 63
     else if c = 126 then 254
     else 255)"

section \<open>Sizes\<close>

definition encoded_size :: "nat \<Rightarrow> nat" where
  "encoded_size input_size = (input_size + 2) div 3 * 4"

definition max_decoded_size :: "nat \<Rightarrow> nat" where
  "max_decoded_size input_size = (input_size div 4) * 3"

section \<open>Encoding\<close>

definition enc_char :: "u32 \<Rightarrow> byte" where
  "enc_char x = encode_table_ascii ! unat (x AND 63)"

definition combine3 :: "byte \<Rightarrow> byte \<Rightarrow> byte \<Rightarrow> u32" where
  "combine3 a b c = (push_bit 16 (ucast a) OR push_bit 8 (ucast b)) OR ucast c"

definition enc_group :: "u32 \<Rightarrow> byte list" where
  "enc_group combined =
     [enc_char (drop_bit 18 combined), enc_char (drop_bit 12 combined),
      enc_char (drop_bit 6 combined), enc_char combined]"

text \<open>The block at \<open>src + k * 3\<close>.\<close>

definition enc_block_at :: "byte list \<Rightarrow> nat \<Rightarrow> byte list" where
  "enc_block_at src k = enc_group (combine3 (src ! (k * 3)) (src ! (k * 3 + 1)) (src ! (k * 3 + 2)))"

text \<open>The outer loop over groups of four blocks, and the loop over what it leaves: each
  appends to the output that \<open>dst\<close> points behind, and returns the block index.\<close>

function enc_loop4 :: "byte list \<Rightarrow> nat \<Rightarrow> nat \<Rightarrow> byte list \<Rightarrow> nat \<times> byte list" where
  "enc_loop4 src full_blocks i out =
     (if i + 4 \<le> full_blocks
      then enc_loop4 src full_blocks (i + 4) (out @ concat (map (\<lambda>j. enc_block_at src (i + j)) [0..<4]))
      else (i, out))"
  by pat_completeness auto
termination
  by (relation "measure (\<lambda>(src, full, i, out). full - i)") auto

function enc_loop1 :: "byte list \<Rightarrow> nat \<Rightarrow> nat \<Rightarrow> byte list \<Rightarrow> byte list" where
  "enc_loop1 src full_blocks i out =
     (if i < full_blocks then enc_loop1 src full_blocks (i + 1) (out @ enc_block_at src i) else out)"
  by pat_completeness auto
termination
  by (relation "measure (\<lambda>(src, full, i, out). full - i)") auto

declare enc_loop4.simps [simp del] enc_loop1.simps [simp del]

definition pad_char :: byte where
  "pad_char = byte_of (CHR ''='')"

definition enc_tail :: "byte list \<Rightarrow> nat \<Rightarrow> byte list" where
  "enc_tail src full_blocks = (let remaining = length src - full_blocks * 3 in
     if remaining > 0 then
       (let combined = push_bit 16 (ucast (src ! (full_blocks * 3))) :: u32;
            combined = (if remaining > 1 then combined OR push_bit 8 (ucast (src ! (full_blocks * 3 + 1))) else combined)
        in [enc_char (drop_bit 18 combined), enc_char (drop_bit 12 combined),
            (if remaining > 1 then enc_char (drop_bit 6 combined) else pad_char), pad_char])
     else [])"

definition encode :: "byte list \<Rightarrow> byte list" where
  "encode input = (if length input = 0 then [] else
     (let full_blocks = length input div 3;
          (i, out) = enc_loop4 input full_blocks 0 []
      in enc_loop1 input full_blocks i out @ enc_tail input full_blocks))"

text \<open>The convenience overload on strings.\<close>

definition encode_str :: "string \<Rightarrow> string" where
  "encode_str input = string_of (encode (bytes_of input))"

section \<open>Decoding\<close>

definition ebcdic_pad :: byte where
  "ebcdic_pad = 126"

definition combine4 :: "byte \<Rightarrow> byte \<Rightarrow> byte \<Rightarrow> byte \<Rightarrow> u32" where
  "combine4 c0 c1 c2 c3 =
     ((push_bit 18 (ucast c0) OR push_bit 12 (ucast c1)) OR push_bit 6 (ucast c2)) OR ucast c3"

definition invalid_length :: exn where
  "invalid_length = ''Invalid base64 input length''"

definition invalid_character :: exn where
  "invalid_character = ''Invalid base64 character''"

text \<open>One turn of the decoding loop on the four bytes at \<open>src\<close>.\<close>

definition dec_group :: "byte \<Rightarrow> byte \<Rightarrow> byte \<Rightarrow> byte \<Rightarrow> byte list result" where
  "dec_group s0 s1 s2 s3 =
     (let c0 = ebcdic_decode s0;
          c1 = ebcdic_decode s1;
          c2 = (if s2 = ebcdic_pad then 0 else ebcdic_decode s2);
          c3 = (if s3 = ebcdic_pad then 0 else ebcdic_decode s3)
      in if (c0 OR c1) AND 128 \<noteq> 0 then Throw invalid_character
         else if s2 \<noteq> ebcdic_pad \<and> c2 AND 128 \<noteq> 0 then Throw invalid_character
         else if s3 \<noteq> ebcdic_pad \<and> c3 AND 128 \<noteq> 0 then Throw invalid_character
         else (let combined = combine4 c0 c1 c2 c3
               in Ok (ucast (drop_bit 16 combined AND 255) #
                   (if s2 \<noteq> ebcdic_pad then
                      ucast (drop_bit 8 combined AND 255) #
                      (if s3 \<noteq> ebcdic_pad then [ucast (combined AND 255)] else [])
                    else []))))"

fun dec_loop :: "byte list \<Rightarrow> byte list \<Rightarrow> byte list result" where
  "dec_loop (s0 # s1 # s2 # s3 # src) output =
     (case dec_group s0 s1 s2 s3 of
        Inl e \<Rightarrow> Inl e
      | Inr bs \<Rightarrow> dec_loop src (output @ bs))"
| "dec_loop src output = Ok output"

definition decode :: "byte list \<Rightarrow> byte list result" where
  "decode input =
     (if length input = 0 then Ok []
      else if length input mod 4 \<noteq> 0 then Throw invalid_length
      else dec_loop input [])"

definition decode_str :: "string \<Rightarrow> string result" where
  "decode_str input = map_sum id string_of (decode (bytes_of input))"

section \<open>Streaming with left-over bytes\<close>

text \<open>\<open>left_over\<close> is a pointer: \<open>None\<close> is the null pointer.\<close>

definition load_leftover :: "byte list \<Rightarrow> byte list \<Rightarrow> byte list" where
  "load_leftover left_over input = left_over @ input"

definition store_leftover :: "byte list \<Rightarrow> byte list option \<Rightarrow> nat \<Rightarrow> nat \<times> byte list option" where
  "store_leftover combined_input left_over byte_multiple =
     (let extra_count = length combined_input mod byte_multiple;
          total_size = length combined_input - extra_count
      in (total_size,
          case left_over of
            None \<Rightarrow> None
          | Some lo \<Rightarrow> (if extra_count > 0 then Some (drop total_size combined_input) else Some lo)))"

text \<open>The shared prefix of both streaming overloads: the combined input and the vector after
  \<open>load_leftover\<close> cleared it, or nothing when there is nothing to do.\<close>

definition chunk_input :: "byte list option \<Rightarrow> byte list \<Rightarrow> (byte list \<times> byte list option) option" where
  "chunk_input left_over input =
     (case left_over of
        Some (b # bs) \<Rightarrow> Some (load_leftover (b # bs) input, Some [])
      | _ \<Rightarrow> (if input = [] then None else Some (input, left_over)))"

definition encode_chunk :: "byte list option \<Rightarrow> byte list \<Rightarrow> byte list \<times> byte list option" where
  "encode_chunk left_over input =
     (case chunk_input left_over input of
        None \<Rightarrow> ([], left_over)
      | Some (combined_input, lo) \<Rightarrow>
          (let (input_len, lo') = store_leftover combined_input lo 3
           in (encode (take input_len combined_input), lo')))"

definition decode_chunk :: "byte list option \<Rightarrow> byte list \<Rightarrow> (byte list \<times> byte list option) result" where
  "decode_chunk left_over input =
     (case chunk_input left_over input of
        None \<Rightarrow> Ok ([], left_over)
      | Some (combined_input, lo) \<Rightarrow>
          (let (input_len, lo') = store_leftover combined_input lo 4
           in map_sum id (\<lambda>out. (out, lo')) (decode (take input_len combined_input))))"

section \<open>Lemmas\<close>

definition alphabet1047 :: "byte list" where
  "alphabet1047 =
     [193, 194, 195, 196, 197, 198, 199, 200, 201, 209, 210, 211, 212, 213, 214, 215, 216, 217,
      226, 227, 228, 229, 230, 231, 232, 233, 129, 130, 131, 132, 133, 134, 135, 136, 137,
      145, 146, 147, 148, 149, 150, 151, 152, 153, 162, 163, 164, 165, 166, 167, 168, 169,
      240, 241, 242, 243, 244, 245, 246, 247, 248, 249, 78, 97]"

lemma alphabet_code_points:
  "map ((!) e2a_table) (map unat alphabet1047) =
     [65, 66, 67, 68, 69, 70, 71, 72, 73, 74, 75, 76, 77, 78, 79, 80, 81, 82,
      83, 84, 85, 86, 87, 88, 89, 90, 97, 98, 99, 100, 101, 102, 103, 104, 105, 106, 107, 108,
      109, 110, 111, 112, 113, 114, 115, 116, 117, 118, 119, 120, 121, 122, 48, 49, 50, 51, 52,
      53, 54, 55, 56, 57, 43, 47]"
  by (simp add: alphabet1047_def) (simp add: e2a_table_def)

lemma string_of_alphabet:
  "string_of alphabet1047 = ''ABCDEFGHIJKLMNOPQRSTUVWXYZabcdefghijklmnopqrstuvwxyz0123456789+/''"
proof -
  have "string_of alphabet1047 = map char_of (map ((!) e2a_table) (map unat alphabet1047))"
    by (simp add: string_of_def char_of_byte_def)
  then show ?thesis
    by (simp only: alphabet_code_points) (simp add: char_of_def bit_0)
qed

lemma encode_table_bytes: "encode_table_ascii = alphabet1047"
  unfolding encode_table_ascii_def string_of_alphabet [symmetric] by simp

lemma pad_char_eq: "pad_char = ebcdic_pad"
proof -
  have "char_of_byte ebcdic_pad = CHR ''=''"
    by (simp add: ebcdic_pad_def char_of_byte_def e2a_table_def char_of_def bit_0)
  then show ?thesis
    unfolding pad_char_def by (metis byte_of_char_of_byte)
qed

lemma table_inverse: "map ebcdic_decode encode_table_ascii = map word_of_nat [0..<64]"
  by (simp add: encode_table_bytes alphabet1047_def ebcdic_decode_def upt_rec)

lemma table_no_pad: "ebcdic_pad \<notin> set encode_table_ascii"
  by (simp add: encode_table_bytes alphabet1047_def ebcdic_pad_def)

lemma mask_6: "(63 :: 'a :: len word) = mask 6"
  by (simp add: mask_eq_exp_minus_1)

lemma mask_8: "(255 :: 'a :: len word) = mask 8"
  by (simp add: mask_eq_exp_minus_1)

lemma unat_and_63: "unat (x AND 63 :: u32) < 64"
proof -
  have "x AND 63 = take_bit 6 x"
    by (simp add: mask_6 take_bit_eq_mask)
  then show ?thesis
    using take_bit_nat_less_exp [of 6 "unat x"] by (simp add: unsigned_take_bit_eq)
qed

lemma decode_enc_char: "ebcdic_decode (enc_char x) = ucast (x AND 63)"
  and enc_char_no_pad: "enc_char x \<noteq> ebcdic_pad"
proof -
  let ?n = "unat (x AND 63)"
  have n: "?n < length encode_table_ascii"
    using unat_and_63 [of x] by (simp add: encode_table_bytes alphabet1047_def)
  have "ebcdic_decode (encode_table_ascii ! ?n) = map ebcdic_decode encode_table_ascii ! ?n"
    using n by simp
  also have "\<dots> = word_of_nat ?n"
    using unat_and_63 [of x] by (simp only: table_inverse) (simp del: upt_rec)
  also have "\<dots> = ucast (x AND 63)"
    by simp
  finally show "ebcdic_decode (enc_char x) = ucast (x AND 63)"
    by (simp add: enc_char_def)
  show "enc_char x \<noteq> ebcdic_pad"
    using n table_no_pad nth_mem unfolding enc_char_def by metis
qed

lemma bit_128: "bit (128 :: int) n \<longleftrightarrow> n = 7"
  using bit_exp_iff [of 7 n, where ?'a = int] by (auto simp: possible_bit_def)

lemma byte_high_bit: "8 \<le> n \<Longrightarrow> \<not> bit (b :: byte) n"
  by (auto dest: bit_imp_le_length)

lemma sextet_high_bit: "ucast (x AND 63 :: u32) AND (128 :: byte) = 0"
  by (auto intro!: bit_word_eqI simp: mask_6 bit_simps bit_128)

lemma sextet_high_bit2:
  "(ucast (x AND 63 :: u32) OR ucast (y AND 63 :: u32)) AND (128 :: byte) = 0"
  by (auto intro!: bit_word_eqI simp: mask_6 bit_simps bit_128)

lemma combine4_sextets:
  assumes "\<And>n. 24 \<le> n \<Longrightarrow> \<not> bit x n"
  shows "combine4 (ucast (drop_bit 18 x AND 63)) (ucast (drop_bit 12 x AND 63))
           (ucast (drop_bit 6 x AND 63)) (ucast (x AND 63)) = (x :: u32)"
proof (rule bit_word_eqI)
  fix n assume "n < LENGTH(32)"
  then have n: "n < 32" by simp
  consider "n < 6" | "6 \<le> n \<and> n < 12" | "12 \<le> n \<and> n < 18" | "18 \<le> n \<and> n < 24" | "24 \<le> n"
    by linarith
  then show "bit (combine4 (ucast (drop_bit 18 x AND 63)) (ucast (drop_bit 12 x AND 63))
      (ucast (drop_bit 6 x AND 63)) (ucast (x AND 63))) n \<longleftrightarrow> bit x n"
    using n assms by cases (auto simp: combine4_def mask_6 bit_simps)
qed

lemma combine3_high: "24 \<le> n \<Longrightarrow> \<not> bit (combine3 a b c) n"
  by (auto simp: combine3_def bit_simps byte_high_bit)

lemma combine3_bytes:
  "ucast (drop_bit 16 (combine3 a b c) AND 255) = a"
  "ucast (drop_bit 8 (combine3 a b c) AND 255) = b"
  "ucast (combine3 a b c AND 255) = c"
  by (auto intro!: bit_word_eqI simp: combine3_def mask_8 bit_simps byte_high_bit)

lemma dec_enc_group: "dec_group (enc_char (drop_bit 18 (combine3 a b c))) (enc_char (drop_bit 12 (combine3 a b c)))
    (enc_char (drop_bit 6 (combine3 a b c))) (enc_char (combine3 a b c)) = Ok [a, b, c]"
  by (simp add: dec_group_def Let_def enc_char_no_pad decode_enc_char sextet_high_bit
      sextet_high_bit2 combine4_sextets combine3_high combine3_bytes)

subsection \<open>The encoder against its reference\<close>

fun encode_ref :: "byte list \<Rightarrow> byte list" where
  "encode_ref [] = []"
| "encode_ref [a] = (let x = push_bit 16 (ucast a) :: u32 in
     [enc_char (drop_bit 18 x), enc_char (drop_bit 12 x), pad_char, pad_char])"
| "encode_ref [a, b] = (let x = push_bit 16 (ucast a) OR push_bit 8 (ucast b) :: u32 in
     [enc_char (drop_bit 18 x), enc_char (drop_bit 12 x), enc_char (drop_bit 6 x), pad_char])"
| "encode_ref (a # b # c # xs) = enc_group (combine3 a b c) @ encode_ref xs"

lemma enc_loop1_blocks:
  "enc_loop1 src full i out = out @ concat (map (enc_block_at src) [i..<full])"
proof (induction src full i out rule: enc_loop1.induct)
  case (1 src full i out)
  then show ?case
    by (subst enc_loop1.simps) (auto simp: upt_rec [of i full])
qed

lemma enc_loop4_blocks:
  "i \<le> full \<Longrightarrow> \<exists>i'. enc_loop4 src full i out = (i', out @ concat (map (enc_block_at src) [i..<i'])) \<and> i \<le> i' \<and> i' \<le> full"
proof (induction src full i out rule: enc_loop4.induct)
  case (1 src full i out)
  show ?case
  proof (cases "i + 4 \<le> full")
    case True
    have four: "concat (map (\<lambda>j. enc_block_at src (i + j)) [0..<4]) = concat (map (enc_block_at src) [i..<i + 4])"
      by (simp add: numeral_eq_Suc)
    from 1(1) [OF True] obtain i' where i': "i + 4 \<le> i'" "i' \<le> full"
      "enc_loop4 src full (i + 4) (out @ concat (map (enc_block_at src) [i..<i + 4])) =
         (i', (out @ concat (map (enc_block_at src) [i..<i + 4])) @ concat (map (enc_block_at src) [i + 4..<i']))"
      using True by (auto simp: four)
    have "[i..<i'] = [i..<i + 4] @ [i + 4..<i']"
      using i'(1) by (metis le_add1 le_iff_add upt_add_eq_append)
    with i' True show ?thesis
      by (subst enc_loop4.simps) (auto simp: four)
  next
    case False
    with "1.prems" show ?thesis
      by (subst enc_loop4.simps) auto
  qed
qed

lemma encode_blocks:
  "encode src = concat (map (enc_block_at src) [0..<length src div 3]) @ enc_tail src (length src div 3)"
proof (cases "src = []")
  case True
  then show ?thesis by (simp add: encode_def enc_tail_def)
next
  case False
  obtain i' where i': "enc_loop4 src (length src div 3) 0 [] = (i', concat (map (enc_block_at src) [0..<i']))"
    "i' \<le> length src div 3"
    using enc_loop4_blocks [of 0 "length src div 3" src "[]"] by auto
  have "[0..<length src div 3] = [0..<i'] @ [i'..<length src div 3]"
    using i'(2) by (metis le_add1 add_0 le_iff_add upt_add_eq_append)
  with False i' show ?thesis
    by (simp add: encode_def enc_loop1_blocks Let_def)
qed

lemma enc_block_at_shift: "enc_block_at (a # b # c # xs) (Suc k) = enc_block_at xs k"
  by (simp add: enc_block_at_def)

lemma enc_tail_shift: "enc_tail (a # b # c # xs) (Suc k) = enc_tail xs k"
  by (simp add: enc_tail_def Let_def)

lemma encode_step: "encode (a # b # c # xs) = enc_group (combine3 a b c) @ encode xs"
proof -
  have upt: "[0..<Suc n] = 0 # map Suc [0..<n]" for n
    by (simp add: map_Suc_upt upt_conv_Cons del: upt_Suc)
  have "length (a # b # c # xs) div 3 = Suc (length xs div 3)"
    by simp
  then show ?thesis
    unfolding encode_blocks
    by (simp only: upt) (simp add: comp_def enc_block_at_shift enc_tail_shift enc_block_at_def [of _ 0])
qed

lemma encode_eq_ref: "encode src = encode_ref src"
proof (induction src rule: encode_ref.induct)
  case 1
  show ?case by (simp add: encode_def)
next
  case (2 a)
  show ?case by (simp add: encode_blocks enc_tail_def Let_def)
next
  case (3 a b)
  show ?case by (simp add: encode_blocks enc_tail_def Let_def)
next
  case (4 a b c xs)
  then show ?case by (simp add: encode_step)
qed

lemma three_dvd: "3 dvd Suc (Suc (Suc n)) \<longleftrightarrow> 3 dvd n"
  and four_dvd: "4 dvd Suc (Suc (Suc (Suc n))) \<longleftrightarrow> 4 dvd n"
  and small_dvd: "\<not> 3 dvd Suc 0" "\<not> 3 dvd Suc (Suc 0)" "\<not> 4 dvd Suc 0" "\<not> 4 dvd Suc (Suc 0)"
    "\<not> 4 dvd Suc (Suc (Suc 0))"
  by presburger+

lemma length_encode_ref: "length (encode_ref src) = encoded_size (length src)"
proof (induction src rule: encode_ref.induct)
  case (4 a b c xs)
  have "(5 + length xs) div 3 = Suc ((length xs + 2) div 3)"
    by simp
  with 4 show ?case
    by (simp add: encoded_size_def enc_group_def)
qed (simp_all add: encoded_size_def Let_def)

lemma encode_ref_append: "3 dvd length xs \<Longrightarrow> encode_ref (xs @ ys) = encode_ref xs @ encode_ref ys"
  by (induction xs rule: encode_ref.induct) (simp_all add: three_dvd small_dvd)

subsection \<open>Decoding what was encoded\<close>

lemma dec_loop_append:
  "4 dvd length xs \<Longrightarrow> dec_loop (xs @ ys) out = bind_res (dec_loop xs out) (dec_loop ys)"
  by (induction xs out rule: dec_loop.induct) (simp_all add: four_dvd small_dvd split: sum.splits)

lemma dec_loop_out: "dec_loop xs (out @ out') = map_sum id ((@) out) (dec_loop xs out')"
  by (induction xs out' rule: dec_loop.induct) (simp_all split: sum.splits)

lemma dec_loop_Nil_out: "dec_loop xs out = map_sum id ((@) out) (dec_loop xs [])"
  using dec_loop_out [of xs out "[]"] by simp

lemma decode_multiple: "4 dvd length xs \<Longrightarrow> decode xs = dec_loop xs []"
  by (auto simp: decode_def)

lemma combine3_low:
  "combine3 a b 0 AND 63 = 0"
  "drop_bit 6 (combine3 a 0 0) AND 63 = 0"
  by (auto intro!: bit_word_eqI simp: combine3_def mask_6 bit_simps byte_high_bit)

lemma combine3_tail:
  "push_bit 16 (ucast a) OR push_bit 8 (ucast b) = combine3 a b 0"
  "push_bit 16 (ucast a) = combine3 a 0 0"
  by (simp_all add: combine3_def)

lemma dec_group_two:
  "dec_group (enc_char (drop_bit 18 (combine3 a b 0))) (enc_char (drop_bit 12 (combine3 a b 0)))
     (enc_char (drop_bit 6 (combine3 a b 0))) ebcdic_pad = Ok [a, b]"
  using combine4_sextets [OF combine3_high, of a b 0]
  by (simp add: dec_group_def Let_def enc_char_no_pad decode_enc_char sextet_high_bit
      sextet_high_bit2 combine3_low combine3_bytes)

lemma dec_group_one:
  "dec_group (enc_char (drop_bit 18 (combine3 a 0 0))) (enc_char (drop_bit 12 (combine3 a 0 0)))
     ebcdic_pad ebcdic_pad = Ok [a]"
  using combine4_sextets [OF combine3_high, of a 0 0]
  by (simp add: dec_group_def Let_def enc_char_no_pad decode_enc_char sextet_high_bit
      sextet_high_bit2 combine3_low combine3_bytes)

lemma encode_ref_tails:
  "encode_ref [a] = [enc_char (drop_bit 18 (combine3 a 0 0)), enc_char (drop_bit 12 (combine3 a 0 0)),
     ebcdic_pad, ebcdic_pad]"
  "encode_ref [a, b] = [enc_char (drop_bit 18 (combine3 a b 0)), enc_char (drop_bit 12 (combine3 a b 0)),
     enc_char (drop_bit 6 (combine3 a b 0)), ebcdic_pad]"
  by (simp_all only: encode_ref.simps Let_def combine3_tail(1) pad_char_eq, simp only: combine3_tail(2))

lemma dec_loop_encode_ref: "dec_loop (encode_ref xs) out = Ok (out @ xs)"
proof (induction xs arbitrary: out rule: encode_ref.induct)
  case (2 a)
  show ?case by (simp only: encode_ref_tails dec_loop.simps dec_group_one sum.case)
next
  case (3 a b)
  show ?case by (simp only: encode_ref_tails dec_loop.simps dec_group_two sum.case)
next
  case (4 a b c xs)
  then show ?case by (simp add: dec_enc_group enc_group_def)
qed simp

lemma four_dvd_encode: "4 dvd length (encode xs)"
  by (simp add: encode_eq_ref length_encode_ref encoded_size_def)

lemma decode_encode: "decode (encode xs) = Ok xs"
  using four_dvd_encode [of xs] by (simp add: encode_eq_ref decode_multiple dec_loop_encode_ref)

subsection \<open>What the decoder accepts\<close>

text \<open>The alphabet of the first two positions, and of the last two, where \<open>=\<close> is also taken.\<close>

definition b64_digit :: "byte \<Rightarrow> bool" where
  "b64_digit b \<longleftrightarrow> ebcdic_decode b AND 128 = 0"

definition quad_ok :: "byte \<Rightarrow> byte \<Rightarrow> byte \<Rightarrow> byte \<Rightarrow> bool" where
  "quad_ok s0 s1 s2 s3 \<longleftrightarrow> b64_digit s0 \<and> b64_digit s1 \<and>
     (s2 = ebcdic_pad \<or> b64_digit s2) \<and> (s3 = ebcdic_pad \<or> b64_digit s3)"

fun quads_ok :: "byte list \<Rightarrow> bool" where
  "quads_ok [] = True"
| "quads_ok (s0 # s1 # s2 # s3 # src) = (quad_ok s0 s1 s2 s3 \<and> quads_ok src)"
| "quads_ok _ = False"

lemma or_and_zero: "(x OR y) AND (128 :: byte) = 0 \<longleftrightarrow> x AND 128 = 0 \<and> y AND 128 = 0"
  by (auto simp: bit_eq_iff bit_simps bit_128)

lemma dec_group_cases:
  "quad_ok s0 s1 s2 s3 \<Longrightarrow> \<exists>bs. dec_group s0 s1 s2 s3 = Ok bs \<and>
     length bs = (if s2 = ebcdic_pad then 1 else if s3 = ebcdic_pad then 2 else 3)"
  "\<not> quad_ok s0 s1 s2 s3 \<Longrightarrow> dec_group s0 s1 s2 s3 = Throw invalid_character"
  by (auto simp: quad_ok_def b64_digit_def dec_group_def Let_def or_and_zero)

lemma quads_ok_dvd: "quads_ok src \<Longrightarrow> 4 dvd length src"
  by (induction src rule: quads_ok.induct) (simp_all add: four_dvd)

lemma dec_loop_ok:
  "quads_ok src \<Longrightarrow> \<exists>out'. dec_loop src out = Ok out' \<and> length out' \<le> length out + max_decoded_size (length src)"
proof (induction src arbitrary: out rule: quads_ok.induct)
  case (2 s0 s1 s2 s3 src)
  then obtain bs where bs: "dec_group s0 s1 s2 s3 = Ok bs" "length bs \<le> 3"
    using dec_group_cases(1) [of s0 s1 s2 s3] by (auto split: if_splits)
  from 2 obtain out' where "dec_loop src (out @ bs) = Ok out'"
    "length out' \<le> length (out @ bs) + max_decoded_size (length src)" by fastforce
  moreover have "(4 + length src) div 4 = Suc (length src div 4)"
    by simp
  ultimately show ?case
    using bs by (simp add: max_decoded_size_def)
qed (simp_all add: max_decoded_size_def)

lemma dec_loop_bad:
  "4 dvd length src \<Longrightarrow> \<not> quads_ok src \<Longrightarrow> dec_loop src out = Throw invalid_character"
proof (induction src arbitrary: out rule: quads_ok.induct)
  case (2 s0 s1 s2 s3 src)
  show ?case
  proof (cases "quad_ok s0 s1 s2 s3")
    case True
    then obtain bs where "dec_group s0 s1 s2 s3 = Ok bs"
      using dec_group_cases(1) by blast
    with True 2 show ?thesis by (simp add: four_dvd)
  qed (simp add: dec_group_cases(2))
qed (simp_all add: small_dvd)

lemma decode_result:
  "decode src = (if \<not> 4 dvd length src then Throw invalid_length
     else if quads_ok src then decode src else Throw invalid_character)"
  by (auto simp: decode_def dec_loop_bad dvd_eq_mod_eq_0)

lemma decode_quads_ok:
  "quads_ok src \<Longrightarrow> \<exists>out. decode src = Ok out \<and> length out \<le> max_decoded_size (length src)"
  using dec_loop_ok [of src "[]"] quads_ok_dvd [of src] by (auto simp: decode_multiple)

section \<open>Chunked conversion\<close>

text \<open>
  The contract of a streaming codec: a conversion of whole \<open>n\<close>-byte groups that can fail, and
  a step that takes the bytes left over from the previous chunk, converts what is complete, and
  leaves the rest.  The client result: a sequence of steps yields the conversion of the whole
  input up to its last complete group, and leaves exactly the incomplete one.
\<close>

lemma take_drop_append: "take m xs @ drop m xs @ ys = xs @ ys"
  by (simp del: append_assoc add: append_assoc [symmetric])

lemma take_append_exact: "length xs = m \<Longrightarrow> take (m + k) (xs @ ys) = xs @ take k ys"
  and drop_append_exact: "length xs = m \<Longrightarrow> drop (m + k) (xs @ ys) = drop k ys"
  by auto

locale chunk_codec =
  fixes n :: nat
    and conv :: "byte list \<Rightarrow> byte list result"
    and step :: "byte list \<Rightarrow> byte list \<Rightarrow> (byte list \<times> byte list) result"
  assumes n_pos: "0 < n"
    and conv_Nil: "conv [] = Ok []"
    and conv_append: "n dvd length xs \<Longrightarrow> n dvd length ys \<Longrightarrow>
          conv (xs @ ys) = bind_res (conv xs) (\<lambda>out. map_sum id ((@) out) (conv ys))"
    and step_law: "length lo < n \<Longrightarrow> step lo inp =
          (let c = lo @ inp; m = length c - length c mod n
           in map_sum id (\<lambda>out. (out, drop m c)) (conv (take m c)))"
begin

fun run :: "byte list \<Rightarrow> byte list list \<Rightarrow> (byte list \<times> byte list) result" where
  "run lo [] = Ok ([], lo)"
| "run lo (c # cs) = bind_res (step lo c) (\<lambda>(out, lo').
     map_sum id (\<lambda>(out', lo''). (out @ out', lo'')) (run lo' cs))"

lemma whole_groups:
  fixes c d :: "byte list"
  defines "m \<equiv> length c - length c mod n"
  shows "length (c @ d) - length (c @ d) mod n = m + (length (drop m c @ d) - length (drop m c @ d) mod n)"
proof -
  have "(length c + length d) mod n = (length c mod n + length d) mod n"
    by (simp add: mod_add_left_eq)
  moreover have "length (drop m c) = length c mod n"
    unfolding m_def by (rule length_drop_mod)
  moreover have "(length c mod n + length d) mod n \<le> length c mod n + length d"
    by (rule mod_less_eq_dividend)
  ultimately show ?thesis
    unfolding m_def length_append by simp
qed

lemma run_total:
  "length lo < n \<Longrightarrow> run lo cs =
     (let c = lo @ concat cs; m = length c - length c mod n
      in map_sum id (\<lambda>out. (out, drop m c)) (conv (take m c)))"
proof (induction cs arbitrary: lo)
  case Nil
  then show ?case by (simp add: conv_Nil)
next
  case (Cons c cs)
  let ?a = "lo @ c"
  define m where "m = length ?a - length ?a mod n"
  let ?r = "drop m ?a @ concat cs"
  define k where "k = length ?r - length ?r mod n"
  have lo': "length (drop m ?a) < n"
    unfolding m_def length_drop_mod using n_pos by simp
  have split: "lo @ concat (c # cs) = take m ?a @ ?r"
    by (simp only: take_drop_append) simp
  have total: "length (lo @ concat (c # cs)) - length (lo @ concat (c # cs)) mod n = m + k"
    unfolding k_def m_def concat.simps append_assoc [symmetric, of lo c] by (rule whole_groups)
  have len: "length (take m ?a) = m"
    unfolding m_def length_take by (rule min_absorb2) (rule diff_le_self)
  have pieces: "take (m + k) (lo @ concat (c # cs)) = take m ?a @ take k ?r"
    "drop (m + k) (lo @ concat (c # cs)) = drop k ?r"
    unfolding split by (simp_all add: take_append_exact [OF len] drop_append_exact [OF len] del: take_append drop_append)
  have "n dvd length (take m ?a)" "n dvd length (take k ?r)"
    unfolding m_def k_def by (rule mod_split_length [OF n_pos])+
  then have conv: "conv (take m ?a @ take k ?r) =
      bind_res (conv (take m ?a)) (\<lambda>out. map_sum id ((@) out) (conv (take k ?r)))"
    by (rule conv_append)
  have step: "step lo c = map_sum id (\<lambda>out. (out, drop m ?a)) (conv (take m ?a))"
    using step_law [OF Cons.prems, of c] by (simp add: m_def Let_def)
  have run: "run (drop m ?a) cs = map_sum id (\<lambda>out. (out, drop k ?r)) (conv (take k ?r))"
    using Cons.IH [OF lo'] unfolding k_def Let_def .
  show ?case
    unfolding run.simps Let_def total pieces conv step
    by (cases "conv (take m ?a)"; cases "conv (take k ?r)") (simp_all only: run map_sum.simps bind_res_simps prod.case id_apply)
qed

corollary run_from_empty:
  assumes "n dvd length (concat cs)"
  shows "run [] cs = map_sum id (\<lambda>out. (out, [])) (conv (concat cs))"
  using run_total [of "[]" cs] n_pos assms by (simp add: Let_def dvd_eq_mod_eq_0)

end

subsection \<open>The two instances\<close>

text \<open>A step with a present \<open>left_over\<close> vector, as the streaming loops call it.\<close>

definition enc_step :: "byte list \<Rightarrow> byte list \<Rightarrow> (byte list \<times> byte list) result" where
  "enc_step lo inp = (case encode_chunk (Some lo) inp of (out, lo') \<Rightarrow> Ok (out, the lo'))"

definition dec_step :: "byte list \<Rightarrow> byte list \<Rightarrow> (byte list \<times> byte list) result" where
  "dec_step lo inp = map_sum id (\<lambda>(out, lo'). (out, the lo')) (decode_chunk (Some lo) inp)"

lemma store_leftover_Some:
  "length lo = 0 \<Longrightarrow> 0 < n \<Longrightarrow> store_leftover c (Some lo) n =
     (length c - length c mod n, Some (drop (length c - length c mod n) c))"
  by (auto simp: store_leftover_def Let_def)

lemma chunk_input_Some:
  "chunk_input (Some lo) inp = (if lo @ inp = [] then None else Some (lo @ inp, Some []))"
  by (cases lo) (auto simp: chunk_input_def load_leftover_def)

lemma enc_step_eq:
  fixes lo inp :: "byte list"
  defines "c \<equiv> lo @ inp"
  defines "m \<equiv> length c - length c mod 3"
  shows "enc_step lo inp = Ok (encode (take m c), drop m c)"
proof (cases "c = []")
  case True
  then show ?thesis
    by (simp add: enc_step_def encode_chunk_def chunk_input_Some c_def encode_def)
next
  case False
  then show ?thesis
    unfolding m_def by (simp add: enc_step_def encode_chunk_def chunk_input_Some store_leftover_Some c_def [symmetric]
        del: append_is_Nil_conv)
qed

lemma dec_step_eq:
  fixes lo inp :: "byte list"
  defines "c \<equiv> lo @ inp"
  defines "m \<equiv> length c - length c mod 4"
  shows "dec_step lo inp = map_sum id (\<lambda>out. (out, drop m c)) (decode (take m c))"
proof (cases "c = []")
  case True
  then show ?thesis
    by (simp add: dec_step_def decode_chunk_def chunk_input_Some c_def decode_def)
next
  case False
  then show ?thesis
    unfolding m_def by (cases "decode (take (length c - length c mod 4) c)")
      (simp_all add: dec_step_def decode_chunk_def chunk_input_Some store_leftover_Some c_def [symmetric]
        del: append_is_Nil_conv)
qed

interpretation enc: chunk_codec 3 "\<lambda>xs. Ok (encode xs)" enc_step
proof
  fix xs ys :: "byte list"
  assume "3 dvd length xs"
  then show "Ok (encode (xs @ ys)) = bind_res (Ok (encode xs)) (\<lambda>out. map_sum id ((@) out) (Ok (encode ys)))"
    by (simp add: encode_eq_ref encode_ref_append)
next
  fix lo inp :: "byte list"
  show "enc_step lo inp = (let c = lo @ inp; m = length c - length c mod 3
      in map_sum id (\<lambda>out. (out, drop m c)) (Ok (encode (take m c))))"
    by (simp add: enc_step_eq Let_def)
qed (simp_all add: encode_def)

interpretation dec: chunk_codec 4 decode dec_step
proof
  fix xs ys :: "byte list"
  assume "4 dvd length xs" "4 dvd length ys"
  then show "decode (xs @ ys) = bind_res (decode xs) (\<lambda>out. map_sum id ((@) out) (decode ys))"
    by (cases "dec_loop xs []") (simp_all add: decode_multiple dec_loop_append dec_loop_Nil_out [of ys, symmetric])
next
  fix lo inp :: "byte list"
  show "dec_step lo inp = (let c = lo @ inp; m = length c - length c mod 4
      in map_sum id (\<lambda>out. (out, drop m c)) (decode (take m c)))"
    by (simp add: dec_step_eq Let_def)
qed (simp_all add: decode_def)

section \<open>Properties\<close>

text \<open>C34: Base64 round trip: decoding what \<open>encode\<close> produced returns exactly the input bytes, and
  the encoder's output has exactly the length \<open>encoded_size\<close> that it allocated.\<close>

theorem base64_roundtrip:
  "decode (encode xs) = Ok xs \<and> length (encode xs) = encoded_size (length xs)"
  by (simp add: decode_encode) (simp add: encode_eq_ref length_encode_ref)

text \<open>The encoder with its unrolled loop over four blocks, its loop over the remaining blocks
  and its tail computes the plain group-by-group encoding.\<close>

theorem encode_is_reference: "encode xs = encode_ref xs"
  by (rule encode_eq_ref)

text \<open>Exactly which inputs the decoder takes: a length that is no multiple of four, and then
  any byte outside the alphabet, raise the two exceptions of the code; every other input decodes, to
  at most \<open>max_decoded_size\<close> bytes.  An \<open>=\<close> in the third or fourth place of any group is
  accepted, also with a digit behind it.\<close>

theorem decode_accepts:
  "if \<not> 4 dvd length src then decode src = Throw invalid_length
   else if quads_ok src then case decode src of Inl e \<Rightarrow> False | Inr out \<Rightarrow> length out \<le> max_decoded_size (length src)
   else decode src = Throw invalid_character"
proof -
  consider "\<not> 4 dvd length src" | "4 dvd length src" "quads_ok src" | "4 dvd length src" "\<not> quads_ok src"
    by blast
  then show ?thesis
  proof cases
    case 2
    then show ?thesis using decode_quads_ok [of src] by auto
  qed (use decode_result [of src] in auto)
qed

end
