(* ===== verification/Worker.thy ===== *)
theory Worker
  imports Prelude
begin

text \<open>
  The \<open>Worker\<close> class of \<open>server/worker.cpp\<close>: one object per worker with its request
  queue, its atomics and the record of the request in flight; the sections that its thread
  \<open>worker_loop\<close> executes one after the other; and the operations other threads call on it.

  A section that holds a mutex, and the run of atomic stores between two of them, is one
  definition.  Times are the \<open>now\<close> argument, in milliseconds of the steady clock.  What
  \<open>RpcServer::process_request\<close> does to the loop is either to return or to throw.
\<close>

section \<open>Data\<close>

datatype worker_state = Starting | Idle | Running | Stopping | Faulted | Exited

record request_metadata =
  data :: string
  retry_count :: nat
  request_id :: string

definition new_request :: "string \<Rightarrow> nat \<Rightarrow> request_metadata" where
  "new_request req_data retries = \<lparr>data = req_data, retry_count = retries, request_id = []\<rparr>"

text \<open>Where the worker's thread is: not created, before the wait, waiting, after taking a
  request, processing, past a normal return, past the \<open>break\<close>, in the epilogue, ended.\<close>

datatype loop_pc =
    NoThread
  | LoopTop
  | LoopWait
  | LoopTrack request_metadata
  | LoopProcess request_metadata
  | LoopClear
  | LoopBreak
  | LoopExit
  | Ended

record worker =
  wid :: int
  request_queue :: "request_metadata list"
  stop_requested :: bool
  wstate :: worker_state
  last_heartbeat_ms :: int
  current_request_data :: string
  joinable :: bool
  pc :: loop_pc

definition worker_state_to_string :: "worker_state \<Rightarrow> string" where
  "worker_state_to_string s = (case s of
     Starting \<Rightarrow> ''Starting'' | Idle \<Rightarrow> ''Idle'' | Running \<Rightarrow> ''Running''
   | Stopping \<Rightarrow> ''Stopping'' | Faulted \<Rightarrow> ''Faulted'' | Exited \<Rightarrow> ''Exited'')"

definition new_worker :: "int \<Rightarrow> int \<Rightarrow> worker" where
  "new_worker now worker_id =
     \<lparr>wid = worker_id, request_queue = [], stop_requested = False, wstate = Starting,
      last_heartbeat_ms = now, current_request_data = [], joinable = False, pc = NoThread\<rparr>"

section \<open>Queries\<close>

definition is_ready :: "worker \<Rightarrow> bool" where
  "is_ready w \<longleftrightarrow> wstate w = Idle \<or> wstate w = Running"

definition is_running :: "worker \<Rightarrow> bool" where
  "is_running w \<longleftrightarrow> wstate w = Running"

definition has_fault :: "worker \<Rightarrow> bool" where
  "has_fault w \<longleftrightarrow> wstate w = Faulted"

definition is_stop_requested :: "worker \<Rightarrow> bool" where
  "is_stop_requested w = (if wstate w = Stopping \<or> wstate w = Exited \<or> wstate w = Faulted
     then True else stop_requested w)"

section \<open>The owner's operations\<close>

definition update_heartbeat :: "int \<Rightarrow> worker \<Rightarrow> worker" where
  "update_heartbeat now w = w\<lparr>last_heartbeat_ms := now\<rparr>"

text \<open>\<open>start\<close> up to the creation of the thread, and the stores behind it, which race with
  the thread.\<close>

definition start_thread :: "int \<Rightarrow> worker \<Rightarrow> worker" where
  "start_thread now w =
     (update_heartbeat now (w\<lparr>stop_requested := False, wstate := Starting\<rparr>))\<lparr>joinable := True, pc := LoopTop\<rparr>"

definition start_finish :: "int \<Rightarrow> worker \<Rightarrow> worker" where
  "start_finish now w = update_heartbeat now (w\<lparr>wstate := Idle\<rparr>)"

definition add_request :: "request_metadata \<Rightarrow> worker \<Rightarrow> worker" where
  "add_request request w = w\<lparr>request_queue := request_queue w @ [request]\<rparr>"

fun drain_loop :: "request_metadata list \<Rightarrow> request_metadata list \<Rightarrow> request_metadata list \<times> request_metadata list" where
  "drain_loop [] drained = ([], drained)"
| "drain_loop (r # rs) drained = drain_loop rs (drained @ [r])"

definition drain_pending_requests :: "worker \<Rightarrow> request_metadata list \<times> worker" where
  "drain_pending_requests w = (case drain_loop (request_queue w) [] of
     (rest, drained) \<Rightarrow> (drained, w\<lparr>request_queue := rest\<rparr>))"

definition get_current_request :: "worker \<Rightarrow> string" where
  "get_current_request w = current_request_data w"

definition force_detach :: "int \<Rightarrow> worker \<Rightarrow> worker" where
  "force_detach now w = update_heartbeat now
     (w\<lparr>stop_requested := True, wstate := Faulted, joinable := False\<rparr>)"

text \<open>\<open>stop\<close> in three sections: the request, the wait on the exit condition (with its
  outcome after at most five seconds), and the final state.  The first says whether the
  call goes on to wait.\<close>

definition stop_request :: "worker \<Rightarrow> worker" where
  "stop_request w =
     (if wstate w = Exited then w
      else if wstate w \<noteq> Faulted then w\<lparr>stop_requested := True, wstate := Stopping\<rparr>
      else w\<lparr>stop_requested := True\<rparr>)"

definition stop_waits :: "worker \<Rightarrow> bool" where
  "stop_waits w \<longleftrightarrow> wstate w \<noteq> Exited \<and> joinable w"

definition exit_signaled :: "worker \<Rightarrow> bool" where
  "exit_signaled w \<longleftrightarrow> wstate w = Exited \<or> wstate w = Faulted"

definition stop_timed_out :: "worker \<Rightarrow> worker" where
  "stop_timed_out w = w\<lparr>joinable := False, wstate := Faulted\<rparr>"

definition stop_complete :: "worker \<Rightarrow> worker" where
  "stop_complete w = (let w = w\<lparr>joinable := False\<rparr> in
     if wstate w \<noteq> Faulted then w\<lparr>wstate := Exited\<rparr> else w)"

section \<open>The thread\<close>

text \<open>Top of the loop body, up to the wait, which gives the queue's mutex back.\<close>

definition loop_idle :: "int \<Rightarrow> worker \<Rightarrow> worker" where
  "loop_idle now w = (update_heartbeat now (w\<lparr>wstate := Idle\<rparr>))\<lparr>pc := LoopWait\<rparr>"

definition wake_condition :: "worker \<Rightarrow> bool" where
  "wake_condition w \<longleftrightarrow> stop_requested w \<or> request_queue w \<noteq> []"

definition loop_wake :: "int \<Rightarrow> worker \<Rightarrow> worker" where
  "loop_wake now w =
     (if stop_requested w then (update_heartbeat now (w\<lparr>wstate := Stopping\<rparr>))\<lparr>pc := LoopBreak\<rparr>
      else (case request_queue w of
        [] \<Rightarrow> (update_heartbeat now w)\<lparr>pc := LoopTop\<rparr>
      | request # rest \<Rightarrow>
          (update_heartbeat now (w\<lparr>request_queue := rest, wstate := Running\<rparr>))\<lparr>pc := LoopTrack request\<rparr>))"

definition loop_track :: "request_metadata \<Rightarrow> worker \<Rightarrow> worker" where
  "loop_track request w = w\<lparr>current_request_data := data request, pc := LoopProcess request\<rparr>"

text \<open>\<open>process_request\<close> returns, or throws into the handler around the loop.\<close>

definition loop_returned :: "int \<Rightarrow> worker \<Rightarrow> worker" where
  "loop_returned now w = (update_heartbeat now w)\<lparr>pc := LoopClear\<rparr>"

definition loop_thrown :: "int \<Rightarrow> worker \<Rightarrow> worker" where
  "loop_thrown now w =
     (update_heartbeat now (w\<lparr>wstate := Faulted\<rparr>))\<lparr>stop_requested := True, pc := LoopExit\<rparr>"

definition loop_clear :: "worker \<Rightarrow> worker" where
  "loop_clear w = w\<lparr>current_request_data := [], pc := LoopTop\<rparr>"

definition loop_break :: "int \<Rightarrow> worker \<Rightarrow> worker" where
  "loop_break now w = (update_heartbeat now (w\<lparr>wstate := Exited\<rparr>))\<lparr>pc := LoopExit\<rparr>"

definition loop_exit :: "worker \<Rightarrow> worker" where
  "loop_exit w = w\<lparr>pc := Ended\<rparr>"

text \<open>One step of the thread at time \<open>now\<close>: a step relation, since the processing of a
  request can end in two ways and the wait may still block.\<close>

inductive loop_step :: "int \<Rightarrow> worker \<Rightarrow> worker \<Rightarrow> bool" where
  idle: "pc w = LoopTop \<Longrightarrow> loop_step now w (loop_idle now w)"
| wake: "pc w = LoopWait \<Longrightarrow> wake_condition w \<Longrightarrow> loop_step now w (loop_wake now w)"
| track: "pc w = LoopTrack r \<Longrightarrow> loop_step now w (loop_track r w)"
| returned: "pc w = LoopProcess r \<Longrightarrow> loop_step now w (loop_returned now w)"
| thrown: "pc w = LoopProcess r \<Longrightarrow> loop_step now w (loop_thrown now w)"
| clear: "pc w = LoopClear \<Longrightarrow> loop_step now w (loop_clear w)"
| break: "pc w = LoopBreak \<Longrightarrow> loop_step now w (loop_break now w)"
| exit: "pc w = LoopExit \<Longrightarrow> loop_step now w (loop_exit w)"

inductive_cases loop_stepE: "loop_step now w w'"

section \<open>The queue over a run of the worker\<close>

text \<open>A run: the requests other threads add, and those the thread takes from the queue.\<close>

inductive worker_run :: "worker \<Rightarrow> request_metadata list \<Rightarrow> request_metadata list \<Rightarrow> worker \<Rightarrow> bool" where
  start: "worker_run w [] [] w"
| add: "worker_run w added taken w' \<Longrightarrow> worker_run w (added @ [r]) taken (add_request r w')"
| take: "worker_run w added taken w' \<Longrightarrow> loop_step now w' w'' \<Longrightarrow> pc w'' = LoopTrack r \<Longrightarrow>
    worker_run w added (taken @ [r]) w''"
| run: "worker_run w added taken w' \<Longrightarrow> loop_step now w' w'' \<Longrightarrow> (\<forall>r. pc w'' \<noteq> LoopTrack r) \<Longrightarrow>
    worker_run w added taken w''"

lemma loop_step_queue:
  "loop_step now w w' \<Longrightarrow> request_queue w = (case pc w' of LoopTrack r \<Rightarrow> r # request_queue w' | _ \<Rightarrow> request_queue w')"
  by (erule loop_stepE) (auto simp: loop_idle_def loop_wake_def loop_track_def loop_returned_def loop_thrown_def
      loop_clear_def loop_break_def loop_exit_def update_heartbeat_def split: list.splits)

lemma worker_run_queue: "worker_run w added taken w' \<Longrightarrow> taken @ request_queue w' = request_queue w @ added"
proof (induction rule: worker_run.induct)
  case (take w added taken w' now w'' r)
  with loop_step_queue [of now w' w''] show ?case by simp
next
  case (run w added taken w' now w'')
  with loop_step_queue [of now w' w''] show ?case by (simp split: loop_pc.splits)
qed (auto simp: add_request_def)

lemma worker_run_trans:
  "worker_run w' b b' w'' \<Longrightarrow> worker_run w a a' w' \<Longrightarrow> worker_run w (a @ b) (a' @ b') w''"
proof (induction rule: worker_run.induct)
  case (add w added taken w' r)
  then show ?case using worker_run.add [of _ "a @ added"] by simp
next
  case (take w added taken w' now w'' r)
  then show ?case using worker_run.take [of _ _ "a' @ taken"] by simp
next
  case (run w added taken w' now w'')
  then show ?case using worker_run.run by blast
qed simp

text \<open>One request from the wait to the wait, when processing returns.\<close>

definition serve_one :: "int \<Rightarrow> request_metadata \<Rightarrow> worker \<Rightarrow> worker" where
  "serve_one now r w = loop_idle now (loop_clear (loop_returned now (loop_track r (loop_wake now w))))"

lemma serve_one_run:
  assumes "pc w = LoopWait" "\<not> stop_requested w" "request_queue w = r # rs"
  shows "worker_run w [] [r] (serve_one now r w) \<and> pc (serve_one now r w) = LoopWait \<and>
    \<not> stop_requested (serve_one now r w) \<and> request_queue (serve_one now r w) = rs \<and>
    current_request_data (serve_one now r w) = [] \<and> wstate (serve_one now r w) = Idle"
proof -
  let ?w1 = "loop_wake now w" let ?w2 = "loop_track r ?w1" let ?w3 = "loop_returned now ?w2" let ?w4 = "loop_clear ?w3"
  have pcs: "pc ?w1 = LoopTrack r" "pc ?w2 = LoopProcess r" "pc ?w3 = LoopClear" "pc ?w4 = LoopTop"
    "pc (loop_idle now ?w4) = LoopWait"
    using assms by (simp_all add: loop_wake_def loop_track_def loop_returned_def loop_clear_def loop_idle_def)
  have "worker_run w [] ([] @ [r]) ?w1"
    by (rule worker_run.take [OF worker_run.start loop_step.wake]) (use assms pcs in \<open>simp_all add: wake_condition_def\<close>)
  then have "worker_run w [] [r] ?w2"
    by (intro worker_run.run [OF _ loop_step.track]) (simp_all add: pcs)
  then have "worker_run w [] [r] ?w3"
    by (rule worker_run.run [OF _ loop_step.returned]) (simp_all add: pcs)
  then have "worker_run w [] [r] ?w4"
    by (rule worker_run.run [OF _ loop_step.clear]) (simp_all add: pcs)
  then have "worker_run w [] [r] (loop_idle now ?w4)"
    by (rule worker_run.run [OF _ loop_step.idle]) (simp_all add: pcs)
  then show ?thesis
    using assms by (simp add: serve_one_def pcs) (simp add: loop_wake_def loop_track_def loop_returned_def loop_clear_def
        loop_idle_def update_heartbeat_def)
qed

lemma serve_all_run:
  "pc w = LoopWait \<Longrightarrow> \<not> stop_requested w \<Longrightarrow> \<exists>w'. worker_run w [] (request_queue w) w' \<and>
     pc w' = LoopWait \<and> request_queue w' = []"
proof (induction "request_queue w" arbitrary: w)
  case Nil
  then show ?case using worker_run.start [of w] by auto
next
  case (Cons r rs)
  let ?w = "serve_one 0 r w"
  from serve_one_run [OF Cons.prems Cons.hyps(2) [symmetric], of 0]
  have one: "worker_run w [] [r] ?w" "pc ?w = LoopWait" "\<not> stop_requested ?w" "rs = request_queue ?w" by auto
  from Cons.hyps(1) [OF one(4,2,3)] obtain w' where
    "worker_run ?w [] rs w'" "pc w' = LoopWait" "request_queue w' = []"
    by (auto simp: one(4) [symmetric])
  then show ?case
    using worker_run_trans [OF _ one(1), of "[]" rs w'] Cons.hyps(2) by auto
qed

section \<open>Properties\<close>

text \<open>A worker takes requests in the order in which they were added and loses none: at every
  point of every run, what it has taken followed by what is still queued is the initial queue followed
  by what was added.  And a waiting worker that is not asked to stop can take its whole queue.\<close>

theorem worker_queue_fifo:
  "(worker_run w added taken w' \<longrightarrow> taken @ request_queue w' = request_queue w @ added) \<and>
   (pc w = LoopWait \<and> \<not> stop_requested w \<longrightarrow>
      (\<exists>w''. worker_run w [] (request_queue w) w'' \<and> pc w'' = LoopWait \<and> request_queue w'' = []))"
  using worker_run_queue serve_all_run by blast

definition waiting_worker :: worker where
  "waiting_worker = new_worker 0 0\<lparr>pc := LoopWait, wstate := Idle, request_queue := [new_request ''a'' 0, new_request ''b'' 1]\<rparr>"

lemma worker_queue_fifo_witness:
  "\<exists>w''. worker_run waiting_worker [] [new_request ''a'' 0, new_request ''b'' 1] w'' \<and> request_queue w'' = []"
  using worker_queue_fifo [of waiting_worker "[]" "[]" waiting_worker]
  by (auto simp: waiting_worker_def new_worker_def)

end
