(* ===== verification/WorkerPool.thy ===== *)
theory WorkerPool
  imports Worker
begin

text \<open>
  The \<open>WorkerPool\<close> class of \<open>server/worker.cpp\<close>.  Worker objects live in \<open>heap\<close>,
  a slot of \<open>workers\<close> holds the index of one or is null after a move.  Every section that
  holds \<open>ready_mutex\<close> is one definition on the pool; the step relation \<open>pool_step\<close>
  interleaves those of the supervisor, the initialising threads, the client that distributes
  requests, the worker threads and the shutdown.
\<close>

section \<open>State\<close>

record config =
  request_timeout :: int
  max_replace_attempts :: nat
  base_replace_backoff :: nat
  max_replace_backoff :: nat

definition kMaxRequestRetries :: nat where
  "kMaxRequestRetries = 2"

record pool =
  heap :: "worker list"
  workers :: "nat option list"
  ready_list :: "bool list"
  ready_count :: int
  replacement_attempts :: "nat list"
  next_replacement_allowed :: "int option list"
  ready_queue :: "nat list"
  is_shutting_down :: bool
  supervisor_running :: bool

text \<open>\<open>time_point::min()\<close> is \<open>None\<close> in \<open>next_replacement_allowed\<close>.\<close>

definition resize :: "nat \<Rightarrow> 'a \<Rightarrow> 'a list \<Rightarrow> 'a list" where
  "resize n d xs = take n xs @ replicate (n - length xs) d"

definition worker_at :: "pool \<Rightarrow> nat \<Rightarrow> worker option" where
  "worker_at p i = (if i < length (workers p) then map_option ((!) (heap p)) (workers p ! i) else None)"

definition new_config :: "int \<Rightarrow> nat \<Rightarrow> nat \<Rightarrow> nat \<Rightarrow> config" where
  "new_config timeout attempts base_backoff max_backoff =
     \<lparr>request_timeout = (if timeout \<le> 0 then 60000 else timeout),
      max_replace_attempts = attempts, base_replace_backoff = base_backoff, max_replace_backoff = max_backoff\<rparr>"

definition new_pool :: "int \<Rightarrow> nat \<Rightarrow> pool" where
  "new_pool now num_workers =
     \<lparr>heap = map (\<lambda>i. new_worker now (int i)) [0..<num_workers], workers = map Some [0..<num_workers],
      ready_list = replicate num_workers False, ready_count = 0,
      replacement_attempts = replicate num_workers 0,
      next_replacement_allowed = replicate num_workers None,
      ready_queue = [], is_shutting_down = False, supervisor_running = num_workers > 0\<rparr>"

section \<open>Sections under \<open>ready_mutex\<close>\<close>

text \<open>The loop of \<open>get_ready_worker\<close> over the queue: the entry that is ready and the queue
  it leaves.\<close>

fun pop_ready :: "(nat \<Rightarrow> bool) \<Rightarrow> nat list \<Rightarrow> nat option \<times> nat list" where
  "pop_ready ready [] = (None, [])"
| "pop_ready ready (i # q) = (if ready i then (Some i, q @ [i]) else pop_ready ready q)"

definition slot_ready :: "pool \<Rightarrow> nat \<Rightarrow> bool" where
  "slot_ready p i = (case worker_at p i of None \<Rightarrow> False | Some w \<Rightarrow> is_ready w)"

definition ready_wakes :: "pool \<Rightarrow> bool" where
  "ready_wakes p \<longleftrightarrow> ready_count p > 0 \<or> is_shutting_down p"

text \<open>After the wait.  The result is the worker object that the raw pointer names.\<close>

definition get_ready_worker :: "pool \<Rightarrow> nat option \<times> pool" where
  "get_ready_worker p =
     (if is_shutting_down p then (None, p)
      else (case pop_ready (slot_ready p) (ready_queue p) of
        (None, q) \<Rightarrow> (None, p\<lparr>ready_queue := q\<rparr>)
      | (Some i, q) \<Rightarrow> (workers p ! i, p\<lparr>ready_queue := q\<rparr>)))"

definition resize_attempts :: "nat \<Rightarrow> pool \<Rightarrow> pool" where
  "resize_attempts n p = p\<lparr>replacement_attempts := resize n 0 (replacement_attempts p),
     next_replacement_allowed := resize n None (next_replacement_allowed p)\<rparr>"

definition grow_lists :: "nat \<Rightarrow> nat \<Rightarrow> pool \<Rightarrow> pool" where
  "grow_lists i n p =
     (let p = (if i \<ge> length (ready_list p) then p\<lparr>ready_list := resize n False (ready_list p)\<rparr> else p)
      in if i \<ge> length (replacement_attempts p) then resize_attempts n p else p)"

definition set_worker_ready :: "int \<Rightarrow> pool \<Rightarrow> pool" where
  "set_worker_ready worker_id p =
     (if worker_id < 0 then p
      else if worker_id \<ge> int (length (workers p)) then p
      else (let i = nat worker_id in
        case worker_at p i of
          None \<Rightarrow> p
        | Some w \<Rightarrow>
            (let p = grow_lists i (length (workers p)) p in
             if \<not> ready_list p ! i \<and> is_ready w then
               p\<lparr>ready_list := (ready_list p)[i := True],
                 ready_count := ready_count p + 1,
                 replacement_attempts := (replacement_attempts p)[i := 0],
                 next_replacement_allowed := (next_replacement_allowed p)[i := None],
                 ready_queue := ready_queue p @ [i]\<rparr>
             else p)))"

definition get_available_workers_count :: "pool \<Rightarrow> int" where
  "get_available_workers_count p = ready_count p"

definition mark_worker_not_ready :: "nat \<Rightarrow> pool \<Rightarrow> bool \<times> pool" where
  "mark_worker_not_ready i p =
     (if i \<ge> length (workers p) then (False, p)
      else (let p = grow_lists i (length (workers p)) p in
        if ready_list p ! i then
          (let previous_ready = ready_count p;
               p = p\<lparr>ready_list := (ready_list p)[i := False], ready_count := previous_ready - 1\<rparr>
           in if previous_ready \<le> 0 then (False, p\<lparr>ready_count := 0\<rparr>) else (True, p))
        else (True, p)))"

record replacement_context =
  old_worker :: "nat option"
  max_attempts_reached :: bool
  attempt_number :: nat
  applied_backoff :: nat

definition empty_context :: replacement_context where
  "empty_context = \<lparr>old_worker = None, max_attempts_reached = False, attempt_number = 0, applied_backoff = 0\<rparr>"

text \<open>The product is one of unsigned 64-bit millisecond counts.\<close>

definition backoff :: "config \<Rightarrow> nat \<Rightarrow> nat" where
  "backoff cfg attempt =
     (let computed = unat (word_of_nat (base_replace_backoff cfg) * (push_bit (attempt - 1) 1 :: 64 word))
      in if computed > max_replace_backoff cfg then max_replace_backoff cfg else computed)"

definition prepare_worker_replacement :: "config \<Rightarrow> int \<Rightarrow> nat \<Rightarrow> pool \<Rightarrow> replacement_context \<times> pool" where
  "prepare_worker_replacement cfg now i p =
     (if i \<ge> length (workers p) then (empty_context, p)
      else (let attempts = replacement_attempts p ! i;
                (ctx, p) =
                  (if attempts \<ge> max_replace_attempts cfg
                   then (empty_context\<lparr>max_attempts_reached := True\<rparr>, p)
                   else (let n = attempts + 1; b = backoff cfg n
                         in (empty_context\<lparr>attempt_number := n, applied_backoff := b\<rparr>,
                             p\<lparr>replacement_attempts := (replacement_attempts p)[i := n],
                               next_replacement_allowed := (next_replacement_allowed p)[i := Some (now + int b)]\<rparr>)))
            in (ctx\<lparr>old_worker := workers p ! i\<rparr>, p\<lparr>workers := (workers p)[i := None]\<rparr>)))"

text \<open>The first half of \<open>monitor_worker_at\<close>: the worker to look at, if the slot may be
  replaced now.\<close>

definition monitored :: "int \<Rightarrow> nat \<Rightarrow> pool \<Rightarrow> nat option" where
  "monitored now i p =
     (if i < length (next_replacement_allowed p)
         \<and> (case next_replacement_allowed p ! i of None \<Rightarrow> False | Some t \<Rightarrow> now < t)
      then None
      else if i < length (workers p) then workers p ! i else None)"

text \<open>Its second half: whether to replace the worker, and whether by force.\<close>

definition replacement_reason :: "config \<Rightarrow> int \<Rightarrow> worker \<Rightarrow> (string \<times> bool) option" where
  "replacement_reason cfg now w =
     (if wstate w = Faulted then Some (''fault'', False)
      else if wstate w = Exited \<and> \<not> is_stop_requested w then Some (''unexpected exit'', False)
      else if wstate w = Running \<and> request_timeout cfg > 0 then
        (if now \<le> last_heartbeat_ms w then None
         else if now - last_heartbeat_ms w > request_timeout cfg then Some (''heartbeat timeout'', True)
         else None)
      else None)"

definition spawn_replacement_worker :: "int \<Rightarrow> nat \<Rightarrow> pool \<Rightarrow> pool" where
  "spawn_replacement_worker now i p =
     (let new = length (heap p);
          p = p\<lparr>heap := heap p @ [new_worker now (int i)]\<rparr>;
          p = (if i \<ge> length (workers p) then p\<lparr>workers := resize (i + 1) None (workers p)\<rparr> else p);
          p = grow_lists i (i + 1) p
      in p\<lparr>workers := (workers p)[i := Some new], ready_list := (ready_list p)[i := False]\<rparr>)"

section \<open>Recovery\<close>

text \<open>\<open>recover_requests_from_worker\<close> between draining the queue and stopping the old
  worker: the requests to route again, and the request for which a timeout reply is sent.\<close>

definition recover_current :: "bool \<Rightarrow> request_metadata list \<Rightarrow> worker \<Rightarrow> request_metadata list \<times> string list" where
  "recover_current force pending w =
     (let current_req = get_current_request w
      in if current_req \<noteq> [] then
           (if \<not> force then (pending @ [new_request current_req 0], [])
            else (pending, [current_req]))
         else (pending, []))"

definition recover_detach :: "int \<Rightarrow> bool \<Rightarrow> worker \<Rightarrow> worker" where
  "recover_detach now force w = stop_request (if force then force_detach now w else w)"

text \<open>One turn of the loop of \<open>redistribute_requests\<close>: the request to distribute again,
  or nothing when it has used up its retries.\<close>

definition retry_request :: "request_metadata \<Rightarrow> request_metadata option" where
  "retry_request req =
     (if retry_count req \<ge> kMaxRequestRetries then None
      else Some (req\<lparr>retry_count := retry_count req + 1\<rparr>))"

definition shutdown_begin :: "pool \<Rightarrow> pool" where
  "shutdown_begin p = p\<lparr>is_shutting_down := True, supervisor_running := False\<rparr>"

section \<open>Threads\<close>

text \<open>An initialising thread: before \<open>start\<close>, between the creation of the worker's
  thread and the stores behind it, before \<open>set_worker_ready\<close>, done, and the null
  dereference that \<open>workers[worker_id]->start()\<close> would be on an empty slot.\<close>

datatype init_pc = InitStart nat | InitFinish nat nat | InitReady nat | InitDone | InitCrash

datatype sup_pc =
    SupScan nat
  | SupCheck nat nat
  | SupMark nat bool
  | SupPrepare nat bool
  | SupDrain nat bool replacement_context
  | SupCurrent nat bool replacement_context nat "request_metadata list"
  | SupStop nat bool replacement_context nat "request_metadata list"
  | SupWait nat replacement_context nat "request_metadata list"
  | SupFinish nat replacement_context nat "request_metadata list"
  | SupSpawn nat replacement_context "request_metadata list"
  | SupRoute nat "request_metadata list"
  | SupRedistribute nat "request_metadata list"
  | SupDistribute nat request_metadata "request_metadata list"
  | SupAdd nat nat request_metadata "request_metadata list"
  | SupOff

datatype client_pc = ClientIdle | ClientDistribute request_metadata | ClientAdd nat request_metadata

datatype shut_pc = ShutNone | ShutJoin | ShutStop nat | ShutWait nat nat | ShutFinish nat nat | ShutDone

text \<open>The lists record what leaves the system: timeout replies, and the requests that a
  distribution gave up.\<close>

record sys =
  now :: int
  pool :: pool
  inits :: "init_pc list"
  sup :: sup_pc
  client :: client_pc
  shut :: shut_pc
  timeouts :: "string list"
  dropped :: "request_metadata list"

definition update_worker :: "nat \<Rightarrow> (worker \<Rightarrow> worker) \<Rightarrow> pool \<Rightarrow> pool" where
  "update_worker ob f p = p\<lparr>heap := (heap p)[ob := f (heap p ! ob)]\<rparr>"

definition initial :: "int \<Rightarrow> nat \<Rightarrow> sys" where
  "initial t num_workers =
     \<lparr>now = t, pool = new_pool t num_workers, inits = map InitStart [0..<num_workers],
      sup = (if num_workers > 0 then SupScan 0 else SupOff), client = ClientIdle, shut = ShutNone,
      timeouts = [], dropped = []\<rparr>"

text \<open>\<open>initialize_worker\<close>.\<close>

definition init_step :: "int \<Rightarrow> init_pc \<Rightarrow> pool \<Rightarrow> (init_pc \<times> pool) option" where
  "init_step t ipc p = (case ipc of
     InitStart i \<Rightarrow>
       Some (if i \<ge> length (workers p) then (InitDone, p)
             else (case workers p ! i of
                None \<Rightarrow> (InitCrash, p)
              | Some ob \<Rightarrow> (InitFinish i ob, update_worker ob (start_thread t) p)))
   | InitFinish i ob \<Rightarrow> Some (InitReady i, update_worker ob (start_finish t) p)
   | InitReady i \<Rightarrow> Some (InitDone, set_worker_ready (int i) p)
   | InitDone \<Rightarrow> None
   | InitCrash \<Rightarrow> None)"

text \<open>\<open>distribute_request_internal\<close> up to \<open>add_request\<close>: it blocks (\<open>None\<close>), gives up,
  or has chosen a worker.\<close>

definition distribute_choice :: "pool \<Rightarrow> (nat option \<times> pool) option" where
  "distribute_choice p = (if is_shutting_down p then Some (None, p)
     else if ready_wakes p then Some (get_ready_worker p) else None)"

text \<open>The supervisor: \<open>monitor_workers\<close> with everything \<open>replace_worker\<close> calls.  The
  result is the next point, the pool, the threads started, the timeout replies and the
  requests given up; \<open>None\<close> where it waits.  \<open>expired\<close> is the outcome of a five-second wait.\<close>

definition sup_step ::
  "config \<Rightarrow> bool \<Rightarrow> int \<Rightarrow> sup_pc \<Rightarrow> pool \<Rightarrow> (sup_pc \<times> pool \<times> init_pc list \<times> string list \<times> request_metadata list) option" where
  "sup_step cfg expired t spc p = (case spc of
     SupScan i \<Rightarrow>
       Some (if \<not> supervisor_running p \<or> is_shutting_down p then (SupOff, p, [], [], [])
             else if i \<ge> length (workers p) then (SupScan 0, p, [], [], [])
             else (case monitored t i p of
                None \<Rightarrow> (SupScan (i + 1), p, [], [], [])
              | Some ob \<Rightarrow> (SupCheck i ob, p, [], [], [])))
   | SupCheck i ob \<Rightarrow>
       Some (case replacement_reason cfg t (heap p ! ob) of
          None \<Rightarrow> (SupScan (i + 1), p, [], [], [])
        | Some (reason, force) \<Rightarrow> (SupMark i force, p, [], [], []))
   | SupMark i force \<Rightarrow>
       Some (if is_shutting_down p then (SupScan (i + 1), p, [], [], [])
             else (case mark_worker_not_ready i p of
                (False, p') \<Rightarrow> (SupScan (i + 1), p', [], [], [])
              | (True, p') \<Rightarrow> (SupPrepare i force, p', [], [], [])))
   | SupPrepare i force \<Rightarrow>
       Some (case prepare_worker_replacement cfg t i p of (ctx, p') \<Rightarrow> (SupDrain i force ctx, p', [], [], []))
   | SupDrain i force ctx \<Rightarrow>
       Some (case old_worker ctx of
          None \<Rightarrow> (SupSpawn i ctx [], p, [], [], [])
        | Some ob \<Rightarrow> (case drain_pending_requests (heap p ! ob) of
            (pending, w) \<Rightarrow> (SupCurrent i force ctx ob pending, update_worker ob (\<lambda>_. w) p, [], [], [])))
   | SupCurrent i force ctx ob pending \<Rightarrow>
       Some (case recover_current force pending (heap p ! ob) of
          (reqs, replies) \<Rightarrow> (SupStop i force ctx ob reqs, p, [], replies, []))
   | SupStop i force ctx ob reqs \<Rightarrow>
       (let w = (if force then force_detach t (heap p ! ob) else heap p ! ob);
            p' = update_worker ob (recover_detach t force) p
        in Some (if wstate w = Exited then (SupSpawn i ctx reqs, p', [], [], [])
                 else if stop_waits w then (SupWait i ctx ob reqs, p', [], [], [])
                 else (SupFinish i ctx ob reqs, p', [], [], [])))
   | SupWait i ctx ob reqs \<Rightarrow>
       (if exit_signaled (heap p ! ob) then Some (SupFinish i ctx ob reqs, p, [], [], [])
        else if expired then Some (SupSpawn i ctx reqs, update_worker ob stop_timed_out p, [], [], [])
        else None)
   | SupFinish i ctx ob reqs \<Rightarrow>
       (if joinable (heap p ! ob) \<and> pc (heap p ! ob) \<noteq> Ended then None
        else Some (SupSpawn i ctx reqs, update_worker ob stop_complete p, [], [], []))
   | SupSpawn i ctx reqs \<Rightarrow>
       Some (if max_attempts_reached ctx then (SupRoute i reqs, p, [], [], [])
             else if is_shutting_down p then (SupScan (i + 1), p, [], [], reqs)
             else (SupRoute i reqs, spawn_replacement_worker t i p, [InitStart i], [], []))
   | SupRoute i reqs \<Rightarrow>
       Some (if is_shutting_down p then (SupScan (i + 1), p, [], [], reqs)
             else (SupRedistribute i reqs, p, [], [], []))
   | SupRedistribute i reqs \<Rightarrow>
       Some (case reqs of
          [] \<Rightarrow> (SupScan (i + 1), p, [], [], [])
        | req # rest \<Rightarrow> (case retry_request req of
            None \<Rightarrow> (SupRedistribute i rest, p, [], [], [req])
          | Some req' \<Rightarrow> (SupDistribute i req' rest, p, [], [], [])))
   | SupDistribute i req rest \<Rightarrow>
       (case distribute_choice p of
          None \<Rightarrow> None
        | Some (None, p') \<Rightarrow> Some (SupRedistribute i rest, p', [], [], [req])
        | Some (Some ob, p') \<Rightarrow> Some (SupAdd i ob req rest, p', [], [], []))
   | SupAdd i ob req rest \<Rightarrow>
       Some (SupRedistribute i rest, update_worker ob (add_request req) p, [], [], [])
   | SupOff \<Rightarrow> None)"

text \<open>The thread that calls \<open>distribute_request\<close>.\<close>

definition client_step :: "client_pc \<Rightarrow> pool \<Rightarrow> (client_pc \<times> pool \<times> request_metadata list) option" where
  "client_step cpc p = (case cpc of
     ClientIdle \<Rightarrow> None
   | ClientDistribute req \<Rightarrow> (case distribute_choice p of
        None \<Rightarrow> None
      | Some (None, p') \<Rightarrow> Some (ClientIdle, p', [req])
      | Some (Some ob, p') \<Rightarrow> Some (ClientAdd ob req, p', []))
   | ClientAdd ob req \<Rightarrow> Some (ClientIdle, update_worker ob (add_request req) p, []))"

text \<open>\<open>shutdown\<close> after its flags are set.\<close>

definition shut_step :: "bool \<Rightarrow> sup_pc \<Rightarrow> shut_pc \<Rightarrow> pool \<Rightarrow> (shut_pc \<times> pool) option" where
  "shut_step expired spc hpc p = (case hpc of
     ShutNone \<Rightarrow> Some (ShutJoin, shutdown_begin p)
   | ShutJoin \<Rightarrow> (if spc = SupOff then Some (ShutStop 0, p) else None)
   | ShutStop i \<Rightarrow>
       Some (if i \<ge> length (workers p) then (ShutDone, p)
             else (case workers p ! i of
                None \<Rightarrow> (ShutStop (i + 1), p)
              | Some ob \<Rightarrow> (let w = heap p ! ob; p' = update_worker ob stop_request p in
                  if wstate w = Exited then (ShutStop (i + 1), p')
                  else if stop_waits w then (ShutWait i ob, p') else (ShutFinish i ob, p'))))
   | ShutWait i ob \<Rightarrow>
       (if exit_signaled (heap p ! ob) then Some (ShutFinish i ob, p)
        else if expired then Some (ShutStop (i + 1), update_worker ob stop_timed_out p)
        else None)
   | ShutFinish i ob \<Rightarrow>
       (if joinable (heap p ! ob) \<and> pc (heap p ! ob) \<noteq> Ended then None
        else Some (ShutStop (i + 1), update_worker ob stop_complete p))
   | ShutDone \<Rightarrow> None)"

inductive pool_step :: "config \<Rightarrow> sys \<Rightarrow> sys \<Rightarrow> bool" for cfg where
  tick: "now s \<le> t \<Longrightarrow> pool_step cfg s (s\<lparr>now := t\<rparr>)"
| submit: "client s = ClientIdle \<Longrightarrow> pool_step cfg s (s\<lparr>client := ClientDistribute (new_request d 0)\<rparr>)"
| client: "client_step (client s) (pool s) = Some (cpc, p, lost) \<Longrightarrow>
    pool_step cfg s (s\<lparr>client := cpc, pool := p, dropped := dropped s @ lost\<rparr>)"
| init: "k < length (inits s) \<Longrightarrow> init_step (now s) (inits s ! k) (pool s) = Some (ipc, p) \<Longrightarrow>
    pool_step cfg s (s\<lparr>inits := (inits s)[k := ipc], pool := p\<rparr>)"
| loop: "ob < length (heap (pool s)) \<Longrightarrow> loop_step (now s) (heap (pool s) ! ob) w \<Longrightarrow>
    pool_step cfg s (s\<lparr>pool := update_worker ob (\<lambda>_. w) (pool s)\<rparr>)"
| supervise: "sup_step cfg expired (now s) (sup s) (pool s) = Some (spc, p, ts, replies, lost) \<Longrightarrow>
    pool_step cfg s (s\<lparr>sup := spc, pool := p, inits := inits s @ ts,
      timeouts := timeouts s @ replies, dropped := dropped s @ lost\<rparr>)"
| stop_all: "shut_step expired (sup s) (shut s) (pool s) = Some (hpc, p) \<Longrightarrow>
    pool_step cfg s (s\<lparr>shut := hpc, pool := p\<rparr>)"

inductive_cases pool_stepE: "pool_step cfg s s'"

section \<open>Invariants\<close>

definition request_ok :: "request_metadata \<Rightarrow> bool" where
  "request_ok r \<longleftrightarrow> retry_count r \<le> kMaxRequestRetries"

fun pc_requests :: "loop_pc \<Rightarrow> request_metadata list" where
  "pc_requests (LoopTrack r) = [r]"
| "pc_requests (LoopProcess r) = [r]"
| "pc_requests _ = []"

definition worker_ok :: "worker \<Rightarrow> bool" where
  "worker_ok w \<longleftrightarrow> list_all request_ok (request_queue w) \<and> list_all request_ok (pc_requests (pc w)) \<and>
     (pc w = NoThread \<longrightarrow> \<not> joinable w \<and> wstate w \<noteq> Faulted \<and> wstate w \<noteq> Running)"

fun count_true :: "bool list \<Rightarrow> nat" where
  "count_true [] = 0"
| "count_true (b # bs) = (if b then Suc (count_true bs) else count_true bs)"

definition slot :: "pool \<Rightarrow> nat \<Rightarrow> nat \<Rightarrow> bool" where
  "slot p i ob \<longleftrightarrow> i < length (workers p) \<and> workers p ! i = Some ob"

definition started :: "pool \<Rightarrow> nat \<Rightarrow> bool" where
  "started p ob \<longleftrightarrow> ob < length (heap p) \<and> pc (heap p ! ob) \<noteq> NoThread"

definition lists_ok :: "nat \<Rightarrow> pool \<Rightarrow> bool" where
  "lists_ok n p \<longleftrightarrow> length (workers p) = n \<and> length (ready_list p) = n \<and>
     length (replacement_attempts p) = n \<and> length (next_replacement_allowed p) = n \<and>
     list_all (\<lambda>i. i < n) (ready_queue p)"

definition counts_ok :: "config \<Rightarrow> pool \<Rightarrow> bool" where
  "counts_ok cfg p \<longleftrightarrow> int (count_true (ready_list p)) \<le> ready_count p \<and>
     list_all (\<lambda>a. a \<le> max_replace_attempts cfg) (replacement_attempts p)"

definition heap_ok :: "pool \<Rightarrow> bool" where
  "heap_ok p \<longleftrightarrow> list_all worker_ok (heap p) \<and>
     (\<forall>i ob. slot p i ob \<longrightarrow> ob < length (heap p)) \<and>
     (\<forall>i j ob. slot p i ob \<longrightarrow> slot p j ob \<longrightarrow> i = j)"

definition starts :: "init_pc list \<Rightarrow> nat list" where
  "starts ts = concat (map (\<lambda>t. case t of InitStart i \<Rightarrow> [i] | _ \<Rightarrow> []) ts)"

fun init_ok :: "pool \<Rightarrow> init_pc \<Rightarrow> bool" where
  "init_ok p (InitStart i) = (\<exists>ob. slot p i ob \<and> \<not> started p ob)"
| "init_ok p (InitFinish i ob) = started p ob"
| "init_ok p (InitReady i) = True"
| "init_ok p InitDone = True"
| "init_ok p InitCrash = False"

fun sup_ok :: "pool \<Rightarrow> nat list \<Rightarrow> sup_pc \<Rightarrow> bool" where
  "sup_ok p is (SupScan i) = True"
| "sup_ok p is (SupCheck i ob) = slot p i ob"
| "sup_ok p is (SupMark i force) = (i < length (workers p) \<and> i \<notin> set is \<and> (\<forall>ob. slot p i ob \<longrightarrow> started p ob))"
| "sup_ok p is (SupPrepare i force) = (i < length (workers p) \<and> i \<notin> set is \<and> (\<forall>ob. slot p i ob \<longrightarrow> started p ob))"
| "sup_ok p is (SupDrain i force ctx) = (i < length (workers p) \<and> i \<notin> set is \<and> (\<forall>ob. old_worker ctx = Some ob \<longrightarrow> started p ob))"
| "sup_ok p is (SupCurrent i force ctx ob rs) = (i < length (workers p) \<and> i \<notin> set is \<and> started p ob \<and> list_all request_ok rs)"
| "sup_ok p is (SupStop i force ctx ob rs) = (i < length (workers p) \<and> i \<notin> set is \<and> started p ob \<and> list_all request_ok rs)"
| "sup_ok p is (SupWait i ctx ob rs) = (i < length (workers p) \<and> i \<notin> set is \<and> started p ob \<and> list_all request_ok rs)"
| "sup_ok p is (SupFinish i ctx ob rs) = (i < length (workers p) \<and> i \<notin> set is \<and> started p ob \<and> list_all request_ok rs)"
| "sup_ok p is (SupSpawn i ctx rs) = (i < length (workers p) \<and> i \<notin> set is \<and> list_all request_ok rs)"
| "sup_ok p is (SupRoute i rs) = list_all request_ok rs"
| "sup_ok p is (SupRedistribute i rs) = list_all request_ok rs"
| "sup_ok p is (SupDistribute i r rs) = (request_ok r \<and> list_all request_ok rs)"
| "sup_ok p is (SupAdd i ob r rs) = (request_ok r \<and> list_all request_ok rs \<and> ob < length (heap p))"
| "sup_ok p is SupOff = True"

fun client_ok :: "pool \<Rightarrow> client_pc \<Rightarrow> bool" where
  "client_ok p ClientIdle = True"
| "client_ok p (ClientDistribute r) = request_ok r"
| "client_ok p (ClientAdd ob r) = (request_ok r \<and> ob < length (heap p))"

fun shut_ok :: "pool \<Rightarrow> shut_pc \<Rightarrow> bool" where
  "shut_ok p (ShutWait i ob) = started p ob"
| "shut_ok p (ShutFinish i ob) = (ob < length (heap p))"
| "shut_ok p _ = True"

definition pool_inv :: "config \<Rightarrow> nat \<Rightarrow> pool \<Rightarrow> bool" where
  "pool_inv cfg n p \<longleftrightarrow> lists_ok n p \<and> counts_ok cfg p \<and> heap_ok p"

definition sys_inv :: "config \<Rightarrow> nat \<Rightarrow> sys \<Rightarrow> bool" where
  "sys_inv cfg n s \<longleftrightarrow> pool_inv cfg n (pool s) \<and>
     list_all (init_ok (pool s)) (inits s) \<and> distinct (starts (inits s)) \<and>
     sup_ok (pool s) (starts (inits s)) (sup s) \<and> client_ok (pool s) (client s) \<and>
     shut_ok (pool s) (shut s) \<and> list_all request_ok (dropped s)"

subsection \<open>Lists\<close>

lemma count_true_update:
  "i < length bs \<Longrightarrow> count_true (bs[i := b]) + (if bs ! i then 1 else 0) = count_true bs + (if b then 1 else 0)"
proof (induction bs arbitrary: i)
  case (Cons a bs)
  show ?case
  proof (cases i)
    case (Suc k)
    with Cons.IH [of k] Cons.prems show ?thesis by (simp split: if_splits)
  qed simp
qed simp

lemma count_true_pos: "i < length bs \<Longrightarrow> bs ! i \<Longrightarrow> 0 < count_true bs"
  using count_true_update [of i bs False] by simp

lemma count_true_replicate: "count_true (replicate n False) = 0"
  by (induction n) simp_all

lemma count_true_False_le: "i < length bs \<Longrightarrow> count_true (bs[i := False]) \<le> count_true bs"
  using count_true_update [of i bs False] by simp

lemma pop_ready_spec:
  "pop_ready rd q = (r, q') \<Longrightarrow> list_all P q \<Longrightarrow>
     list_all P q' \<and> (\<forall>i. r = Some i \<longrightarrow> rd i \<and> P i \<and> (\<exists>q0. q' = q0 @ [i]))"
  by (induction q) (auto split: if_splits)


subsection \<open>Worker operations\<close>

lemmas worker_defs = new_worker_def start_thread_def start_finish_def add_request_def update_heartbeat_def
  drain_pending_requests_def force_detach_def stop_request_def stop_timed_out_def stop_complete_def
  recover_detach_def

lemmas loop_defs = loop_idle_def loop_wake_def loop_track_def loop_returned_def loop_thrown_def loop_clear_def
  loop_break_def loop_exit_def update_heartbeat_def

lemma drain_loop_eq: "drain_loop rs acc = ([], acc @ rs)"
  by (induction rs arbitrary: acc) simp_all

lemma drain_eq: "drain_pending_requests w = (request_queue w, w\<lparr>request_queue := []\<rparr>)"
  by (simp add: drain_pending_requests_def drain_loop_eq)

lemma worker_ok_start [simp]: "worker_ok w \<Longrightarrow> worker_ok (start_thread t w)"
  and worker_ok_finish [simp]: "worker_ok w \<Longrightarrow> worker_ok (start_finish t w)"
  and worker_ok_add [simp]: "worker_ok w \<Longrightarrow> request_ok r \<Longrightarrow> worker_ok (add_request r w)"
  and worker_ok_drained [simp]: "worker_ok w \<Longrightarrow> worker_ok (w\<lparr>request_queue := []\<rparr>)"
  and worker_ok_request [simp]: "worker_ok w \<Longrightarrow> worker_ok (stop_request w)"
  and worker_ok_complete [simp]: "worker_ok w \<Longrightarrow> worker_ok (stop_complete w)"
  and worker_ok_timed_out [simp]: "worker_ok w \<Longrightarrow> pc w \<noteq> NoThread \<Longrightarrow> worker_ok (stop_timed_out w)"
  and worker_ok_detach [simp]: "worker_ok w \<Longrightarrow> pc w \<noteq> NoThread \<Longrightarrow> worker_ok (recover_detach t f w)"
  and worker_ok_new [simp]: "worker_ok (new_worker t i)"
  by (auto simp: worker_ok_def worker_defs Let_def)

lemma pc_simps [simp]:
  "pc (start_thread t w) = LoopTop" "pc (start_finish t w) = pc w" "pc (add_request r w) = pc w"
  "pc (stop_request w) = pc w" "pc (stop_complete w) = pc w" "pc (stop_timed_out w) = pc w"
  "pc (recover_detach t f w) = pc w" "pc (new_worker t i) = NoThread"
  by (simp_all add: worker_defs Let_def)

lemma loop_step_ok: "loop_step t w w' \<Longrightarrow> worker_ok w \<Longrightarrow> worker_ok w' \<and> pc w' \<noteq> NoThread \<and> pc w \<noteq> NoThread"
  by (erule loop_stepE) (auto simp: worker_ok_def loop_defs wake_condition_def split: list.splits)

lemma not_fresh_replaced: "replacement_reason cfg t w = Some r \<Longrightarrow> worker_ok w \<Longrightarrow> pc w \<noteq> NoThread"
  by (auto simp: replacement_reason_def worker_ok_def is_stop_requested_def split: if_splits)

subsection \<open>Pool operations\<close>

lemma heap_ok_cong: "heap p' = heap p \<Longrightarrow> workers p' = workers p \<Longrightarrow> heap_ok p' = heap_ok p"
  by (simp add: heap_ok_def slot_def)

lemma update_worker_simps [simp]:
  "workers (update_worker ob f p) = workers p"
  "ready_list (update_worker ob f p) = ready_list p"
  "ready_count (update_worker ob f p) = ready_count p"
  "replacement_attempts (update_worker ob f p) = replacement_attempts p"
  "next_replacement_allowed (update_worker ob f p) = next_replacement_allowed p"
  "ready_queue (update_worker ob f p) = ready_queue p"
  "is_shutting_down (update_worker ob f p) = is_shutting_down p"
  "length (heap (update_worker ob f p)) = length (heap p)"
  "slot (update_worker ob f p) = slot p"
  by (simp_all add: update_worker_def slot_def fun_eq_iff)

lemma pool_inv_update_worker:
  "pool_inv cfg n p \<Longrightarrow> ob < length (heap p) \<Longrightarrow> (worker_ok (heap p ! ob) \<Longrightarrow> worker_ok (f (heap p ! ob))) \<Longrightarrow>
     pool_inv cfg n (update_worker ob f p)"
  by (auto simp: pool_inv_def lists_ok_def counts_ok_def heap_ok_def)
    (auto simp: update_worker_def list_all_length nth_list_update)

lemma grow_lists_id: "lists_ok n p \<Longrightarrow> i < n \<Longrightarrow> grow_lists i k p = p"
  by (simp add: grow_lists_def lists_ok_def Let_def)

lemma set_ready_cases:
  assumes "pool_inv cfg n p"
  shows "set_worker_ready k p = p \<or> (\<exists>i<n. \<not> ready_list p ! i \<and> slot_ready p i \<and> set_worker_ready k p =
     p\<lparr>ready_list := (ready_list p)[i := True], ready_count := ready_count p + 1,
       replacement_attempts := (replacement_attempts p)[i := 0],
       next_replacement_allowed := (next_replacement_allowed p)[i := None],
       ready_queue := ready_queue p @ [i]\<rparr>)"
proof (cases "k < 0 \<or> k \<ge> int (length (workers p)) \<or> worker_at p (nat k) = None")
  case True
  then show ?thesis by (auto simp: set_worker_ready_def Let_def)
next
  case False
  then obtain w where k: "\<not> k < 0" "\<not> k \<ge> int (length (workers p))" "worker_at p (nat k) = Some w"
    by auto
  then have nk: "nat k < n" and grow: "grow_lists (nat k) (length (workers p)) p = p"
    using assms grow_lists_id [of n p] by (auto simp: pool_inv_def lists_ok_def)
  show ?thesis
  proof (cases "\<not> ready_list p ! nat k \<and> is_ready w")
    case True
    with k nk show ?thesis
      by (intro disjI2 exI [of _ "nat k"]) (simp add: set_worker_ready_def Let_def grow slot_ready_def)
  next
    case False
    with k show ?thesis
      by (intro disjI1) (auto simp: set_worker_ready_def Let_def grow)
  qed
qed

lemma list_all_update: "list_all P xs \<Longrightarrow> P x \<Longrightarrow> list_all P (xs[i := x])"
  by (cases "i < length xs") (auto simp: list_all_length nth_list_update)

lemma pool_inv_set_ready:
  assumes inv: "pool_inv cfg n p"
  shows "pool_inv cfg n (set_worker_ready k p)" "heap (set_worker_ready k p) = heap p"
    "workers (set_worker_ready k p) = workers p"
proof -
  have "pool_inv cfg n (set_worker_ready k p) \<and> heap (set_worker_ready k p) = heap p \<and>
      workers (set_worker_ready k p) = workers p"
    using set_ready_cases [OF inv, of k]
  proof (elim disjE exE conjE)
    fix i assume i: "i < n" "\<not> ready_list p ! i" and eq: "set_worker_ready k p =
      p\<lparr>ready_list := (ready_list p)[i := True], ready_count := ready_count p + 1,
       replacement_attempts := (replacement_attempts p)[i := 0],
       next_replacement_allowed := (next_replacement_allowed p)[i := None],
       ready_queue := ready_queue p @ [i]\<rparr>"
    have "count_true ((ready_list p)[i := True]) = Suc (count_true (ready_list p))"
      using count_true_update [of i "ready_list p" True] i inv by (simp add: pool_inv_def lists_ok_def)
    moreover have "heap_ok (set_worker_ready k p) = heap_ok p"
      by (rule heap_ok_cong) (simp_all add: eq)
    ultimately show ?thesis
      using i inv by (simp add: eq pool_inv_def lists_ok_def counts_ok_def list_all_update)
  qed (use inv in simp)
  then show "pool_inv cfg n (set_worker_ready k p)" "heap (set_worker_ready k p) = heap p"
    "workers (set_worker_ready k p) = workers p" by blast+
qed

lemma mark_not_ready_ok:
  assumes inv: "pool_inv cfg n p" and i: "i < n"
  shows "fst (mark_worker_not_ready i p)" "pool_inv cfg n (snd (mark_worker_not_ready i p))"
    "heap (snd (mark_worker_not_ready i p)) = heap p" "workers (snd (mark_worker_not_ready i p)) = workers p"
    "\<not> ready_list (snd (mark_worker_not_ready i p)) ! i"
proof -
  have grow: "grow_lists i (length (workers p)) p = p" and len: "length (workers p) = n" "length (ready_list p) = n"
    using inv i grow_lists_id [of n] by (auto simp: pool_inv_def lists_ok_def)
  have pos: "ready_count p > 0" if "ready_list p ! i"
    using count_true_pos [of i "ready_list p"] that inv i by (simp add: pool_inv_def lists_ok_def counts_ok_def)
  have "int (count_true ((ready_list p)[i := False])) \<le> ready_count p - 1" if "ready_list p ! i"
    using count_true_update [of i "ready_list p" False] that inv i
    by (simp add: pool_inv_def lists_ok_def counts_ok_def)
  with pos show "fst (mark_worker_not_ready i p)" "pool_inv cfg n (snd (mark_worker_not_ready i p))"
    "heap (snd (mark_worker_not_ready i p)) = heap p" "workers (snd (mark_worker_not_ready i p)) = workers p"
    "\<not> ready_list (snd (mark_worker_not_ready i p)) ! i"
    using inv i len by (auto simp: mark_worker_not_ready_def grow Let_def pool_inv_def lists_ok_def
        counts_ok_def heap_ok_def slot_def)
qed

lemma get_ready_ok:
  assumes inv: "pool_inv cfg n p" and get: "get_ready_worker p = (r, p')"
  shows "pool_inv cfg n p'" "heap p' = heap p" "workers p' = workers p"
    "\<forall>ob. r = Some ob \<longrightarrow> ob < length (heap p) \<and> is_ready (heap p ! ob)"
proof -
  have q: "list_all (\<lambda>i. i < n) (ready_queue p)"
    using inv by (simp add: pool_inv_def lists_ok_def)
  obtain c q' where pop: "pop_ready (slot_ready p) (ready_queue p) = (c, q')"
    by (cases "pop_ready (slot_ready p) (ready_queue p)")
  note spec = pop_ready_spec [OF pop q]
  show "pool_inv cfg n p'" "heap p' = heap p" "workers p' = workers p"
    using get pop spec inv by (auto simp: get_ready_worker_def pool_inv_def lists_ok_def counts_ok_def heap_ok_def slot_def
        split: if_splits option.splits)
  show "\<forall>ob. r = Some ob \<longrightarrow> ob < length (heap p) \<and> is_ready (heap p ! ob)"
  proof (intro allI impI)
    fix ob assume r: "r = Some ob"
    then obtain i where i: "c = Some i" "workers p ! i = Some ob" "\<not> is_shutting_down p"
      using get pop by (auto simp: get_ready_worker_def split: if_splits option.splits)
    with spec have "slot_ready p i" "i < n" by auto
    with i inv show "ob < length (heap p) \<and> is_ready (heap p ! ob)"
      by (auto simp: slot_ready_def worker_at_def pool_inv_def heap_ok_def slot_def lists_ok_def)
  qed
qed

lemma distribute_choice_ok:
  assumes "pool_inv cfg n p" "distribute_choice p = Some (r, p')"
  shows "pool_inv cfg n p'" "heap p' = heap p" "workers p' = workers p"
    "\<forall>ob. r = Some ob \<longrightarrow> ob < length (heap p) \<and> is_ready (heap p ! ob)"
  using assms get_ready_ok [of cfg n p r p'] by (auto simp: distribute_choice_def split: if_splits)

lemma backoff_le: "backoff cfg k \<le> max_replace_backoff cfg"
  by (simp add: backoff_def Let_def)

lemma prepare_ok:
  assumes inv: "pool_inv cfg n p" and i: "i < n" and prep: "prepare_worker_replacement cfg t i p = (ctx, p')"
  shows "pool_inv cfg n p'" "heap p' = heap p" "workers p' = (workers p)[i := None]"
    "old_worker ctx = workers p ! i"
  using inv i prep by (auto simp: prepare_worker_replacement_def empty_context_def Let_def pool_inv_def lists_ok_def
      counts_ok_def heap_ok_def slot_def list_all_length nth_list_update split: if_splits)

lemma spawn_ok:
  assumes inv: "pool_inv cfg n p" and i: "i < n"
  shows "pool_inv cfg n (spawn_replacement_worker t i p)"
    "heap (spawn_replacement_worker t i p) = heap p @ [new_worker t (int i)]"
    "workers (spawn_replacement_worker t i p) = (workers p)[i := Some (length (heap p))]"
proof -
  define q where "q = p\<lparr>heap := heap p @ [new_worker t (int i)]\<rparr>"
  have "lists_ok n q" using inv by (simp add: q_def pool_inv_def lists_ok_def)
  then have grow: "grow_lists i (i + 1) q = q" using i by (rule grow_lists_id)
  have eq: "spawn_replacement_worker t i p =
      q\<lparr>workers := (workers p)[i := Some (length (heap p))], ready_list := (ready_list p)[i := False]\<rparr>"
    using inv i grow by (simp add: spawn_replacement_worker_def Let_def pool_inv_def lists_ok_def flip: q_def)
      (simp add: q_def)
  show "heap (spawn_replacement_worker t i p) = heap p @ [new_worker t (int i)]"
    "workers (spawn_replacement_worker t i p) = (workers p)[i := Some (length (heap p))]"
    by (simp_all add: eq q_def)
  have "int (count_true ((ready_list p)[i := False])) \<le> ready_count p"
    using count_true_False_le [of i "ready_list p"] inv i by (simp add: pool_inv_def lists_ok_def counts_ok_def)
  then have counts: "counts_ok cfg (spawn_replacement_worker t i p)"
    using inv by (simp add: eq q_def pool_inv_def counts_ok_def)
  have lists: "lists_ok n (spawn_replacement_worker t i p)"
    using inv by (simp add: eq q_def pool_inv_def lists_ok_def)
  have slots: "slot (spawn_replacement_worker t i p) k ob \<longleftrightarrow>
      (if k = i then ob = length (heap p) else slot p k ob)" for k ob
    using inv i by (auto simp: eq slot_def pool_inv_def lists_ok_def)
  have heap: "heap_ok (spawn_replacement_worker t i p)"
    using inv unfolding heap_ok_def slots pool_inv_def
    by (auto simp: eq q_def less_Suc_eq)
  show "pool_inv cfg n (spawn_replacement_worker t i p)"
    unfolding pool_inv_def using lists counts heap by blast
qed

subsection \<open>Preservation\<close>

text \<open>What a step may change about the objects and slots that other threads point to.\<close>

definition frame :: "pool \<Rightarrow> pool \<Rightarrow> bool" where
  "frame p p' \<longleftrightarrow> workers p' = workers p \<and> length (heap p') = length (heap p) \<and>
     (\<forall>ob. started p' ob \<longleftrightarrow> started p ob)"

lemma frame_init_ok: "frame p p' \<Longrightarrow> init_ok p' t = init_ok p t"
  by (cases t) (simp_all add: frame_def slot_def)

lemma frame_sup_ok: "frame p p' \<Longrightarrow> sup_ok p' is t = sup_ok p is t"
  by (cases t) (simp_all add: frame_def slot_def)

lemma frame_client_ok: "frame p p' \<Longrightarrow> client_ok p' t = client_ok p t"
  by (cases t) (simp_all add: frame_def)

lemma frame_shut_ok: "frame p p' \<Longrightarrow> shut_ok p' t = shut_ok p t"
  by (cases t) (simp_all add: frame_def)

lemmas frame_ok = frame_init_ok frame_sup_ok frame_client_ok frame_shut_ok

lemma frame_same: "heap p' = heap p \<Longrightarrow> workers p' = workers p \<Longrightarrow> frame p p'"
  by (simp add: frame_def started_def)

lemma started_update: "started (update_worker ob f p) ob' \<longleftrightarrow>
    (if ob' = ob then ob < length (heap p) \<and> pc (f (heap p ! ob)) \<noteq> NoThread else started p ob')"
  by (auto simp: started_def update_worker_def)

lemma frame_update: "(pc (f (heap p ! ob)) = NoThread \<longleftrightarrow> pc (heap p ! ob) = NoThread) \<Longrightarrow>
    frame p (update_worker ob f p)"
  by (auto simp: frame_def started_update) (simp_all add: started_def)

lemma frame_refl [simp]: "frame p p"
  by (simp add: frame_def)

lemma sys_inv_frame:
  assumes "sys_inv cfg n s" "frame (pool s) p'" "pool_inv cfg n p'"
  shows "sys_inv cfg n (s\<lparr>pool := p'\<rparr>)"
  using assms frame_ok [OF assms(2)] by (simp add: sys_inv_def list_all_iff)

lemma heap_ok_nth: "pool_inv cfg n p \<Longrightarrow> ob < length (heap p) \<Longrightarrow> worker_ok (heap p ! ob)"
  by (simp add: pool_inv_def heap_ok_def list_all_length)

lemma slot_bound: "pool_inv cfg n p \<Longrightarrow> slot p i ob \<Longrightarrow> ob < length (heap p)"
  by (auto simp: pool_inv_def heap_ok_def)

lemma slot_inj: "pool_inv cfg n p \<Longrightarrow> slot p i ob \<Longrightarrow> slot p j ob \<Longrightarrow> i = j"
  by (auto simp: pool_inv_def heap_ok_def)

lemma starts_update: "k < length ts \<Longrightarrow> (\<forall>i. t \<noteq> InitStart i) \<Longrightarrow>
    set (starts (ts[k := t])) \<subseteq> set (starts ts) \<and> (distinct (starts ts) \<longrightarrow> distinct (starts (ts[k := t]))) \<and>
    (\<forall>i. ts ! k = InitStart i \<longrightarrow> distinct (starts ts) \<longrightarrow> i \<notin> set (starts (ts[k := t])))"
proof (induction ts arbitrary: k)
  case (Cons a ts)
  show ?case
  proof (cases k)
    case 0
    with Cons.prems show ?thesis by (cases t; cases a) (auto simp: starts_def)
  next
    case (Suc j)
    with Cons.IH [of j] Cons.prems show ?thesis by (cases a) (auto simp: starts_def, metis nth_mem)
  qed
qed simp

lemma starts_mem: "InitStart i \<in> set ts \<longleftrightarrow> i \<in> set (starts ts)"
  by (auto simp: starts_def split: init_pc.splits)

lemma sup_ok_starts: "set is' \<subseteq> set is \<Longrightarrow> sup_ok p is t \<Longrightarrow> sup_ok p is' t"
  by (cases t) auto

lemma client_step_inv:
  assumes inv: "sys_inv cfg n s" and step: "client_step (client s) (pool s) = Some (cpc, p, lost)"
  shows "sys_inv cfg n (s\<lparr>client := cpc, pool := p, dropped := dropped s @ lost\<rparr>)"
proof -
  have p: "pool_inv cfg n (pool s)" and c: "client_ok (pool s) (client s)" and d: "list_all request_ok (dropped s)"
    using inv by (simp_all add: sys_inv_def)
  have "frame (pool s) p \<and> pool_inv cfg n p \<and> client_ok (pool s) cpc \<and> list_all request_ok lost"
  proof (cases "client s")
    case (ClientDistribute req)
    with step obtain r where choice: "distribute_choice (pool s) = Some (r, p)" and
      "cpc = (case r of None \<Rightarrow> ClientIdle | Some ob \<Rightarrow> ClientAdd ob req)"
      "lost = (case r of None \<Rightarrow> [req] | Some ob \<Rightarrow> [])"
      by (auto simp: client_step_def split: option.splits)
    with distribute_choice_ok [OF p choice] c ClientDistribute show ?thesis
      by (auto intro: frame_same split: option.splits)
  next
    case (ClientAdd ob req)
    with step c p show ?thesis
      by (auto simp: client_step_def intro!: frame_update pool_inv_update_worker)
  qed (use step in \<open>simp add: client_step_def\<close>)
  with sys_inv_frame [OF inv, of p] d show ?thesis
    by (auto simp: sys_inv_def frame_client_ok)
qed

lemma init_step_inv:
  assumes inv: "sys_inv cfg n s" and k: "k < length (inits s)"
    and step: "init_step (now s) (inits s ! k) (pool s) = Some (ipc, p)"
  shows "sys_inv cfg n (s\<lparr>inits := (inits s)[k := ipc], pool := p\<rparr>)"
proof -
  have p: "pool_inv cfg n (pool s)" and t: "init_ok (pool s) (inits s ! k)"
    and ts: "list_all (init_ok (pool s)) (inits s)" and dist: "distinct (starts (inits s))"
    using inv k by (auto simp: sys_inv_def list_all_length)
  have not_start: "\<forall>i. ipc \<noteq> InitStart i"
    using step by (auto simp: init_step_def split: init_pc.splits option.splits if_splits)
  note starts = starts_update [OF k not_start]
  have finish: ?thesis if "frame (pool s) p" "pool_inv cfg n p" "init_ok (pool s) ipc"
    using sys_inv_frame [OF inv that(1,2)] that starts
    by (auto simp: sys_inv_def frame_init_ok list_all_update intro: sup_ok_starts)
  show ?thesis
  proof (cases "inits s ! k")
    case (InitStart i)
    with t obtain ob where slot: "slot (pool s) i ob" "\<not> started (pool s) ob" by auto
    with p have ob: "ob < length (heap (pool s))" by (auto dest: slot_bound)
    from slot step InitStart have eqs: "ipc = InitFinish i ob" "p = update_worker ob (start_thread (now s)) (pool s)"
      by (auto simp: init_step_def slot_def)
    have p': "pool_inv cfg n p"
      unfolding eqs using p ob by (rule pool_inv_update_worker) simp
    have st: "started p o' \<longleftrightarrow> o' = ob \<or> started (pool s) o'" for o'
      using ob by (simp add: eqs(2) started_update)
    have sl: "slot p = slot (pool s)" "workers p = workers (pool s)" "length (heap p) = length (heap (pool s))"
      by (simp_all add: eqs(2))
    have other: "init_ok p t'" if "t' \<in> set ((inits s)[k := ipc])" for t'
    proof (cases "t' = ipc")
      case True
      then show ?thesis by (simp add: eqs(1) st)
    next
      case False
      with that have mem: "t' \<in> set (inits s)"
        using set_update_subset_insert by fastforce
      with ts have ok: "init_ok (pool s) t'" by (simp add: list_all_iff)
      show ?thesis
      proof (cases t')
        case (InitStart j)
        with that starts_mem [of j] have "j \<in> set (starts ((inits s)[k := ipc]))" by auto
        with starts dist \<open>inits s ! k = InitStart i\<close> have "j \<noteq> i" by blast
        moreover from ok InitStart obtain o' where "slot (pool s) j o'" "\<not> started (pool s) o'" by auto
        ultimately show ?thesis
          using InitStart slot p slot_inj [of cfg n "pool s" i ob j] by (auto simp: st sl)
      qed (use ok in \<open>auto simp: st\<close>)
    qed
    have "sup_ok p (starts (inits s)) (sup s)"
      using inv by (cases "sup s") (auto simp: sys_inv_def st sl)
    moreover have "client_ok p (client s)" "shut_ok p (shut s)"
      using inv by (cases "client s"; auto simp: sys_inv_def sl)
        (use inv in \<open>cases "shut s"; auto simp: sys_inv_def st sl\<close>)
    ultimately show ?thesis
      using inv p' other starts by (auto simp: sys_inv_def list_all_iff intro: sup_ok_starts)
  next
    case (InitFinish i ob)
    with step t p show ?thesis
      by (intro finish) (auto simp: init_step_def started_def intro!: frame_update pool_inv_update_worker)
  next
    case (InitReady i)
    with step p show ?thesis
      by (intro finish) (auto simp: init_step_def pool_inv_set_ready [OF p] intro!: frame_same)
  qed (use step in \<open>simp_all add: init_step_def\<close>)
qed

lemma shut_step_inv:
  assumes inv: "sys_inv cfg n s" and step: "shut_step expired (sup s) (shut s) (pool s) = Some (hpc, p)"
  shows "sys_inv cfg n (s\<lparr>shut := hpc, pool := p\<rparr>)"
proof -
  have p: "pool_inv cfg n (pool s)" and t: "shut_ok (pool s) (shut s)"
    using inv by (auto simp: sys_inv_def)
  have "frame (pool s) p \<and> pool_inv cfg n p \<and> shut_ok (pool s) hpc"
  proof (cases "shut s")
    case ShutNone
    with step p show ?thesis
      by (auto simp: shut_step_def shutdown_begin_def pool_inv_def lists_ok_def counts_ok_def heap_ok_def slot_def
          intro!: frame_same)
  next
    case (ShutStop i)
    show ?thesis
    proof (cases "i < length (workers (pool s)) \<and> workers (pool s) ! i \<noteq> None")
      case True
      then obtain ob where i: "i < length (workers (pool s))" "workers (pool s) ! i = Some ob" by auto
      then have "slot (pool s) i ob" by (simp add: slot_def)
      with p have ob: "ob < length (heap (pool s))" by (rule slot_bound)
      have st: "started (pool s) ob" if "stop_waits (heap (pool s) ! ob)"
        using heap_ok_nth [OF p ob] that ob by (auto simp: started_def stop_waits_def worker_ok_def)
      from step ShutStop i have "p = update_worker ob stop_request (pool s)"
        by (simp add: shut_step_def Let_def split: if_splits)
      moreover have "shut_ok (pool s) hpc"
        using step ShutStop i ob st by (auto simp: shut_step_def Let_def split: if_splits)
      ultimately show ?thesis
        using p ob by (auto intro!: frame_update pool_inv_update_worker)
    qed (use step ShutStop p in \<open>auto simp: shut_step_def split: if_splits\<close>)
  next
    case (ShutWait i ob)
    with step t p show ?thesis
      by (auto simp: shut_step_def started_def intro!: frame_update pool_inv_update_worker split: if_splits)
  next
    case (ShutFinish i ob)
    with step t p show ?thesis
      by (auto simp: shut_step_def intro!: frame_update pool_inv_update_worker split: if_splits)
  qed (use step p in \<open>auto simp: shut_step_def split: if_splits\<close>)
  with sys_inv_frame [OF inv, of p] show ?thesis
    by (auto simp: sys_inv_def frame_shut_ok)
qed

text \<open>The supervisor's steps that leave every object and slot in place, and the two that
  move a worker out of its slot and put a new one in.\<close>

lemma sup_step_inv_frame:
  assumes inv: "sys_inv cfg n s" and step: "sup_step cfg expired (now s) (sup s) (pool s) = Some (spc, p, ts, replies, lost)"
    and frame: "frame (pool s) p" "pool_inv cfg n p" "ts = []" "sup_ok (pool s) (starts (inits s)) spc" "list_all request_ok lost"
  shows "sys_inv cfg n (s\<lparr>sup := spc, pool := p, inits := inits s @ ts,
      timeouts := timeouts s @ replies, dropped := dropped s @ lost\<rparr>)"
  using sys_inv_frame [OF inv frame(1,2)] frame frame_sup_ok [OF frame(1)]
  by (simp add: sys_inv_def)

lemma recover_current_ok: "recover_current force pending w = (reqs, replies) \<Longrightarrow> list_all request_ok pending \<Longrightarrow> list_all request_ok reqs"
  by (auto simp: recover_current_def Let_def request_ok_def new_request_def split: if_splits)

lemma retry_request_ok: "retry_request r = Some r' \<Longrightarrow> request_ok r'"
  by (auto simp: retry_request_def request_ok_def split: if_splits)

lemma monitored_slot: "monitored t i p = Some ob \<Longrightarrow> slot p i ob"
  by (auto simp: monitored_def slot_def split: if_splits option.splits)

lemma sup_prepare_inv:
  assumes inv: "sys_inv cfg n s" and sup: "sup s = SupPrepare i force"
    and prep: "prepare_worker_replacement cfg (now s) i (pool s) = (ctx, p)"
  shows "sys_inv cfg n (s\<lparr>sup := SupDrain i force ctx, pool := p\<rparr>)"
proof -
  have p: "pool_inv cfg n (pool s)" and i: "i < length (workers (pool s))" "i \<notin> set (starts (inits s))"
    "\<forall>ob. slot (pool s) i ob \<longrightarrow> started (pool s) ob"
    using inv sup by (auto simp: sys_inv_def)
  then have "i < n" by (simp add: pool_inv_def lists_ok_def)
  note prep = prepare_ok [OF p this prep]
  have st: "started p ob \<longleftrightarrow> started (pool s) ob" and slot: "j \<noteq> i \<Longrightarrow> slot p j ob \<longleftrightarrow> slot (pool s) j ob" for j ob
    by (auto simp: started_def slot_def prep)
  have "init_ok p t" if "t \<in> set (inits s)" for t
  proof (cases t)
    case (InitStart j)
    with that starts_mem [of j "inits s"] i have "j \<noteq> i" by auto
    with InitStart that inv show ?thesis by (auto simp: sys_inv_def list_all_iff st slot)
  qed (use that inv in \<open>auto simp: sys_inv_def list_all_iff st\<close>)
  moreover have "client_ok p (client s)" "shut_ok p (shut s)"
    using inv by (cases "client s"; auto simp: sys_inv_def prep)
      (use inv in \<open>cases "shut s"; auto simp: sys_inv_def st prep\<close>)
  moreover have "\<forall>ob. old_worker ctx = Some ob \<longrightarrow> started p ob"
    using i by (auto simp: prep(4) st slot_def)
  ultimately show ?thesis
    using inv i prep by (auto simp: sys_inv_def list_all_iff)
qed

lemma sup_spawn_inv:
  assumes inv: "sys_inv cfg n s" and sup: "sup s = SupSpawn i ctx reqs"
  shows "sys_inv cfg n (s\<lparr>sup := SupRoute i reqs, pool := spawn_replacement_worker (now s) i (pool s),
      inits := inits s @ [InitStart i]\<rparr>)"
proof -
  let ?p = "spawn_replacement_worker (now s) i (pool s)"
  have p: "pool_inv cfg n (pool s)" and i: "i < length (workers (pool s))" "i \<notin> set (starts (inits s))"
    using inv sup by (auto simp: sys_inv_def)
  then have "i < n" by (simp add: pool_inv_def lists_ok_def)
  note sp = spawn_ok [OF p this, of "now s"]
  have st: "started ?p ob \<longleftrightarrow> started (pool s) ob" for ob
    by (auto simp: started_def sp nth_append)
  have slot: "slot ?p j ob \<longleftrightarrow> (if j = i then ob = length (heap (pool s)) else slot (pool s) j ob)" for j ob
    using i by (auto simp: slot_def sp)
  have "init_ok ?p t" if "t \<in> set (inits s)" for t
  proof (cases t)
    case (InitStart j)
    with that starts_mem [of j "inits s"] i have "j \<noteq> i" by auto
    with InitStart that inv show ?thesis by (auto simp: sys_inv_def list_all_iff st slot)
  qed (use that inv in \<open>auto simp: sys_inv_def list_all_iff st\<close>)
  moreover have "init_ok ?p (InitStart i)"
    by (auto simp: slot started_def sp)
  moreover have "client_ok ?p (client s)" "shut_ok ?p (shut s)"
    using inv by (cases "client s"; auto simp: sys_inv_def sp)
      (use inv in \<open>cases "shut s"; auto simp: sys_inv_def st sp\<close>)
  moreover have "distinct (starts (inits s @ [InitStart i]))"
    using inv i by (auto simp: sys_inv_def starts_def)
  ultimately show ?thesis
    using inv sup sp by (auto simp: sys_inv_def list_all_iff)
qed

lemma sup_step_inv:
  assumes inv: "sys_inv cfg n s" and step: "sup_step cfg expired (now s) (sup s) (pool s) = Some (spc, p, ts, replies, lost)"
  shows "sys_inv cfg n (s\<lparr>sup := spc, pool := p, inits := inits s @ ts,
      timeouts := timeouts s @ replies, dropped := dropped s @ lost\<rparr>)"
proof -
  have p: "pool_inv cfg n (pool s)" and t: "sup_ok (pool s) (starts (inits s)) (sup s)"
    using inv by (auto simp: sys_inv_def)
  have n: "length (workers (pool s)) = n" using p by (simp add: pool_inv_def lists_ok_def)
  note keep = sup_step_inv_frame [OF inv step]
  show ?thesis
  proof (cases "sup s")
    case (SupScan i)
    with step p show ?thesis
      by (intro keep) (auto simp: sup_step_def split: if_splits option.splits dest: monitored_slot)
  next
    case (SupCheck i ob)
    with t have slot: "slot (pool s) i ob" by simp
    with p have ob: "ob < length (heap (pool s))" by (rule slot_bound)
    have ok: "i < length (workers (pool s)) \<and> i \<notin> set (starts (inits s)) \<and> (\<forall>ob'. slot (pool s) i ob' \<longrightarrow> started (pool s) ob')"
      if "replacement_reason cfg (now s) (heap (pool s) ! ob) = Some r" for r
    proof -
      have st: "started (pool s) ob"
        using not_fresh_replaced [OF that heap_ok_nth [OF p ob]] ob by (simp add: started_def)
      with slot have all: "\<forall>ob'. slot (pool s) i ob' \<longrightarrow> started (pool s) ob'" by (auto simp: slot_def)
      moreover have "i \<notin> set (starts (inits s))"
      proof
        assume i: "i \<in> set (starts (inits s))"
        have "\<forall>t\<in>set (inits s). init_ok (pool s) t"
          using inv by (simp add: sys_inv_def list_all_iff)
        moreover from i have "InitStart i \<in> set (inits s)"
          by (simp add: starts_mem)
        ultimately have "init_ok (pool s) (InitStart i)" by blast
        with all show False by auto
      qed
      ultimately show ?thesis using slot by (simp add: slot_def)
    qed
    with step p SupCheck show ?thesis
      by (intro keep) (auto simp: sup_step_def split: option.splits prod.splits)
  next
    case (SupMark i force)
    with t n have i: "i < n" by auto
    with step p t SupMark mark_not_ready_ok [OF p i] show ?thesis
      by (intro keep) (auto simp: sup_step_def intro!: frame_same split: if_splits prod.splits bool.splits)
  next
    case (SupPrepare i force)
    obtain ctx q where "prepare_worker_replacement cfg (now s) i (pool s) = (ctx, q)"
      by (cases "prepare_worker_replacement cfg (now s) i (pool s)")
    with sup_prepare_inv [OF inv SupPrepare this] step SupPrepare show ?thesis
      by (simp add: sup_step_def)
  next
    case (SupDrain i force ctx)
    with step t p show ?thesis
      by (intro keep) (auto simp: sup_step_def drain_eq started_def heap_ok_nth [OF p, unfolded worker_ok_def]
          intro!: frame_update pool_inv_update_worker split: option.splits)
  next
    case (SupCurrent i force ctx ob pending)
    with step t p show ?thesis
      by (intro keep) (auto simp: sup_step_def split: prod.splits dest: recover_current_ok)
  next
    case (SupStop i force ctx ob reqs)
    with step t p show ?thesis
      by (intro keep) (auto simp: sup_step_def Let_def started_def intro!: frame_update pool_inv_update_worker split: if_splits)
  next
    case (SupWait i ctx ob reqs)
    with step t p show ?thesis
      by (intro keep) (auto simp: sup_step_def started_def intro!: frame_update pool_inv_update_worker split: if_splits)
  next
    case (SupFinish i ctx ob reqs)
    with step t p show ?thesis
      by (intro keep) (auto simp: sup_step_def started_def intro!: frame_update pool_inv_update_worker split: if_splits)
  next
    case (SupSpawn i ctx reqs)
    show ?thesis
    proof (cases "max_attempts_reached ctx \<or> is_shutting_down (pool s)")
      case True
      with step t p SupSpawn show ?thesis
        by (intro keep) (auto simp: sup_step_def split: if_splits)
    next
      case False
      with sup_spawn_inv [OF inv SupSpawn] step SupSpawn show ?thesis
        by (simp add: sup_step_def)
    qed
  next
    case (SupRoute i reqs)
    with step t p show ?thesis
      by (intro keep) (auto simp: sup_step_def split: if_splits)
  next
    case (SupRedistribute i reqs)
    with step t p show ?thesis
      by (intro keep) (auto simp: sup_step_def split: list.splits option.splits dest: retry_request_ok)
  next
    case (SupDistribute i req rest)
    with step obtain r where choice: "distribute_choice (pool s) = Some (r, p)"
      by (auto simp: sup_step_def split: option.splits)
    with step t p SupDistribute distribute_choice_ok [OF p choice] show ?thesis
      by (intro keep) (auto simp: sup_step_def intro!: frame_same split: option.splits)
  next
    case (SupAdd i ob req rest)
    with step t p show ?thesis
      by (intro keep) (auto simp: sup_step_def intro!: frame_update pool_inv_update_worker)
  next
    case SupOff
    with step show ?thesis by (simp add: sup_step_def)
  qed
qed

lemma pool_step_inv: "pool_step cfg s s' \<Longrightarrow> sys_inv cfg n s \<Longrightarrow> sys_inv cfg n s'"
proof (induction rule: pool_step.induct)
  case (tick s t)
  then show ?case by (simp add: sys_inv_def)
next
  case (submit s d)
  then show ?case by (simp add: sys_inv_def request_ok_def new_request_def)
next
  case (loop ob s w)
  have p: "pool_inv cfg n (pool s)" using loop by (simp add: sys_inv_def)
  from loop_step_ok [OF loop(2) heap_ok_nth [OF p loop(1)]] have
    "frame (pool s) (update_worker ob (\<lambda>_. w) (pool s))" "pool_inv cfg n (update_worker ob (\<lambda>_. w) (pool s))"
    using p loop by (auto intro!: frame_update pool_inv_update_worker)
  with loop(3) show ?case by (rule sys_inv_frame)
qed (simp_all add: client_step_inv init_step_inv sup_step_inv shut_step_inv)

lemma initial_inv: "sys_inv cfg n (initial t n)"
proof -
  have "starts (map InitStart xs) = xs" for xs
    by (induction xs) (simp_all add: starts_def)
  then show ?thesis
    by (auto simp: sys_inv_def initial_def pool_inv_def lists_ok_def counts_ok_def heap_ok_def new_pool_def
        slot_def started_def list_all_iff count_true_replicate)
qed

interpretation pool_sys: invariant_system "\<lambda>s. \<exists>t. s = initial t n" "pool_step cfg" "sys_inv cfg n" for cfg n
  by unfold_locales (auto intro: initial_inv pool_step_inv)

lemma reachable_sys_inv: "(pool_step cfg)\<^sup>*\<^sup>* (initial t n) s \<Longrightarrow> sys_inv cfg n s"
  using pool_sys.reachable_inv by blast

subsection \<open>Round robin and recovery\<close>

fun take_workers :: "nat \<Rightarrow> pool \<Rightarrow> nat option list \<times> pool" where
  "take_workers 0 p = ([], p)"
| "take_workers (Suc k) p = (case get_ready_worker p of
     (r, p') \<Rightarrow> (case take_workers k p' of (rs, p'') \<Rightarrow> (r # rs, p'')))"

lemma take_workers_rotate:
  "\<not> is_shutting_down p \<Longrightarrow> ready_queue p = xs @ ys \<Longrightarrow> \<forall>i\<in>set (xs @ ys). slot_ready p i \<Longrightarrow>
     take_workers (length xs) p = (map ((!) (workers p)) xs, p\<lparr>ready_queue := ys @ xs\<rparr>)"
proof (induction xs arbitrary: p ys)
  case (Cons x xs)
  let ?p = "p\<lparr>ready_queue := xs @ ys @ [x]\<rparr>"
  have slot: "slot_ready ?p = slot_ready p"
    by (simp add: fun_eq_iff slot_ready_def worker_at_def)
  have "get_ready_worker p = (workers p ! x, ?p)"
    using Cons.prems by (simp add: get_ready_worker_def)
  moreover have "take_workers (length xs) ?p = (map ((!) (workers p)) xs, p\<lparr>ready_queue := (ys @ [x]) @ xs\<rparr>)"
    using Cons.IH [of ?p "ys @ [x]"] Cons.prems by (simp add: slot)
  ultimately show ?case by simp
qed simp

lemma unat_word_of_nat: "m < 2 ^ 64 \<Longrightarrow> unat (word_of_nat m :: 64 word) = m"
  by (simp only: unat_of_nat) simp

lemma backoff_product: "b * 2 ^ k < 2 ^ 64 \<Longrightarrow> unat (word_of_nat b * 2 ^ k :: 64 word) = b * 2 ^ k"
  using unat_word_of_nat [of "b * 2 ^ k"] by (simp only: of_nat_mult of_nat_power of_nat_numeral)

section \<open>Properties\<close>

text \<open>C37: In every state that any interleaving of the threads reaches, no more workers are marked
  ready than \<open>ready_count\<close> says, so the inconsistency that \<open>mark_worker_not_ready\<close> guards
  against never arises: it succeeds for every worker of the pool.\<close>

theorem ready_count_consistent:
  "(pool_step cfg)\<^sup>*\<^sup>* (initial t n) s \<Longrightarrow>
     int (count_true (ready_list (pool s))) \<le> ready_count (pool s) \<and>
     (i < n \<longrightarrow> fst (mark_worker_not_ready i (pool s)))"
  using mark_not_ready_ok(1) [of cfg n "pool s" i] reachable_sys_inv [of cfg t n s]
  by (auto simp: sys_inv_def pool_inv_def counts_ok_def)

text \<open>No initialising thread ever calls \<open>start\<close> through an empty slot: although the supervisor
  moves workers out of their slots without telling them, a slot whose worker has not been started yet
  is never replaced, in any interleaving.\<close>

theorem no_start_on_empty_slot:
  "(pool_step cfg)\<^sup>*\<^sup>* (initial t n) s \<Longrightarrow> InitCrash \<notin> set (inits s)"
  using reachable_sys_inv [of cfg t n s] by (auto simp: sys_inv_def list_all_iff)

text \<open>C38: In every reachable state no queued request has been routed again more than
  \<open>kMaxRequestRetries\<close> times, and no slot has been replaced more often in a row than the
  configuration allows.\<close>

theorem retries_bounded:
  "(pool_step cfg)\<^sup>*\<^sup>* (initial t n) s \<Longrightarrow>
     (\<forall>w\<in>set (heap (pool s)). \<forall>r\<in>set (request_queue w). retry_count r \<le> kMaxRequestRetries) \<and>
     (\<forall>a\<in>set (replacement_attempts (pool s)). a \<le> max_replace_attempts cfg)"
  using reachable_sys_inv [of cfg t n s]
  by (auto simp: sys_inv_def pool_inv_def counts_ok_def heap_ok_def worker_ok_def list_all_iff request_ok_def)

text \<open>Round robin: while every queued worker is ready, as many calls of \<open>get_ready_worker\<close> as
  the queue is long return each queued worker once, in order, and leave the queue as it was.\<close>

theorem round_robin:
  "\<not> is_shutting_down p \<Longrightarrow> \<forall>i\<in>set (ready_queue p). slot_ready p i \<Longrightarrow>
     take_workers (length (ready_queue p)) p = (map ((!) (workers p)) (ready_queue p), p)"
  using take_workers_rotate [of p "ready_queue p" "[]"] by simp

text \<open>A request whose processing throws is recovered behind the requests that were still
  waiting, with its retry count reset, so it is routed again however often it has been tried before:
  the limit on retries never stops the request that makes its worker fail.\<close>

theorem crashing_request_is_retried_forever:
  "data r \<noteq> [] \<Longrightarrow>
     (case drain_pending_requests (loop_thrown t (loop_track r w)) of (pending, w') \<Rightarrow>
        recover_current False pending w' = (request_queue w @ [new_request (data r) 0], []) \<and>
        retry_request (new_request (data r) 0) = Some (new_request (data r) 1) \<and>
        wstate w' = Faulted)"
  by (simp add: drain_eq loop_track_def loop_thrown_def update_heartbeat_def recover_current_def
      get_current_request_def retry_request_def new_request_def kMaxRequestRetries_def)

text \<open>The delay before the next replacement doubles with every attempt up to the configured
  maximum, as long as the product fits into 64 bits.\<close>

theorem backoff_doubles:
  "base_replace_backoff cfg * 2 ^ k < 2 ^ 64 \<Longrightarrow>
     backoff cfg (Suc k) = min (base_replace_backoff cfg * 2 ^ k) (max_replace_backoff cfg)"
  using backoff_product [of "base_replace_backoff cfg" k]
  by (simp add: backoff_def Let_def push_bit_eq_mult min_def)

text \<open>A worker that nobody asked to stop is only ever replaced because it faulted or because
  it has been busy for longer than the timeout; the branch for an unexpected exit is never taken,
  since an exited worker always counts as asked to stop.\<close>

theorem replacement_reasons:
  "replacement_reason cfg t w = (if wstate w = Faulted then Some (''fault'', False)
     else if wstate w = Running \<and> 0 < request_timeout cfg \<and> request_timeout cfg < t - last_heartbeat_ms w \<and> last_heartbeat_ms w < t
     then Some (''heartbeat timeout'', True) else None)"
  by (auto simp: replacement_reason_def is_stop_requested_def)

section \<open>Witnesses\<close>

definition example_config :: config where
  "example_config = new_config 0 3 200 5000"

definition example_state :: sys where
  "example_state = initial 0 2\<lparr>now := 7, client := ClientDistribute (new_request ''r'' 0)\<rparr>"

lemma example_reachable: "(pool_step example_config)\<^sup>*\<^sup>* (initial 0 2) example_state"
proof -
  have "pool_step example_config (initial 0 2) (initial 0 2\<lparr>now := 7\<rparr>)"
    by (rule pool_step.tick) (simp add: initial_def)
  moreover have "pool_step example_config (initial 0 2\<lparr>now := 7\<rparr>)
      (initial 0 2\<lparr>now := 7, client := ClientDistribute (new_request ''r'' 0)\<rparr>)"
    by (rule pool_step.submit) (simp add: initial_def)
  ultimately show ?thesis
    unfolding example_state_def by (meson converse_rtranclp_into_rtranclp rtranclp.rtrancl_refl)
qed

lemma ready_count_consistent_witness:
  "int (count_true (ready_list (pool example_state))) \<le> ready_count (pool example_state) \<and>
   fst (mark_worker_not_ready 1 (pool example_state))"
  using ready_count_consistent [OF example_reachable, of 1] by simp

lemma no_start_on_empty_slot_witness: "InitCrash \<notin> set (inits example_state)"
  by (rule no_start_on_empty_slot [OF example_reachable])

lemma retries_bounded_witness:
  "list_all (\<lambda>a. a \<le> 3) (replacement_attempts (pool example_state))"
  using retries_bounded [OF example_reachable] by (simp add: list_all_iff example_config_def new_config_def)

definition example_pool :: pool where
  "example_pool = new_pool 0 2\<lparr>heap := map (\<lambda>i. new_worker 0 (int i)\<lparr>wstate := Idle\<rparr>) [0..<2],
     ready_queue := [1, 0], ready_count := 2\<rparr>"

lemma example_pool_simps:
  "ready_queue example_pool = [1, 0]" "\<not> is_shutting_down example_pool"
  "workers example_pool = [Some 0, Some 1]"
  "slot_ready example_pool 0" "slot_ready example_pool 1"
  by (simp_all add: example_pool_def new_pool_def slot_ready_def worker_at_def is_ready_def new_worker_def upt_rec)

lemma round_robin_witness: "take_workers 2 example_pool = ([Some 1, Some 0], example_pool)"
  using round_robin [of example_pool] example_pool_simps
  by (simp add: numeral_2_eq_2 del: take_workers.simps)

lemma crashing_request_witness:
  "(case drain_pending_requests (loop_thrown 9 (loop_track (new_request ''bad'' 2) (new_worker 0 0))) of (pending, w') \<Rightarrow>
     recover_current False pending w' = ([new_request ''bad'' 0], []))"
  using crashing_request_is_retried_forever [where r = "new_request ''bad'' 2" and t = 9 and w = "new_worker 0 0"]
  by (auto simp: new_request_def new_worker_def split: prod.splits)

lemma backoff_doubles_witness: "backoff example_config 3 = 800"
  using backoff_doubles [of example_config 2]
  by (simp add: example_config_def new_config_def numeral_3_eq_3)

end
