(* ===== verification/Json.thy ===== *)
theory Json
  imports Prelude
begin

text \<open>
  The dynamic JSON values of \<open>zjson.hpp\<close>: the \<open>Value\<close> class with its accessors, the
  conversions of the basic types with their range checks, the renaming styles, and the text
  helpers that escape, unescape and indent.

  A double is its IEEE value: not a number, an infinity, or \<open>Fin m e\<close> for \<open>m * 2 ^ e\<close>.
  Formatting a double, rounding an integer to one, and the undefined cast of an integral double
  outside the integer's range are the C++ implementation's, and are arguments (\<open>fp\<close>).
  An object is an association list: its order is the map's iteration order.
\<close>

section \<open>Errors\<close>

datatype error_kind = InvalidValue | InvalidType | InvalidLength | InvalidData | MissingField | UnknownField | Custom

record error =
  kind :: error_kind
  what :: string

type_synonym 'a expected = "error + 'a"

definition mk_error :: "error_kind \<Rightarrow> string \<Rightarrow> error" where
  "mk_error k message = \<lparr>kind = k, what = message\<rparr>"

definition invalid_value :: "string \<Rightarrow> error" where
  "invalid_value msg = mk_error InvalidValue (''Invalid value: '' @ msg)"

definition invalid_type :: "string \<Rightarrow> string \<Rightarrow> error" where
  "invalid_type expctd found = mk_error InvalidType (''Invalid type. Expected '' @ expctd @ '', found '' @ found)"

definition missing_field :: "string \<Rightarrow> error" where
  "missing_field field = mk_error MissingField (''Missing field: '' @ field)"

definition unknown_field :: "string \<Rightarrow> error" where
  "unknown_field field = mk_error UnknownField (''Unknown field: '' @ field)"

definition invalid_data :: "string \<Rightarrow> error" where
  "invalid_data msg = mk_error InvalidData (''Invalid data: '' @ msg)"

section \<open>Values\<close>

datatype double = NaN | Infinite bool | Fin int int

datatype jvalue =
    JNull
  | JBool bool
  | JInteger int
  | JDouble double
  | JString string
  | JArray "jvalue list"
  | JObject "(string \<times> jvalue) list"

datatype value_type = TNull | TBool | TNumber | TString | TArray | TObject

record fp =
  fp_show :: "double \<Rightarrow> string"
  fp_of_int :: "int \<Rightarrow> double"
  fp_cast :: "double \<Rightarrow> int"

definition llong_max :: int where "llong_max = 2 ^ 63 - 1"
definition llong_min :: int where "llong_min = - (2 ^ 63)"
definition ullong_max :: int where "ullong_max = 2 ^ 64 - 1"

text \<open>Comparisons of a finite double with an integer, and whether it is integral, exactly.\<close>

definition fin_integral :: "int \<Rightarrow> int \<Rightarrow> bool" where
  "fin_integral m e \<longleftrightarrow> e \<ge> 0 \<or> 2 ^ nat (- e) dvd m"

definition fin_int :: "int \<Rightarrow> int \<Rightarrow> int" where
  "fin_int m e = (if e \<ge> 0 then m * 2 ^ nat e else m div 2 ^ nat (- e))"

definition fin_greater :: "int \<Rightarrow> int \<Rightarrow> int \<Rightarrow> bool" where
  "fin_greater m e k = (if e \<ge> 0 then m * 2 ^ nat e > k else m > k * 2 ^ nat (- e))"

definition fin_less :: "int \<Rightarrow> int \<Rightarrow> int \<Rightarrow> bool" where
  "fin_less m e k = (if e \<ge> 0 then m * 2 ^ nat e < k else m < k * 2 ^ nat (- e))"

definition create_object :: jvalue where "create_object = JObject []"
definition create_array :: jvalue where "create_array = JArray []"

definition value_of_int :: "int \<Rightarrow> jvalue" where
  "value_of_int i = JInteger i"

definition value_of_ull :: "fp \<Rightarrow> int \<Rightarrow> jvalue" where
  "value_of_ull fp ull = (if ull \<le> llong_max then JInteger ull else JDouble (fp_of_int fp ull))"

fun get_type :: "jvalue \<Rightarrow> value_type" where
  "get_type JNull = TNull"
| "get_type (JBool b) = TBool"
| "get_type (JInteger i) = TNumber"
| "get_type (JDouble d) = TNumber"
| "get_type (JString s) = TString"
| "get_type (JArray vs) = TArray"
| "get_type (JObject kvs) = TObject"

fun type_name :: "jvalue \<Rightarrow> string" where
  "type_name v = (case get_type v of TNull \<Rightarrow> ''null'' | TBool \<Rightarrow> ''bool'' | TNumber \<Rightarrow> ''number''
     | TString \<Rightarrow> ''string'' | TArray \<Rightarrow> ''array'' | TObject \<Rightarrow> ''object'')"

definition is_null :: "jvalue \<Rightarrow> bool" where "is_null v = (case v of JNull \<Rightarrow> True | _ \<Rightarrow> False)"
definition is_bool :: "jvalue \<Rightarrow> bool" where "is_bool v = (case v of JBool _ \<Rightarrow> True | _ \<Rightarrow> False)"
definition is_integer :: "jvalue \<Rightarrow> bool" where "is_integer v = (case v of JInteger _ \<Rightarrow> True | _ \<Rightarrow> False)"
definition is_double :: "jvalue \<Rightarrow> bool" where "is_double v = (case v of JDouble _ \<Rightarrow> True | _ \<Rightarrow> False)"
definition is_string :: "jvalue \<Rightarrow> bool" where "is_string v = (case v of JString _ \<Rightarrow> True | _ \<Rightarrow> False)"
definition is_array :: "jvalue \<Rightarrow> bool" where "is_array v = (case v of JArray _ \<Rightarrow> True | _ \<Rightarrow> False)"
definition is_object :: "jvalue \<Rightarrow> bool" where "is_object v = (case v of JObject _ \<Rightarrow> True | _ \<Rightarrow> False)"

lemmas is_defs = is_null_def is_bool_def is_integer_def is_double_def is_string_def is_array_def is_object_def

section \<open>Checked access\<close>

definition as_bool :: "jvalue \<Rightarrow> bool expected" where
  "as_bool v = (case v of JBool b \<Rightarrow> Ok b | _ \<Rightarrow> Throw (invalid_type ''bool'' (type_name v)))"

definition as_int64 :: "fp \<Rightarrow> jvalue \<Rightarrow> int expected" where
  "as_int64 fp v = (case v of
     JInteger i \<Rightarrow> Ok i
   | JDouble d \<Rightarrow> (let s = fp_show fp d in case d of
        NaN \<Rightarrow> Throw (invalid_value (''Cannot convert floating-point number '' @ s @ '' to int64''))
      | Infinite _ \<Rightarrow> Throw (invalid_value (''Number is not finite: '' @ s))
      | Fin m e \<Rightarrow>
          (if \<not> fin_integral m e then Throw (invalid_value (''Cannot convert floating-point number '' @ s @ '' to int64''))
           else if fin_greater m e (2 ^ 63) \<or> fin_less m e llong_min
           then Throw (invalid_value (''Number '' @ s @ '' overflows long long range''))
           else if llong_min \<le> fin_int m e \<and> fin_int m e \<le> llong_max then Ok (fin_int m e)
           else Ok (fp_cast fp d)))
   | _ \<Rightarrow> Throw (invalid_type ''number'' (type_name v)))"

definition as_uint64 :: "fp \<Rightarrow> jvalue \<Rightarrow> int expected" where
  "as_uint64 fp v = (case v of
     JInteger i \<Rightarrow> (if i < 0 then Throw (invalid_value (''Cannot convert negative number '' @ show_int i @ '' to uint64''))
                    else Ok i)
   | JDouble d \<Rightarrow> (let s = fp_show fp d in case d of
        NaN \<Rightarrow> Throw (invalid_value (''Cannot convert floating-point number '' @ s @ '' to uint64''))
      | Infinite neg \<Rightarrow>
          (if neg then Throw (invalid_value (''Cannot convert negative number '' @ s @ '' to uint64''))
           else Throw (invalid_value (''Number is not finite: '' @ s)))
      | Fin m e \<Rightarrow>
          (if fin_less m e 0 then Throw (invalid_value (''Cannot convert negative number '' @ s @ '' to uint64''))
           else if \<not> fin_integral m e then Throw (invalid_value (''Cannot convert floating-point number '' @ s @ '' to uint64''))
           else if fin_greater m e (2 ^ 64) then Throw (invalid_value (''Number '' @ s @ '' overflows unsigned long long range''))
           else if fin_int m e \<le> ullong_max then Ok (fin_int m e)
           else Ok (fp_cast fp d)))
   | _ \<Rightarrow> Throw (invalid_type ''number'' (type_name v)))"

definition as_double :: "fp \<Rightarrow> jvalue \<Rightarrow> double expected" where
  "as_double fp v = (case v of
     JDouble d \<Rightarrow> (case d of Fin m e \<Rightarrow> Ok d | _ \<Rightarrow> Throw (invalid_value (''Number is not finite: '' @ fp_show fp d)))
   | JInteger i \<Rightarrow> Ok (fp_of_int fp i)
   | _ \<Rightarrow> Throw (invalid_type ''number'' (type_name v)))"

definition as_string :: "jvalue \<Rightarrow> string expected" where
  "as_string v = (case v of JString s \<Rightarrow> Ok s | _ \<Rightarrow> Throw (invalid_type ''string'' (type_name v)))"

definition as_array :: "jvalue \<Rightarrow> jvalue list expected" where
  "as_array v = (case v of JArray vs \<Rightarrow> Ok vs | _ \<Rightarrow> Throw (invalid_type ''array'' (type_name v)))"

definition as_object :: "jvalue \<Rightarrow> jvalue smap expected" where
  "as_object v = (case v of JObject kvs \<Rightarrow> Ok kvs | _ \<Rightarrow> Throw (invalid_type ''object'' (type_name v)))"

section \<open>Updates and indexing\<close>

definition add_to_object :: "string \<Rightarrow> jvalue \<Rightarrow> jvalue \<Rightarrow> jvalue expected" where
  "add_to_object key x v = (case v of JObject kvs \<Rightarrow> Ok (JObject (AList.update key x kvs))
     | _ \<Rightarrow> Throw (invalid_type ''object'' ''other''))"

definition add_to_array :: "jvalue \<Rightarrow> jvalue \<Rightarrow> jvalue expected" where
  "add_to_array x v = (case v of JArray vs \<Rightarrow> Ok (JArray (vs @ [x]))
     | _ \<Rightarrow> Throw (invalid_type ''array'' ''other''))"

text \<open>The non-const \<open>operator[]\<close>: a null becomes an empty container, a missing entry is
  created null.  The result is the jvalue after the access and the entry referred to.\<close>

definition entry_ref :: "string \<Rightarrow> jvalue \<Rightarrow> (jvalue \<times> jvalue) expected" where
  "entry_ref key v = (let v = (if is_null v then JObject [] else v) in
     case v of
       JObject kvs \<Rightarrow> (case map_of kvs key of
            Some x \<Rightarrow> Ok (v, x)
          | None \<Rightarrow> Ok (JObject (AList.update key JNull kvs), JNull))
     | _ \<Rightarrow> Throw (invalid_type ''object'' (type_name v)))"

definition entry :: "string \<Rightarrow> jvalue \<Rightarrow> jvalue expected" where
  "entry key v = (case v of
     JObject kvs \<Rightarrow> Ok (case map_of kvs key of None \<Rightarrow> JNull | Some x \<Rightarrow> x)
   | _ \<Rightarrow> Throw (invalid_type ''object'' (type_name v)))"

definition element_ref :: "nat \<Rightarrow> jvalue \<Rightarrow> (jvalue \<times> jvalue) expected" where
  "element_ref index v = (let v = (if is_null v then JArray [] else v) in
     case v of
       JArray vs \<Rightarrow> (let vs = (if index \<ge> length vs then vs @ replicate (index + 1 - length vs) JNull else vs)
                     in Ok (JArray vs, vs ! index))
     | _ \<Rightarrow> Throw (invalid_type ''array'' (type_name v)))"

definition element :: "nat \<Rightarrow> jvalue \<Rightarrow> jvalue expected" where
  "element index v = (case v of
     JArray vs \<Rightarrow> Ok (if index \<ge> length vs then JNull else vs ! index)
   | _ \<Rightarrow> Throw (invalid_type ''array'' (type_name v)))"

text \<open>\<open>v[key] = x\<close> and \<open>v[index] = x\<close>.\<close>

definition set_entry :: "string \<Rightarrow> jvalue \<Rightarrow> jvalue \<Rightarrow> jvalue expected" where
  "set_entry key x v = bind_res (entry_ref key v) (\<lambda>(v, _). add_to_object key x v)"

definition set_element :: "nat \<Rightarrow> jvalue \<Rightarrow> jvalue \<Rightarrow> jvalue expected" where
  "set_element index x v = bind_res (element_ref index v) (\<lambda>(v, _).
     case v of JArray vs \<Rightarrow> Ok (JArray (vs[index := x])) | _ \<Rightarrow> Ok v)"

section \<open>Conversions of the basic types\<close>

definition deserialize_int :: "fp \<Rightarrow> jvalue \<Rightarrow> int expected" where
  "deserialize_int fp v = bind_res (as_int64 fp v) (\<lambda>val.
     if val > 2 ^ 31 - 1 \<or> val < - (2 ^ 31)
     then Throw (invalid_value (''Number '' @ show_int val @ '' overflows int range'')) else Ok val)"

definition deserialize_uint :: "fp \<Rightarrow> jvalue \<Rightarrow> int expected" where
  "deserialize_uint fp v = bind_res (as_uint64 fp v) (\<lambda>val.
     if val > 2 ^ 32 - 1
     then Throw (invalid_value (''Number '' @ show_int val @ '' overflows unsigned int range'')) else Ok val)"

fun deserialize_vector_loop :: "(jvalue \<Rightarrow> 'a expected) \<Rightarrow> jvalue list \<Rightarrow> 'a list \<Rightarrow> 'a list expected" where
  "deserialize_vector_loop f [] acc = Ok acc"
| "deserialize_vector_loop f (x # rest) acc =
     bind_res (f x) (\<lambda>y. deserialize_vector_loop f rest (acc @ [y]))"

definition deserialize_vector :: "(jvalue \<Rightarrow> 'a expected) \<Rightarrow> jvalue \<Rightarrow> 'a list expected" where
  "deserialize_vector f v = (if \<not> is_array v then Throw (invalid_type ''array'' ''other'')
     else bind_res (as_array v) (\<lambda>vs. deserialize_vector_loop f vs []))"

fun serialize_vector_loop :: "('a \<Rightarrow> jvalue) \<Rightarrow> 'a list \<Rightarrow> jvalue \<Rightarrow> jvalue expected" where
  "serialize_vector_loop f [] acc = Ok acc"
| "serialize_vector_loop f (item # rest) acc =
     bind_res (add_to_array (f item) acc) (serialize_vector_loop f rest)"

definition serialize_vector :: "('a \<Rightarrow> jvalue) \<Rightarrow> 'a list \<Rightarrow> jvalue expected" where
  "serialize_vector f xs = serialize_vector_loop f xs create_array"

definition serialize_optional :: "('a \<Rightarrow> jvalue) \<Rightarrow> 'a option \<Rightarrow> jvalue" where
  "serialize_optional f x = (case x of Some a \<Rightarrow> f a | None \<Rightarrow> JNull)"

definition deserialize_optional :: "(jvalue \<Rightarrow> 'a expected) \<Rightarrow> jvalue \<Rightarrow> 'a option expected" where
  "deserialize_optional f v = (if is_null v then Ok None else map_sum id Some (f v))"

section \<open>Renaming styles\<close>

datatype case_style = StyleNone | Lowercase | Uppercase | PascalCase | CamelCase | SnakeCase
  | ScreamingSnakeCase | KebabCase | ScreamingKebabCase

fun camel_loop :: "bool \<Rightarrow> string \<Rightarrow> string" where
  "camel_loop capitalize_next [] = []"
| "camel_loop capitalize_next (c # cs) =
     (if c = CHR ''_'' then camel_loop True cs
      else if capitalize_next then to_upper c # camel_loop False cs
      else to_lower c # camel_loop False cs)"

definition transform_name :: "string \<Rightarrow> case_style \<Rightarrow> string" where
  "transform_name name style = (case style of
     StyleNone \<Rightarrow> name
   | Lowercase \<Rightarrow> map to_lower name
   | Uppercase \<Rightarrow> map to_upper name
   | SnakeCase \<Rightarrow> name
   | CamelCase \<Rightarrow> camel_loop False name
   | PascalCase \<Rightarrow> (case camel_loop False name of [] \<Rightarrow> [] | c # cs \<Rightarrow> to_upper c # cs)
   | ScreamingSnakeCase \<Rightarrow> map to_upper name
   | KebabCase \<Rightarrow> map (\<lambda>c. if c = CHR ''_'' then CHR ''-'' else to_lower c) name
   | ScreamingKebabCase \<Rightarrow> map (\<lambda>c. if c = CHR ''_'' then CHR ''-'' else to_upper c) name)"

section \<open>String escapes\<close>

text \<open>The case labels of the escape sequences, by their code points; which characters
  \<open>iscntrl\<close> takes for control characters is an argument.\<close>

definition backslash :: char where "backslash = CHR 0x5C"
definition quote :: char where "quote = CHR 0x22"

definition hex_digit :: "nat \<Rightarrow> char" where
  "hex_digit n = (if n < 10 then char_of (48 + n) else char_of (87 + n))"

definition escape_char :: "(char \<Rightarrow> bool) \<Rightarrow> char \<Rightarrow> string" where
  "escape_char cntrl c =
     (if c = quote then [backslash, quote]
      else if c = backslash then [backslash, backslash]
      else if c = CHR 0x08 then [backslash, CHR ''b'']
      else if c = CHR 0x0C then [backslash, CHR ''f'']
      else if c = CHR 0x0A then [backslash, CHR ''n'']
      else if c = CHR 0x0D then [backslash, CHR ''r'']
      else if c = CHR 0x09 then [backslash, CHR ''t'']
      else if cntrl c then
        (let n = unat (byte_of c) in [backslash, CHR ''u'', CHR ''0'', CHR ''0'', hex_digit (n div 16), hex_digit (n mod 16)])
      else [c])"

definition escape_json_string :: "(char \<Rightarrow> bool) \<Rightarrow> string \<Rightarrow> string" where
  "escape_json_string cntrl input = concat (map (escape_char cntrl) input)"

text \<open>\<open>strtoul\<close> with base 16: white space, a sign, a prefix, digits; nothing when there is
  no digit.\<close>

definition hex_value :: "char \<Rightarrow> nat option" where
  "hex_value c = (if is_digit c then Some (code c - 48)
     else if 97 \<le> code c \<and> code c \<le> 102 then Some (code c - 87)
     else if 65 \<le> code c \<and> code c \<le> 70 then Some (code c - 55)
     else None)"

fun hex_digits :: "nat \<Rightarrow> string \<Rightarrow> nat" where
  "hex_digits acc [] = acc"
| "hex_digits acc (c # cs) = (case hex_value c of None \<Rightarrow> acc | Some d \<Rightarrow> hex_digits (16 * acc + d) cs)"

definition is_space :: "char \<Rightarrow> bool" where
  "is_space c \<longleftrightarrow> code c = 32 \<or> 9 \<le> code c \<and> code c \<le> 13"

definition starts_hex :: "string \<Rightarrow> bool" where
  "starts_hex s = (case s of [] \<Rightarrow> False | c # cs \<Rightarrow> hex_value c \<noteq> None)"

definition drop_prefix :: "string \<Rightarrow> string" where
  "drop_prefix s = (case s of
     a # b # cs \<Rightarrow> (if a = CHR ''0'' \<and> (b = CHR ''x'' \<or> b = CHR ''X'') \<and> starts_hex cs then cs else s)
   | _ \<Rightarrow> s)"

definition strtoul16 :: "string \<Rightarrow> nat option" where
  "strtoul16 str = (let s = dropWhile is_space (takeWhile (\<lambda>c. c \<noteq> CHR 0x00) str);
     (neg, s) = (case s of c # cs \<Rightarrow> (if c = CHR ''-'' then (True, cs) else if c = CHR ''+'' then (False, cs) else (False, s))
                 | [] \<Rightarrow> (False, s));
     s = drop_prefix s
   in if \<not> starts_hex s then None
      else (let v = hex_digits 0 s in Some (if neg then (2 ^ 64 - v) mod 2 ^ 64 else v)))"

function unescape_json_string :: "string \<Rightarrow> string" where
  "unescape_json_string [] = []"
| "unescape_json_string [c] = [c]"
| "unescape_json_string (c # d # rest) =
     (if c \<noteq> backslash then c # unescape_json_string (d # rest)
      else if d = quote then quote # unescape_json_string rest
      else if d = backslash then backslash # unescape_json_string rest
      else if d = CHR ''/'' then CHR ''/'' # unescape_json_string rest
      else if d = CHR ''b'' then CHR 0x08 # unescape_json_string rest
      else if d = CHR ''f'' then CHR 0x0C # unescape_json_string rest
      else if d = CHR ''n'' then CHR 0x0A # unescape_json_string rest
      else if d = CHR ''r'' then CHR 0x0D # unescape_json_string rest
      else if d = CHR ''t'' then CHR 0x09 # unescape_json_string rest
      else if d = CHR ''u'' then
        (if length rest \<ge> 4 then
           (let hex = take 4 rest in
            (case strtoul16 hex of
               Some val \<Rightarrow> (if val < 256 then [char_of_byte (word_of_nat val)] else [backslash, CHR ''u''] @ hex)
             | None \<Rightarrow> [backslash, CHR ''u''] @ hex) @ unescape_json_string (drop 4 rest))
         else [backslash, CHR ''u''] @ unescape_json_string rest)
      else [backslash, d] @ unescape_json_string rest)"
  by pat_completeness auto
termination
  by (relation "measure length") auto

declare unescape_json_string.simps [simp del]

section \<open>Indentation\<close>

text \<open>Appending a negative number of blanks throws, which is \<open>None\<close>.\<close>

definition blanks :: "int \<Rightarrow> string option" where
  "blanks n = (if n < 0 then None else Some (replicate (nat n) (CHR '' '')))"

definition opens :: "char \<Rightarrow> bool" where
  "opens ch \<longleftrightarrow> ch = CHR ''{'' \<or> ch = CHR ''[''"

definition closes :: "char \<Rightarrow> bool" where
  "closes ch \<longleftrightarrow> ch = CHR ''}'' \<or> ch = CHR '']''"

text \<open>What a character outside string literals appends, and the level behind it.\<close>

definition layout :: "int \<Rightarrow> int \<Rightarrow> char \<Rightarrow> (string \<times> int) option" where
  "layout spaces level ch =
     (if opens ch then
        map_option (\<lambda>b. ([ch, newline] @ b, level + 1)) (blanks ((level + 1) * spaces))
      else if closes ch then
        map_option (\<lambda>b. (newline # b @ [ch], level - 1)) (blanks ((level - 1) * spaces))
      else if ch = CHR '','' then map_option (\<lambda>b. ([ch, newline] @ b, level)) (blanks (level * spaces))
      else if ch = CHR '':'' then Some ([ch, CHR '' ''], level)
      else Some ([ch], level))"

fun indent_loop :: "int \<Rightarrow> int \<Rightarrow> bool \<Rightarrow> bool \<Rightarrow> string \<Rightarrow> string option" where
  "indent_loop spaces level in_string escape_next [] = Some []"
| "indent_loop spaces level in_string escape_next (ch # rest) =
     (if escape_next then map_option ((#) ch) (indent_loop spaces level in_string False rest)
      else if ch = backslash \<and> in_string then map_option ((#) ch) (indent_loop spaces level in_string True rest)
      else if ch = quote then map_option ((#) ch) (indent_loop spaces level (\<not> in_string) False rest)
      else if \<not> in_string then
        (case layout spaces level ch of
           None \<Rightarrow> None
         | Some (app, level') \<Rightarrow> map_option ((@) app) (indent_loop spaces level' in_string False rest))
      else map_option ((#) ch) (indent_loop spaces level in_string False rest))"

definition add_json_indentation :: "string \<Rightarrow> int \<Rightarrow> string option" where
  "add_json_indentation json_str spaces = indent_loop spaces 0 False False json_str"

section \<open>Lemmas on text\<close>

lemma unescape_plain: "c \<noteq> backslash \<Longrightarrow> unescape_json_string (c # cs) = c # unescape_json_string cs"
  by (cases cs) (simp_all add: unescape_json_string.simps)

lemma char_of_eq: "m < 256 \<Longrightarrow> n < 256 \<Longrightarrow> char_of m = (char_of n :: char) \<longleftrightarrow> m = (n::nat)"
  by (metis code_char_of mod_less)

lemma hex_value_digit: "n < 16 \<Longrightarrow> hex_value (hex_digit n) = Some n"
  by (auto simp: hex_value_def hex_digit_def is_digit_def)

lemma hex_digit_code: "n < 16 \<Longrightarrow> code (hex_digit n) = (if n < 10 then 48 + n else 87 + n)"
  by (simp add: hex_digit_def)

lemma hex_value_zero: "hex_value (CHR ''0'') = Some 0"
  by (simp add: hex_value_def is_digit_def code_def)

lemma strtoul16_byte:
  assumes "n < 256"
  shows "strtoul16 [CHR ''0'', CHR ''0'', hex_digit (n div 16), hex_digit (n mod 16)] = Some n"
proof -
  have d: "n div 16 < 16" "n mod 16 < 16" using assms by auto
  have nz: "hex_digit k \<noteq> CHR 0x00" if "k < 16" for k
  proof
    assume "hex_digit k = CHR 0x00"
    with hex_digit_code [OF that] have "(if k < 10 then 48 + k else 87 + k) = code (CHR 0x00)" by simp
    then show False by (simp add: code_def split: if_splits)
  qed
  have sp: "\<not> is_space (CHR ''0'')" by (simp add: is_space_def code_def)
  have "hex_digits 0 [CHR ''0'', CHR ''0'', hex_digit (n div 16), hex_digit (n mod 16)] = n"
    using d by (simp add: hex_value_zero hex_value_digit)
  with d nz sp show ?thesis
    by (simp add: strtoul16_def Let_def drop_prefix_def starts_hex_def hex_value_zero)
qed

lemma unescape_escape_char: "unescape_json_string (escape_char cntrl c @ rest) = c # unescape_json_string rest"
proof -
  have ne: "CHR ''u'' \<noteq> quote" "CHR ''u'' \<noteq> backslash" "CHR ''b'' \<noteq> quote" "CHR ''b'' \<noteq> backslash"
    "CHR ''f'' \<noteq> quote" "CHR ''f'' \<noteq> backslash" "CHR ''n'' \<noteq> quote" "CHR ''n'' \<noteq> backslash"
    "CHR ''r'' \<noteq> quote" "CHR ''r'' \<noteq> backslash" "CHR ''t'' \<noteq> quote" "CHR ''t'' \<noteq> backslash" "quote \<noteq> backslash"
    by (simp_all add: quote_def backslash_def)
  have b: "unat (byte_of c) < 256"
    using unsigned_less [of "byte_of c", where ?'a = nat] by simp
  show ?thesis
    using strtoul16_byte [OF b] b
    by (simp add: escape_char_def Let_def unescape_json_string.simps(3) ne unescape_plain)
qed

lemma unescape_escape: "unescape_json_string (escape_json_string cntrl s) = s"
  by (induction s) (simp_all add: escape_json_string_def unescape_escape_char unescape_json_string.simps(1))

text \<open>The text without the blanks and line ends outside string literals.\<close>

fun strip :: "bool \<Rightarrow> bool \<Rightarrow> string \<Rightarrow> string" where
  "strip in_string escape_next [] = []"
| "strip in_string escape_next (ch # rest) =
     (if escape_next then ch # strip in_string False rest
      else if ch = backslash \<and> in_string then ch # strip in_string True rest
      else if ch = quote then ch # strip (\<not> in_string) False rest
      else if \<not> in_string \<and> (ch = CHR '' '' \<or> ch = newline) then strip in_string False rest
      else ch # strip in_string False rest)"

text \<open>No bracket outside a string literal closes one that is not open.\<close>

definition bracket_level :: "nat \<Rightarrow> char \<Rightarrow> nat option" where
  "bracket_level level ch =
     (if opens ch then Some (Suc level)
      else if closes ch then (if level > 0 then Some (level - 1) else None)
      else Some level)"

fun brackets_ok :: "nat \<Rightarrow> bool \<Rightarrow> bool \<Rightarrow> string \<Rightarrow> bool" where
  "brackets_ok level in_string escape_next [] = True"
| "brackets_ok level in_string escape_next (ch # rest) =
     (if escape_next then brackets_ok level in_string False rest
      else if ch = backslash \<and> in_string then brackets_ok level in_string True rest
      else if ch = quote then brackets_ok level (\<not> in_string) False rest
      else if \<not> in_string then
        (case bracket_level level ch of None \<Rightarrow> False | Some level' \<Rightarrow> brackets_ok level' in_string False rest)
      else brackets_ok level in_string False rest)"

lemma layout_chars:
  "newline \<noteq> quote" "newline \<noteq> backslash" "CHR '' '' \<noteq> quote" "CHR '' '' \<noteq> backslash" "newline \<noteq> CHR '' ''"
  by (simp_all add: newline_def quote_def backslash_def char_of_def bit_0)

lemma strip_blanks: "blanks n = Some b \<Longrightarrow> strip False False (b @ rest) = strip False False rest"
proof -
  have "strip False False (replicate k (CHR '' '') @ rest) = strip False False rest" for k
    by (induction k) (simp_all add: layout_chars)
  then show "blanks n = Some b \<Longrightarrow> ?thesis"
    by (auto simp: blanks_def split: if_splits)
qed

lemma layout_cases:
  assumes "layout spaces level ch = Some (t, level')"
  obtains b n where "blanks n = Some b" "t = [ch, newline] @ b" | b n where "blanks n = Some b" "t = newline # b @ [ch]"
    | "t = [ch, CHR '' '']" | "t = [ch]"
  using assms by (auto simp: layout_def split: if_splits)

lemma strip_layout:
  assumes "layout spaces level ch = Some (t, level')" "ch \<noteq> quote"
  shows "strip False False (t @ rest) = strip False False (ch # rest)"
  using assms(1) by (cases rule: layout_cases) (simp_all add: assms(2) layout_chars strip_blanks)

lemma indent_loop_outside:
  assumes "ch \<noteq> quote" "indent_loop spaces level False False (ch # rest) = Some out"
  obtains t level' r where "layout spaces level ch = Some (t, level')"
    "indent_loop spaces level' False False rest = Some r" "out = t @ r"
  using assms by (auto split: option.splits)

lemma strip_indent:
  "indent_loop spaces level in_string escape_next s = Some out \<Longrightarrow>
     strip in_string escape_next out = strip in_string escape_next s"
proof (induction s arbitrary: level in_string escape_next out)
  case (Cons ch rest)
  show ?case
  proof (cases "escape_next \<or> ch = quote \<or> in_string")
    case True
    with Cons.prems Cons.IH show ?thesis by (auto simp: layout_chars split: if_splits)
  next
    case False
    with Cons.prems obtain t level' r where lay: "layout spaces level ch = Some (t, level')"
      and r: "indent_loop spaces level' False False rest = Some r" "out = t @ r"
      by (auto elim!: indent_loop_outside simp del: indent_loop.simps)
    have "strip False False (t @ r) = strip False False (ch # r)"
      using strip_layout [OF lay] False by simp
    with Cons.IH [OF r(1)] False r(2) show ?thesis by simp
  qed
qed simp

lemma layout_defined:
  assumes "bracket_level level ch = Some level'" "0 \<le> spaces"
  shows "\<exists>t. layout spaces (int level) ch = Some (t, int level')"
proof -
  have b: "\<exists>b. blanks (int k * spaces) = Some b" for k
    using assms by (simp add: blanks_def not_less)
  show ?thesis
    using assms b [of "Suc level"] b [of level] b [of "level - 1"]
    by (auto simp: layout_def bracket_level_def of_nat_diff add.commute split: if_splits)
qed

lemma indent_defined:
  "brackets_ok level in_string escape_next s \<Longrightarrow> 0 \<le> spaces \<Longrightarrow>
     \<exists>out. indent_loop spaces (int level) in_string escape_next s = Some out"
proof (induction s arbitrary: level in_string escape_next)
  case (Cons ch rest)
  show ?case
  proof (cases "escape_next \<or> ch = quote \<or> in_string")
    case True
    with Cons show ?thesis by (auto split: if_splits)
  next
    case False
    with Cons.prems obtain level' where lev: "bracket_level level ch = Some level'" "brackets_ok level' in_string False rest"
      by (auto split: option.splits)
    with layout_defined [OF lev(1) Cons.prems(2)] Cons.IH [OF lev(2) Cons.prems(2)] False show ?thesis by auto
  qed
qed simp

section \<open>Codecs\<close>

text \<open>The contract that a serializer and a deserializer of one type share: what is serialized
  in range is read back.  Vectors and optional values of such a type are again codecs.\<close>

locale json_codec =
  fixes ok :: "'a \<Rightarrow> bool"
    and ser :: "'a \<Rightarrow> jvalue"
    and deser :: "jvalue \<Rightarrow> 'a expected"
  assumes deser_ser: "ok x \<Longrightarrow> deser (ser x) = Ok x"
    and ser_not_null: "ok x \<Longrightarrow> ser x \<noteq> JNull"
begin

lemma optional_back: "pred_option ok x \<Longrightarrow> deserialize_optional deser (serialize_optional ser x) = Ok x"
  by (cases x) (auto simp: deserialize_optional_def serialize_optional_def is_null_def deser_ser ser_not_null
      split: jvalue.splits)

lemma vector_loop_back:
  "list_all ok xs \<Longrightarrow> deserialize_vector_loop deser (map ser xs) acc = Ok (acc @ xs)"
  by (induction xs arbitrary: acc) (simp_all add: deser_ser)

lemma vector_loop_ser: "serialize_vector_loop ser xs (JArray vs) = Ok (JArray (vs @ map ser xs))"
  by (induction xs arbitrary: vs) (simp_all add: add_to_array_def)

lemma vector_back:
  "list_all ok xs \<Longrightarrow> bind_res (serialize_vector ser xs) (deserialize_vector deser) = Ok xs"
  by (simp add: serialize_vector_def create_array_def vector_loop_ser deserialize_vector_def is_array_def
      as_array_def vector_loop_back)

end

definition int_ok :: "int \<Rightarrow> bool" where
  "int_ok i \<longleftrightarrow> - (2 ^ 31) \<le> i \<and> i < 2 ^ 31"

interpretation bool_codec: json_codec "\<lambda>_. True" JBool as_bool
  by unfold_locales (simp_all add: as_bool_def)

interpretation string_codec: json_codec "\<lambda>_. True" JString as_string
  by unfold_locales (simp_all add: as_string_def)

interpretation int_codec: json_codec int_ok value_of_int "deserialize_int fp" for fp
  by unfold_locales (auto simp: value_of_int_def deserialize_int_def as_int64_def int_ok_def)

interpretation int_vector_codec: json_codec "list_all int_ok" "\<lambda>xs. case serialize_vector value_of_int xs of Inr v \<Rightarrow> v | Inl e \<Rightarrow> JNull"
    "deserialize_vector (deserialize_int fp)" for fp
proof
  fix xs :: "int list"
  have ser: "serialize_vector value_of_int xs = Ok (JArray (map value_of_int xs))"
    by (simp add: serialize_vector_def create_array_def int_codec.vector_loop_ser)
  assume "list_all int_ok xs"
  with int_codec.vector_back [of xs fp]
  show "deserialize_vector (deserialize_int fp) (case serialize_vector value_of_int xs of Inr v \<Rightarrow> v | Inl e \<Rightarrow> JNull) = Ok xs"
    and "(case serialize_vector value_of_int xs of Inr v \<Rightarrow> v | Inl e \<Rightarrow> JNull) \<noteq> JNull"
    by (simp_all add: ser)
qed

lemma set_element_array:
  "\<exists>ws. set_element i x (JArray vs) = Ok (JArray ws) \<and> i < length ws \<and> ws ! i = x \<and>
     (\<forall>j. j \<noteq> i \<longrightarrow> element j (JArray ws) = element j (JArray vs))"
proof -
  define us where "us = (if i \<ge> length vs then vs @ replicate (i + 1 - length vs) JNull else vs)"
  have len: "length us = (if i \<ge> length vs then i + 1 else length vs)"
    by (simp add: us_def)
  have nth: "us ! j = (if j < length vs then vs ! j else JNull)" if "j < length us" for j
    using that by (simp add: us_def nth_append split: if_splits)
  have "set_element i x (JArray vs) = Ok (JArray (us[i := x]))"
    by (simp add: set_element_def element_ref_def is_null_def us_def Let_def)
  moreover have "element j (JArray (us[i := x])) = element j (JArray vs)" if "j \<noteq> i" for j
    using that by (auto simp: element_def nth len split: if_splits)
  ultimately show ?thesis
    by (intro exI [of _ "us[i := x]"]) (simp add: len)
qed

lemma fin_int_bounds:
  assumes "fin_integral m e"
  shows "fin_greater m e k \<longleftrightarrow> fin_int m e > k" "fin_less m e k \<longleftrightarrow> fin_int m e < k"
proof -
  have "fin_greater m e k = (fin_int m e > k) \<and> fin_less m e k = (fin_int m e < k)"
  proof (cases "e \<ge> 0")
    case False
    with assms obtain q where q: "m = 2 ^ nat (- e) * q"
      by (auto simp: fin_integral_def)
    then show ?thesis
      using False by (simp add: fin_greater_def fin_less_def fin_int_def mult.commute)
  qed (simp add: fin_greater_def fin_less_def fin_int_def)
  then show "fin_greater m e k \<longleftrightarrow> fin_int m e > k" "fin_less m e k \<longleftrightarrow> fin_int m e < k" by auto
qed

lemma as_int64_fin:
  "if fin_integral m e \<and> fin_int m e = 2 ^ 63 then as_int64 fp (JDouble (Fin m e)) = Ok (fp_cast fp (Fin m e))
   else case as_int64 fp (JDouble (Fin m e)) of Inl err \<Rightarrow> True | Inr i \<Rightarrow> llong_min \<le> i \<and> i \<le> llong_max"
  by (cases "fin_integral m e") (auto simp: as_int64_def Let_def fin_int_bounds llong_min_def llong_max_def)

section \<open>Properties\<close>

text \<open>C40: Escaping a string for JSON and unescaping it gives the string back, whatever characters
  the locale's \<open>iscntrl\<close> classifies as control characters.\<close>

theorem json_escape_roundtrip: "unescape_json_string (escape_json_string cntrl s) = s"
  by (rule unescape_escape)

text \<open>Indenting a JSON text only adds blanks and line ends outside string literals, and it
  never throws on a text whose brackets are balanced.\<close>

theorem indentation_preserves:
  "(case add_json_indentation s spaces of None \<Rightarrow> True | Some out \<Rightarrow> strip False False out = strip False False s) \<and>
   (brackets_ok 0 False False s \<and> 0 \<le> spaces \<longrightarrow> add_json_indentation s spaces \<noteq> None)"
  using strip_indent [of spaces 0 False False s] indent_defined [of 0 False False s spaces]
  by (auto simp: add_json_indentation_def split: option.splits)

lemma indentation_preserves_witness:
  "case add_json_indentation ''{a:[1,2]}'' 2 of None \<Rightarrow> False | Some out \<Rightarrow> strip False False out = ''{a:[1,2]}''"
proof -
  have "brackets_ok 0 False False ''{a:[1,2]}''" "strip False False ''{a:[1,2]}'' = ''{a:[1,2]}''"
    by code_simp+
  with indentation_preserves [of "''{a:[1,2]}''" 2] show ?thesis
    by (simp del: brackets_ok.simps strip.simps split: option.splits)
qed

text \<open>Assigning to an entry of an object, or of a null value, and reading it gives the
  assigned value, and every other entry reads as before; assigning to anything else throws the type
  error that names it.\<close>

theorem set_entry_entry:
  "if is_null v \<or> is_object v
   then (case set_entry key x v of Inl e \<Rightarrow> False
         | Inr v' \<Rightarrow> entry key v' = Ok x \<and>
             (key' = key \<or> entry key' v' = (if is_null v then Ok JNull else entry key' v)))
   else set_entry key x v = Throw (invalid_type ''object'' (type_name v))"
  by (cases v) (auto simp: is_defs set_entry_def entry_ref_def entry_def add_to_object_def smap_simps
      split: option.splits)

text \<open>Assigning beyond the end of an array, or to a null value, extends it with nulls; the
  assigned index then holds the value and every other index reads as before.\<close>

theorem set_element_element:
  "if is_null v \<or> is_array v
   then (case set_element i x v of Inl e \<Rightarrow> False
         | Inr v' \<Rightarrow> element i v' = Ok x \<and>
             (j = i \<or> element j v' = (if is_null v then Ok JNull else element j v)))
   else set_element i x v = Throw (invalid_type ''array'' (type_name v))"
proof (cases v)
  case JNull
  have "set_element i x JNull = set_element i x (JArray [])" "\<And>j. element j (JArray []) = Ok JNull"
    by (simp_all add: set_element_def element_ref_def is_null_def element_def)
  moreover obtain ws where ws: "set_element i x (JArray []) = Ok (JArray ws)" "i < length ws" "ws ! i = x"
    "\<And>j. j \<noteq> i \<Longrightarrow> element j (JArray ws) = element j (JArray [])"
    using set_element_array [of i x "[]"] by blast
  moreover have "element i (JArray ws) = Ok x"
    using ws(2,3) by (simp add: element_def)
  ultimately show ?thesis
    using JNull by (cases "j = i") (simp_all add: is_defs)
next
  case (JArray vs)
  moreover obtain ws where ws: "set_element i x (JArray vs) = Ok (JArray ws)" "i < length ws" "ws ! i = x"
    "\<And>j. j \<noteq> i \<Longrightarrow> element j (JArray ws) = element j (JArray vs)"
    using set_element_array [of i x vs] by blast
  moreover have "element i (JArray ws) = Ok x"
    using ws(2,3) by (simp add: element_def)
  ultimately show ?thesis
    by (cases "j = i") (simp_all add: is_defs)
qed (simp_all add: is_defs set_element_def element_ref_def)

text \<open>A number read as an \<open>int\<close> is within 32 bits, and one read as a \<open>long long\<close> is
  within 64 bits, except for the double \<open>2 ^ 63\<close>, which passes the range check because the
  limit it is compared with rounds up to it.\<close>

theorem integer_ranges:
  "(case deserialize_int fp v of Inl e \<Rightarrow> True | Inr i \<Rightarrow> int_ok i) \<and>
   (case v of
      JDouble (Fin m e) \<Rightarrow>
        (if fin_integral m e \<and> fin_int m e = 2 ^ 63 then as_int64 fp v = Ok (fp_cast fp (Fin m e))
         else case as_int64 fp v of Inl e \<Rightarrow> True | Inr i \<Rightarrow> llong_min \<le> i \<and> i \<le> llong_max)
    | JInteger i \<Rightarrow> as_int64 fp v = Ok i
    | _ \<Rightarrow> (case as_int64 fp v of Inl e \<Rightarrow> True | Inr i \<Rightarrow> False))"
proof -
  have "case deserialize_int fp v of Inl e \<Rightarrow> True | Inr i \<Rightarrow> int_ok i"
    by (cases "as_int64 fp v") (auto simp: deserialize_int_def int_ok_def)
  moreover have "case v of
      JDouble (Fin m e) \<Rightarrow>
        (if fin_integral m e \<and> fin_int m e = 2 ^ 63 then as_int64 fp v = Ok (fp_cast fp (Fin m e))
         else case as_int64 fp v of Inl e \<Rightarrow> True | Inr i \<Rightarrow> llong_min \<le> i \<and> i \<le> llong_max)
    | JInteger i \<Rightarrow> as_int64 fp v = Ok i
    | _ \<Rightarrow> (case as_int64 fp v of Inl e \<Rightarrow> True | Inr i \<Rightarrow> False)"
  proof (cases v)
    case (JDouble d)
    show ?thesis
    proof (cases d)
      case (Fin m e)
      with JDouble as_int64_fin [of m e fp] show ?thesis by simp
    qed (simp_all add: JDouble as_int64_def Let_def)
  qed (simp_all add: as_int64_def)
  ultimately show ?thesis ..
qed

end
