(* ===== verification/JsonApi.thy ===== *)
theory JsonApi
  imports Json
begin

text \<open>
  The bridge of \<open>zjson.hpp\<close> to the z/OS JSON services: reading a parsed document through
  key handles, and building and serializing one.  The services are not part of the program:
  \<open>json_reader\<close> and \<open>json_writer\<close> collect them as functions, and \<open>doc_reader\<close> is the
  instance that serves an abstract document.
\<close>

section \<open>Reading\<close>

definition HWTJ_BUFFER_TOO_SMALL :: nat where "HWTJ_BUFFER_TOO_SMALL = 0x106"
definition HWTJ_OBJECT_TYPE :: nat where "HWTJ_OBJECT_TYPE = 1"
definition HWTJ_ARRAY_TYPE :: nat where "HWTJ_ARRAY_TYPE = 2"
definition HWTJ_STRING_TYPE :: nat where "HWTJ_STRING_TYPE = 3"
definition HWTJ_NUMBER_TYPE :: nat where "HWTJ_NUMBER_TYPE = 4"
definition HWTJ_BOOLEAN_TYPE :: nat where "HWTJ_BOOLEAN_TYPE = 5"
definition HWTJ_NULL_TYPE :: nat where "HWTJ_NULL_TYPE = 6"

lemmas type_codes = HWTJ_OBJECT_TYPE_def HWTJ_ARRAY_TYPE_def HWTJ_STRING_TYPE_def HWTJ_NUMBER_TYPE_def
  HWTJ_BOOLEAN_TYPE_def HWTJ_NULL_TYPE_def

text \<open>The services by their names, each with its return code first: \<open>ZJSNGJST\<close>,
  \<open>ZJSMGBOV\<close>, \<open>ZJSMGVAL\<close>, \<open>ZJSMGNUE\<close>, \<open>ZJSMGAEN\<close>, and \<open>ZJSMGOEN\<close>, which takes
  the length of the key buffer and also gives the key's actual length.  \<open>std_strtod\<close> is the
  library's conversion, with the number of characters it took.\<close>

record 'h json_reader =
  get_json_type :: "'h \<Rightarrow> nat \<times> nat"
  get_bool_value :: "'h \<Rightarrow> nat \<times> bool"
  get_value :: "'h \<Rightarrow> nat \<times> string"
  get_num_entries :: "'h \<Rightarrow> nat \<times> nat"
  get_array_entry :: "'h \<Rightarrow> nat \<Rightarrow> nat \<times> 'h"
  get_object_entry :: "'h \<Rightarrow> nat \<Rightarrow> nat \<Rightarrow> nat \<times> string \<times> 'h \<times> nat"
  std_strtod :: "string \<Rightarrow> double \<times> nat"

text \<open>\<open>strtoll\<close> with base 10 on a C string: the number, clamped to the type's range, and the
  number of characters taken (none when there is no digit).\<close>

fun dec_digits :: "int \<Rightarrow> string \<Rightarrow> int \<times> nat" where
  "dec_digits acc [] = (acc, 0)"
| "dec_digits acc (c # cs) = (if is_digit c
     then (case dec_digits (10 * acc + int (code c - 48)) cs of (v, n) \<Rightarrow> (v, Suc n)) else (acc, 0))"

definition clamp_llong :: "int \<Rightarrow> int" where
  "clamp_llong i = max llong_min (min llong_max i)"

definition strtoll10 :: "string \<Rightarrow> int \<times> nat" where
  "strtoll10 s = (let blank = length (takeWhile is_space s); t = drop blank s;
     (neg, sign, t) = (case t of c # cs \<Rightarrow> (if c = CHR ''-'' then (True, 1, cs) else if c = CHR ''+'' then (False, 1, cs) else (False, 0, t))
                       | [] \<Rightarrow> (False, 0, []));
     (v, n) = dec_digits 0 t
   in if n = 0 then (0, 0) else (clamp_llong (if neg then - v else v), blank + sign + n))"

definition c_str :: "string \<Rightarrow> string" where
  "c_str s = takeWhile (\<lambda>c. c \<noteq> CHR 0x00) s"

definition number_value :: "(string \<Rightarrow> double \<times> nat) \<Rightarrow> string \<Rightarrow> jvalue" where
  "number_value strtod str_val =
     (if CHR ''.'' \<in> set str_val \<or> CHR ''e'' \<in> set str_val \<or> CHR ''E'' \<in> set str_val then
        (case strtod (c_str str_val) of (d, n) \<Rightarrow>
           if n = 0 \<or> n < length (c_str str_val) then JNull else JDouble d)
      else
        (case strtoll10 (c_str str_val) of (i, n) \<Rightarrow>
           if n = 0 \<or> n < length (c_str str_val) then JNull else JInteger i))"

text \<open>The key of entry \<open>i\<close> and its value's handle: a second call with a buffer of the
  actual length when the first one's 256 bytes are too few.\<close>

definition object_entry :: "'h json_reader \<Rightarrow> 'h \<Rightarrow> nat \<Rightarrow> (string \<times> 'h) option" where
  "object_entry rd h i = (case get_object_entry rd h i 256 of
     (rc, key, vh, actual) \<Rightarrow>
       if rc = 0 then Some (key, vh)
       else if rc = HWTJ_BUFFER_TOO_SMALL then
         (case get_object_entry rd h i actual of
            (rc, key, vh, actual) \<Rightarrow> if rc = 0 then Some (key, vh) else None)
       else None)"

text \<open>The two loops over entries, given the conversion of one handle; \<open>None\<close> is a
  conversion that did not finish.\<close>

fun array_loop :: "('h \<Rightarrow> jvalue option) \<Rightarrow> (nat \<Rightarrow> nat \<times> 'h) \<Rightarrow> nat list \<Rightarrow> jvalue list \<Rightarrow> jvalue option" where
  "array_loop conv get [] acc = Some (JArray acc)"
| "array_loop conv get (i # is) acc = (case get i of (rc, h) \<Rightarrow>
     if rc = 0 then (case conv h of None \<Rightarrow> None | Some v \<Rightarrow> array_loop conv get is (acc @ [v]))
     else array_loop conv get is acc)"

fun object_loop :: "('h \<Rightarrow> jvalue option) \<Rightarrow> (nat \<Rightarrow> (string \<times> 'h) option) \<Rightarrow> nat list \<Rightarrow> jvalue smap \<Rightarrow> jvalue option" where
  "object_loop conv get [] acc = Some (JObject acc)"
| "object_loop conv get (i # is) acc = (case get i of
     Some (key, h) \<Rightarrow> (case conv h of None \<Rightarrow> None | Some v \<Rightarrow> object_loop conv get is (AList.update key v acc))
   | None \<Rightarrow> object_loop conv get is acc)"

text \<open>The recursion follows whatever handles the service returns, so it has fuel.\<close>

fun json_handle_to_value :: "'h json_reader \<Rightarrow> nat \<Rightarrow> 'h \<Rightarrow> jvalue option" where
  "json_handle_to_value rd 0 h = None"
| "json_handle_to_value rd (Suc fuel) h = (case get_json_type rd h of (rc, type) \<Rightarrow>
     if rc \<noteq> 0 then Some JNull
     else if type = HWTJ_NULL_TYPE then Some JNull
     else if type = HWTJ_BOOLEAN_TYPE then
       (case get_bool_value rd h of (rc, b) \<Rightarrow> Some (if rc \<noteq> 0 then JNull else JBool b))
     else if type = HWTJ_NUMBER_TYPE then
       (case get_value rd h of (rc, s) \<Rightarrow> Some (if rc \<noteq> 0 then JNull else number_value (std_strtod rd) s))
     else if type = HWTJ_STRING_TYPE then
       (case get_value rd h of (rc, s) \<Rightarrow> Some (if rc \<noteq> 0 then JNull else JString (unescape_json_string s)))
     else if type = HWTJ_ARRAY_TYPE then
       (case get_num_entries rd h of (rc, n) \<Rightarrow>
          if rc \<noteq> 0 then Some create_array
          else array_loop (json_handle_to_value rd fuel) (get_array_entry rd h) [0..<n] [])
     else if type = HWTJ_OBJECT_TYPE then
       (case get_num_entries rd h of (rc, n) \<Rightarrow>
          if rc \<noteq> 0 then Some create_object
          else object_loop (json_handle_to_value rd fuel) (object_entry rd h) [0..<n] [])
     else Some JNull)"

section \<open>Writing\<close>

text \<open>\<open>ZJSMINIT\<close>, \<open>ZJSMPARS\<close>, \<open>ZJSMCREN\<close> and \<open>ZJSMSERI\<close>: the instance threads
  through; a key handle names a place in it.  The stream formats a double with 17 digits.\<close>

record ('i, 'h) json_writer =
  init_parser :: "nat \<times> 'i"
  parse_text :: "'i \<Rightarrow> string \<Rightarrow> nat \<times> 'i"
  root_handle :: 'h
  create_entry :: "'i \<Rightarrow> 'h \<Rightarrow> string option \<Rightarrow> string option \<Rightarrow> nat \<Rightarrow> nat \<times> 'i \<times> 'h"
  serialize_json_text :: "'i \<Rightarrow> nat \<Rightarrow> nat \<times> string \<times> nat"
  show_double17 :: "double \<Rightarrow> string"
  show_hex :: "nat \<Rightarrow> string"
  writer_cntrl :: "char \<Rightarrow> bool"
  writer_fp :: fp

fun value_to_json_instance :: "('i, 'h) json_writer \<Rightarrow> 'h \<Rightarrow> string \<Rightarrow> jvalue \<Rightarrow> 'i \<Rightarrow> (nat \<times> 'i) expected"
and elements_to_json_instance :: "('i, 'h) json_writer \<Rightarrow> 'h \<Rightarrow> jvalue list \<Rightarrow> 'i \<Rightarrow> (nat \<times> 'i) expected"
and properties_to_json_instance :: "('i, 'h) json_writer \<Rightarrow> 'h \<Rightarrow> (string \<times> jvalue) list \<Rightarrow> 'i \<Rightarrow> (nat \<times> 'i) expected"
where
  "value_to_json_instance w parent entry_name v i =
     (let name = (if entry_name = [] then None else Some entry_name) in
      case v of
        JNull \<Rightarrow> (case create_entry w i parent name None 7 of (rc, i, h) \<Rightarrow> Ok (rc, i))
      | JBool b \<Rightarrow> (case create_entry w i parent name None (if b then 5 else 6) of (rc, i, h) \<Rightarrow> Ok (rc, i))
      | JInteger n \<Rightarrow> (case create_entry w i parent name (Some (show_int n)) 4 of (rc, i, h) \<Rightarrow> Ok (rc, i))
      | JDouble d \<Rightarrow> bind_res (as_double (writer_fp w) v) (\<lambda>d.
           case create_entry w i parent name (Some (show_double17 w d)) 4 of (rc, i, h) \<Rightarrow> Ok (rc, i))
      | JString s \<Rightarrow>
          (if s \<noteq> [] then
             (case create_entry w i parent name (Some (c_str (escape_json_string (writer_cntrl w) s))) 3 of (rc, i, h) \<Rightarrow> Ok (rc, i))
           else (case create_entry w i parent name (Some [quote, quote]) 8 of (rc, i, h) \<Rightarrow> Ok (rc, i)))
      | JArray vs \<Rightarrow>
          (case create_entry w i parent name (Some ''[]'') 8 of (rc, i, h) \<Rightarrow>
             if rc \<noteq> 0 then Ok (rc, i) else elements_to_json_instance w h vs i)
      | JObject kvs \<Rightarrow>
          (case create_entry w i parent name (Some ''{}'') 8 of (rc, i, h) \<Rightarrow>
             if rc \<noteq> 0 then Ok (rc, i) else properties_to_json_instance w h kvs i))"
| "elements_to_json_instance w h [] i = Ok (0, i)"
| "elements_to_json_instance w h (x # xs) i = bind_res (value_to_json_instance w h [] x i) (\<lambda>(rc, i).
     if rc \<noteq> 0 then Ok (rc, i) else elements_to_json_instance w h xs i)"
| "properties_to_json_instance w h [] i = Ok (0, i)"
| "properties_to_json_instance w h ((k, x) # kvs) i = bind_res (value_to_json_instance w h k x i) (\<lambda>(rc, i).
     if rc \<noteq> 0 then Ok (rc, i) else properties_to_json_instance w h kvs i)"

declare value_to_json_instance.simps [simp del]

text \<open>The members of the root, with the error that names the one that failed.\<close>

fun root_properties :: "('i, 'h) json_writer \<Rightarrow> (string \<times> jvalue) list \<Rightarrow> 'i \<Rightarrow> 'i expected + nat \<times> string" where
  "root_properties w [] i = Inl (Ok i)"
| "root_properties w ((k, x) # kvs) i = (case value_to_json_instance w (root_handle w) k x i of
     Inl e \<Rightarrow> Inl (Inl e)
   | Inr (rc, i) \<Rightarrow> (if rc \<noteq> 0 then Inr (rc, ''Failed to serialize object property '' @ [CHR 0x27] @ k @ [CHR 0x27])
                    else root_properties w kvs i))"

fun root_elements :: "('i, 'h) json_writer \<Rightarrow> nat \<Rightarrow> jvalue list \<Rightarrow> 'i \<Rightarrow> 'i expected + nat \<times> string" where
  "root_elements w n [] i = Inl (Ok i)"
| "root_elements w n (x # xs) i = (case value_to_json_instance w (root_handle w) [] x i of
     Inl e \<Rightarrow> Inl (Inl e)
   | Inr (rc, i) \<Rightarrow> (if rc \<noteq> 0 then Inr (rc, ''Failed to serialize array element at index '' @ show_nat n)
                    else root_elements w (n + 1) xs i))"

definition rc_error :: "('i, 'h) json_writer \<Rightarrow> string \<Rightarrow> nat \<Rightarrow> error" where
  "rc_error w message rc = mk_error Custom (message @ ''. RC: x'' @ [CHR 0x27] @ show_hex w rc @ [CHR 0x27])"

text \<open>The result, and how often the instance was released by \<open>ZJSMTERM\<close>.\<close>

definition finish_serialization :: "('i, 'h) json_writer \<Rightarrow> 'i \<Rightarrow> string expected \<times> nat" where
  "finish_serialization w i = (case serialize_json_text w i 1 of (rc, result, actual) \<Rightarrow>
     if rc = HWTJ_BUFFER_TOO_SMALL then
       (case serialize_json_text w i actual of (rc, result, actual) \<Rightarrow>
          if rc \<noteq> 0 then (Throw (rc_error w ''Failed to serialize JSON with dynamic buffer'' rc), 1)
          else if result = [] then (Throw (mk_error Custom ''Serialization resulted in empty string''), 1)
          else (Ok result, 1))
     else if rc = 0 then
       (if result = [] then (Throw (mk_error Custom ''Serialization resulted in empty string''), 1)
        else (Ok result, 1))
     else (Throw (rc_error w ''Failed to serialize JSON'' rc), 1))"

definition value_to_json_string :: "('i, 'h) json_writer \<Rightarrow> jvalue \<Rightarrow> string expected \<times> nat" where
  "value_to_json_string w v = (case init_parser w of (rc, i) \<Rightarrow>
     if rc \<noteq> 0 then (Throw (rc_error w ''Failed to initialize JSON parser'' rc), 0)
     else if is_object v \<or> is_array v then
       (case parse_text w i (if is_object v then ''{}'' else ''[]'') of (rc, i) \<Rightarrow>
          if rc \<noteq> 0 then (Throw (rc_error w ''Failed to parse initial JSON container'' rc), 1)
          else (case (case v of JObject kvs \<Rightarrow> root_properties w kvs i | JArray vs \<Rightarrow> root_elements w 0 vs i | _ \<Rightarrow> Inl (Ok i)) of
                  Inr (rc, message) \<Rightarrow> (Throw (rc_error w message rc), 1)
                | Inl (Inl e) \<Rightarrow> (Throw e, 0)
                | Inl (Inr i) \<Rightarrow> finish_serialization w i))
     else (Throw (mk_error Custom ''Serializing primitive values is not supported''), 0))"

section \<open>Texts\<close>

text \<open>\<open>ZJSMINIT\<close> and \<open>ZJSMPARS\<close> on a text: the return codes, and the handles of the document.\<close>

record 'h json_parser =
  parser_init :: nat
  parser_parse :: "string \<Rightarrow> nat \<times> 'h json_reader \<times> 'h"

definition from_str :: "'h json_parser \<Rightarrow> nat \<Rightarrow> string \<Rightarrow> jvalue expected option" where
  "from_str p fuel json_str =
     (if parser_init p \<noteq> 0 then Some (Throw (mk_error Custom ''Failed to initialize JSON parser''))
      else (case parser_parse p (c_str json_str) of (rc, rd, root) \<Rightarrow>
        if rc \<noteq> 0 then Some (Throw (mk_error Custom ''Failed to parse JSON string''))
        else map_option Ok (json_handle_to_value rd fuel root)))"

definition to_string :: "('i, 'h) json_writer \<Rightarrow> jvalue \<Rightarrow> string expected" where
  "to_string w v = fst (value_to_json_string w v)"

section \<open>The service on an abstract document\<close>

datatype doc = DNull | DBool bool | DNumber string | DString string | DArray "doc list" | DObject "(string \<times> doc) list"

definition doc_reader :: "(string \<Rightarrow> double \<times> nat) \<Rightarrow> doc json_reader" where
  "doc_reader strtod =
     \<lparr>get_json_type = (\<lambda>d. (0, case d of DNull \<Rightarrow> HWTJ_NULL_TYPE | DBool _ \<Rightarrow> HWTJ_BOOLEAN_TYPE
          | DNumber _ \<Rightarrow> HWTJ_NUMBER_TYPE | DString _ \<Rightarrow> HWTJ_STRING_TYPE | DArray _ \<Rightarrow> HWTJ_ARRAY_TYPE
          | DObject _ \<Rightarrow> HWTJ_OBJECT_TYPE)),
      get_bool_value = (\<lambda>d. case d of DBool b \<Rightarrow> (0, b) | _ \<Rightarrow> (1, False)),
      get_value = (\<lambda>d. case d of DNumber s \<Rightarrow> (0, s) | DString s \<Rightarrow> (0, s) | _ \<Rightarrow> (1, [])),
      get_num_entries = (\<lambda>d. case d of DArray ds \<Rightarrow> (0, length ds) | DObject kds \<Rightarrow> (0, length kds) | _ \<Rightarrow> (1, 0)),
      get_array_entry = (\<lambda>d i. case d of DArray ds \<Rightarrow> (if i < length ds then (0, ds ! i) else (1, DNull)) | _ \<Rightarrow> (1, DNull)),
      get_object_entry = (\<lambda>d i buffer. case d of
          DObject kds \<Rightarrow> (if i < length kds then
              (if length (fst (kds ! i)) \<le> buffer then (0, fst (kds ! i), snd (kds ! i), length (fst (kds ! i)))
               else (HWTJ_BUFFER_TOO_SMALL, [], DNull, length (fst (kds ! i))))
            else (1, [], DNull, 0))
        | _ \<Rightarrow> (1, [], DNull, 0)),
      std_strtod = strtod\<rparr>"

fun doc_value :: "(string \<Rightarrow> double \<times> nat) \<Rightarrow> doc \<Rightarrow> jvalue" where
  "doc_value strtod DNull = JNull"
| "doc_value strtod (DBool b) = JBool b"
| "doc_value strtod (DNumber s) = number_value strtod s"
| "doc_value strtod (DString s) = JString (unescape_json_string s)"
| "doc_value strtod (DArray ds) = JArray (map (doc_value strtod) ds)"
| "doc_value strtod (DObject kds) =
     JObject (fold (\<lambda>(k, v). AList.update k v) (map (\<lambda>(k, d). (k, doc_value strtod d)) kds) [])"

text \<open>The nesting depth, which bounds the recursion.\<close>

fun doc_depth :: "doc \<Rightarrow> nat" where
  "doc_depth (DArray ds) = Suc (fold max (map doc_depth ds) 0)"
| "doc_depth (DObject kds) = Suc (fold max (map (\<lambda>(k, d). doc_depth d) kds) 0)"
| "doc_depth d = Suc 0"

lemma fold_max_start: "(a::nat) \<le> fold max xs a"
  by (induction xs arbitrary: a) (auto intro: order_trans [OF max.cobounded2])

lemma fold_max_ge: "(x::nat) \<in> set xs \<Longrightarrow> x \<le> fold max xs a"
proof (induction xs arbitrary: a)
  case (Cons y xs)
  have "y \<le> fold max xs (max y a)"
    using fold_max_start [of "max y a" xs] by simp
  with Cons show ?case by auto
qed simp

lemma doc_reader_simps:
  "get_json_type (doc_reader f) (DArray ds) = (0, HWTJ_ARRAY_TYPE)"
  "get_json_type (doc_reader f) (DObject kds) = (0, HWTJ_OBJECT_TYPE)"
  "get_num_entries (doc_reader f) (DArray ds) = (0, length ds)"
  "get_num_entries (doc_reader f) (DObject kds) = (0, length kds)"
  "i < length ds \<Longrightarrow> get_array_entry (doc_reader f) (DArray ds) i = (0, ds ! i)"
  by (simp_all add: doc_reader_def)

lemma array_loop_eq:
  "\<forall>i\<in>set is. get i = (0, ds ! i) \<and> conv (ds ! i) = Some (f (ds ! i)) \<Longrightarrow>
     array_loop conv get is acc = Some (JArray (acc @ map (\<lambda>i. f (ds ! i)) is))"
  by (induction "is" arbitrary: acc) simp_all

lemma object_loop_eq:
  "\<forall>i\<in>set is. get i = Some (kds ! i) \<and> conv (snd (kds ! i)) = Some (f (snd (kds ! i))) \<Longrightarrow>
     object_loop conv get is acc =
       Some (JObject (fold (\<lambda>(k, v). AList.update k v) (map (\<lambda>i. (fst (kds ! i), f (snd (kds ! i)))) is) acc))"
proof (induction "is" arbitrary: acc)
  case (Cons i "is")
  obtain k h where "kds ! i = (k, h)" by (cases "kds ! i")
  with Cons show ?case by simp
qed simp

lemma object_entry_doc: "i < length kds \<Longrightarrow> object_entry (doc_reader strtod) (DObject kds) i = Some (kds ! i)"
  by (simp add: object_entry_def doc_reader_def HWTJ_BUFFER_TOO_SMALL_def)

lemma map_nth_upt: "map (\<lambda>i. f (xs ! i)) [0..<length xs] = map f xs"
  by (rule nth_equalityI) simp_all

lemma handle_doc: "doc_depth d \<le> fuel \<Longrightarrow> json_handle_to_value (doc_reader strtod) fuel d = Some (doc_value strtod d)"
proof (induction fuel arbitrary: d)
  case 0
  then show ?case by (cases d) simp_all
next
  case (Suc fuel)
  show ?case
  proof (cases d)
    case (DArray ds)
    have "json_handle_to_value (doc_reader strtod) fuel x = Some (doc_value strtod x)" if "x \<in> set ds" for x
      using Suc DArray that fold_max_ge [of "doc_depth x" "map doc_depth ds" 0] by auto
    then have "array_loop (json_handle_to_value (doc_reader strtod) fuel) (get_array_entry (doc_reader strtod) d) [0..<length ds] [] =
        Some (JArray ([] @ map (\<lambda>i. doc_value strtod (ds ! i)) [0..<length ds]))"
      by (intro array_loop_eq) (auto simp: DArray doc_reader_simps)
    then show ?thesis
      by (simp add: DArray map_nth_upt doc_reader_simps) (simp add: type_codes)
  next
    case (DObject kds)
    have "json_handle_to_value (doc_reader strtod) fuel x = Some (doc_value strtod x)" if "(k, x) \<in> set kds" for k x
    proof -
      have "doc_depth x \<in> set (map (\<lambda>(k, d). doc_depth d) kds)" using that by force
      with Suc DObject fold_max_ge [of "doc_depth x" "map (\<lambda>(k, d). doc_depth d) kds" 0] show ?thesis by auto
    qed
    then have "\<forall>i\<in>set [0..<length kds]. json_handle_to_value (doc_reader strtod) fuel (snd (kds ! i)) = Some (doc_value strtod (snd (kds ! i)))"
      by (metis atLeastLessThan_iff nth_mem prod.collapse set_upt)
    then have "object_loop (json_handle_to_value (doc_reader strtod) fuel) (object_entry (doc_reader strtod) d) [0..<length kds] [] =
        Some (JObject (fold (\<lambda>(k, v). AList.update k v) (map (\<lambda>i. (fst (kds ! i), doc_value strtod (snd (kds ! i)))) [0..<length kds]) []))"
      by (intro object_loop_eq) (auto simp: DObject object_entry_doc)
    then show ?thesis
      by (simp add: DObject map_nth_upt [of "\<lambda>p. (fst p, doc_value strtod (snd p))"] case_prod_unfold doc_reader_simps)
        (simp add: type_codes)
  qed (simp_all add: doc_reader_def type_codes)
qed

section \<open>Properties\<close>

text \<open>Reading a document through the key handles gives the value of the document, whatever its
  nesting, with keys of any length (a key longer than the first buffer is fetched a second time) and
  with the last of several entries of the same key; fuel of the nesting depth suffices.\<close>

theorem handles_read_document:
  "doc_depth d \<le> fuel \<Longrightarrow> json_handle_to_value (doc_reader strtod) fuel d = Some (doc_value strtod d)"
  by (rule handle_doc)

lemma handles_read_document_witness:
  "json_handle_to_value (doc_reader (\<lambda>s. (NaN, 0))) 3 (DObject [(''a'', DArray [DNull, DBool True]), (''a'', DString ''x'')]) =
     Some (JObject [(''a'', JString ''x'')])"
  using handles_read_document [of "DObject [(''a'', DArray [DNull, DBool True]), (''a'', DString ''x'')]" 3 "\<lambda>s. (NaN, 0)"]
  by (simp add: unescape_json_string.simps)

lemma finish_error: "finish_serialization w i = (Inl e, n) \<Longrightarrow> n = 1"
  and finish_text: "finish_serialization w i = (Inr s, n) \<Longrightarrow> n = 1 \<and> s \<noteq> []"
  by (auto simp: finish_serialization_def split: prod.splits if_splits)

text \<open>A serialization that succeeds yields a text that is not empty, of an object or an array,
  and has released its parser instance exactly once; one that fails has released it at most once, and
  for a primitive value never, although the instance was initialised.\<close>

theorem value_to_json_string_outcome:
  "(case value_to_json_string w v of
      (Inl e, n) \<Rightarrow> n \<le> 1
    | (Inr s, n) \<Rightarrow> n = 1 \<and> s \<noteq> [] \<and> (is_object v \<or> is_array v)) \<and>
   (if is_object v \<or> is_array v then True else snd (value_to_json_string w v) = 0)"
  by (auto simp: value_to_json_string_def split: prod.splits sum.splits if_splits dest: finish_error finish_text)

end
