(* ===== verification/Rpc.thy ===== *)
theory Rpc
  imports Json
begin

text \<open>
  Struct serialization of \<open>zjson.hpp\<close> (\<open>Field\<close>, \<open>serialize_field\<close>,
  \<open>deserialize_field\<close>, the check for unknown fields, the functions that the macros generate),
  and the JSON-RPC structs of \<open>server/rpcio.hpp\<close> as its instances.
\<close>

section \<open>Fields\<close>

text \<open>A field of a struct \<open>'t\<close>: the pointer to the member and the conversions of its type
  are the functions that read and assign it.\<close>

record 't field =
  fname :: string
  skip_serializing :: bool
  skip_deserializing :: bool
  skip_if_none :: bool
  flatten_field :: bool
  rename_to :: string
  member_ser :: "'t \<Rightarrow> jvalue expected"
  member_none :: "'t \<Rightarrow> bool"
  member_deser :: "jvalue \<Rightarrow> 't \<Rightarrow> 't option"
  member_optional :: bool
  member_clear :: "'t \<Rightarrow> 't"
  default_value :: "('t \<Rightarrow> 't) option"

definition mk_field :: "string \<Rightarrow> ('t \<Rightarrow> jvalue expected) \<Rightarrow> (jvalue \<Rightarrow> 't \<Rightarrow> 't option) \<Rightarrow> 't field" where
  "mk_field n ser deser =
     \<lparr>fname = n, skip_serializing = False, skip_deserializing = False, skip_if_none = False,
      flatten_field = False, rename_to = [], member_ser = ser, member_none = (\<lambda>_. False),
      member_deser = deser, member_optional = False, member_clear = (\<lambda>t. t), default_value = None\<rparr>"

text \<open>A field whose type is \<open>std::optional\<close>.\<close>

definition mk_optional_field ::
  "string \<Rightarrow> ('t \<Rightarrow> 'a option) \<Rightarrow> ('a option \<Rightarrow> 't \<Rightarrow> 't) \<Rightarrow> ('a \<Rightarrow> jvalue) \<Rightarrow> (jvalue \<Rightarrow> 'a expected) \<Rightarrow> 't field" where
  "mk_optional_field n get put ser deser =
     (mk_field n (\<lambda>t. Ok (serialize_optional ser (get t)))
        (\<lambda>v t. case deserialize_optional deser v of Inl e \<Rightarrow> None | Inr x \<Rightarrow> Some (put x t)))
     \<lparr>member_none := (\<lambda>t. get t = None), member_optional := True, member_clear := put None\<rparr>"

definition skip_serializing_if_none :: "'t field \<Rightarrow> 't field" where
  "skip_serializing_if_none f = f\<lparr>skip_if_none := True\<rparr>"

definition get_serialized_name :: "case_style \<Rightarrow> 't field \<Rightarrow> string" where
  "get_serialized_name style f = (if rename_to f \<noteq> [] then rename_to f else transform_name (fname f) style)"

text \<open>Adding the entries of a flattened struct.\<close>

fun flatten_into :: "(string \<times> jvalue) list \<Rightarrow> jvalue smap \<Rightarrow> jvalue smap expected" where
  "flatten_into [] acc = Ok acc"
| "flatten_into ((k, v) # kvs) acc =
     (if map_of acc k \<noteq> None
      then Throw (invalid_data (''Field name collision during flattening: '' @ [CHR 0x27] @ k @ [CHR 0x27] @ '' already exists in parent struct''))
      else flatten_into kvs (AList.update k v acc))"

definition serialize_field :: "case_style \<Rightarrow> 't \<Rightarrow> jvalue smap \<Rightarrow> 't field \<Rightarrow> jvalue smap expected" where
  "serialize_field style t result f =
     (if skip_serializing f then Ok result
      else bind_res (member_ser f t) (\<lambda>v.
        case (flatten_field f, v) of
          (True, JObject kvs) \<Rightarrow> flatten_into kvs result
        | _ \<Rightarrow> (if member_optional f \<and> member_none f t \<and> skip_if_none f then Ok result
                else Ok (AList.update (get_serialized_name style f) v result))))"

fun serialize_fields :: "case_style \<Rightarrow> 't \<Rightarrow> 't field list \<Rightarrow> jvalue smap \<Rightarrow> jvalue smap expected" where
  "serialize_fields style t [] result = Ok result"
| "serialize_fields style t (f # fs) result =
     bind_res (serialize_field style t result f) (serialize_fields style t fs)"

definition deserialize_field :: "case_style \<Rightarrow> jvalue smap \<Rightarrow> 't field \<Rightarrow> 't \<Rightarrow> 't option" where
  "deserialize_field style obj f t =
     (if skip_deserializing f then Some t
      else if flatten_field f then member_deser f (JObject (fold (\<lambda>(k, v). AList.update k v) obj [])) t
      else (case map_of obj (get_serialized_name style f) of
         None \<Rightarrow> (case default_value f of
             Some assign \<Rightarrow> Some (assign t)
           | None \<Rightarrow> (if member_optional f then Some (member_clear f t) else None))
       | Some v \<Rightarrow> member_deser f v t))"

fun deserialize_fields :: "case_style \<Rightarrow> jvalue smap \<Rightarrow> 't field list \<Rightarrow> 't \<Rightarrow> 't option" where
  "deserialize_fields style obj [] t = Some t"
| "deserialize_fields style obj (f # fs) t =
     (case deserialize_field style obj f t of None \<Rightarrow> None | Some t' \<Rightarrow> deserialize_fields style obj fs t')"

definition has_flattened_field :: "'t field list \<Rightarrow> bool" where
  "has_flattened_field fs = list_ex flatten_field fs"

definition collect_field_names :: "case_style \<Rightarrow> 't field list \<Rightarrow> string list" where
  "collect_field_names style fs = map (get_serialized_name style) (filter (\<lambda>f. \<not> flatten_field f) fs)"

definition validate_no_unknown_fields :: "case_style \<Rightarrow> jvalue smap \<Rightarrow> 't field list \<Rightarrow> bool expected" where
  "validate_no_unknown_fields style obj fs =
     (if has_flattened_field fs then Ok True
      else (case find (\<lambda>(k, v). k \<notin> set (collect_field_names style fs)) obj of
         None \<Rightarrow> Ok True
       | Some (k, v) \<Rightarrow> Throw (unknown_field k)))"

text \<open>What the macros generate for a struct.\<close>

definition serialize_struct :: "case_style \<Rightarrow> 't field list \<Rightarrow> 't \<Rightarrow> jvalue expected" where
  "serialize_struct style fs t = map_sum id JObject (serialize_fields style t fs [])"

definition deserialize_struct :: "case_style \<Rightarrow> bool \<Rightarrow> 't field list \<Rightarrow> 't \<Rightarrow> jvalue \<Rightarrow> 't expected" where
  "deserialize_struct style deny_unknown fs blank v =
     (if \<not> is_object v then Throw (invalid_type ''object'' ''other'')
      else bind_res (as_object v) (\<lambda>obj.
        case deserialize_fields style obj fs blank of
          None \<Rightarrow> Throw (invalid_data ''Failed to deserialize fields'')
        | Some t \<Rightarrow> (if deny_unknown then bind_res (validate_no_unknown_fields style obj fs) (\<lambda>_. Ok t) else Ok t)))"

section \<open>The JSON-RPC structs\<close>

definition PARSE_ERROR :: int where "PARSE_ERROR = -32700"
definition INVALID_REQUEST :: int where "INVALID_REQUEST = -32600"
definition METHOD_NOT_FOUND :: int where "METHOD_NOT_FOUND = -32601"
definition INVALID_PARAMS :: int where "INVALID_PARAMS = -32602"
definition INTERNAL_ERROR :: int where "INTERNAL_ERROR = -32603"
definition REQUEST_TIMEOUT :: int where "REQUEST_TIMEOUT = -32001"

record rpc_notification =
  jsonrpc :: string
  rmethod :: string
  params :: "jvalue option"

record rpc_request = rpc_notification +
  request_nr :: int

record error_details =
  error_code :: int
  message :: string
  error_data :: "jvalue option"

record rpc_response =
  resp_jsonrpc :: string
  resp_result :: "jvalue option"
  resp_error :: "error_details option"
  resp_id :: "int option"

definition string_field :: "string \<Rightarrow> ('t \<Rightarrow> string) \<Rightarrow> (string \<Rightarrow> 't \<Rightarrow> 't) \<Rightarrow> 't field" where
  "string_field n get put = mk_field n (\<lambda>t. Ok (JString (get t)))
     (\<lambda>v t. case as_string v of Inl e \<Rightarrow> None | Inr x \<Rightarrow> Some (put x t))"

definition int_field :: "fp \<Rightarrow> string \<Rightarrow> ('t \<Rightarrow> int) \<Rightarrow> (int \<Rightarrow> 't \<Rightarrow> 't) \<Rightarrow> 't field" where
  "int_field fp n get put = mk_field n (\<lambda>t. Ok (value_of_int (get t)))
     (\<lambda>v t. case deserialize_int fp v of Inl e \<Rightarrow> None | Inr x \<Rightarrow> Some (put x t))"

definition notification_fields :: "'a rpc_notification_scheme field list" where
  "notification_fields =
     [string_field ''jsonrpc'' jsonrpc (\<lambda>x. jsonrpc_update (\<lambda>_. x)),
      string_field ''method'' rmethod (\<lambda>x. rmethod_update (\<lambda>_. x)),
      mk_optional_field ''params'' params (\<lambda>x. params_update (\<lambda>_. x)) (\<lambda>v. v) Ok]"

definition request_fields :: "fp \<Rightarrow> rpc_request field list" where
  "request_fields fp = notification_fields @ [int_field fp ''id'' request_nr (\<lambda>x. request_nr_update (\<lambda>_. x))]"

definition error_fields :: "fp \<Rightarrow> error_details field list" where
  "error_fields fp =
     [int_field fp ''code'' error_code (\<lambda>x. error_code_update (\<lambda>_. x)),
      string_field ''message'' message (\<lambda>x. message_update (\<lambda>_. x)),
      mk_optional_field ''data'' error_data (\<lambda>x. error_data_update (\<lambda>_. x)) (\<lambda>v. v) Ok]"

definition empty_notification :: rpc_notification where
  "empty_notification = \<lparr>jsonrpc = [], rmethod = [], params = None\<rparr>"

definition empty_request :: rpc_request where
  "empty_request = \<lparr>jsonrpc = [], rmethod = [], params = None, request_nr = 0\<rparr>"

definition empty_error :: error_details where
  "empty_error = \<lparr>error_code = 0, message = [], error_data = None\<rparr>"

text \<open>Serializing these structs never throws, so their values are those of \<open>JObject\<close>.\<close>

definition error_to_json :: "fp \<Rightarrow> error_details \<Rightarrow> jvalue" where
  "error_to_json fp e = (case serialize_struct StyleNone (error_fields fp) e of Inr v \<Rightarrow> v | Inl _ \<Rightarrow> create_object)"

definition error_of_json :: "fp \<Rightarrow> jvalue \<Rightarrow> error_details expected" where
  "error_of_json fp = deserialize_struct StyleNone False (error_fields fp) empty_error"

definition response_fields :: "fp \<Rightarrow> rpc_response field list" where
  "response_fields fp =
     [string_field ''jsonrpc'' resp_jsonrpc (\<lambda>x. resp_jsonrpc_update (\<lambda>_. x)),
      skip_serializing_if_none (mk_optional_field ''result'' resp_result (\<lambda>x. resp_result_update (\<lambda>_. x)) (\<lambda>v. v) Ok),
      skip_serializing_if_none (mk_optional_field ''error'' resp_error (\<lambda>x. resp_error_update (\<lambda>_. x))
        (error_to_json fp) (error_of_json fp)),
      mk_optional_field ''id'' resp_id (\<lambda>x. resp_id_update (\<lambda>_. x)) value_of_int (deserialize_int fp)]"

definition empty_response :: rpc_response where
  "empty_response = \<lparr>resp_jsonrpc = [], resp_result = None, resp_error = None, resp_id = None\<rparr>"

definition request_to_json :: "fp \<Rightarrow> rpc_request \<Rightarrow> jvalue expected" where
  "request_to_json fp = serialize_struct StyleNone (request_fields fp)"

definition request_of_json :: "fp \<Rightarrow> jvalue \<Rightarrow> rpc_request expected" where
  "request_of_json fp = deserialize_struct StyleNone False (request_fields fp) empty_request"

definition notification_to_json :: "rpc_notification \<Rightarrow> jvalue expected" where
  "notification_to_json = serialize_struct StyleNone notification_fields"

definition response_to_json :: "fp \<Rightarrow> rpc_response \<Rightarrow> jvalue expected" where
  "response_to_json fp = serialize_struct StyleNone (response_fields fp)"

definition response_of_json :: "fp \<Rightarrow> jvalue \<Rightarrow> rpc_response expected" where
  "response_of_json fp = deserialize_struct StyleNone False (response_fields fp) empty_response"

section \<open>Lemmas\<close>

lemmas field_defs = mk_field_def mk_optional_field_def string_field_def int_field_def skip_serializing_if_none_def
  notification_fields_def request_fields_def error_fields_def response_fields_def

lemmas struct_defs = serialize_struct_def deserialize_struct_def serialize_field_def deserialize_field_def
  get_serialized_name_def transform_name_def

text \<open>An optional value that is not an explicit null.\<close>

definition not_null :: "jvalue option \<Rightarrow> bool" where
  "not_null v \<longleftrightarrow> v \<noteq> Some JNull"

lemma request_json: "request_to_json fp r = Ok (JObject [(''jsonrpc'', JString (jsonrpc r)), (''method'', JString (rmethod r)),
    (''params'', serialize_optional (\<lambda>v. v) (params r)), (''id'', JInteger (request_nr r))])"
  by (simp add: request_to_json_def field_defs struct_defs value_of_int_def)

lemma error_json: "error_to_json fp e = JObject [(''code'', JInteger (error_code e)), (''message'', JString (message e)),
    (''data'', serialize_optional (\<lambda>v. v) (error_data e))]"
  by (simp add: error_to_json_def field_defs struct_defs value_of_int_def)

lemma response_json: "response_to_json fp r = Ok (JObject ([(''jsonrpc'', JString (resp_jsonrpc r))] @
    (case resp_result r of None \<Rightarrow> [] | Some v \<Rightarrow> [(''result'', v)]) @
    (case resp_error r of None \<Rightarrow> [] | Some e \<Rightarrow> [(''error'', error_to_json fp e)]) @
    [(''id'', case resp_id r of None \<Rightarrow> JNull | Some i \<Rightarrow> JInteger i)]))"
  by (auto simp: response_to_json_def field_defs struct_defs value_of_int_def serialize_optional_def split: option.splits)

lemma optional_value_back: "not_null v \<Longrightarrow> deserialize_optional Ok (serialize_optional (\<lambda>v. v) v) = Ok v"
  by (cases v) (auto simp: not_null_def deserialize_optional_def serialize_optional_def is_null_def split: jvalue.splits)

lemma int_back: "int_ok i \<Longrightarrow> deserialize_int fp (JInteger i) = Ok i"
  using int_codec.deser_ser by (simp add: value_of_int_def)

lemma as_string_back: "as_string (JString s) = Ok s"
  by (simp add: as_string_def)

lemmas back_simps = optional_value_back int_back as_string_back

lemma request_back:
  assumes "int_ok (request_nr r)" "not_null (params r)"
  shows "bind_res (request_to_json fp r) (request_of_json fp) = Ok r"
  using assms by (simp add: request_json request_of_json_def field_defs struct_defs is_object_def as_object_def back_simps
      empty_request_def)

lemma error_back:
  assumes "int_ok (error_code e)" "not_null (error_data e)"
  shows "error_of_json fp (error_to_json fp e) = Ok e"
  using assms by (simp add: error_json error_of_json_def field_defs struct_defs is_object_def as_object_def back_simps
      empty_error_def)

definition error_ok :: "error_details \<Rightarrow> bool" where
  "error_ok e \<longleftrightarrow> int_ok (error_code e) \<and> not_null (error_data e)"

definition response_ok :: "rpc_response \<Rightarrow> bool" where
  "response_ok r \<longleftrightarrow> not_null (resp_result r) \<and> pred_option error_ok (resp_error r) \<and> pred_option int_ok (resp_id r)"

interpretation error_codec: json_codec error_ok "error_to_json fp" "error_of_json fp" for fp
  by unfold_locales (simp add: error_ok_def error_back, simp add: error_json)

lemma response_back:
  assumes "response_ok r"
  shows "bind_res (response_to_json fp r) (response_of_json fp) = Ok r"
proof -
  have "deserialize_optional Ok v = Ok (Some v)" if "not_null (Some v)" for v
    using optional_value_back [OF that] by (simp add: serialize_optional_def)
  moreover have "deserialize_optional (error_of_json fp) (error_to_json fp e) = Ok (Some e)" if "error_ok e" for e
    using error_codec.optional_back [of "Some e" fp] that by (simp add: serialize_optional_def)
  moreover have "deserialize_optional (deserialize_int fp) (case i of None \<Rightarrow> JNull | Some i \<Rightarrow> JInteger i) = Ok i"
    if "pred_option int_ok i" for i
    using int_codec.optional_back [OF that, of fp] by (cases i) (simp_all add: serialize_optional_def value_of_int_def)
  ultimately show ?thesis
    using assms by (cases "resp_result r"; cases "resp_error r")
      (simp_all add: response_json response_of_json_def field_defs struct_defs is_object_def as_object_def back_simps
        empty_response_def response_ok_def)
qed

section \<open>Properties\<close>

text \<open>C39: A request, and a response, that is serialized and deserialized again is the same struct:
  the numbers fit into an \<open>int\<close> and no optional member is an explicit null, which reads as
  absent.\<close>

theorem rpc_roundtrip:
  "(int_ok (request_nr req) \<and> not_null (params req) \<longrightarrow> bind_res (request_to_json fp req) (request_of_json fp) = Ok req) \<and>
   (response_ok resp \<longrightarrow> bind_res (response_to_json fp resp) (response_of_json fp) = Ok resp)"
  by (simp add: request_back response_back)

definition example_fp :: fp where
  "example_fp = \<lparr>fp_show = (\<lambda>d. []), fp_of_int = (\<lambda>i. Fin i 0), fp_cast = (\<lambda>d. 0)\<rparr>"

definition example_request :: rpc_request where
  "example_request = \<lparr>jsonrpc = ''2.0'', rmethod = ''listFiles'', params = Some (JObject [(''fspath'', JString ''/'')]), request_nr = 7\<rparr>"

definition example_response :: rpc_response where
  "example_response = \<lparr>resp_jsonrpc = ''2.0'', resp_result = None,
     resp_error = Some \<lparr>error_code = -32700, message = ''m'', error_data = None\<rparr>, resp_id = None\<rparr>"

lemma rpc_roundtrip_witness:
  "bind_res (request_to_json example_fp example_request) (request_of_json example_fp) = Ok example_request \<and>
   bind_res (response_to_json example_fp example_response) (response_of_json example_fp) = Ok example_response"
  using rpc_roundtrip [of example_request example_fp example_response]
  by (simp add: example_request_def example_response_def int_ok_def not_null_def response_ok_def error_ok_def)

end
