(* ===== verification/Plugin.thy ===== *)
theory Plugin
  imports Json
begin

text \<open>
  The data that commands exchange with their callers (\<open>extend/plugin.hpp\<close>): result trees
  (\<open>ast::Ast\<close>), tagged arguments (\<open>Argument\<close>), the argument map with its typed getters
  (\<open>Io\<close>), and the plug-in manager's registration and duplicate check
  (\<open>extend/plugin.cpp\<close>).  A node is a value; a null \<open>Node\<close> pointer inside a tree is
  \<open>None\<close>.  Loading a shared object and running its entry point is a parameter.
\<close>

section \<open>Result trees\<close>

datatype ast = ANull | ABoolean bool | AInteger int | ANumber double | AString string
  | AArray "ast option list" | AObject "(string \<times> ast option) list"

datatype ast_kind = KNull | KBoolean | KInteger | KNumber | KString | KArray | KObject

fun ast_kind_of :: "ast \<Rightarrow> ast_kind" where
  "ast_kind_of ANull = KNull"
| "ast_kind_of (ABoolean b) = KBoolean"
| "ast_kind_of (AInteger i) = KInteger"
| "ast_kind_of (ANumber d) = KNumber"
| "ast_kind_of (AString s) = KString"
| "ast_kind_of (AArray a) = KArray"
| "ast_kind_of (AObject m) = KObject"

definition ast_is_number :: "ast \<Rightarrow> bool" where
  "ast_is_number n \<longleftrightarrow> ast_kind_of n = KNumber \<or> ast_kind_of n = KInteger"

definition require_error :: "string \<Rightarrow> exn" where
  "require_error name = ''Json: expected '' @ name"

definition ast_as_bool :: "ast \<Rightarrow> bool result" where
  "ast_as_bool n = (case n of ABoolean b \<Rightarrow> Ok b | _ \<Rightarrow> Throw (require_error ''bool''))"

definition ast_as_integer :: "ast \<Rightarrow> int result" where
  "ast_as_integer n = (case n of AInteger i \<Rightarrow> Ok i | _ \<Rightarrow> Throw (require_error ''integer''))"

definition ast_as_number :: "fp \<Rightarrow> ast \<Rightarrow> double result" where
  "ast_as_number fp n = (case n of AInteger i \<Rightarrow> Ok (fp_of_int fp i) | ANumber d \<Rightarrow> Ok d | _ \<Rightarrow> Throw (require_error ''number''))"

definition ast_as_string :: "ast \<Rightarrow> string result" where
  "ast_as_string n = (case n of AString s \<Rightarrow> Ok s | _ \<Rightarrow> Throw (require_error ''string''))"

definition ast_as_array :: "ast \<Rightarrow> ast option list result" where
  "ast_as_array n = (case n of AArray a \<Rightarrow> Ok a | _ \<Rightarrow> Throw (require_error ''array''))"

definition ast_as_object :: "ast \<Rightarrow> ast option smap result" where
  "ast_as_object n = (case n of AObject m \<Rightarrow> Ok m | _ \<Rightarrow> Throw (require_error ''object''))"

definition ast_set :: "string \<Rightarrow> ast option \<Rightarrow> ast \<Rightarrow> ast result" where
  "ast_set key v n = (case n of AObject m \<Rightarrow> Ok (AObject (AList.update key v m)) | _ \<Rightarrow> Throw (require_error ''object''))"

definition ast_push :: "ast option \<Rightarrow> ast \<Rightarrow> ast result" where
  "ast_push v n = (case n of AArray a \<Rightarrow> Ok (AArray (a @ [v])) | _ \<Rightarrow> Throw (require_error ''array''))"

definition ast_get :: "string \<Rightarrow> ast \<Rightarrow> ast option result" where
  "ast_get key n = (case n of AObject m \<Rightarrow> Ok (case map_of m key of None \<Rightarrow> None | Some v \<Rightarrow> v)
     | _ \<Rightarrow> Throw (require_error ''object''))"

definition ast_at :: "nat \<Rightarrow> ast \<Rightarrow> ast option result" where
  "ast_at idx n = (case n of AArray a \<Rightarrow> (if idx \<ge> length a then Throw ''json array index'' else Ok (a ! idx))
     | _ \<Rightarrow> Throw (require_error ''array''))"

text \<open>\<open>as_json\<close>; strings and keys are put between quotes as they are.\<close>

fun ast_as_json :: "(double \<Rightarrow> string) \<Rightarrow> ast \<Rightarrow> string"
and ast_array_json :: "(double \<Rightarrow> string) \<Rightarrow> bool \<Rightarrow> ast option list \<Rightarrow> string"
and ast_object_json :: "(double \<Rightarrow> string) \<Rightarrow> bool \<Rightarrow> (string \<times> ast option) list \<Rightarrow> string"
where
  "ast_as_json sd ANull = ''null''"
| "ast_as_json sd (ABoolean b) = (if b then ''true'' else ''false'')"
| "ast_as_json sd (AInteger i) = show_int i"
| "ast_as_json sd (ANumber d) = sd d"
| "ast_as_json sd (AString s) = [quote] @ s @ [quote]"
| "ast_as_json sd (AArray a) = ''['' @ ast_array_json sd True a @ '']''"
| "ast_as_json sd (AObject m) = ''{'' @ ast_object_json sd True m @ ''}''"
| "ast_array_json sd first [] = []"
| "ast_array_json sd first (x # xs) =
     (if first then [] else '', '') @ (case x of None \<Rightarrow> ''null'' | Some n \<Rightarrow> ast_as_json sd n) @ ast_array_json sd False xs"
| "ast_object_json sd first [] = []"
| "ast_object_json sd first ((k, x) # xs) =
     (if first then [] else '', '') @ [quote] @ k @ [quote] @ '': '' @
     (case x of None \<Rightarrow> ''null'' | Some n \<Rightarrow> ast_as_json sd n) @ ast_object_json sd False xs"

text \<open>\<open>as_yaml\<close>.\<close>

definition needs_multiline_yaml :: "ast \<Rightarrow> bool" where
  "needs_multiline_yaml n = (case n of AArray a \<Rightarrow> a \<noteq> [] | AObject m \<Rightarrow> m \<noteq> [] | _ \<Rightarrow> False)"

fun append_yaml :: "(double \<Rightarrow> string) \<Rightarrow> nat \<Rightarrow> ast \<Rightarrow> string"
and append_yaml_items :: "(double \<Rightarrow> string) \<Rightarrow> nat \<Rightarrow> bool \<Rightarrow> ast option list \<Rightarrow> string"
and append_yaml_entries :: "(double \<Rightarrow> string) \<Rightarrow> nat \<Rightarrow> bool \<Rightarrow> (string \<times> ast option) list \<Rightarrow> string"
where
  "append_yaml sd indent (AArray a) = (if a = [] then ''[]'' else append_yaml_items sd indent True a)"
| "append_yaml sd indent (AObject m) = (if m = [] then ''{}'' else append_yaml_entries sd indent True m)"
| "append_yaml sd indent n = ast_as_json sd n"
| "append_yaml_items sd indent first [] = []"
| "append_yaml_items sd indent first (x # xs) =
     (if first then [] else [newline]) @ replicate indent CHR '' '' @
     (case x of None \<Rightarrow> ''- null''
      | Some n \<Rightarrow> (if needs_multiline_yaml n then ''-'' @ [newline] @ append_yaml sd (indent + 2) n
                   else ''- '' @ append_yaml sd 0 n)) @ append_yaml_items sd indent False xs"
| "append_yaml_entries sd indent first [] = []"
| "append_yaml_entries sd indent first ((k, x) # xs) =
     (if first then [] else [newline]) @ replicate indent CHR '' '' @ k @
     (case x of None \<Rightarrow> '': null''
      | Some n \<Rightarrow> (if needs_multiline_yaml n then '':'' @ [newline] @ append_yaml sd (indent + 2) n
                   else '': '' @ append_yaml sd 0 n)) @ append_yaml_entries sd indent False xs"

definition ast_as_yaml :: "(double \<Rightarrow> string) \<Rightarrow> ast \<Rightarrow> string" where
  "ast_as_yaml sd n = append_yaml sd 0 n"

section \<open>Arguments\<close>

datatype arg_value = VNone | VBool bool | VInt int | VDouble double | VString string | VList "string list"

record argument =
  arg_val :: arg_value
  is_dynamic :: bool

definition mk_arg :: "arg_value \<Rightarrow> argument" where
  "mk_arg v = \<lparr>arg_val = v, is_dynamic = False\<rparr>"

definition arg_get_bool :: "argument \<Rightarrow> bool option" where
  "arg_get_bool a = (case arg_val a of VBool b \<Rightarrow> Some b | _ \<Rightarrow> None)"

definition arg_get_int :: "argument \<Rightarrow> int option" where
  "arg_get_int a = (case arg_val a of VInt i \<Rightarrow> Some i | _ \<Rightarrow> None)"

definition arg_get_double :: "argument \<Rightarrow> double option" where
  "arg_get_double a = (case arg_val a of VDouble d \<Rightarrow> Some d | _ \<Rightarrow> None)"

definition arg_get_string :: "argument \<Rightarrow> string option" where
  "arg_get_string a = (case arg_val a of VString s \<Rightarrow> Some s | _ \<Rightarrow> None)"

definition arg_get_string_vector :: "argument \<Rightarrow> string list option" where
  "arg_get_string_vector a = (case arg_val a of VList l \<Rightarrow> Some l | _ \<Rightarrow> None)"

definition get_string_value :: "argument \<Rightarrow> string \<Rightarrow> string" where
  "get_string_value a default_val = (case arg_get_string a of Some s \<Rightarrow> s | None \<Rightarrow> default_val)"

fun list_items :: "string list \<Rightarrow> string" where
  "list_items [] = []"
| "list_items [x] = x"
| "list_items (x # xs) = x @ '', '' @ list_items xs"

definition arg_print :: "(double \<Rightarrow> string) \<Rightarrow> argument \<Rightarrow> string" where
  "arg_print sd a = (case arg_val a of
     VNone \<Rightarrow> ''<none>'' | VBool b \<Rightarrow> (if b then ''true'' else ''false'') | VInt i \<Rightarrow> show_int i
   | VDouble d \<Rightarrow> sd d | VString s \<Rightarrow> s | VList l \<Rightarrow> ''['' @ list_items l @ '']'')"

type_synonym argument_map = "argument smap"

section \<open>Argument access\<close>

definition io_has :: "string \<Rightarrow> argument_map \<Rightarrow> bool" where
  "io_has key args \<longleftrightarrow> map_of args key \<noteq> None"

definition io_get_if :: "(argument \<Rightarrow> 'a option) \<Rightarrow> string \<Rightarrow> argument_map \<Rightarrow> 'a option" where
  "io_get_if getter key args = (case map_of args key of None \<Rightarrow> None | Some a \<Rightarrow> getter a)"

definition missing_argument :: "string \<Rightarrow> exn" where
  "missing_argument key = ''argument '' @ [CHR 0x27] @ key @ [CHR 0x27] @ '' missing or wrong type''"

definition io_get :: "(argument \<Rightarrow> 'a option) \<Rightarrow> string \<Rightarrow> argument_map \<Rightarrow> 'a result" where
  "io_get getter key args = (case io_get_if getter key args of None \<Rightarrow> Throw (missing_argument key) | Some x \<Rightarrow> Ok x)"

definition io_get_default :: "(argument \<Rightarrow> 'a option) \<Rightarrow> string \<Rightarrow> 'a \<Rightarrow> argument_map \<Rightarrow> 'a" where
  "io_get_default getter key default_val args = (case io_get_if getter key args of None \<Rightarrow> default_val | Some x \<Rightarrow> x)"

text \<open>The specialisations for \<open>bool\<close>, which look for the negated name first.\<close>

definition io_get_bool :: "string \<Rightarrow> argument_map \<Rightarrow> bool result" where
  "io_get_bool key args = (case io_get_if arg_get_bool (''no-'' @ key) args of
     Some b \<Rightarrow> Ok (\<not> b)
   | None \<Rightarrow> (case io_get_if arg_get_bool key args of None \<Rightarrow> Throw (missing_argument key) | Some b \<Rightarrow> Ok b))"

definition io_get_bool_default :: "string \<Rightarrow> bool \<Rightarrow> argument_map \<Rightarrow> bool" where
  "io_get_bool_default key default_val args = (case io_get_if arg_get_bool (''no-'' @ key) args of
     Some b \<Rightarrow> \<not> b
   | None \<Rightarrow> (case io_get_if arg_get_bool key args of None \<Rightarrow> default_val | Some b \<Rightarrow> b))"

fun dynamic_loop :: "argument_map \<Rightarrow> argument_map \<Rightarrow> argument_map" where
  "dynamic_loop [] acc = acc"
| "dynamic_loop ((k, a) # rest) acc = dynamic_loop rest (if is_dynamic a then AList.update k a acc else acc)"

definition dynamic_arguments :: "argument_map \<Rightarrow> argument_map" where
  "dynamic_arguments args = dynamic_loop args []"

section \<open>The plug-in manager\<close>

record plugin_metadata =
  display_name :: string
  version :: string
  filename :: string

record 'p plugin_manager =
  command_providers :: "'p list"
  plugins :: "plugin_metadata list"
  pending_metadata :: plugin_metadata
  metadata_pending :: bool
  registration_rejected :: bool
  duplicate_display_name :: string
  provider_snapshot :: nat

definition empty_metadata :: plugin_metadata where
  "empty_metadata = \<lparr>display_name = [], version = [], filename = []\<rparr>"

definition new_manager :: "'p plugin_manager" where
  "new_manager = \<lparr>command_providers = [], plugins = [], pending_metadata = empty_metadata, metadata_pending = False,
     registration_rejected = False, duplicate_display_name = [], provider_snapshot = 0\<rparr>"

text \<open>What a plug-in's entry point calls; a null pointer is \<open>None\<close>.\<close>

datatype 'p plugin_call = RegisterProvider "'p option" | RegisterMetadata "string option" "string option"

definition register_command_provider :: "'p option \<Rightarrow> 'p plugin_manager \<Rightarrow> 'p plugin_manager" where
  "register_command_provider provider m = (case provider of
     None \<Rightarrow> m
   | Some p \<Rightarrow> (if registration_rejected m then m else m\<lparr>command_providers := command_providers m @ [p]\<rparr>))"

definition is_display_name_in_use :: "string \<Rightarrow> 'p plugin_manager \<Rightarrow> bool" where
  "is_display_name_in_use name m = (if name = [] then False else list_ex (\<lambda>p. display_name p = name) (plugins m))"

definition register_plugin_metadata :: "string option \<Rightarrow> string option \<Rightarrow> 'p plugin_manager \<Rightarrow> 'p plugin_manager" where
  "register_plugin_metadata name ver m =
     (if registration_rejected m then m
      else (let name = (case name of None \<Rightarrow> [] | Some n \<Rightarrow> n);
                m = m\<lparr>pending_metadata := (pending_metadata m)\<lparr>display_name := name\<rparr>\<rparr>
            in if name \<noteq> [] \<and> is_display_name_in_use name m then
                 m\<lparr>registration_rejected := True, duplicate_display_name := name,
                   metadata_pending := False, pending_metadata := empty_metadata\<rparr>
               else m\<lparr>pending_metadata := (pending_metadata m)\<lparr>version := (case ver of None \<Rightarrow> [] | Some v \<Rightarrow> v)\<rparr>,
                      metadata_pending := True\<rparr>))"

fun apply_call :: "'p plugin_call \<Rightarrow> 'p plugin_manager \<Rightarrow> 'p plugin_manager" where
  "apply_call (RegisterProvider p) m = register_command_provider p m"
| "apply_call (RegisterMetadata n v) m = register_plugin_metadata n v m"

definition discard_command_providers_from :: "nat \<Rightarrow> 'p plugin_manager \<Rightarrow> 'p plugin_manager" where
  "discard_command_providers_from start_index m =
     (if start_index \<ge> length (command_providers m) then m
      else m\<lparr>command_providers := take start_index (command_providers m)\<rparr>)"

definition record_loaded_plugin :: "string \<Rightarrow> 'p plugin_manager \<Rightarrow> 'p plugin_manager" where
  "record_loaded_plugin ident m =
     (let metadata = (if metadata_pending m then pending_metadata m
                      else \<lparr>display_name = ident, version = [], filename = []\<rparr>)
      in m\<lparr>plugins := plugins m @ [metadata\<lparr>filename := ident\<rparr>],
           metadata_pending := False, pending_metadata := empty_metadata\<rparr>)"

text \<open>One directory entry: \<open>dlopen\<close> may fail (\<open>None\<close>), the entry point may be missing
  (\<open>Some None\<close>), or it makes its calls.\<close>

definition load_plugin :: "(string \<Rightarrow> 'p plugin_call list option option) \<Rightarrow> string \<Rightarrow> 'p plugin_manager \<Rightarrow> 'p plugin_manager" where
  "load_plugin dl ident m = (case dl (''./plugins/'' @ ident) of
     None \<Rightarrow> m
   | Some None \<Rightarrow> m
   | Some (Some calls) \<Rightarrow>
       (let m = fold apply_call calls
              (m\<lparr>metadata_pending := False, pending_metadata := empty_metadata, registration_rejected := False,
                 duplicate_display_name := [], provider_snapshot := length (command_providers m)\<rparr>)
        in if registration_rejected m then discard_command_providers_from (provider_snapshot m) m
           else record_loaded_plugin ident m))"

definition load_plugins :: "(string \<Rightarrow> 'p plugin_call list option option) \<Rightarrow> string list \<Rightarrow> 'p plugin_manager \<Rightarrow> 'p plugin_manager" where
  "load_plugins dl entries m = fold (load_plugin dl) entries m"

section \<open>What loading does to the manager\<close>

text \<open>The providers and the metadata of one entry point, read off its calls; the first duplicate
  display name rejects the plug-in and makes every later call a no-op.\<close>

fun providers_of :: "'p plugin_call list \<Rightarrow> 'p list" where
  "providers_of [] = []"
| "providers_of (RegisterProvider (Some p) # cs) = p # providers_of cs"
| "providers_of (_ # cs) = providers_of cs"

definition call_rejects :: "'p plugin_manager \<Rightarrow> 'p plugin_call \<Rightarrow> bool" where
  "call_rejects m c = (case c of RegisterMetadata (Some n) _ \<Rightarrow> is_display_name_in_use n m | _ \<Rightarrow> False)"

definition call_name :: "string option \<Rightarrow> 'p plugin_call \<Rightarrow> string option" where
  "call_name cur c = (case c of RegisterMetadata n _ \<Rightarrow> Some (case n of None \<Rightarrow> [] | Some n \<Rightarrow> n) | RegisterProvider _ \<Rightarrow> cur)"

lemma is_display_name_in_use_iff: "is_display_name_in_use n m \<longleftrightarrow> n \<noteq> [] \<and> n \<in> display_name ` set (plugins m)"
  by (auto simp: is_display_name_in_use_def list_ex_iff)

lemma apply_call_plugins [simp]:
  "plugins (apply_call c m) = plugins m" "provider_snapshot (apply_call c m) = provider_snapshot m"
  by (cases c; auto simp: register_command_provider_def register_plugin_metadata_def Let_def split: option.splits)+

lemma apply_call_rejected [simp]: "registration_rejected m \<Longrightarrow> apply_call c m = m"
  by (cases c) (auto simp: register_command_provider_def register_plugin_metadata_def split: option.splits)

lemma apply_calls_rejected [simp]: "registration_rejected m \<Longrightarrow> fold apply_call cs m = m"
  by (induction cs) auto

lemma apply_call_accepting:
  assumes "\<not> registration_rejected m"
  shows "registration_rejected (apply_call c m) = call_rejects m c"
    and "command_providers (apply_call c m) = command_providers m @ providers_of [c]"
  using assms
  by (cases c; auto simp: register_command_provider_def register_plugin_metadata_def call_rejects_def Let_def
      is_display_name_in_use_def split: option.splits)+

definition pending_name :: "'p plugin_manager \<Rightarrow> string option" where
  "pending_name m = (if metadata_pending m then Some (display_name (pending_metadata m)) else None)"

lemma apply_call_metadata:
  assumes "\<not> registration_rejected m" "\<not> call_rejects m c"
  shows "pending_name (apply_call c m) = call_name (pending_name m) c"
  using assms
  by (cases c; auto simp: pending_name_def register_command_provider_def register_plugin_metadata_def call_rejects_def call_name_def Let_def
      is_display_name_in_use_def split: option.splits)

lemma apply_calls_plugins [simp]:
  "plugins (fold apply_call cs m) = plugins m" "provider_snapshot (fold apply_call cs m) = provider_snapshot m"
  by (induction cs arbitrary: m) auto

lemma providers_of_Cons: "providers_of (c # cs) = providers_of [c] @ providers_of cs"
  by (cases "c # cs" rule: providers_of.cases) auto

lemma in_use_same_plugins: "plugins m = plugins m' \<Longrightarrow> is_display_name_in_use n m = is_display_name_in_use n m'"
  by (simp add: is_display_name_in_use_def)

lemma call_rejects_same_plugins: "plugins m = plugins m' \<Longrightarrow> call_rejects m c = call_rejects m' c"
  by (auto simp: call_rejects_def is_display_name_in_use_def split: plugin_call.splits option.splits)

lemma apply_calls_accepting:
  assumes "\<not> registration_rejected m"
  shows "registration_rejected (fold apply_call cs m) \<longleftrightarrow> (\<exists>c\<in>set cs. call_rejects m c)"
    and "\<not> (\<exists>c\<in>set cs. call_rejects m c) \<Longrightarrow>
      command_providers (fold apply_call cs m) = command_providers m @ providers_of cs"
  using assms
proof (induction cs arbitrary: m)
  case (Cons c cs)
  have rej: "call_rejects (apply_call c m) d = call_rejects m d" for m d
    by (simp add: call_rejects_same_plugins [of "apply_call c m" m])
  { case 1
    then show ?case
      using Cons.IH(1) [of "apply_call c m"] apply_call_accepting(1) [of m c]
      by (cases "call_rejects m c") (auto simp: rej)
  next
    case 2
    then show ?case
      using Cons.IH(2) [of "apply_call c m"] apply_call_accepting [of m c]
      by (simp add: rej providers_of_Cons [of c cs])
  }
qed simp_all

lemma apply_calls_keep_providers:
  "\<exists>ps. command_providers (fold apply_call cs m) = command_providers m @ ps"
proof (induction cs arbitrary: m)
  case (Cons c cs)
  have "\<exists>ps. command_providers (apply_call c m) = command_providers m @ ps"
    using apply_call_accepting(2) [of m c] by (cases "registration_rejected m") auto
  with Cons [of "apply_call c m"] show ?case
    by auto
qed simp

lemma apply_calls_metadata:
  assumes "\<not> registration_rejected m" "\<not> (\<exists>c\<in>set cs. call_rejects m c)"
  shows "pending_name (fold apply_call cs m) = foldl call_name (pending_name m) cs"
  using assms
proof (induction cs arbitrary: m)
  case (Cons c cs)
  have rej: "call_rejects (apply_call c m) d = call_rejects m d" for m d
    by (simp add: call_rejects_same_plugins [of "apply_call c m" m])
  show ?case
    using Cons.IH [of "apply_call c m"] Cons.prems apply_call_accepting(1) [of m c] apply_call_metadata [of m c]
    by (simp add: rej)
qed simp

definition accepted_name :: "string \<Rightarrow> 'p plugin_call list \<Rightarrow> string" where
  "accepted_name ident cs = (case foldl call_name None cs of None \<Rightarrow> ident | Some n \<Rightarrow> n)"

definition loads :: "(string \<Rightarrow> 'p plugin_call list option option) \<Rightarrow> string \<Rightarrow> 'p plugin_manager \<Rightarrow> 'p plugin_call list option" where
  "loads dl ident m = (case dl (''./plugins/'' @ ident) of
     Some (Some cs) \<Rightarrow> (if \<exists>c\<in>set cs. call_rejects m c then None else Some cs) | _ \<Rightarrow> None)"

lemma load_plugin_state:
  "command_providers (load_plugin dl ident m)
     = command_providers m @ (case loads dl ident m of None \<Rightarrow> [] | Some cs \<Rightarrow> providers_of cs)"
  "map display_name (plugins (load_plugin dl ident m))
     = map display_name (plugins m) @ (case loads dl ident m of None \<Rightarrow> [] | Some cs \<Rightarrow> [accepted_name ident cs])"
  "map filename (plugins (load_plugin dl ident m))
     = map filename (plugins m) @ (case loads dl ident m of None \<Rightarrow> [] | Some cs \<Rightarrow> [ident])"
proof -
  define s where "s = m\<lparr>metadata_pending := False, pending_metadata := empty_metadata, registration_rejected := False,
                 duplicate_display_name := [], provider_snapshot := length (command_providers m)\<rparr>"
  have s: "\<not> registration_rejected s" "command_providers s = command_providers m" "plugins s = plugins m"
    "\<not> metadata_pending s" "provider_snapshot s = length (command_providers m)"
    by (simp_all add: s_def)
  have rej: "call_rejects s c = call_rejects m c" for c
    by (rule call_rejects_same_plugins) (simp add: s)
  have acc: "registration_rejected (fold apply_call cs s) \<longleftrightarrow> (\<exists>c\<in>set cs. call_rejects m c)" for cs
    using apply_calls_accepting(1) [OF s(1), of cs] by (simp add: rej)
  have prov: "\<not> (\<exists>c\<in>set cs. call_rejects m c) \<Longrightarrow>
      command_providers (fold apply_call cs s) = command_providers m @ providers_of cs" for cs
    using apply_calls_accepting(2) [OF s(1), of cs] by (simp add: rej s)
  have cut: "command_providers (discard_command_providers_from (length (command_providers m)) (fold apply_call cs s)) = command_providers m"
    "plugins (discard_command_providers_from n (fold apply_call cs s)) = plugins m" for cs n
    using apply_calls_keep_providers [of cs s] by (auto simp: discard_command_providers_from_def s)
  have meta: "\<not> (\<exists>c\<in>set cs. call_rejects m c) \<Longrightarrow>
      display_name (if metadata_pending (fold apply_call cs s) then pending_metadata (fold apply_call cs s)
        else \<lparr>display_name = ident, version = [], filename = []\<rparr>) = accepted_name ident cs" for cs
    using apply_calls_metadata [OF s(1), of cs] by (auto simp: rej s pending_name_def accepted_name_def split: if_splits option.splits)
  have step: "load_plugin dl ident m = (case dl (''./plugins/'' @ ident) of Some (Some cs) \<Rightarrow>
      (let m' = fold apply_call cs s in
       if registration_rejected m' then discard_command_providers_from (provider_snapshot m') m' else record_loaded_plugin ident m') | _ \<Rightarrow> m)"
    by (auto simp: load_plugin_def s_def split: option.splits)
  show "command_providers (load_plugin dl ident m)
     = command_providers m @ (case loads dl ident m of None \<Rightarrow> [] | Some cs \<Rightarrow> providers_of cs)"
    by (auto simp: step loads_def acc prov cut s record_loaded_plugin_def Let_def split: option.splits)
  show "map display_name (plugins (load_plugin dl ident m))
     = map display_name (plugins m) @ (case loads dl ident m of None \<Rightarrow> [] | Some cs \<Rightarrow> [accepted_name ident cs])"
    using meta by (simp_all add: step loads_def acc cut s record_loaded_plugin_def Let_def split: option.splits)
  show "map filename (plugins (load_plugin dl ident m))
     = map filename (plugins m) @ (case loads dl ident m of None \<Rightarrow> [] | Some cs \<Rightarrow> [ident])"
    by (auto simp: step loads_def acc cut s record_loaded_plugin_def Let_def split: option.splits)
qed


text \<open>Loading one plug-in is atomic.  If its library opens, has an entry point, and no display
  name it registers is non-empty and already taken, then exactly its non-null command providers are
  appended, with one record carrying its file name and the last display name it registered (its
  file name if it registered none); in every other case the providers and the records are as they
  were, whatever the entry point had already registered.\<close>

theorem load_plugin_atomic:
  "case loads dl ident m of
     None \<Rightarrow> command_providers (load_plugin dl ident m) = command_providers m
       \<and> map display_name (plugins (load_plugin dl ident m)) = map display_name (plugins m)
       \<and> map filename (plugins (load_plugin dl ident m)) = map filename (plugins m)
   | Some cs \<Rightarrow> dl (''./plugins/'' @ ident) = Some (Some cs)
       \<and> command_providers (load_plugin dl ident m) = command_providers m @ providers_of cs
       \<and> map display_name (plugins (load_plugin dl ident m)) = map display_name (plugins m) @ [accepted_name ident cs]
       \<and> map filename (plugins (load_plugin dl ident m)) = map filename (plugins m) @ [ident]"
proof (cases "loads dl ident m")
  case (Some cs)
  then have "dl (''./plugins/'' @ ident) = Some (Some cs)"
    by (auto simp: loads_def split: option.splits if_splits)
  with Some show ?thesis
    by (simp add: load_plugin_state)
qed (simp add: load_plugin_state)

text \<open>Two plug-ins can share a display name only when the later one took it from its file name.\<close>

definition clashes_by_file_name :: "plugin_metadata list \<Rightarrow> bool" where
  "clashes_by_file_name ps \<longleftrightarrow> (\<forall>j<length ps. \<forall>i<j. display_name (ps ! i) = display_name (ps ! j) \<longrightarrow>
     display_name (ps ! j) = [] \<or> display_name (ps ! j) = filename (ps ! j))"

lemma clashes_snoc:
  "clashes_by_file_name (ps @ [p]) \<longleftrightarrow> clashes_by_file_name ps \<and>
     (display_name p \<in> display_name ` set ps \<longrightarrow> display_name p = [] \<or> display_name p = filename p)"
  unfolding clashes_by_file_name_def image_iff bex_simps
  by (auto simp: nth_append less_Suc_eq set_conv_nth)

lemma foldl_call_name: "foldl call_name None cs = Some n \<Longrightarrow> n \<noteq> [] \<Longrightarrow> \<exists>v. RegisterMetadata (Some n) v \<in> set cs"
proof (induction cs rule: rev_induct)
  case (snoc c cs)
  then show ?case
    by (cases c) (auto simp: call_name_def split: option.splits)
qed simp

lemma load_plugin_plugins:
  "plugins (load_plugin dl ident m) = plugins m \<or>
   (\<exists>cs p. loads dl ident m = Some cs \<and> plugins (load_plugin dl ident m) = plugins m @ [p]
      \<and> display_name p = accepted_name ident cs \<and> filename p = ident)"
proof -
  have cut: "plugins (discard_command_providers_from n m') = plugins m'" for n and m' :: "'a plugin_manager"
    by (simp add: discard_command_providers_from_def)
  have "plugins (load_plugin dl ident m) = plugins m \<or> (\<exists>p. plugins (load_plugin dl ident m) = plugins m @ [p])"
    by (auto simp: load_plugin_def cut record_loaded_plugin_def Let_def split: option.splits)
  then show ?thesis
  proof
    assume "\<exists>p. plugins (load_plugin dl ident m) = plugins m @ [p]"
    then obtain p where p: "plugins (load_plugin dl ident m) = plugins m @ [p]" ..
    then show ?thesis
      using load_plugin_state(2,3) [of dl ident m] by (cases "loads dl ident m") auto
  qed simp
qed

lemma load_plugin_clashes:
  assumes "clashes_by_file_name (plugins m)"
  shows "clashes_by_file_name (plugins (load_plugin dl ident m))"
proof (cases "plugins (load_plugin dl ident m) = plugins m")
  case False
  then obtain cs p where p: "loads dl ident m = Some cs" "plugins (load_plugin dl ident m) = plugins m @ [p]"
      "display_name p = accepted_name ident cs" "filename p = ident"
    using load_plugin_plugins by metis
  have "display_name p = [] \<or> display_name p = filename p" if "display_name p \<in> display_name ` set (plugins m)"
  proof (cases "foldl call_name None cs")
    case (Some n)
    then have n: "display_name p = n"
      by (simp add: p accepted_name_def)
    show ?thesis
    proof (rule ccontr)
      assume neg: "\<not> ?thesis"
      with Some n obtain v where "RegisterMetadata (Some n) v \<in> set cs"
        using foldl_call_name by blast
      moreover have "call_rejects m (RegisterMetadata (Some n) v)"
        using that n neg by (simp add: call_rejects_def is_display_name_in_use_iff)
      ultimately show False
        using p(1) by (auto simp: loads_def split: option.splits if_splits)
    qed
  qed (simp add: p accepted_name_def)
  with assms show ?thesis
    by (simp add: p(2) clashes_snoc)
qed (use assms in simp)

text \<open>Whatever the plug-in directory holds and the entry points do, two loaded plug-ins have the
  same non-empty display name only if the later one registered no metadata (or its own file name):
  a registered name is checked against the loaded ones, the fall-back to the file name is not.\<close>

theorem display_names_clash_by_fallback:
  assumes "i < j" "j < length (plugins (load_plugins dl entries new_manager))"
    and "display_name (plugins (load_plugins dl entries new_manager) ! i)
       = display_name (plugins (load_plugins dl entries new_manager) ! j)"
    and "display_name (plugins (load_plugins dl entries new_manager) ! j) \<noteq> []"
  shows "display_name (plugins (load_plugins dl entries new_manager) ! j)
       = filename (plugins (load_plugins dl entries new_manager) ! j)"
proof -
  have "clashes_by_file_name (plugins (fold (load_plugin dl) es m))" if "clashes_by_file_name (plugins m)"
    for es and m :: "'a plugin_manager"
    using that by (induction es arbitrary: m) (simp_all add: load_plugin_clashes)
  from this [of new_manager entries] show ?thesis
    using assms by (auto simp: clashes_by_file_name_def new_manager_def load_plugins_def)
qed

definition sample_dl :: "string \<Rightarrow> nat plugin_call list option option" where
  "sample_dl path = (if path = ''./plugins/a'' then Some (Some [RegisterProvider (Some 1), RegisterMetadata (Some ''b'') None])
     else if path = ''./plugins/b'' then Some (Some [RegisterProvider (Some 2)])
     else if path = ''./plugins/c'' then Some (Some [RegisterProvider (Some 3), RegisterMetadata (Some ''b'') None])
     else None)"

lemma sample_plugins:
  "map (\<lambda>p. (display_name p, filename p)) (plugins (load_plugins sample_dl [''a'', ''b'', ''c''] new_manager))
     = [(''b'', ''a''), (''b'', ''b'')]"
  "command_providers (load_plugins sample_dl [''a'', ''b'', ''c''] new_manager) = [1, 2]"
  by code_simp+

theorem display_names_clash_by_fallback_witness:
  "let ps = plugins (load_plugins sample_dl [''a'', ''b'', ''c''] new_manager)
   in length ps = 2 \<and> display_name (ps ! 0) = display_name (ps ! 1) \<and> display_name (ps ! 1) = filename (ps ! 1)"
proof -
  define ps where "ps = plugins (load_plugins sample_dl [''a'', ''b'', ''c''] new_manager)"
  have len: "length ps = 2"
    using arg_cong [OF sample_plugins(1), of length] by (simp add: ps_def)
  have "display_name (ps ! i) = ''b''" if "i < 2" for i
    using arg_cong [OF sample_plugins(1), of "\<lambda>l. fst (l ! i)"] that len
    by (cases i) (auto simp: ps_def less_2_cases_iff)
  then show ?thesis
    using display_names_clash_by_fallback [of 0 1 sample_dl "[''a'', ''b'', ''c'']"] len
    by (simp add: ps_def)
qed

end
