(* ===== verification/Lexer.thy ===== *)
theory Lexer
  imports Json
begin

text \<open>
  The lexer of command lines (\<open>lexer.hpp\<close>): locations, the input iterator, errors, tokens and
  the functions that read one token.  A pointer into the input is the position it points to.  The
  character classes are those of the C locale.  \<open>strtod\<close> is an argument; it gives the value, the
  number of characters it took, and whether it set \<open>ERANGE\<close>.
\<close>

section \<open>Input\<close>

record location =
  loc_filename :: string
  loc_line :: nat
  loc_col :: nat

definition show_location :: "location \<Rightarrow> string" where
  "show_location l = (if loc_filename l = [] then ''<string>'' else loc_filename l) @ '' ('' @
     show_nat (loc_line l) @ '':'' @ show_nat (loc_col l) @ '')''"

record input_iter =
  it_input :: string
  it_filename :: string
  it_line :: nat
  it_col :: nat
  it_pos :: nat

definition get_iterator :: "string \<Rightarrow> string \<Rightarrow> input_iter" where
  "get_iterator file input = \<lparr>it_input = input, it_filename = file, it_line = 1, it_col = 1, it_pos = 0\<rparr>"

definition nul :: char where
  "nul = CHR 0x00"

definition char_at :: "input_iter \<Rightarrow> nat \<Rightarrow> char" where
  "char_at it k = (if it_pos it + k < length (it_input it) then it_input it ! (it_pos it + k) else nul)"

definition current :: "input_iter \<Rightarrow> char" where
  "current it = char_at it 0"

definition peek :: "input_iter \<Rightarrow> char" where
  "peek it = char_at it 1"

definition peek2 :: "input_iter \<Rightarrow> char" where
  "peek2 it = char_at it 2"

definition has_more :: "input_iter \<Rightarrow> bool" where
  "has_more it \<longleftrightarrow> it_pos it < length (it_input it)"

definition advance :: "input_iter \<Rightarrow> input_iter" where
  "advance it = (if has_more it then
     (let c = it_input it ! it_pos it;
          it = (if c = newline then it\<lparr>it_line := it_line it + 1, it_col := 1\<rparr>
                else if c = CHR 0x09 then it\<lparr>it_col := it_col it + 4\<rparr>
                else it\<lparr>it_col := it_col it + 1\<rparr>)
      in it\<lparr>it_pos := it_pos it + 1\<rparr>)
   else it)"

definition get_location :: "input_iter \<Rightarrow> location" where
  "get_location it = \<lparr>loc_filename = it_filename it, loc_line = it_line it, loc_col = it_col it\<rparr>"

section \<open>Errors\<close>

datatype lex_error_kind = InvalidChar | UnclosedString | UnknownEscape | IntOutOfRange | IncompleteInt
  | FloatOutOfRange | InvalidFloat

record lex_error =
  lex_loc :: location
  lex_kind :: lex_error_kind

definition lex_fail :: "location \<Rightarrow> lex_error_kind \<Rightarrow> lex_error + 'a" where
  "lex_fail l k = Inl \<lparr>lex_loc = l, lex_kind = k\<rparr>"

definition lex_error_text :: "lex_error \<Rightarrow> string" where
  "lex_error_text e = show_location (lex_loc e) @ '': '' @ (case lex_kind e of
     InvalidChar \<Rightarrow> ''invalid character''
   | UnclosedString \<Rightarrow> ''unclosed string literal''
   | UnknownEscape \<Rightarrow> ''unknown escape character''
   | IntOutOfRange \<Rightarrow> ''integer literal out of 64-bit range''
   | IncompleteInt \<Rightarrow> ''incomplete integer literal''
   | FloatOutOfRange \<Rightarrow> ''floating-point literal out of range''
   | InvalidFloat \<Rightarrow> ''invalid floating-point literal'')"

section \<open>Tokens\<close>

datatype radix = Dec | Bin | Hex

datatype token_kind = TokEof | TokTrue | TokFalse | TokMinus | TokDoubleMinus | TokTimes | TokId
  | TokIntLit | TokFloatLit | TokStrLit | TokFlagShort | TokFlagLong

text \<open>The union of a token's data: a slice of the input (start and length), or a number.\<close>

datatype token_data = StringRef nat nat | IntLit int radix | FloatLit double bool

record token =
  tk_kind :: token_kind
  tk_start :: nat
  tk_end :: nat
  tk_data :: token_data

definition simple_token :: "token_kind \<Rightarrow> nat \<Rightarrow> nat \<Rightarrow> token" where
  "simple_token k s e = \<lparr>tk_kind = k, tk_start = s, tk_end = e, tk_data = IntLit 0 Dec\<rparr>"

definition make_string_token :: "token_kind \<Rightarrow> nat \<Rightarrow> nat \<Rightarrow> nat \<Rightarrow> nat \<Rightarrow> token" where
  "make_string_token k start len s e = \<lparr>tk_kind = k, tk_start = s, tk_end = e, tk_data = StringRef start len\<rparr>"

definition make_int_lit :: "int \<Rightarrow> radix \<Rightarrow> nat \<Rightarrow> nat \<Rightarrow> token" where
  "make_int_lit v b s e = \<lparr>tk_kind = TokIntLit, tk_start = s, tk_end = e, tk_data = IntLit v b\<rparr>"

definition make_float_lit :: "double \<Rightarrow> bool \<Rightarrow> nat \<Rightarrow> nat \<Rightarrow> token" where
  "make_float_lit v ex s e = \<lparr>tk_kind = TokFloatLit, tk_start = s, tk_end = e, tk_data = FloatLit v ex\<rparr>"

definition slice :: "string \<Rightarrow> nat \<Rightarrow> nat \<Rightarrow> string" where
  "slice input start len = take len (drop start input)"

definition get_id_value :: "string \<Rightarrow> token \<Rightarrow> string result" where
  "get_id_value input t = (if tk_kind t = TokId \<or> tk_kind t = TokFlagShort \<or> tk_kind t = TokFlagLong
     then (case tk_data t of StringRef s n \<Rightarrow> Ok (slice input s n) | _ \<Rightarrow> Ok [])
     else Throw ''token is not an identifier or flag'')"

definition get_int_value :: "token \<Rightarrow> int result" where
  "get_int_value t = (case (tk_kind t, tk_data t) of (TokIntLit, IntLit v b) \<Rightarrow> Ok v
     | _ \<Rightarrow> Throw ''token is not an integer literal'')"

definition get_float_value :: "token \<Rightarrow> double result" where
  "get_float_value t = (case (tk_kind t, tk_data t) of (TokFloatLit, FloatLit v ex) \<Rightarrow> Ok v
     | _ \<Rightarrow> Throw ''token is not a float literal'')"

text \<open>Escape sequences of a string literal, processed when its value is asked for.\<close>

definition unescaped :: "char \<Rightarrow> char" where
  "unescaped c = (if c = CHR ''n'' then newline else if c = CHR ''r'' then CHR 0x0D
     else if c = CHR ''t'' then CHR 0x09 else if c = CHR ''0'' then nul else c)"

fun unescape_slice :: "string \<Rightarrow> string" where
  "unescape_slice [] = []"
| "unescape_slice [c] = [c]"
| "unescape_slice (c # d # rest) =
     (if c = backslash then unescaped d # unescape_slice rest else c # unescape_slice (d # rest))"

definition get_str_lit_value :: "string \<Rightarrow> token \<Rightarrow> string result" where
  "get_str_lit_value input t = (if tk_kind t \<noteq> TokStrLit then Throw ''token is not a string literal''
     else (case tk_data t of StringRef s n \<Rightarrow> Ok (unescape_slice (slice input s n)) | _ \<Rightarrow> Ok []))"

section \<open>Character classes\<close>

definition is_hex_digit :: "char \<Rightarrow> bool" where
  "is_hex_digit c \<longleftrightarrow> is_digit c \<or> 97 \<le> code c \<and> code c \<le> 102 \<or> 65 \<le> code c \<and> code c \<le> 70"

definition is_bin_digit :: "char \<Rightarrow> bool" where
  "is_bin_digit c \<longleftrightarrow> c = CHR ''0'' \<or> c = CHR ''1''"

definition is_ident_start :: "char \<Rightarrow> bool" where
  "is_ident_start c \<longleftrightarrow> c \<noteq> CHR '' '' \<and> \<not> is_cntrl c"

definition is_ident_cont :: "char \<Rightarrow> bool" where
  "is_ident_cont c \<longleftrightarrow> is_ident_start c"

definition is_digit_or_underscore :: "radix \<Rightarrow> char \<Rightarrow> bool" where
  "is_digit_or_underscore base c \<longleftrightarrow> c = CHR ''_'' \<or>
     (case base of Dec \<Rightarrow> is_digit c | Hex \<Rightarrow> is_hex_digit c | Bin \<Rightarrow> is_bin_digit c)"

section \<open>Printing\<close>

text \<open>\<open>Token::print\<close>.  Formatting a double is an argument, told whether to use the scientific
  notation; what cannot be printed of a string becomes the byte \<open>0x3F\<close>.\<close>

definition ref_text :: "string \<Rightarrow> token \<Rightarrow> string" where
  "ref_text input t = (case tk_data t of StringRef s n \<Rightarrow> slice input s n | _ \<Rightarrow> [])"

definition print_plain :: "char \<Rightarrow> string" where
  "print_plain c = (if c = quote then [backslash, quote] else if c = newline then [backslash, CHR ''n'']
     else if c = CHR 0x0D then [backslash, CHR ''r''] else if c = CHR 0x09 then [backslash, CHR ''t'']
     else if is_print c then [c] else [char_of_byte 0x3F])"

fun print_slice :: "string \<Rightarrow> string" where
  "print_slice [] = []"
| "print_slice [c] = print_plain c"
| "print_slice (c # d # rest) =
     (if c = backslash then backslash # d # print_slice rest else print_plain c @ print_slice (d # rest))"

function show_hex :: "nat \<Rightarrow> string" where
  "show_hex n = (if n < 16 then [hex_digit n] else show_hex (n div 16) @ [hex_digit (n mod 16)])"
  by pat_completeness auto
termination
  by (relation "measure id") auto

declare show_hex.simps [simp del]

definition print_integer_literal :: "int \<Rightarrow> radix \<Rightarrow> string" where
  "print_integer_literal v b = (case b of
     Hex \<Rightarrow> ''0x'' @ show_hex (nat (v mod 2 ^ 64))
   | Bin \<Rightarrow> ''0b'' @ (if v = 0 then ''0''
              else dropWhile (\<lambda>c. c = CHR ''0'') (map (\<lambda>i. if odd (v div 2 ^ i) then CHR ''1'' else CHR ''0'') (rev [0..<64])))
   | Dec \<Rightarrow> show_int v)"

fun kind_number :: "token_kind \<Rightarrow> nat" where
  "kind_number TokEof = 0" | "kind_number TokTrue = 1" | "kind_number TokFalse = 2" | "kind_number TokMinus = 3"
| "kind_number TokDoubleMinus = 4" | "kind_number TokTimes = 5" | "kind_number TokId = 6" | "kind_number TokIntLit = 7"
| "kind_number TokFloatLit = 8" | "kind_number TokStrLit = 9" | "kind_number TokFlagShort = 10" | "kind_number TokFlagLong = 11"

definition print_token :: "(bool \<Rightarrow> double \<Rightarrow> string) \<Rightarrow> string \<Rightarrow> token \<Rightarrow> string" where
  "print_token show_double input t = (case tk_kind t of
     TokFlagShort \<Rightarrow> ''-'' @ ref_text input t
   | TokFlagLong \<Rightarrow> ''--'' @ ref_text input t
   | TokId \<Rightarrow> ref_text input t
   | TokStrLit \<Rightarrow> [quote] @ print_slice (ref_text input t) @ [quote]
   | TokIntLit \<Rightarrow> (case tk_data t of IntLit v b \<Rightarrow> print_integer_literal v b | _ \<Rightarrow> [])
   | TokFloatLit \<Rightarrow> (case tk_data t of FloatLit v ex \<Rightarrow> show_double ex v | _ \<Rightarrow> [])
   | TokFalse \<Rightarrow> ''false''
   | TokTrue \<Rightarrow> ''true''
   | k \<Rightarrow> ''<unknown token_kind: '' @ show_nat (kind_number k) @ ''>'')"

section \<open>Loops\<close>

text \<open>\<open>while (P(current())) next();\<close>.  At the end of the input the current character is NUL, which
  no loop condition of the lexer accepts, so the bound on the position is never what ends the loop.\<close>

function skip_while :: "(char \<Rightarrow> bool) \<Rightarrow> input_iter \<Rightarrow> input_iter" where
  "skip_while P it = (if P (current it) \<and> has_more it then skip_while P (advance it) else it)"
  by pat_completeness auto
termination
  by (relation "measure (\<lambda>(P, it). length (it_input it) - it_pos it)")
    (auto simp: advance_def has_more_def Let_def)

declare skip_while.simps [simp del]

definition is_blank :: "char \<Rightarrow> bool" where
  "is_blank c \<longleftrightarrow> c = CHR '' '' \<or> c = CHR 0x09 \<or> c = newline \<or> c = CHR 0x0D"

lemma advance_simps [simp]:
  "it_input (advance it) = it_input it" "it_filename (advance it) = it_filename it"
  "it_pos (advance it) = (if has_more it then it_pos it + 1 else it_pos it)"
  by (auto simp: advance_def Let_def)

lemma skip_while_bounds:
  "it_input (skip_while P it) = it_input it \<and> it_pos it \<le> it_pos (skip_while P it) \<and>
   (it_pos it \<le> length (it_input it) \<longrightarrow> it_pos (skip_while P it) \<le> length (it_input it))"
proof (induction P it rule: skip_while.induct)
  case (1 P it)
  then show ?case
    by (subst (1 2 3) skip_while.simps) (auto simp: has_more_def)
qed

lemma skip_while_input [simp]: "it_input (skip_while P it) = it_input it"
  using skip_while_bounds by blast

lemma skip_while_ge: "it_pos it \<le> it_pos (skip_while P it)"
  using skip_while_bounds by blast

lemma current_has_more: "current it \<noteq> nul \<Longrightarrow> has_more it"
  by (auto simp: current_def char_at_def has_more_def split: if_splits)

text \<open>The loop as it stands in the source.\<close>

lemma skip_while_source: "\<not> P nul \<Longrightarrow> skip_while P it = (if P (current it) then skip_while P (advance it) else it)"
  using current_has_more [of it] by (cases "current it = nul") (subst skip_while.simps, auto)+

function eat_whitespace_and_comments :: "input_iter \<Rightarrow> input_iter" where
  "eat_whitespace_and_comments it =
     (if is_blank (current it) \<and> has_more it then eat_whitespace_and_comments (advance it)
      else if current it = CHR ''#'' \<and> peek it = CHR '' '' \<and> has_more it then
        eat_whitespace_and_comments (skip_while (\<lambda>c. c \<noteq> newline \<and> c \<noteq> nul) (advance it))
      else it)"
  by pat_completeness auto
termination
proof (relation "measure (\<lambda>it. length (it_input it) - it_pos it)")
  fix it :: input_iter
  assume "current it = CHR ''#'' \<and> peek it = CHR '' '' \<and> has_more it"
  then show "(skip_while (\<lambda>c. c \<noteq> newline \<and> c \<noteq> nul) (advance it), it) \<in> measure (\<lambda>it. length (it_input it) - it_pos it)"
    using skip_while_ge [of "advance it" "\<lambda>c. c \<noteq> newline \<and> c \<noteq> nul"] by (auto simp: has_more_def)
qed (auto simp: has_more_def)

declare eat_whitespace_and_comments.simps [simp del]


section \<open>Numbers\<close>

text \<open>The digits of a number go into a buffer of 128 characters; what does not fit is dropped.\<close>

definition push_num :: "string \<Rightarrow> char \<Rightarrow> string" where
  "push_num buf c = (if length buf < 127 then buf @ [c] else buf)"

function scan_digits :: "radix \<Rightarrow> string \<Rightarrow> input_iter \<Rightarrow> string \<times> input_iter" where
  "scan_digits base buf it = (if is_digit_or_underscore base (current it)
     then scan_digits base (if current it \<noteq> CHR ''_'' then push_num buf (current it) else buf) (advance it)
     else (buf, it))"
  by pat_completeness auto
termination
proof (relation "measure (\<lambda>(base, buf, it). length (it_input it) - it_pos it)")
  fix base :: radix and buf :: string and it
  assume "is_digit_or_underscore base (current it)"
  then have "has_more it"
    by (intro current_has_more) (auto simp: is_digit_or_underscore_def is_digit_def is_hex_digit_def is_bin_digit_def
        nul_def code_def split: radix.splits)
  then show "((base, if current it \<noteq> CHR ''_'' then push_num buf (current it) else buf, advance it), base, buf, it)
      \<in> measure (\<lambda>(base, buf, it). length (it_input it) - it_pos it)"
    by (simp add: has_more_def)
qed simp

declare scan_digits.simps [simp del]

text \<open>\<open>strtoll\<close> on the digits of the buffer, which hold no blank, sign or prefix: the value, the
  number of digits taken, and whether the value was clamped (\<open>ERANGE\<close>).\<close>

definition radix_base :: "radix \<Rightarrow> int" where
  "radix_base b = (case b of Dec \<Rightarrow> 10 | Bin \<Rightarrow> 2 | Hex \<Rightarrow> 16)"

definition digit_of :: "char \<Rightarrow> int" where
  "digit_of c = (if is_digit c then int (code c) - 48 else if is_upper c then int (code c) - 55
     else if is_lower c then int (code c) - 87 else 99)"

fun strtoll_digits :: "int \<Rightarrow> int \<Rightarrow> string \<Rightarrow> int \<times> nat" where
  "strtoll_digits b acc [] = (acc, 0)"
| "strtoll_digits b acc (c # cs) = (if digit_of c < b
     then (case strtoll_digits b (b * acc + digit_of c) cs of (v, n) \<Rightarrow> (v, Suc n)) else (acc, 0))"

definition strtoll_radix :: "radix \<Rightarrow> string \<Rightarrow> int \<times> nat \<times> bool" where
  "strtoll_radix base s = (case strtoll_digits (radix_base base) 0 s of (v, n) \<Rightarrow>
     (min llong_max v, n, v > llong_max))"

text \<open>The radix prefix: \<open>Some\<close> radix, buffer and position, or \<open>None\<close> for a zero that
  stands alone.\<close>

definition lex_prefix :: "input_iter \<Rightarrow> lex_error + (radix \<times> string \<times> input_iter) option" where
  "lex_prefix it = (if current it = CHR ''0'' then
     (let it1 = advance it; p = current it1 in
      if p = CHR ''x'' \<or> p = CHR ''X'' then
        (let it2 = advance it1 in if \<not> is_hex_digit (current it2) then lex_fail (get_location it2) IncompleteInt
         else Inr (Some (Hex, push_num [CHR ''0''] p, it2)))
      else if p = CHR ''b'' \<or> p = CHR ''B'' then
        (let it2 = advance it1 in if \<not> is_bin_digit (current it2) then lex_fail (get_location it2) IncompleteInt
         else Inr (Some (Bin, push_num [CHR ''0''] p, it2)))
      else if \<not> is_digit p \<and> p \<noteq> CHR ''.'' \<and> p \<noteq> CHR ''e'' \<and> p \<noteq> CHR ''E'' then Inr None
      else Inr (Some (Dec, [CHR ''0''], it1)))
   else Inr (Some (Dec, [], it)))"

definition lex_fraction :: "string \<Rightarrow> input_iter \<Rightarrow> bool \<times> string \<times> input_iter" where
  "lex_fraction buf it = (if current it = CHR ''.'' \<and> is_digit (peek it)
     then (True, scan_digits Dec (push_num buf (CHR ''.'')) (advance it))
     else (False, buf, it))"

definition lex_exponent :: "string \<Rightarrow> input_iter \<Rightarrow> bool \<times> string \<times> input_iter" where
  "lex_exponent buf it =
     (if (current it = CHR ''e'' \<or> current it = CHR ''E'') \<and>
         (is_digit (peek it) \<or> (peek it = CHR ''+'' \<or> peek it = CHR ''-'') \<and> is_digit (peek2 it))
      then (let buf = push_num buf (current it); it = advance it;
                (buf, it) = (if current it = CHR ''+'' \<or> current it = CHR ''-''
                             then (push_num buf (current it), advance it) else (buf, it))
            in (True, scan_digits Dec buf it))
      else (False, buf, it))"

text \<open>What \<open>strtod\<close> says of a buffer: the value, the number of characters taken, and \<open>ERANGE\<close>.\<close>

type_synonym strtod = "string \<Rightarrow> double \<times> nat \<times> bool"

definition float_token :: "strtod \<Rightarrow> location \<Rightarrow> nat \<Rightarrow> string \<Rightarrow> bool \<Rightarrow> input_iter \<Rightarrow> lex_error + token" where
  "float_token sd start_loc start_pos buf has_exp it = (case sd buf of (v, n, erange) \<Rightarrow>
     if erange then lex_fail (get_location it) FloatOutOfRange
     else if n \<noteq> length buf then lex_fail start_loc InvalidFloat
     else Inr (make_float_lit v has_exp start_pos (it_pos it)))"

definition int_token :: "location \<Rightarrow> nat \<Rightarrow> radix \<Rightarrow> string \<Rightarrow> input_iter \<Rightarrow> lex_error + token" where
  "int_token start_loc start_pos base digits it = (case strtoll_radix base digits of (v, n, erange) \<Rightarrow>
     if erange then lex_fail (get_location it) IntOutOfRange
     else if n \<noteq> length digits then lex_fail start_loc IncompleteInt
     else Inr (make_int_lit v base start_pos (it_pos it)))"

definition lex_number :: "strtod \<Rightarrow> nat \<Rightarrow> input_iter \<Rightarrow> lex_error + token \<times> input_iter" where
  "lex_number sd start_pos it0 = bind_res (lex_prefix it0) (\<lambda>r. case r of
     None \<Rightarrow> Inr (make_int_lit 0 Dec start_pos (it_pos (advance it0)), advance it0)
   | Some (base, buf, it) \<Rightarrow>
       (case scan_digits base buf it of (buf, it) \<Rightarrow>
        if base = Dec then
          (case lex_fraction buf it of (frac, buf, it) \<Rightarrow> case lex_exponent buf it of (has_exp, buf, it) \<Rightarrow>
           if buf = [] then lex_fail (get_location it0) IncompleteInt
           else bind_res (if frac \<or> has_exp then float_token sd (get_location it0) start_pos buf has_exp it
                          else int_token (get_location it0) start_pos Dec buf it) (\<lambda>t. Inr (t, it)))
        else if current it = CHR ''.'' \<or> current it = CHR ''e'' \<or> current it = CHR ''E''
        then lex_fail (get_location it) InvalidChar
        else if length buf \<le> 2 then lex_fail (get_location it) IncompleteInt
        else bind_res (int_token (get_location it0) start_pos base (drop 2 buf) it) (\<lambda>t. Inr (t, it))))"

section \<open>Strings, identifiers and flags\<close>

function lex_string_body :: "location \<Rightarrow> input_iter \<Rightarrow> lex_error + input_iter" where
  "lex_string_body start_loc it =
     (if current it = nul then lex_fail start_loc UnclosedString
      else if current it = newline then lex_fail (get_location it) UnclosedString
      else if current it = quote then Inr it
      else if current it = backslash then
        (if current (advance it) = nul \<or> current (advance it) = newline then lex_fail (get_location it) UnclosedString
         else if current (advance it) \<in> {CHR ''n'', CHR ''r'', CHR ''t'', backslash, quote, CHR ''0''}
         then lex_string_body start_loc (advance (advance it))
         else lex_fail (get_location (advance it)) UnknownEscape)
      else lex_string_body start_loc (advance it))"
  by pat_completeness auto
termination
proof (relation "measure (\<lambda>(l, it). length (it_input it) - it_pos it)")
  fix l :: location and it
  assume "current it \<noteq> nul"
  then have "has_more it"
    by (rule current_has_more)
  then show "((l, advance (advance it)), l, it) \<in> measure (\<lambda>(l, it). length (it_input it) - it_pos it)"
    and "((l, advance it), l, it) \<in> measure (\<lambda>(l, it). length (it_input it) - it_pos it)"
    by (auto simp: has_more_def)
qed simp

declare lex_string_body.simps [simp del]

definition lex_string :: "nat \<Rightarrow> input_iter \<Rightarrow> lex_error + token \<times> input_iter" where
  "lex_string span_start it = bind_res (lex_string_body (get_location it) (advance it)) (\<lambda>it'.
     Inr (make_string_token TokStrLit (it_pos (advance it)) (it_pos it' - it_pos (advance it)) span_start (it_pos (advance it')),
          advance it'))"

definition lex_identifier_or_keyword :: "nat \<Rightarrow> input_iter \<Rightarrow> token \<times> input_iter" where
  "lex_identifier_or_keyword start_pos it =
     (let it' = skip_while is_ident_cont (advance it); end_pos = it_pos it'; len = end_pos - start_pos;
          id = slice (it_input it) start_pos len
      in (if len = 4 \<and> id = ''true'' then simple_token TokTrue start_pos end_pos
          else if len = 5 \<and> id = ''false'' then simple_token TokFalse start_pos end_pos
          else make_string_token TokId start_pos len start_pos end_pos, it'))"

definition lex_short_flag :: "nat \<Rightarrow> input_iter \<Rightarrow> token \<times> input_iter" where
  "lex_short_flag start_pos it =
     (let it' = skip_while (\<lambda>c. is_ident_cont c \<or> is_digit c) it
      in (make_string_token TokFlagShort (it_pos it) (it_pos it' - it_pos it) start_pos (it_pos it'), it'))"

definition lex_long_flag :: "nat \<Rightarrow> input_iter \<Rightarrow> token \<times> input_iter" where
  "lex_long_flag start_pos it =
     (let it' = skip_while (\<lambda>c. is_ident_cont c \<or> c = CHR ''-'') it
      in (make_string_token TokFlagLong (it_pos it) (it_pos it' - it_pos it) start_pos (it_pos it'), it'))"

section \<open>The driver\<close>

definition next_token :: "strtod \<Rightarrow> input_iter \<Rightarrow> lex_error + token \<times> input_iter" where
  "next_token sd it = (let start_pos = it_pos it; c = current it; it1 = advance it; it2 = advance it1 in
     if c = nul then Inr (simple_token TokEof start_pos start_pos, it)
     else if c = CHR ''*'' then Inr (simple_token TokTimes start_pos (it_pos it1), it1)
     else if c = CHR ''-'' then
       (if current it1 = CHR ''-'' then
          (if is_ident_start (current it2) then Inr (lex_long_flag start_pos it2)
           else Inr (simple_token TokDoubleMinus start_pos (it_pos it2), it2))
        else if is_ident_start (current it1) \<or> is_digit (current it1) then Inr (lex_short_flag start_pos it1)
        else Inr (simple_token TokMinus start_pos (it_pos it1), it1))
     else if c = quote then lex_string start_pos it
     else if is_digit c then lex_number sd start_pos it
     else if is_ident_start c then Inr (lex_identifier_or_keyword start_pos it)
     else lex_fail (get_location it) InvalidChar)"


text \<open>What every reader of a token keeps: the input, and a position inside it that has moved on.\<close>

definition moves :: "input_iter \<Rightarrow> input_iter \<Rightarrow> bool" where
  "moves it it' \<longleftrightarrow> it_input it' = it_input it \<and> it_filename it' = it_filename it \<and> it_pos it \<le> it_pos it' \<and>
     (it_pos it \<le> length (it_input it) \<longrightarrow> it_pos it' \<le> length (it_input it))"

lemma moves_refl [simp]: "moves it it"
  by (simp add: moves_def)

lemma moves_trans: "moves a b \<Longrightarrow> moves b c \<Longrightarrow> moves a c"
  by (auto simp: moves_def)

lemma moves_advance [simp]: "moves it (advance it)"
  by (auto simp: moves_def has_more_def)

lemma moves_from_advance: "moves (advance it) it' \<Longrightarrow> moves it it'"
  by (rule moves_trans [OF moves_advance])

lemma moves_advance2 [simp]: "moves it (advance (advance it))"
  by (rule moves_trans [OF moves_advance moves_advance])

lemma moves_skip_while [simp]: "moves it (skip_while P it)"
proof (induction P it rule: skip_while.induct)
  case (1 P it)
  then show ?case
    by (subst skip_while.simps) (auto intro: moves_from_advance)
qed

lemma moves_eat [simp]: "moves it (eat_whitespace_and_comments it)"
proof (induction it rule: eat_whitespace_and_comments.induct)
  case (1 it)
  then show ?case
    by (subst eat_whitespace_and_comments.simps)
      (auto intro: moves_from_advance moves_trans [OF moves_skip_while])
qed

lemma moves_scan_digits: "scan_digits base buf it = (buf', it') \<Longrightarrow> moves it it'"
proof (induction base buf it rule: scan_digits.induct)
  case (1 base buf it)
  then show ?case
    by (cases "is_digit_or_underscore base (current it)")
      (auto simp: scan_digits.simps [of base buf it] intro: moves_from_advance)
qed

definition valid_escape :: "char \<Rightarrow> bool" where
  "valid_escape c \<longleftrightarrow> c \<in> {CHR ''n'', CHR ''r'', CHR ''t'', backslash, quote, CHR ''0''}"

lemma lexer_chars [simp]:
  "nul \<noteq> quote" "quote \<noteq> nul" "newline \<noteq> quote" "quote \<noteq> newline" "nul \<noteq> backslash" "backslash \<noteq> nul"
  "newline \<noteq> backslash" "backslash \<noteq> newline" "quote \<noteq> backslash" "backslash \<noteq> quote" "nul \<noteq> newline" "newline \<noteq> nul"
  by (simp_all add: nul_def quote_def backslash_def newline_def char_of_def)

lemma lex_string_body_cases:
  "lex_string_body l it = (if current it = nul then lex_fail l UnclosedString
     else if current it = newline then lex_fail (get_location it) UnclosedString
     else if current it = quote then Inr it
     else if current it \<noteq> backslash then lex_string_body l (advance it)
     else if current (advance it) = nul \<or> current (advance it) = newline then lex_fail (get_location it) UnclosedString
     else if valid_escape (current (advance it)) then lex_string_body l (advance (advance it))
     else lex_fail (get_location (advance it)) UnknownEscape)"
  by (subst lex_string_body.simps) (simp add: valid_escape_def)

lemma moves_lex_string_body: "lex_string_body l it = Inr it' \<Longrightarrow> moves it it' \<and> current it' = quote"
proof (induction l it rule: lex_string_body.induct)
  case (1 l it)
  show ?case
  proof (cases "current it = backslash")
    case True
    with "1.prems" have "valid_escape (current (advance it))" "lex_string_body l (advance (advance it)) = Inr it'"
      "current (advance it) \<noteq> nul" "current (advance it) \<noteq> newline"
      by (auto simp: lex_string_body_cases [of l it] lex_fail_def split: if_splits)
    with True show ?thesis
      using "1.IH"(1) by (auto simp: valid_escape_def intro: moves_from_advance)
  next
    case False
    with "1.prems" "1.IH"(2) show ?thesis
      by (auto simp: lex_string_body_cases [of l it] lex_fail_def split: if_splits intro: moves_from_advance)
  qed
qed

text \<open>A token read between two positions: its span, and what its slice may refer to.\<close>

definition token_ok :: "input_iter \<Rightarrow> token \<Rightarrow> input_iter \<Rightarrow> bool" where
  "token_ok it t it' \<longleftrightarrow> moves it it' \<and> tk_start t = it_pos it \<and> tk_end t = it_pos it' \<and>
     (tk_kind t = TokEof \<longleftrightarrow> it_pos it' = it_pos it) \<and>
     (case tk_data t of StringRef s n \<Rightarrow> tk_start t \<le> s \<and> s + n \<le> tk_end t | _ \<Rightarrow> True)"

lemma lex_fail_not_Inr [simp]: "lex_fail l k \<noteq> Inr x"
  by (simp add: lex_fail_def)

lemma moves_lex_prefix: "lex_prefix it = Inr (Some (base, buf, it')) \<Longrightarrow> moves it it'"
  by (auto simp: lex_prefix_def Let_def split: if_splits)

lemma moves_lex_fraction: "lex_fraction buf it = (f, buf', it') \<Longrightarrow> moves it it'"
  by (auto simp: lex_fraction_def dest!: moves_scan_digits intro: moves_from_advance split: if_splits)

lemma moves_lex_exponent: "lex_exponent buf it = (f, buf', it') \<Longrightarrow> moves it it'"
  by (auto simp: lex_exponent_def Let_def dest!: moves_scan_digits intro: moves_from_advance split: if_splits)


lemma int_token_eq: "int_token l s b ds it = Inr t \<Longrightarrow> \<exists>v. t = make_int_lit v b s (it_pos it)"
  by (auto simp: int_token_def split: prod.splits if_splits)

lemma float_token_eq: "float_token sd l s buf ex it = Inr t \<Longrightarrow> \<exists>v. t = make_float_lit v ex s (it_pos it)"
  by (auto simp: float_token_def split: prod.splits if_splits)

lemmas token_defs = simple_token_def make_string_token_def make_int_lit_def make_float_lit_def

text \<open>Scanning digits keeps a buffer that is not empty, and takes the digit that is there.\<close>

lemma scan_digits_buf: "scan_digits b buf it = (buf', it') \<Longrightarrow> \<exists>ds. buf' = buf @ ds"
proof (induction b buf it rule: scan_digits.induct)
  case (1 b buf it)
  then show ?case
    by (cases "is_digit_or_underscore b (current it)")
      (auto simp: scan_digits.simps [of b buf it] push_num_def split: if_splits)
qed

lemma scan_digits_moves_on:
  assumes "scan_digits b buf it = (buf', it')" "is_digit_or_underscore b (current it)" "has_more it"
  shows "it_pos it < it_pos it'"
proof -
  from assms have "moves (advance it) it'"
    by (auto simp: scan_digits.simps [of b buf it] dest!: moves_scan_digits)
  with assms(3) show ?thesis
    by (simp add: moves_def)
qed

lemma lex_number_ok:
  assumes "lex_number sd (it_pos it) it = Inr (t, it')" "is_digit (current it)" "has_more it"
  shows "token_ok it t it'"
proof (cases "lex_prefix it")
  case (Inr r)
  show ?thesis
  proof (cases r)
    case None
    with Inr assms show ?thesis
      by (auto simp: lex_number_def token_ok_def token_defs)
  next
    case (Some p)
    obtain base buf it1 where p: "p = (base, buf, it1)"
      by (cases p)
    obtain buf2 it2 where sc: "scan_digits base buf it1 = (buf2, it2)"
      by fastforce
    from Inr Some p have m1: "moves it it1"
      by (simp add: moves_lex_prefix)
    have m2: "moves it1 it2"
      using sc by (rule moves_scan_digits)
    have "it_pos it < it_pos it2"
    proof (cases "it_pos it < it_pos it1")
      case True
      with m2 show ?thesis
        by (simp add: moves_def)
    next
      case False
      with Inr Some p assms(3) have "it1 = it" "base = Dec"
        by (auto simp: lex_prefix_def Let_def split: if_splits)
      with sc assms(2,3) show ?thesis
        using scan_digits_moves_on [of Dec buf it] by (auto simp: is_digit_or_underscore_def)
    qed
    note pos = this moves_trans [OF m1 m2]
    show ?thesis
    proof (cases "base = Dec")
      case True
      obtain f buf3 it3 where fr: "lex_fraction buf2 it2 = (f, buf3, it3)"
        by (cases "lex_fraction buf2 it2") auto
      obtain e buf4 it4 where ex: "lex_exponent buf3 it3 = (e, buf4, it4)"
        by (cases "lex_exponent buf3 it3") auto
      have "moves it2 it4"
        using moves_lex_fraction [OF fr] moves_lex_exponent [OF ex] by (rule moves_trans)
      moreover from assms(1) have "it' = it4" "tk_start t = it_pos it" "tk_end t = it_pos it4"
        "tk_kind t = TokIntLit \<or> tk_kind t = TokFloatLit" "\<forall>s n. tk_data t \<noteq> StringRef s n"
        by (auto simp: lex_number_def Inr Some p sc [unfolded True] fr ex True bind_res_eq_Inr token_defs
            dest!: int_token_eq float_token_eq split: if_splits)
      ultimately show ?thesis
        using pos by (auto simp: token_ok_def moves_def split: token_data.splits)
    next
      case False
      then have "\<exists>v. t = make_int_lit v base (it_pos it) (it_pos it2) \<and> it' = it2"
        using assms(1) by (auto simp: lex_number_def Inr Some p sc bind_res_eq_Inr
            dest!: int_token_eq split: if_splits)
      with pos show ?thesis
        by (auto simp: token_ok_def token_defs)
    qed
  qed
qed (use assms in \<open>simp add: lex_number_def\<close>)


lemma current_eq_nul: "it_pos it = length (it_input it) \<Longrightarrow> current it = nul"
  by (simp add: current_def char_at_def)

lemma lex_string_ok:
  assumes "lex_string (it_pos it) it = Inr (t, it')" "has_more it"
  shows "token_ok it t it'"
proof -
  from assms obtain q where q: "lex_string_body (get_location it) (advance it) = Inr q" "it' = advance q"
    "t = make_string_token TokStrLit (it_pos (advance it)) (it_pos q - it_pos (advance it)) (it_pos it) (it_pos (advance q))"
    by (auto simp: lex_string_def bind_res_eq_Inr)
  have m: "moves (advance it) q" "has_more q"
    using moves_lex_string_body [OF q(1)] current_has_more [of q] by auto
  then have "moves it (advance q)"
    by (meson moves_advance moves_trans)
  with m q assms(2) show ?thesis
    by (auto simp: token_ok_def token_defs moves_def)
qed

lemma lex_identifier_ok:
  "lex_identifier_or_keyword (it_pos it) it = (t, it') \<Longrightarrow> has_more it \<Longrightarrow> token_ok it t it'"
  using moves_skip_while [of "advance it" is_ident_cont]
  by (auto simp: lex_identifier_or_keyword_def token_ok_def token_defs moves_def Let_def has_more_def split: if_splits)

lemma simple_token_ok:
  "has_more it \<Longrightarrow> k \<noteq> TokEof \<Longrightarrow> token_ok it (simple_token k (it_pos it) (it_pos (advance it))) (advance it)"
  "has_more it \<Longrightarrow> k \<noteq> TokEof \<Longrightarrow> token_ok it (simple_token k (it_pos it) (it_pos (advance (advance it)))) (advance (advance it))"
  by (auto simp: token_ok_def simple_token_def)

text \<open>Every token but the end of the input takes at least one character.\<close>

lemma next_token_ok:
  assumes "next_token sd it = Inr (t, it')"
  shows "token_ok it t it'"
proof (cases "current it = nul")
  case True
  with assms show ?thesis
    by (auto simp: next_token_def token_ok_def token_defs Let_def)
next
  case False
  then have more: "has_more it"
    by (rule current_has_more)
  have short: "token_ok it t it'" if "lex_short_flag (it_pos it) (advance it) = (t, it')"
    using that more moves_skip_while [of "advance it" "\<lambda>c. is_ident_cont c \<or> is_digit c"]
    by (auto simp: lex_short_flag_def token_ok_def token_defs moves_def Let_def has_more_def)
  have long: "token_ok it t it'" if "lex_long_flag (it_pos it) (advance (advance it)) = (t, it')"
    using that more moves_skip_while [of "advance (advance it)" "\<lambda>c. is_ident_cont c \<or> c = CHR ''-''"]
    by (auto simp: lex_long_flag_def token_ok_def token_defs moves_def Let_def has_more_def split: if_splits)
  show ?thesis
    using assms False more short long lex_number_ok [of sd it t it'] lex_string_ok [of it t it'] lex_identifier_ok [of it t it']
      simple_token_ok
    by (auto simp: next_token_def Let_def simp del: advance_simps split: if_splits)
qed

lemma next_token_eof: "next_token sd it = Inr (t, it') \<Longrightarrow> \<not> has_more it \<Longrightarrow> tk_kind t = TokEof"
  by (cases "current it = nul") (auto simp: next_token_def token_defs Let_def dest: current_has_more)

function lex_all :: "strtod \<Rightarrow> input_iter \<Rightarrow> lex_error + token list" where
  "lex_all sd it = (case next_token sd (eat_whitespace_and_comments it) of
     Inl e \<Rightarrow> Inl e
   | Inr (t, it') \<Rightarrow> if tk_kind t = TokEof then Inr [t] else bind_res (lex_all sd it') (\<lambda>ts. Inr (t # ts)))"
  by pat_completeness auto
termination
proof (relation "measure (\<lambda>(sd, it). length (it_input it) - it_pos it)")
  fix sd :: strtod and it r t it'
  assume "next_token sd (eat_whitespace_and_comments it) = Inr r" "(t, it') = r" "tk_kind t \<noteq> TokEof"
  then have "token_ok (eat_whitespace_and_comments it) t it'" "tk_kind t \<noteq> TokEof"
    using next_token_ok by auto
  moreover have "moves it (eat_whitespace_and_comments it)"
    by simp
  moreover have "has_more (eat_whitespace_and_comments it)"
    using calculation(2) \<open>next_token _ _ = _\<close> \<open>(t, it') = r\<close> next_token_eof by blast
  ultimately show "((sd, it'), sd, it) \<in> measure (\<lambda>(sd, it). length (it_input it) - it_pos it)"
    by (auto simp: token_ok_def moves_def has_more_def)
qed simp

declare lex_all.simps [simp del]

definition tokenize :: "strtod \<Rightarrow> string \<Rightarrow> string \<Rightarrow> lex_error + token list" where
  "tokenize sd file input = lex_all sd (get_iterator file input)"


section \<open>The tokens of an input\<close>

text \<open>The spans follow each other inside the input, only the last token is the end of the input,
  and a slice lies within its token.\<close>

definition slice_inside :: "token \<Rightarrow> bool" where
  "slice_inside t \<longleftrightarrow> (case tk_data t of StringRef s n \<Rightarrow> tk_start t \<le> s \<and> s + n \<le> tk_end t | _ \<Rightarrow> True)"

fun well_spanned :: "nat \<Rightarrow> nat \<Rightarrow> token list \<Rightarrow> bool" where
  "well_spanned lo n [] = False"
| "well_spanned lo n (t # ts) = (lo \<le> tk_start t \<and> tk_end t \<le> n \<and> slice_inside t \<and>
     (if ts = [] then tk_kind t = TokEof \<and> tk_start t = tk_end t
      else tk_kind t \<noteq> TokEof \<and> tk_start t < tk_end t \<and> well_spanned (tk_end t) n ts))"

lemma well_spanned_length: "well_spanned lo n ts \<Longrightarrow> lo + length ts \<le> Suc n"
  by (induction lo n ts rule: well_spanned.induct) (auto split: if_splits)

lemma lex_all_spans:
  "lex_all sd it = Inr ts \<Longrightarrow> it_pos it \<le> length (it_input it) \<Longrightarrow> well_spanned (it_pos it) (length (it_input it)) ts"
proof (induction sd it arbitrary: ts rule: lex_all.induct)
  case (1 sd it)
  obtain t it' where n: "next_token sd (eat_whitespace_and_comments it) = Inr (t, it')"
    using "1.prems"(1) by (auto simp: lex_all.simps [of sd it] split: sum.splits)
  have e: "moves it (eat_whitespace_and_comments it)"
    by simp
  have ok: "token_ok (eat_whitespace_and_comments it) t it'"
    using n by (rule next_token_ok)
  show ?case
  proof (cases "tk_kind t = TokEof")
    case True
    with "1.prems" n e ok show ?thesis
      by (auto simp: lex_all.simps [of sd it] token_ok_def moves_def slice_inside_def)
  next
    case False
    with "1.prems"(1) n obtain us where us: "lex_all sd it' = Inr us" "ts = t # us"
      by (auto simp: lex_all.simps [of sd it] bind_res_eq_Inr)
    have "it_pos it' \<le> length (it_input it')" "it_input it' = it_input it"
      using e ok "1.prems"(2) by (auto simp: token_ok_def moves_def)
    with "1.IH" [OF n refl False us(1)] have "well_spanned (it_pos it') (length (it_input it)) us"
      by simp
    then show ?thesis
      using us(2) False e ok "1.prems"(2)
      by (cases us) (auto simp: token_ok_def moves_def slice_inside_def)
  qed
qed

text \<open>C26: Tokenizing always ends (the loop is a total function); when it succeeds the spans of the tokens are
  in order, disjoint and inside the input, each token's slice lies in its span, the list ends with
  the only end-of-input token, and there are at most as many tokens as characters and one.\<close>

theorem tokenize_spans:
  assumes "tokenize sd file input = Inr ts"
  shows "well_spanned 0 (length input) ts \<and> length ts \<le> length input + 1"
proof -
  have "well_spanned 0 (length input) ts"
    using lex_all_spans [of sd "get_iterator file input" ts] assms by (simp add: tokenize_def get_iterator_def)
  with well_spanned_length [of 0 "length input" ts] show ?thesis
    by simp
qed

section \<open>The rest of the input\<close>

definition rest :: "input_iter \<Rightarrow> string" where
  "rest it = drop (it_pos it) (it_input it)"

lemma has_more_rest: "has_more it \<longleftrightarrow> rest it \<noteq> []"
  by (auto simp: has_more_def rest_def)

lemma char_at_rest: "char_at it k = (if k < length (rest it) then rest it ! k else nul)"
  by (auto simp: char_at_def rest_def)

lemma current_rest: "current it = (case rest it of [] \<Rightarrow> nul | c # cs \<Rightarrow> c)"
  by (auto simp: current_def char_at_rest nth_Cons split: list.split)

lemma peek_rest: "peek it = (case rest it of c # d # cs \<Rightarrow> d | _ \<Rightarrow> nul)"
  by (auto simp: peek_def char_at_rest nth_Cons split: list.split)

lemma rest_advance [simp]: "rest (advance it) = tl (rest it)"
  by (auto simp: rest_def has_more_def drop_Suc tl_drop)

lemma rest_start [simp]: "rest (get_iterator f s) = s" "it_pos (get_iterator f s) = 0" "it_input (get_iterator f s) = s"
  by (simp_all add: rest_def get_iterator_def)

lemma rest_skip_while:
  "\<not> P nul \<Longrightarrow> rest (skip_while P it) = dropWhile P (rest it) \<and>
     it_pos (skip_while P it) = it_pos it + length (takeWhile P (rest it))"
proof (induction P it rule: skip_while.induct)
  case (1 P it)
  then show ?case
    by (cases "rest it") (auto simp: skip_while.simps [of P it] current_rest has_more_rest)
qed

lemma not_digit_nul [simp]: "\<not> is_digit_or_underscore b nul"
  by (auto simp: is_digit_or_underscore_def is_digit_def is_hex_digit_def is_bin_digit_def nul_def code_def split: radix.splits)

lemma scan_digits_rest:
  "scan_digits b buf it = (buf', it') \<Longrightarrow> length buf + length (rest it) < 128 \<Longrightarrow>
     rest it' = dropWhile (is_digit_or_underscore b) (rest it) \<and> it_pos it' = it_pos it + length (takeWhile (is_digit_or_underscore b) (rest it)) \<and>
     buf' = buf @ filter (\<lambda>c. c \<noteq> CHR ''_'') (takeWhile (is_digit_or_underscore b) (rest it))"
proof (induction b buf it rule: scan_digits.induct)
  case (1 b buf it)
  then show ?case
    by (cases "rest it") (auto simp: scan_digits.simps [of b buf it] current_rest has_more_rest push_num_def split: if_splits)
qed

section \<open>Integer literals\<close>

definition is_digit_in :: "radix \<Rightarrow> char \<Rightarrow> bool" where
  "is_digit_in b c \<longleftrightarrow> is_digit_or_underscore b c \<and> c \<noteq> CHR ''_''"

definition radix_prefix :: "radix \<Rightarrow> string" where
  "radix_prefix b = (case b of Dec \<Rightarrow> [] | Bin \<Rightarrow> ''0b'' | Hex \<Rightarrow> ''0x'')"

definition digits_value :: "radix \<Rightarrow> string \<Rightarrow> int" where
  "digits_value b ds = foldl (\<lambda>v c. radix_base b * v + digit_of c) 0 ds"

lemma digit_of_in: "is_digit_in b c \<Longrightarrow> 0 \<le> digit_of c \<and> digit_of c < radix_base b"
  by (cases b) (auto simp: is_digit_in_def is_digit_or_underscore_def is_hex_digit_def is_bin_digit_def digit_of_def radix_base_def
      is_digit_def is_upper_def is_lower_def code_def)

lemma strtoll_digits_all:
  "list_all (is_digit_in b) ds \<Longrightarrow>
   strtoll_digits (radix_base b) acc ds = (foldl (\<lambda>v c. radix_base b * v + digit_of c) acc ds, length ds)"
  by (induction ds arbitrary: acc) (auto simp: digit_of_in)

lemma int_token_digits:
  "list_all (is_digit_in b) ds \<Longrightarrow>
   int_token l s b ds it = (if digits_value b ds > llong_max then lex_fail (get_location it) IntOutOfRange
     else Inr (make_int_lit (digits_value b ds) b s (it_pos it)))"
  by (simp add: int_token_def strtoll_radix_def strtoll_digits_all digits_value_def)

lemma takeWhile_digits:
  "list_all (is_digit_in b) ds \<Longrightarrow> takeWhile (is_digit_or_underscore b) ds = ds \<and> dropWhile (is_digit_or_underscore b) ds = [] \<and>
     filter (\<lambda>c. c \<noteq> CHR ''_'') ds = ds"
  by (auto simp: list_all_iff is_digit_in_def takeWhile_eq_all_conv dropWhile_eq_Nil_conv filter_id_conv)

lemma scan_digits_all:
  assumes "list_all (is_digit_in b) ds" "rest it = ds" "length buf + length ds < 128"
  shows "\<exists>it'. scan_digits b buf it = (buf @ ds, it') \<and> rest it' = [] \<and> it_pos it' = it_pos it + length ds"
  using scan_digits_rest [of b buf it] takeWhile_digits [OF assms(1)] assms
  by (cases "scan_digits b buf it") auto

lemma lex_prefix_digits:
  assumes "rest it = radix_prefix b @ ds" "ds \<noteq> []" "list_all (is_digit_in b) ds" "b \<noteq> Dec \<or> ds \<noteq> ''0''"
  shows "\<exists>buf it'. lex_prefix it = Inr (Some (b, buf, it')) \<and> list_all (is_digit_in b) (rest it') \<and>
    buf @ rest it' = radix_prefix b @ ds \<and> it_pos it' + length (rest it') = it_pos it + length (radix_prefix b @ ds)"
proof -
  obtain d ds' where ds: "ds = d # ds'" "is_digit_in b d"
    using assms by (cases ds) auto
  show ?thesis
  proof (cases b)
    case Dec
    show ?thesis
    proof (cases "d = CHR ''0''")
      case True
      with assms Dec ds obtain d2 ds2 where "ds' = d2 # ds2" "is_digit d2"
        by (cases ds') (auto simp: is_digit_in_def is_digit_or_underscore_def)
      with assms Dec ds True show ?thesis
        by (auto simp: lex_prefix_def Let_def current_rest radix_prefix_def has_more_rest is_digit_def code_def)
    next
      case False
      with assms Dec ds show ?thesis
        by (simp add: lex_prefix_def current_rest radix_prefix_def)
    qed
  next
    case Bin
    with assms ds show ?thesis
      by (auto simp: lex_prefix_def Let_def current_rest radix_prefix_def has_more_rest is_digit_in_def
          is_digit_or_underscore_def push_num_def)
  next
    case Hex
    with assms ds show ?thesis
      by (auto simp: lex_prefix_def Let_def current_rest radix_prefix_def has_more_rest is_digit_in_def
          is_digit_or_underscore_def push_num_def)
  qed
qed

text \<open>An integer literal of at most 127 characters in any of the three radixes is read with its exact
  value, or refused as out of range exactly when the value does not fit into 64 bits.\<close>

theorem int_literal_exact:
  assumes "list_all (is_digit_in b) ds" "ds \<noteq> []" "length ds \<le> 125"
  shows "case lex_number sd 0 (get_iterator f (radix_prefix b @ ds)) of
     Inl e \<Rightarrow> lex_kind e = IntOutOfRange \<and> llong_max < digits_value b ds
   | Inr (t, it) \<Rightarrow> digits_value b ds \<le> llong_max \<and> rest it = [] \<and>
       t = make_int_lit (digits_value b ds) b 0 (length (radix_prefix b @ ds))"
proof -
  define it0 where "it0 = get_iterator f (radix_prefix b @ ds)"
  obtain d ds' where ds: "ds = d # ds'" "is_digit_in b d"
    using assms by (cases ds) auto
  show ?thesis
  proof (cases "b = Dec \<and> ds = ''0''")
    case True
    then show ?thesis
      by (simp add: lex_number_def lex_prefix_def current_rest radix_prefix_def is_digit_def nul_def code_def
          digits_value_def digit_of_def llong_max_def has_more_rest radix_base_def)
  next
    case False
    then have "b \<noteq> Dec \<or> ds \<noteq> ''0''"
      by blast
    from lex_prefix_digits [OF _ assms(2,1) this, of it0] obtain buf it1 where p: "lex_prefix it0 = Inr (Some (b, buf, it1))"
      "list_all (is_digit_in b) (rest it1)" "buf @ rest it1 = radix_prefix b @ ds"
      "it_pos it1 + length (rest it1) = length (radix_prefix b @ ds)"
      by (auto simp: it0_def)
    have len: "length (radix_prefix b @ ds) < 128" "buf @ rest it1 \<noteq> []"
      using assms(2,3) p(3) by (auto simp: radix_prefix_def split: radix.splits)
    then obtain it2 where sc: "scan_digits b buf it1 = (radix_prefix b @ ds, it2)" "rest it2 = []"
      "it_pos it2 = length (radix_prefix b @ ds)"
      using scan_digits_all [OF p(2) refl, of buf] p(3,4) by (metis length_append)
    have cur: "current it2 = nul" "peek it2 = nul"
      using sc(2) by (simp_all add: current_rest peek_rest)
    have nul: "nul \<noteq> CHR ''.''" "nul \<noteq> CHR ''e''" "nul \<noteq> CHR ''E''"
      by (simp_all add: nul_def)
    have tok: "lex_number sd 0 it0 = bind_res (int_token (get_location it0) 0 b ds it2) (\<lambda>t. Inr (t, it2))"
      using len assms(2) p(1) sc(1)
      by (cases b) (simp_all add: lex_number_def lex_fraction_def lex_exponent_def cur nul radix_prefix_def)
    then show ?thesis
      unfolding it0_def [symmetric] tok int_token_digits [OF assms(1)]
      using sc(2,3) by (simp add: lex_fail_def)
  qed
qed


theorem int_literal_exact_witness:
  "(case lex_number (\<lambda>s. (NaN, 0, False)) 0 (get_iterator [] ''0x1F'') of Inl e \<Rightarrow> False
    | Inr (t, it) \<Rightarrow> t = make_int_lit 31 Hex 0 4)"
proof -
  have "list_all (is_digit_in Hex) ''1F''" "digits_value Hex ''1F'' = 31" "llong_max \<ge> 31"
    by code_simp+
  then show ?thesis
    using int_literal_exact [of Hex "''1F''" "\<lambda>s. (NaN, 0, False)" "[]"]
    by (simp add: radix_prefix_def eval_nat_numeral split: sum.splits prod.splits)
qed

theorem tokenize_spans_witness:
  "well_spanned 0 2 [make_int_lit 7 Dec 0 1, simple_token TokTimes 1 2, simple_token TokEof 2 2] \<and> (3::nat) \<le> 2 + 1"
proof -
  have "tokenize (\<lambda>s. (NaN, 0, False)) [] ''7*'' = Inr [make_int_lit 7 Dec 0 1, simple_token TokTimes 1 2, simple_token TokEof 2 2]"
    by code_simp
  from tokenize_spans [OF this] show ?thesis
    by simp
qed

text \<open>More than 127 characters are not read: the value of the literal is that of its first 127 digits.\<close>

lemma long_literal_truncated:
  "tokenize (\<lambda>s. (NaN, 0, False)) [] (replicate 127 (CHR ''0'') @ ''5'') =
     Inr [make_int_lit 0 Dec 0 128, simple_token TokEof 128 128]"
  by code_simp

section \<open>String literals\<close>

definition escape_lit :: "char \<Rightarrow> string" where
  "escape_lit c = (if c = newline then [backslash, CHR ''n''] else if c = CHR 0x0D then [backslash, CHR ''r'']
     else if c = CHR 0x09 then [backslash, CHR ''t''] else if c = nul then [backslash, CHR ''0'']
     else if c = backslash \<or> c = quote then [backslash, c] else [c])"

lemma unescape_slice_plain: "c \<noteq> backslash \<Longrightarrow> unescape_slice (c # s) = c # unescape_slice s"
  by (cases s) auto

lemma unescape_slice_escape: "unescape_slice (concat (map escape_lit s) @ r) = s @ unescape_slice r"
proof (induction s)
  case (Cons c s)
  then show ?case
    by (auto simp: escape_lit_def unescaped_def unescape_slice_plain backslash_def quote_def nul_def newline_def char_of_def)
qed simp

lemma lex_string_body_literal:
  "rest it = concat (map escape_lit s) @ quote # r \<Longrightarrow>
   \<exists>it'. lex_string_body l it = Inr it' \<and> rest it' = quote # r \<and> it_input it' = it_input it \<and>
     it_pos it' = it_pos it + length (concat (map escape_lit s))"
proof (induction s arbitrary: it)
  case Nil
  then show ?case
    by (simp add: lex_string_body_cases [of l it] current_rest)
next
  case (Cons c s)
  show ?case
  proof (cases "length (escape_lit c) = 1")
    case True
    then have c: "escape_lit c = [c]" "c \<noteq> nul" "c \<noteq> newline" "c \<noteq> quote" "c \<noteq> backslash"
      by (auto simp: escape_lit_def split: if_splits)
    with Cons.prems have "lex_string_body l it = lex_string_body l (advance it)" "has_more it"
      by (simp_all add: lex_string_body_cases [of l it] current_rest has_more_rest)
    with Cons.IH [of "advance it"] Cons.prems c show ?thesis
      by auto
  next
    case False
    then obtain d where d: "escape_lit c = [backslash, d]" "valid_escape d" "d \<noteq> nul" "d \<noteq> newline"
      by (auto simp: escape_lit_def valid_escape_def nul_def newline_def char_of_def backslash_def quote_def split: if_splits)
    with Cons.prems have "lex_string_body l it = lex_string_body l (advance (advance it))" "has_more it" "has_more (advance it)"
      by (simp_all add: lex_string_body_cases [of l it] current_rest has_more_rest)
    with Cons.IH [of "advance (advance it)"] Cons.prems d show ?thesis
      by auto
  qed
qed

text \<open>C27: Every string has a literal: quoted, with the characters that need it escaped, it is one token whose
  value is the string.\<close>

theorem string_literal_roundtrip:
  "\<exists>t. tokenize sd f ([quote] @ concat (map escape_lit s) @ [quote]) =
         Inr [t, simple_token TokEof (tk_end t) (tk_end t)] \<and>
       get_str_lit_value ([quote] @ concat (map escape_lit s) @ [quote]) t = Inr s"
proof -
  define input where "input = [quote] @ concat (map escape_lit s) @ [quote]"
  define it where "it = get_iterator f input"
  have it: "rest it = input" "it_pos it = 0" "it_input it = input"
    by (simp_all add: it_def)
  have more: "has_more it"
    by (simp add: has_more_rest it input_def)
  obtain q where q: "lex_string_body (get_location it) (advance it) = Inr q" "rest q = [quote]" "it_input q = input"
      "it_pos q = 1 + length (concat (map escape_lit s))"
    using lex_string_body_literal [of "advance it" s "[]" "get_location it"] more by (auto simp: it input_def)
  have eat: "eat_whitespace_and_comments it = it" "eat_whitespace_and_comments (advance q) = advance q"
    by (simp_all add: eat_whitespace_and_comments.simps [of it] eat_whitespace_and_comments.simps [of "advance q"]
        current_rest it input_def q is_blank_def quote_def nul_def newline_def char_of_def)
  define t where "t = make_string_token TokStrLit 1 (length (concat (map escape_lit s))) 0 (it_pos (advance q))"
  have cur: "current it = quote" "quote \<noteq> CHR ''*''" "quote \<noteq> CHR ''-''" "current (advance q) = nul"
    by (simp_all add: current_rest it input_def quote_def q)
  have "next_token sd it = Inr (t, advance q)"
    using more by (simp add: next_token_def cur lex_string_def q(1) t_def it q(4))
  moreover have "next_token sd (advance q) = Inr (simple_token TokEof (it_pos (advance q)) (it_pos (advance q)), advance q)"
    by (simp add: next_token_def cur Let_def)
  moreover have "tk_kind t \<noteq> TokEof" "tk_end t = it_pos (advance q)"
    by (simp_all add: t_def make_string_token_def)
  ultimately have "tokenize sd f input = Inr [t, simple_token TokEof (tk_end t) (tk_end t)]"
    by (simp add: tokenize_def it_def [symmetric] lex_all.simps [of sd it] lex_all.simps [of sd "advance q"] eat
        simple_token_def [of TokEof])
  moreover have "get_str_lit_value input t = Inr s"
    using unescape_slice_escape [of s "[]"]
    by (simp add: get_str_lit_value_def t_def make_string_token_def slice_def input_def)
  ultimately show ?thesis
    by (auto simp: input_def)
qed

end
