(* ===== verification/Levenshtein.thy ===== *)
theory Levenshtein
  imports Prelude
begin

text \<open>
  The edit distance behind the parser's suggestions (\<open>levenshtein_distance\<close> of
  \<open>parser.hpp\<close>): the two-row loop, and that it gives the least number of edits.
\<close>

section \<open>The loop\<close>

text \<open>The inner loop: \<open>left\<close> is \<open>curr[j - 1]\<close>, the row passed is \<open>prev\<close> from \<open>j - 1\<close> on.\<close>

fun row_loop :: "char \<Rightarrow> nat \<Rightarrow> nat list \<Rightarrow> string \<Rightarrow> nat list" where
  "row_loop c left (p0 # p1 # prev) (b # bs) =
     (let cost = if c = b then 0 else 1;
          del = p1 + 1; ins = left + 1; sub = p0 + cost;
          min_val = (if del < ins then del else ins);
          min_val = (if min_val < sub then min_val else sub)
      in min_val # row_loop c min_val (p1 # prev) bs)"
| "row_loop c left prev bs = []"

fun outer_loop :: "nat \<Rightarrow> string \<Rightarrow> string \<Rightarrow> nat list \<Rightarrow> nat list" where
  "outer_loop i [] b prev = prev"
| "outer_loop i (c # a) b prev = outer_loop (i + 1) a b (i # row_loop c i prev b)"

definition levenshtein_distance :: "string \<Rightarrow> string \<Rightarrow> nat" where
  "levenshtein_distance a b = outer_loop 1 a b [0..<length b + 1] ! length b"

section \<open>Edit scripts\<close>

text \<open>\<open>edits n s t\<close>: \<open>n\<close> single-character insertions, deletions and substitutions turn \<open>s\<close> into \<open>t\<close>.\<close>

inductive edits :: "nat \<Rightarrow> string \<Rightarrow> string \<Rightarrow> bool" where
  edits_done: "edits 0 [] []"
| edits_keep: "edits n s t \<Longrightarrow> edits n (c # s) (c # t)"
| edits_sub: "edits n s t \<Longrightarrow> edits (Suc n) (c # s) (d # t)"
| edits_del: "edits n s t \<Longrightarrow> edits (Suc n) (c # s) t"
| edits_ins: "edits n s t \<Longrightarrow> edits (Suc n) s (d # t)"

inductive_cases edits_nil_left: "edits n [] t"
inductive_cases edits_nil_right: "edits n s []"
inductive_cases edits_cons: "edits n (c # s) (d # t)"

fun edit :: "string \<Rightarrow> string \<Rightarrow> nat" where
  "edit [] t = length t"
| "edit s [] = length s"
| "edit (c # s) (d # t) = min (min (edit (c # s) t + 1) (edit s (d # t) + 1)) (edit s t + (if c = d then 0 else 1))"

lemma edit_Nil [simp]: "edit s [] = length s"
  by (cases s) auto

lemma edits_insert_all: "edits (length t) [] t"
  by (induction t) (auto intro: edits.intros)

lemma edits_delete_all: "edits (length s) s []"
  by (induction s) (auto intro: edits.intros)

lemma edits_edit: "edits (edit s t) s t"
proof (induction s t rule: edit.induct)
  case (3 c s d t)
  then show ?case
    by (auto simp: min_def intro: edits.intros)
qed (use edits_insert_all edits_delete_all [of "_ # _"] in auto)

lemma edit_least: "edits n s t \<Longrightarrow> edit s t \<le> n"
proof (induction rule: edits.induct)
  case (edits_del n s t c)
  then show ?case
    by (cases t) auto
next
  case (edits_ins n s t d)
  then show ?case
    by (cases s) auto
qed auto

lemma edits_append: "edits m s t \<Longrightarrow> edits n u v \<Longrightarrow> edits (m + n) (s @ u) (t @ v)"
  by (induction rule: edits.induct) (auto intro: edits.intros)

lemma edits_rev: "edits n s t \<Longrightarrow> edits n (rev s) (rev t)"
proof (induction rule: edits.induct)
  case (edits_keep n s t c)
  then show ?case
    using edits_append [of n "rev s" "rev t" 0 "[c]" "[c]"] by (auto intro: edits.intros)
next
  case (edits_sub n s t c d)
  then show ?case
    using edits_append [of n "rev s" "rev t" 1 "[c]" "[d]"] by (auto intro: edits.intros)
next
  case (edits_del n s t c)
  then show ?case
    using edits_append [of n "rev s" "rev t" 1 "[c]" "[]"] by (auto intro: edits.intros)
next
  case (edits_ins n s t d)
  then show ?case
    using edits_append [of n "rev s" "rev t" 1 "[]" "[d]"] by (auto intro: edits.intros)
qed (auto intro: edits.intros)

lemma edits_rev_iff: "edits n (rev s) (rev t) \<longleftrightarrow> edits n s t"
  using edits_rev edits_rev [of n "rev s" "rev t"] by auto

section \<open>The rows hold the distances of the prefixes\<close>

text \<open>The row for a prefix \<open>rev A\<close> of the first string, from the column of the prefix \<open>rev B\<close> on.\<close>

fun row_of :: "string \<Rightarrow> string \<Rightarrow> string \<Rightarrow> nat list" where
  "row_of A B [] = [edit A B]"
| "row_of A B (b # bs) = edit A B # row_of A (b # B) bs"

lemma row_of_first: "row_of [] B bs = [length B..<length B + length bs + 1]"
  by (induction bs arbitrary: B) (simp_all add: upt_rec)

lemma row_of_last: "row_of A B bs ! length bs = edit A (rev bs @ B)"
  by (induction bs arbitrary: B) simp_all

lemma row_of_Cons: "\<exists>r. row_of A B bs = edit A B # r"
  by (cases bs) simp_all

lemma row_loop_min:
  "row_loop c left (p0 # p1 # prev) (b # bs) =
     (let v = min (min (left + 1) (p1 + 1)) (p0 + (if c = b then 0 else 1)) in v # row_loop c v (p1 # prev) bs)"
proof -
  have "(if (if p1 + 1 < left + 1 then p1 + 1 else left + 1) < x
      then if p1 + 1 < left + 1 then p1 + 1 else left + 1 else x) = min (min (left + 1) (p1 + 1)) x" for x
    by (auto simp: min_def)
  then show ?thesis
    by (simp only: row_loop.simps Let_def)
qed

lemma row_loop_row: "edit (c # A) B # row_loop c (edit (c # A) B) (row_of A B bs) bs = row_of (c # A) B bs"
proof (induction bs arbitrary: B)
  case (Cons b bs)
  obtain r where r: "row_of A (b # B) bs = edit A (b # B) # r"
    using row_of_Cons by blast
  define v where "v = edit (c # A) (b # B)"
  have "row_loop c (edit (c # A) B) (edit A B # edit A (b # B) # r) (b # bs) = v # row_loop c v (edit A (b # B) # r) bs"
    by (simp only: row_loop_min v_def edit.simps Let_def)
  with r Cons [of "b # B"] show ?case
    by (simp add: v_def [symmetric] del: row_loop.simps edit.simps)
qed simp

lemma outer_loop_row: "i = length A + 1 \<Longrightarrow> outer_loop i a b (row_of A [] b) = row_of (rev a @ A) [] b"
proof (induction a arbitrary: i A)
  case (Cons c a)
  then show ?case
    using row_loop_row [of c A "[]" b] Cons.IH [of "Suc i" "c # A"] by simp
qed simp

lemma levenshtein_edit: "levenshtein_distance a b = edit (rev a) (rev b)"
  using outer_loop_row [of 1 "[]" a b] row_of_last [of "rev a" "[]" b] row_of_first [of "[]" b]
  by (simp add: levenshtein_distance_def)

text \<open>C25: The two-row loop computes the least number of single-character insertions, deletions and
  substitutions that turn one string into the other.\<close>

theorem levenshtein_least_edits:
  "edits (levenshtein_distance a b) a b \<and> levenshtein_distance a b = (LEAST n. edits n a b)"
proof -
  have e: "edits (levenshtein_distance a b) a b"
    using edits_edit [of "rev a" "rev b"] by (simp add: levenshtein_edit edits_rev_iff)
  moreover have "levenshtein_distance a b \<le> n" if "edits n a b" for n
    using that edit_least [of n "rev a" "rev b"] by (simp add: levenshtein_edit edits_rev_iff)
  ultimately show ?thesis
    by (metis Least_equality)
qed

end
