(* ===== verification/Cli.thy ===== *)
theory Cli
  imports Plugin Lexer Levenshtein
begin

text \<open>
  The commands of the command line (\<open>parser.hpp\<close>): argument definitions and their registration,
  the command tree, its help text and its completion script.  A command is a value; a
  \<open>shared_ptr\<close> to one is the command, so a command is complete when it is added to another.
\<close>

section \<open>Argument definitions\<close>

datatype arg_type = ArgType_Flag | ArgType_Single | ArgType_Multiple

record arg_template =
  tpl_name :: string
  tpl_aliases :: "string list"
  tpl_help :: string
  tpl_type :: arg_type
  tpl_required :: bool
  tpl_default :: argument
  tpl_conflicts :: "string list"
  tpl_hidden :: bool
  tpl_coerce :: bool

record argument_def =
  arg_name :: string
  arg_aliases :: "string list"
  arg_help :: string
  arg_type :: arg_type
  arg_positional :: bool
  arg_required :: bool
  arg_hidden :: bool
  arg_coerce :: bool
  arg_default :: argument
  is_help_flag :: bool
  arg_conflicts :: "string list"

definition make_argument :: "string \<Rightarrow> string list \<Rightarrow> string \<Rightarrow> arg_type \<Rightarrow> bool \<Rightarrow> bool \<Rightarrow> argument \<Rightarrow> bool \<Rightarrow> argument_def" where
  "make_argument n als h t pos req def_val help_flag = \<lparr>arg_name = n, arg_aliases = als, arg_help = h, arg_type = t,
     arg_positional = pos, arg_required = req, arg_hidden = False, arg_coerce = False, arg_default = def_val,
     is_help_flag = help_flag, arg_conflicts = []\<rparr>"

definition no_value :: argument where
  "no_value = mk_arg VNone"

definition blank_argument :: argument_def where
  "blank_argument = make_argument [] [] [] ArgType_Flag False False no_value False"

definition append_alias :: "string \<Rightarrow> string \<Rightarrow> string" where
  "append_alias display a = (if a = [] then display else (if display \<noteq> [] then display @ '', '' else display) @ a)"

definition get_display_name :: "argument_def \<Rightarrow> string" where
  "get_display_name d =
     (let display = foldl append_alias [] (arg_aliases d);
          long_flag = ''--'' @ arg_name d;
          display = (if arg_name d \<noteq> [] \<and> \<not> arg_positional d \<and> long_flag \<notin> set (arg_aliases d)
                     then append_alias display long_flag else display)
      in if arg_type d \<noteq> ArgType_Flag
         then display @ '' <value>'' @ (if arg_type d = ArgType_Multiple then ''...'' else [])
         else display)"

definition create_argument :: "arg_template \<Rightarrow> bool \<Rightarrow> argument_def" where
  "create_argument tpl pos =
     (make_argument (tpl_name tpl) (if pos then [] else tpl_aliases tpl) (tpl_help tpl) (tpl_type tpl) pos
        (tpl_required tpl) (tpl_default tpl) False)
     \<lparr>arg_hidden := tpl_hidden tpl, arg_coerce := tpl_coerce tpl, arg_conflicts := tpl_conflicts tpl\<rparr>"

definition make_aliases :: "string option list \<Rightarrow> string list" where
  "make_aliases als = concat (map (\<lambda>a. case a of None \<Rightarrow> [] | Some s \<Rightarrow> [s]) als)"

section \<open>Commands\<close>

record dynamic_kw =
  keyword_type :: arg_type
  dyn_description :: string
  placeholder :: string

text \<open>A handler gets the command path, the arguments and the passed-through arguments; it changes
  the world and returns an exit code or throws.\<close>

type_synonym 'w cli_handler = "string \<Rightarrow> argument_map \<Rightarrow> string list \<Rightarrow> 'w \<Rightarrow> int result \<times> 'w"

record 'w command_info =
  cmd_name :: string
  cmd_help :: string
  cmd_args :: "argument_def list"
  cmd_aliases :: "string list"
  cmd_examples :: "(string \<times> string) list"
  cmd_dynamic :: "dynamic_kw option"
  cmd_passthrough :: "string option"
  cmd_handler :: "'w cli_handler option"

datatype 'w command = Command (info: "'w command_info") (subcommands: "(string \<times> 'w command) list")

definition update_info :: "('w command_info \<Rightarrow> 'w command_info) \<Rightarrow> 'w command \<Rightarrow> 'w command" where
  "update_info f c = Command (f (info c)) (subcommands c)"

definition help_argument :: argument_def where
  "help_argument = make_argument ''help'' [''-h'', ''--help''] ''show this help message and exit''
     ArgType_Flag False False (mk_arg (VBool False)) True"

definition ensure_help_argument :: "'w command \<Rightarrow> 'w command" where
  "ensure_help_argument c = (if list_ex (\<lambda>d. arg_name d = ''help'') (cmd_args (info c)) then c
     else update_info (\<lambda>i. i\<lparr>cmd_args := cmd_args i @ [help_argument]\<rparr>) c)"

definition new_command :: "string \<Rightarrow> string \<Rightarrow> 'w command" where
  "new_command n h = ensure_help_argument (Command \<lparr>cmd_name = n, cmd_help = h, cmd_args = [], cmd_aliases = [],
     cmd_examples = [], cmd_dynamic = None, cmd_passthrough = None, cmd_handler = None\<rparr> [])"

definition has_alias :: "'w command \<Rightarrow> string \<Rightarrow> bool" where
  "has_alias c a \<longleftrightarrow> a \<in> set (cmd_aliases (info c))"

section \<open>Registering arguments\<close>

definition has_prefix :: "string \<Rightarrow> string \<Rightarrow> bool" where
  "has_prefix p s \<longleftrightarrow> take (length p) s = p"

definition quoted_name :: "string \<Rightarrow> string" where
  "quoted_name s = [CHR 0x27] @ s @ [CHR 0x27]"

definition final_default :: "argument_def \<Rightarrow> argument" where
  "final_default d = (if arg_type d = ArgType_Flag \<and> arg_val (arg_default d) = VNone then mk_arg (VBool False)
     else arg_default d)"

text \<open>The first alias that an argument already has, if any.\<close>

definition taken_alias :: "argument_def list \<Rightarrow> string list \<Rightarrow> string option" where
  "taken_alias ds als = find (\<lambda>a. a \<noteq> [] \<and> list_ex (\<lambda>d. a \<in> set (arg_aliases d)) ds) als"

definition negation :: "argument_def \<Rightarrow> argument_def" where
  "negation d = make_argument (''no-'' @ arg_name d) [] (''disable the --'' @ arg_name d @ '' flag.'')
     ArgType_Flag False False (mk_arg (VBool False)) False"

definition register_args :: "argument_def \<Rightarrow> argument_def list \<Rightarrow> argument_def list result" where
  "register_args d ds =
     (if arg_name d = ''help'' then
        Throw (''argument name '' @ quoted_name ''help'' @ '' is reserved for the automatic help flag.'')
      else if has_prefix ''no-'' (arg_name d) then
        Throw (''argument name cannot start with '' @ quoted_name ''no-'' @
               ''. this prefix is reserved for automatic negation flags.'')
      else if list_ex (\<lambda>a. a \<noteq> [] \<and> has_prefix ''--no-'' a) (arg_aliases d) then
        Throw (''alias cannot start with '' @ quoted_name ''--no-'' @
               ''. this prefix is reserved for automatic negation flags.'')
      else if list_ex (\<lambda>x. arg_name x = arg_name d) ds then
        Throw (''argument name '' @ quoted_name (arg_name d) @ '' already exists.'')
      else (case taken_alias ds (arg_aliases d) of
        Some a \<Rightarrow> Throw (''alias '' @ quoted_name a @ '' already exists.'')
      | None \<Rightarrow>
         (let d' = d\<lparr>arg_default := final_default d\<rparr>; ds' = ds @ [d'] in
          if arg_type d = ArgType_Flag \<and> arg_get_bool (final_default d) = Some True then
            (if list_ex (\<lambda>x. arg_name x = ''no-'' @ arg_name d) ds' then
               Throw (''automatic negation flag name '' @ quoted_name (''no-'' @ arg_name d) @
                      '' conflicts with an existing argument.'')
             else Ok (ds' @ [negation d]))
          else Ok ds')))"

definition register_argument :: "argument_def \<Rightarrow> 'w command \<Rightarrow> 'w command result" where
  "register_argument d c = map_sum id (\<lambda>ds. update_info (\<lambda>i. i\<lparr>cmd_args := ds\<rparr>) c) (register_args d (cmd_args (info c)))"

definition add_arg :: "string \<Rightarrow> string list \<Rightarrow> string \<Rightarrow> arg_type \<Rightarrow> bool \<Rightarrow> bool \<Rightarrow> argument \<Rightarrow> bool \<Rightarrow> bool \<Rightarrow>
    'w command \<Rightarrow> 'w command result" where
  "add_arg n als h t pos req def hid coerce =
     register_argument ((make_argument n als h t pos req def False)\<lparr>arg_hidden := hid, arg_coerce := coerce\<rparr>)"

definition add_keyword_arg :: "string \<Rightarrow> string list \<Rightarrow> string \<Rightarrow> arg_type \<Rightarrow> bool \<Rightarrow> argument \<Rightarrow> bool \<Rightarrow>
    'w command \<Rightarrow> 'w command result" where
  "add_keyword_arg n als h t req def coerce = add_arg n als h t False req def False coerce"

definition add_positional_arg :: "string \<Rightarrow> string \<Rightarrow> arg_type \<Rightarrow> bool \<Rightarrow> argument \<Rightarrow> bool \<Rightarrow>
    'w command \<Rightarrow> 'w command result" where
  "add_positional_arg n h t req def coerce c = (if t = ArgType_Flag then Throw ''positional arguments cannot be flags.''
     else add_arg n [] h t True req def False coerce c)"

definition add_keyword_template :: "arg_template \<Rightarrow> 'w command \<Rightarrow> 'w command result" where
  "add_keyword_template tpl = register_argument (create_argument tpl False)"

definition add_positional_template :: "arg_template \<Rightarrow> 'w command \<Rightarrow> 'w command result" where
  "add_positional_template tpl c = (if tpl_type tpl = ArgType_Flag then Throw ''positional arguments cannot be flags.''
     else register_argument (create_argument tpl True) c)"

text \<open>The setters of \<open>ArgumentBuilder\<close>.\<close>

definition with_alias :: "string \<Rightarrow> argument_def \<Rightarrow> argument_def" where
  "with_alias a d = d\<lparr>arg_aliases := arg_aliases d @ [a]\<rparr>"

definition with_aliases :: "string list \<Rightarrow> argument_def \<Rightarrow> argument_def" where
  "with_aliases als d = d\<lparr>arg_aliases := arg_aliases d @ als\<rparr>"

definition with_help :: "string \<Rightarrow> argument_def \<Rightarrow> argument_def" where
  "with_help h d = d\<lparr>arg_help := h\<rparr>"

definition with_type :: "arg_type \<Rightarrow> argument_def \<Rightarrow> argument_def" where
  "with_type t d = d\<lparr>arg_type := t\<rparr>"

definition with_positional :: "bool \<Rightarrow> argument_def \<Rightarrow> argument_def" where
  "with_positional b d = d\<lparr>arg_positional := b\<rparr>"

definition with_required :: "bool \<Rightarrow> argument_def \<Rightarrow> argument_def" where
  "with_required b d = d\<lparr>arg_required := b\<rparr>"

definition with_hidden :: "bool \<Rightarrow> argument_def \<Rightarrow> argument_def" where
  "with_hidden b d = d\<lparr>arg_hidden := b\<rparr>"

definition with_coerce :: "bool \<Rightarrow> argument_def \<Rightarrow> argument_def" where
  "with_coerce b d = d\<lparr>arg_coerce := b\<rparr>"

definition with_default :: "argument \<Rightarrow> argument_def \<Rightarrow> argument_def" where
  "with_default v d = d\<lparr>arg_default := v\<rparr>"

definition with_conflict :: "string \<Rightarrow> argument_def \<Rightarrow> argument_def" where
  "with_conflict n d = d\<lparr>arg_conflicts := arg_conflicts d @ [n]\<rparr>"

definition with_conflicts :: "string list \<Rightarrow> argument_def \<Rightarrow> argument_def" where
  "with_conflicts ns d = d\<lparr>arg_conflicts := arg_conflicts d @ ns\<rparr>"

text \<open>The builder collects a definition through its setters; its destructor registers it, and what
  that throws ends the process, since a destructor must not throw.\<close>

definition builder_registers :: "string \<Rightarrow> (argument_def \<Rightarrow> argument_def) list \<Rightarrow> 'w command \<Rightarrow> 'w command option" where
  "builder_registers n setters c =
     (case register_argument (fold (\<lambda>f d. f d) setters (blank_argument\<lparr>arg_name := n\<rparr>)) c of Inl e \<Rightarrow> None | Inr c' \<Rightarrow> Some c')"

section \<open>Building the tree\<close>

text \<open>\<open>std::map\<close> keeps its keys in the order of their bytes.\<close>

fun key_less :: "string \<Rightarrow> string \<Rightarrow> bool" where
  "key_less s [] = False"
| "key_less [] (d # t) = True"
| "key_less (c # s) (d # t) = (byte_of c < byte_of d \<or> c = d \<and> key_less s t)"

fun map_insert :: "string \<Rightarrow> 'v \<Rightarrow> 'v smap \<Rightarrow> 'v smap" where
  "map_insert k v [] = [(k, v)]"
| "map_insert k v ((k', v') # m) =
     (if k = k' then (k, v) # m else if key_less k k' then (k, v) # (k', v') # m else (k', v') # map_insert k v m)"

fun sibling_conflict :: "string \<Rightarrow> string list \<Rightarrow> (string \<times> 'w command) list \<Rightarrow> string option" where
  "sibling_conflict n als [] = None"
| "sibling_conflict n als ((k, c) # cs) =
     (if has_alias c n then Some (''subcommand name '' @ quoted_name n @ '' conflicts with an existing alias.'')
      else (case find (\<lambda>a. k = a \<or> has_alias c a) als of
        Some a \<Rightarrow> Some (''subcommand alias '' @ quoted_name a @ '' conflicts with an existing name or alias.'')
      | None \<Rightarrow> sibling_conflict n als cs))"

definition add_command :: "'w command \<Rightarrow> 'w command \<Rightarrow> 'w command result" where
  "add_command sub c =
     (let sub = ensure_help_argument sub; n = cmd_name (info sub); als = cmd_aliases (info sub) in
      if map_of (subcommands c) n \<noteq> None then Throw (''subcommand name '' @ quoted_name n @ '' already exists.'')
      else (case sibling_conflict n als (subcommands c) of
        Some e \<Rightarrow> Throw e
      | None \<Rightarrow>
         (if n \<in> set als then Throw (''subcommand alias '' @ quoted_name n @
            '' cannot be the same as its name '' @ quoted_name n @ ''.'')
          else Ok (Command (info c) (map_insert n sub (subcommands c))))))"

definition add_alias :: "string \<Rightarrow> 'w command \<Rightarrow> 'w command result" where
  "add_alias a c = (if a = cmd_name (info c) then
       Throw (''alias cannot be the same as the command name '' @ quoted_name (cmd_name (info c)) @ ''.'')
     else Ok (update_info (\<lambda>i. i\<lparr>cmd_aliases := cmd_aliases i @ [a]\<rparr>) c))"

definition enable_dynamic_keywords :: "arg_type \<Rightarrow> string \<Rightarrow> string \<Rightarrow> 'w command \<Rightarrow> 'w command result" where
  "enable_dynamic_keywords t ph desc c = (if t = ArgType_Flag then
       Throw ''dynamic keyword arguments cannot be configured as flags.''
     else Ok (update_info (\<lambda>i. i\<lparr>cmd_dynamic := Some \<lparr>keyword_type = t, dyn_description = desc, placeholder = ph\<rparr>\<rparr>) c))"

definition enable_passthrough :: "string \<Rightarrow> 'w command \<Rightarrow> 'w command" where
  "enable_passthrough desc = update_info (\<lambda>i. i\<lparr>cmd_passthrough := Some desc\<rparr>)"

definition add_example :: "string \<Rightarrow> string \<Rightarrow> 'w command \<Rightarrow> 'w command" where
  "add_example title cmd = update_info (\<lambda>i. i\<lparr>cmd_examples := cmd_examples i @ [(title, cmd)]\<rparr>)"

definition set_handler :: "'w cli_handler \<Rightarrow> 'w command \<Rightarrow> 'w command" where
  "set_handler h = update_info (\<lambda>i. i\<lparr>cmd_handler := Some h\<rparr>)"

definition set_name :: "string \<Rightarrow> 'w command \<Rightarrow> 'w command" where
  "set_name n = update_info (\<lambda>i. i\<lparr>cmd_name := n\<rparr>)"


section \<open>Help\<close>

definition pad :: "nat \<Rightarrow> string \<Rightarrow> string" where
  "pad w s = s @ replicate (w - length s) (CHR '' '')"

definition max_width :: "nat list \<Rightarrow> nat" where
  "max_width ns = fold max ns 0"

fun join_with :: "string \<Rightarrow> string list \<Rightarrow> string" where
  "join_with sep [] = []"
| "join_with sep [x] = x"
| "join_with sep (x # xs) = x @ sep @ join_with sep xs"

definition command_display :: "string \<Rightarrow> string list \<Rightarrow> string" where
  "command_display n als = (if als = [] then n else n @ '' ('' @ join_with '', '' als @ '')'')"

definition full_command_path :: "string \<Rightarrow> string \<Rightarrow> string" where
  "full_command_path prefix n = (if prefix \<noteq> [] \<and> last prefix \<noteq> CHR '' '' then prefix @ '' '' @ n else prefix @ n)"

definition dynamic_placeholder :: "string \<Rightarrow> dynamic_kw \<Rightarrow> string" where
  "dynamic_placeholder many d = ''--<'' @ placeholder d @ ''> '' @
     (if keyword_type d = ArgType_Multiple then many else ''<value>'')"

definition pos_arg_width :: "argument_def list \<Rightarrow> nat" where
  "pos_arg_width ds = max_width (map (\<lambda>d. length (arg_name d)) (filter (\<lambda>d. \<not> arg_hidden d) ds)) + 2"

definition kw_arg_width :: "argument_def list \<Rightarrow> dynamic_kw option \<Rightarrow> nat" where
  "kw_arg_width ds dyn =
     (let w = max_width (map (\<lambda>d. length (get_display_name d)) (filter (\<lambda>d. \<not> arg_hidden d) ds))
      in (case dyn of None \<Rightarrow> w | Some d \<Rightarrow> max w (length (takeWhile (\<lambda>c. c \<noteq> nul) (dynamic_placeholder ''<value...>'' d)))) + 2)"

definition command_width :: "(string \<times> 'w command) list \<Rightarrow> nat" where
  "command_width cs = max_width (map (\<lambda>(n, c). length (command_display n (cmd_aliases (info c)))) cs) + 2"

definition usage_positional :: "argument_def \<Rightarrow> string" where
  "usage_positional d = '' '' @ (if arg_required d then ''<'' else ''['') @ arg_name d @ (if arg_required d then ''>'' else '']'') @
     (if arg_type d = ArgType_Multiple then ''...'' else [])"

definition nl :: string where
  "nl = [newline]"

definition help_positional :: "(double \<Rightarrow> string) \<Rightarrow> nat \<Rightarrow> argument_def \<Rightarrow> string" where
  "help_positional sd w d = ''  '' @ pad w (arg_name d) @ arg_help d @
     (if arg_val (arg_default d) \<noteq> VNone then '' (default: '' @ arg_print sd (arg_default d) @ '')'' else []) @
     (if arg_required d then [] else '' [optional]'') @ nl"

definition help_keyword :: "(double \<Rightarrow> string) \<Rightarrow> nat \<Rightarrow> argument_def \<Rightarrow> string" where
  "help_keyword sd w d = (if arg_hidden d then [] else ''  '' @ pad w (get_display_name d) @ arg_help d @
     (if arg_val (arg_default d) \<noteq> VNone \<and> arg_get_bool (arg_default d) \<noteq> Some False
      then '' (default: '' @ arg_print sd (arg_default d) @ '')'' else []) @
     (if arg_required d then '' [required]'' else []) @ nl)"

definition help_options :: "(double \<Rightarrow> string) \<Rightarrow> argument_def list \<Rightarrow> dynamic_kw option \<Rightarrow> string" where
  "help_options sd ds dyn = (let w = kw_arg_width ds dyn in
     if ds \<noteq> [] \<or> dyn \<noteq> None then ''Options:'' @ nl @ concat (map (help_keyword sd w) ds) @
       (case dyn of None \<Rightarrow> [] | Some d \<Rightarrow> ''  '' @ pad w (dynamic_placeholder ''<values...>'' d) @ dyn_description d @ nl) @ nl
     else [])"

definition help_commands :: "string \<Rightarrow> (string \<times> 'w command) list \<Rightarrow> string" where
  "help_commands path cs = (if cs = [] then [] else ''Commands:'' @ nl @
     concat (map (\<lambda>(n, c). ''  '' @ pad (command_width cs) (command_display n (cmd_aliases (info c))) @ cmd_help (info c) @ nl) cs) @
     nl @ ''Run '' @ [CHR 0x27] @ path @ '' <command> --help'' @ [CHR 0x27] @ '' for more information on a command.'' @ nl)"

definition generate_help :: "(double \<Rightarrow> string) \<Rightarrow> string \<Rightarrow> 'w command \<Rightarrow> string" where
  "generate_help sd prefix c =
     (let i = info c; pos_args = filter arg_positional (cmd_args i); kw_args = filter (\<lambda>d. \<not> arg_positional d) (cmd_args i);
          path = full_command_path prefix (cmd_name i)
      in ''Usage: '' @ path @
         (if subcommands c \<noteq> [] then '' <command>'' else []) @
         concat (map usage_positional pos_args) @
         (if kw_args \<noteq> [] \<or> cmd_dynamic i \<noteq> None then '' [options]'' else []) @
         (if cmd_passthrough i \<noteq> None then '' [-- <passthrough_args>...]'' else []) @ nl @ nl @
         (if cmd_help i \<noteq> [] then cmd_help i @ nl @ nl else []) @
         (if pos_args \<noteq> [] then ''Arguments:'' @ nl @ concat (map (help_positional sd (pos_arg_width pos_args)) pos_args) @ nl else []) @
         help_options sd kw_args (cmd_dynamic i) @
         (case cmd_passthrough i of None \<Rightarrow> [] | Some desc \<Rightarrow>
            ''Passthrough:'' @ nl @ ''  --                    '' @ desc @ nl @
            ''                        All arguments after -- are passed through without parsing.'' @ nl @ nl) @
         help_commands path (subcommands c) @
         (if cmd_examples i = [] then [] else ''Examples:'' @ nl @ nl @
            concat (map (\<lambda>(t, cmd). ''   - '' @ t @ '':'' @ nl @ nl @ ''      $ '' @ cmd @ nl @ nl) (cmd_examples i))))"

section \<open>Bash completion\<close>

definition single_quoted :: "string \<Rightarrow> string" where
  "single_quoted s = [CHR 0x27] @ s @ [CHR 0x27] @ '' ''"

definition array_name :: "string \<Rightarrow> string \<Rightarrow> string" where
  "array_name base prefix = (if prefix = [] then base else base @ ''_'' @ prefix)"

definition completion_options :: "argument_def list \<Rightarrow> string" where
  "completion_options ds = concat (map (\<lambda>d. if arg_positional d then []
     else concat (map single_quoted (arg_aliases d)) @
       (if arg_name d \<noteq> [] \<and> ''--'' @ arg_name d \<notin> set (arg_aliases d) then single_quoted (''--'' @ arg_name d) else [])) ds)"

fun emit_command_tree :: "string \<Rightarrow> 'w command \<Rightarrow> string" where
  "emit_command_tree prefix (Command i cs) =
     array_name ''_parser_cmds'' prefix @ ''=( '' @
       concat (map (\<lambda>(n, c). single_quoted n @ concat (map single_quoted (cmd_aliases (info c)))) cs) @ '')'' @ nl @
     array_name ''_parser_opts'' prefix @ ''=( '' @ completion_options (cmd_args i) @ '')'' @ nl @
     concat (map (\<lambda>(n, c). emit_command_tree (if prefix = [] then n else prefix @ ''_'' @ n) c) cs)"

definition completion_function :: "string \<Rightarrow> string" where
  "completion_function prog = ''_parser_complete_'' @ prog @ ''() {'' @ nl @
     ''  local cur prev words cword'' @ nl @
     ''  _get_comp_words_by_ref -n : cur prev words cword'' @ nl @
     ''  local i cmd_path='' @ [quote, quote] @ '' arr_name='' @ [quote] @ ''_parser_cmds'' @ [quote] @ '' opt_arr='' @ [quote] @ ''_parser_opts'' @ [quote] @ nl @
     ''  local level=0'' @ nl @
     ''  for ((i=1; i < ${#words[@]}; ++i)); do'' @ nl @
     ''    w=${words[i]}'' @ nl @
     ''    eval arr='' @ [quote, backslash] @ ''${!arr_name}'' @ [quote] @ nl @
     ''    found=0'' @ nl @
     ''    for entry in '' @ [quote] @ ''${arr[@]}'' @ [quote] @ ''; do'' @ nl @
     ''      if [[ '' @ [quote] @ ''$w'' @ [quote] @ '' == '' @ [quote] @ ''$entry'' @ [quote] @ '' ]]; then'' @ nl @
     ''        cmd_path+='' @ [quote] @ ''_'' @ [quote] @ ''$w'' @ nl @
     ''        arr_name='' @ [quote] @ ''_parser_cmds$cmd_path'' @ [quote] @ nl @
     ''        opt_arr='' @ [quote] @ ''_parser_opts$cmd_path'' @ [quote] @ nl @
     ''        found=1'' @ nl @
     ''        break'' @ nl @
     ''      fi'' @ nl @
     ''    done'' @ nl @
     ''    if [[ $found -eq 0 ]]; then break; fi'' @ nl @
     ''  done'' @ nl @
     ''  eval opts='' @ [quote, backslash] @ ''${!opt_arr}'' @ [quote] @ nl @
     ''  eval cmds='' @ [quote, backslash] @ ''${!arr_name}'' @ [quote] @ nl @
     ''  COMPREPLY=( $(compgen -W '' @ [quote] @ ''${opts[*]} ${cmds[*]}'' @ [quote] @ '' -- '' @ [quote] @ ''$cur'' @ [quote] @ '') )'' @ nl @
     ''  return 0'' @ nl @
     ''}'' @ nl @
     ''complete -F _parser_complete_'' @ prog @ '' '' @ prog @ nl"

definition generate_bash_completion :: "string \<Rightarrow> 'w command \<Rightarrow> string" where
  "generate_bash_completion prog root = emit_command_tree [] root @ completion_function prog"

end
