(* ===== verification/Parser.thy ===== *)
theory Parser
  imports Cli
begin

text \<open>
  Parsing a command line into the arguments of a command and running its handler
  (\<open>Command::parse\<close> and \<open>ArgumentParser\<close> of \<open>parser.hpp\<close>).  A token comes with the text it
  points into.  The loop over the tokens is a step function and its iteration, which is a partial
  function because the loop can go on forever.
\<close>

section \<open>The process\<close>

text \<open>What the C library does with numbers.\<close>

record cli_env =
  cli_strtod :: strtod
  cli_show :: "bool \<Rightarrow> double \<Rightarrow> string"

definition show_value :: "cli_env \<Rightarrow> double \<Rightarrow> string" where
  "show_value e = cli_show e False"

datatype console = Cout string | Cerr string

type_synonym src_token = "string \<times> token"

definition print_src :: "cli_env \<Rightarrow> src_token \<Rightarrow> string" where
  "print_src e t = print_token (cli_show e) (fst t) (snd t)"

definition kind :: "src_token \<Rightarrow> token_kind" where
  "kind t = tk_kind (snd t)"

section \<open>Results\<close>

datatype parser_status = ParserStatus_Success | ParserStatus_HelpRequested | ParserStatus_ParseError

record 'w parse_result =
  status :: parser_status
  exit_code :: int
  error_text :: string
  result_path :: string
  m_values :: argument_map
  m_dynamic_values :: argument_map
  m_passthrough_args :: "string list"
  m_command :: "'w command option"

definition empty_result :: "'w parse_result" where
  "empty_result = \<lparr>status = ParserStatus_Success, exit_code = 0, error_text = [], result_path = [], m_values = [],
     m_dynamic_values = [], m_passthrough_args = [], m_command = None\<rparr>"

definition parse_failure :: "string \<Rightarrow> 'w parse_result" where
  "parse_failure msg = empty_result\<lparr>status := ParserStatus_ParseError, error_text := msg, exit_code := 1\<rparr>"

definition result_has :: "string \<Rightarrow> 'w parse_result \<Rightarrow> bool" where
  "result_has n r \<longleftrightarrow> map_of (m_values r) n \<noteq> None"

definition result_get :: "(argument \<Rightarrow> 'a option) \<Rightarrow> string \<Rightarrow> 'w parse_result \<Rightarrow> 'a option" where
  "result_get getter n r = (case map_of (m_values r) n of None \<Rightarrow> None | Some a \<Rightarrow> getter a)"

definition command_default :: "(argument \<Rightarrow> 'a option) \<Rightarrow> string \<Rightarrow> 'w parse_result \<Rightarrow> 'a option" where
  "command_default getter n r = (case m_command r of
     None \<Rightarrow> None
   | Some c \<Rightarrow> (case find (\<lambda>d. arg_name d = n) (cmd_args (info c)) of None \<Rightarrow> None | Some d \<Rightarrow> getter (arg_default d)))"

definition result_get_value :: "(argument \<Rightarrow> 'a option) \<Rightarrow> string \<Rightarrow> 'a \<Rightarrow> 'w parse_result \<Rightarrow> 'a" where
  "result_get_value getter n def r = (case result_get getter n r of Some v \<Rightarrow> v
   | None \<Rightarrow> (case command_default getter n r of Some v \<Rightarrow> v | None \<Rightarrow> def))"

definition result_get_bool :: "string \<Rightarrow> bool \<Rightarrow> 'w parse_result \<Rightarrow> bool" where
  "result_get_bool n def r = (if result_has (''no-'' @ n) r then False else result_get_value arg_get_bool n def r)"

section \<open>Tokens as values\<close>

definition is_flag_token :: "src_token list \<Rightarrow> nat \<Rightarrow> bool" where
  "is_flag_token ts i \<longleftrightarrow> i < length ts \<and> (kind (ts ! i) = TokFlagShort \<or> kind (ts ! i) = TokFlagLong)"

definition alias_matches :: "bool \<Rightarrow> string \<Rightarrow> string \<Rightarrow> bool" where
  "alias_matches short fname a = (if short then length a = 2 \<and> hd a = CHR ''-'' \<and> drop 1 a = fname
     else length a > 2 \<and> take 2 a = ''--'' \<and> drop 2 a = fname)"

definition find_keyword_arg :: "argument_def list \<Rightarrow> string \<Rightarrow> bool \<Rightarrow> argument_def option" where
  "find_keyword_arg ds fname short = find (\<lambda>d. \<not> arg_positional d \<and>
     (arg_name d = fname \<or> list_ex (alias_matches short fname) (arg_aliases d))) ds"

definition coerce_numeric :: "cli_env \<Rightarrow> src_token \<Rightarrow> arg_value \<Rightarrow> bool \<Rightarrow> arg_value" where
  "coerce_numeric e t native prefer_string = (if prefer_string then VString (print_src e t) else native)"

definition parse_token_value :: "cli_env \<Rightarrow> src_token \<Rightarrow> arg_type \<Rightarrow> bool \<Rightarrow> arg_value" where
  "parse_token_value e t expected coerce =
     (let text = ref_text (fst t) (snd t); str_value = unescape_slice text;
          prefer_string = (expected = ArgType_Multiple \<or> coerce)
      in if expected = ArgType_Flag then
           (case kind t of TokId \<Rightarrow> VBool (text = ''true'') | TokStrLit \<Rightarrow> VBool (str_value = ''true'')
             | TokTrue \<Rightarrow> VBool True | TokFalse \<Rightarrow> VBool False | _ \<Rightarrow> VNone)
         else (case kind t of
             TokIntLit \<Rightarrow> (case tk_data (snd t) of IntLit v b \<Rightarrow> coerce_numeric e t (VInt v) prefer_string | _ \<Rightarrow> VNone)
           | TokFloatLit \<Rightarrow> (case tk_data (snd t) of FloatLit v ex \<Rightarrow> coerce_numeric e t (VDouble v) prefer_string | _ \<Rightarrow> VNone)
           | TokTrue \<Rightarrow> VString ''true''
           | TokFalse \<Rightarrow> VString ''false''
           | TokStrLit \<Rightarrow> VString str_value
           | TokId \<Rightarrow> VString text
           | TokTimes \<Rightarrow> VString ''*''
           | _ \<Rightarrow> VNone))"

text \<open>The loop that takes values up to the next flag, or the first that is not a string.\<close>

fun take_values :: "cli_env \<Rightarrow> bool \<Rightarrow> src_token list \<Rightarrow> string list" where
  "take_values e coerce [] = []"
| "take_values e coerce (t # ts) =
     (if kind t = TokFlagShort \<or> kind t = TokFlagLong then []
      else (case parse_token_value e t ArgType_Multiple coerce of VString s \<Rightarrow> s # take_values e coerce ts | _ \<Rightarrow> []))"

section \<open>Suggestions\<close>

text \<open>The first candidate at the least distance.\<close>

fun closest :: "string \<Rightarrow> (string \<times> string) list \<Rightarrow> (nat \<times> string) option \<Rightarrow> (nat \<times> string) option" where
  "closest word [] best = best"
| "closest word ((key, shown) # cs) best =
     (let dist = levenshtein_distance word key in
      closest word cs (case best of None \<Rightarrow> Some (dist, shown)
        | Some (d, b) \<Rightarrow> if dist < d then Some (dist, shown) else best))"

definition option_candidates :: "argument_def list \<Rightarrow> (string \<times> string) list" where
  "option_candidates ds = concat (map (\<lambda>d. if arg_positional d then []
     else (arg_name d, ''--'' @ arg_name d) # map (\<lambda>a. (dropWhile (\<lambda>c. c = CHR ''-'') a, a)) (arg_aliases d)) ds)"

definition command_candidates :: "(string \<times> 'w command) list \<Rightarrow> (string \<times> string) list" where
  "command_candidates cs = concat (map (\<lambda>(n, c). (n, n) # map (\<lambda>a. (a, a)) (cmd_aliases (info c))) cs)"

definition suggestion :: "string \<Rightarrow> (string \<times> string) list \<Rightarrow> string" where
  "suggestion word cands = (case closest word cands None of
     Some (d, b) \<Rightarrow> if d \<le> 2 then nl @ ''Did you mean '' @ quoted_name b @ ''?'' @ nl @ nl else nl @ nl
   | None \<Rightarrow> nl @ nl)"

section \<open>One token\<close>

record parse_state =
  ps_index :: nat
  ps_values :: argument_map
  ps_dynamic :: argument_map
  ps_seen :: "string list"
  ps_pos :: nat
  ps_pass :: "string list"

definition start_state :: "nat \<Rightarrow> argument_def list \<Rightarrow> parse_state" where
  "start_state i ds = \<lparr>ps_index = i,
     ps_values = fold (\<lambda>d m. if is_help_flag d then m else AList.update (arg_name d) (arg_default d) m) ds [],
     ps_dynamic = [], ps_seen = [], ps_pos = 0, ps_pass = []\<rparr>"

definition pos_args :: "argument_def list \<Rightarrow> argument_def list" where
  "pos_args ds = filter (\<lambda>d. \<not> is_help_flag d \<and> arg_positional d) ds"

text \<open>What a token makes the loop do: go on, leave the loop, fail with a message and what is printed
  after it, print the help, or hand over to a subcommand.\<close>

datatype 'w action = Continue parse_state | Break parse_state | Fail parse_state string string
  | Help parse_state | Delegate nat "'w command"

definition fail_plain :: "parse_state \<Rightarrow> string \<Rightarrow> 'w action" where
  "fail_plain st msg = Fail st msg (nl @ nl)"

definition set_value :: "string \<Rightarrow> arg_value \<Rightarrow> parse_state \<Rightarrow> parse_state" where
  "set_value n v st = st\<lparr>ps_values := AList.update n (mk_arg v) (ps_values st)\<rparr>"

definition mark_seen :: "string \<Rightarrow> parse_state \<Rightarrow> parse_state" where
  "mark_seen n st = st\<lparr>ps_seen := List.insert n (ps_seen st)\<rparr>"

definition skip_tokens :: "nat \<Rightarrow> parse_state \<Rightarrow> parse_state" where
  "skip_tokens k st = st\<lparr>ps_index := ps_index st + k\<rparr>"

definition passthrough :: "cli_env \<Rightarrow> src_token list \<Rightarrow> 'w command \<Rightarrow> parse_state \<Rightarrow> 'w action" where
  "passthrough e ts c st = (if cmd_passthrough (info c) = None then
       fail_plain st (''unexpected delimiter '' @ quoted_name ''--'' @ ''. This command does not accept passthrough arguments.'')
     else Break (st\<lparr>ps_pass := ps_pass st @ map (print_src e) (drop (ps_index st + 1) ts), ps_index := length ts\<rparr>))"

fun combined_flags :: "argument_def list \<Rightarrow> string \<Rightarrow> parse_state \<Rightarrow> 'w action" where
  "combined_flags ds [] st = Continue st"
| "combined_flags ds (c # cs) st = (case find_keyword_arg ds [c] True of
     None \<Rightarrow> fail_plain st (''unknown option in combined flags: -'' @ [c])
   | Some d \<Rightarrow>
       (if is_help_flag d then Help st
        else if arg_type d \<noteq> ArgType_Flag then fail_plain st (''option -'' @ [c] @ '' requires a value and cannot be combined.'')
        else combined_flags ds cs (set_value (arg_name d) (VBool True) (mark_seen (arg_name d) st))))"

definition dynamic_option :: "cli_env \<Rightarrow> src_token list \<Rightarrow> dynamic_kw \<Rightarrow> string \<Rightarrow> parse_state \<Rightarrow> 'w action" where
  "dynamic_option e ts dyn fname st0 =
     (let st = skip_tokens 1 st0; i = ps_index st;
          store = (\<lambda>v k. Continue (skip_tokens k (st\<lparr>ps_dynamic := AList.update fname \<lparr>arg_val = v, is_dynamic = True\<rparr> (ps_dynamic st)\<rparr>)))
      in case keyword_type dyn of
        ArgType_Single \<Rightarrow>
          (if i \<ge> length ts \<or> is_flag_token ts i then fail_plain st (''option --'' @ fname @ '' requires a value.'')
           else (case parse_token_value e (ts ! i) ArgType_Single False of
               VNone \<Rightarrow> fail_plain st (''invalid value for option --'' @ fname)
             | v \<Rightarrow> store v 1))
      | ArgType_Multiple \<Rightarrow>
          (if i \<ge> length ts \<or> is_flag_token ts i then fail_plain st (''option --'' @ fname @ '' requires at least one value.'')
           else (case take_values e False (drop i ts) of
               [] \<Rightarrow> fail_plain st (''invalid value for option --'' @ fname)
             | vs \<Rightarrow> store (VList vs) (length vs)))
      | ArgType_Flag \<Rightarrow> fail_plain st ''internal error: unsupported dynamic keyword configuration'')"

text \<open>The value of an option that was found.\<close>

definition flag_option :: "cli_env \<Rightarrow> src_token list \<Rightarrow> argument_def \<Rightarrow> parse_state \<Rightarrow> 'w action" where
  "flag_option e ts d st =
     (let i = ps_index st;
          v = (if i < length ts \<and> \<not> is_flag_token ts i then parse_token_value e (ts ! i) ArgType_Flag False else VNone)
      in if v \<noteq> VNone then Continue (set_value (arg_name d) v (skip_tokens 1 st))
         else Continue (set_value (arg_name d) (VBool True) st))"

definition value_option :: "cli_env \<Rightarrow> src_token list \<Rightarrow> argument_def \<Rightarrow> parse_state \<Rightarrow> 'w action" where
  "value_option e ts d st =
     (let i = ps_index st in
      if i \<ge> length ts \<or> is_flag_token ts i then fail_plain st (''option '' @ get_display_name d @ '' requires a value.'')
      else (case parse_token_value e (ts ! i) (arg_type d) (arg_coerce d) of
          VNone \<Rightarrow> fail_plain st (''invalid value for option '' @ get_display_name d)
        | v \<Rightarrow>
           (if arg_type d = ArgType_Single then Continue (set_value (arg_name d) v (skip_tokens 1 st))
            else (case v of
                VString s \<Rightarrow>
                  (let old = (case map_of (ps_values st) (arg_name d) of
                                Some a \<Rightarrow> (case arg_val a of VList l \<Rightarrow> l | _ \<Rightarrow> []) | None \<Rightarrow> []);
                       vs = take_values e (arg_coerce d) (drop (i + 1) ts)
                   in Continue (set_value (arg_name d) (VList (old @ s # vs)) (skip_tokens (1 + length vs) st)))
              | _ \<Rightarrow> fail_plain st (''internal error: expected string value for multiple option '' @ arg_name d)))))"

definition option_token :: "cli_env \<Rightarrow> src_token list \<Rightarrow> 'w command \<Rightarrow> src_token \<Rightarrow> parse_state \<Rightarrow> 'w action" where
  "option_token e ts c t st =
     (let fname = ref_text (fst t) (snd t); short = (kind t = TokFlagShort); ds = cmd_args (info c) in
      if short \<and> length fname > 1 then combined_flags ds fname (skip_tokens 1 st)
      else (case find_keyword_arg ds fname short of
          None \<Rightarrow>
            (case cmd_dynamic (info c) of
               Some dyn \<Rightarrow> if \<not> short then dynamic_option e ts dyn fname st
                 else Fail st (''unknown option: -'' @ fname) (suggestion fname (option_candidates ds))
             | None \<Rightarrow> Fail st (''unknown option: '' @ (if short then ''-'' else ''--'') @ fname)
                 (suggestion fname (option_candidates ds)))
        | Some d \<Rightarrow>
            (if is_help_flag d then Help st
             else (let st = mark_seen (arg_name d) (skip_tokens 1 st) in
               if arg_type d = ArgType_Flag then flag_option e ts d st else value_option e ts d st))))"


text \<open>The subcommands a word stands for: by name, or else by alias.\<close>

definition matched_subcommands :: "'w command \<Rightarrow> string \<Rightarrow> 'w command list" where
  "matched_subcommands c w = (case map_of (subcommands c) w of Some s \<Rightarrow> [s]
     | None \<Rightarrow> map snd (filter (\<lambda>(n, s). has_alias s w) (subcommands c)))"

definition positional_token :: "cli_env \<Rightarrow> src_token list \<Rightarrow> 'w command \<Rightarrow> src_token \<Rightarrow> parse_state \<Rightarrow> 'w action" where
  "positional_token e ts c t st =
     (let ps = pos_args (cmd_args (info c)) in
      if ps_pos st < length ps then
        (let d = ps ! ps_pos st in
         case parse_token_value e t (arg_type d) (arg_coerce d) of
           VNone \<Rightarrow> fail_plain st (''invalid value for positional argument '' @ quoted_name (arg_name d))
         | v \<Rightarrow> (case arg_type d of
             ArgType_Single \<Rightarrow> Continue ((set_value (arg_name d) v (skip_tokens 1 st))\<lparr>ps_pos := ps_pos st + 1\<rparr>)
           | ArgType_Multiple \<Rightarrow> (case v of
               VString s \<Rightarrow>
                 (let vs = take_values e (arg_coerce d) (drop (ps_index st + 1) ts)
                  in Continue ((set_value (arg_name d) (VList (s # vs)) (skip_tokens (1 + length vs) st))\<lparr>ps_pos := ps_pos st + 1\<rparr>))
             | _ \<Rightarrow> fail_plain st (''internal error: expected string value for multiple positional argument '' @ arg_name d))
           | ArgType_Flag \<Rightarrow> Continue st))
      else fail_plain st (''unexpected argument: '' @ print_src e t))"

definition word_token :: "cli_env \<Rightarrow> src_token list \<Rightarrow> 'w command \<Rightarrow> src_token \<Rightarrow> parse_state \<Rightarrow> 'w action" where
  "word_token e ts c t st =
     (let w = ref_text (fst t) (snd t) in
      case matched_subcommands c w of
        [s] \<Rightarrow> Delegate (ps_index st + 1) s
      | _ # _ # _ \<Rightarrow> fail_plain st (''ambiguous alias '' @ quoted_name w @ '' matches multiple subcommands.'')
      | [] \<Rightarrow>
         (if subcommands c \<noteq> [] \<and> ps_pos st = 0 \<and> cmd_handler (info c) = None
          then Fail st (''unknown command or group: '' @ w) (suggestion w (command_candidates (subcommands c)))
          else positional_token e ts c t st))"

definition parse_step :: "cli_env \<Rightarrow> src_token list \<Rightarrow> 'w command \<Rightarrow> parse_state \<Rightarrow> 'w action" where
  "parse_step e ts c st =
     (let t = ts ! ps_index st in
      case kind t of
        TokDoubleMinus \<Rightarrow> passthrough e ts c st
      | TokFlagShort \<Rightarrow> option_token e ts c t st
      | TokFlagLong \<Rightarrow> option_token e ts c t st
      | TokId \<Rightarrow> word_token e ts c t st
      | _ \<Rightarrow> positional_token e ts c t st)"

section \<open>After the last token\<close>

definition missing_option :: "argument_def list \<Rightarrow> parse_state \<Rightarrow> argument_def option" where
  "missing_option ds st = find (\<lambda>d. \<not> arg_positional d \<and> \<not> is_help_flag d \<and> arg_required d \<and> arg_name d \<notin> set (ps_seen st)) ds"

text \<open>The positional arguments that were not given: the first required one fails, the optional ones
  before it get their defaults.\<close>

fun missing_positional :: "argument_def list \<Rightarrow> parse_state \<Rightarrow> argument_def option \<times> parse_state" where
  "missing_positional [] st = (None, st)"
| "missing_positional (d # ds) st = (if arg_required d then (Some d, st)
     else missing_positional ds (st\<lparr>ps_values := AList.update (arg_name d) (arg_default d) (ps_values st)\<rparr>))"

definition pair_less :: "string \<times> string \<Rightarrow> string \<times> string \<Rightarrow> bool" where
  "pair_less p q \<longleftrightarrow> key_less (fst p) (fst q) \<or> fst p = fst q \<and> key_less (snd p) (snd q)"

fun insert_pair :: "string \<times> string \<Rightarrow> (string \<times> string) list \<Rightarrow> (string \<times> string) list" where
  "insert_pair p [] = [p]"
| "insert_pair p (q # qs) = (if p = q then q # qs else if pair_less p q then p # q # qs else q # insert_pair p qs)"

definition conflict_pair :: "string \<Rightarrow> string \<Rightarrow> string \<times> string" where
  "conflict_pair a b = (if key_less b a then (b, a) else (a, b))"

definition conflict_pairs :: "argument_def list \<Rightarrow> string list \<Rightarrow> (string \<times> string) list" where
  "conflict_pairs ds seen = fold insert_pair
     (concat (map (\<lambda>d. if arg_name d \<notin> set seen then []
        else map (conflict_pair (arg_name d)) (filter (\<lambda>x. x \<in> set seen \<and> x \<noteq> arg_name d) (arg_conflicts d))) ds)) []"

definition conflict_message :: "(string \<times> string) list \<Rightarrow> string" where
  "conflict_message ps = ''conflicting options provided: '' @
     join_with ''; '' (map (\<lambda>(a, b). ''--'' @ a @ '' conflicts with --'' @ b) ps)"

text \<open>The outcome of a parse: the result or what the handler threw, the lines printed, the index of
  the next token, and the world.\<close>

type_synonym 'w parse_outcome = "'w parse_result result \<times> console list \<times> nat \<times> 'w"

definition mk_result :: "'w command \<Rightarrow> string \<Rightarrow> parse_state \<Rightarrow> parser_status \<Rightarrow> int \<Rightarrow> string \<Rightarrow> 'w parse_result" where
  "mk_result c prefix st s rc msg = \<lparr>status = s, exit_code = rc, error_text = msg, result_path = prefix @ cmd_name (info c),
     m_values = ps_values st, m_dynamic_values = ps_dynamic st, m_passthrough_args = ps_pass st, m_command = Some c\<rparr>"

definition fail_with :: "cli_env \<Rightarrow> 'w command \<Rightarrow> string \<Rightarrow> parse_state \<Rightarrow> string \<Rightarrow> string \<Rightarrow> 'w \<Rightarrow> 'w parse_outcome" where
  "fail_with e c prefix st msg tail w =
     (Ok (mk_result c prefix st ParserStatus_ParseError 1 msg),
      [Cerr (''Error: '' @ msg @ tail), Cerr (generate_help (show_value e) prefix c)], ps_index st, w)"

definition help_with :: "cli_env \<Rightarrow> 'w command \<Rightarrow> string \<Rightarrow> parse_state \<Rightarrow> 'w \<Rightarrow> 'w parse_outcome" where
  "help_with e c prefix st w =
     (Ok (mk_result c prefix st ParserStatus_HelpRequested 0 []), [Cout (generate_help (show_value e) prefix c)], ps_index st, w)"

definition invocation_args :: "parse_state \<Rightarrow> argument_map" where
  "invocation_args st = fold (\<lambda>(k, a) m. AList.update k a m) (ps_dynamic st) (ps_values st)"

definition finish :: "cli_env \<Rightarrow> 'w command \<Rightarrow> string \<Rightarrow> parse_state \<Rightarrow> 'w \<Rightarrow> 'w parse_outcome" where
  "finish e c prefix st w =
     (let ds = cmd_args (info c) in
      case missing_option ds st of
        Some d \<Rightarrow> fail_with e c prefix st (''missing required option: '' @ get_display_name d) (nl @ nl) w
      | None \<Rightarrow> (case missing_positional (drop (ps_pos st) (pos_args ds)) st of
          (Some d, st) \<Rightarrow> fail_with e c prefix st (''missing required positional argument: '' @ arg_name d) (nl @ nl) w
        | (None, st) \<Rightarrow>
           (if conflict_pairs ds (ps_seen st) \<noteq> []
            then fail_with e c prefix st (conflict_message (conflict_pairs ds (ps_seen st))) (nl @ nl) w
            else (case cmd_handler (info c) of
                Some h \<Rightarrow> (case h (prefix @ cmd_name (info c)) (invocation_args st) (ps_pass st) w of
                    (Inl err, w) \<Rightarrow> (Throw err, [], ps_index st, w)
                  | (Inr rc, w) \<Rightarrow> (Ok (mk_result c prefix st ParserStatus_Success rc []), [], ps_index st, w))
              | None \<Rightarrow> (if subcommands c \<noteq> [] then help_with e c prefix st w
                  else (Ok (mk_result c prefix st ParserStatus_Success 0 []), [], ps_index st, w))))))"

section \<open>The loop\<close>

partial_function (option) parse_loop :: "cli_env \<Rightarrow> src_token list \<Rightarrow> 'w command \<Rightarrow> string \<Rightarrow> parse_state \<Rightarrow> 'w \<Rightarrow> 'w parse_outcome option" where
  "parse_loop e ts c prefix st w =
     (if ps_index st \<ge> length ts then Some (finish e c prefix st w)
      else (case parse_step e ts c st of
          Continue st' \<Rightarrow> parse_loop e ts c prefix st' w
        | Break st' \<Rightarrow> Some (finish e c prefix st' w)
        | Fail st' msg tail \<Rightarrow> Some (fail_with e c prefix st' msg tail w)
        | Help st' \<Rightarrow> Some (help_with e c prefix st' w)
        | Delegate i s \<Rightarrow> parse_loop e ts s (prefix @ cmd_name (info c) @ '' '') (start_state i (cmd_args (info s))) w))"

definition parse_command :: "cli_env \<Rightarrow> src_token list \<Rightarrow> 'w command \<Rightarrow> nat \<Rightarrow> string \<Rightarrow> 'w \<Rightarrow> 'w parse_outcome option" where
  "parse_command e ts c i prefix w = parse_loop e ts c prefix (start_state i (cmd_args (info c))) w"

section \<open>The argument parser\<close>

text \<open>The token of one element of \<open>argv\<close> that is not passed through; its text is the element.\<close>

definition with_span :: "nat \<Rightarrow> nat \<Rightarrow> token \<Rightarrow> token" where
  "with_span a b t = t\<lparr>tk_start := a, tk_end := b\<rparr>"

definition literal_token :: "cli_env \<Rightarrow> string \<Rightarrow> token option" where
  "literal_token e arg = (case tokenize (cli_strtod e) ''<arg>'' arg of
     Inr [t, t2] \<Rightarrow> (if tk_kind t \<in> {TokIntLit, TokFloatLit, TokTrue, TokFalse} \<and> tk_kind t2 = TokEof then Some t else None)
   | _ \<Rightarrow> None)"

definition argv_token :: "cli_env \<Rightarrow> nat \<Rightarrow> string \<Rightarrow> token" where
  "argv_token e pos arg =
     (let n = length arg; q = CHR 0x27 in
      if n > 2 \<and> take 2 arg = ''--'' then make_string_token TokFlagLong 2 (n - 2) pos (pos + n)
      else if n > 1 \<and> hd arg = CHR ''-'' then make_string_token TokFlagShort 1 (n - 1) pos (pos + n)
      else if n \<ge> 2 \<and> (hd arg = quote \<and> last arg = quote \<or> hd arg = q \<and> last arg = q)
      then make_string_token TokStrLit 1 (n - 2) pos (pos + n)
      else (case literal_token e arg of
          Some t \<Rightarrow> with_span pos (pos + n) t
        | None \<Rightarrow> make_string_token TokId 0 n pos (pos + n)))"

fun argv_tokens :: "cli_env \<Rightarrow> nat \<Rightarrow> bool \<Rightarrow> string list \<Rightarrow> src_token list" where
  "argv_tokens e pos pass [] = []"
| "argv_tokens e pos pass (arg # as) =
     (let next_pos = pos + length arg + 1 in
      if pass then (arg, make_string_token TokId 0 (length arg) pos (pos + length arg)) # argv_tokens e next_pos True as
      else if arg = ''--'' then (arg, simple_token TokDoubleMinus pos (pos + length arg)) # argv_tokens e next_pos True as
      else (arg, argv_token e pos arg) # argv_tokens e next_pos False as)"

definition unexpected_rest :: "cli_env \<Rightarrow> 'w command \<Rightarrow> src_token list \<Rightarrow> 'w parse_outcome \<Rightarrow> 'w parse_outcome" where
  "unexpected_rest e root ts out = (case out of
     (Inr r, ls, i, w) \<Rightarrow>
       (if status r = ParserStatus_Success \<and> i < length ts then
          (let msg = ''unexpected arguments starting from: '' @ print_src e (ts ! i)
           in (Inr (r\<lparr>status := ParserStatus_ParseError, error_text := msg, exit_code := 1\<rparr>),
               ls @ [Cerr (''Error: '' @ msg @ nl @ nl), Cerr (generate_help (show_value e) [] root)], i, w))
        else out)
   | _ \<Rightarrow> out)"

text \<open>\<open>parse(argc, argv)\<close>; the list is \<open>argv\<close> with the program name.\<close>

definition parse_argv :: "cli_env \<Rightarrow> 'w command \<Rightarrow> string list \<Rightarrow> 'w \<Rightarrow> 'w parse_outcome option" where
  "parse_argv e root argv w = (if argv = [] then
       Some (Ok (parse_failure ''invalid arguments provided (argc < 1)''), [], 0, w)
     else (let ts = argv_tokens e 0 False (tl argv) in
       map_option (unexpected_rest e root ts) (parse_command e ts root 0 [] w)))"

text \<open>\<open>parse(command_line)\<close>: exceptions of the lexer and of the handler become results.\<close>

definition parse_line :: "cli_env \<Rightarrow> 'w command \<Rightarrow> string \<Rightarrow> 'w \<Rightarrow> ('w parse_result \<times> console list \<times> 'w) option" where
  "parse_line e root line w =
     (let help = Cerr (generate_help (show_value e) [] root) in
      case tokenize (cli_strtod e) ''<cli>'' line of
        Inl err \<Rightarrow> Some (parse_failure (lex_error_text err), [Cerr (''Lexer error: '' @ lex_error_text err @ nl), help], w)
      | Inr toks \<Rightarrow>
         (let toks = (if toks \<noteq> [] \<and> tk_kind (last toks) = TokEof then butlast toks else toks);
              ts = map (\<lambda>t. (line, t)) toks
          in map_option (\<lambda>out. case unexpected_rest e root ts out of
               (Inr r, ls, i, w) \<Rightarrow> (r, ls, w)
             | (Inl err, ls, i, w) \<Rightarrow> (parse_failure err, ls @ [Cerr (''Parser error: '' @ err @ nl), help], w))
             (parse_command e ts root 0 [] w)))"

end
