(* ===== verification/ParserStep.thy ===== *)
theory ParserStep
  imports Parser
begin

text \<open>
  What one token does to the state of the parser, as an inductive relation; that the loop over the
  tokens ends when no positional argument is a flag and goes on forever on one that is; and the
  rule by which an invariant of the tokens holds of every result.
\<close>

section \<open>What one token does\<close>

lemmas state_defs = set_value_def mark_seen_def skip_tokens_def

lemma index_simps [simp]:
  "ps_index (set_value n v st) = ps_index st" "ps_index (mark_seen n st) = ps_index st"
  "ps_index (skip_tokens k st) = ps_index st + k"
  by (simp_all add: state_defs)

lemma fail_plain_simps [simp]: "fail_plain st m \<noteq> Continue st'" "fail_plain st m \<noteq> Break st'" "fail_plain st m \<noteq> Delegate i s"
  by (simp_all add: fail_plain_def)

text \<open>The values that an argument of each type may get.\<close>

definition value_ok :: "arg_type \<Rightarrow> arg_value \<Rightarrow> bool" where
  "value_ok t v \<longleftrightarrow> (case t of
     ArgType_Flag \<Rightarrow> (\<exists>b. v = VBool b)
   | ArgType_Single \<Rightarrow> (case v of VInt _ \<Rightarrow> True | VDouble _ \<Rightarrow> True | VString _ \<Rightarrow> True | _ \<Rightarrow> False)
   | ArgType_Multiple \<Rightarrow> (\<exists>s l. v = VList l \<and> s \<in> set l))"

lemma parse_token_value_kinds:
  assumes "parse_token_value e t ty co \<noteq> VNone"
  shows "kind t \<noteq> TokDoubleMinus \<and> kind t \<noteq> TokFlagShort \<and> kind t \<noteq> TokFlagLong"
  using assms by (auto simp: parse_token_value_def Let_def split: if_splits)

lemma parse_token_value_flag: "parse_token_value e t ArgType_Flag co = VNone \<or> (\<exists>b. parse_token_value e t ArgType_Flag co = VBool b)"
  by (cases "kind t") (auto simp: parse_token_value_def Let_def)

lemma parse_token_value_other:
  assumes "ty \<noteq> ArgType_Flag" "parse_token_value e t ty co \<noteq> VNone"
  shows "value_ok ArgType_Single (parse_token_value e t ty co)"
  using assms
  by (cases "kind t"; cases "tk_data (snd t)") (auto simp: parse_token_value_def Let_def coerce_numeric_def value_ok_def)

text \<open>The tokens from an index on that a step has taken hold no delimiter.\<close>

definition consumed :: "src_token list \<Rightarrow> nat \<Rightarrow> nat \<Rightarrow> bool" where
  "consumed ts i k \<longleftrightarrow> i + k \<le> length ts \<and> (\<forall>j<k. kind (ts ! (i + j)) \<noteq> TokDoubleMinus)"

lemma consumed_0 [simp]: "consumed ts i 0 \<longleftrightarrow> i \<le> length ts"
  by (simp add: consumed_def)

lemma consumed_Suc: "consumed ts i (Suc k) \<longleftrightarrow> i < length ts \<and> kind (ts ! i) \<noteq> TokDoubleMinus \<and> consumed ts (Suc i) k"
  by (auto simp: consumed_def less_Suc_eq_0_disj)

lemma take_values_consumed: "consumed ts 0 (length (take_values e co ts))"
proof (induction ts)
  case (Cons t ts)
  have "consumed (t # ts) (Suc 0) k = consumed ts 0 k" for k
    by (simp add: consumed_def)
  with Cons parse_token_value_kinds [of e t ArgType_Multiple co] show ?case
    by (auto simp: consumed_Suc split: arg_value.splits)
qed simp

lemma take_values_consumed_drop: "i \<le> length ts \<Longrightarrow> consumed ts i (length (take_values e co (drop i ts)))"
  using take_values_consumed [of "drop i ts" e co] by (auto simp: consumed_def)

definition set_flags :: "string list \<Rightarrow> parse_state \<Rightarrow> parse_state" where
  "set_flags ns st = fold (\<lambda>n st. set_value n (VBool True) (mark_seen n st)) ns st"

definition option_of :: "argument_def list \<Rightarrow> argument_def \<Rightarrow> bool" where
  "option_of ds d \<longleftrightarrow> d \<in> set ds \<and> \<not> arg_positional d \<and> \<not> is_help_flag d"

text \<open>The token is an option that names the argument, alone or as one letter of combined flags.\<close>

definition option_names :: "argument_def list \<Rightarrow> src_token \<Rightarrow> argument_def \<Rightarrow> bool" where
  "option_names ds t d \<longleftrightarrow> (kind t = TokFlagShort \<or> kind t = TokFlagLong) \<and>
     (let f = ref_text (fst t) (snd t) in find_keyword_arg ds f (kind t = TokFlagShort) = Some d \<or>
        kind t = TokFlagShort \<and> (\<exists>ch\<in>set f. find_keyword_arg ds [ch] True = Some d))"

text \<open>The value that the tokens from an index on give an argument: that of the token, and for an argument with several
  values what the argument had and the values that follow.\<close>

definition value_at :: "cli_env \<Rightarrow> src_token list \<Rightarrow> string list \<Rightarrow> argument_def \<Rightarrow> nat \<Rightarrow> arg_value \<Rightarrow> bool" where
  "value_at e ts old d k v \<longleftrightarrow> k < length ts \<and> v \<noteq> VNone \<and>
     (if arg_type d = ArgType_Multiple
      then (\<exists>s. parse_token_value e (ts ! k) ArgType_Multiple (arg_coerce d) = VString s \<and>
        v = VList (old @ s # take_values e (arg_coerce d) (drop (k + 1) ts)))
      else v = parse_token_value e (ts ! k) (arg_type d) (arg_coerce d))"

definition listed_values :: "argument option \<Rightarrow> string list" where
  "listed_values a = (case a of Some a \<Rightarrow> (case arg_val a of VList l \<Rightarrow> l | _ \<Rightarrow> []) | None \<Rightarrow> [])"

definition old_values :: "parse_state \<Rightarrow> argument_def \<Rightarrow> string list" where
  "old_values st d = listed_values (map_of (ps_values st) (arg_name d))"

lemma parse_flag_coerce: "parse_token_value e t ArgType_Flag co = parse_token_value e t ArgType_Flag False"
  by (simp add: parse_token_value_def Let_def)

lemma value_at_ok: "value_at e ts old d k v \<Longrightarrow> value_ok (arg_type d) v"
  using parse_token_value_other [of "arg_type d" e "ts ! k" "arg_coerce d"] parse_token_value_flag [of e "ts ! k" "arg_coerce d"]
  by (cases "arg_type d") (auto simp: value_at_def value_ok_def)

inductive token_effect :: "cli_env \<Rightarrow> src_token list \<Rightarrow> argument_def list \<Rightarrow> parse_state \<Rightarrow> parse_state \<Rightarrow> bool" for e ts ds st where
  eff_flags: "\<forall>n\<in>set ns. \<exists>d. option_of ds d \<and> arg_name d = n \<and> arg_type d = ArgType_Flag \<and> option_names ds (ts ! ps_index st) d \<Longrightarrow> consumed ts (ps_index st) 1 \<Longrightarrow>
     token_effect e ts ds st (set_flags ns (skip_tokens 1 st))"
| eff_dynamic: "consumed ts (ps_index st) (Suc k) \<Longrightarrow>
     token_effect e ts ds st (skip_tokens (Suc k) (st\<lparr>ps_dynamic := AList.update n a (ps_dynamic st)\<rparr>))"
| eff_option: "option_of ds d \<Longrightarrow> option_names ds (ts ! ps_index st) d \<Longrightarrow>
     arg_type d = ArgType_Flag \<and> v = VBool True \<or> value_at e ts (old_values st d) d (ps_index st + 1) v \<Longrightarrow> consumed ts (ps_index st) (Suc k) \<Longrightarrow>
     token_effect e ts ds st (set_value (arg_name d) v (skip_tokens (Suc k) (mark_seen (arg_name d) st)))"
| eff_positional: "ps_pos st < length (pos_args ds) \<Longrightarrow> d = pos_args ds ! ps_pos st \<Longrightarrow> value_at e ts [] d (ps_index st) v \<Longrightarrow>
     consumed ts (ps_index st) (Suc k) \<Longrightarrow>
     token_effect e ts ds st ((set_value (arg_name d) v (skip_tokens (Suc k) st))\<lparr>ps_pos := ps_pos st + 1\<rparr>)"
| eff_stuck: "ps_pos st < length (pos_args ds) \<Longrightarrow> arg_type (pos_args ds ! ps_pos st) = ArgType_Flag \<Longrightarrow>
     token_effect e ts ds st st"

lemma find_keyword_arg_option: "find_keyword_arg ds f b = Some d \<Longrightarrow> \<not> is_help_flag d \<Longrightarrow> option_of ds d"
  by (auto simp: find_keyword_arg_def option_of_def find_Some_iff)

lemma combined_flags_Continue:
  "combined_flags ds fs st = (Continue st' :: 'w action) \<Longrightarrow>
   \<exists>ns. st' = set_flags ns st \<and> (\<forall>n\<in>set ns. \<exists>d. option_of ds d \<and> arg_name d = n \<and> arg_type d = ArgType_Flag \<and>
     (\<exists>ch\<in>set fs. find_keyword_arg ds [ch] True = Some d))"
proof (induction ds fs st rule: combined_flags.induct)
  case (1 ds st)
  then show ?case
    by (intro exI [of _ "[]"]) (simp add: set_flags_def)
next
  case (2 ds c cs st)
  then obtain d where d: "find_keyword_arg ds [c] True = Some d" "\<not> is_help_flag d" "arg_type d = ArgType_Flag"
    "combined_flags ds cs (set_value (arg_name d) (VBool True) (mark_seen (arg_name d) st)) = (Continue st' :: 'w action)"
    by (auto split: option.splits if_splits)
  with "2.IH" [OF d(1,2)] obtain ns where "st' = set_flags ns (set_value (arg_name d) (VBool True) (mark_seen (arg_name d) st))"
    "\<forall>n\<in>set ns. \<exists>d. option_of ds d \<and> arg_name d = n \<and> arg_type d = ArgType_Flag \<and> (\<exists>ch\<in>set cs. find_keyword_arg ds [ch] True = Some d)"
    by auto
  with d find_keyword_arg_option [OF d(1,2)] show ?case
    by (intro exI [of _ "arg_name d # ns"]) (auto simp: set_flags_def)
qed

lemma dynamic_option_Continue:
  assumes "dynamic_option e ts dyn f st = Continue st'" "consumed ts (ps_index st) 1"
  shows "\<exists>k a. st' = skip_tokens (Suc k) (st\<lparr>ps_dynamic := AList.update f a (ps_dynamic st)\<rparr>) \<and> consumed ts (ps_index st) (Suc k)"
proof (cases "keyword_type dyn")
  case ArgType_Single
  with assms(1) obtain v where v: "ps_index st + 1 < length ts" "parse_token_value e (ts ! (ps_index st + 1)) ArgType_Single False = v" "v \<noteq> VNone"
    "st' = skip_tokens 1 ((skip_tokens 1 st)\<lparr>ps_dynamic := AList.update f \<lparr>arg_val = v, is_dynamic = True\<rparr> (ps_dynamic st)\<rparr>)"
    by (auto simp: dynamic_option_def Let_def skip_tokens_def split: if_splits arg_value.splits)
  with assms(2) parse_token_value_kinds [of e "ts ! (ps_index st + 1)" ArgType_Single False]
  have "consumed ts (ps_index st) (Suc 1)"
    by (simp add: consumed_Suc)
  with v show ?thesis
    by (intro exI [of _ 1] exI [of _ "\<lparr>arg_val = v, is_dynamic = True\<rparr>"]) (simp add: skip_tokens_def)
next
  case ArgType_Multiple
  define vs where "vs = take_values e False (drop (ps_index st + 1) ts)"
  from ArgType_Multiple assms(1) have v: "ps_index st + 1 < length ts"
    "st' = skip_tokens (length vs) ((skip_tokens 1 st)\<lparr>ps_dynamic := AList.update f \<lparr>arg_val = VList vs, is_dynamic = True\<rparr> (ps_dynamic st)\<rparr>)"
    by (auto simp: dynamic_option_def Let_def skip_tokens_def vs_def split: if_splits list.splits)
  with assms(2) take_values_consumed_drop [of "ps_index st + 1" ts e False] have "consumed ts (ps_index st) (Suc (length vs))"
    by (simp add: consumed_Suc vs_def)
  with v show ?thesis
    by (intro exI [of _ "length vs"] exI [of _ "\<lparr>arg_val = VList vs, is_dynamic = True\<rparr>"]) (simp add: skip_tokens_def)
next
  case ArgType_Flag
  with assms(1) show ?thesis
    by (simp add: dynamic_option_def)
qed


lemma flag_option_Continue:
  assumes "flag_option e ts d st = (Continue st' :: 'w action)" "arg_type d = ArgType_Flag" "ps_index st \<le> length ts"
  shows "\<exists>k v. st' = set_value (arg_name d) v (skip_tokens k st) \<and> (v = VBool True \<or> value_at e ts old d (ps_index st) v) \<and> consumed ts (ps_index st) k"
proof -
  define v where "v = (if ps_index st < length ts \<and> \<not> is_flag_token ts (ps_index st)
    then parse_token_value e (ts ! ps_index st) ArgType_Flag False else VNone)"
  have eq: "flag_option e ts d st = (Continue :: _ \<Rightarrow> 'w action) (if v \<noteq> VNone then set_value (arg_name d) v (skip_tokens 1 st)
      else set_value (arg_name d) (VBool True) st)"
    by (simp add: flag_option_def v_def Let_def)
  show ?thesis
  proof (cases "v = VNone")
    case True
    with eq assms show ?thesis
      by (intro exI [of _ 0] exI [of _ "VBool True"]) (auto simp: skip_tokens_def)
  next
    case False
    then have "v = parse_token_value e (ts ! ps_index st) ArgType_Flag False" "ps_index st < length ts"
      by (auto simp: v_def split: if_splits)
    with False eq assms parse_token_value_kinds [of e "ts ! ps_index st" ArgType_Flag False] parse_flag_coerce [of e "ts ! ps_index st" "arg_coerce d"]
    show ?thesis
      by (intro exI [of _ 1] exI [of _ v]) (auto simp: value_at_def consumed_Suc)
  qed
qed

lemma value_option_Continue:
  assumes "value_option e ts d st = (Continue st' :: 'w action)" "arg_type d \<noteq> ArgType_Flag"
  shows "\<exists>k v. st' = set_value (arg_name d) v (skip_tokens (Suc k) st) \<and> value_at e ts (old_values st d) d (ps_index st) v \<and> consumed ts (ps_index st) (Suc k)"
proof -
  define v where "v = parse_token_value e (ts ! ps_index st) (arg_type d) (arg_coerce d)"
  define vs where "vs = take_values e (arg_coerce d) (drop (ps_index st + 1) ts)"
  define old where "old = old_values st d"
  have eq: "(value_option e ts d st :: 'w action) =
     (if ps_index st \<ge> length ts \<or> is_flag_token ts (ps_index st) then fail_plain st (''option '' @ get_display_name d @ '' requires a value.'')
      else if v = VNone then fail_plain st (''invalid value for option '' @ get_display_name d)
      else if arg_type d = ArgType_Single then Continue (set_value (arg_name d) v (skip_tokens 1 st))
      else (case v of VString s \<Rightarrow> Continue (set_value (arg_name d) (VList (old @ s # vs)) (skip_tokens (1 + length vs) st))
        | _ \<Rightarrow> fail_plain st (''internal error: expected string value for multiple option '' @ arg_name d)))"
    unfolding value_option_def Let_def v_def [symmetric] vs_def [symmetric] old_def old_values_def listed_values_def by (cases v) auto
  from assms(1) have i: "ps_index st < length ts" and v: "v \<noteq> VNone"
    by (auto simp: eq split: if_splits)
  have "kind (ts ! ps_index st) \<noteq> TokDoubleMinus"
    using v parse_token_value_kinds by (auto simp: v_def)
  then have c: "consumed ts (ps_index st) (Suc 0)" "consumed ts (ps_index st) (Suc (length vs))"
    using i take_values_consumed_drop [of "ps_index st + 1" ts e "arg_coerce d"] by (auto simp: consumed_Suc vs_def)
  show ?thesis
  proof (cases "arg_type d = ArgType_Single")
    case True
    with assms(1) v i c(1) show ?thesis
      by (intro exI [of _ 0] exI [of _ v]) (auto simp: eq value_at_def v_def split: if_splits)
  next
    case False
    with assms(2) have m: "arg_type d = ArgType_Multiple"
      by (cases "arg_type d") auto
    with assms(1) v obtain s where s: "v = VString s" "st' = set_value (arg_name d) (VList (old @ s # vs)) (skip_tokens (1 + length vs) st)"
      by (auto simp: eq split: if_splits arg_value.splits)
    with m i c(2) show ?thesis
      by (intro exI [of _ "length vs"] exI [of _ "VList (old @ s # vs)"]) (simp add: value_at_def v_def vs_def old_def)
  qed
qed

lemma option_token_Continue:
  assumes "option_token e ts c t st = (Continue st' :: 'w action)" "ps_index st < length ts" "t = ts ! ps_index st" "kind t = TokFlagShort \<or> kind t = TokFlagLong"
  shows "token_effect e ts (cmd_args (info c)) st st'"
proof -
  define f where "f = ref_text (fst t) (snd t)"
  define short where "short = (kind t = TokFlagShort)"
  define ds where "ds = cmd_args (info c)"
  have c1: "consumed ts (ps_index st) 1"
    using assms(2-4) by (auto simp: consumed_def)
  show ?thesis
  proof (cases "short \<and> length f > 1")
    case True
    with assms(1) have "combined_flags ds f (skip_tokens 1 st) = (Continue st' :: 'w action)"
      by (auto simp: option_token_def f_def [symmetric] short_def [symmetric] ds_def)
    from combined_flags_Continue [OF this] obtain ns where ns: "st' = set_flags ns (skip_tokens 1 st)"
      "\<forall>n\<in>set ns. \<exists>d. option_of ds d \<and> arg_name d = n \<and> arg_type d = ArgType_Flag \<and> (\<exists>ch\<in>set f. find_keyword_arg ds [ch] True = Some d)"
      by blast
    then have "\<forall>n\<in>set ns. \<exists>d. option_of ds d \<and> arg_name d = n \<and> arg_type d = ArgType_Flag \<and> option_names ds (ts ! ps_index st) d"
      using True assms(3) by (fastforce simp: option_names_def Let_def f_def short_def)
    with ns(1) c1 show ?thesis
      unfolding ds_def using eff_flags by blast
  next
    case False
    show ?thesis
    proof (cases "find_keyword_arg ds f short")
      case None
      with False assms(1) obtain dyn where "dynamic_option e ts dyn f st = (Continue st' :: 'w action)"
        by (auto simp: option_token_def f_def [symmetric] short_def [symmetric] ds_def Let_def split: option.splits if_splits)
      from dynamic_option_Continue [OF this c1] show ?thesis
        by (auto intro: eff_dynamic)
    next
      case (Some d)
      define st1 where "st1 = mark_seen (arg_name d) (skip_tokens 1 st)"
      from Some False assms(1) have d: "\<not> is_help_flag d"
        "(if arg_type d = ArgType_Flag then flag_option e ts d st1 else value_option e ts d st1) = (Continue st' :: 'w action)"
        by (auto simp: option_token_def f_def [symmetric] short_def [symmetric] ds_def st1_def Let_def split: if_splits)
      have old: "old_values st1 d = old_values st d"
        by (simp add: old_values_def st1_def skip_tokens_def mark_seen_def)
      have "\<exists>k v. st' = set_value (arg_name d) v (skip_tokens k st1) \<and>
          (arg_type d = ArgType_Flag \<and> v = VBool True \<or> value_at e ts (old_values st d) d (ps_index st1) v) \<and> consumed ts (ps_index st1) k"
        using d(2) assms(2) old flag_option_Continue [of e ts d st1 st' "old_values st d"] value_option_Continue [of e ts d st1 st']
        by (cases "arg_type d = ArgType_Flag") (fastforce simp: st1_def)+
      then obtain k v where k: "st' = set_value (arg_name d) v (skip_tokens k st1)"
        "arg_type d = ArgType_Flag \<and> v = VBool True \<or> value_at e ts (old_values st d) d (ps_index st + 1) v" "consumed ts (ps_index st + 1) k"
        by (auto simp: st1_def)
      have n: "option_names ds (ts ! ps_index st) d"
        using Some assms(3,4) by (simp add: option_names_def Let_def f_def short_def)
      have "st' = set_value (arg_name d) v (skip_tokens (Suc k) (mark_seen (arg_name d) st))"
        by (simp add: k(1) st1_def skip_tokens_def mark_seen_def)
      moreover have "consumed ts (ps_index st) (Suc k)"
        using k(3) c1 by (simp add: consumed_Suc)
      ultimately show ?thesis
        using eff_option [OF find_keyword_arg_option [OF Some d(1)] n k(2)] by (simp add: ds_def)
    qed
  qed
qed


lemma positional_token_Continue:
  assumes "positional_token e ts c t st = Continue st'" "ps_index st < length ts" "t = ts ! ps_index st"
  shows "token_effect e ts (cmd_args (info c)) st st'"
proof -
  define ds where "ds = cmd_args (info c)"
  define d where "d = pos_args ds ! ps_pos st"
  define v where "v = parse_token_value e t (arg_type d) (arg_coerce d)"
  define vs where "vs = take_values e (arg_coerce d) (drop (ps_index st + 1) ts)"
  have eq: "positional_token e ts c t st =
     (if ps_pos st < length (pos_args ds) then
        (if v = VNone then fail_plain st (''invalid value for positional argument '' @ quoted_name (arg_name d))
         else (case arg_type d of
             ArgType_Single \<Rightarrow> Continue ((set_value (arg_name d) v (skip_tokens 1 st))\<lparr>ps_pos := ps_pos st + 1\<rparr>)
           | ArgType_Multiple \<Rightarrow> (case v of
               VString s \<Rightarrow> Continue ((set_value (arg_name d) (VList (s # vs)) (skip_tokens (1 + length vs) st))\<lparr>ps_pos := ps_pos st + 1\<rparr>)
             | _ \<Rightarrow> fail_plain st (''internal error: expected string value for multiple positional argument '' @ arg_name d))
           | ArgType_Flag \<Rightarrow> Continue st))
      else fail_plain st (''unexpected argument: '' @ print_src e t))"
    unfolding positional_token_def Let_def ds_def [symmetric] d_def [symmetric] v_def [symmetric] vs_def [symmetric]
    by (cases v) (auto split: arg_type.splits)
  from assms(1) have p: "ps_pos st < length (pos_args ds)" and v: "v \<noteq> VNone"
    by (auto simp: eq split: if_splits)
  have "kind (ts ! ps_index st) \<noteq> TokDoubleMinus"
    using v assms(3) parse_token_value_kinds by (auto simp: v_def)
  then have c: "consumed ts (ps_index st) (Suc 0)" "consumed ts (ps_index st) (Suc (length vs))"
    using assms(2) take_values_consumed_drop [of "ps_index st + 1" ts e "arg_coerce d"] by (auto simp: consumed_Suc vs_def)
  show ?thesis
  proof (cases "arg_type d")
    case ArgType_Flag
    with assms(1) p v show ?thesis
      by (auto simp: eq ds_def d_def intro: eff_stuck)
  next
    case ArgType_Single
    with v have "value_at e ts [] d (ps_index st) v"
      using assms(2,3) by (simp add: v_def value_at_def)
    with assms(1) p v c ArgType_Single show ?thesis
      using eff_positional [of st ds d e ts v 0] by (simp add: eq ds_def d_def)
  next
    case ArgType_Multiple
    with assms(1) p v obtain s where s: "v = VString s" "st' = (set_value (arg_name d) (VList (s # vs)) (skip_tokens (1 + length vs) st))\<lparr>ps_pos := ps_pos st + 1\<rparr>"
      by (auto simp: eq split: arg_value.splits)
    have "value_at e ts [] d (ps_index st) (VList (s # vs))"
      using s(1) assms(2,3) by (simp add: value_at_def v_def vs_def ArgType_Multiple)
    with s p c show ?thesis
      using eff_positional [of st ds d e ts "VList (s # vs)" "length vs"] by (simp add: ds_def d_def)
  qed
qed

text \<open>Only the delimiter ends the loop, and only a word hands over to a subcommand.\<close>

definition stays :: "'w action \<Rightarrow> bool" where
  "stays a \<longleftrightarrow> (case a of Break st \<Rightarrow> False | Delegate i s \<Rightarrow> False | _ \<Rightarrow> True)"

lemma stays_simps [simp]:
  "stays (Continue st)" "stays (Fail st m t)" "stays (Help st)" "stays (fail_plain st m)" "\<not> stays (Break st)" "\<not> stays (Delegate i s)"
  by (simp_all add: stays_def fail_plain_def)

lemma combined_flags_stays [simp]: "stays (combined_flags ds fs st)"
  by (induction ds fs st rule: combined_flags.induct) (auto split: option.splits)

lemma dynamic_option_stays [simp]: "stays (dynamic_option e ts dyn f st)"
  by (cases "keyword_type dyn") (auto simp: dynamic_option_def Let_def split: arg_value.splits list.splits)

lemma flag_option_stays [simp]: "stays (flag_option e ts d st)"
  by (simp add: flag_option_def Let_def)

lemma value_option_stays [simp]: "stays (value_option e ts d st)"
  by (cases "parse_token_value e (ts ! ps_index st) (arg_type d) (arg_coerce d)") (auto simp: value_option_def Let_def)

lemma option_token_stays [simp]: "stays (option_token e ts c t st)"
  by (cases "find_keyword_arg (cmd_args (info c)) (ref_text (fst t) (snd t)) (kind t = TokFlagShort)")
    (auto simp: option_token_def Let_def split: option.split)

lemma positional_token_stays [simp]: "stays (positional_token e ts c t st)"
  by (auto simp: positional_token_def Let_def split: arg_value.split arg_type.split)

lemma not_Continue [simp]:
  "option_token e ts c t st \<noteq> Break st'" "option_token e ts c t st \<noteq> Delegate i s"
  "positional_token e ts c t st \<noteq> Break st'" "positional_token e ts c t st \<noteq> Delegate i s"
  using option_token_stays [of e ts c t st] positional_token_stays [of e ts c t st] by (auto simp: stays_def split: action.splits)

lemma parse_step_Continue:
  assumes "parse_step e ts c st = Continue st'" "ps_index st < length ts"
  shows "token_effect e ts (cmd_args (info c)) st st'"
  using assms option_token_Continue [of e ts c _ st st'] positional_token_Continue [of e ts c _ st st']
  by (auto simp: parse_step_def word_token_def Let_def passthrough_def split: token_kind.splits list.splits if_splits)

lemma parse_step_Break:
  assumes "parse_step e ts c st = Break st'"
  shows "kind (ts ! ps_index st) = TokDoubleMinus \<and>
    st' = st\<lparr>ps_pass := ps_pass st @ map (print_src e) (drop (ps_index st + 1) ts), ps_index := length ts\<rparr>"
  using assms
  by (auto simp: parse_step_def word_token_def Let_def passthrough_def split: token_kind.splits list.splits if_splits)

lemma matched_subcommands_mem: "s \<in> set (matched_subcommands c w) \<Longrightarrow> \<exists>n. (n, s) \<in> set (subcommands c)"
  by (auto simp: matched_subcommands_def split: option.splits dest: map_of_SomeD)

lemma parse_step_Delegate:
  assumes "parse_step e ts c st = Delegate i s"
  shows "i = ps_index st + 1 \<and> kind (ts ! ps_index st) = TokId \<and> (\<exists>n. (n, s) \<in> set (subcommands c))"
  using assms matched_subcommands_mem [of s c "ref_text (fst (ts ! ps_index st)) (snd (ts ! ps_index st))"]
  by (auto simp: parse_step_def word_token_def Let_def passthrough_def split: token_kind.splits list.splits if_splits)


section \<open>The loop ends\<close>

fun positionals_ok :: "'w command \<Rightarrow> bool" where
  "positionals_ok (Command i cs) = (list_all (\<lambda>d. arg_positional d \<longrightarrow> arg_type d \<noteq> ArgType_Flag) (cmd_args i) \<and>
     list_all (\<lambda>p. positionals_ok (snd p)) cs)"

lemma positionals_ok_sub: "positionals_ok c \<Longrightarrow> (n, s) \<in> set (subcommands c) \<Longrightarrow> positionals_ok s"
  by (cases c) (auto simp: list_all_iff)

lemma positionals_ok_type: "positionals_ok c \<Longrightarrow> k < length (pos_args (cmd_args (info c))) \<Longrightarrow>
    arg_type (pos_args (cmd_args (info c)) ! k) \<noteq> ArgType_Flag"
  using nth_mem [of k "pos_args (cmd_args (info c))"] by (cases c) (auto simp: pos_args_def list_all_iff)

lemma set_flags_fields [simp]:
  "ps_index (set_flags ns st) = ps_index st" "ps_pos (set_flags ns st) = ps_pos st" "ps_pass (set_flags ns st) = ps_pass st"
  "ps_dynamic (set_flags ns st) = ps_dynamic st"
  by (induction ns arbitrary: st) (auto simp: set_flags_def state_defs)

lemma token_effect_index:
  assumes "token_effect e ts ds st st'"
  shows "ps_index st < ps_index st' \<or> st' = st \<and> (\<exists>k<length (pos_args ds). arg_type (pos_args ds ! k) = ArgType_Flag)"
  using assms by cases (auto simp: skip_tokens_def mark_seen_def set_value_def)

lemma token_effect_consumed:
  assumes "token_effect e ts ds st st'" "ps_index st < length ts"
  shows "\<exists>k. ps_index st' = ps_index st + k \<and> consumed ts (ps_index st) k"
  using assms
proof cases
  case (eff_flags ns)
  then show ?thesis
    by (intro exI [of _ 1]) simp
next
  case eff_stuck
  with assms(2) show ?thesis
    by (intro exI [of _ 0]) simp
qed (auto simp: skip_tokens_def mark_seen_def set_value_def)

lemma parse_loop_ends: "positionals_ok c \<Longrightarrow> parse_loop e ts c prefix st w \<noteq> None"
proof (induction "length ts - ps_index st" arbitrary: c prefix st rule: less_induct)
  case less
  show ?case
  proof (cases "ps_index st \<ge> length ts")
    case False
    show ?thesis
    proof (cases "parse_step e ts c st")
      case (Continue st')
      have "ps_index st < ps_index st'"
        using token_effect_index [OF parse_step_Continue [OF Continue]] False positionals_ok_type [OF less.prems] by auto
      with Continue False less show ?thesis
        by (simp add: parse_loop.simps [of e ts c prefix st] del: not_None_eq)
    next
      case (Delegate j s)
      with parse_step_Delegate [OF Delegate] less.prems have "j = ps_index st + 1" "positionals_ok s"
        by (auto intro: positionals_ok_sub)
      with Delegate False less(1) [of "start_state j (cmd_args (info s))" s] show ?thesis
        by (simp add: parse_loop.simps [of e ts c prefix st] start_state_def del: not_None_eq)
    qed (use False in \<open>simp_all add: parse_loop.simps [of e ts c prefix st] del: not_None_eq\<close>)
  qed (simp add: parse_loop.simps [of e ts c prefix st] del: not_None_eq)
qed

lemma parses_end:
  assumes "positionals_ok root"
  shows "parse_argv e root argv w \<noteq> None \<and> parse_line e root line w \<noteq> None"
proof -
  have "parse_command e ts root i prefix w \<noteq> None" for ts i prefix
    using parse_loop_ends [OF assms] by (simp add: parse_command_def del: not_None_eq)
  then show ?thesis
    by (simp add: parse_argv_def parse_line_def Let_def del: not_None_eq split: sum.split)
qed

text \<open>C24: When no positional argument of the command tree is a flag, parsing ends on every command line,
  given as the elements of \<open>argv\<close> or as one string.\<close>

theorem parsing_ends:
  assumes "positionals_ok root"
  shows "parse_argv e root argv w \<noteq> None \<and> parse_line e root line w \<noteq> None"
  using assms by (rule parses_end)

text \<open>A positional argument that is a flag is never counted as taken.\<close>

lemma parse_loop_stuck:
  fixes c :: "'a command"
  assumes "parse_step e ts c st = Continue st" "ps_index st < length ts"
  shows "parse_loop e ts c prefix st w = None"
proof -
  have "\<not> (e' = e \<and> ts' = ts \<and> c' = c \<and> s' = st)" if "parse_loop e' ts' c' p' s' w' = Some y" for e' ts' c' p' s' w' y
    using _ that
  proof (rule parse_loop.raw_induct)
    fix f e' ts' c' p' s' w' and y :: "'a parse_outcome"
    assume IH: "\<And>e' ts' c' p' s' w' y. f e' ts' c' p' s' w' = Some y \<Longrightarrow> \<not> (e' = e \<and> ts' = ts \<and> c' = c \<and> s' = st)"
      and y: "(if length ts' \<le> ps_index s' then Some (finish e' c' p' s' w')
        else (case parse_step e' ts' c' s' of
            Continue st' \<Rightarrow> f e' ts' c' p' st' w'
          | Break st' \<Rightarrow> Some (finish e' c' p' st' w')
          | Fail st' msg tail \<Rightarrow> Some (fail_with e' c' p' st' msg tail w')
          | Help st' \<Rightarrow> Some (help_with e' c' p' st' w')
          | Delegate i s \<Rightarrow> f e' ts' s (p' @ cmd_name (info c') @ '' '') (start_state i (cmd_args (info s))) w')) = Some y"
    show "\<not> (e' = e \<and> ts' = ts \<and> c' = c \<and> s' = st)"
    proof
      assume "e' = e \<and> ts' = ts \<and> c' = c \<and> s' = st"
      with y assms have "f e ts c p' st w' = Some y"
        by simp
      with IH show False
        by blast
    qed
  qed
  then show ?thesis
    by fastforce
qed

text \<open>What holds of the state before every token holds when the loop is left.\<close>

definition parse_exit :: "cli_env \<Rightarrow> src_token list \<Rightarrow> 'w command \<Rightarrow> string \<Rightarrow> parse_state \<Rightarrow> 'w \<Rightarrow> 'w parse_outcome \<Rightarrow> bool" where
  "parse_exit e ts c prefix st w out \<longleftrightarrow>
     ps_index st \<ge> length ts \<and> out = finish e c prefix st w \<or>
     ps_index st < length ts \<and> kind (ts ! ps_index st) = TokDoubleMinus \<and>
       out = finish e c prefix (st\<lparr>ps_pass := ps_pass st @ map (print_src e) (drop (ps_index st + 1) ts), ps_index := length ts\<rparr>) w \<or>
     (\<exists>r ls i. out = (Ok r, ls, i, w) \<and> status r \<noteq> ParserStatus_Success)"

lemma parse_loop_rule:
  assumes out: "parse_loop e ts c prefix st w = Some out" and start: "I c prefix st"
    and step: "\<And>c prefix st st'. I c prefix st \<Longrightarrow> ps_index st < length ts \<Longrightarrow> token_effect e ts (cmd_args (info c)) st st' \<Longrightarrow> I c prefix st'"
    and sub: "\<And>c prefix st n s. I c prefix st \<Longrightarrow> ps_index st < length ts \<Longrightarrow> kind (ts ! ps_index st) = TokId \<Longrightarrow> (n, s) \<in> set (subcommands c) \<Longrightarrow>
      I s (prefix @ cmd_name (info c) @ '' '') (start_state (ps_index st + 1) (cmd_args (info s)))"
  shows "\<exists>c' prefix' st'. I c' prefix' st' \<and> parse_exit e ts c' prefix' st' w out"
proof -
  have "e' = e \<longrightarrow> ts' = ts \<longrightarrow> w' = w \<longrightarrow> I c' p' s' \<longrightarrow> (\<exists>c'' p'' s''. I c'' p'' s'' \<and> parse_exit e ts c'' p'' s'' w y)"
    if "parse_loop e' ts' c' p' s' w' = Some y" for e' ts' c' p' s' w' y
    using _ that
  proof (rule parse_loop.raw_induct)
    fix f e' ts' c' p' s' w' y
    assume IH: "\<And>e' ts' c' p' s' w' y. f e' ts' c' p' s' w' = Some y \<Longrightarrow>
        e' = e \<longrightarrow> ts' = ts \<longrightarrow> w' = w \<longrightarrow> I c' p' s' \<longrightarrow> (\<exists>c'' p'' s''. I c'' p'' s'' \<and> parse_exit e ts c'' p'' s'' w y)"
      and y: "(if length ts' \<le> ps_index s' then Some (finish e' c' p' s' w')
        else (case parse_step e' ts' c' s' of
            Continue st' \<Rightarrow> f e' ts' c' p' st' w'
          | Break st' \<Rightarrow> Some (finish e' c' p' st' w')
          | Fail st' msg tail \<Rightarrow> Some (fail_with e' c' p' st' msg tail w')
          | Help st' \<Rightarrow> Some (help_with e' c' p' st' w')
          | Delegate i s \<Rightarrow> f e' ts' s (p' @ cmd_name (info c') @ '' '') (start_state i (cmd_args (info s))) w')) = Some y"
    show "e' = e \<longrightarrow> ts' = ts \<longrightarrow> w' = w \<longrightarrow> I c' p' s' \<longrightarrow> (\<exists>c'' p'' s''. I c'' p'' s'' \<and> parse_exit e ts c'' p'' s'' w y)"
    proof (intro impI)
      assume eqs: "e' = e" "ts' = ts" "w' = w" and inv: "I c' p' s'"
      show "\<exists>c'' p'' s''. I c'' p'' s'' \<and> parse_exit e ts c'' p'' s'' w y"
      proof (cases "length ts \<le> ps_index s'")
        case True
        with y eqs inv show ?thesis
          by (intro exI [of _ c'] exI [of _ p'] exI [of _ s']) (simp add: parse_exit_def)
      next
        case False
        show ?thesis
        proof (cases "parse_step e ts c' s'")
          case (Continue st')
          with False step inv parse_step_Continue [OF Continue] have "I c' p' st'"
            by simp
          with y eqs False Continue IH show ?thesis
            by simp
        next
          case (Break st')
          with y eqs inv False parse_step_Break [OF Break] show ?thesis
            by (intro exI [of _ c'] exI [of _ p'] exI [of _ s']) (simp add: parse_exit_def)
        next
          case (Delegate i s)
          with False sub inv parse_step_Delegate [OF Delegate] have "I s (p' @ cmd_name (info c') @ '' '') (start_state i (cmd_args (info s)))"
            by auto
          with y eqs False Delegate IH show ?thesis
            by simp
        next
          case (Fail st' msg tail)
          with y eqs inv False show ?thesis
            by (intro exI [of _ c'] exI [of _ p'] exI [of _ s']) (auto simp: parse_exit_def fail_with_def mk_result_def)
        next
          case (Help st')
          with y eqs inv False show ?thesis
            by (intro exI [of _ c'] exI [of _ p'] exI [of _ s']) (auto simp: parse_exit_def help_with_def mk_result_def)
        qed
      qed
    qed
  qed
  with out start show ?thesis
    by blast
qed

end
