(* ===== verification/ParserResult.thy ===== *)
theory ParserResult
  imports ParserStep
begin

text \<open>
  What a successful parse says of the result and of the handler's call: the arguments and their
  types, the arguments passed through, and the flags whose default is true.
\<close>

section \<open>The arguments of a successful parse\<close>

text \<open>The texts that an argument with several values may list: those of its default and those of tokens.\<close>

definition known_texts :: "cli_env \<Rightarrow> src_token list \<Rightarrow> argument_def \<Rightarrow> string set" where
  "known_texts e ts d = set (listed_values (Some (arg_default d))) \<union>
     {s. \<exists>t\<in>set ts. parse_token_value e t ArgType_Multiple (arg_coerce d) = VString s}"

text \<open>The value of an option comes from a token that names it: it is true for a flag, or the value of the next token.\<close>

definition option_value :: "cli_env \<Rightarrow> src_token list \<Rightarrow> argument_def list \<Rightarrow> argument_def \<Rightarrow> arg_value \<Rightarrow> bool" where
  "option_value e ts ds d v \<longleftrightarrow> (\<exists>k<length ts. option_names ds (ts ! k) d \<and>
     (arg_type d = ArgType_Flag \<and> v = VBool True \<or> (\<exists>old. value_at e ts old d (k + 1) v \<and> set old \<subseteq> known_texts e ts d)))"

text \<open>The positional arguments have, in their order, the values of tokens that follow one another, as many as there
  are indices; the others have their defaults.\<close>

definition positional_values :: "cli_env \<Rightarrow> src_token list \<Rightarrow> argument_def list \<Rightarrow> argument_map \<Rightarrow> nat list \<Rightarrow> bool" where
  "positional_values e ts ds m ks \<longleftrightarrow> length ks \<le> length (pos_args ds) \<and> sorted_wrt (<) ks \<and>
     (\<forall>n<length (pos_args ds). let d = pos_args ds ! n in
        if n < length ks then \<exists>v. map_of m (arg_name d) = Some (mk_arg v) \<and> value_at e ts [] d (ks ! n) v
        else map_of m (arg_name d) = Some (arg_default d))"

definition opts_inv :: "cli_env \<Rightarrow> src_token list \<Rightarrow> argument_def list \<Rightarrow> parse_state \<Rightarrow> bool" where
  "opts_inv e ts ds st \<longleftrightarrow> (\<forall>d. option_of ds d \<longrightarrow>
     (if arg_name d \<in> set (ps_seen st) then \<exists>v. map_of (ps_values st) (arg_name d) = Some (mk_arg v) \<and> option_value e ts ds d v
      else map_of (ps_values st) (arg_name d) = Some (arg_default d)))"

definition pos_inv :: "cli_env \<Rightarrow> src_token list \<Rightarrow> argument_def list \<Rightarrow> parse_state \<Rightarrow> bool" where
  "pos_inv e ts ds st \<longleftrightarrow> (\<exists>ks. positional_values e ts ds (ps_values st) ks \<and> length ks = ps_pos st \<and> (\<forall>k\<in>set ks. k < ps_index st))"

definition args_inv :: "cli_env \<Rightarrow> src_token list \<Rightarrow> argument_def list \<Rightarrow> parse_state \<Rightarrow> bool" where
  "args_inv e ts ds st \<longleftrightarrow> opts_inv e ts ds st \<and> pos_inv e ts ds st"

lemma seen_simps [simp]:
  "ps_seen (set_value n v st) = ps_seen st" "ps_seen (skip_tokens k st) = ps_seen st"
  "set (ps_seen (mark_seen n st)) = insert n (set (ps_seen st))"
  "ps_pos (set_value n v st) = ps_pos st" "ps_pos (skip_tokens k st) = ps_pos st" "ps_pos (mark_seen n st) = ps_pos st"
  "ps_values (skip_tokens k st) = ps_values st" "ps_values (mark_seen n st) = ps_values st"
  "map_of (ps_values (set_value n v st)) = (map_of (ps_values st))(n \<mapsto> mk_arg v)"
  by (simp_all add: state_defs map_of_update)

lemma same_name: "distinct (map arg_name ds) \<Longrightarrow> d \<in> set ds \<Longrightarrow> d' \<in> set ds \<Longrightarrow> arg_name d = arg_name d' \<longleftrightarrow> d = d'"
  by (auto simp: distinct_map inj_on_eq_iff)

lemma pos_args_mem: "n < length (pos_args ds) \<Longrightarrow> pos_args ds ! n \<in> set ds \<and> arg_positional (pos_args ds ! n) \<and> \<not> is_help_flag (pos_args ds ! n)"
  using nth_mem [of n "pos_args ds"] by (auto simp: pos_args_def)

lemma pos_args_name:
  assumes "distinct (map arg_name ds)" "n < length (pos_args ds)" "k < length (pos_args ds)"
  shows "arg_name (pos_args ds ! n) = arg_name (pos_args ds ! k) \<longleftrightarrow> n = k"
proof -
  have "distinct (map arg_name (pos_args ds))"
    using assms(1) by (simp add: pos_args_def distinct_map_filter)
  then show ?thesis
    using nth_eq_iff_index_eq [of "map arg_name (pos_args ds)" n k] assms(2,3) by simp
qed

lemma option_not_positional:
  "distinct (map arg_name ds) \<Longrightarrow> option_of ds d \<Longrightarrow> n < length (pos_args ds) \<Longrightarrow> arg_name (pos_args ds ! n) \<noteq> arg_name d"
  using same_name [of ds "pos_args ds ! n" d] pos_args_mem [of n ds] by (auto simp: option_of_def)

text \<open>What the texts of a value are.\<close>

lemma take_values_from: "s \<in> set (take_values e co ts) \<Longrightarrow> \<exists>t\<in>set ts. parse_token_value e t ArgType_Multiple co = VString s"
  by (induction ts) (auto split: if_splits arg_value.splits)

lemma value_at_texts:
  assumes "value_at e ts old d k v" "set old \<subseteq> known_texts e ts d"
  shows "set (listed_values (Some (mk_arg v))) \<subseteq> known_texts e ts d"
proof (cases "arg_type d = ArgType_Multiple")
  case True
  then obtain s where s: "parse_token_value e (ts ! k) ArgType_Multiple (arg_coerce d) = VString s" "k < length ts"
    "v = VList (old @ s # take_values e (arg_coerce d) (drop (k + 1) ts))"
    using assms(1) by (auto simp: value_at_def)
  then have "s \<in> known_texts e ts d"
    by (auto simp: known_texts_def)
  moreover have "x \<in> known_texts e ts d" if "x \<in> set (take_values e (arg_coerce d) (drop (k + 1) ts))" for x
    using take_values_from [OF that] in_set_dropD by (fastforce simp: known_texts_def)
  ultimately show ?thesis
    using assms(2) s(3) by (auto simp: listed_values_def mk_arg_def)
next
  case False
  then have "value_ok ArgType_Single v \<or> value_ok ArgType_Flag v"
    using value_at_ok [OF assms(1)] by (cases "arg_type d") auto
  then show ?thesis
    by (cases v) (auto simp: value_ok_def listed_values_def mk_arg_def)
qed

lemma option_value_texts: "option_value e ts ds d v \<Longrightarrow> set (listed_values (Some (mk_arg v))) \<subseteq> known_texts e ts d"
  using value_at_texts by (fastforce simp: option_value_def listed_values_def mk_arg_def)

lemma opts_inv_seen:
  "opts_inv e ts ds st \<Longrightarrow> option_of ds d \<Longrightarrow> arg_name d \<in> set (ps_seen st) \<Longrightarrow>
     \<exists>v. map_of (ps_values st) (arg_name d) = Some (mk_arg v) \<and> option_value e ts ds d v"
  "opts_inv e ts ds st \<Longrightarrow> option_of ds d \<Longrightarrow> arg_name d \<notin> set (ps_seen st) \<Longrightarrow> map_of (ps_values st) (arg_name d) = Some (arg_default d)"
  by (simp_all add: opts_inv_def)

lemma opts_invI:
  "(\<And>d. option_of ds d \<Longrightarrow> arg_name d \<in> set (ps_seen st) \<Longrightarrow> \<exists>v. map_of (ps_values st) (arg_name d) = Some (mk_arg v) \<and> option_value e ts ds d v) \<Longrightarrow>
   (\<And>d. option_of ds d \<Longrightarrow> arg_name d \<notin> set (ps_seen st) \<Longrightarrow> map_of (ps_values st) (arg_name d) = Some (arg_default d)) \<Longrightarrow> opts_inv e ts ds st"
  by (simp add: opts_inv_def)

lemma old_values_known:
  assumes "opts_inv e ts ds st" "option_of ds d"
  shows "set (old_values st d) \<subseteq> known_texts e ts d"
proof (cases "arg_name d \<in> set (ps_seen st)")
  case True
  then obtain v where "map_of (ps_values st) (arg_name d) = Some (mk_arg v)" "option_value e ts ds d v"
    using opts_inv_seen(1) [OF assms] by auto
  then show ?thesis
    using option_value_texts [of e ts ds d v] by (simp add: old_values_def)
next
  case False
  then have "map_of (ps_values st) (arg_name d) = Some (arg_default d)"
    using opts_inv_seen(2) [OF assms] by auto
  then show ?thesis
    by (auto simp: old_values_def known_texts_def)
qed

text \<open>The steps keep what is known of the values.\<close>

lemma pos_inv_step:
  assumes "pos_inv e ts ds st" "ps_pos st' = ps_pos st" "ps_index st \<le> ps_index st'"
    "\<And>n. n < length (pos_args ds) \<Longrightarrow> map_of (ps_values st') (arg_name (pos_args ds ! n)) = map_of (ps_values st) (arg_name (pos_args ds ! n))"
  shows "pos_inv e ts ds st'"
proof -
  obtain ks where ks: "positional_values e ts ds (ps_values st) ks" "length ks = ps_pos st" "\<forall>k\<in>set ks. k < ps_index st"
    using assms(1) by (auto simp: pos_inv_def)
  have "positional_values e ts ds (ps_values st') ks"
    using ks(1) assms(4) by (simp add: positional_values_def Let_def)
  moreover have "length ks = ps_pos st'" "\<forall>k\<in>set ks. k < ps_index st'"
    using ks(2,3) assms(2,3) by auto
  ultimately show ?thesis
    by (auto simp: pos_inv_def)
qed

lemma args_inv_option:
  assumes "distinct (map arg_name ds)" "args_inv e ts ds st" "option_of ds d" "option_value e ts ds d v"
  shows "args_inv e ts ds (set_value (arg_name d) v (mark_seen (arg_name d) st))"
proof -
  have inv: "opts_inv e ts ds st"
    using assms(2) by (simp add: args_inv_def)
  have "opts_inv e ts ds (set_value (arg_name d) v (mark_seen (arg_name d) st))"
  proof (rule opts_invI)
    fix x assume x: "option_of ds x" and seen: "arg_name x \<in> set (ps_seen (set_value (arg_name d) v (mark_seen (arg_name d) st)))"
    show "\<exists>u. map_of (ps_values (set_value (arg_name d) v (mark_seen (arg_name d) st))) (arg_name x) = Some (mk_arg u) \<and> option_value e ts ds x u"
    proof (cases "x = d")
      case False
      then have "arg_name x \<noteq> arg_name d"
        using same_name [OF assms(1), of x d] x assms(3) by (simp add: option_of_def)
      then show ?thesis
        using opts_inv_seen(1) [OF inv x] seen by simp
    next
      case True
      then show ?thesis
        using assms(4) by (intro exI [of _ v]) simp
    qed
  next
    fix x assume "option_of ds x" "arg_name x \<notin> set (ps_seen (set_value (arg_name d) v (mark_seen (arg_name d) st)))"
    then show "map_of (ps_values (set_value (arg_name d) v (mark_seen (arg_name d) st))) (arg_name x) = Some (arg_default x)"
      using opts_inv_seen(2) [OF inv] by simp
  qed
  moreover have "pos_inv e ts ds (set_value (arg_name d) v (mark_seen (arg_name d) st))"
    by (rule pos_inv_step [of e ts ds st]) (use assms(2) option_not_positional [OF assms(1,3)] in \<open>auto simp: args_inv_def\<close>)
  ultimately show ?thesis
    by (simp add: args_inv_def)
qed

lemma args_inv_skip: "args_inv e ts ds st \<Longrightarrow> args_inv e ts ds (skip_tokens k st)"
  using pos_inv_step [of e ts ds st "skip_tokens k st"] by (simp add: args_inv_def opts_inv_def skip_tokens_def)

lemma args_inv_set_flags:
  assumes "distinct (map arg_name ds)" "args_inv e ts ds st" "i < length ts"
    "\<forall>n\<in>set ns. \<exists>d. option_of ds d \<and> arg_name d = n \<and> arg_type d = ArgType_Flag \<and> option_names ds (ts ! i) d"
  shows "args_inv e ts ds (set_flags ns st)"
  using assms(2,4)
proof (induction ns arbitrary: st)
  case (Cons n ns)
  then obtain d where d: "option_of ds d" "arg_name d = n" "arg_type d = ArgType_Flag" "option_names ds (ts ! i) d"
    by auto
  then have "option_value e ts ds d (VBool True)"
    using assms(3) by (auto simp: option_value_def)
  then have "args_inv e ts ds (set_value n (VBool True) (mark_seen n st))"
    using args_inv_option [OF assms(1) Cons.prems(1) d(1)] d(2) by blast
  with Cons show ?case
    by (simp add: set_flags_def)
qed (simp add: set_flags_def)

lemma args_inv_positional:
  assumes dist: "distinct (map arg_name ds)" and inv: "args_inv e ts ds st" and k: "ps_pos st < length (pos_args ds)"
    and d: "d = pos_args ds ! ps_pos st" and v: "value_at e ts [] d (ps_index st) v"
  shows "args_inv e ts ds ((set_value (arg_name d) v (skip_tokens (Suc j) st))\<lparr>ps_pos := ps_pos st + 1\<rparr>)"
    (is "args_inv e ts ds ?st")
proof -
  obtain ks where ks: "positional_values e ts ds (ps_values st) ks" "length ks = ps_pos st" "\<forall>k\<in>set ks. k < ps_index st"
    using inv by (auto simp: args_inv_def pos_inv_def)
  have m: "map_of (ps_values ?st) = (map_of (ps_values st))(arg_name d \<mapsto> mk_arg v)"
    by (simp add: state_defs map_of_update)
  have "positional_values e ts ds (ps_values ?st) (ks @ [ps_index st])"
    unfolding positional_values_def Let_def
  proof (intro conjI allI impI)
    show "length (ks @ [ps_index st]) \<le> length (pos_args ds)" "sorted_wrt (<) (ks @ [ps_index st])"
      using k ks by (auto simp: sorted_wrt_append positional_values_def)
    fix n assume n: "n < length (pos_args ds)"
    show "if n < length (ks @ [ps_index st])
      then \<exists>v. map_of (ps_values ?st) (arg_name (pos_args ds ! n)) = Some (mk_arg v) \<and> value_at e ts [] (pos_args ds ! n) ((ks @ [ps_index st]) ! n) v
      else map_of (ps_values ?st) (arg_name (pos_args ds ! n)) = Some (arg_default (pos_args ds ! n))"
    proof (cases "n = ps_pos st")
      case True
      then show ?thesis
        unfolding m using ks(2) d v by (auto simp: nth_append)
    next
      case False
      then have "map_of (ps_values ?st) (arg_name (pos_args ds ! n)) = map_of (ps_values st) (arg_name (pos_args ds ! n))"
        unfolding m using pos_args_name [OF dist n k] d by simp
      then show ?thesis
        using ks(1,2) n False by (auto simp: positional_values_def Let_def nth_append split: if_splits)
    qed
  qed
  then have "pos_inv e ts ds ?st"
    using ks(2,3) by (fastforce simp: pos_inv_def skip_tokens_def set_value_def intro!: exI [of _ "ks @ [ps_index st]"])
  moreover have "opts_inv e ts ds ?st"
  proof (rule opts_invI)
    fix x assume x: "option_of ds x" and seen: "arg_name x \<in> set (ps_seen ?st)"
    show "\<exists>u. map_of (ps_values ?st) (arg_name x) = Some (mk_arg u) \<and> option_value e ts ds x u"
      unfolding m using opts_inv_seen(1) [OF _ x] inv seen option_not_positional [OF dist x k] d by (auto simp: args_inv_def)
  next
    fix x assume x: "option_of ds x" and seen: "arg_name x \<notin> set (ps_seen ?st)"
    show "map_of (ps_values ?st) (arg_name x) = Some (arg_default x)"
      unfolding m using opts_inv_seen(2) [OF _ x] inv seen option_not_positional [OF dist x k] d by (auto simp: args_inv_def)
  qed
  ultimately show ?thesis
    by (simp add: args_inv_def)
qed

lemma args_inv_effect:
  assumes "distinct (map arg_name ds)" "token_effect e ts ds st st'" "args_inv e ts ds st"
  shows "args_inv e ts ds st'"
  using assms(2)
proof cases
  case (eff_flags ns)
  then have "ps_index st < length ts"
    by (simp add: consumed_def)
  with eff_flags assms args_inv_skip show ?thesis
    using args_inv_set_flags [of ds e ts "skip_tokens 1 st" "ps_index st" ns] by blast
next
  case (eff_dynamic k n a)
  have "args_inv e ts ds (st\<lparr>ps_dynamic := AList.update n a (ps_dynamic st)\<rparr>)"
    using assms(3) by (simp add: args_inv_def opts_inv_def pos_inv_def)
  then show ?thesis
    unfolding eff_dynamic by (rule args_inv_skip)
next
  case (eff_option d v k)
  then have eq: "st' = skip_tokens (Suc k) (set_value (arg_name d) v (mark_seen (arg_name d) st))"
    by (simp add: state_defs)
  have "set (old_values st d) \<subseteq> known_texts e ts d"
    using old_values_known [of e ts ds st d] assms(3) eff_option(2) by (simp add: args_inv_def)
  then have "option_value e ts ds d v"
    using eff_option(3-5) unfolding option_value_def consumed_Suc by blast
  then show ?thesis
    unfolding eq using args_inv_option [OF assms(1,3) eff_option(2)] args_inv_skip by blast
next
  case (eff_positional d v k)
  with assms args_inv_positional show ?thesis
    by blast
qed (use assms in simp)

lemma start_values:
  "distinct (map arg_name ds) \<Longrightarrow> d \<in> set ds \<Longrightarrow> \<not> is_help_flag d \<Longrightarrow>
   map_of (fold (\<lambda>d m. if is_help_flag d then m else AList.update (arg_name d) (arg_default d) m) ds m) (arg_name d) = Some (arg_default d)"
proof (induction ds arbitrary: m)
  case (Cons x ds)
  have other: "map_of (fold (\<lambda>d m. if is_help_flag d then m else AList.update (arg_name d) (arg_default d) m) ds m) n = map_of m n"
    if "n \<notin> arg_name ` set ds" for m n
    using that by (induction ds arbitrary: m) (auto simp: map_of_update)
  with Cons show ?case
    by (cases "x = d") (auto simp: map_of_update)
qed simp

lemma args_inv_start:
  assumes "distinct (map arg_name ds)"
  shows "args_inv e ts ds (start_state i ds)"
proof -
  have "positional_values e ts ds (ps_values (start_state i ds)) []"
    using start_values [OF assms] pos_args_mem [of _ ds] by (simp add: positional_values_def start_state_def Let_def)
  then show ?thesis
    using start_values [OF assms] by (auto simp: args_inv_def opts_inv_def pos_inv_def start_state_def option_of_def)
qed

fun names_ok :: "'w command \<Rightarrow> bool" where
  "names_ok (Command i cs) = (distinct (map arg_name (cmd_args i)) \<and> list_all (\<lambda>p. names_ok (snd p)) cs)"

lemma names_ok_args: "names_ok c \<Longrightarrow> distinct (map arg_name (cmd_args (info c)))"
  by (cases c) simp

lemma names_ok_sub: "names_ok c \<Longrightarrow> (n, s) \<in> set (subcommands c) \<Longrightarrow> names_ok s"
  by (cases c) (auto simp: list_all_iff)

text \<open>Leaving the loop successfully: the checks have passed, and the optional positional arguments
  that are left have their defaults, which they had before.\<close>

lemma missing_positional_values:
  "missing_positional ds st = (None, st') \<Longrightarrow> (\<forall>d\<in>set ds. \<not> arg_required d) \<and> ps_dynamic st' = ps_dynamic st \<and>
     ps_pass st' = ps_pass st \<and> ps_index st' = ps_index st \<and>
     (\<forall>n. map_of (ps_values st') n = map_of (ps_values st) n \<or>
        (\<exists>d\<in>set ds. arg_name d = n \<and> map_of (ps_values st') n = Some (arg_default d)))"
  by (induction ds st rule: missing_positional.induct) (auto simp: map_of_update split: if_splits)

text \<open>The values of a successful parse: the positional arguments that are left over are not required, and an option
  without a value from the line is not required either and has its default.\<close>

definition parsed_values :: "cli_env \<Rightarrow> src_token list \<Rightarrow> argument_def list \<Rightarrow> argument_map \<Rightarrow> bool" where
  "parsed_values e ts ds m \<longleftrightarrow>
     (\<exists>ks. positional_values e ts ds m ks \<and> (\<forall>d\<in>set (drop (length ks) (pos_args ds)). \<not> arg_required d)) \<and>
     (\<forall>d. option_of ds d \<longrightarrow> (\<exists>v. map_of m (arg_name d) = Some (mk_arg v) \<and> option_value e ts ds d v) \<or>
        map_of m (arg_name d) = Some (arg_default d) \<and> \<not> arg_required d)"

lemma parsed_values_some:
  assumes "parsed_values e ts ds m" "d \<in> set ds" "\<not> is_help_flag d"
  shows "map_of m (arg_name d) \<noteq> None"
proof (cases "arg_positional d")
  case True
  then obtain n where "n < length (pos_args ds)" "pos_args ds ! n = d"
    using assms(2,3) by (metis (mono_tags, lifting) in_set_conv_nth mem_Collect_eq pos_args_def set_filter)
  then show ?thesis
    using assms(1) by (auto simp: parsed_values_def positional_values_def Let_def split: if_splits)
next
  case False
  then show ?thesis
    using assms by (fastforce simp: parsed_values_def option_of_def)
qed

lemma finish_values:
  assumes opt: "missing_option ds st = None" and pos: "missing_positional (drop (ps_pos st) (pos_args ds)) st = (None, st')"
    and dist: "distinct (map arg_name ds)" and inv: "args_inv e ts ds st"
  shows "parsed_values e ts ds (ps_values st')"
proof -
  obtain ks where ks: "positional_values e ts ds (ps_values st) ks" "length ks = ps_pos st"
    using inv by (auto simp: args_inv_def pos_inv_def)
  note rest = missing_positional_values [OF pos]
  have same: "map_of (ps_values st') (arg_name d) = map_of (ps_values st) (arg_name d)" if d: "d \<in> set ds" "\<not> is_help_flag d" for d
  proof (rule ccontr)
    assume "\<not> ?thesis"
    then obtain x where x: "x \<in> set (drop (ps_pos st) (pos_args ds))" "arg_name x = arg_name d" "map_of (ps_values st') (arg_name d) = Some (arg_default x)"
      "map_of (ps_values st) (arg_name d) \<noteq> Some (arg_default x)"
      using rest by metis
    then obtain k where "k < length (pos_args ds) - ps_pos st" "pos_args ds ! (ps_pos st + k) = x"
      by (auto simp: in_set_conv_nth)
    then obtain n where n: "n < length (pos_args ds)" "ps_pos st \<le> n" "pos_args ds ! n = x"
      by (metis le_add1 less_diff_conv2 add.commute less_diff_conv)
    then have "map_of (ps_values st) (arg_name x) = Some (arg_default x)"
      using ks by (auto simp: positional_values_def Let_def)
    with x show False
      by simp
  qed
  have "positional_values e ts ds (ps_values st') ks"
    using ks(1) same pos_args_mem [of _ ds] by (simp add: positional_values_def Let_def)
  moreover have "\<forall>d\<in>set (drop (length ks) (pos_args ds)). \<not> arg_required d"
    using rest ks(2) by simp
  moreover have "(\<exists>v. map_of (ps_values st') (arg_name d) = Some (mk_arg v) \<and> option_value e ts ds d v) \<or>
      map_of (ps_values st') (arg_name d) = Some (arg_default d) \<and> \<not> arg_required d" if d: "option_of ds d" for d
  proof -
    have "arg_name d \<in> set (ps_seen st) \<or> \<not> arg_required d"
      using opt d by (auto simp: missing_option_def find_None_iff option_of_def)
    then show ?thesis
      using inv d same [of d] by (auto simp: args_inv_def opts_inv_def option_of_def split: if_splits)
  qed
  ultimately show ?thesis
    by (auto simp: parsed_values_def)
qed

lemma finish_success:
  assumes fin: "finish e c prefix st w = (Ok r, ls, i, w')" and ok: "status r = ParserStatus_Success"
    and dist: "distinct (map arg_name (cmd_args (info c)))" and inv: "args_inv e ts (cmd_args (info c)) st"
  shows "m_command r = Some c \<and> parsed_values e ts (cmd_args (info c)) (m_values r) \<and>
    (case cmd_handler (info c) of
       None \<Rightarrow> subcommands c = [] \<and> w' = w \<and> exit_code r = 0
     | Some h \<Rightarrow> h (result_path r) (fold (\<lambda>(k, a) m. AList.update k a m) (m_dynamic_values r) (m_values r)) (m_passthrough_args r) w
         = (Ok (exit_code r), w'))"
proof -
  define ds where "ds = cmd_args (info c)"
  obtain st' where opt: "missing_option ds st = None"
    and pos: "missing_positional (drop (ps_pos st) (pos_args ds)) st = (None, st')"
    and run: "(case cmd_handler (info c) of
                Some h \<Rightarrow> (case h (prefix @ cmd_name (info c)) (invocation_args st') (ps_pass st') w of
                    (Inl err, w) \<Rightarrow> (Throw err, [], ps_index st', w)
                  | (Inr rc, w) \<Rightarrow> (Ok (mk_result c prefix st' ParserStatus_Success rc []), [], ps_index st', w))
              | None \<Rightarrow> (if subcommands c \<noteq> [] then help_with e c prefix st' w
                  else (Ok (mk_result c prefix st' ParserStatus_Success 0 []), [], ps_index st', w))) = (Ok r, ls, i, w')"
    using fin ok by (auto simp: finish_def Let_def ds_def [symmetric] fail_with_def mk_result_def split: option.splits prod.splits if_splits)
  from run ok have r: "m_command r = Some c" "m_values r = ps_values st'" "m_dynamic_values r = ps_dynamic st'"
    "m_passthrough_args r = ps_pass st'" "result_path r = prefix @ cmd_name (info c)"
    and h: "case cmd_handler (info c) of None \<Rightarrow> subcommands c = [] \<and> w' = w \<and> exit_code r = 0
      | Some h \<Rightarrow> h (prefix @ cmd_name (info c)) (invocation_args st') (ps_pass st') w = (Ok (exit_code r), w')"
    by (auto simp: mk_result_def help_with_def split: option.splits prod.splits sum.splits if_splits)
  have "parsed_values e ts (cmd_args (info c)) (m_values r)"
    using finish_values [OF opt pos] dist inv r(2) by (simp add: ds_def)
  with r h show ?thesis
    by (cases "cmd_handler (info c)") (auto simp: invocation_args_def)
qed

lemma args_inv_passed:
  "args_inv e ts ds st \<Longrightarrow> ps_index st \<le> length ts \<Longrightarrow> args_inv e ts ds (st\<lparr>ps_pass := p, ps_index := length ts\<rparr>)"
  using pos_inv_step [of e ts ds st "st\<lparr>ps_pass := p, ps_index := length ts\<rparr>"] by (simp add: args_inv_def opts_inv_def)

lemma success_of_parse:
  fixes root :: "'w command"
  assumes "names_ok root" "parse_command e ts root i prefix w = Some (Ok r, ls, j, w')" "status r = ParserStatus_Success"
  shows "\<exists>c. m_command r = Some c \<and> parsed_values e ts (cmd_args (info c)) (m_values r) \<and>
    (case cmd_handler (info c) of
       None \<Rightarrow> subcommands c = [] \<and> w' = w \<and> exit_code r = 0
     | Some h \<Rightarrow> h (result_path r) (fold (\<lambda>(k, a) m. AList.update k a m) (m_dynamic_values r) (m_values r)) (m_passthrough_args r) w
         = (Ok (exit_code r), w'))"
proof -
  define I where "I = (\<lambda>(c :: 'w command) (prefix::string) st. names_ok c \<and> args_inv e ts (cmd_args (info c)) st)"
  have "parse_loop e ts root prefix (start_state i (cmd_args (info root))) w = Some (Ok r, ls, j, w')"
    using assms(2) by (simp add: parse_command_def)
  then have "\<exists>(c :: 'w command) p st. I c p st \<and> parse_exit e ts c p st w (Ok r, ls, j, w')"
  proof (rule parse_loop_rule)
    show "I root prefix (start_state i (cmd_args (info root)))"
      using assms(1) by (simp add: I_def args_inv_start names_ok_args)
    show "I c p st'" if "I c p st" "token_effect e ts (cmd_args (info c)) st st'" for c p st st'
      using that args_inv_effect [OF names_ok_args] unfolding I_def by blast
    show "I s (p @ cmd_name (info c) @ '' '') (start_state (ps_index st + 1) (cmd_args (info s)))"
      if "I c p st" "(n, s) \<in> set (subcommands c)" for c p st n s
      using that names_ok_sub [of c n s] by (auto simp: I_def args_inv_start names_ok_args)
  qed
  then obtain c :: "'w command" and p st where c: "names_ok c" "args_inv e ts (cmd_args (info c)) st" "parse_exit e ts c p st w (Ok r, ls, j, w')"
    by (auto simp: I_def)
  consider "finish e c p st w = (Ok r, ls, j, w')"
    | "ps_index st \<le> length ts" "finish e c p (st\<lparr>ps_pass := ps_pass st @ map (print_src e) (drop (ps_index st + 1) ts), ps_index := length ts\<rparr>) w = (Ok r, ls, j, w')"
    using c(3) assms(3) by (auto simp: parse_exit_def)
  then obtain st' where "finish e c p st' w = (Ok r, ls, j, w')" "args_inv e ts (cmd_args (info c)) st'"
    using c(2) args_inv_passed [OF c(2)] by cases blast+
  from finish_success [OF this(1) assms(3) names_ok_args [OF c(1)] this(2)] show ?thesis
    by blast
qed

text \<open>C22: After a successful parse every argument of the command it ends in has a value.  The positional arguments have, in
  their order, the values of tokens that follow one another, and those that are left over are not required and have
  their defaults.  An option has the value that a token naming it brings (true for a flag, or the value of the token
  after it, with all that follow for an option of several values), or it is not required and has its default.  The handler has been called exactly
  with these values, overridden by the dynamic ones, and its exit code is the result's; a command without a handler
  changes nothing.\<close>

theorem successful_parse:
  fixes root :: "'w command"
  assumes "names_ok root" "parse_command e ts root i prefix w = Some (Ok r, ls, j, w')" "status r = ParserStatus_Success"
  shows "\<exists>c. m_command r = Some c \<and>
    (\<exists>ks. positional_values e ts (cmd_args (info c)) (m_values r) ks \<and>
      (\<forall>d\<in>set (drop (length ks) (pos_args (cmd_args (info c)))). \<not> arg_required d)) \<and>
    (\<forall>d. option_of (cmd_args (info c)) d \<longrightarrow>
      (\<exists>v. map_of (m_values r) (arg_name d) = Some (mk_arg v) \<and> value_ok (arg_type d) v \<and> option_value e ts (cmd_args (info c)) d v) \<or>
      map_of (m_values r) (arg_name d) = Some (arg_default d) \<and> \<not> arg_required d) \<and>
    (case cmd_handler (info c) of
       None \<Rightarrow> subcommands c = [] \<and> w' = w \<and> exit_code r = 0
     | Some h \<Rightarrow> h (result_path r) (fold (\<lambda>(k, a) m. AList.update k a m) (m_dynamic_values r) (m_values r)) (m_passthrough_args r) w
         = (Ok (exit_code r), w'))"
proof -
  have ok: "value_ok (arg_type d) v" if "option_value e ts ds d v" for ds d v
    using that value_at_ok by (auto simp: option_value_def value_ok_def)
  show ?thesis
    using success_of_parse [OF assms] ok unfolding parsed_values_def by meson
qed

section \<open>Arguments that are passed through\<close>

lemma argv_token_kind: "arg \<noteq> ''--'' \<Longrightarrow> tk_kind (argv_token e pos arg) \<noteq> TokDoubleMinus"
  by (auto simp: argv_token_def Let_def make_string_token_def with_span_def literal_token_def
      split: option.splits sum.splits list.splits if_splits)

lemma length_argv_tokens [simp]: "length (argv_tokens e pos pass as) = length as"
  by (induction e pos pass as rule: argv_tokens.induct) (auto simp: Let_def)

lemma argv_tokens_passed: "map (print_src e) (argv_tokens e pos True as) = as"
  by (induction as arbitrary: pos)
    (auto simp: Let_def print_src_def print_token_def make_string_token_def ref_text_def slice_def)

lemma argv_tokens_delimiter:
  "''--'' \<notin> set as \<Longrightarrow> \<exists>p q. argv_tokens e pos False (as @ ''--'' # bs) =
     argv_tokens e pos False as @ (''--'', simple_token TokDoubleMinus p (p + 2)) # argv_tokens e q True bs"
proof (induction as arbitrary: pos)
  case Nil
  show ?case
    by (intro exI [of _ pos] exI [of _ "pos + 3"]) (simp add: Let_def eval_nat_numeral)
next
  case (Cons a as)
  then obtain p q where "argv_tokens e (pos + length a + 1) False (as @ ''--'' # bs) =
     argv_tokens e (pos + length a + 1) False as @ (''--'', simple_token TokDoubleMinus p (p + 2)) # argv_tokens e q True bs"
    by fastforce
  with Cons.prems show ?case
    by (auto simp: Let_def)
qed

lemma argv_tokens_kinds: "''--'' \<notin> set as \<Longrightarrow> t \<in> set (argv_tokens e pos False as) \<Longrightarrow> kind t \<noteq> TokDoubleMinus"
  by (induction as arbitrary: pos) (auto simp: Let_def kind_def argv_token_kind)

lemma unexpected_rest_success:
  assumes "unexpected_rest e root ts out = (Ok r, ls, j, w')" "status r = ParserStatus_Success"
  shows "out = (Ok r, ls, j, w')"
proof -
  obtain x l i w where out: "out = (x, l, i, w)"
    by (cases out)
  show ?thesis
  proof (cases x)
    case (Inr r0)
    with out assms show ?thesis
      by (cases "status r0 = ParserStatus_Success \<and> i < length ts") (auto simp: unexpected_rest_def Let_def)
  qed (use out assms in \<open>simp add: unexpected_rest_def\<close>)
qed

lemma parse_argv_success:
  assumes "parse_argv e root (prog # as) w = Some (Ok r, ls, j, w')" "status r = ParserStatus_Success"
  shows "parse_command e (argv_tokens e 0 False as) root 0 [] w = Some (Ok r, ls, j, w')"
proof -
  from assms(1) obtain out where out: "parse_command e (argv_tokens e 0 False as) root 0 [] w = Some out"
    "unexpected_rest e root (argv_tokens e 0 False as) out = (Ok r, ls, j, w')"
    by (auto simp: parse_argv_def Let_def)
  then show ?thesis
    using unexpected_rest_success [OF out(2) assms(2)] by simp
qed

text \<open>C23: What follows \<open>--\<close> on the command line reaches the handler unchanged, element by element, whatever
  it looks like and however the options before it take their values.\<close>

theorem passthrough_exact:
  fixes root :: "'w command"
  assumes "parse_argv e root (prog # as @ ''--'' # bs) w = Some (Ok r, ls, j, w')" "status r = ParserStatus_Success"
    and "''--'' \<notin> set as"
  shows "m_passthrough_args r = bs"
proof -
  define ts where "ts = argv_tokens e 0 False (as @ ''--'' # bs)"
  obtain p q where ts: "ts = argv_tokens e 0 False as @ (''--'', simple_token TokDoubleMinus p (p + 2)) # argv_tokens e q True bs"
    using argv_tokens_delimiter [OF assms(3)] unfolding ts_def by blast
  have delim: "kind (ts ! length as) = TokDoubleMinus" "length as < length ts"
    "map (print_src e) (drop (length as + 1) ts) = bs"
    by (simp_all add: ts nth_append kind_def simple_token_def argv_tokens_passed)
  have before: "kind (ts ! k) \<noteq> TokDoubleMinus" if "k < length as" for k
    using argv_tokens_kinds [OF assms(3), of "ts ! k" e 0] that by (simp add: ts nth_append)
  define I where "I = (\<lambda>(c :: 'w command) (prefix::string) (st::parse_state). ps_index st \<le> length as \<and> ps_pass st = [])"
  have out: "parse_loop e ts root [] (start_state 0 (cmd_args (info root))) w = Some (Ok r, ls, j, w')"
    using parse_argv_success [OF assms(1,2)] by (simp add: parse_command_def ts_def)
  from out have "\<exists>(c :: 'w command) p st. I c p st \<and> parse_exit e ts c p st w (Ok r, ls, j, w')"
  proof (rule parse_loop_rule)
    show "I root [] (start_state 0 (cmd_args (info root)))"
      by (simp add: I_def start_state_def)
    show "I c p st'" if inv: "I c p st" and idx: "ps_index st < length ts" and eff: "token_effect e ts (cmd_args (info c)) st st'" for c p st st'
    proof -
      obtain k where k: "ps_index st' = ps_index st + k" "consumed ts (ps_index st) k"
        using token_effect_consumed [OF eff idx] by blast
      have "ps_index st + k \<le> length as"
      proof (rule ccontr)
        assume "\<not> ?thesis"
        then have "length as - ps_index st < k"
          using inv unfolding I_def by linarith
        then have "kind (ts ! (ps_index st + (length as - ps_index st))) \<noteq> TokDoubleMinus"
          using k(2) unfolding consumed_def by blast
        with delim(1) inv show False
          by (simp add: I_def)
      qed
      moreover have "ps_pass st' = ps_pass st"
        using eff by cases (auto simp: skip_tokens_def mark_seen_def set_value_def)
      ultimately show ?thesis
        using inv k(1) by (simp add: I_def)
    qed
    show "I s (p @ cmd_name (info c) @ '' '') (start_state (ps_index st + 1) (cmd_args (info s)))"
      if "I c p st" "kind (ts ! ps_index st) = TokId" for c p st s
      using that delim(1) by (cases "ps_index st = length as") (auto simp: I_def start_state_def)
  qed
  then obtain c p st where st: "ps_index st \<le> length as" "ps_pass st = []" "parse_exit e ts c p st w (Ok r, ls, j, w')"
    by (auto simp: I_def)
  have "ps_index st = length as"
    using st before delim(2) assms(2) by (cases "ps_index st < length as") (auto simp: parse_exit_def)
  with st(2,3) assms(2) delim obtain st' where fin: "finish e c p st' w = (Ok r, ls, j, w')" "ps_pass st' = bs"
    by (auto simp: parse_exit_def)
  have "m_passthrough_args r = ps_pass st'"
    using fin(1) assms(2) missing_positional_values [of "drop (ps_pos st') (pos_args (cmd_args (info c)))" st']
    by (auto simp: finish_def Let_def fail_with_def help_with_def mk_result_def
        split: option.splits prod.splits sum.splits if_splits)
  with fin(2) show ?thesis
    by simp
qed

section \<open>Flags whose default is true\<close>

lemma literal_false: "literal_token e ''false'' = Some (simple_token TokFalse 0 5)"
  by code_simp

lemma literal_true: "literal_token e ''true'' = Some (simple_token TokTrue 0 4)"
  by code_simp

definition true_flag :: "string \<Rightarrow> string \<Rightarrow> argument_def" where
  "true_flag n h = make_argument n [] h ArgType_Flag False False (mk_arg (VBool True)) False"

lemma register_argument_Ok:
  "register_argument d c = Ok c' \<Longrightarrow> \<exists>ds. register_args d (cmd_args (info c)) = Ok ds \<and> c' = update_info (\<lambda>i. i\<lparr>cmd_args := ds\<rparr>) c"
  by (cases "register_args d (cmd_args (info c))") (auto simp: register_argument_def)

lemma new_command_args [simp]:
  "cmd_args (info (new_command p d)) = [help_argument]" "subcommands (new_command p d) = []"
  by (simp_all add: new_command_def ensure_help_argument_def update_info_def)

lemma add_true_flag:
  assumes "add_keyword_arg n [] h ArgType_Flag False (mk_arg (VBool True)) False (new_command p d) = Ok c"
  shows "cmd_args (info c) = [help_argument, true_flag n h, negation (true_flag n h)]" "n \<noteq> ''help''"
    "cmd_handler (info c) = None" "subcommands c = []" "cmd_dynamic (info c) = None" "cmd_name (info c) = p"
proof -
  have t: "(make_argument n [] h ArgType_Flag False False (mk_arg (VBool True)) False)\<lparr>arg_hidden := False, arg_coerce := False\<rparr> = true_flag n h"
    by (simp add: true_flag_def make_argument_def)
  have reg: "register_argument (true_flag n h) (new_command p d) = Ok c"
    using assms by (simp add: add_keyword_arg_def add_arg_def t)
  have final: "final_default (true_flag n h) = mk_arg (VBool True)" "(true_flag n h)\<lparr>arg_default := mk_arg (VBool True)\<rparr> = true_flag n h"
    "arg_get_bool (mk_arg (VBool True)) = Some True"
    by (simp_all add: final_default_def true_flag_def make_argument_def mk_arg_def arg_get_bool_def)
  have f: "arg_name (true_flag n h) = n" "arg_aliases (true_flag n h) = []" "arg_type (true_flag n h) = ArgType_Flag"
    by (simp_all add: true_flag_def make_argument_def)
  obtain ds where ds: "register_args (true_flag n h) [help_argument] = Ok ds" "c = update_info (\<lambda>i. i\<lparr>cmd_args := ds\<rparr>) (new_command p d)"
    using register_argument_Ok [OF reg] by auto
  then have "n \<noteq> ''help'' \<and> ds = [help_argument, true_flag n h, negation (true_flag n h)]"
    by (auto simp: register_args_def f final taken_alias_def Let_def split: if_splits)
  then show "cmd_args (info c) = [help_argument, true_flag n h, negation (true_flag n h)]" "n \<noteq> ''help''"
    "cmd_handler (info c) = None" "subcommands c = []" "cmd_dynamic (info c) = None" "cmd_name (info c) = p"
    by (simp_all add: ds(2) update_info_def new_command_def ensure_help_argument_def)
qed

text \<open>A flag that is registered with the default true cannot be switched off by \<open>--flag false\<close>: the value
  false is stored, and yet the handler's lookup answers true, because the automatic negation flag
  is always among the arguments, with its default.\<close>

theorem explicit_false_ignored:
  assumes "add_keyword_arg n [] h ArgType_Flag False (mk_arg (VBool True)) False (new_command p d) = Ok c" "n \<noteq> []"
  shows "\<exists>r. parse_argv e c [p, ''--'' @ n, ''false''] w = Some (Ok r, [], 2, w) \<and> status r = ParserStatus_Success \<and>
    map_of (m_values r) n = Some (mk_arg (VBool False)) \<and> io_get_bool n (m_values r) = Ok True"
proof -
  note c = add_true_flag [OF assms(1)]
  define D where "D = true_flag n h"
  define t1 where "t1 = (''--'' @ n, make_string_token TokFlagLong 2 (length n) 0 (2 + length n))"
  define t2 where "t2 = (''false'', with_span (length n + 3) (length n + 8) (simple_token TokFalse 0 5))"
  have ts: "argv_tokens e 0 False [''--'' @ n, ''false''] = [t1, t2]"
    using assms(2) by (simp add: Let_def argv_token_def literal_false t1_def t2_def quote_def eval_nat_numeral)
  have D: "arg_name D = n" "arg_aliases D = []" "arg_type D = ArgType_Flag" "\<not> arg_positional D" "\<not> is_help_flag D"
    "\<not> arg_required D" "arg_conflicts D = []" "arg_default D = mk_arg (VBool True)"
    by (simp_all add: D_def true_flag_def make_argument_def)
  have N: "arg_name (negation D) = ''no-'' @ n" "\<not> is_help_flag (negation D)" "\<not> arg_positional (negation D)" "\<not> arg_required (negation D)"
    "arg_conflicts (negation D) = []" "arg_default (negation D) = mk_arg (VBool False)"
    by (simp_all add: negation_def make_argument_def D(1))
  have H: "is_help_flag help_argument" "arg_name help_argument = ''help''" "\<not> arg_positional help_argument"
    "arg_aliases help_argument = [''-h'', ''--help'']" "arg_conflicts help_argument = []"
    by (simp_all add: help_argument_def make_argument_def)
  have find: "find_keyword_arg [help_argument, D, negation D] n False = Some D"
    using c(2) assms(2) by (auto simp: find_keyword_arg_def alias_matches_def H D)
  define st0 where "st0 = start_state 0 [help_argument, D, negation D]"
  define st1 where "st1 = set_value n (VBool False) (skip_tokens 1 (mark_seen n (skip_tokens 1 st0)))"
  have k1: "kind t1 = TokFlagLong" "ref_text (fst t1) (snd t1) = n"
    by (simp_all add: kind_def t1_def make_string_token_def ref_text_def slice_def)
  have v2: "parse_token_value e t2 ArgType_Flag False = VBool False" "kind t2 = TokFalse"
    by (simp_all add: parse_token_value_def Let_def kind_def t2_def with_span_def simple_token_def)
  have idx: "ps_index st0 = 0" "ps_index st1 = 2"
    by (simp_all add: st0_def start_state_def st1_def)
  have step: "parse_step e [t1, t2] c st0 = Continue st1"
    by (simp add: parse_step_def idx k1 option_token_def Let_def c(1) D_def [symmetric] find D flag_option_def is_flag_token_def v2 st1_def)
  have vals: "map_of (ps_values st1) n = Some (mk_arg (VBool False))" "map_of (ps_values st1) (''no-'' @ n) = Some (mk_arg (VBool False))"
    "ps_pass st1 = []" "ps_dynamic st1 = []" "ps_seen st1 = [n]"
    by (simp_all add: st1_def st0_def start_state_def H D N map_of_update state_defs)
  have none: "pos_args [help_argument, D, negation D] = []" "missing_option [help_argument, D, negation D] st1 = None"
    "conflict_pairs [help_argument, D, negation D] [n] = []"
    by (simp_all add: pos_args_def missing_option_def conflict_pairs_def H D N)
  have fin: "finish e c [] st1 w = (Ok (mk_result c [] st1 ParserStatus_Success 0 []), [], 2, w)"
    by (simp add: finish_def Let_def c D_def [symmetric] none vals idx)
  have "parse_loop e [t1, t2] c [] st0 w = Some (Ok (mk_result c [] st1 ParserStatus_Success 0 []), [], 2, w)"
    by (simp add: parse_loop.simps [of e _ c _ st0] parse_loop.simps [of e _ c _ st1] idx step fin)
  then have "parse_argv e c [p, ''--'' @ n, ''false''] w = Some (Ok (mk_result c [] st1 ParserStatus_Success 0 []), [], 2, w)"
    using ts by (simp add: parse_argv_def Let_def parse_command_def c(1) D_def [symmetric] st0_def [symmetric] unexpected_rest_def
        del: argv_tokens.simps)
  moreover have "io_get_bool n (ps_values st1) = Ok True"
    using vals by (simp add: io_get_bool_def io_get_if_def arg_get_bool_def mk_arg_def)
  ultimately show ?thesis
    using vals by (simp add: mk_result_def)
qed


definition plain_env :: cli_env where
  "plain_env = \<lparr>cli_strtod = (\<lambda>s. (NaN, 0, False)), cli_show = (\<lambda>b d. [])\<rparr>"

definition command_with :: "argument_def list \<Rightarrow> unit command" where
  "command_with ds = Command ((info (new_command ''zowex'' []))\<lparr>cmd_args := ds\<rparr>) []"

theorem explicit_false_ignored_witness:
  "\<exists>r. parse_argv plain_env (command_with [help_argument, true_flag ''warn'' [], negation (true_flag ''warn'' [])])
      [''zowex'', ''--'' @ ''warn'', ''false''] () = Some (Ok r, [], 2, ()) \<and> io_get_bool ''warn'' (m_values r) = Ok True"
proof -
  have "add_keyword_arg ''warn'' [] [] ArgType_Flag False (mk_arg (VBool True)) False (new_command ''zowex'' []) =
      Ok (command_with [help_argument, true_flag ''warn'' [], negation (true_flag ''warn'' [])])"
    by (simp add: add_keyword_arg_def add_arg_def register_argument_def register_args_def has_prefix_def taken_alias_def
        final_default_def make_argument_def help_argument_def true_flag_def negation_def mk_arg_def arg_get_bool_def command_with_def
        update_info_def Let_def)
  from explicit_false_ignored [OF this, of plain_env "()"] show ?thesis
    by auto
qed

section \<open>Positional arguments that are flags\<close>

text \<open>The builder accepts a positional argument without a type, which is then a flag, and parsing a value
  for it never ends.\<close>

theorem positional_flag_diverges:
  assumes "builder_registers n [with_positional True] (new_command p d) = Some c"
  shows "parse_argv e c [p, ''true''] w = None"
proof -
  define D where "D = blank_argument\<lparr>arg_name := n, arg_positional := True, arg_default := mk_arg (VBool False)\<rparr>"
  have D: "arg_type D = ArgType_Flag" "arg_positional D" "\<not> is_help_flag D"
    by (simp_all add: D_def blank_argument_def make_argument_def)
  obtain ds where ds: "register_args (blank_argument\<lparr>arg_name := n, arg_positional := True\<rparr>) [help_argument] = Ok ds"
    "c = update_info (\<lambda>i. i\<lparr>cmd_args := ds\<rparr>) (new_command p d)"
    using assms register_argument_Ok [of "blank_argument\<lparr>arg_name := n, arg_positional := True\<rparr>" "new_command p d"]
    by (auto simp: builder_registers_def with_positional_def split: sum.splits)
  then have "ds = [help_argument, D]"
    by (auto simp: register_args_def taken_alias_def blank_argument_def make_argument_def final_default_def no_value_def mk_arg_def
        arg_get_bool_def D_def Let_def split: if_splits)
  then have c: "cmd_args (info c) = [help_argument, D]" "subcommands c = []"
    by (simp_all add: ds(2) update_info_def)
  have pos: "pos_args [help_argument, D] = [D]"
    by (simp add: pos_args_def D) (simp add: help_argument_def make_argument_def)
  define t where "t = (''true'', with_span 0 4 (simple_token TokTrue 0 4))"
  have ts: "argv_tokens e 0 False [''true''] = [t]"
    by (simp add: Let_def argv_token_def literal_true t_def quote_def eval_nat_numeral)
  define st where "st = start_state 0 [help_argument, D]"
  have idx: "ps_index st = 0" "ps_pos st = 0"
    by (simp_all add: st_def start_state_def)
  have "kind t = TokTrue" "parse_token_value e t ArgType_Flag co = VBool True" for co
    by (simp_all add: kind_def t_def with_span_def simple_token_def parse_token_value_def Let_def)
  then have "parse_step e [t] c st = Continue st"
    by (simp add: parse_step_def idx positional_token_def Let_def c pos D)
  then have "parse_loop e [t] c [] st w = None"
    by (rule parse_loop_stuck) (simp add: idx)
  then show ?thesis
    by (simp add: parse_argv_def ts parse_command_def c(1) st_def [symmetric] del: argv_tokens.simps)
qed

theorem positional_flag_diverges_witness:
  "parse_argv plain_env (command_with [help_argument,
      blank_argument\<lparr>arg_name := ''file'', arg_positional := True, arg_default := mk_arg (VBool False)\<rparr>]) [''zowex'', ''true''] () = None"
proof (rule positional_flag_diverges)
  show "builder_registers ''file'' [with_positional True] (new_command ''zowex'' []) =
    Some (command_with [help_argument,
      blank_argument\<lparr>arg_name := ''file'', arg_positional := True, arg_default := mk_arg (VBool False)\<rparr>])"
    by (simp add: builder_registers_def with_positional_def register_argument_def register_args_def has_prefix_def taken_alias_def
        final_default_def make_argument_def help_argument_def blank_argument_def no_value_def mk_arg_def arg_get_bool_def command_with_def
        update_info_def Let_def)
qed

section \<open>Witnesses\<close>

definition run_command :: "unit command" where
  "run_command = Command ((info (new_command ''run'' []))
     \<lparr>cmd_args := [help_argument, make_argument ''program'' [] [] ArgType_Single True True no_value False],
      cmd_passthrough := Some [], cmd_handler := Some (\<lambda>p a ps w. (Ok (int (length ps)), w))\<rparr>) []"

declare parse_loop.simps [code]

lemma run_command_parses:
  "case parse_argv plain_env run_command [''run'', ''IEBGENER'', ''--'', ''-x''] () of
     Some (Inr r, ls, j, w') \<Rightarrow> status r = ParserStatus_Success \<and>
       (case m_command r of Some c \<Rightarrow> cmd_args (info c) = cmd_args (info run_command) | None \<Rightarrow> False) | _ \<Rightarrow> False"
  by code_simp

lemma run_command_result:
  obtains r ls j w' c where "parse_argv plain_env run_command [''run'', ''IEBGENER'', ''--'', ''-x''] () = Some (Ok r, ls, j, w')"
    "status r = ParserStatus_Success" "m_command r = Some c" "cmd_args (info c) = cmd_args (info run_command)"
proof (cases "parse_argv plain_env run_command [''run'', ''IEBGENER'', ''--'', ''-x''] ()")
  case (Some out)
  obtain x ls j w' where out: "out = (x, ls, j, w')"
    by (cases out)
  show ?thesis
  proof (cases x)
    case (Inr r)
    with run_command_parses Some out that show ?thesis
      by (cases "m_command r") auto
  qed (use run_command_parses Some out in simp)
qed (use run_command_parses in simp)

theorem passthrough_exact_witness:
  "case parse_argv plain_env run_command [''run'', ''IEBGENER'', ''--'', ''-x''] () of
     Some (Inr r, ls, j, w') \<Rightarrow> m_passthrough_args r = [''-x''] | _ \<Rightarrow> False"
proof -
  obtain r ls j w' where r: "parse_argv plain_env run_command [''run'', ''IEBGENER'', ''--'', ''-x''] () = Some (Ok r, ls, j, w')"
    "status r = ParserStatus_Success"
    by (rule run_command_result)
  then have "m_passthrough_args r = [''-x'']"
    by (intro passthrough_exact [of plain_env run_command "''run''" "[''IEBGENER'']" "[''-x'']" "()" r ls j w']) simp_all
  with r show ?thesis
    by simp
qed

theorem successful_parse_witness:
  "case parse_argv plain_env run_command [''run'', ''IEBGENER'', ''--'', ''-x''] () of
     Some (Inr r, ls, j, w') \<Rightarrow> (\<exists>ks. positional_values plain_env (argv_tokens plain_env 0 False [''IEBGENER'', ''--'', ''-x''])
       (cmd_args (info run_command)) (m_values r) ks \<and> ks \<noteq> []) | _ \<Rightarrow> False"
proof -
  obtain r ls j w' c where r: "parse_argv plain_env run_command [''run'', ''IEBGENER'', ''--'', ''-x''] () = Some (Ok r, ls, j, w')"
    "status r = ParserStatus_Success" "m_command r = Some c" "cmd_args (info c) = cmd_args (info run_command)"
    by (rule run_command_result)
  have ok: "names_ok run_command"
    by (simp add: run_command_def help_argument_def make_argument_def)
  from successful_parse [OF ok parse_argv_success [OF r(1,2)] r(2)] r(3,4) obtain ks where
    "positional_values plain_env (argv_tokens plain_env 0 False [''IEBGENER'', ''--'', ''-x'']) (cmd_args (info run_command)) (m_values r) ks"
    "\<forall>d\<in>set (drop (length ks) (pos_args (cmd_args (info run_command)))). \<not> arg_required d"
    by auto
  moreover have "pos_args (cmd_args (info run_command)) \<noteq> [] \<and> arg_required (hd (pos_args (cmd_args (info run_command))))"
    by (simp add: run_command_def pos_args_def help_argument_def make_argument_def)
  ultimately have "positional_values plain_env (argv_tokens plain_env 0 False [''IEBGENER'', ''--'', ''-x'']) (cmd_args (info run_command)) (m_values r) ks \<and> ks \<noteq> []"
    by (metis drop0 hd_in_set list.size(3))
  with r(1) show ?thesis
    by auto
qed

theorem parsing_ends_witness:
  "parse_argv plain_env run_command [''run'', ''-q'', ''5''] () \<noteq> None \<and> parse_line plain_env run_command ''prog 7 -- x'' () \<noteq> None"
  by (rule parsing_ends) (simp add: run_command_def help_argument_def make_argument_def)

section \<open>Two consequences\<close>

text \<open>The result's own lookup of a flag with a negation is always false, given or not, because it
  only asks whether the negation has a value.\<close>

lemma result_get_bool_false:
  assumes "names_ok root" "parse_command e ts root i prefix w = Some (Ok r, ls, j, w')" "status r = ParserStatus_Success"
    and "m_command r = Some c" "negation d \<in> set (cmd_args (info c))"
  shows "\<not> result_get_bool (arg_name d) def r"
proof -
  have "\<not> is_help_flag (negation d)" "arg_name (negation d) = ''no-'' @ arg_name d"
    by (simp_all add: negation_def make_argument_def)
  with success_of_parse [OF assms(1-3)] assms(4,5) have "map_of (m_values r) (''no-'' @ arg_name d) \<noteq> None"
    using parsed_values_some [of e ts "cmd_args (info c)" "m_values r" "negation d"] by auto
  then show ?thesis
    by (simp add: result_get_bool_def result_has_def)
qed

text \<open>On a line, a token that is neither a word nor a literal is passed through as its kind's number.\<close>

lemma line_passes_star_as_number:
  "case parse_line plain_env run_command ''prog -- *'' () of
     Some (r, ls, w) \<Rightarrow> m_passthrough_args r = [''<unknown token_kind: 5>''] | _ \<Rightarrow> False"
  by code_simp

end
