(* ===== verification/ParserBuilt.thy ===== *)
theory ParserBuilt
  imports ParserResult
begin

text \<open>
  The command trees that the registration functions of \<open>Command\<close> build, and what holds of their names
  and aliases.
\<close>

section \<open>Commands that the registration functions build\<close>

definition args_ok :: "argument_def list \<Rightarrow> bool" where
  "args_ok ds \<longleftrightarrow> distinct (map arg_name ds) \<and>
     (\<forall>x\<in>set ds. \<forall>y\<in>set ds. x \<noteq> y \<longrightarrow> set (arg_aliases x) \<inter> set (arg_aliases y) \<subseteq> {[]}) \<and>
     (\<forall>x\<in>set ds. has_prefix ''no-'' (arg_name x) \<longrightarrow> (\<exists>y\<in>set ds. arg_name x = ''no-'' @ arg_name y))"

lemma has_prefix_append [simp]: "has_prefix p (p @ s)"
  by (simp add: has_prefix_def)

lemma args_ok_append:
  assumes "args_ok ds" "arg_name d \<notin> arg_name ` set ds" "\<forall>x\<in>set ds. set (arg_aliases x) \<inter> set (arg_aliases d) \<subseteq> {[]}"
    and "has_prefix ''no-'' (arg_name d) \<longrightarrow> (\<exists>y\<in>set ds. arg_name d = ''no-'' @ arg_name y)"
  shows "args_ok (ds @ [d])"
  using assms unfolding args_ok_def by (auto simp: Int_commute)

lemma taken_alias_None: "taken_alias ds als = None \<Longrightarrow> x \<in> set ds \<Longrightarrow> set (arg_aliases x) \<inter> set als \<subseteq> {[]}"
  by (auto simp: taken_alias_def find_None_iff list_ex_iff)

text \<open>The name of a negation flag is new: the argument that has it would be the negation of an
  argument with the name that has just been found to be new.\<close>

lemma negation_is_new:
  assumes "args_ok ds" "arg_name d \<notin> arg_name ` set ds" "\<not> has_prefix ''no-'' (arg_name d)"
  shows "''no-'' @ arg_name d \<notin> arg_name ` set (ds @ [d\<lparr>arg_default := v\<rparr>])"
proof
  assume "''no-'' @ arg_name d \<in> arg_name ` set (ds @ [d\<lparr>arg_default := v\<rparr>])"
  then have "''no-'' @ arg_name d \<in> arg_name ` set ds"
    using assms(3) has_prefix_append [of "''no-''" "arg_name d"] by auto
  then obtain x y where "x \<in> set ds" "arg_name x = ''no-'' @ arg_name d" "y \<in> set ds" "arg_name x = ''no-'' @ arg_name y"
    using assms(1) has_prefix_append [of "''no-''" "arg_name d"] unfolding args_ok_def by fastforce
  with assms(2) show False
    by (metis image_eqI same_append_eq)
qed

lemma register_args_ok:
  assumes "register_args d ds = Ok ds'" "args_ok ds"
  shows "args_ok ds'"
proof -
  define d' where "d' = d\<lparr>arg_default := final_default d\<rparr>"
  have new: "arg_name d \<notin> arg_name ` set ds" "\<not> has_prefix ''no-'' (arg_name d)" "taken_alias ds (arg_aliases d) = None"
    and ds': "ds' = ds @ [d'] \<or> ds' = (ds @ [d']) @ [negation d]"
    using assms(1) by (auto simp: register_args_def list_ex_iff Let_def d'_def split: if_splits option.splits)
  have d': "arg_name d' = arg_name d" "arg_aliases d' = arg_aliases d"
    by (simp_all add: d'_def)
  have one: "args_ok (ds @ [d'])"
    using new taken_alias_None [OF new(3)] by (intro args_ok_append [OF assms(2)]) (auto simp: d')
  have neg: "arg_name (negation d) = ''no-'' @ arg_name d" "arg_aliases (negation d) = []"
    by (simp_all add: negation_def make_argument_def)
  have "args_ok ((ds @ [d']) @ [negation d])"
  proof (rule args_ok_append [OF one])
    show "arg_name (negation d) \<notin> arg_name ` set (ds @ [d'])"
      using negation_is_new [OF assms(2) new(1,2), of "final_default d"] unfolding neg d'_def .
    show "has_prefix ''no-'' (arg_name (negation d)) \<longrightarrow> (\<exists>y\<in>set (ds @ [d']). arg_name (negation d) = ''no-'' @ arg_name y)"
      by (auto simp: neg d')
  qed (simp add: neg)
  with one ds' show ?thesis
    by auto
qed

lemma negation_never_clashes:
  assumes "args_ok ds"
  shows "register_args d ds \<noteq> Throw (''automatic negation flag name '' @ quoted_name (''no-'' @ arg_name d) @
     '' conflicts with an existing argument.'')"
proof (cases "list_ex (\<lambda>x. arg_name x = arg_name d) ds \<or> has_prefix ''no-'' (arg_name d)")
  case False
  then have "arg_name d \<notin> arg_name ` set ds" "\<not> has_prefix ''no-'' (arg_name d)"
    by (auto simp: list_ex_iff)
  from negation_is_new [OF assms this, of "final_default d"]
  have "\<not> list_ex (\<lambda>x. arg_name x = ''no-'' @ arg_name d) (ds @ [d\<lparr>arg_default := final_default d\<rparr>])"
    unfolding list_ex_iff by (metis image_eqI)
  then show ?thesis
    by (auto simp: register_args_def Let_def split: option.splits)
qed (auto simp: register_args_def)

definition siblings_ok :: "(string \<times> 'w command) list \<Rightarrow> bool" where
  "siblings_ok cs \<longleftrightarrow> distinct (map fst cs) \<and>
     (\<forall>k s k' s'. (k, s) \<in> set cs \<longrightarrow> (k', s') \<in> set cs \<longrightarrow> k \<noteq> k' \<longrightarrow>
        \<not> has_alias s' k \<and> (\<forall>a. has_alias s a \<longrightarrow> \<not> has_alias s' a))"

lemma set_map_insert: "map_of m k = None \<Longrightarrow> set (map_insert k v m) = insert (k, v) (set m)"
  by (induction k v m rule: map_insert.induct) auto

lemma distinct_map_insert: "map_of m k = None \<Longrightarrow> distinct (map fst m) \<Longrightarrow> distinct (map fst (map_insert k v m))"
proof (induction k v m rule: map_insert.induct)
  case (2 k v k' v' m)
  then show ?case
    using set_map_insert [of m k v] by (auto simp: image_iff split: if_splits)
qed simp

lemma sibling_conflict_None:
  "sibling_conflict n als cs = None \<Longrightarrow> (k, c) \<in> set cs \<Longrightarrow> \<not> has_alias c n \<and> (\<forall>a\<in>set als. k \<noteq> a \<and> \<not> has_alias c a)"
  by (induction n als cs rule: sibling_conflict.induct) (auto simp: find_None_iff split: if_splits option.splits)

lemma siblings_ok_insert:
  assumes "siblings_ok cs" "map_of cs n = None" "sibling_conflict n (cmd_aliases (info s)) cs = None"
  shows "siblings_ok (map_insert n s cs)"
proof -
  have "\<not> has_alias c n \<and> (\<forall>a. has_alias s a \<longrightarrow> k \<noteq> a \<and> \<not> has_alias c a)" if "(k, c) \<in> set cs" for k c
    using sibling_conflict_None [OF assms(3) that] by (simp add: has_alias_def)
  with assms(1,2) show ?thesis
    unfolding siblings_ok_def set_map_insert [OF assms(2)] by (simp add: distinct_map_insert) blast
qed

lemma at_most_one_element:
  assumes "\<And>x y. x \<in> set xs \<Longrightarrow> y \<in> set xs \<Longrightarrow> x = y" "distinct xs"
  shows "length xs \<le> 1"
proof -
  have "card (set xs) \<le> Suc 0"
    using assms(1) card_le_Suc0_iff_eq [of "set xs"] by blast
  then show ?thesis
    by (simp add: distinct_card [OF assms(2)])
qed

lemma matched_at_most_one:
  assumes "siblings_ok (subcommands c)"
  shows "length (matched_subcommands c w) \<le> 1"
proof (cases "map_of (subcommands c) w")
  case None
  define P where "P = (\<lambda>(n :: string, s :: 'a command). has_alias s w)"
  have d: "distinct (map fst (subcommands c))"
    using assms by (simp add: siblings_ok_def)
  have "x = y" if "x \<in> set (filter P (subcommands c))" "y \<in> set (filter P (subcommands c))" for x y
  proof -
    obtain k s k' s' where xy: "x = (k, s)" "y = (k', s')"
      by (cases x; cases y)
    have mem: "(k, s) \<in> set (subcommands c)" "has_alias s w" "(k', s') \<in> set (subcommands c)" "has_alias s' w"
      using that by (auto simp: xy P_def)
    with assms have "k = k'"
      unfolding siblings_ok_def by blast
    with mem d xy show ?thesis
      by (metis Some_eq_map_of_iff option.inject)
  qed
  moreover have "distinct (filter P (subcommands c))"
    using d by (simp add: distinct_map)
  ultimately have "length (filter P (subcommands c)) \<le> 1"
    using at_most_one_element by blast
  with None show ?thesis
    by (simp add: matched_subcommands_def P_def)
qed (simp add: matched_subcommands_def)


inductive built :: "'w command \<Rightarrow> bool" where
  built_new: "built (new_command n h)"
| built_argument: "built c \<Longrightarrow> register_argument d c = Ok c' \<Longrightarrow> built c'"
| built_command: "built c \<Longrightarrow> built sub \<Longrightarrow> add_command sub c = Ok c' \<Longrightarrow> built c'"
| built_alias: "built c \<Longrightarrow> add_alias a c = Ok c' \<Longrightarrow> built c'"
| built_dynamic: "built c \<Longrightarrow> enable_dynamic_keywords t ph desc c = Ok c' \<Longrightarrow> built c'"
| built_passthrough: "built c \<Longrightarrow> built (enable_passthrough desc c)"
| built_example: "built c \<Longrightarrow> built (add_example title cmd c)"
| built_handler: "built c \<Longrightarrow> built (set_handler h c)"
| built_name: "built c \<Longrightarrow> built (set_name n c)"

definition built_ok :: "'w command \<Rightarrow> bool" where
  "built_ok c \<longleftrightarrow> args_ok (cmd_args (info c)) \<and> siblings_ok (subcommands c) \<and> names_ok c"

lemma names_ok_update:
  "names_ok c \<Longrightarrow> distinct (map arg_name (cmd_args (f (info c)))) \<Longrightarrow> names_ok (update_info f c)"
  by (cases c) (simp add: update_info_def)

lemma built_ok_info:
  "built_ok c \<Longrightarrow> args_ok (cmd_args (f (info c))) \<Longrightarrow> built_ok (update_info f c)"
  using names_ok_update [of c f] by (simp add: built_ok_def args_ok_def update_info_def)

lemma names_ok_ensure_help:
  assumes "names_ok c"
  shows "names_ok (ensure_help_argument c)"
proof -
  have "distinct (map arg_name (cmd_args (info c) @ [help_argument]))" if "\<not> list_ex (\<lambda>d. arg_name d = ''help'') (cmd_args (info c))"
    using that names_ok_args [OF assms] by (auto simp: list_ex_iff help_argument_def make_argument_def)
  then show ?thesis
    using assms by (auto simp: ensure_help_argument_def intro!: names_ok_update)
qed

lemma built_ok_add_command:
  assumes "built_ok c" "names_ok sub" "add_command sub c = Ok c'"
  shows "built_ok c'"
proof -
  define s where "s = ensure_help_argument sub"
  have new: "map_of (subcommands c) (cmd_name (info s)) = None" "sibling_conflict (cmd_name (info s)) (cmd_aliases (info s)) (subcommands c) = None"
    and c': "c' = Command (info c) (map_insert (cmd_name (info s)) s (subcommands c))"
    using assms(3) by (auto simp: add_command_def s_def [symmetric] Let_def split: if_splits option.splits)
  have subs: "\<forall>p\<in>set (map_insert (cmd_name (info s)) s (subcommands c)). names_ok (snd p)"
    using names_ok_ensure_help [OF assms(2)] names_ok_sub [of c] assms(1)
    unfolding set_map_insert [OF new(1)] by (auto simp: built_ok_def s_def)
  show ?thesis
    using assms(1) subs siblings_ok_insert [OF _ new] names_ok_args [of c]
    by (simp add: built_ok_def c' list_all_iff)
qed

lemma built_is_ok: "built c \<Longrightarrow> built_ok c"
proof (induction rule: built.induct)
  case (built_new n h)
  show ?case
    by (simp add: built_ok_def args_ok_def siblings_ok_def has_prefix_def help_argument_def make_argument_def
        new_command_def ensure_help_argument_def update_info_def)
next
  case (built_argument c d c')
  then obtain ds where "register_args d (cmd_args (info c)) = Ok ds" "c' = update_info (\<lambda>i. i\<lparr>cmd_args := ds\<rparr>) c"
    using register_argument_Ok by blast
  with built_argument.IH show ?case
    using register_args_ok [of d "cmd_args (info c)" ds] by (simp add: built_ok_def [of c] built_ok_info)
next
  case (built_command c sub c')
  then show ?case
    using built_ok_add_command [of c sub c'] by (simp add: built_ok_def [of sub])
next
  case (built_alias c a c')
  then have "c' = update_info (\<lambda>i. i\<lparr>cmd_aliases := cmd_aliases i @ [a]\<rparr>) c"
    by (simp add: add_alias_def split: if_splits)
  with built_alias.IH show ?case
    by (simp add: built_ok_info built_ok_def [of c])
next
  case (built_dynamic c t ph desc c')
  then have "c' = update_info (\<lambda>i. i\<lparr>cmd_dynamic := Some \<lparr>keyword_type = t, dyn_description = desc, placeholder = ph\<rparr>\<rparr>) c"
    by (simp add: enable_dynamic_keywords_def split: if_splits)
  with built_dynamic.IH show ?case
    by (simp add: built_ok_info built_ok_def [of c])
next
  case (built_passthrough c desc)
  then show ?case
    unfolding enable_passthrough_def by (intro built_ok_info) (simp_all add: built_ok_def [of c])
next
  case (built_example c title cmd)
  then show ?case
    unfolding add_example_def by (intro built_ok_info) (simp_all add: built_ok_def [of c])
next
  case (built_handler c h)
  then show ?case
    unfolding set_handler_def by (intro built_ok_info) (simp_all add: built_ok_def [of c])
next
  case (built_name c n)
  then show ?case
    unfolding set_name_def by (intro built_ok_info) (simp_all add: built_ok_def [of c])
qed

text \<open>However a command tree is put together: in every command of it no two arguments share a name, in the
  command itself no two share an alias and a name that starts with \<open>no-\<close> is a negation, so the
  check for a clash of an automatic negation never fires; and no word stands for two subcommands,
  so the check for an ambiguous alias never fires.\<close>

theorem built_commands_ok:
  assumes "built c"
  shows "names_ok c \<and> args_ok (cmd_args (info c)) \<and> length (matched_subcommands c w) \<le> 1 \<and>
    register_args d (cmd_args (info c)) \<noteq> Throw (''automatic negation flag name '' @ quoted_name (''no-'' @ arg_name d) @
      '' conflicts with an existing argument.'')"
  using built_is_ok [OF assms] negation_never_clashes matched_at_most_one unfolding built_ok_def by blast

theorem built_commands_ok_witness:
  "names_ok (new_command ''zowex'' [] :: unit command) \<and> length (matched_subcommands (new_command ''zowex'' [] :: unit command) ''ds'') \<le> 1"
  using built_commands_ok [OF built_new, of "''zowex''" "[]" "''ds''"] by blast

end
