(* ===== verification/CommandTree.thy ===== *)
theory CommandTree
  imports ParserBuilt
begin

text \<open>
  The commands that \<open>zowex\<close> registers (the \<open>register_commands\<close> functions of
  \<open>commands/\<close>, \<open>setup_root_command\<close> of \<open>core.cpp\<close> and the \<open>main\<close> function of
  \<open>zowex.cpp\<close>).  A handler is given by the qualified name of its function; the argument
  \<open>hs\<close> has the functions.
\<close>

section \<open>Building a command\<close>

text \<open>A command is made and configured by a sequence of calls, each of which may throw; a subcommand
  is made first and then added.\<close>

fun build :: "'w command \<Rightarrow> ('w command \<Rightarrow> 'w command result) list \<Rightarrow> 'w command result" where
  "build c [] = Ok c"
| "build c (f # fs) = (case f c of Inl e \<Rightarrow> Throw e | Inr c' \<Rightarrow> build c' fs)"

definition add_built :: "'w command result \<Rightarrow> 'w command \<Rightarrow> 'w command result" where
  "add_built sub c = (case sub of Inl e \<Rightarrow> Throw e | Inr s \<Rightarrow> add_command s c)"

section \<open>Argument templates\<close>

definition DSN :: arg_template where
  "DSN = \<lparr>tpl_name = ''dsn'', tpl_aliases = [], tpl_help = ''data set name, optionally with member specified'', tpl_type = ArgType_Single,
     tpl_required = True, tpl_default = no_value, tpl_conflicts = [], tpl_hidden = False, tpl_coerce = False\<rparr>"

definition DSN_PATTERN :: arg_template where
  "DSN_PATTERN = \<lparr>tpl_name = ''dsn'', tpl_aliases = [], tpl_help = ''data set name pattern'', tpl_type = ArgType_Single,
     tpl_required = True, tpl_default = no_value, tpl_conflicts = [], tpl_hidden = False, tpl_coerce = False\<rparr>"

definition JOB_ID :: arg_template where
  "JOB_ID = \<lparr>tpl_name = ''jobid'', tpl_aliases = [], tpl_help = ''valid jobid or job correlator'', tpl_type = ArgType_Single,
     tpl_required = True, tpl_default = no_value, tpl_conflicts = [], tpl_hidden = False, tpl_coerce = False\<rparr>"

definition FILE_PATH :: arg_template where
  "FILE_PATH = \<lparr>tpl_name = ''file-path'', tpl_aliases = [], tpl_help = ''file path'', tpl_type = ArgType_Single,
     tpl_required = True, tpl_default = no_value, tpl_conflicts = [], tpl_hidden = False, tpl_coerce = False\<rparr>"

definition FILE_PATH_SOURCE :: arg_template where
  "FILE_PATH_SOURCE = \<lparr>tpl_name = ''source-path'', tpl_aliases = [], tpl_help = ''source path'', tpl_type = ArgType_Single,
     tpl_required = True, tpl_default = no_value, tpl_conflicts = [], tpl_hidden = False, tpl_coerce = False\<rparr>"

definition FILE_PATH_DEST :: arg_template where
  "FILE_PATH_DEST = \<lparr>tpl_name = ''destination-path'', tpl_aliases = [], tpl_help = ''destination path'', tpl_type = ArgType_Single,
     tpl_required = True, tpl_default = no_value, tpl_conflicts = [], tpl_hidden = False, tpl_coerce = False\<rparr>"

definition ENCODING :: arg_template where
  "ENCODING = \<lparr>tpl_name = ''encoding'', tpl_aliases = [''--encoding'', ''--ec''], tpl_help = ''return contents in given encoding'', tpl_type = ArgType_Single,
     tpl_required = False, tpl_default = no_value, tpl_conflicts = [], tpl_hidden = False, tpl_coerce = False\<rparr>"

definition LOCAL_ENCODING :: arg_template where
  "LOCAL_ENCODING = \<lparr>tpl_name = ''local-encoding'', tpl_aliases = [''--local-encoding'', ''--lec''], tpl_help = ''source encoding of the data'', tpl_type = ArgType_Single,
     tpl_required = False, tpl_default = no_value, tpl_conflicts = [], tpl_hidden = False, tpl_coerce = False\<rparr>"

definition RESPONSE_FORMAT_CSV :: arg_template where
  "RESPONSE_FORMAT_CSV = \<lparr>tpl_name = ''response-format-csv'', tpl_aliases = [''--response-format-csv'', ''--rfc''], tpl_help = ''returns the response in CSV format'', tpl_type = ArgType_Flag,
     tpl_required = False, tpl_default = (mk_arg (VBool False)), tpl_conflicts = [], tpl_hidden = False, tpl_coerce = False\<rparr>"

definition RESPONSE_FORMAT_BYTES :: arg_template where
  "RESPONSE_FORMAT_BYTES = \<lparr>tpl_name = ''response-format-bytes'', tpl_aliases = [''--response-format-bytes'', ''--rfb''], tpl_help = ''returns the response as raw bytes'', tpl_type = ArgType_Flag,
     tpl_required = False, tpl_default = (mk_arg (VBool False)), tpl_conflicts = [], tpl_hidden = False, tpl_coerce = False\<rparr>"

definition ETAG :: arg_template where
  "ETAG = \<lparr>tpl_name = ''etag'', tpl_aliases = [''--etag''], tpl_help = ''Provide the e-tag for a write response to detect conflicts before save'', tpl_type = ArgType_Single,
     tpl_required = False, tpl_default = no_value, tpl_conflicts = [], tpl_hidden = False, tpl_coerce = False\<rparr>"

definition ETAG_ONLY :: arg_template where
  "ETAG_ONLY = \<lparr>tpl_name = ''etag-only'', tpl_aliases = [''--etag-only''], tpl_help = ''Only print the e-tag for a write response (when successful)'', tpl_type = ArgType_Flag,
     tpl_required = False, tpl_default = (mk_arg (VBool False)), tpl_conflicts = [], tpl_hidden = False, tpl_coerce = False\<rparr>"

definition RETURN_ETAG :: arg_template where
  "RETURN_ETAG = \<lparr>tpl_name = ''return-etag'', tpl_aliases = [''--return-etag''], tpl_help = ''Display the e-tag for a read response in addition to data'', tpl_type = ArgType_Flag,
     tpl_required = False, tpl_default = (mk_arg (VBool False)), tpl_conflicts = [], tpl_hidden = False, tpl_coerce = False\<rparr>"

definition PIPE_PATH :: arg_template where
  "PIPE_PATH = \<lparr>tpl_name = ''pipe-path'', tpl_aliases = [''--pipe-path''], tpl_help = ''Specify a FIFO pipe path for transferring binary data'', tpl_type = ArgType_Single,
     tpl_required = False, tpl_default = no_value, tpl_conflicts = [], tpl_hidden = True, tpl_coerce = False\<rparr>"

definition VOLSER :: arg_template where
  "VOLSER = \<lparr>tpl_name = ''volser'', tpl_aliases = [''--volser'', ''--vs''], tpl_help = ''Specify volume serial where the data set resides'', tpl_type = ArgType_Single,
     tpl_required = False, tpl_default = no_value, tpl_conflicts = [], tpl_hidden = False, tpl_coerce = False\<rparr>"

definition MAX_ENTRIES :: arg_template where
  "MAX_ENTRIES = \<lparr>tpl_name = ''max-entries'', tpl_aliases = [''--max-entries'', ''--me''], tpl_help = ''max number of results to return before warning generated'', tpl_type = ArgType_Single,
     tpl_required = False, tpl_default = no_value, tpl_conflicts = [], tpl_hidden = False, tpl_coerce = False\<rparr>"

definition WARN :: arg_template where
  "WARN = \<lparr>tpl_name = ''warn'', tpl_aliases = [''--warn''], tpl_help = ''warn if truncated or not found'', tpl_type = ArgType_Flag,
     tpl_required = False, tpl_default = (mk_arg (VBool True)), tpl_conflicts = [], tpl_hidden = False, tpl_coerce = False\<rparr>"

definition RECURSIVE :: arg_template where
  "RECURSIVE = \<lparr>tpl_name = ''recursive'', tpl_aliases = [''--recursive'', ''-r''], tpl_help = ''Applies the operation recursively'', tpl_type = ArgType_Flag,
     tpl_required = False, tpl_default = (mk_arg (VBool False)), tpl_conflicts = [], tpl_hidden = False, tpl_coerce = False\<rparr>"

section \<open>Console\<close>

definition console_issue_cmd :: "(string \<Rightarrow> 'w cli_handler) \<Rightarrow> 'w command result" where
  "console_issue_cmd hs = build (new_command ''issue'' ''issue a console command'')
    [add_keyword_arg ''console-name'' [''--cn'', ''--console-name''] ''extended console name'' ArgType_Single False (mk_arg (VString ''zowex'')) False,
     add_keyword_arg ''wait'' [''--wait''] ''wait for responses'' ArgType_Flag False (mk_arg (VBool True)) False,
     add_keyword_arg ''timeout'' [''--timeout''] ''timeout in seconds'' ArgType_Single False no_value False,
     add_positional_arg ''command'' (''command to run, e.g. '' @ [CHR 0x27] @ ''D IPLINFO'' @ [CHR 0x27]) ArgType_Single True no_value False,
     Inr \<circ> set_handler (hs ''console::handle_console_issue'')]"

definition console_group :: "(string \<Rightarrow> 'w cli_handler) \<Rightarrow> 'w command result" where
  "console_group hs = build (new_command ''console'' ''z/OS console operations'')
    [add_alias ''cn'',
     add_built (console_issue_cmd hs)]"

section \<open>Data sets\<close>

definition data_set_create_cmd :: "(string \<Rightarrow> 'w cli_handler) \<Rightarrow> 'w command result" where
  "data_set_create_cmd hs = build (new_command ''create'' ''create data set'')
    [add_alias ''cre'',
     add_positional_template DSN,
     add_keyword_arg ''alcunit'' [''--alcunit''] ''Allocation unit'' ArgType_Single False no_value False,
     add_keyword_arg ''blksize'' [''--blksize''] ''Block size'' ArgType_Single False no_value False,
     add_keyword_arg ''dirblk'' [''--dirblk''] ''Directory blocks'' ArgType_Single False no_value False,
     add_keyword_arg ''dsorg'' [''--dsorg''] ''Data set organization'' ArgType_Single False no_value False,
     add_keyword_arg ''primary'' [''--primary''] ''Primary space'' ArgType_Single False no_value False,
     add_keyword_arg ''recfm'' [''--recfm''] ''Record format'' ArgType_Single False (mk_arg (VString ''FB'')) False,
     add_keyword_arg ''lrecl'' [''--lrecl''] ''Record length'' ArgType_Single False no_value False,
     add_keyword_arg ''dataclass'' [''--dataclass''] ''Data class'' ArgType_Single False no_value False,
     add_keyword_arg ''unit'' [''--unit''] ''Device type'' ArgType_Single False no_value False,
     add_keyword_arg ''dsntype'' [''--dsntype''] ''Data set type'' ArgType_Single False no_value False,
     add_keyword_arg ''mgntclass'' [''--mgntclass''] ''Management class'' ArgType_Single False no_value False,
     add_keyword_arg ''dsname'' [''--dsname''] ''Data set name'' ArgType_Single False no_value False,
     add_keyword_arg ''avgblk'' [''--avgblk''] ''Average block length'' ArgType_Single False no_value False,
     add_keyword_arg ''secondary'' [''--secondary''] ''Secondary space'' ArgType_Single False no_value False,
     add_keyword_arg ''size'' [''--size''] ''Size'' ArgType_Single False no_value False,
     add_keyword_arg ''storclass'' [''--storclass''] ''Storage class'' ArgType_Single False no_value False,
     add_keyword_arg ''vol'' [''--vol''] ''Volume serial'' ArgType_Single False no_value False,
     Inr \<circ> set_handler (hs ''ds::create_with_attributes'')]"

definition data_set_create_fb_cmd :: "(string \<Rightarrow> 'w cli_handler) \<Rightarrow> 'w command result" where
  "data_set_create_fb_cmd hs = build (new_command ''create-fb'' ''create FB data set using defaults: DSORG=PO, RECFM=FB, LRECL=80 '')
    [add_alias ''cre-fb'',
     add_positional_template DSN,
     Inr \<circ> set_handler (hs ''ds::handle_data_set_create_fb'')]"

definition data_set_create_vb_cmd :: "(string \<Rightarrow> 'w cli_handler) \<Rightarrow> 'w command result" where
  "data_set_create_vb_cmd hs = build (new_command ''create-vb'' ''create VB data set using defaults: DSORG=PO, RECFM=VB, LRECL=255'')
    [add_alias ''cre-vb'',
     add_positional_template DSN,
     Inr \<circ> set_handler (hs ''ds::handle_data_set_create_vb'')]"

definition data_set_create_adata_cmd :: "(string \<Rightarrow> 'w cli_handler) \<Rightarrow> 'w command result" where
  "data_set_create_adata_cmd hs = build (new_command ''create-adata'' ''create VB data set using defaults: DSORG=PO, RECFM=VB, LRECL=32756'')
    [add_alias ''cre-a'',
     add_positional_template DSN,
     Inr \<circ> set_handler (hs ''ds::handle_data_set_create_adata'')]"

definition data_set_create_loadlib_cmd :: "(string \<Rightarrow> 'w cli_handler) \<Rightarrow> 'w command result" where
  "data_set_create_loadlib_cmd hs = build (new_command ''create-loadlib'' ''create loadlib data set using defaults: DSORG=PO, RECFM=U, LRECL=0'')
    [add_alias ''cre-u'',
     add_positional_template DSN,
     Inr \<circ> set_handler (hs ''ds::handle_data_set_create_loadlib'')]"

definition data_set_create_member_cmd :: "(string \<Rightarrow> 'w cli_handler) \<Rightarrow> 'w command result" where
  "data_set_create_member_cmd hs = build (new_command ''create-member'' ''create member in data set'')
    [add_alias ''cre-m'',
     add_positional_arg ''dsn'' ''data set name with member specified'' ArgType_Single True no_value False,
     Inr \<circ> set_handler (hs ''ds::handle_data_set_create_member'')]"

definition data_set_view_cmd :: "(string \<Rightarrow> 'w cli_handler) \<Rightarrow> 'w command result" where
  "data_set_view_cmd hs = build (new_command ''view'' ''view data set'')
    [add_positional_template DSN,
     add_keyword_template ENCODING,
     add_keyword_template LOCAL_ENCODING,
     add_keyword_template RESPONSE_FORMAT_BYTES,
     add_keyword_template RETURN_ETAG,
     add_keyword_template PIPE_PATH,
     add_keyword_template VOLSER,
     Inr \<circ> set_handler (hs ''ds::handle_data_set_view'')]"

definition data_set_list_cmd :: "(string \<Rightarrow> 'w cli_handler) \<Rightarrow> 'w command result" where
  "data_set_list_cmd hs = build (new_command ''list'' ''list data sets'')
    [add_alias ''ls'',
     add_positional_template DSN_PATTERN,
     add_keyword_arg ''attributes'' [''--attributes'', ''-a''] ''display data set attributes'' ArgType_Flag False (mk_arg (VBool False)) False,
     add_keyword_template MAX_ENTRIES,
     add_keyword_template WARN,
     add_keyword_template RESPONSE_FORMAT_CSV,
     Inr \<circ> set_handler (hs ''ds::handle_data_set_list''),
     Inr \<circ> add_example ''List SYS1.* with all attributes'' (''zowex ds ls '' @ [CHR 0x27] @ ''sys1.*'' @ [CHR 0x27] @ '' -a'')]"

definition data_set_list_members_cmd :: "(string \<Rightarrow> 'w cli_handler) \<Rightarrow> 'w command result" where
  "data_set_list_members_cmd hs = build (new_command ''list-members'' ''list data set members'')
    [add_alias ''lm'',
     add_positional_template DSN,
     add_keyword_arg ''attributes'' [''--attributes'', ''-a''] ''display data set attributes'' ArgType_Flag False (mk_arg (VBool False)) False,
     add_keyword_template MAX_ENTRIES,
     add_keyword_arg ''pattern'' [''--pattern'', ''-p''] ''filters results by the given member pattern'' ArgType_Single False no_value False,
     add_keyword_template WARN,
     add_keyword_template RESPONSE_FORMAT_CSV,
     Inr \<circ> set_handler (hs ''ds::handle_data_set_list_members'')]"

definition data_set_write_cmd :: "(string \<Rightarrow> 'w cli_handler) \<Rightarrow> 'w command result" where
  "data_set_write_cmd hs = build (new_command ''write'' ''write to data set'')
    [add_positional_template DSN,
     add_keyword_template ENCODING,
     add_keyword_template LOCAL_ENCODING,
     add_keyword_template ETAG,
     add_keyword_template ETAG_ONLY,
     add_keyword_template PIPE_PATH,
     add_keyword_template VOLSER,
     Inr \<circ> set_handler (hs ''ds::handle_data_set_write'')]"

definition data_set_delete_cmd :: "(string \<Rightarrow> 'w cli_handler) \<Rightarrow> 'w command result" where
  "data_set_delete_cmd hs = build (new_command ''delete'' ''delete data set'')
    [add_alias ''del'',
     add_positional_template DSN,
     Inr \<circ> set_handler (hs ''ds::handle_data_set_delete'')]"

definition data_set_restore_cmd :: "(string \<Rightarrow> 'w cli_handler) \<Rightarrow> 'w command result" where
  "data_set_restore_cmd hs = build (new_command ''restore'' ''restore/recall data set'')
    [add_positional_template DSN,
     Inr \<circ> set_handler (hs ''ds::handle_data_set_restore'')]"

definition data_set_rename_cmd :: "(string \<Rightarrow> 'w cli_handler) \<Rightarrow> 'w command result" where
  "data_set_rename_cmd hs = build (new_command ''rename'' ''rename data set'')
    [add_alias ''ren'',
     add_positional_arg ''dsname-before'' ''data set to rename'' ArgType_Single True no_value False,
     add_positional_arg ''dsname-after'' ''new data set name'' ArgType_Single True no_value False,
     Inr \<circ> set_handler (hs ''ds::handle_data_set_rename'')]"

definition data_set_rename_members_cmd :: "(string \<Rightarrow> 'w cli_handler) \<Rightarrow> 'w command result" where
  "data_set_rename_members_cmd hs = build (new_command ''rename-member'' ''rename a member'')
    [add_alias ''ren-m'',
     add_positional_template DSN,
     add_positional_arg ''member-before'' ''member to rename'' ArgType_Single True no_value False,
     add_positional_arg ''member-after'' ''new member name'' ArgType_Single True no_value False,
     Inr \<circ> set_handler (hs ''ds::handle_rename_member'')]"

definition data_set_compress_cmd :: "(string \<Rightarrow> 'w cli_handler) \<Rightarrow> 'w command result" where
  "data_set_compress_cmd hs = build (new_command ''compress'' ''compress data set'')
    [add_positional_arg ''dsn'' ''data set to compress'' ArgType_Single True no_value False,
     Inr \<circ> set_handler (hs ''ds::handle_data_set_compress'')]"

definition data_set_copy_cmd :: "(string \<Rightarrow> 'w cli_handler) \<Rightarrow> 'w command result" where
  "data_set_copy_cmd hs = build (new_command ''copy'' ''copy data set (RECFM=U not supported)'')
    [add_positional_arg ''source'' ''source data set to copy from'' ArgType_Single True no_value False,
     add_positional_arg ''target'' ''target data set to copy to'' ArgType_Single True no_value False,
     add_keyword_arg ''replace'' [''--replace'', ''-r''] ''replace matching members in target PDS with source members (keeps non-matching target members)'' ArgType_Flag False (mk_arg (VBool False)) False,
     add_keyword_arg ''delete-target-members'' [''--delete-target-members'', ''-d''] ''delete all members from target PDS before copying (PDS-to-PDS copy only, makes target match source exactly)'' ArgType_Flag False (mk_arg (VBool False)) False,
     Inr \<circ> set_handler (hs ''ds::handle_data_set_copy'')]"

definition data_set_cmd :: "(string \<Rightarrow> 'w cli_handler) \<Rightarrow> 'w command result" where
  "data_set_cmd hs = build (new_command ''data-set'' ''z/OS data set operations'')
    [add_alias ''ds'',
     add_built (data_set_create_cmd hs),
     add_built (data_set_create_fb_cmd hs),
     add_built (data_set_create_vb_cmd hs),
     add_built (data_set_create_adata_cmd hs),
     add_built (data_set_create_loadlib_cmd hs),
     add_built (data_set_create_member_cmd hs),
     add_built (data_set_view_cmd hs),
     add_built (data_set_list_cmd hs),
     add_built (data_set_list_members_cmd hs),
     add_built (data_set_write_cmd hs),
     add_built (data_set_delete_cmd hs),
     add_built (data_set_restore_cmd hs),
     add_built (data_set_rename_cmd hs),
     add_built (data_set_rename_members_cmd hs),
     add_built (data_set_compress_cmd hs),
     add_built (data_set_copy_cmd hs)]"

section \<open>Jobs\<close>

definition job_list_cmd :: "(string \<Rightarrow> 'w cli_handler) \<Rightarrow> 'w command result" where
  "job_list_cmd hs = build (new_command ''list'' ''list jobs'')
    [add_alias ''ls'',
     add_keyword_arg ''owner'' [''--owner'', ''-o''] ''filter by owner'' ArgType_Single False no_value False,
     add_keyword_arg ''prefix'' [''--prefix'', ''-p''] ''filter by prefix'' ArgType_Single False no_value False,
     add_keyword_arg ''status'' [''--status'', ''-s''] ''filter by status'' ArgType_Single False no_value False,
     add_keyword_template MAX_ENTRIES,
     add_keyword_template WARN,
     add_keyword_template RESPONSE_FORMAT_CSV,
     Inr \<circ> set_handler (hs ''job::handle_job_list'')]"

definition job_list_files_cmd :: "(string \<Rightarrow> 'w cli_handler) \<Rightarrow> 'w command result" where
  "job_list_files_cmd hs = build (new_command ''list-files'' ''list spool files for jobid'')
    [add_alias ''lf'',
     add_positional_template JOB_ID,
     add_keyword_template MAX_ENTRIES,
     add_keyword_template WARN,
     add_keyword_template RESPONSE_FORMAT_CSV,
     Inr \<circ> set_handler (hs ''job::handle_job_list_files'')]"

definition job_view_status_cmd :: "(string \<Rightarrow> 'w cli_handler) \<Rightarrow> 'w command result" where
  "job_view_status_cmd hs = build (new_command ''view-status'' ''view job status'')
    [add_alias ''vs'',
     add_positional_template JOB_ID,
     add_keyword_template RESPONSE_FORMAT_CSV,
     Inr \<circ> set_handler (hs ''job::handle_job_view_status'')]"

definition job_view_file_cmd :: "(string \<Rightarrow> 'w cli_handler) \<Rightarrow> 'w command result" where
  "job_view_file_cmd hs = build (new_command ''view-file'' ''view job file output'')
    [add_alias ''vf'',
     add_positional_arg ''dsn'' (''job dsn via '' @ [CHR 0x27] @ ''job list-files'' @ [CHR 0x27]) ArgType_Single True no_value False,
     add_keyword_template ENCODING,
     add_keyword_template LOCAL_ENCODING,
     add_keyword_template RESPONSE_FORMAT_BYTES,
     Inr \<circ> set_handler (hs ''job::handle_job_view_file'')]"

definition job_view_file_by_id_cmd :: "(string \<Rightarrow> 'w cli_handler) \<Rightarrow> 'w command result" where
  "job_view_file_by_id_cmd hs = build (new_command ''view-file-by-id'' ''view job file output by id'')
    [add_alias ''vfbi'',
     add_positional_template JOB_ID,
     add_positional_arg ''key'' (''valid job dsn key via '' @ [CHR 0x27] @ ''job list-files'' @ [CHR 0x27]) ArgType_Single True no_value False,
     add_keyword_template ENCODING,
     add_keyword_template LOCAL_ENCODING,
     add_keyword_template RESPONSE_FORMAT_BYTES,
     Inr \<circ> set_handler (hs ''job::handle_job_view_file_by_id'')]"

definition job_view_jcl_cmd :: "(string \<Rightarrow> 'w cli_handler) \<Rightarrow> 'w command result" where
  "job_view_jcl_cmd hs = build (new_command ''view-jcl'' ''view job jcl from input jobid'')
    [add_alias ''vj'',
     add_positional_template JOB_ID,
     Inr \<circ> set_handler (hs ''job::handle_job_view_jcl'')]"

definition job_submit_cmd :: "(string \<Rightarrow> 'w cli_handler) \<Rightarrow> 'w command result" where
  "job_submit_cmd hs = build (new_command ''submit'' ''submit a job'')
    [add_alias ''sub'',
     add_positional_template DSN,
     add_keyword_arg ''wait'' [''--wait''] ''wait for job status'' ArgType_Single False no_value False,
     add_keyword_arg ''only-jobid'' [''--only-jobid'', ''--oj''] ''show only job id on success'' ArgType_Flag False (mk_arg (VBool False)) False,
     add_keyword_arg ''only-correlator'' [''--only-correlator'', ''--oc''] ''show only job correlator on success'' ArgType_Flag False (mk_arg (VBool False)) False,
     Inr \<circ> set_handler (hs ''job::handle_job_submit'')]"

definition job_submit_jcl_cmd :: "(string \<Rightarrow> 'w cli_handler) \<Rightarrow> 'w command result" where
  "job_submit_jcl_cmd hs = build (new_command ''submit-jcl'' ''submit JCL contents directly'')
    [add_alias ''subj'',
     add_keyword_arg ''wait'' [''--wait''] ''wait for job status'' ArgType_Single False no_value False,
     add_keyword_arg ''only-jobid'' [''--only-jobid'', ''--oj''] ''show only job id on success'' ArgType_Flag False (mk_arg (VBool False)) False,
     add_keyword_arg ''only-correlator'' [''--only-correlator'', ''--oc''] ''show only job correlator on success'' ArgType_Flag False (mk_arg (VBool False)) False,
     add_keyword_template ENCODING,
     add_keyword_template LOCAL_ENCODING,
     Inr \<circ> set_handler (hs ''job::handle_job_submit_jcl'')]"

definition job_submit_uss_cmd :: "(string \<Rightarrow> 'w cli_handler) \<Rightarrow> 'w command result" where
  "job_submit_uss_cmd hs = build (new_command ''submit-uss'' ''submit a job from USS files'')
    [add_alias ''sub-u'',
     add_positional_template FILE_PATH,
     add_keyword_arg ''wait'' [''--wait''] ''wait for job status'' ArgType_Single False no_value False,
     add_keyword_arg ''only-jobid'' [''--only-jobid'', ''--oj''] ''show only job id on success'' ArgType_Flag False (mk_arg (VBool False)) False,
     add_keyword_arg ''only-correlator'' [''--only-correlator'', ''--oc''] ''show only job correlator on success'' ArgType_Flag False (mk_arg (VBool False)) False,
     Inr \<circ> set_handler (hs ''job::handle_job_submit_uss'')]"

definition job_delete_cmd :: "(string \<Rightarrow> 'w cli_handler) \<Rightarrow> 'w command result" where
  "job_delete_cmd hs = build (new_command ''delete'' ''delete a job'')
    [add_alias ''del'',
     add_positional_template JOB_ID,
     Inr \<circ> set_handler (hs ''job::handle_job_delete'')]"

definition job_watch_cmd :: "(string \<Rightarrow> 'w cli_handler) \<Rightarrow> 'w command result" where
  "job_watch_cmd hs = build (new_command ''watch'' ''watch job spool files for a given string pattern'')
    [add_alias ''wch'',
     add_positional_arg ''job-dsn'' (''job dsn to watch (from '' @ [CHR 0x27] @ ''job list-files'' @ [CHR 0x27] @ '')'') ArgType_Single True no_value False,
     add_keyword_arg ''pattern'' [''--pattern'', ''-p''] ''string pattern to watch for in spool files'' ArgType_Single True no_value False,
     add_keyword_arg ''max-wait-seconds'' [''--max-wait-seconds'', ''--mws''] ''maximum number of seconds to wait for the pattern to match (max 300 seconds)'' ArgType_Single False (mk_arg (VInt 15)) False,
     add_keyword_arg ''ignore-case'' [''--ignore-case'', ''--ic''] ''match string in any case'' ArgType_Flag False (mk_arg (VBool False)) False,
     Inr \<circ> set_handler (hs ''job::handle_job_watch''),
     Inr \<circ> add_example ''Watch job spool files for a given string pattern'' (''zowex job watch IBMUSER.IEFBR14@.JOB01684.D0000002.JESMSGLG --pattern '' @ [quote] @ ''$HASP395 IEFBR14@ ENDED'' @ [quote]),
     Inr \<circ> add_example ''Watch job spool files for a given regex pattern'' (''zowex job watch IBMUSER.IEFBR14@.JOB01684D0000002.JESMSGLG --pattern '' @ [quote] @ ''/^.*ENDED.*$/g'' @ [quote])]"

definition job_cancel_cmd :: "(string \<Rightarrow> 'w cli_handler) \<Rightarrow> 'w command result" where
  "job_cancel_cmd hs = build (new_command ''cancel'' ''cancel a job'')
    [add_alias ''cnl'',
     add_positional_template JOB_ID,
     add_keyword_arg ''dump'' [''--dump'', ''-d''] ''Dump the cancelled jobs if waiting for conversion, in conversion, or in execution'' ArgType_Flag False (mk_arg (VBool False)) False,
     add_keyword_arg ''force'' [''--force'', ''-f''] ''Force cancel the jobs, even if marked'' ArgType_Flag False (mk_arg (VBool False)) False,
     add_keyword_arg ''purge'' [''--purge'', ''-p''] ''Purge output of the cancelled jobs'' ArgType_Flag False (mk_arg (VBool False)) False,
     add_keyword_arg ''restart'' [''--restart'', ''-r''] ''Request that automatic restart management automatically restart the selected jobs after they are cancelled'' ArgType_Flag False (mk_arg (VBool False)) False,
     Inr \<circ> set_handler (hs ''job::handle_job_cancel'')]"

definition job_hold_cmd :: "(string \<Rightarrow> 'w cli_handler) \<Rightarrow> 'w command result" where
  "job_hold_cmd hs = build (new_command ''hold'' ''hold a job'')
    [add_alias ''hld'',
     add_positional_template JOB_ID,
     Inr \<circ> set_handler (hs ''job::handle_job_hold'')]"

definition job_release_cmd :: "(string \<Rightarrow> 'w cli_handler) \<Rightarrow> 'w command result" where
  "job_release_cmd hs = build (new_command ''release'' ''release a job'')
    [add_alias ''rel'',
     add_positional_template JOB_ID,
     Inr \<circ> set_handler (hs ''job::handle_job_release'')]"

definition job_group :: "(string \<Rightarrow> 'w cli_handler) \<Rightarrow> 'w command result" where
  "job_group hs = build (new_command ''job'' ''z/OS job operations'')
    [add_built (job_list_cmd hs),
     add_built (job_list_files_cmd hs),
     add_built (job_view_status_cmd hs),
     add_built (job_view_file_cmd hs),
     add_built (job_view_file_by_id_cmd hs),
     add_built (job_view_jcl_cmd hs),
     add_built (job_submit_cmd hs),
     add_built (job_submit_jcl_cmd hs),
     add_built (job_submit_uss_cmd hs),
     add_built (job_delete_cmd hs),
     add_built (job_watch_cmd hs),
     add_built (job_cancel_cmd hs),
     add_built (job_hold_cmd hs),
     add_built (job_release_cmd hs)]"

section \<open>Server\<close>

definition server_cmd :: "(string \<Rightarrow> 'w cli_handler) \<Rightarrow> 'w command result" where
  "server_cmd hs = build (new_command ''server'' ''start the Zowe Remote SSH I/O server'')
    [add_keyword_arg ''num-workers'' [''-w'', ''--num-workers''] ''number of worker threads'' ArgType_Single False (mk_arg (VInt 10)) False,
     add_keyword_arg ''verbose'' [''-v'', ''--verbose''] ''enable verbose logging'' ArgType_Flag False (mk_arg (VBool False)) False,
     add_keyword_arg ''request-timeout'' [''-t'', ''--request-timeout''] ''request timeout in seconds before a worker is restarted'' ArgType_Single False (mk_arg (VInt 60)) False,
     Inr \<circ> set_handler (hs ''server::handle_server'')]"

section \<open>System\<close>

definition system_display_symbol_cmd :: "(string \<Rightarrow> 'w cli_handler) \<Rightarrow> 'w command result" where
  "system_display_symbol_cmd hs = build (new_command ''display-symbol'' ''display system symbol'')
    [add_positional_arg ''symbol'' ''symbol to display'' ArgType_Single True no_value False,
     Inr \<circ> set_handler (hs ''sys::handle_system_display_symbol'')]"

definition system_list_parmlib_cmd :: "(string \<Rightarrow> 'w cli_handler) \<Rightarrow> 'w command result" where
  "system_list_parmlib_cmd hs = build (new_command ''list-parmlib'' ''list parmlib'')
    [Inr \<circ> set_handler (hs ''sys::handle_system_list_parmlib'')]"

definition system_list_proclib_cmd :: "(string \<Rightarrow> 'w cli_handler) \<Rightarrow> 'w command result" where
  "system_list_proclib_cmd hs = build (new_command ''list-proclib'' ''list proclib'')
    [Inr \<circ> set_handler (hs ''sys::handle_system_list_proclib'')]"

definition system_list_subsystems_cmd :: "(string \<Rightarrow> 'w cli_handler) \<Rightarrow> 'w command result" where
  "system_list_subsystems_cmd hs = build (new_command ''list-subsystems'' ''list subsystems'')
    [Inr \<circ> set_handler (hs ''sys::handle_system_list_subsystems''),
     add_keyword_arg ''filter'' [''--filter'', ''-f''] ''filter subsystems'' ArgType_Single False no_value False]"

definition system_view_syslog_cmd :: "(string \<Rightarrow> 'w cli_handler) \<Rightarrow> 'w command result" where
  "system_view_syslog_cmd hs = build (new_command ''view-syslog'' ''view syslog'')
    [Inr \<circ> set_handler (hs ''sys::handle_system_view_syslog''),
     add_keyword_arg ''time'' [''--time'', ''-t''] ''specify time, e.g. -t 10:41:00.15'' ArgType_Single False no_value False,
     add_keyword_arg ''date'' [''--date'', ''-d''] ''specify date yyyy-mm-dd, e.g. --date 2026-01-20'' ArgType_Single False (mk_arg (VString [])) True,
     add_keyword_arg ''max-lines'' [''--max-lines'', ''--ml''] ''specify maximum number of lines to display, e.g. --max-lines 100'' ArgType_Single False no_value False,
     Inr \<circ> add_example ''View syslog for a specific date and time'' ''zowex system view-syslog --date 2026-03-13 --time 10:41:00.15'']"

definition system_cmd :: "(string \<Rightarrow> 'w cli_handler) \<Rightarrow> 'w command result" where
  "system_cmd hs = build (new_command ''system'' ''system operations'')
    [add_built (system_display_symbol_cmd hs),
     add_built (system_list_parmlib_cmd hs),
     add_built (system_list_proclib_cmd hs),
     add_built (system_list_subsystems_cmd hs),
     add_built (system_view_syslog_cmd hs)]"

section \<open>Tools\<close>

definition tool_convert_dsect_cmd :: "(string \<Rightarrow> 'w cli_handler) \<Rightarrow> 'w command result" where
  "tool_convert_dsect_cmd hs = build (new_command ''ccnedsct'' ''convert dsect to c struct'')
    [add_keyword_arg ''adata-dsn'' [''--adata-dsn'', ''--ad''] ''input adata dsn'' ArgType_Single True no_value False,
     add_keyword_arg ''chdr-dsn'' [''--chdr-dsn'', ''--cd''] ''output chdr dsn'' ArgType_Single True no_value False,
     add_keyword_arg ''sysprint'' [''--sysprint'', ''--sp''] ''sysprint output'' ArgType_Single False no_value False,
     add_keyword_arg ''sysout'' [''--sysout'', ''--so''] ''sysout output'' ArgType_Single False no_value False,
     Inr \<circ> set_handler (hs ''tool::handle_tool_convert_dsect'')]"

definition tool_dynalloc_cmd :: "(string \<Rightarrow> 'w cli_handler) \<Rightarrow> 'w command result" where
  "tool_dynalloc_cmd hs = build (new_command ''bpxwdy2'' ''dynalloc command'')
    [add_positional_arg ''parm'' ''dynalloc parm string'' ArgType_Single False no_value False,
     Inr \<circ> set_handler (hs ''tool::handle_tool_dynalloc'')]"

definition tool_search_cmd :: "(string \<Rightarrow> 'w cli_handler) \<Rightarrow> 'w command result" where
  "tool_search_cmd hs = build (new_command ''search'' ''search members for string with parms, e.g. --parms anyc'')
    [add_positional_template DSN,
     add_positional_arg ''string'' ''string to search for'' ArgType_Single True no_value False,
     add_keyword_arg ''parms'' [''--parms'', ''--p''] ''parms to pass to ISRSUPC'' ArgType_Single False no_value False,
     add_keyword_arg ''outdd-attributes'' [''--outdd-attributes'', ''--oa''] (''attributes for output dd, e.g. '' @ [CHR 0x27] @ ''space(50,100)'' @ [CHR 0x27]) ArgType_Single False no_value False,
     Inr \<circ> add_example (''Search '' @ [CHR 0x27] @ ''SYS1.MACLIB'' @ [CHR 0x27] @ '' for string '' @ [CHR 0x27] @ ''world'' @ [CHR 0x27] @ '' with parms '' @ [CHR 0x27] @ ''ANYC'' @ [CHR 0x27]) ''zowex tool search sys1.maclib world --parms anyc'',
     Inr \<circ> add_example (''Search '' @ [CHR 0x27] @ ''SYS1.MACLIB'' @ [CHR 0x27] @ '' for string '' @ [CHR 0x27] @ ''world'' @ [CHR 0x27] @ '' with parms '' @ [CHR 0x27] @ ''ANYC,LPSF'' @ [CHR 0x27]) (''zowex tool search sys1.maclib world --parms anyc,lpsf --outdd-attributes '' @ [quote] @ ''cylinders space(50,5)'' @ [quote]),
     Inr \<circ> set_handler (hs ''tool::handle_tool_search'')]"

definition tool_amblist_cmd :: "(string \<Rightarrow> 'w cli_handler) \<Rightarrow> 'w command result" where
  "tool_amblist_cmd hs = build (new_command ''amblist'' ''invoke amblist'')
    [add_positional_arg ''dsn'' ''data containing input load modules'' ArgType_Single True no_value False,
     add_keyword_arg ''control-statements'' [''--control-statements'', ''--cs''] ''amblist control statements, e.g. listload output=map,member=testprog'' ArgType_Single True no_value False,
     Inr \<circ> set_handler (hs ''tool::handle_tool_amblist'')]"

definition tool_run_cmd :: "(string \<Rightarrow> 'w cli_handler) \<Rightarrow> 'w command result" where
  "tool_run_cmd hs = build (new_command ''run'' ''run a program'')
    [add_positional_arg ''program'' ''name of program to run'' ArgType_Single True no_value False,
     add_keyword_arg ''in-dd'' [''--in-dd'', ''--idd''] ''input ddname'' ArgType_Single False no_value False,
     add_keyword_arg ''in-dd-parms'' [''--input'', ''--in''] ''input parameters written to in-dd'' ArgType_Single False no_value False,
     add_keyword_arg ''parms'' [''--parms'', ''--p''] ''parms to pass to program, PARMS='' ArgType_Single False no_value False,
     add_keyword_arg ''out-dd'' [''--out-dd'', ''--odd''] ''output ddname'' ArgType_Single False no_value False,
     enable_dynamic_keywords ArgType_Single ''dd'' (''ddname(s) to allocate, e.g. --sysprint '' @ [quote] @ ''sysout=*'' @ [quote] @ '' --sysut1 '' @ [quote] @ ''da(MY.DATA.SET) shr msg(2)'' @ [quote]),
     Inr \<circ> set_handler (hs ''tool::handle_tool_run'')]"

definition tool_cmd :: "(string \<Rightarrow> 'w cli_handler) \<Rightarrow> 'w command result" where
  "tool_cmd hs = build (new_command ''tool'' ''tool operations'')
    [add_built (tool_convert_dsect_cmd hs),
     add_built (tool_dynalloc_cmd hs),
     add_built (tool_search_cmd hs),
     add_built (tool_amblist_cmd hs),
     add_built (tool_run_cmd hs)]"

section \<open>TSO\<close>

definition tso_issue_cmd :: "(string \<Rightarrow> 'w cli_handler) \<Rightarrow> 'w command result" where
  "tso_issue_cmd hs = build (new_command ''issue'' ''issue TSO command'')
    [add_positional_arg ''command'' ''command to issue'' ArgType_Single True no_value False,
     Inr \<circ> set_handler (hs ''tso::handle_tso_issue'')]"

definition tso_group :: "(string \<Rightarrow> 'w cli_handler) \<Rightarrow> 'w command result" where
  "tso_group hs = build (new_command ''tso'' ''TSO operations'')
    [add_built (tso_issue_cmd hs)]"

section \<open>USS\<close>

definition uss_copy_cmd :: "(string \<Rightarrow> 'w cli_handler) \<Rightarrow> 'w command result" where
  "uss_copy_cmd hs = build (new_command ''copy'' ''copy a USS file or directory'')
    [add_positional_template FILE_PATH_SOURCE,
     add_positional_template FILE_PATH_DEST,
     add_keyword_arg ''follow-symlinks'' [''--follow-symlinks'', ''-L''] (''follows symlinks within a directory tree. requires '' @ [quote] @ ''--recursive'' @ [quote]) ArgType_Flag False no_value False,
     add_keyword_arg ''recursive'' [''--recursive'', ''-r''] ''recursively copies if the source is a directory'' ArgType_Flag False no_value False,
     add_keyword_arg ''preserve-attributes'' [''--preserve-attributes'', ''-p''] ''preserve permission bits and ownership on copy to destination'' ArgType_Flag False no_value False,
     add_keyword_arg ''force'' [''--force'', ''-f''] ''attempts to remove and replace a UNIX destination file that cannot be opened'' ArgType_Flag False no_value False,
     Inr \<circ> set_handler (hs ''uss::handle_uss_copy'')]"

definition uss_create_file_cmd :: "(string \<Rightarrow> 'w cli_handler) \<Rightarrow> 'w command result" where
  "uss_create_file_cmd hs = build (new_command ''create-file'' ''create a USS file'')
    [add_positional_template FILE_PATH,
     add_keyword_arg ''mode'' [''--mode''] ''permissions'' ArgType_Single False no_value False,
     Inr \<circ> set_handler (hs ''uss::handle_uss_create_file'')]"

definition uss_create_dir_cmd :: "(string \<Rightarrow> 'w cli_handler) \<Rightarrow> 'w command result" where
  "uss_create_dir_cmd hs = build (new_command ''create-dir'' ''create a USS directory'')
    [add_positional_template FILE_PATH,
     add_keyword_arg ''mode'' [''--mode''] ''permissions'' ArgType_Single False no_value False,
     Inr \<circ> set_handler (hs ''uss::handle_uss_create_dir'')]"

definition uss_move_cmd :: "(string \<Rightarrow> 'w cli_handler) \<Rightarrow> 'w command result" where
  "uss_move_cmd hs = build (new_command ''move'' ''move a USS file or directory'')
    [add_alias ''mv'',
     add_positional_arg ''source'' ''source path'' ArgType_Single True no_value False,
     add_positional_arg ''target'' ''target path'' ArgType_Single True no_value False,
     add_arg ''force'' [] ''force overwrite'' ArgType_Flag False False (mk_arg (VBool True)) True False,
     Inr \<circ> set_handler (hs ''uss::handle_uss_move'')]"

definition uss_list_cmd :: "(string \<Rightarrow> 'w cli_handler) \<Rightarrow> 'w command result" where
  "uss_list_cmd hs = build (new_command ''list'' ''list USS files and directories'')
    [add_alias ''ls'',
     add_positional_template FILE_PATH,
     add_keyword_arg ''all'' [''--all'', ''-a''] ''list all files and directories'' ArgType_Flag False (mk_arg (VBool False)) False,
     add_keyword_arg ''long'' [''--long'', ''-l''] ''list long format'' ArgType_Flag False (mk_arg (VBool False)) False,
     add_keyword_arg ''depth'' [''--depth''] ''depth of subdirectories to list'' ArgType_Single False (mk_arg (VInt 1)) False,
     add_keyword_template RESPONSE_FORMAT_CSV,
     Inr \<circ> set_handler (hs ''uss::handle_uss_list'')]"

definition uss_view_cmd :: "(string \<Rightarrow> 'w cli_handler) \<Rightarrow> 'w command result" where
  "uss_view_cmd hs = build (new_command ''view'' ''view a USS file'')
    [add_positional_template FILE_PATH,
     add_keyword_template ENCODING,
     add_keyword_template LOCAL_ENCODING,
     add_keyword_template RESPONSE_FORMAT_BYTES,
     add_keyword_template RETURN_ETAG,
     add_keyword_template PIPE_PATH,
     Inr \<circ> set_handler (hs ''uss::handle_uss_view'')]"

definition uss_write_cmd :: "(string \<Rightarrow> 'w cli_handler) \<Rightarrow> 'w command result" where
  "uss_write_cmd hs = build (new_command ''write'' ''write to a USS file'')
    [add_positional_template FILE_PATH,
     add_keyword_template ENCODING,
     add_keyword_template LOCAL_ENCODING,
     add_keyword_template ETAG,
     add_keyword_template ETAG_ONLY,
     add_keyword_template PIPE_PATH,
     Inr \<circ> set_handler (hs ''uss::handle_uss_write'')]"

definition uss_delete_cmd :: "(string \<Rightarrow> 'w cli_handler) \<Rightarrow> 'w command result" where
  "uss_delete_cmd hs = build (new_command ''delete'' ''delete a USS item'')
    [add_positional_template FILE_PATH,
     add_keyword_template RECURSIVE,
     Inr \<circ> set_handler (hs ''uss::handle_uss_delete'')]"

definition uss_chmod_cmd :: "(string \<Rightarrow> 'w cli_handler) \<Rightarrow> 'w command result" where
  "uss_chmod_cmd hs = build (new_command ''chmod'' ''change permissions on a USS file or directory'')
    [add_positional_arg ''mode'' ''new permissions for the file or directory'' ArgType_Single True no_value False,
     add_positional_template FILE_PATH,
     add_keyword_template RECURSIVE,
     Inr \<circ> set_handler (hs ''uss::handle_uss_chmod'')]"

definition uss_chown_cmd :: "(string \<Rightarrow> 'w cli_handler) \<Rightarrow> 'w command result" where
  "uss_chown_cmd hs = build (new_command ''chown'' ''change owner on a USS file or directory'')
    [add_positional_arg ''owner'' ''New owner (or owner:group) for the file or directory'' ArgType_Single True no_value False,
     add_positional_template FILE_PATH,
     add_keyword_template RECURSIVE,
     Inr \<circ> set_handler (hs ''uss::handle_uss_chown'')]"

definition uss_chtag_cmd :: "(string \<Rightarrow> 'w cli_handler) \<Rightarrow> 'w command result" where
  "uss_chtag_cmd hs = build (new_command ''chtag'' ''change tags on a USS file'')
    [add_positional_template FILE_PATH,
     add_positional_arg ''tag'' ''new tag for the file'' ArgType_Single True no_value False,
     add_keyword_template RECURSIVE,
     Inr \<circ> set_handler (hs ''uss::handle_uss_chtag'')]"

definition uss_issue_cmd :: "(string \<Rightarrow> 'w cli_handler) \<Rightarrow> 'w command result" where
  "uss_issue_cmd hs = build (new_command ''issue'' ''issue a UNIX command'')
    [add_positional_arg ''command'' ''command to issue'' ArgType_Single True no_value False,
     Inr \<circ> set_handler (hs ''uss::handle_uss_issue_cmd'')]"

definition uss_group :: "(string \<Rightarrow> 'w cli_handler) \<Rightarrow> 'w command result" where
  "uss_group hs = build (new_command ''uss'' ''z/OS USS operations'')
    [add_built (uss_copy_cmd hs),
     add_built (uss_create_file_cmd hs),
     add_built (uss_create_dir_cmd hs),
     add_built (uss_move_cmd hs),
     add_built (uss_list_cmd hs),
     add_built (uss_view_cmd hs),
     add_built (uss_write_cmd hs),
     add_built (uss_delete_cmd hs),
     add_built (uss_chmod_cmd hs),
     add_built (uss_chown_cmd hs),
     add_built (uss_chtag_cmd hs),
     add_built (uss_issue_cmd hs)]"

section \<open>The root command\<close>

definition version_cmd :: "(string \<Rightarrow> 'w cli_handler) \<Rightarrow> 'w command result" where
  "version_cmd hs = build (new_command ''version'' ''display version information'')
    [Inr \<circ> set_handler (hs ''core::handle_version'')]"

definition plugins_cmd :: "(string \<Rightarrow> 'w cli_handler) \<Rightarrow> 'w command result" where
  "plugins_cmd hs = build (new_command ''plugins'' ''plug-in management commands'')
    [add_built (build (new_command ''list'' ''list available plug-ins'')
       [Inr \<circ> set_handler (hs ''core::handle_plugins_list'')])]"

definition setup_root_command :: "string \<Rightarrow> (string \<Rightarrow> 'w cli_handler) \<Rightarrow> 'w command result" where
  "setup_root_command argv0 hs = build (new_command argv0 ''Zowe Remote SSH CLI'')
    [add_keyword_arg ''interactive'' [''--interactive'', ''--it''] ''interactive (REPL) mode'' ArgType_Flag False (mk_arg (VBool False)) False,
     add_keyword_arg ''version'' [''--version'', ''-v''] ''display version information'' ArgType_Flag False (mk_arg (VBool False)) False,
     Inr \<circ> set_handler (hs ''core::handle_command''),
     add_built (version_cmd hs),
     add_built (plugins_cmd hs)]"

text \<open>\<open>main\<close> adds the command groups in this order, before those of the plug-ins.\<close>

definition zowex_root :: "string \<Rightarrow> (string \<Rightarrow> 'w cli_handler) \<Rightarrow> 'w command result" where
  "zowex_root argv0 hs = (case setup_root_command argv0 hs of Inl e \<Rightarrow> Throw e | Inr root \<Rightarrow> build root
    [add_built (console_group hs), add_built (data_set_cmd hs), add_built (job_group hs), add_built (server_cmd hs),
     add_built (system_cmd hs), add_built (tool_cmd hs), add_built (tso_group hs), add_built (uss_group hs)])"

section \<open>Comparing names\<close>


text \<open>Command names are written in lower-case letters and hyphens, which have the same order in both
  code pages; that is how a comparison of two names is computed.\<close>

definition name_char :: "char \<Rightarrow> bool" where
  "name_char c \<longleftrightarrow> code c = 45 \<or> 97 \<le> code c \<and> code c \<le> 122"

definition letter_byte :: "nat \<Rightarrow> nat" where
  "letter_byte n = (if n = 45 then 96 else if n \<le> 105 then n + 32 else if n \<le> 114 then n + 39 else n + 47)"

lemma table_segments:
  "take 1 (drop 96 e2a_table) = [45]"
  "take 9 (drop 129 e2a_table) = [97..<106]"
  "take 9 (drop 145 e2a_table) = [106..<115]"
  "take 8 (drop 162 e2a_table) = [115..<123]"
  by (simp_all add: e2a_table_def upt_rec)

lemma segment_byte:
  assumes "take k (drop i e2a_table) = [a..<b]" "i + k \<le> 256" "a \<le> n" "n < b"
  shows "a2e n = i + (n - a)"
proof -
  have len: "b - a = k"
    using assms(2) arg_cong [OF assms(1), of length] by simp
  then have "e2a_table ! (i + (n - a)) = take k (drop i e2a_table) ! (n - a)"
    using assms(2-4) by simp
  also have "\<dots> = n"
    using assms by simp
  finally show ?thesis
    using a2e_e2a [of "i + (n - a)"] assms(2-4) len by simp
qed

lemma name_char_byte: "name_char c \<Longrightarrow> a2e (code c) = letter_byte (code c)"
  using table_segments(1) segment_byte [OF table_segments(2)] segment_byte [OF table_segments(3)] segment_byte [OF table_segments(4)]
    segment_byte [of 1 96 45 46 45]
  by (auto simp: name_char_def letter_byte_def not_le)

lemma letter_byte_less: "name_char c \<Longrightarrow> name_char d \<Longrightarrow> letter_byte (code c) < letter_byte (code d) \<longleftrightarrow> code c < code d"
  by (auto simp: name_char_def letter_byte_def)

lemma key_less_code [code]:
  "key_less s [] = False"
  "key_less [] (d # t) = True"
  "key_less (c # s) (d # t) = (if c = d then key_less s t
     else if name_char c \<and> name_char d then code c < code d else byte_of c < byte_of d)"
  using letter_byte_less [of c d] name_char_byte
  by (auto simp: word_less_nat_alt unat_byte_of)

section \<open>The tree is registered\<close>

text \<open>What adding a group needs to know of it, and what parsing needs.\<close>

definition group_ok :: "string \<Rightarrow> string list \<Rightarrow> 'w command result \<Rightarrow> bool" where
  "group_ok n als r = (case r of Inl e \<Rightarrow> False | Inr c \<Rightarrow> cmd_name (info c) = n \<and> cmd_aliases (info c) = als \<and>
     list_ex (\<lambda>d. arg_name d = ''help'') (cmd_args (info c)) \<and> names_ok c \<and> positionals_ok c)"

lemma console_ok: "group_ok ''console'' [''cn''] (console_group hs)"
  by code_simp

lemma data_set_ok: "group_ok ''data-set'' [''ds''] (data_set_cmd hs)"
  by code_simp

lemma job_ok: "group_ok ''job'' [] (job_group hs)"
  by code_simp

lemma server_ok: "group_ok ''server'' [] (server_cmd hs)"
  by code_simp

lemma system_ok: "group_ok ''system'' [] (system_cmd hs)"
  by code_simp

lemma tool_ok: "group_ok ''tool'' [] (tool_cmd hs)"
  by code_simp

lemma tso_ok: "group_ok ''tso'' [] (tso_group hs)"
  by code_simp

lemma uss_ok: "group_ok ''uss'' [] (uss_group hs)"
  by code_simp

text \<open>The root as it grows: its subcommands by name and alias.\<close>

definition grows :: "(string \<times> string list) list \<Rightarrow> 'w command result \<Rightarrow> bool" where
  "grows ns r = (case r of Inl e \<Rightarrow> False | Inr c \<Rightarrow>
     map (\<lambda>(k, s). (k, cmd_aliases (info s))) (subcommands c) = ns \<and> names_ok c \<and> positionals_ok c)"

lemma root_ok: "grows [(''plugins'', []), (''version'', [])] (setup_root_command argv0 hs)"
  by code_simp

fun conflicts :: "string \<Rightarrow> string list \<Rightarrow> (string \<times> string list) list \<Rightarrow> bool" where
  "conflicts n als [] = False"
| "conflicts n als ((k, bs) # ns) = (k = n \<or> n \<in> set bs \<or> list_ex (\<lambda>a. k = a \<or> a \<in> set bs) als \<or> conflicts n als ns)"

lemma no_conflict:
  "\<not> conflicts n als (map (\<lambda>(k, s). (k, cmd_aliases (info s))) cs) \<Longrightarrow>
    map_of cs n = None \<and> sibling_conflict n als cs = None"
  by (induction cs) (auto simp: has_alias_def find_None_iff list_ex_iff split: option.splits)

lemma map_insert_map: "map (\<lambda>(k, s). (k, f s)) (map_insert n c cs) = map_insert n (f c) (map (\<lambda>(k, s). (k, f s)) cs)"
  by (induction n c cs rule: map_insert.induct) auto

lemma add_built_grows:
  assumes "grows ns (Ok c)" "group_ok n als s" "\<not> conflicts n als ns" "n \<notin> set als" "map_insert n als ns = ns'"
  shows "\<exists>c'. add_built s c = Ok c' \<and> grows ns' (Ok c')"
proof -
  obtain s' where s: "s = Ok s'" "cmd_name (info s') = n" "cmd_aliases (info s') = als" "ensure_help_argument s' = s'"
    "names_ok s'" "positionals_ok s'"
    using assms(2) by (auto simp: group_ok_def ensure_help_argument_def split: sum.splits)
  have c: "map (\<lambda>(k, s). (k, cmd_aliases (info s))) (subcommands c) = ns" "names_ok c" "positionals_ok c"
    using assms(1) by (auto simp: grows_def)
  have new: "map_of (subcommands c) n = None" "sibling_conflict n als (subcommands c) = None"
    using no_conflict [of n als "subcommands c"] assms(3) c(1) by auto
  define c' where "c' = Command (info c) (map_insert n s' (subcommands c))"
  have "add_built s c = Ok c'"
    using s new assms(4) by (simp add: add_built_def add_command_def Let_def c'_def)
  moreover have "names_ok c'" "positionals_ok c'"
    using c s(5,6) set_map_insert [OF new(1), of s'] by (cases c; simp add: c'_def list_all_iff)+
  moreover have "map (\<lambda>(k, s). (k, cmd_aliases (info s))) (subcommands c') = ns'"
    using map_insert_map [of "\<lambda>s. cmd_aliases (info s)" n s' "subcommands c"] c(1) s(3) assms(5) by (simp add: c'_def)
  ultimately show ?thesis
    by (auto simp: grows_def)
qed

fun insert_all :: "(string \<times> string list) list \<Rightarrow> (string \<times> string list) list \<Rightarrow> (string \<times> string list) list option" where
  "insert_all [] ns = Some ns"
| "insert_all ((n, als) # gs) ns = (if conflicts n als ns \<or> n \<in> set als then None else insert_all gs (map_insert n als ns))"

lemma build_grows:
  assumes "grows ns (Ok c)" "list_all2 (\<lambda>(n, als) s. group_ok n als s) gs ss" "insert_all gs ns = Some ns'"
  shows "grows ns' (build c (map add_built ss))"
  using assms(2,1,3)
proof (induction gs ss arbitrary: ns c rule: list_all2_induct)
  case (Cons g gs s ss)
  obtain n als where g: "g = (n, als)"
    by force
  with Cons.prems Cons.hyps obtain c' where "add_built s c = Ok c'" "grows (map_insert n als ns) (Ok c')"
    using add_built_grows [of ns c n als s] by (auto split: if_splits)
  with Cons.IH [of "map_insert n als ns" c'] Cons.prems(2) show ?case
    by (simp add: g split: if_splits)
qed simp

definition zowex_groups :: "(string \<times> string list) list" where
  "zowex_groups = [(''console'', [''cn'']), (''data-set'', [''ds'']), (''job'', []), (''server'', []), (''system'', []),
     (''tool'', []), (''tso'', []), (''uss'', [])]"

definition zowex_names :: "(string \<times> string list) list" where
  "zowex_names = [(''console'', [''cn'']), (''data-set'', [''ds'']), (''job'', []), (''plugins'', []), (''server'', []),
     (''system'', []), (''tool'', []), (''tso'', []), (''uss'', []), (''version'', [])]"

lemma zowex_inserts: "insert_all zowex_groups [(''plugins'', []), (''version'', [])] = Some zowex_names"
  by code_simp

lemma zowex_root_grows: "grows zowex_names (zowex_root argv0 hs)"
proof -
  obtain root where root: "setup_root_command argv0 hs = Ok root" "grows [(''plugins'', []), (''version'', [])] (Ok root)"
    using root_ok [of argv0 hs] by (auto simp: grows_def split: sum.splits)
  have "list_all2 (\<lambda>(n, als) s. group_ok n als s) zowex_groups
    [console_group hs, data_set_cmd hs, job_group hs, server_cmd hs, system_cmd hs, tool_cmd hs, tso_group hs, uss_group hs]"
    by (simp add: zowex_groups_def console_ok data_set_ok job_ok server_ok system_ok tool_ok tso_ok uss_ok)
  from build_grows [OF root(2) this zowex_inserts] show ?thesis
    by (simp add: zowex_root_def root(1))
qed

text \<open>C21: Whatever the handlers are, \<open>main\<close> registers every command without an exception: the root then has
  these subcommands with these aliases, in every command of the tree no two arguments have the same name
  and no positional argument is a flag, so that parsing any command line ends.\<close>

theorem zowex_commands:
  "\<exists>root. zowex_root argv0 hs = Ok root \<and>
     map (\<lambda>(k, s). (k, cmd_aliases (info s))) (subcommands root) = zowex_names \<and>
     names_ok root \<and> positionals_ok root \<and> parse_argv e root argv w \<noteq> None \<and> parse_line e root line w \<noteq> None"
proof -
  obtain root where "zowex_root argv0 hs = Ok root" "grows zowex_names (Ok root)"
    using zowex_root_grows [of argv0 hs] by (auto simp: grows_def split: sum.splits)
  then show ?thesis
    using parses_end [of root e argv w line] by (auto simp: grows_def)
qed

end
