(* ===== verification/Context.thy ===== *)
theory Context
  imports Base64 JsonApi Rpc Plugin
begin

text \<open>
  The middleware context of one RPC command (\<open>server/rpcio.hpp\<close>, \<open>server/rpcio.cpp\<close>), and
  the process around it: what the server reads from and writes to the operating system is a world
  \<open>'w\<close> that only the given functions change, and the lines it writes are kept in order with
  the stream they go to.  A handler is a function on contexts.
\<close>

section \<open>The process\<close>

text \<open>The JSON services as the server uses them, the double conversions, the environment variable
  \<open>TMPDIR\<close>, the ids of the process, and the two file system calls with the \<open>errno\<close> they leave
  (0 for success).\<close>

record 'w env =
  env_from_str :: "string \<Rightarrow> jvalue expected"
  env_to_string :: "jvalue \<Rightarrow> string expected"
  env_fp :: fp
  env_tmpdir :: "string option"
  env_geteuid :: int
  env_getpid :: int
  env_unlink :: "string \<Rightarrow> 'w \<Rightarrow> int \<times> 'w"
  env_mkfifo :: "string \<Rightarrow> int \<Rightarrow> 'w \<Rightarrow> int \<times> 'w"
  env_ENOENT :: int

text \<open>The JSON part of the environment on the z/OS services.  A text whose handles go deeper than
  the fuel counts as one that fails to parse.\<close>

definition service_from_str :: "'h json_parser \<Rightarrow> nat \<Rightarrow> string \<Rightarrow> jvalue expected" where
  "service_from_str p fuel s = (case from_str p fuel s of
     Some r \<Rightarrow> r | None \<Rightarrow> Throw (mk_error Custom ''Failed to parse JSON string''))"

datatype output_line = Stdout string | Stderr string

record 'w ctx =
  command_path :: string
  args :: argument_map
  input_stream :: string
  output_stream :: string
  error_stream :: string
  object_node :: "ast option"
  content_len :: "nat option"
  pending_notification :: "rpc_notification option"
  large_data :: "string smap"
  emitted :: "output_line list"
  world :: 'w

definition new_ctx :: "string \<Rightarrow> argument_map \<Rightarrow> 'w \<Rightarrow> 'w ctx" where
  "new_ctx path arguments w = \<lparr>command_path = path, args = arguments, input_stream = [], output_stream = [],
     error_stream = [], object_node = None, content_len = None, pending_notification = None, large_data = [],
     emitted = [], world = w\<rparr>"

text \<open>How a handler ends.\<close>

datatype outcome = Returned int | ThrewStd string | ThrewOther

type_synonym 'w handler = "'w ctx \<Rightarrow> outcome \<times> 'w ctx"

section \<open>Streams\<close>

definition io_print :: "string \<Rightarrow> 'w ctx \<Rightarrow> 'w ctx" where
  "io_print s c = c\<lparr>output_stream := output_stream c @ c_str s\<rparr>"

definition println :: "string \<Rightarrow> 'w ctx \<Rightarrow> 'w ctx" where
  "println s c = (io_print s c)\<lparr>output_stream := output_stream (io_print s c) @ [newline]\<rparr>"

definition io_err :: "string \<Rightarrow> 'w ctx \<Rightarrow> 'w ctx" where
  "io_err e c = c\<lparr>error_stream := error_stream c @ c_str e\<rparr>"

definition errln :: "string \<Rightarrow> 'w ctx \<Rightarrow> 'w ctx" where
  "errln e c = (io_err e c)\<lparr>error_stream := error_stream (io_err e c) @ [newline]\<rparr>"

definition set_input_content :: "string \<Rightarrow> 'w ctx \<Rightarrow> 'w ctx" where
  "set_input_content content c = c\<lparr>input_stream := content\<rparr>"

definition get_output_content :: "'w ctx \<Rightarrow> string" where
  "get_output_content c = output_stream c"

definition get_error_content :: "'w ctx \<Rightarrow> string" where
  "get_error_content c = error_stream c"

definition set_object :: "ast option \<Rightarrow> 'w ctx \<Rightarrow> 'w ctx" where
  "set_object n c = c\<lparr>object_node := n\<rparr>"

definition store_large_data :: "string \<Rightarrow> string \<Rightarrow> 'w ctx \<Rightarrow> 'w ctx" where
  "store_large_data field_name data c = c\<lparr>large_data := AList.update field_name data (large_data c)\<rparr>"

definition LARGE_DATA_THRESHOLD :: nat where
  "LARGE_DATA_THRESHOLD = 16 * 1024 * 1024"

section \<open>Notifications\<close>

definition serialize_json :: "'w env \<Rightarrow> jvalue \<Rightarrow> string result" where
  "serialize_json e v = (case env_to_string e v of
     Inl err \<Rightarrow> Throw (''Failed to serialize JSON: '' @ what err) | Inr s \<Rightarrow> Ok s)"

text \<open>The lines of a notification, or what sending it throws.\<close>

definition send_notification :: "'w env \<Rightarrow> rpc_notification \<Rightarrow> output_line list result" where
  "send_notification e notification = (case notification_to_json notification of
     Inl err \<Rightarrow> Throw (what err)
   | Inr v \<Rightarrow> map_sum id (\<lambda>s. [Stdout s]) (serialize_json e v))"

definition set_pending_notification :: "rpc_notification \<Rightarrow> 'w ctx \<Rightarrow> 'w ctx" where
  "set_pending_notification n c = c\<lparr>pending_notification := Some n\<rparr>"

text \<open>\<open>set_content_len\<close>: the context, and the exception if one is thrown; the pending
  notification is given up only after it has been sent.\<close>

definition with_content_len :: "'w env \<Rightarrow> nat \<Rightarrow> rpc_notification \<Rightarrow> rpc_notification result" where
  "with_content_len e content_length n = (case params n of
     None \<Rightarrow> Ok n
   | Some v \<Rightarrow> (case add_to_object ''contentLen'' (value_of_ull (env_fp e) (int content_length)) v of
       Inl err \<Rightarrow> Throw (what err) | Inr v \<Rightarrow> Ok (n\<lparr>params := Some v\<rparr>)))"

definition set_content_len :: "'w env \<Rightarrow> nat \<Rightarrow> 'w ctx \<Rightarrow> exn option \<times> 'w ctx" where
  "set_content_len e content_length c =
     (let c = c\<lparr>content_len := Some content_length\<rparr> in
      case pending_notification c of
        None \<Rightarrow> (None, c)
      | Some n \<Rightarrow>
         (case with_content_len e content_length n of
            Inl err \<Rightarrow> (Some err, c)
          | Inr n \<Rightarrow>
             (case send_notification e n of
                Inl err \<Rightarrow> (Some err, c\<lparr>pending_notification := Some n\<rparr>)
              | Inr ls \<Rightarrow> (None, c\<lparr>emitted := emitted c @ ls, pending_notification := None\<rparr>))))"

lemma send_notification_line: "send_notification e q = Ok ls \<Longrightarrow> \<exists>s. ls = map Stdout [s]"
proof (cases "notification_to_json q")
  case (Inr v)
  assume "send_notification e q = Ok ls"
  then show ?thesis
    using Inr by (cases "serialize_json e v") (auto simp: send_notification_def)
qed (simp add: send_notification_def)

text \<open>C35: A deferred notification is sent at most once: when the content length is set and sending
  works, the pending notification goes out as one line on the output stream and is given up, so no
  later call sends anything; when it fails nothing is written, the error is thrown, and the
  notification stays pending.\<close>

theorem deferred_notification_once:
  "case set_content_len e n c of
     (None, c') \<Rightarrow> pending_notification c' = None \<and> content_len c' = Some n \<and>
       (\<exists>ls. emitted c' = emitted c @ map Stdout ls \<and> length ls = (if pending_notification c = None then 0 else 1)) \<and>
       emitted (snd (set_content_len e k c')) = emitted c'
   | (Some err, c') \<Rightarrow> pending_notification c' \<noteq> None \<and> emitted c' = emitted c"
proof (cases "pending_notification c")
  case None
  then show ?thesis
    by (simp add: set_content_len_def Let_def)
next
  case (Some p)
  show ?thesis
  proof (cases "with_content_len e n p")
    case (Inr q)
    show ?thesis
    proof (cases "send_notification e q")
      case (Inr ls)
      then obtain s where "ls = map Stdout [s]"
        using send_notification_line by blast
      then show ?thesis
        using Some \<open>with_content_len e n p = Ok q\<close> Inr
        by (auto simp: set_content_len_def Let_def intro!: exI [of _ "[s]"])
    qed (use Some Inr in \<open>simp add: set_content_len_def Let_def\<close>)
  qed (simp add: set_content_len_def Let_def Some)
qed

end
