(* ===== verification/Validator.thy ===== *)
theory Validator
  imports Json
begin

text \<open>
  Schema validation of requests and responses (\<open>server/validator.hpp\<close>,
  \<open>server/validator.cpp\<close>).  A schema is the list of its field descriptors; the nested schema of
  a field, a pointer that may be null, is an option.  The lemmas compare the validator's loop with a
  declarative reading of a schema, and say what the rest of an object may contain.
\<close>

section \<open>Descriptors and results\<close>

datatype field_type = TYPE_BOOL | TYPE_NUMBER | TYPE_STRING | TYPE_ARRAY | TYPE_OBJECT | TYPE_ANY

datatype field_descriptor = FieldDescriptor
  (fd_name: string) (fd_type: field_type) (required: bool)
  (array_element_type: field_type) (nested_schema: "field_descriptor list option")

record validation_result =
  is_valid :: bool
  error_message :: string

definition vsuccess :: validation_result where
  "vsuccess = \<lparr>is_valid = True, error_message = []\<rparr>"

definition verror :: "string \<Rightarrow> validation_result" where
  "verror message = \<lparr>is_valid = False, error_message = message\<rparr>"

text \<open>The macros that build descriptors.\<close>

definition FIELD_REQUIRED :: "string \<Rightarrow> field_type \<Rightarrow> field_descriptor" where
  "FIELD_REQUIRED n t = FieldDescriptor n t True TYPE_ANY None"

definition FIELD_OPTIONAL :: "string \<Rightarrow> field_type \<Rightarrow> field_descriptor" where
  "FIELD_OPTIONAL n t = FieldDescriptor n t False TYPE_ANY None"

definition FIELD_REQUIRED_ARRAY :: "string \<Rightarrow> field_type \<Rightarrow> field_descriptor" where
  "FIELD_REQUIRED_ARRAY n t = FieldDescriptor n TYPE_ARRAY True t None"

definition FIELD_OPTIONAL_ARRAY :: "string \<Rightarrow> field_type \<Rightarrow> field_descriptor" where
  "FIELD_OPTIONAL_ARRAY n t = FieldDescriptor n TYPE_ARRAY False t None"

definition FIELD_REQUIRED_OBJECT :: "string \<Rightarrow> field_descriptor list \<Rightarrow> field_descriptor" where
  "FIELD_REQUIRED_OBJECT n schema = FieldDescriptor n TYPE_OBJECT True TYPE_ANY (Some schema)"

definition FIELD_OPTIONAL_OBJECT :: "string \<Rightarrow> field_descriptor list \<Rightarrow> field_descriptor" where
  "FIELD_OPTIONAL_OBJECT n schema = FieldDescriptor n TYPE_OBJECT False TYPE_ANY (Some schema)"

definition FIELD_REQUIRED_OBJECT_ARRAY :: "string \<Rightarrow> field_descriptor list \<Rightarrow> field_descriptor" where
  "FIELD_REQUIRED_OBJECT_ARRAY n schema = FieldDescriptor n TYPE_ARRAY True TYPE_OBJECT (Some schema)"

definition FIELD_OPTIONAL_OBJECT_ARRAY :: "string \<Rightarrow> field_descriptor list \<Rightarrow> field_descriptor" where
  "FIELD_OPTIONAL_OBJECT_ARRAY n schema = FieldDescriptor n TYPE_ARRAY False TYPE_OBJECT (Some schema)"

lemmas field_macros = FIELD_REQUIRED_def FIELD_OPTIONAL_def FIELD_REQUIRED_ARRAY_def FIELD_OPTIONAL_ARRAY_def
  FIELD_REQUIRED_OBJECT_def FIELD_OPTIONAL_OBJECT_def FIELD_REQUIRED_OBJECT_ARRAY_def FIELD_OPTIONAL_OBJECT_ARRAY_def

section \<open>The validator\<close>

definition check_type :: "jvalue \<Rightarrow> field_type \<Rightarrow> bool" where
  "check_type v expected_type = (case expected_type of
     TYPE_BOOL \<Rightarrow> is_bool v
   | TYPE_NUMBER \<Rightarrow> is_integer v \<or> is_double v
   | TYPE_STRING \<Rightarrow> is_string v
   | TYPE_ARRAY \<Rightarrow> is_array v
   | TYPE_OBJECT \<Rightarrow> is_object v
   | TYPE_ANY \<Rightarrow> True)"

definition field_type_name :: "field_type \<Rightarrow> string" where
  "field_type_name t = (case t of
     TYPE_BOOL \<Rightarrow> ''boolean'' | TYPE_NUMBER \<Rightarrow> ''number'' | TYPE_STRING \<Rightarrow> ''string''
   | TYPE_ARRAY \<Rightarrow> ''array'' | TYPE_OBJECT \<Rightarrow> ''object'' | TYPE_ANY \<Rightarrow> ''any'')"

definition actual_type_name :: "jvalue \<Rightarrow> string" where
  "actual_type_name v =
     (if is_null v then ''null'' else if is_bool v then ''boolean''
      else if is_integer v \<or> is_double v then ''number'' else if is_string v then ''string''
      else if is_array v then ''array'' else if is_object v then ''object'' else ''unknown'')"

definition get_field_path :: "string \<Rightarrow> string \<Rightarrow> string" where
  "get_field_path parent_field name = (if parent_field = [] then name else parent_field @ ''.'' @ name)"

definition wrong_type :: "string \<Rightarrow> field_type \<Rightarrow> jvalue \<Rightarrow> validation_result" where
  "wrong_type path t v = verror (''Field '' @ [CHR 0x27] @ path @ [CHR 0x27] @ '' has wrong type. Expected '' @
     field_type_name t @ '', got '' @ actual_type_name v)"

definition nested_too_deep :: validation_result where
  "nested_too_deep = verror ''Nested schemas beyond 1 level deep are not supported''"

fun unknown_loop :: "string list \<Rightarrow> string \<Rightarrow> jvalue smap \<Rightarrow> validation_result" where
  "unknown_loop seen_fields parent_field [] = vsuccess"
| "unknown_loop seen_fields parent_field ((k, v) # rest) =
     (if k \<in> set seen_fields then unknown_loop seen_fields parent_field rest
      else verror (''Unknown field: '' @ get_field_path parent_field k))"

function validate_schema :: "jvalue \<Rightarrow> field_descriptor list \<Rightarrow> bool \<Rightarrow> string \<Rightarrow> validation_result"
and check_fields :: "jvalue smap \<Rightarrow> field_descriptor list \<Rightarrow> bool \<Rightarrow> string \<Rightarrow> string list \<Rightarrow> validation_result"
where
  "validate_schema v schema allow_unknown_fields parent_field = (case v of
     JObject obj \<Rightarrow> check_fields obj schema allow_unknown_fields parent_field []
   | _ \<Rightarrow> verror ''Parameters must be an object'')"
| "check_fields obj [] allow_unknown_fields parent_field seen_fields =
     (if \<not> allow_unknown_fields then unknown_loop seen_fields parent_field obj else vsuccess)"
| "check_fields obj (FieldDescriptor n t req elem nested # fs) allow_unknown_fields parent_field seen_fields =
     (case map_of obj n of
        None \<Rightarrow> (if req then verror (''Missing required field: '' @ get_field_path parent_field n)
                 else check_fields obj fs allow_unknown_fields parent_field seen_fields)
      | Some v \<Rightarrow>
         (if is_null v \<and> \<not> req then check_fields obj fs allow_unknown_fields parent_field (n # seen_fields)
          else if \<not> check_type v t then wrong_type (get_field_path parent_field n) t v
          else
            (let nested_result =
               (case nested of
                  None \<Rightarrow> vsuccess
                | Some ns \<Rightarrow> (if t \<noteq> TYPE_OBJECT then vsuccess
                            else if parent_field \<noteq> [] then nested_too_deep
                            else validate_schema v ns allow_unknown_fields n))
             in if \<not> is_valid nested_result then nested_result
                else
                  (let element_result =
                     (if t = TYPE_ARRAY \<and> elem \<noteq> TYPE_ANY then
                        (case v of
                           JArray (x # _) \<Rightarrow>
                             (if \<not> check_type x elem then wrong_type (get_field_path parent_field n @ ''[0]'') elem x
                              else (case nested of
                                      None \<Rightarrow> vsuccess
                                    | Some ns \<Rightarrow> (if elem \<noteq> TYPE_OBJECT then vsuccess
                                                else if parent_field \<noteq> [] then nested_too_deep
                                                else validate_schema x ns allow_unknown_fields (n @ ''[0]''))))
                         | _ \<Rightarrow> vsuccess)
                      else vsuccess)
                   in if \<not> is_valid element_result then element_result
                      else check_fields obj fs allow_unknown_fields parent_field (n # seen_fields)))))"
  by pat_completeness auto
termination
  by (relation "measure (\<lambda>x. case x of Inl (v, schema, a, p) \<Rightarrow> 2 * size_list size schema + 1
      | Inr (obj, schema, a, p, s) \<Rightarrow> 2 * size_list size schema)") auto

declare validate_schema.simps [simp del] check_fields.simps [simp del]

section \<open>Reading a schema declaratively\<close>

text \<open>What a field asks of an object, given what its nested schema asks of a value: a missing field
  is optional, a null counts as missing, the type is right, and of an array the first element.\<close>

definition nested_ok :: "(jvalue \<Rightarrow> field_descriptor list \<Rightarrow> bool) \<Rightarrow> field_descriptor \<Rightarrow> jvalue \<Rightarrow> bool" where
  "nested_ok sub f v \<longleftrightarrow>
     (case nested_schema f of Some ns \<Rightarrow> fd_type f = TYPE_OBJECT \<longrightarrow> sub v ns | None \<Rightarrow> True) \<and>
     (case v of
        JArray (x # _) \<Rightarrow> fd_type f = TYPE_ARRAY \<and> array_element_type f \<noteq> TYPE_ANY \<longrightarrow>
          check_type x (array_element_type f) \<and>
          (case nested_schema f of Some ns \<Rightarrow> array_element_type f = TYPE_OBJECT \<longrightarrow> sub x ns | None \<Rightarrow> True)
      | _ \<Rightarrow> True)"

definition field_ok :: "(jvalue \<Rightarrow> field_descriptor list \<Rightarrow> bool) \<Rightarrow> jvalue smap \<Rightarrow> field_descriptor \<Rightarrow> bool" where
  "field_ok sub obj f \<longleftrightarrow> (case map_of obj (fd_name f) of
     None \<Rightarrow> \<not> required f
   | Some v \<Rightarrow> v = JNull \<and> \<not> required f \<or> check_type v (fd_type f) \<and> nested_ok sub f v)"

definition conforms_with :: "(jvalue \<Rightarrow> field_descriptor list \<Rightarrow> bool) \<Rightarrow> bool \<Rightarrow> jvalue \<Rightarrow> field_descriptor list \<Rightarrow> bool" where
  "conforms_with sub allow v schema \<longleftrightarrow> (case v of
     JObject obj \<Rightarrow> (\<forall>f\<in>set schema. field_ok sub obj f) \<and> (allow \<or> fst ` set obj \<subseteq> fd_name ` set schema)
   | _ \<Rightarrow> False)"

definition conforms_nested :: "bool \<Rightarrow> jvalue \<Rightarrow> field_descriptor list \<Rightarrow> bool" where
  "conforms_nested allow = conforms_with (\<lambda>_ _. False) allow"

definition conforms :: "bool \<Rightarrow> jvalue \<Rightarrow> field_descriptor list \<Rightarrow> bool" where
  "conforms allow = conforms_with (conforms_nested allow) allow"

lemma vresult_simps [simp]:
  "is_valid vsuccess" "\<not> is_valid (verror m)" "\<not> is_valid nested_too_deep" "\<not> is_valid (wrong_type p t v)"
  by (simp_all add: vsuccess_def verror_def nested_too_deep_def wrong_type_def)

lemma is_null_iff [simp]: "is_null v \<longleftrightarrow> v = JNull"
  by (cases v) (simp_all add: is_null_def)

lemma unknown_loop_valid: "is_valid (unknown_loop seen p obj) \<longleftrightarrow> fst ` set obj \<subseteq> set seen"
  by (induction obj) (auto split: if_splits)

lemma check_type_array: "check_type v TYPE_ARRAY \<longleftrightarrow> (\<exists>xs. v = JArray xs)"
  by (cases v) (simp_all add: check_type_def is_array_def)

text \<open>One field of the loop.\<close>

definition nested_result :: "bool \<Rightarrow> string \<Rightarrow> field_descriptor \<Rightarrow> jvalue \<Rightarrow> validation_result" where
  "nested_result allow p f v = (case nested_schema f of
     None \<Rightarrow> vsuccess
   | Some ns \<Rightarrow> (if fd_type f \<noteq> TYPE_OBJECT then vsuccess else if p \<noteq> [] then nested_too_deep
                else validate_schema v ns allow (fd_name f)))"

definition element_result :: "bool \<Rightarrow> string \<Rightarrow> field_descriptor \<Rightarrow> jvalue \<Rightarrow> validation_result" where
  "element_result allow p f v = (if fd_type f = TYPE_ARRAY \<and> array_element_type f \<noteq> TYPE_ANY then
     (case v of
        JArray (x # _) \<Rightarrow>
          (if \<not> check_type x (array_element_type f) then wrong_type (get_field_path p (fd_name f) @ ''[0]'') (array_element_type f) x
           else (case nested_schema f of None \<Rightarrow> vsuccess
             | Some ns \<Rightarrow> (if array_element_type f \<noteq> TYPE_OBJECT then vsuccess else if p \<noteq> [] then nested_too_deep
                         else validate_schema x ns allow (fd_name f @ ''[0]''))))
      | _ \<Rightarrow> vsuccess)
    else vsuccess)"

lemma check_fields_Cons:
  "check_fields obj (f # fs) allow p seen = (case map_of obj (fd_name f) of
     None \<Rightarrow> (if required f then verror (''Missing required field: '' @ get_field_path p (fd_name f))
              else check_fields obj fs allow p seen)
   | Some v \<Rightarrow>
      (if v = JNull \<and> \<not> required f then check_fields obj fs allow p (fd_name f # seen)
       else if \<not> check_type v (fd_type f) then wrong_type (get_field_path p (fd_name f)) (fd_type f) v
       else if \<not> is_valid (nested_result allow p f v) then nested_result allow p f v
       else if \<not> is_valid (element_result allow p f v) then element_result allow p f v
       else check_fields obj fs allow p (fd_name f # seen)))"
  unfolding nested_result_def element_result_def
  by (cases f) (simp only: check_fields.simps field_descriptor.sel is_null_iff Let_def)

lemma results_valid:
  assumes "\<And>v ns q. q = fd_name f \<or> q = fd_name f @ ''[0]'' \<Longrightarrow>
      (p = [] \<and> is_valid (validate_schema v ns allow q)) = sub v ns"
    and "check_type v (fd_type f)"
  shows "is_valid (nested_result allow p f v) \<and> is_valid (element_result allow p f v) \<longleftrightarrow> nested_ok sub f v"
proof -
  have a: "is_valid (nested_result allow p f v) \<longleftrightarrow>
      (case nested_schema f of Some ns \<Rightarrow> fd_type f = TYPE_OBJECT \<longrightarrow> sub v ns | None \<Rightarrow> True)"
    using assms(1) by (auto simp: nested_result_def split: option.split)
  have b: "is_valid (element_result allow p f v) \<longleftrightarrow> (case v of
        JArray (x # _) \<Rightarrow> fd_type f = TYPE_ARRAY \<and> array_element_type f \<noteq> TYPE_ANY \<longrightarrow>
          check_type x (array_element_type f) \<and>
          (case nested_schema f of Some ns \<Rightarrow> array_element_type f = TYPE_OBJECT \<longrightarrow> sub x ns | None \<Rightarrow> True)
      | _ \<Rightarrow> True)"
    using assms(1) by (auto simp: element_result_def split: option.split jvalue.split list.split)
  show ?thesis
    by (simp only: a b nested_ok_def)
qed

lemma check_fields_valid:
  assumes "\<And>f v ns q. f \<in> set fs \<Longrightarrow> q = fd_name f \<or> q = fd_name f @ ''[0]'' \<Longrightarrow>
      (p = [] \<and> is_valid (validate_schema v ns allow q)) = sub v ns"
  shows "is_valid (check_fields obj fs allow p seen) \<longleftrightarrow>
    (\<forall>f\<in>set fs. field_ok sub obj f) \<and> (allow \<or> fst ` set obj \<subseteq> set seen \<union> fd_name ` set fs)"
  using assms
proof (induction fs arbitrary: seen)
  case Nil
  then show ?case
    by (simp add: check_fields.simps unknown_loop_valid)
next
  case (Cons f fs)
  have IH: "is_valid (check_fields obj fs allow p seen) \<longleftrightarrow>
    (\<forall>f\<in>set fs. field_ok sub obj f) \<and> (allow \<or> fst ` set obj \<subseteq> set seen \<union> fd_name ` set fs)" for seen
    by (rule Cons.IH) (rule Cons.prems, auto)
  show ?case
  proof (cases "map_of obj (fd_name f)")
    case None
    then have "fd_name f \<notin> fst ` set obj"
      by (simp add: map_of_eq_None_iff)
    then have "fst ` set obj \<subseteq> set seen \<union> fd_name ` set (f # fs) \<longleftrightarrow> fst ` set obj \<subseteq> set seen \<union> fd_name ` set fs"
      by (simp add: subset_insert)
    then show ?thesis
      using None by (simp add: check_fields_Cons IH field_ok_def)
  next
    case (Some v)
    have "is_valid (nested_result allow p f v) \<and> is_valid (element_result allow p f v) \<longleftrightarrow> nested_ok sub f v"
      if "check_type v (fd_type f)"
      using that by (intro results_valid) (rule Cons.prems, auto)
    then show ?thesis
      using Some by (auto simp: check_fields_Cons IH field_ok_def)
  qed
qed

lemma validate_nested_valid: "p \<noteq> [] \<Longrightarrow> is_valid (validate_schema v schema allow p) \<longleftrightarrow> conforms_nested allow v schema"
  using check_fields_valid [of schema p allow "\<lambda>_ _. False" _ "[]"]
  by (auto simp: validate_schema.simps conforms_nested_def conforms_with_def split: jvalue.split)

definition schema_named :: "field_descriptor list \<Rightarrow> bool" where
  "schema_named schema \<longleftrightarrow> list_all (\<lambda>f. fd_name f \<noteq> []) schema"

lemma validate_conforms:
  assumes "schema_named schema"
  shows "is_valid (validate_schema v schema allow []) \<longleftrightarrow> conforms allow v schema"
proof (cases v)
  case (JObject obj)
  have "([] = ([] :: string) \<and> is_valid (validate_schema v ns allow q)) = conforms_nested allow v ns"
    if "f \<in> set schema" "q = fd_name f \<or> q = fd_name f @ ''[0]''" for f v ns q
    using assms that by (auto simp: schema_named_def list_all_iff intro!: validate_nested_valid)
  from check_fields_valid [of schema "[]" allow "conforms_nested allow" obj "[]", OF this] show ?thesis
    by (simp add: JObject validate_schema.simps conforms_def conforms_with_def)
qed (simp_all add: validate_schema.simps conforms_def conforms_with_def)

text \<open>C20: Validation with the loop accepts exactly the values that conform to the schema read
  declaratively: an object in which every field of the schema is present and not null unless it is
  optional, has the declared type, conforms to its nested schema (which may not nest further), whose
  arrays have a first element of the declared type and schema, and which in strict mode has no other
  key.\<close>

theorem validate_accepts:
  assumes "schema_named schema"
  shows "is_valid (validate_schema v schema allow []) \<longleftrightarrow> conforms allow v schema"
  using assms by (rule validate_conforms)

definition sample_schema :: "field_descriptor list" where
  "sample_schema = [FIELD_REQUIRED ''dsname'' TYPE_STRING, FIELD_REQUIRED_OBJECT_ARRAY ''items'' [FIELD_OPTIONAL ''id'' TYPE_NUMBER]]"

definition sample_params :: jvalue where
  "sample_params = JObject [(''dsname'', JString ''A.B''), (''items'', JArray [JObject [(''id'', JNull)], JBool True])]"

theorem validate_accepts_witness:
  "is_valid (validate_schema sample_params sample_schema False [])"
proof -
  have "schema_named sample_schema" "conforms False sample_params sample_schema"
    by (simp_all add: schema_named_def sample_schema_def field_macros conforms_def conforms_with_def conforms_nested_def
        sample_params_def field_ok_def nested_ok_def check_type_def is_string_def is_array_def is_object_def)
  then show ?thesis
    using validate_accepts [of sample_schema sample_params False] by simp
qed

text \<open>In lenient mode, the mode of requests, validation looks at nothing but the schema's fields:
  two objects that agree on them get the same result, error message included.\<close>

theorem lenient_ignores_unknown:
  assumes "\<And>f. f \<in> set schema \<Longrightarrow> map_of obj (fd_name f) = map_of obj' (fd_name f)"
  shows "validate_schema (JObject obj) schema True p = validate_schema (JObject obj') schema True p"
proof -
  have "check_fields obj fs True p seen = check_fields obj' fs True p seen'" if "set fs \<subseteq> set schema" for fs seen seen'
    using that
  proof (induction fs arbitrary: seen seen')
    case (Cons f fs)
    then have "map_of obj (fd_name f) = map_of obj' (fd_name f)"
      by (simp add: assms)
    moreover have "check_fields obj fs True p s = check_fields obj' fs True p s'" for s s'
      using Cons by simp
    ultimately show ?case
      by (auto simp: check_fields_Cons split: option.split)
  qed (simp add: check_fields.simps)
  then show ?thesis
    by (simp add: validate_schema.simps)
qed

theorem lenient_ignores_unknown_witness:
  "validate_schema (JObject [(''dsname'', JString ''A.B''), (''dsn'', JString ''C'')]) [FIELD_REQUIRED ''dsname'' TYPE_STRING] True []
     = validate_schema (JObject [(''dsname'', JString ''A.B'')]) [FIELD_REQUIRED ''dsname'' TYPE_STRING] True []"
  by (rule lenient_ignores_unknown) (simp add: field_macros)

end
