(* ===== verification/Builder.thy ===== *)
theory Builder
  imports Context Validator
begin

text \<open>
  Command builders (\<open>server/builder.hpp\<close>, \<open>server/builder.cpp\<close>): the argument
  transformations a command is registered with, in the order they were added, and their application
  before and after the handler.  The case of camel-case names (\<open>server/rpc_server.cpp\<close>) is here
  because renaming uses it.
\<close>

section \<open>Names\<close>

fun kebab_loop :: "bool \<Rightarrow> string \<Rightarrow> string" where
  "kebab_loop first [] = []"
| "kebab_loop first (c # cs) =
     (if is_upper c then (if first then [] else ''-'') @ [to_lower c] else [c]) @ kebab_loop False cs"

definition camel_case_to_kebab_case :: "string \<Rightarrow> string" where
  "camel_case_to_kebab_case input = kebab_loop True input"

section \<open>Transformations\<close>

datatype fifo_mode = GET | PUT

datatype transform_kind = RenameArg | SetDefault | WriteStdin | ReadStdout | HandleFifo | FlattenObj

record arg_transform =
  tkind :: transform_kind
  arg_name :: string
  renamed_to :: string
  default_value :: argument
  base64 :: bool
  rpc_id_param :: string
  fifo_mode :: fifo_mode
  defer_send :: bool

definition blank_transform :: "transform_kind \<Rightarrow> string \<Rightarrow> arg_transform" where
  "blank_transform k n = \<lparr>tkind = k, arg_name = n, renamed_to = [], default_value = mk_arg VNone, base64 = False,
     rpc_id_param = [], fifo_mode = GET, defer_send = False\<rparr>"

text \<open>A builder; the handler is a function pointer that may be null, the validators may be absent.\<close>

record 'w builder =
  handler :: "'w handler option"
  transforms :: "arg_transform list"
  request_validator :: "(jvalue \<Rightarrow> validation_result) option"
  response_validator :: "(jvalue \<Rightarrow> validation_result) option"

definition command_builder :: "'w handler option \<Rightarrow> 'w builder" where
  "command_builder h = \<lparr>handler = h, transforms = [], request_validator = None, response_validator = None\<rparr>"

definition add_transform :: "arg_transform \<Rightarrow> 'w builder \<Rightarrow> 'w builder" where
  "add_transform t b = b\<lparr>transforms := transforms b @ [t]\<rparr>"

definition rename_arg :: "string \<Rightarrow> string \<Rightarrow> 'w builder \<Rightarrow> 'w builder" where
  "rename_arg from_name to_name = add_transform ((blank_transform RenameArg from_name)\<lparr>renamed_to := to_name\<rparr>)"

definition set_default :: "string \<Rightarrow> arg_value \<Rightarrow> 'w builder \<Rightarrow> 'w builder" where
  "set_default n v = add_transform ((blank_transform SetDefault n)\<lparr>default_value := mk_arg v\<rparr>)"

definition handle_fifo :: "string \<Rightarrow> string \<Rightarrow> fifo_mode \<Rightarrow> bool \<Rightarrow> 'w builder \<Rightarrow> 'w builder" where
  "handle_fifo id_param n mode defer_arg =
     add_transform ((blank_transform HandleFifo n)\<lparr>rpc_id_param := id_param, fifo_mode := mode, defer_send := defer_arg\<rparr>)"

definition read_stdout :: "string \<Rightarrow> bool \<Rightarrow> 'w builder \<Rightarrow> 'w builder" where
  "read_stdout n b64_encode = add_transform ((blank_transform ReadStdout n)\<lparr>base64 := b64_encode\<rparr>)"

definition write_stdin :: "string \<Rightarrow> bool \<Rightarrow> 'w builder \<Rightarrow> 'w builder" where
  "write_stdin n b64_decode = add_transform ((blank_transform WriteStdin n)\<lparr>base64 := b64_decode\<rparr>)"

definition flatten_obj :: "string \<Rightarrow> 'w builder \<Rightarrow> 'w builder" where
  "flatten_obj n = add_transform (blank_transform FlattenObj n)"

text \<open>Unknown fields are accepted in requests, not in responses.\<close>

definition validate :: "field_descriptor list \<Rightarrow> field_descriptor list \<Rightarrow> 'w builder \<Rightarrow> 'w builder" where
  "validate request_schema response_schema b =
     b\<lparr>request_validator := Some (\<lambda>params. validate_schema params request_schema True []),
       response_validator := Some (\<lambda>params. validate_schema params response_schema False [])\<rparr>"

section \<open>Before the handler\<close>

definition update_args :: "(argument_map \<Rightarrow> argument_map) \<Rightarrow> 'w ctx \<Rightarrow> 'w ctx" where
  "update_args f c = c\<lparr>args := f (args c)\<rparr>"

definition apply_rename :: "arg_transform \<Rightarrow> 'w ctx \<Rightarrow> 'w ctx" where
  "apply_rename t c = (let kebab_name = camel_case_to_kebab_case (arg_name t) in
     case map_of (args c) kebab_name of
       None \<Rightarrow> c
     | Some a \<Rightarrow> update_args (\<lambda>m. AList.update (renamed_to t) a (AList.delete kebab_name m)) c)"

definition apply_default :: "arg_transform \<Rightarrow> 'w ctx \<Rightarrow> 'w ctx" where
  "apply_default t c = (if map_of (args c) (arg_name t) = None
     then update_args (AList.update (arg_name t) (default_value t)) c else c)"

definition apply_write_stdin :: "arg_transform \<Rightarrow> 'w ctx \<Rightarrow> 'w ctx" where
  "apply_write_stdin t c = (case map_of (args c) (arg_name t) of
     None \<Rightarrow> c
   | Some a \<Rightarrow>
      (let data = get_string_value a [] in
       case (if base64 t then decode_str data else Ok data) of
         Inl e \<Rightarrow> errln (''Failed to process WriteStdin transform: '' @ c_str e) c
       | Inr data \<Rightarrow> update_args (AList.delete (arg_name t)) (set_input_content data c)))"

text \<open>A property of the flattened object becomes an argument under its own name, unless it is
  null, an array or an object; then the entry of the object itself is removed.\<close>

definition scalar_argument :: "jvalue \<Rightarrow> argument option" where
  "scalar_argument v = (case v of
     JBool b \<Rightarrow> Some (mk_arg (VBool b)) | JInteger i \<Rightarrow> Some (mk_arg (VInt i))
   | JDouble d \<Rightarrow> Some (mk_arg (VDouble d)) | JString s \<Rightarrow> Some (mk_arg (VString s)) | _ \<Rightarrow> None)"

fun flatten_loop :: "jvalue smap \<Rightarrow> argument_map \<Rightarrow> argument_map" where
  "flatten_loop [] m = m"
| "flatten_loop ((key, v) # rest) m = flatten_loop rest
     (case scalar_argument v of None \<Rightarrow> m | Some a \<Rightarrow> AList.update key a m)"

definition apply_flatten :: "'w env \<Rightarrow> arg_transform \<Rightarrow> 'w ctx \<Rightarrow> 'w ctx" where
  "apply_flatten e t c = (case map_of (args c) (arg_name t) of
     None \<Rightarrow> c
   | Some a \<Rightarrow> (case env_from_str e (get_string_value a []) of
       Inl err \<Rightarrow> errln (''Failed to parse JSON for FlattenObj transform: '' @ c_str (what err)) c
     | Inr (JObject obj) \<Rightarrow> update_args (\<lambda>m. AList.delete (arg_name t) (flatten_loop obj m)) c
     | Inr _ \<Rightarrow> errln ''FlattenObj transform requires a JSON object'' c))"

text \<open>The cast of a stream id to \<open>int\<close> keeps its low 32 bits.\<close>

definition to_int :: "int \<Rightarrow> int" where
  "to_int i = sint (word_of_int i :: 32 word)"

definition pipe_path :: "'w env \<Rightarrow> int \<Rightarrow> string" where
  "pipe_path e stream_id =
     (let tmp_dir = (case env_tmpdir e of None \<Rightarrow> ''/tmp'' | Some d \<Rightarrow> (if d = [] then ''/tmp'' else d))
      in tmp_dir @ ''/zowex_'' @ show_int (env_geteuid e) @ ''_'' @ show_int (env_getpid e) @ ''_'' @
         show_int stream_id @ ''_fifo'')"

definition fifo_notification :: "fifo_mode \<Rightarrow> int \<Rightarrow> string \<Rightarrow> rpc_notification" where
  "fifo_notification mode stream_id path =
     \<lparr>jsonrpc = ''2.0'', rmethod = (if mode = GET then ''receiveStream'' else ''sendStream''),
      params = Some (JObject [(''id'', value_of_int (to_int stream_id)), (''pipePath'', JString path)])\<rparr>"

definition fifo_failure :: "string \<Rightarrow> string \<Rightarrow> int \<Rightarrow> 'w ctx \<Rightarrow> 'w ctx" where
  "fifo_failure what_failed path err c = errln (what_failed @ path @ '', errno: '' @ show_int err) c"

definition announce_fifo :: "'w env \<Rightarrow> arg_transform \<Rightarrow> int \<Rightarrow> string \<Rightarrow> 'w ctx \<Rightarrow> 'w ctx" where
  "announce_fifo e t stream_id path c =
     (let c = update_args (AList.update (arg_name t) (mk_arg (VString path))) c;
          notification = fifo_notification (fifo_mode t) stream_id path
      in if defer_send t then set_pending_notification notification c
         else (case send_notification e notification of
                 Inl err \<Rightarrow> errln (''Failed to process HandleFifo transform: '' @ c_str err) c
               | Inr ls \<Rightarrow> c\<lparr>emitted := emitted c @ ls\<rparr>))"

definition apply_fifo :: "'w env \<Rightarrow> arg_transform \<Rightarrow> 'w ctx \<Rightarrow> 'w ctx" where
  "apply_fifo e t c = (case map_of (args c) (rpc_id_param t) of
     None \<Rightarrow> c
   | Some a \<Rightarrow> (case arg_get_int a of
       None \<Rightarrow> errln ''HandleFifo: RPC ID argument is not an integer'' c
     | Some stream_id \<Rightarrow>
        (let path = pipe_path e stream_id in
         case env_unlink e path (world c) of (err, w) \<Rightarrow>
           (let c = c\<lparr>world := w\<rparr> in
            if err \<noteq> 0 \<and> err \<noteq> env_ENOENT e then fifo_failure ''Failed to delete existing FIFO pipe: '' path err c
            else (case env_mkfifo e path 384 w of (err, w) \<Rightarrow>
              (let c = c\<lparr>world := w\<rparr> in
               if err \<noteq> 0 then fifo_failure ''Failed to create FIFO pipe: '' path err c
               else announce_fifo e t stream_id path c))))))"

definition apply_input_transform :: "'w env \<Rightarrow> arg_transform \<Rightarrow> 'w ctx \<Rightarrow> 'w ctx" where
  "apply_input_transform e t c = (case tkind t of
     RenameArg \<Rightarrow> apply_rename t c
   | SetDefault \<Rightarrow> apply_default t c
   | WriteStdin \<Rightarrow> apply_write_stdin t c
   | FlattenObj \<Rightarrow> apply_flatten e t c
   | HandleFifo \<Rightarrow> apply_fifo e t c
   | ReadStdout \<Rightarrow> c)"

definition apply_input_transforms :: "'w env \<Rightarrow> 'w builder \<Rightarrow> 'w ctx \<Rightarrow> 'w ctx" where
  "apply_input_transforms e b c = fold (apply_input_transform e) (transforms b) c"

section \<open>After the handler\<close>

definition apply_read_stdout :: "arg_transform \<Rightarrow> ast option smap \<times> 'w ctx \<Rightarrow> ast option smap \<times> 'w ctx" where
  "apply_read_stdout t oc = (case oc of (obj, c) \<Rightarrow>
     (let data = get_output_content c;
          data = (if base64 t then encode_str data else data)
      in if length data \<ge> LARGE_DATA_THRESHOLD
         then (AList.update (arg_name t) (Some (AString [])) obj, (store_large_data (arg_name t) data c)\<lparr>output_stream := []\<rparr>)
         else (AList.update (arg_name t) (Some (AString data)) obj, c)))"

definition cleanup_fifo :: "'w env \<Rightarrow> arg_transform \<Rightarrow> 'w ctx \<Rightarrow> 'w ctx" where
  "cleanup_fifo e t c = (case map_of (args c) (arg_name t) of
     None \<Rightarrow> c
   | Some a \<Rightarrow> c\<lparr>world := snd (env_unlink e (c_str (get_string_value a [])) (world c))\<rparr>)"

definition apply_output_transform :: "'w env \<Rightarrow> arg_transform \<Rightarrow> ast option smap \<times> 'w ctx \<Rightarrow> ast option smap \<times> 'w ctx" where
  "apply_output_transform e t oc = (case tkind t of
     ReadStdout \<Rightarrow> apply_read_stdout t oc
   | HandleFifo \<Rightarrow> (fst oc, cleanup_fifo e t (snd oc))
   | _ \<Rightarrow> oc)"

definition apply_output_transforms :: "'w env \<Rightarrow> 'w builder \<Rightarrow> 'w ctx \<Rightarrow> 'w ctx" where
  "apply_output_transforms e b c =
     (let obj = (case object_node c of None \<Rightarrow> AObject [] | Some n \<Rightarrow> n) in
      case obj of
        AObject m \<Rightarrow> (case fold (apply_output_transform e) (transforms b) (m, c) of
          (m, c) \<Rightarrow> set_object (Some (AObject m)) c)
      | _ \<Rightarrow> set_object (Some obj) c)"

section \<open>Names\<close>

fun unkebab :: "string \<Rightarrow> string" where
  "unkebab [] = []"
| "unkebab [c] = [c]"
| "unkebab (c # d # cs) = (if c = CHR ''-'' then to_upper d # unkebab cs else c # unkebab (d # cs))"

definition camel_case :: "string \<Rightarrow> bool" where
  "camel_case s \<longleftrightarrow> CHR ''-'' \<notin> set s \<and> (s \<noteq> [] \<longrightarrow> \<not> is_upper (hd s))"

lemma to_upper_to_lower: "is_upper c \<Longrightarrow> to_upper (to_lower c) = c"
  by (simp add: to_upper_def is_lower_def code_to_lower) (simp add: is_upper_def)

lemma to_lower_not_hyphen: "is_upper c \<Longrightarrow> to_lower c \<noteq> CHR ''-''"
proof
  assume "is_upper c" "to_lower c = CHR ''-''"
  then have "code (to_lower c) = 45" "65 \<le> code c"
    by (simp_all add: code_def is_upper_def)
  then show False
    using \<open>is_upper c\<close> by (simp add: code_to_lower)
qed

lemma kebab_no_upper: "c \<in> set (kebab_loop first s) \<Longrightarrow> \<not> is_upper c"
  by (induction first s rule: kebab_loop.induct) (auto split: if_splits simp: is_upper_def [of "CHR ''-''"] code_def)

lemma unkebab_kebab: "CHR ''-'' \<notin> set s \<Longrightarrow> unkebab (kebab_loop False s) = s"
proof (induction s)
  case (Cons c cs)
  then have IH: "unkebab (kebab_loop False cs) = cs" and c: "c \<noteq> CHR ''-''"
    by auto
  have plain: "c \<noteq> CHR ''-'' \<Longrightarrow> unkebab (c # xs) = c # unkebab xs" for xs
    by (cases xs) simp_all
  show ?case
    using IH c by (cases "is_upper c") (simp_all add: plain to_upper_to_lower)
qed simp

lemma kebab_first: "s = [] \<or> \<not> is_upper (hd s) \<Longrightarrow> kebab_loop True s = kebab_loop False s"
  by (cases s) auto

lemma kebab_unkebab: "camel_case s \<Longrightarrow> unkebab (camel_case_to_kebab_case s) = s"
  using kebab_first [of s] unkebab_kebab [of s]
  by (auto simp: camel_case_to_kebab_case_def camel_case_def)

text \<open>The kebab form of a parameter name has no upper-case letter, and two camel-case names (no
  hyphen, no leading capital) with the same kebab form are equal, so no two parameters of a request
  that are named so become the same argument.\<close>

theorem kebab_names:
  "(\<forall>c\<in>set (camel_case_to_kebab_case s). \<not> is_upper c) \<and>
   (camel_case s \<and> camel_case t \<and> camel_case_to_kebab_case s = camel_case_to_kebab_case t \<longrightarrow> s = t)"
  using kebab_no_upper kebab_unkebab by (metis camel_case_to_kebab_case_def)

theorem kebab_names_witness:
  "camel_case_to_kebab_case ''maxItems'' = ''max-items'' \<and> camel_case ''maxItems'' \<and>
   list_all (\<lambda>c. \<not> is_upper c) (camel_case_to_kebab_case ''maxItems'')"
proof -
  have "camel_case_to_kebab_case ''maxItems'' = ''max-items''" "camel_case ''maxItems''"
    by code_simp+
  then show ?thesis
    using kebab_names [of "''maxItems''" "''maxItems''"] by (simp add: list_all_iff)
qed

section \<open>What input transformations touch\<close>

text \<open>The error stream and the lines only grow, and what belongs to the handler's result is not
  touched.\<close>

definition input_frame :: "'w ctx \<Rightarrow> 'w ctx \<Rightarrow> bool" where
  "input_frame c c' \<longleftrightarrow> command_path c' = command_path c \<and> output_stream c' = output_stream c \<and>
     object_node c' = object_node c \<and> content_len c' = content_len c \<and> large_data c' = large_data c \<and>
     (\<exists>errs. error_stream c' = error_stream c @ errs) \<and> (\<exists>ls. emitted c' = emitted c @ ls)"

lemma input_frame_refl [intro, simp]: "input_frame c c"
  by (simp add: input_frame_def)

lemma input_frame_trans [trans]: "input_frame a b \<Longrightarrow> input_frame b c \<Longrightarrow> input_frame a c"
  by (auto simp: input_frame_def)

lemma input_frame_steps [simp]:
  assumes "input_frame c c'"
  shows "input_frame c (update_args f c')" "input_frame c (errln s c')" "input_frame c (set_input_content s c')"
    "input_frame c (c'\<lparr>world := w\<rparr>)" "input_frame c (c'\<lparr>emitted := emitted c' @ ls\<rparr>)"
    "input_frame c (set_pending_notification n c')" "input_frame c (fifo_failure s p err c')"
  using assms by (auto simp: input_frame_def update_args_def errln_def io_err_def set_input_content_def
      set_pending_notification_def fifo_failure_def)

lemma announce_fifo_frame [simp]: "input_frame c c' \<Longrightarrow> input_frame c (announce_fifo e t i path c')"
  by (simp add: announce_fifo_def Let_def split: sum.split)

lemma apply_fifo_frame: "input_frame c (apply_fifo e t c)"
  by (simp add: apply_fifo_def Let_def split: option.split prod.split)

lemma apply_input_transform_frame: "input_frame c (apply_input_transform e t c)"
  by (cases "tkind t") (auto simp: apply_input_transform_def apply_rename_def apply_default_def apply_write_stdin_def
        apply_flatten_def Let_def apply_fifo_frame split: option.split sum.split jvalue.split)

lemma input_transforms_fold: "input_frame c (fold (apply_input_transform e) ts c)"
  by (induction ts arbitrary: c) (auto intro: input_frame_trans apply_input_transform_frame)

text \<open>The input transformations, whichever a command has, never throw, keep the command path, the
  standard output, the result object, the content length and the large data as they were, and only
  append to the error stream and to the lines already sent.\<close>

theorem input_transforms_frame:
  "input_frame c (apply_input_transforms e b c)"
  by (simp add: apply_input_transforms_def input_transforms_fold)

section \<open>What each transformation delivers\<close>

lemma decode_encode_str: "decode_str (encode_str s) = Ok s"
  by (simp add: decode_str_def encode_str_def decode_encode)

text \<open>Standard input from an argument: when the argument holds the base64 form of some data, the
  handler's standard input is exactly that data and the argument is gone; when it does not decode, the
  argument and the input are as they were and the error stream says so.\<close>

theorem write_stdin_delivers:
  assumes "tkind t = WriteStdin" "base64 t" "map_of (args c) (arg_name t) = Some a"
  shows "(case decode_str (get_string_value a []) of
      Inr data \<Rightarrow> input_stream (apply_input_transform e t c) = data \<and>
        args (apply_input_transform e t c) = AList.delete (arg_name t) (args c) \<and>
        error_stream (apply_input_transform e t c) = error_stream c
    | Inl msg \<Rightarrow> input_stream (apply_input_transform e t c) = input_stream c \<and>
        args (apply_input_transform e t c) = args c \<and>
        error_stream (apply_input_transform e t c) \<noteq> []) \<and>
    (get_string_value a [] = encode_str s \<longrightarrow>
      input_stream (apply_input_transform e t c) = s \<and> map_of (args (apply_input_transform e t c)) (arg_name t) = None)"
  using assms
  by (auto simp: apply_input_transform_def apply_write_stdin_def Let_def update_args_def set_input_content_def
      errln_def io_err_def decode_encode_str map_of_delete split: sum.split)

definition stdin_ctx :: "unit ctx" where
  "stdin_ctx = new_ctx ''writeFile'' [(''data'', mk_arg (VString (encode_str ''ok''))), (''fspath'', mk_arg (VString ''/a''))] ()"

definition null_env :: "unit env" where
  "null_env = \<lparr>env_from_str = (\<lambda>s. Ok (JObject [(''dsn'', JString ''OTHER.DS''), (''vol'', JNull)])), env_to_string = (\<lambda>v. Ok ''{}''),
     env_fp = example_fp, env_tmpdir = None, env_geteuid = 1, env_getpid = 2,
     env_unlink = (\<lambda>p w. (0, w)), env_mkfifo = (\<lambda>p m w. (0, w)), env_ENOENT = 129\<rparr>"

theorem write_stdin_delivers_witness:
  "input_stream (apply_input_transform null_env ((blank_transform WriteStdin ''data'')\<lparr>base64 := True\<rparr>) stdin_ctx) = ''ok''"
proof -
  have "map_of (args stdin_ctx) ''data'' = Some (mk_arg (VString (encode_str ''ok'')))"
    by (simp add: stdin_ctx_def new_ctx_def)
  then show ?thesis
    using write_stdin_delivers [of "(blank_transform WriteStdin ''data'')\<lparr>base64 := True\<rparr>" stdin_ctx _ null_env "''ok''"]
    by (simp add: blank_transform_def get_string_value_def arg_get_string_def mk_arg_def)
qed

lemma map_of_flatten: "keys_ok obj \<Longrightarrow> map_of (flatten_loop obj m) k =
    (case map_of obj k of
       None \<Rightarrow> map_of m k
     | Some v \<Rightarrow> (case scalar_argument v of None \<Rightarrow> map_of m k | Some a \<Rightarrow> Some a))"
proof (induction obj m rule: flatten_loop.induct)
  case (2 key v rest m)
  from 2(2) have "map_of rest key = None" "keys_ok rest"
    by (simp_all add: keys_ok_Cons map_of_eq_None_iff)
  then show ?case
    by (auto simp: 2(1) map_of_update split: option.split)
qed simp

text \<open>Flattening an object argument: the argument itself is gone, every property of the object
  with a scalar value is an argument under its own name, whatever that name held before (another
  parameter of the request included), null, array and object properties change nothing, and every
  other argument is as it was.\<close>

theorem flatten_result:
  assumes "tkind t = FlattenObj" "map_of (args c) (arg_name t) = Some a"
    and "env_from_str e (get_string_value a []) = Ok (JObject obj)" "keys_ok obj"
  shows "map_of (args (apply_input_transform e t c)) k =
    (if k = arg_name t then None
     else (case map_of obj k of
             None \<Rightarrow> map_of (args c) k
           | Some v \<Rightarrow> (case scalar_argument v of None \<Rightarrow> map_of (args c) k | Some x \<Rightarrow> Some x)))"
  using assms by (simp add: apply_input_transform_def apply_flatten_def update_args_def map_of_delete map_of_flatten)

theorem flatten_result_witness:
  "map_of (args (apply_input_transform null_env (blank_transform FlattenObj ''attributes'')
      (new_ctx ''createDataset'' [(''dsn'', mk_arg (VString ''MY.DS'')), (''attributes'', mk_arg (VString ''{}''))] ()))) ''dsn''
     = Some (mk_arg (VString ''OTHER.DS''))"
  by (subst flatten_result [where a = "mk_arg (VString ''{}'')" and obj = "[(''dsn'', JString ''OTHER.DS''), (''vol'', JNull)]"])
    (simp_all add: blank_transform_def new_ctx_def null_env_def keys_ok_def scalar_argument_def)

section \<open>After the handler\<close>

lemma output_transform_other:
  "tkind t \<noteq> ReadStdout \<Longrightarrow> fst (apply_output_transform e t oc) = fst oc \<and>
     large_data (snd (apply_output_transform e t oc)) = large_data (snd oc) \<and>
     output_stream (snd (apply_output_transform e t oc)) = output_stream (snd oc) \<and>
     args (snd (apply_output_transform e t oc)) = args (snd oc)"
  by (cases "tkind t") (auto simp: apply_output_transform_def cleanup_fifo_def split: option.split)

lemma output_fold_other:
  "\<forall>t\<in>set ts. tkind t \<noteq> ReadStdout \<Longrightarrow> fst (fold (apply_output_transform e) ts oc) = fst oc \<and>
     large_data (snd (fold (apply_output_transform e) ts oc)) = large_data (snd oc) \<and>
     output_stream (snd (fold (apply_output_transform e) ts oc)) = output_stream (snd oc)"
proof (induction ts arbitrary: oc)
  case (Cons t ts)
  then show ?case
    using output_transform_other [of t e oc] by simp
qed simp

definition object_members :: "'w ctx \<Rightarrow> ast option smap option" where
  "object_members c = (case object_node c of None \<Rightarrow> Some [] | Some (AObject m) \<Rightarrow> Some m | Some _ \<Rightarrow> None)"

lemma output_transforms_object:
  "object_members c = Some m \<Longrightarrow> apply_output_transforms e b c =
     set_object (Some (AObject (fst (fold (apply_output_transform e) (transforms b) (m, c)))))
       (snd (fold (apply_output_transform e) (transforms b) (m, c)))"
  by (auto simp: apply_output_transforms_def object_members_def Let_def split: option.splits ast.splits prod.splits)

definition stdout_data :: "arg_transform \<Rightarrow> 'w ctx \<Rightarrow> string" where
  "stdout_data t c = (if base64 t then encode_str (output_stream c) else output_stream c)"

lemma read_stdout_eq: "apply_read_stdout t (obj, c) =
   (if length (stdout_data t c) \<ge> LARGE_DATA_THRESHOLD
    then (AList.update (arg_name t) (Some (AString [])) obj, (store_large_data (arg_name t) (stdout_data t c) c)\<lparr>output_stream := []\<rparr>)
    else (AList.update (arg_name t) (Some (AString (stdout_data t c))) obj, c))"
  by (simp add: apply_read_stdout_def stdout_data_def get_output_content_def Let_def)

text \<open>A command that captures its standard output answers with it: the named field of the result
  object is the captured text, in base64 where the command asks for it (which decodes to the text),
  and every other field is as the handler left it; a text of 16 MB or more is kept aside under the
  field's name, the field is left empty and the output buffer is freed.\<close>

theorem read_stdout_delivers:
  assumes "transforms b = pre @ t # post" "tkind t = ReadStdout"
    and "\<forall>s\<in>set (pre @ post). tkind s \<noteq> ReadStdout" "object_members c = Some m"
  shows "let c' = apply_output_transforms e b c; large = length (stdout_data t c) \<ge> LARGE_DATA_THRESHOLD in
      object_node c' = Some (AObject (AList.update (arg_name t) (Some (AString (if large then [] else stdout_data t c))) m)) \<and>
      large_data c' = (if large then AList.update (arg_name t) (stdout_data t c) (large_data c) else large_data c) \<and>
      output_stream c' = (if large then [] else output_stream c) \<and>
      (base64 t \<longrightarrow> decode_str (stdout_data t c) = Ok (output_stream c))"
proof -
  define oc where "oc = fold (apply_output_transform e) pre (m, c)"
  have pre: "fst oc = m" "large_data (snd oc) = large_data c" "output_stream (snd oc) = output_stream c"
    using output_fold_other [of pre e "(m, c)"] assms(3) by (auto simp: oc_def)
  have mid: "stdout_data t (snd oc) = stdout_data t c"
    by (simp add: stdout_data_def pre)
  have t: "apply_output_transform e t oc =
      (if length (stdout_data t c) \<ge> LARGE_DATA_THRESHOLD
       then (AList.update (arg_name t) (Some (AString [])) m, (store_large_data (arg_name t) (stdout_data t c) (snd oc))\<lparr>output_stream := []\<rparr>)
       else (AList.update (arg_name t) (Some (AString (stdout_data t c))) m, snd oc))"
    using pre(1) mid by (cases oc) (simp add: apply_output_transform_def assms(2) read_stdout_eq)
  have all: "fold (apply_output_transform e) (transforms b) (m, c) = fold (apply_output_transform e) post (apply_output_transform e t oc)"
    by (simp add: assms(1) oc_def)
  have "decode_str (stdout_data t c) = Ok (output_stream c)" if "base64 t"
    using that by (simp add: stdout_data_def decode_encode_str)
  then show ?thesis
    using output_fold_other [of post e "apply_output_transform e t oc"] assms(3) pre
    by (auto simp: output_transforms_object [OF assms(4)] all t set_object_def store_large_data_def Let_def)
qed

theorem read_stdout_delivers_witness:
  "object_node (apply_output_transforms null_env (read_stdout ''data'' False (command_builder None))
     ((new_ctx ''getJcl'' [] ())\<lparr>output_stream := ''//JOB''\<rparr>)) = Some (AObject [(''data'', Some (AString ''//JOB''))])"
proof -
  define b :: "unit builder" where "b = read_stdout ''data'' False (command_builder None)"
  define c where "c = (new_ctx ''getJcl'' [] ())\<lparr>output_stream := ''//JOB''\<rparr>"
  define t where "t = (blank_transform ReadStdout ''data'')\<lparr>base64 := False\<rparr>"
  have "transforms b = [] @ t # []" "tkind t = ReadStdout" "arg_name t = ''data''"
    by (simp_all add: b_def t_def read_stdout_def add_transform_def command_builder_def blank_transform_def)
  moreover have "object_members c = Some []" "stdout_data t c = ''//JOB''"
    by (simp_all add: c_def t_def new_ctx_def object_members_def stdout_data_def blank_transform_def)
  ultimately show ?thesis
    using read_stdout_delivers [of b "[]" t "[]" c "[]" null_env]
    by (simp add: Let_def b_def [symmetric] c_def [symmetric] LARGE_DATA_THRESHOLD_def)
qed

lemma output_transform_no_fifo:
  "tkind t \<noteq> HandleFifo \<Longrightarrow> world (snd (apply_output_transform e t oc)) = world (snd oc) \<and>
     args (snd (apply_output_transform e t oc)) = args (snd oc)"
  by (cases oc; cases "tkind t") (auto simp: apply_output_transform_def apply_read_stdout_def store_large_data_def Let_def)

lemma output_fold_no_fifo:
  "\<forall>t\<in>set ts. tkind t \<noteq> HandleFifo \<Longrightarrow> world (snd (fold (apply_output_transform e) ts oc)) = world (snd oc) \<and>
     args (snd (fold (apply_output_transform e) ts oc)) = args (snd oc)"
proof (induction ts arbitrary: oc)
  case (Cons t ts)
  then show ?case
    using output_transform_no_fifo [of t e oc] by simp
qed simp

text \<open>Clean-up of a FIFO: after the handler the server unlinks the path that the pipe argument
  holds, if it holds one, whether or not the server created a FIFO there (the argument can also come
  from the request); when the handler's result is an array or a primitive value nothing is unlinked,
  and a FIFO that was created stays.\<close>

theorem fifo_cleanup:
  assumes "transforms b = pre @ t # post" "tkind t = HandleFifo" "\<forall>s\<in>set (pre @ post). tkind s \<noteq> HandleFifo"
  shows "world (apply_output_transforms e b c) =
    (case object_members c of
       None \<Rightarrow> world c
     | Some _ \<Rightarrow> (case map_of (args c) (arg_name t) of
         None \<Rightarrow> world c
       | Some a \<Rightarrow> snd (env_unlink e (c_str (get_string_value a [])) (world c))))"
proof (cases "object_members c")
  case None
  then show ?thesis
    by (auto simp: apply_output_transforms_def object_members_def set_object_def Let_def split: option.splits ast.splits)
next
  case (Some m)
  define oc where "oc = fold (apply_output_transform e) pre (m, c)"
  have pre: "world (snd oc) = world c" "args (snd oc) = args c"
    using output_fold_no_fifo [of pre e "(m, c)"] assms(3) by (auto simp: oc_def)
  have "world (snd (fold (apply_output_transform e) (transforms b) (m, c))) = world (snd (apply_output_transform e t oc))"
    using output_fold_no_fifo [of post e "apply_output_transform e t oc"] assms(3) by (simp add: assms(1) oc_def)
  then show ?thesis
    by (simp add: output_transforms_object [OF Some] set_object_def Some pre apply_output_transform_def assms(2)
        cleanup_fifo_def split: option.split)
qed

definition log_env :: "string list env" where
  "log_env = \<lparr>env_from_str = (\<lambda>s. Throw (mk_error Custom [])), env_to_string = (\<lambda>v. Ok ''{}''),
     env_fp = example_fp, env_tmpdir = Some [], env_geteuid = 1, env_getpid = 2,
     env_unlink = (\<lambda>p w. (if p \<in> set w then 0 else 129, removeAll p w)), env_mkfifo = (\<lambda>p m w. (0, p # w)), env_ENOENT = 129\<rparr>"

lemma log_env_unlink: "env_unlink log_env = (\<lambda>p w. (if p \<in> set w then 0 else 129, removeAll p w))"
  by (simp add: log_env_def)

definition read_file_builder :: "string list builder" where
  "read_file_builder = handle_fifo ''stream'' ''pipe-path'' GET False (command_builder None)"

definition pipe_transform :: arg_transform where
  "pipe_transform = (blank_transform HandleFifo ''pipe-path'')\<lparr>rpc_id_param := ''stream'', fifo_mode := GET, defer_send := False\<rparr>"

lemma read_file_transforms: "transforms read_file_builder = [] @ pipe_transform # []"
  by (simp add: read_file_builder_def pipe_transform_def handle_fifo_def add_transform_def command_builder_def)

text \<open>The path is one the client sent; no stream was asked for.\<close>

theorem fifo_cleanup_witness:
  "world (apply_output_transforms log_env read_file_builder
     (new_ctx ''readFile'' [(''pipe-path'', mk_arg (VString ''/u/notes''))] [''/u/notes''])) = []"
proof -
  define c where "c = new_ctx ''readFile'' [(''pipe-path'', mk_arg (VString ''/u/notes''))] [''/u/notes'']"
  have "object_members c = Some []" "world c = [''/u/notes'']"
    "map_of (args c) ''pipe-path'' = Some (mk_arg (VString ''/u/notes''))"
    by (simp_all add: c_def new_ctx_def object_members_def)
  then show ?thesis
    using fifo_cleanup [OF read_file_transforms, of log_env c]
    unfolding c_def [symmetric] by (simp add: pipe_transform_def blank_transform_def log_env_unlink get_string_value_def
        arg_get_string_def mk_arg_def c_str_def)
qed

text \<open>The client is told the low 32 bits of the stream's id.\<close>

lemma to_int_ok: "to_int i = i \<longleftrightarrow> int_ok i"
proof -
  have "to_int i = (i + 2 ^ 31) mod 2 ^ 32 - 2 ^ 31"
    by (simp add: to_int_def signed_of_int signed_take_bit_eq_take_bit_shift take_bit_eq_mod)
  moreover have "(i + 2 ^ 31) mod 2 ^ 32 - 2 ^ 31 = i \<longleftrightarrow> 0 \<le> i + 2 ^ 31 \<and> i + 2 ^ 31 < 2 ^ 32"
    using mod_pos_pos_trivial [of "i + 2 ^ 31" "2 ^ 32"] pos_mod_bound [of "2 ^ 32" "i + 2 ^ 31"]
      pos_mod_sign [of "2 ^ 32" "i + 2 ^ 31"] by auto
  ultimately show ?thesis
    by (auto simp: int_ok_def)
qed

text \<open>A stream request whose FIFO can be made: after the transformation the pipe argument holds
  the path, the FIFO has been made at that path after what was there was unlinked, and the
  notification that names the path is sent at once, or kept as pending for a deferred stream; the id
  it carries is the stream's id exactly when that fits a 32-bit int.\<close>

theorem fifo_announced:
  assumes "tkind t = HandleFifo" "map_of (args c) (rpc_id_param t) = Some (mk_arg (VInt i))"
    and "env_unlink e (pipe_path e i) (world c) = (err, w)" "err = 0 \<or> err = env_ENOENT e"
    and "env_mkfifo e (pipe_path e i) 384 w = (0, w')"
    and "send_notification e (fifo_notification (fifo_mode t) i (pipe_path e i)) = Ok ls"
  shows "let c' = apply_input_transform e t c in
      map_of (args c') (arg_name t) = Some (mk_arg (VString (pipe_path e i))) \<and> world c' = w' \<and>
      error_stream c' = error_stream c \<and>
      (if defer_send t
       then emitted c' = emitted c \<and> pending_notification c' = Some (fifo_notification (fifo_mode t) i (pipe_path e i))
       else emitted c' = emitted c @ ls \<and> pending_notification c' = pending_notification c) \<and>
      (params (fifo_notification (fifo_mode t) i (pipe_path e i)) =
         Some (JObject [(''id'', JInteger i), (''pipePath'', JString (pipe_path e i))]) \<longleftrightarrow> int_ok i)"
proof -
  have id: "params (fifo_notification (fifo_mode t) i (pipe_path e i)) =
         Some (JObject [(''id'', JInteger i), (''pipePath'', JString (pipe_path e i))]) \<longleftrightarrow> int_ok i"
    by (simp add: fifo_notification_def value_of_int_def to_int_ok)
  have run: "apply_input_transform e t c = announce_fifo e t i (pipe_path e i) (c\<lparr>world := w'\<rparr>)"
    using assms(1-5) by (auto simp: apply_input_transform_def apply_fifo_def arg_get_int_def mk_arg_def Let_def)
  show ?thesis
    unfolding Let_def id run
    by (simp add: announce_fifo_def assms(6) update_args_def set_pending_notification_def map_of_update)
qed

theorem fifo_announced_witness:
  "map_of (args (apply_input_transform log_env pipe_transform (new_ctx ''readFile'' [(''stream'', mk_arg (VInt 3))] []))) ''pipe-path''
     = Some (mk_arg (VString ''/tmp/zowex_1_2_3_fifo''))"
proof -
  have path: "pipe_path log_env 3 = ''/tmp/zowex_1_2_3_fifo''"
    by code_simp
  have "send_notification log_env (fifo_notification GET 3 (pipe_path log_env 3)) = Ok [Stdout ''{}'']"
    by (simp add: send_notification_def fifo_notification_def notification_to_json_def struct_defs
        field_defs serialize_json_def log_env_def)
  moreover have "env_unlink log_env p [] = (129, [])" "env_mkfifo log_env p m [] = (0, [p])" "env_ENOENT log_env = 129" for p m
    by (simp_all add: log_env_def)
  ultimately show ?thesis
    using fifo_announced [of pipe_transform "new_ctx ''readFile'' [(''stream'', mk_arg (VInt 3))] []" 3 log_env 129 "[]"]
    by (simp add: pipe_transform_def blank_transform_def new_ctx_def path Let_def)
qed

end
