(* ===== verification/Dispatcher.thy ===== *)
theory Dispatcher
  imports Builder "HOL-Library.List_Lexorder" "HOL-Library.Multiset"
begin

text \<open>
  The command dispatcher (\<open>server/dispatcher.cpp\<close>): the table of registered commands, and the run
  of one command between its input and output transformations.
\<close>

section \<open>The table\<close>

type_synonym 'w dispatcher = "'w builder smap"

definition register_command :: "string \<Rightarrow> 'w builder \<Rightarrow> 'w dispatcher \<Rightarrow> bool \<times> 'w dispatcher" where
  "register_command command_name b commands =
     (if command_name = [] \<or> handler b = None then (False, commands)
      else if map_of commands command_name \<noteq> None then (False, commands)
      else (True, AList.update command_name b commands))"

definition has_command :: "string \<Rightarrow> 'w dispatcher \<Rightarrow> bool" where
  "has_command command_name commands \<longleftrightarrow> map_of commands command_name \<noteq> None"

text \<open>Strings are compared byte by byte, as unsigned characters.\<close>

definition string_order :: "string \<Rightarrow> nat list" where
  "string_order s = map unat (bytes_of s)"

definition get_registered_commands :: "'w dispatcher \<Rightarrow> string list" where
  "get_registered_commands commands = sort_key string_order (map fst commands)"

definition unregister_command :: "string \<Rightarrow> 'w dispatcher \<Rightarrow> bool \<times> 'w dispatcher" where
  "unregister_command command_name commands =
     (if map_of commands command_name = None then (False, commands)
      else (True, AList.delete command_name commands))"

definition clear_commands :: "'w dispatcher \<Rightarrow> 'w dispatcher" where
  "clear_commands commands = []"

section \<open>Running a command\<close>

definition dispatch :: "'w env \<Rightarrow> 'w dispatcher \<Rightarrow> string \<Rightarrow> 'w ctx \<Rightarrow> int \<times> 'w ctx" where
  "dispatch e commands command_name c = (case map_of commands command_name of
     None \<Rightarrow> (METHOD_NOT_FOUND, errln (''Command not found: '' @ command_name) c)
   | Some b \<Rightarrow> (case handler b of
       None \<Rightarrow> (INTERNAL_ERROR, errln ''Invalid command handler'' c)
     | Some h \<Rightarrow>
        (case h (apply_input_transforms e b c) of
           (Returned rc, c) \<Rightarrow> (rc, apply_output_transforms e b c)
         | (ThrewStd msg, c) \<Rightarrow> (INTERNAL_ERROR, errln msg (io_err ''Command execution failed: '' c))
         | (ThrewOther, c) \<Rightarrow> (INTERNAL_ERROR, errln ''Command execution failed with unknown error'' c))))"

section \<open>The table as a map\<close>

text \<open>The dispatcher's table: registering succeeds exactly for a non-empty name that is not taken
  and a builder with a handler, and then changes that entry only (the first registration of a name is
  kept); unregistering succeeds exactly for a name that is there and removes it only; a command counts
  as registered exactly if it is listed, and the list is sorted and has each entry as often as the
  table.\<close>

theorem dispatcher_table:
  "case register_command n b d of (ok, d') \<Rightarrow>
     (ok \<longleftrightarrow> n \<noteq> [] \<and> handler b \<noteq> None \<and> map_of d n = None) \<and>
     map_of d' k = (if ok \<and> k = n then Some b else map_of d k)"
  "case unregister_command n d of (ok, d') \<Rightarrow>
     (ok \<longleftrightarrow> has_command n d) \<and> map_of d' k = (if k = n then None else map_of d k)"
  "has_command n d \<longleftrightarrow> n \<in> set (get_registered_commands d)"
  "sorted (map string_order (get_registered_commands d))"
  "mset (get_registered_commands d) = mset (map fst d)"
proof -
  have list: "get_registered_commands d = sort_key string_order (map fst d)"
    by (simp add: get_registered_commands_def)
  show "case register_command n b d of (ok, d') \<Rightarrow>
     (ok \<longleftrightarrow> n \<noteq> [] \<and> handler b \<noteq> None \<and> map_of d n = None) \<and>
     map_of d' k = (if ok \<and> k = n then Some b else map_of d k)"
    by (simp add: register_command_def map_of_update)
  show "case unregister_command n d of (ok, d') \<Rightarrow>
     (ok \<longleftrightarrow> has_command n d) \<and> map_of d' k = (if k = n then None else map_of d k)"
    by (simp add: unregister_command_def has_command_def map_of_delete)
  show "has_command n d \<longleftrightarrow> n \<in> set (get_registered_commands d)"
    by (simp add: list has_command_def in_keys_iff)
  show "sorted (map string_order (get_registered_commands d))" "mset (get_registered_commands d) = mset (map fst d)"
    by (simp_all only: list sorted_sort_key mset_sort)
qed

end
