(* ===== verification/RpcServer.thy ===== *)
theory RpcServer
  imports Dispatcher
begin

text \<open>
  The JSON-RPC server (\<open>server/rpc_server.cpp\<close>): from the text of one request to the lines it
  writes.  A response with an error goes to the error stream, every other line to the output
  stream.  An exception that leaves an operation is \<open>Throw\<close> of its text.
\<close>

section \<open>Helpers\<close>

definition process_error_output :: "string \<Rightarrow> string \<times> string" where
  "process_error_output error_output =
     (if newline \<in> set error_output
      then (takeWhile (\<lambda>c. c \<noteq> newline) error_output, tl (dropWhile (\<lambda>c. c \<noteq> newline) error_output))
      else (error_output, []))"

fun convert_loop :: "'w env \<Rightarrow> jvalue smap \<Rightarrow> argument_map \<Rightarrow> argument_map" where
  "convert_loop e [] m = m"
| "convert_loop e ((key, v) # rest) m =
     convert_loop e rest (AList.update (camel_case_to_kebab_case key)
       (case scalar_argument v of
          Some a \<Rightarrow> a
        | None \<Rightarrow> mk_arg (VString (case env_to_string e v of Inl _ \<Rightarrow> [] | Inr s \<Rightarrow> s))) m)"

definition convert_json_params_to_argument_map :: "'w env \<Rightarrow> jvalue \<Rightarrow> argument_map result" where
  "convert_json_params_to_argument_map e v = (case v of
     JObject obj \<Rightarrow> Ok (convert_loop e obj [])
   | _ \<Rightarrow> Throw ''Invalid parameters - must be an object'')"

definition convert_output_to_json :: "'w env \<Rightarrow> string \<Rightarrow> jvalue" where
  "convert_output_to_json e output =
     (if output \<noteq> [] then (case env_from_str e output of Inl _ \<Rightarrow> JString output | Inr v \<Rightarrow> v)
      else create_object)"

fun convert_ast_to_json :: "ast \<Rightarrow> jvalue"
and convert_elements :: "ast option list \<Rightarrow> jvalue list"
and convert_entries :: "(string \<times> ast option) list \<Rightarrow> jvalue smap \<Rightarrow> jvalue smap"
where
  "convert_ast_to_json ANull = JNull"
| "convert_ast_to_json (ABoolean b) = JBool b"
| "convert_ast_to_json (AInteger i) = JInteger i"
| "convert_ast_to_json (ANumber d) = JDouble d"
| "convert_ast_to_json (AString s) = JString s"
| "convert_ast_to_json (AArray a) = JArray (convert_elements a)"
| "convert_ast_to_json (AObject m) = JObject (convert_entries m [])"
| "convert_elements [] = []"
| "convert_elements (x # xs) = (case x of None \<Rightarrow> JNull | Some n \<Rightarrow> convert_ast_to_json n) # convert_elements xs"
| "convert_entries [] acc = acc"
| "convert_entries ((k, x) # rest) acc =
     convert_entries rest (AList.update k (case x of None \<Rightarrow> JNull | Some n \<Rightarrow> convert_ast_to_json n) acc)"

section \<open>Responses\<close>

text \<open>\<open>std::string::find\<close>, and the replacement of a large field's placeholder.\<close>

definition starts_with :: "string \<Rightarrow> string \<Rightarrow> bool" where
  "starts_with p s \<longleftrightarrow> take (length p) s = p"

fun find_sub :: "string \<Rightarrow> string \<Rightarrow> nat option" where
  "find_sub p [] = (if p = [] then Some 0 else None)"
| "find_sub p (c # cs) = (if starts_with p (c # cs) then Some 0 else map_option Suc (find_sub p cs))"

definition placeholder :: "string \<Rightarrow> string" where
  "placeholder field_name = [quote] @ field_name @ [quote] @ '':'' @ [quote, quote]"

definition add_large_data_to_json :: "string \<Rightarrow> string \<Rightarrow> string \<Rightarrow> string" where
  "add_large_data_to_json json_string field_name data =
     (let search_pattern = placeholder field_name in
      case find_sub search_pattern json_string of
        None \<Rightarrow> json_string
      | Some pos \<Rightarrow> take pos json_string @ [quote] @ field_name @ [quote] @ '':'' @ [quote] @ data @ [quote] @
          drop (pos + length search_pattern) json_string)"

definition rpc_response_to_json :: "'w env \<Rightarrow> rpc_response \<Rightarrow> jvalue" where
  "rpc_response_to_json e r = (case response_to_json (env_fp e) r of Inl _ \<Rightarrow> create_object | Inr v \<Rightarrow> v)"

definition error_details_to_json :: "'w env \<Rightarrow> error_details \<Rightarrow> jvalue" where
  "error_details_to_json e d = error_to_json (env_fp e) d"

text \<open>The text for the log, which may throw before anything is written.\<close>

definition log_error_data :: "'w env \<Rightarrow> rpc_response \<Rightarrow> string result" where
  "log_error_data e r = (case resp_error r of
     None \<Rightarrow> Ok []
   | Some d \<Rightarrow> (case error_data d of
       None \<Rightarrow> Ok []
     | Some (JString s) \<Rightarrow> Ok s
     | Some v \<Rightarrow> serialize_json e v))"

definition print_response :: "'w env \<Rightarrow> rpc_response \<Rightarrow> string smap \<Rightarrow> output_line list result" where
  "print_response e response large =
     bind_res (log_error_data e response) (\<lambda>_.
     bind_res (serialize_json e (rpc_response_to_json e response)) (\<lambda>json_string.
     (let json_string = fold (\<lambda>(k, d) s. add_large_data_to_json s k d) large json_string
      in Ok [if resp_error response \<noteq> None then Stderr json_string else Stdout json_string])))"

definition error_response :: "int \<Rightarrow> int \<Rightarrow> string \<Rightarrow> string option \<Rightarrow> rpc_response" where
  "error_response request_id c msg data =
     \<lparr>resp_jsonrpc = ''2.0'', resp_result = None,
      resp_error = Some \<lparr>error_code = c, message = msg, error_data = map_option JString data\<rparr>,
      resp_id = (if request_id = -1 then None else Some request_id)\<rparr>"

definition print_error :: "'w env \<Rightarrow> int \<Rightarrow> int \<Rightarrow> string \<Rightarrow> string option \<Rightarrow> output_line list result" where
  "print_error e request_id c msg data = print_response e (error_response request_id c msg data) []"

section \<open>Requests\<close>

definition parse_rpc_request :: "'w env \<Rightarrow> jvalue \<Rightarrow> rpc_request result" where
  "parse_rpc_request e v = (if \<not> is_object v then Throw ''JSON-RPC request must be an object''
     else (case request_of_json (env_fp e) v of
       Inl err \<Rightarrow> Throw (''Failed to parse RPC request: '' @ what err) | Inr r \<Rightarrow> Ok r))"

definition validate_json_with_schema :: "'w dispatcher \<Rightarrow> string \<Rightarrow> jvalue \<Rightarrow> bool \<Rightarrow> validation_result" where
  "validate_json_with_schema commands m data is_request = (case map_of commands m of
     None \<Rightarrow> vsuccess
   | Some b \<Rightarrow> (case (if is_request then request_validator b else response_validator b) of
       None \<Rightarrow> vsuccess | Some validator \<Rightarrow> validator data))"

text \<open>What remains when the handler has returned 0: the result, its validation, the response.\<close>

definition success_result :: "'w env \<Rightarrow> 'w ctx \<Rightarrow> jvalue result" where
  "success_result e c =
     (let result_json = (case object_node c of
            Some n \<Rightarrow> convert_ast_to_json n
          | None \<Rightarrow> convert_output_to_json e (get_output_content c))
      in case add_to_object ''success'' (JBool (get_error_content c = [])) result_json of
           Inl err \<Rightarrow> Throw (what err) | Inr v \<Rightarrow> Ok v)"

definition success_response :: "jvalue \<Rightarrow> int \<Rightarrow> rpc_response" where
  "success_response result_json request_id =
     \<lparr>resp_jsonrpc = ''2.0'', resp_result = Some result_json, resp_error = None, resp_id = Some request_id\<rparr>"

definition respond :: "'w env \<Rightarrow> 'w dispatcher \<Rightarrow> rpc_request \<Rightarrow> int \<Rightarrow> 'w ctx \<Rightarrow> output_line list result" where
  "respond e commands request result_code c =
     (if result_code \<noteq> 0 then
        (case process_error_output (get_error_content c) of (msg, detail) \<Rightarrow>
           print_error e (request_nr request) result_code
             (if msg = [] then ''Command execution failed ('' @ rmethod request @ '')'' else msg)
             (if detail = [] then None else Some detail))
      else bind_res (success_result e c) (\<lambda>result_json.
        (let v = validate_json_with_schema commands (rmethod request) result_json False in
         if \<not> is_valid v then
           print_error e (request_nr request) INTERNAL_ERROR
             (''Response validation failed ('' @ rmethod request @ '')'') (Some (error_message v))
         else print_response e (success_response result_json (request_nr request)) (large_data c))))"

text \<open>The body of the \<open>try\<close> block.  With an exception come the lines and the world up to it.\<close>

definition process_parsed :: "'w env \<Rightarrow> 'w dispatcher \<Rightarrow> rpc_request \<Rightarrow> 'w \<Rightarrow> output_line list \<times> 'w \<times> exn option" where
  "process_parsed e commands request w =
     (let answer = (\<lambda>ls w r. case r of Inl err \<Rightarrow> (ls, w, Some err) | Inr more_ls \<Rightarrow> (ls @ more_ls, w, None)) in
      if \<not> has_command (rmethod request) commands then
        answer [] w (print_error e (request_nr request) METHOD_NOT_FOUND (''Unrecognized command '' @ rmethod request) None)
      else
        (let v = (case params request of None \<Rightarrow> vsuccess
                  | Some p \<Rightarrow> validate_json_with_schema commands (rmethod request) p True) in
         if \<not> is_valid v then
           answer [] w (print_error e (request_nr request) INVALID_PARAMS
             (''Request validation failed ('' @ rmethod request @ '')'') (Some (error_message v)))
         else
           (case (case params request of None \<Rightarrow> Ok [] | Some p \<Rightarrow> convert_json_params_to_argument_map e p) of
              Inl err \<Rightarrow> ([], w, Some err)
            | Inr arguments \<Rightarrow>
                (case dispatch e commands (rmethod request) (new_ctx (rmethod request) arguments w) of
                   (result_code, c) \<Rightarrow> answer (emitted c) (world c) (respond e commands request result_code c)))))"

definition parse_error :: "'w env \<Rightarrow> string \<Rightarrow> output_line list result" where
  "parse_error e msg = print_error e (-1) PARSE_ERROR ''Failed to parse command request'' (Some msg)"

definition from_str_request :: "'w env \<Rightarrow> string \<Rightarrow> rpc_request expected" where
  "from_str_request e s = bind_res (env_from_str e s) (request_of_json (env_fp e))"

text \<open>The lines, the world, and the exception that leaves the handler of the \<open>try\<close> block, if one
  does.\<close>

definition process_request :: "'w env \<Rightarrow> 'w dispatcher \<Rightarrow> string \<Rightarrow> 'w \<Rightarrow> output_line list \<times> 'w \<times> exn option" where
  "process_request e commands request_data w =
     (case (case from_str_request e request_data of
              Inl err \<Rightarrow> (case parse_error e (c_str (what err)) of Inl err \<Rightarrow> ([], w, Some err) | Inr ls \<Rightarrow> (ls, w, None))
            | Inr request \<Rightarrow> process_parsed e commands request w) of
        (ls, w, None) \<Rightarrow> (ls, w, None)
      | (ls, w, Some err) \<Rightarrow> (case parse_error e (c_str err) of
          Inl err \<Rightarrow> (ls, w, Some err) | Inr more_ls \<Rightarrow> (ls @ more_ls, w, None)))"

section \<open>Timeouts\<close>

definition timed_out_request :: "jvalue \<Rightarrow> int \<times> string" where
  "timed_out_request v = (case v of
     JObject obj \<Rightarrow>
       ((case entry ''id'' v of Inr (JInteger i) \<Rightarrow> to_int i | _ \<Rightarrow> -1),
        (case entry ''method'' v of Inr (JString s) \<Rightarrow> s | _ \<Rightarrow> ''unknown''))
   | _ \<Rightarrow> (-1, ''unknown''))"

definition send_timeout_error :: "'w env \<Rightarrow> string \<Rightarrow> int \<Rightarrow> output_line list result" where
  "send_timeout_error e request_data timeout_ms =
     (case (case env_from_str e request_data of Inl _ \<Rightarrow> (-1, ''unknown'') | Inr v \<Rightarrow> timed_out_request v) of
        (request_id, m) \<Rightarrow>
          print_error e request_id REQUEST_TIMEOUT
            (''Request timed out after '' @ show_int timeout_ms @ '' ms (method: '' @ m @ '')'') None)"

section \<open>The lines of a request\<close>

definition response_text :: "'w env \<Rightarrow> rpc_response \<Rightarrow> string result" where
  "response_text e r = serialize_json e (rpc_response_to_json e r)"

definition error_line :: "'w env \<Rightarrow> int \<Rightarrow> output_line \<Rightarrow> bool" where
  "error_line e request_id l \<longleftrightarrow> (\<exists>c msg data s. l = Stderr s \<and> response_text e (error_response request_id c msg data) = Ok s)"

definition success_line :: "'w env \<Rightarrow> int \<Rightarrow> output_line \<Rightarrow> bool" where
  "success_line e request_id l \<longleftrightarrow> (\<exists>v large s. l = Stdout (fold (\<lambda>(k, d) s. add_large_data_to_json s k d) large s) \<and>
     response_text e (success_response v request_id) = Ok s)"

lemma map_sum_eq_Inr [res_simps]: "map_sum id f x = Inr y \<longleftrightarrow> (\<exists>a. x = Inr a \<and> y = f a)"
  by (cases x) auto

lemma map_sum_eq_Inl [res_simps]: "map_sum id f x = Inl y \<longleftrightarrow> x = Inl y"
  by (cases x) auto

lemma print_error_eq: "print_error e i c m d = map_sum id (\<lambda>s. [Stderr s]) (response_text e (error_response i c m d))"
proof -
  have "\<exists>s. log_error_data e (error_response i c m d) = Ok s"
    by (cases d) (simp_all add: log_error_data_def error_response_def)
  moreover have "resp_error (error_response i c m d) \<noteq> None"
    by (simp add: error_response_def)
  ultimately show ?thesis
    by (cases "response_text e (error_response i c m d)")
      (auto simp: print_error_def print_response_def response_text_def)
qed

lemma print_success_eq: "print_response e (success_response v i) large =
    map_sum id (\<lambda>s. [Stdout (fold (\<lambda>(k, d) s. add_large_data_to_json s k d) large s)]) (response_text e (success_response v i))"
proof -
  have "log_error_data e (success_response v i) = Ok []" "resp_error (success_response v i) = None"
    by (simp_all add: log_error_data_def success_response_def)
  then show ?thesis
    by (cases "response_text e (success_response v i)") (simp_all add: print_response_def response_text_def)
qed

lemma print_error_line: "print_error e i c msg data = Ok ls \<Longrightarrow> \<exists>l. ls = [l] \<and> error_line e i l"
  unfolding print_error_eq error_line_def map_sum_eq_Inr by blast

lemma parse_error_line: "parse_error e msg = Ok ls \<Longrightarrow> \<exists>l. ls = [l] \<and> error_line e (-1) l"
  unfolding parse_error_def by (rule print_error_line)

text \<open>What \<open>respond\<close> writes: an error whenever the command failed or its result does not
  validate, the validated result otherwise.\<close>

lemma respond_line:
  assumes "respond e commands r rc c = Ok ls"
  shows "\<exists>l. ls = [l] \<and> (error_line e (request_nr r) l \<or>
    success_line e (request_nr r) l \<and> rc = 0 \<and> (\<exists>v. success_result e c = Ok v \<and>
      is_valid (validate_json_with_schema commands (rmethod r) v False) \<and>
      print_response e (success_response v (request_nr r)) (large_data c) = Ok ls))"
proof (cases "rc = 0")
  case False
  then show ?thesis
    using assms print_error_line [of e "request_nr r"] by (auto simp: respond_def split: prod.splits)
next
  case True
  then obtain v where v: "success_result e c = Ok v"
    using assms by (auto simp: respond_def res_simps)
  show ?thesis
  proof (cases "is_valid (validate_json_with_schema commands (rmethod r) v False)")
    case ok: True
    then have p: "print_response e (success_response v (request_nr r)) (large_data c) = Ok ls"
      using True v assms by (simp add: respond_def)
    then obtain l where "ls = [l]" "success_line e (request_nr r) l"
      by (auto simp: print_success_eq success_line_def res_simps)
    then show ?thesis
      using True v ok p by blast
  next
    case False
    then show ?thesis
      using True v assms print_error_line [of e "request_nr r"] by (auto simp: respond_def)
  qed
qed

text \<open>The checks before a command runs, in their order.\<close>

datatype admission = UnknownMethod | InvalidParams string | BadArguments exn | Admitted argument_map

definition admit :: "'w env \<Rightarrow> 'w dispatcher \<Rightarrow> rpc_request \<Rightarrow> admission" where
  "admit e commands r =
     (if \<not> has_command (rmethod r) commands then UnknownMethod
      else case params r of
        None \<Rightarrow> Admitted []
      | Some p \<Rightarrow> (if \<not> is_valid (validate_json_with_schema commands (rmethod r) p True)
                 then InvalidParams (error_message (validate_json_with_schema commands (rmethod r) p True))
                 else (case convert_json_params_to_argument_map e p of Inl msg \<Rightarrow> BadArguments msg | Inr m \<Rightarrow> Admitted m)))"

definition answer :: "output_line list \<Rightarrow> 'w \<Rightarrow> output_line list result \<Rightarrow> output_line list \<times> 'w \<times> exn option" where
  "answer ls w r = (case r of Inl err \<Rightarrow> (ls, w, Some err) | Inr more_ls \<Rightarrow> (ls @ more_ls, w, None))"

lemma process_parsed_admit:
  "process_parsed e commands r w = (case admit e commands r of
     UnknownMethod \<Rightarrow> answer [] w (print_error e (request_nr r) METHOD_NOT_FOUND (''Unrecognized command '' @ rmethod r) None)
   | InvalidParams msg \<Rightarrow> answer [] w (print_error e (request_nr r) INVALID_PARAMS
       (''Request validation failed ('' @ rmethod r @ '')'') (Some msg))
   | BadArguments msg \<Rightarrow> ([], w, Some msg)
   | Admitted m \<Rightarrow> (case dispatch e commands (rmethod r) (new_ctx (rmethod r) m w) of
       (rc, c) \<Rightarrow> answer (emitted c) (world c) (respond e commands r rc c)))"
  by (simp add: process_parsed_def admit_def answer_def Let_def split: option.split sum.split)

lemma answer_None: "answer ls w r = (ls', w', None) \<longleftrightarrow> (\<exists>m. r = Ok m \<and> ls' = ls @ m \<and> w' = w)"
  by (auto simp: answer_def split: sum.split)

text \<open>The lines that the handler of the request's command has sent by the time it returns; a request that is not
  admitted has none.\<close>

definition handler_lines :: "'w env \<Rightarrow> 'w dispatcher \<Rightarrow> string \<Rightarrow> 'w \<Rightarrow> output_line list" where
  "handler_lines e commands request_data w = (case from_str_request e request_data of
     Inl _ \<Rightarrow> []
   | Inr r \<Rightarrow> (case admit e commands r of
       Admitted m \<Rightarrow> emitted (snd (dispatch e commands (rmethod r) (new_ctx (rmethod r) m w)))
     | _ \<Rightarrow> []))"

definition handler_world :: "'w env \<Rightarrow> 'w dispatcher \<Rightarrow> string \<Rightarrow> 'w \<Rightarrow> 'w" where
  "handler_world e commands request_data w = (case from_str_request e request_data of
     Inl _ \<Rightarrow> w
   | Inr r \<Rightarrow> (case admit e commands r of
       Admitted m \<Rightarrow> world (snd (dispatch e commands (rmethod r) (new_ctx (rmethod r) m w)))
     | _ \<Rightarrow> w))"

lemma process_parsed_lines:
  assumes "process_parsed e commands r w = (ls, w', x)" "from_str_request e request_data = Ok r"
  shows "w' = handler_world e commands request_data w \<and>
    (if x = None then \<exists>l. ls = handler_lines e commands request_data w @ [l] \<and> (success_line e (request_nr r) l \<or> error_line e (request_nr r) l)
     else ls = handler_lines e commands request_data w)"
proof (cases "admit e commands r")
  case (Admitted m)
  obtain rc c where "dispatch e commands (rmethod r) (new_ctx (rmethod r) m w) = (rc, c)"
    by fastforce
  then show ?thesis
    using assms Admitted respond_line [of e commands r rc c]
    by (cases "respond e commands r rc c") (auto simp: process_parsed_admit answer_def handler_lines_def handler_world_def)
next
  case UnknownMethod
  then show ?thesis
    using assms by (auto simp: process_parsed_admit answer_def handler_lines_def handler_world_def split: sum.splits dest!: print_error_line)
next
  case (InvalidParams msg)
  then show ?thesis
    using assms by (auto simp: process_parsed_admit answer_def handler_lines_def handler_world_def split: sum.splits dest!: print_error_line)
qed (use assms in \<open>auto simp: process_parsed_admit handler_lines_def handler_world_def\<close>)

text \<open>C1: Every request is answered by exactly one line: what is written is what the handler of the command sent while it
  ran, nothing when no handler ran, and then one line, either a result on the output stream or an error on the error
  stream.  A text that is not a request gets an error with a null id; a request gets its own id, except that an error
  raised by an exception has the null id.  The operation itself throws only when that error response cannot be
  serialized, and has then written no answer.  The world is the one that the handler left.\<close>

theorem process_request_answers:
  "case process_request e commands request_data w of (ls, w', x) \<Rightarrow>
     w' = handler_world e commands request_data w \<and>
     (case x of
        None \<Rightarrow> (\<exists>l. ls = handler_lines e commands request_data w @ [l] \<and>
          (case from_str_request e request_data of
             Inl _ \<Rightarrow> error_line e (-1) l
           | Inr r \<Rightarrow> success_line e (request_nr r) l \<or> error_line e (request_nr r) l \<or> error_line e (-1) l))
      | Some err \<Rightarrow> ls = handler_lines e commands request_data w \<and> (\<exists>msg. parse_error e msg = Throw err))"
proof (cases "from_str_request e request_data")
  case (Inl err)
  then show ?thesis
    by (auto simp: process_request_def handler_lines_def handler_world_def split: sum.splits dest!: parse_error_line)
next
  case (Inr r)
  obtain ls w' x where p: "process_parsed e commands r w = (ls, w', x)"
    by (metis prod_cases3)
  note parsed = process_parsed_lines [OF p Inr]
  show ?thesis
  proof (cases x)
    case None
    then show ?thesis
      using parsed p by (auto simp: process_request_def Inr)
  next
    case (Some err)
    then show ?thesis
      using parsed p by (cases "parse_error e (c_str err)") (auto simp: process_request_def Inr dest!: parse_error_line)
  qed
qed

lemma process_request_parsed: "from_str_request e s = Ok r \<Longrightarrow> process_request e commands s w =
    (case process_parsed e commands r w of
        (ls, w, None) \<Rightarrow> (ls, w, None)
      | (ls, w, Some err) \<Rightarrow> (case parse_error e (c_str err) of
          Inl err \<Rightarrow> (ls, w, Some err) | Inr more_ls \<Rightarrow> (ls @ more_ls, w, None)))"
  by (simp add: process_request_def)

lemma answer_printed: "answer ls w (print_error e i c m d) = (case response_text e (error_response i c m d) of
    Inl err \<Rightarrow> (ls, w, Some err) | Inr s \<Rightarrow> (ls @ [Stderr s], w, None))"
  by (cases "response_text e (error_response i c m d)") (simp_all add: answer_def print_error_eq)

section \<open>Requests that are turned away\<close>

text \<open>C3: A request for a command that is not registered, or whose parameters fail the command's
  request schema, is answered with the corresponding JSON-RPC error under its own id and nothing else
  happens: no handler runs, no other line is written, the world is unchanged.\<close>

theorem rejected_requests:
  assumes "from_str_request e s = Ok r"
  shows "(\<not> has_command (rmethod r) commands \<and>
      response_text e (error_response (request_nr r) METHOD_NOT_FOUND (''Unrecognized command '' @ rmethod r) None) = Ok txt \<longrightarrow>
      process_request e commands s w = ([Stderr txt], w, None)) \<and>
    (has_command (rmethod r) commands \<and> params r = Some p \<and>
      validate_json_with_schema commands (rmethod r) p True = verror msg \<and>
      response_text e (error_response (request_nr r) INVALID_PARAMS
        (''Request validation failed ('' @ rmethod r @ '')'') (Some msg)) = Ok txt \<longrightarrow>
      process_request e commands s w = ([Stderr txt], w, None))"
  using assms by (simp add: process_request_parsed process_parsed_admit admit_def answer_printed verror_def)

section \<open>Requests that run\<close>

lemma process_admitted:
  assumes "from_str_request e s = Ok r" "admit e commands r = Admitted m"
    and "dispatch e commands (rmethod r) (new_ctx (rmethod r) m w) = (rc, c)"
    and "respond e commands r rc c = Ok ls"
  shows "process_request e commands s w = (emitted c @ ls, world c, None)"
  using assms by (simp add: process_request_parsed process_parsed_admit answer_def)

lemma process_admitted_throws:
  assumes "from_str_request e s = Ok r" "admit e commands r = Admitted m"
    and "dispatch e commands (rmethod r) (new_ctx (rmethod r) m w) = (rc, c)"
    and "respond e commands r rc c = Throw err"
    and "response_text e (error_response (-1) PARSE_ERROR ''Failed to parse command request'' (Some (c_str err))) = Ok txt"
  shows "process_request e commands s w = (emitted c @ [Stderr txt], world c, None)"
  using assms by (simp add: process_request_parsed process_parsed_admit answer_def parse_error_def print_error_eq)

lemma error_not_stdout [simp]: "\<not> error_line e i (Stdout s)"
  by (auto simp: error_line_def)

text \<open>C2: A result on the output stream means the request was admitted, the handler returned 0, and
  the result passed the command's response schema in strict mode; its field \<open>success\<close> tells whether
  the handler left the error stream empty.\<close>

theorem results_are_validated:
  assumes "process_request e commands s w = (ls, w', None)" "last ls = Stdout txt"
  shows "\<exists>r m c v obj. from_str_request e s = Ok r \<and> admit e commands r = Admitted m \<and>
    dispatch e commands (rmethod r) (new_ctx (rmethod r) m w) = (0, c) \<and> w' = world c \<and>
    v = JObject obj \<and> map_of obj ''success'' = Some (JBool (error_stream c = [])) \<and>
    is_valid (validate_json_with_schema commands (rmethod r) v False) \<and>
    print_response e (success_response v (request_nr r)) (large_data c) = Ok [Stdout txt]"
proof -
  have parse_last: False if "parse_error e msg = Ok ls'" "last (pre @ ls') = Stdout txt" for msg ls' pre
    using parse_error_line [OF that(1)] that(2) by auto
  obtain r where r: "from_str_request e s = Ok r"
    using assms parse_last [of _ _ "[]"]
    by (cases "from_str_request e s") (auto simp: process_request_def split: sum.splits)
  have "snd (snd (process_parsed e commands r w)) = None"
  proof (rule ccontr)
    assume "snd (snd (process_parsed e commands r w)) \<noteq> None"
    then obtain l w1 err where "process_parsed e commands r w = (l, w1, Some err)"
      by (cases "process_parsed e commands r w") auto
    then show False
      using assms r parse_last by (auto simp: process_request_parsed split: sum.splits)
  qed
  then have p: "process_parsed e commands r w = (ls, w', None)"
    using assms(1) r by (cases "process_parsed e commands r w") (auto simp: process_request_parsed)
  have err_last: "print_error e i c m d \<noteq> Ok ls" for i c m d
    using print_error_line [of e i c m d ls] assms(2) by auto
  obtain m where m: "admit e commands r = Admitted m"
    using p err_last by (cases "admit e commands r") (auto simp: process_parsed_admit answer_None)
  obtain rc c where d: "dispatch e commands (rmethod r) (new_ctx (rmethod r) m w) = (rc, c)"
    by fastforce
  obtain out where out: "respond e commands r rc c = Ok out" "ls = emitted c @ out" "w' = world c"
    using p m d by (auto simp: process_parsed_admit answer_None)
  obtain l where l: "out = [l]" "error_line e (request_nr r) l \<or>
      success_line e (request_nr r) l \<and> rc = 0 \<and> (\<exists>v. success_result e c = Ok v \<and>
      is_valid (validate_json_with_schema commands (rmethod r) v False) \<and>
      print_response e (success_response v (request_nr r)) (large_data c) = Ok out)"
    using respond_line [OF out(1)] by blast
  have "l = Stdout txt"
    using assms(2) out(2) l(1) by simp
  then obtain v where v: "rc = 0" "success_result e c = Ok v"
      "is_valid (validate_json_with_schema commands (rmethod r) v False)"
      "print_response e (success_response v (request_nr r)) (large_data c) = Ok [Stdout txt]"
    using l by auto
  obtain obj where "v = JObject obj" "map_of obj ''success'' = Some (JBool (error_stream c = []))"
    using v(2) by (auto simp: success_result_def add_to_object_def Let_def get_error_content_def map_of_update
        split: sum.splits jvalue.splits option.splits)
  then show ?thesis
    using r m d v out(3) by blast
qed

section \<open>A server with one command\<close>

text \<open>An environment in which every text is the example request (\<open>listFiles\<close>, id 7) and every
  value prints as an empty object; the command's handler is given.\<close>

definition demo_env :: "unit env" where
  "demo_env = \<lparr>env_from_str = (\<lambda>s. request_to_json example_fp example_request), env_to_string = (\<lambda>v. Ok ''{}''),
     env_fp = example_fp, env_tmpdir = None, env_geteuid = 1, env_getpid = 2,
     env_unlink = (\<lambda>p w. (0, w)), env_mkfifo = (\<lambda>p m w. (0, w)), env_ENOENT = 129\<rparr>"

definition demo_commands :: "unit handler \<Rightarrow> unit dispatcher" where
  "demo_commands h = [(''listFiles'', command_builder (Some h))]"

definition demo_arguments :: argument_map where
  "demo_arguments = [(''fspath'', mk_arg (VString ''/''))]"

lemma demo_request: "from_str_request demo_env s = Ok example_request"
  using request_back [of example_request example_fp]
  by (simp add: from_str_request_def demo_env_def example_request_def int_ok_def not_null_def)

lemma example_request_fields [simp]:
  "rmethod example_request = ''listFiles''" "request_nr example_request = 7"
  "params example_request = Some (JObject [(''fspath'', JString ''/'')])"
  by (simp_all add: example_request_def)

lemma demo_text [simp]: "response_text demo_env r = Ok ''{}''"
  by (simp add: response_text_def serialize_json_def demo_env_def)

lemma demo_admit: "admit demo_env (demo_commands h) example_request = Admitted demo_arguments"
  by (simp add: admit_def demo_commands_def has_command_def validate_json_with_schema_def command_builder_def
      convert_json_params_to_argument_map_def camel_case_to_kebab_case_def scalar_argument_def demo_arguments_def is_upper_def code_def)

lemma no_transforms:
  "transforms b = [] \<Longrightarrow> apply_output_transforms e b c = set_object (Some (case object_node c of None \<Rightarrow> AObject [] | Some n \<Rightarrow> n)) c"
  by (auto simp: apply_output_transforms_def Let_def split: option.split ast.split)

definition demo_result :: "unit ctx" where
  "demo_result = set_object (Some (AObject [])) (new_ctx ''listFiles'' demo_arguments ())"

lemma demo_dispatch: "dispatch demo_env (demo_commands (\<lambda>c. (Returned 0, c))) (rmethod example_request)
    (new_ctx (rmethod example_request) demo_arguments ()) = (0, demo_result)"
  by (simp add: dispatch_def demo_commands_def command_builder_def apply_input_transforms_def no_transforms demo_result_def)
    (simp add: new_ctx_def)

lemma demo_respond: "respond demo_env (demo_commands h) example_request 0 demo_result = Ok [Stdout ''{}'']"
  by (simp add: respond_def success_result_def demo_result_def new_ctx_def set_object_def add_to_object_def
      validate_json_with_schema_def demo_commands_def command_builder_def print_success_eq get_error_content_def)

theorem rejected_requests_witness:
  "process_request demo_env [] ''x'' () = ([Stderr ''{}''], (), None)"
  using rejected_requests [OF demo_request, of "[]" "''{}''" "''x''" "()"] by (simp add: has_command_def)

theorem results_are_validated_witness:
  "process_request demo_env (demo_commands (\<lambda>c. (Returned 0, c))) ''x'' () = ([Stdout ''{}''], (), None) \<and>
     (\<exists>r m c v obj. from_str_request demo_env ''x'' = Ok r \<and> admit demo_env (demo_commands (\<lambda>c. (Returned 0, c))) r = Admitted m \<and>
       dispatch demo_env (demo_commands (\<lambda>c. (Returned 0, c))) (rmethod r) (new_ctx (rmethod r) m ()) = (0, c) \<and> () = world c \<and>
       v = JObject obj \<and> map_of obj ''success'' = Some (JBool (error_stream c = [])) \<and>
       is_valid (validate_json_with_schema (demo_commands (\<lambda>c. (Returned 0, c))) (rmethod r) v False) \<and>
       print_response demo_env (success_response v (request_nr r)) (large_data c) = Ok [Stdout ''{}''])"
proof -
  have p: "process_request demo_env (demo_commands (\<lambda>c. (Returned 0, c))) ''x'' () = ([Stdout ''{}''], (), None)"
    using process_admitted [OF demo_request demo_admit demo_dispatch demo_respond]
    by (simp add: demo_result_def new_ctx_def set_object_def)
  show ?thesis
    using p results_are_validated [OF p] by simp
qed

section \<open>Failing commands\<close>

text \<open>A handler that throws a standard exception as the first thing it has to report is answered
  under the request's id with an internal error whose message is the text of the exception, up to its
  first line break; the lines it had sent stay sent, and the output transformations are not run, so
  what the world is then is what the handler left (a FIFO made for it included).\<close>

theorem handler_exception_reported:
  assumes "from_str_request e s = Ok r" "admit e commands r = Admitted m"
    and "map_of commands (rmethod r) = Some b" "handler b = Some h"
    and "h (apply_input_transforms e b (new_ctx (rmethod r) m w)) = (ThrewStd msg, c)"
    and "error_stream c = []" "newline \<notin> set (c_str msg)"
    and "response_text e (error_response (request_nr r) INTERNAL_ERROR (''Command execution failed: '' @ c_str msg) None) = Ok txt"
  shows "process_request e commands s w = (emitted c @ [Stderr txt], world c, None)"
proof -
  define c' where "c' = errln msg (io_err ''Command execution failed: '' c)"
  have d: "dispatch e commands (rmethod r) (new_ctx (rmethod r) m w) = (INTERNAL_ERROR, c')"
    by (simp add: dispatch_def assms(3-5) c'_def)
  have pre: "c_str ''Command execution failed: '' = ''Command execution failed: ''"
    by code_simp
  have nl: "newline \<notin> set ''Command execution failed: ''"
    by (simp add: newline_def) (simp add: char_of_def)
  have err: "error_stream c' = (''Command execution failed: '' @ c_str msg) @ [newline]"
    by (simp add: c'_def errln_def io_err_def assms(6) pre del: append.simps)
  have split: "process_error_output (t @ [newline]) = (t, [])" if "newline \<notin> set t" for t
  proof -
    have "takeWhile (\<lambda>c. c \<noteq> newline) (t @ [newline]) = t" "dropWhile (\<lambda>c. c \<noteq> newline) (t @ [newline]) = [newline]"
      using that by (induction t) auto
    then show ?thesis
      by (simp add: process_error_output_def)
  qed
  have "process_error_output (error_stream c') = (''Command execution failed: '' @ c_str msg, [])"
    unfolding err by (rule split) (use nl assms(7) in auto)
  then have "respond e commands r INTERNAL_ERROR c' = Ok [Stderr txt]"
    using assms(8) by (simp add: respond_def INTERNAL_ERROR_def get_error_content_def print_error_eq)
  from process_admitted [OF assms(1,2) d this] show ?thesis
    by (simp add: c'_def errln_def io_err_def)
qed

theorem handler_exception_reported_witness:
  "process_request demo_env (demo_commands (\<lambda>c. (ThrewStd ''boom'', c))) ''x'' () = ([Stderr ''{}''], (), None)"
proof -
  have boom: "newline \<notin> set (c_str ''boom'')"
    by code_simp
  define c :: "unit ctx" where "c = new_ctx ''listFiles'' demo_arguments ()"
  define b :: "unit builder" where "b = command_builder (Some (\<lambda>c. (ThrewStd ''boom'', c)))"
  have "process_request demo_env (demo_commands (\<lambda>c. (ThrewStd ''boom'', c))) ''x'' () = (emitted c @ [Stderr ''{}''], world c, None)"
    by (rule handler_exception_reported [OF demo_request demo_admit, where b = b and msg = "''boom''"])
      (simp_all add: b_def c_def demo_commands_def command_builder_def apply_input_transforms_def new_ctx_def boom)
  then show ?thesis
    by (simp add: c_def new_ctx_def)
qed

text \<open>A handler that succeeds with a result that is an array or a primitive value is answered with a
  parse error under the null id, although the request was read and its id is known.\<close>

theorem non_object_result_is_parse_error:
  assumes "from_str_request e s = Ok r" "admit e commands r = Admitted m"
    and "dispatch e commands (rmethod r) (new_ctx (rmethod r) m w) = (0, c)"
    and "object_node c = Some n" "ast_kind_of n \<noteq> KObject"
    and "response_text e (error_response (-1) PARSE_ERROR ''Failed to parse command request''
           (Some ''Invalid type. Expected object, found other'')) = Ok txt"
  shows "process_request e commands s w = (emitted c @ [Stderr txt], world c, None)"
proof -
  have "success_result e c = Throw ''Invalid type. Expected object, found other''"
    using assms(4,5) by (cases n) (simp_all add: success_result_def add_to_object_def invalid_type_def mk_error_def)
  then have "respond e commands r 0 c = Throw ''Invalid type. Expected object, found other''"
    by (simp add: respond_def)
  moreover have "c_str ''Invalid type. Expected object, found other'' = ''Invalid type. Expected object, found other''"
    by code_simp
  ultimately show ?thesis
    using process_admitted_throws [OF assms(1-3)] assms(6) by metis
qed

theorem non_object_result_is_parse_error_witness:
  "process_request demo_env (demo_commands (\<lambda>c. (Returned 0, set_object (Some (AArray [])) c))) ''x'' () = ([Stderr ''{}''], (), None)"
proof -
  define c :: "unit ctx" where "c = set_object (Some (AArray [])) (new_ctx ''listFiles'' demo_arguments ())"
  have "dispatch demo_env (demo_commands (\<lambda>c. (Returned 0, set_object (Some (AArray [])) c))) (rmethod example_request)
      (new_ctx (rmethod example_request) demo_arguments ()) = (0, c)"
    by (simp add: dispatch_def demo_commands_def command_builder_def apply_input_transforms_def no_transforms c_def)
      (simp add: set_object_def)
  from non_object_result_is_parse_error [OF demo_request demo_admit this, of "AArray []"] show ?thesis
    by (simp add: c_def set_object_def new_ctx_def)
qed

section \<open>Large data and timeouts\<close>

lemma find_sub_first:
  assumes "starts_with p post" "p \<noteq> []" "\<forall>k<length pre. \<not> starts_with p (drop k (pre @ post))"
  shows "find_sub p (pre @ post) = Some (length pre)"
  using assms
proof (induction pre)
  case Nil
  then show ?case
    by (cases post) (auto simp: starts_with_def)
next
  case (Cons c pre)
  have "\<forall>k<length pre. \<not> starts_with p (drop k (pre @ post))"
    using Cons.prems(3) by (metis Suc_mono append_Cons drop_Suc_Cons length_Cons)
  moreover have "\<not> starts_with p (c # pre @ post)"
    using Cons.prems(3) by (metis append_Cons drop0 length_greater_0_conv list.distinct(1))
  ultimately show ?case
    using Cons by simp
qed

lemma find_sub_none: "p \<noteq> [] \<Longrightarrow> \<forall>k<length s. \<not> starts_with p (drop k s) \<Longrightarrow> find_sub p s = None"
proof (induction s)
  case (Cons c s)
  have "\<forall>k<length s. \<not> starts_with p (drop k s)"
    using Cons.prems(2) by (metis Suc_mono drop_Suc_Cons length_Cons)
  moreover have "\<not> starts_with p (c # s)"
    using Cons.prems(2) by (metis drop0 length_greater_0_conv list.distinct(1))
  ultimately show ?case
    using Cons by simp
qed simp

lemma placeholder_nonempty [simp]: "placeholder n \<noteq> []"
  by (simp add: placeholder_def)

text \<open>Splicing large data replaces the first empty field of that name in the serialized response
  with the data, byte for byte and unescaped, and leaves the rest of the text as it is; a text without
  such a field is not changed.\<close>

theorem large_data_spliced:
  "((\<forall>k<length pre. \<not> starts_with (placeholder n) (drop k (pre @ placeholder n @ post))) \<longrightarrow>
     add_large_data_to_json (pre @ placeholder n @ post) n data =
       pre @ [quote] @ n @ [quote] @ '':'' @ [quote] @ data @ [quote] @ post) \<and>
   ((\<forall>k<length s. \<not> starts_with (placeholder n) (drop k s)) \<longrightarrow> add_large_data_to_json s n data = s)"
proof (intro conjI impI)
  assume a: "\<forall>k<length pre. \<not> starts_with (placeholder n) (drop k (pre @ placeholder n @ post))"
  have "find_sub (placeholder n) (pre @ placeholder n @ post) = Some (length pre)"
    by (rule find_sub_first) (use a in \<open>simp_all add: starts_with_def\<close>)
  then show "add_large_data_to_json (pre @ placeholder n @ post) n data =
       pre @ [quote] @ n @ [quote] @ '':'' @ [quote] @ data @ [quote] @ post"
    by (simp add: add_large_data_to_json_def)
next
  assume "\<forall>k<length s. \<not> starts_with (placeholder n) (drop k s)"
  then show "add_large_data_to_json s n data = s"
    by (simp add: add_large_data_to_json_def find_sub_none)
qed

theorem large_data_spliced_witness:
  "add_large_data_to_json (''{'' @ placeholder ''data'' @ ''}'') ''data'' ''QUJD'' =
     ''{'' @ [quote] @ ''data'' @ [quote] @ '':'' @ [quote] @ ''QUJD'' @ [quote] @ ''}''"
  by (rule large_data_spliced [THEN conjunct1, THEN mp]) (simp add: starts_with_def placeholder_def quote_def)

lemma as_string_inv: "as_string v = Ok s \<Longrightarrow> v = JString s"
  by (cases v) (simp_all add: as_string_def)

lemma request_of_json_fields:
  assumes "request_of_json fp (JObject obj) = Ok r"
  shows "\<exists>v. map_of obj ''method'' = Some v \<and> as_string v = Ok (rmethod r)"
    and "\<exists>v. map_of obj ''id'' = Some v \<and> deserialize_int fp v = Ok (request_nr r)"
proof -
  obtain t where t: "deserialize_fields StyleNone obj (request_fields fp) empty_request = Some t" "r = t"
    using assms by (auto simp: request_of_json_def deserialize_struct_def is_object_def as_object_def split: option.splits)
  show "\<exists>v. map_of obj ''method'' = Some v \<and> as_string v = Ok (rmethod r)"
    "\<exists>v. map_of obj ''id'' = Some v \<and> deserialize_int fp v = Ok (request_nr r)"
    using t by (auto simp: field_defs struct_defs split: option.splits sum.splits)
qed

text \<open>A request that times out is answered under the id that its own answer would have, provided
  the id is written as an integer.\<close>

theorem timeout_keeps_id:
  assumes "env_from_str e s = Ok (JObject obj)" "request_of_json (env_fp e) (JObject obj) = Ok r"
    and "map_of obj ''id'' = Some (JInteger i)"
  shows "send_timeout_error e s ms = print_error e (request_nr r) REQUEST_TIMEOUT
    (''Request timed out after '' @ show_int ms @ '' ms (method: '' @ rmethod r @ '')'') None"
proof -
  have "map_of obj ''method'' = Some (JString (rmethod r))"
    using request_of_json_fields(1) [OF assms(2)] as_string_inv by auto
  moreover have "i = request_nr r" "int_ok i"
    using request_of_json_fields(2) [OF assms(2)] assms(3)
    by (auto simp: deserialize_int_def as_int64_def int_ok_def split: if_splits)
  moreover have "to_int i = i"
    using \<open>int_ok i\<close> by (simp add: to_int_ok)
  ultimately show ?thesis
    by (simp add: send_timeout_error_def timed_out_request_def assms entry_def)
qed

theorem timeout_keeps_id_witness:
  "send_timeout_error demo_env ''x'' 1000 = print_error demo_env 7 REQUEST_TIMEOUT
    (''Request timed out after '' @ show_int 1000 @ '' ms (method: '' @ ''listFiles'' @ '')'') None"
proof -
  obtain obj where obj: "request_to_json example_fp example_request = Ok (JObject obj)" "map_of obj ''id'' = Some (JInteger 7)"
    by (simp add: request_json)
  then have "request_of_json example_fp (JObject obj) = Ok example_request"
    using demo_request by (simp add: from_str_request_def demo_env_def)
  then show ?thesis
    using timeout_keeps_id [of demo_env "''x''" obj example_request 7 1000] obj by (simp add: demo_env_def)
qed

section \<open>Parameters as arguments\<close>

definition param_argument :: "'w env \<Rightarrow> jvalue \<Rightarrow> argument" where
  "param_argument e v = (case scalar_argument v of
     Some a \<Rightarrow> a | None \<Rightarrow> mk_arg (VString (case env_to_string e v of Inl _ \<Rightarrow> [] | Inr s \<Rightarrow> s)))"

lemma kebab_injective: "camel_case s \<Longrightarrow> camel_case t \<Longrightarrow> camel_case_to_kebab_case s = camel_case_to_kebab_case t \<Longrightarrow> s = t"
  using kebab_unkebab by metis

lemma convert_loop_Cons: "convert_loop e ((k, v) # rest) m =
    convert_loop e rest (AList.update (camel_case_to_kebab_case k) (param_argument e v) m)"
  by (simp add: param_argument_def)

lemma convert_loop_lookup:
  assumes "keys_ok obj" "list_all (camel_case \<circ> fst) obj" "camel_case k"
  shows "map_of (convert_loop e obj m) (camel_case_to_kebab_case k) =
    (case map_of obj k of None \<Rightarrow> map_of m (camel_case_to_kebab_case k) | Some v \<Rightarrow> Some (param_argument e v))"
  using assms
proof (induction obj arbitrary: m)
  case (Cons kv rest)
  obtain k' v where kv: "kv = (k', v)"
    by (cases kv)
  have fresh: "map_of rest k' = None" and rest: "keys_ok rest" "list_all (camel_case \<circ> fst) rest" "camel_case k'"
    using Cons.prems by (simp_all add: kv keys_ok_Cons map_of_eq_None_iff comp_def)
  have "camel_case_to_kebab_case k' = camel_case_to_kebab_case k \<longleftrightarrow> k' = k"
    using kebab_injective [OF rest(3) Cons.prems(3)] by auto
  then show ?case
    using fresh Cons.IH [OF rest(1,2) Cons.prems(3)]
    by (auto simp: kv convert_loop_Cons map_of_update simp del: convert_loop.simps split: option.split)
qed simp

text \<open>The arguments of a command are its parameters: for parameters with camel-case names, each is
  found under its kebab name with its own value (a null, an array or an object as its text), and no
  parameter hides another.\<close>

theorem params_become_arguments:
  assumes "keys_ok obj" "list_all (camel_case \<circ> fst) obj" "camel_case k"
  shows "\<exists>m. convert_json_params_to_argument_map e (JObject obj) = Ok m \<and>
    map_of m (camel_case_to_kebab_case k) = map_option (param_argument e) (map_of obj k)"
  using convert_loop_lookup [OF assms, of e "[]"]
  by (simp add: convert_json_params_to_argument_map_def split: option.splits)

theorem params_become_arguments_witness:
  "\<exists>m. convert_json_params_to_argument_map demo_env (JObject [(''maxItems'', JInteger 5), (''fspath'', JString ''/'')]) = Ok m \<and>
    map_of m ''max-items'' = Some (mk_arg (VInt 5))"
proof -
  have k: "camel_case_to_kebab_case ''maxItems'' = ''max-items''" and
    c: "camel_case ''maxItems''" "list_all (camel_case \<circ> fst) [(''maxItems'', JInteger 5), (''fspath'', JString ''/'')]"
    by code_simp+
  show ?thesis
    using params_become_arguments [of "[(''maxItems'', JInteger 5), (''fspath'', JString ''/'')]" "''maxItems''" demo_env, OF _ c(2) c(1)]
    by (simp add: k keys_ok_def param_argument_def scalar_argument_def)
qed

end
