(* ===== verification/Schemas.thy ===== *)
theory Schemas
  imports Validator
begin

text \<open>
  The request and response schemas (\<open>server/schemas/requests.hpp\<close>,
  \<open>server/schemas/responses.hpp\<close>), one definition per \<open>ZJSON_SCHEMA\<close>, in the headers'
  order.  A struct without a schema has the registry's default: no fields.
\<close>

named_theorems request_schemas "the request schemas"
named_theorems response_schemas "the response schemas"

section \<open>Requests\<close>

definition DatasetAttributes_schema :: "field_descriptor list" where
  "DatasetAttributes_schema = [FIELD_OPTIONAL ''alcunit'' TYPE_STRING,
     FIELD_OPTIONAL ''blksize'' TYPE_NUMBER,
     FIELD_OPTIONAL ''dirblk'' TYPE_NUMBER,
     FIELD_OPTIONAL ''dsorg'' TYPE_STRING,
     FIELD_REQUIRED ''primary'' TYPE_NUMBER,
     FIELD_OPTIONAL ''recfm'' TYPE_STRING,
     FIELD_REQUIRED ''lrecl'' TYPE_NUMBER,
     FIELD_OPTIONAL ''dataclass'' TYPE_STRING,
     FIELD_OPTIONAL ''unit'' TYPE_STRING,
     FIELD_OPTIONAL ''dsntype'' TYPE_STRING,
     FIELD_OPTIONAL ''mgntclass'' TYPE_STRING,
     FIELD_OPTIONAL ''dsname'' TYPE_STRING,
     FIELD_OPTIONAL ''avgblk'' TYPE_NUMBER,
     FIELD_OPTIONAL ''secondary'' TYPE_NUMBER,
     FIELD_OPTIONAL ''size'' TYPE_STRING,
     FIELD_OPTIONAL ''storclass'' TYPE_STRING,
     FIELD_OPTIONAL ''vol'' TYPE_STRING]"

definition IssueConsoleCmdRequest_schema :: "field_descriptor list" where
  "IssueConsoleCmdRequest_schema = [FIELD_REQUIRED ''commandText'' TYPE_STRING,
     FIELD_OPTIONAL ''consoleName'' TYPE_STRING]"

definition GetInfoRequest_schema :: "field_descriptor list" where
  "GetInfoRequest_schema = []"

definition CreateDatasetRequest_schema :: "field_descriptor list" where
  "CreateDatasetRequest_schema = [FIELD_REQUIRED ''dsname'' TYPE_STRING,
     FIELD_REQUIRED_OBJECT ''attributes'' DatasetAttributes_schema]"

definition CreateMemberRequest_schema :: "field_descriptor list" where
  "CreateMemberRequest_schema = [FIELD_REQUIRED ''dsname'' TYPE_STRING]"

definition DeleteDatasetRequest_schema :: "field_descriptor list" where
  "DeleteDatasetRequest_schema = [FIELD_REQUIRED ''dsname'' TYPE_STRING]"

definition RenameDatasetRequest_schema :: "field_descriptor list" where
  "RenameDatasetRequest_schema = [FIELD_REQUIRED ''dsnameBefore'' TYPE_STRING,
     FIELD_REQUIRED ''dsnameAfter'' TYPE_STRING]"

definition RenameMemberRequest_schema :: "field_descriptor list" where
  "RenameMemberRequest_schema = [FIELD_REQUIRED ''dsname'' TYPE_STRING,
     FIELD_REQUIRED ''memberBefore'' TYPE_STRING,
     FIELD_REQUIRED ''memberAfter'' TYPE_STRING]"

definition ListDatasetsRequest_schema :: "field_descriptor list" where
  "ListDatasetsRequest_schema = [FIELD_OPTIONAL ''maxItems'' TYPE_NUMBER,
     FIELD_OPTIONAL ''responseTimeout'' TYPE_NUMBER,
     FIELD_OPTIONAL ''start'' TYPE_STRING,
     FIELD_REQUIRED ''pattern'' TYPE_STRING,
     FIELD_OPTIONAL ''attributes'' TYPE_BOOL]"

definition ListDsMembersRequest_schema :: "field_descriptor list" where
  "ListDsMembersRequest_schema = [FIELD_OPTIONAL ''maxItems'' TYPE_NUMBER,
     FIELD_OPTIONAL ''responseTimeout'' TYPE_NUMBER,
     FIELD_OPTIONAL ''start'' TYPE_STRING,
     FIELD_REQUIRED ''dsname'' TYPE_STRING,
     FIELD_OPTIONAL ''attributes'' TYPE_BOOL,
     FIELD_OPTIONAL ''pattern'' TYPE_STRING]"

definition ReadDatasetRequest_schema :: "field_descriptor list" where
  "ReadDatasetRequest_schema = [FIELD_OPTIONAL ''stream'' TYPE_ANY,
     FIELD_OPTIONAL ''encoding'' TYPE_STRING,
     FIELD_OPTIONAL ''localEncoding'' TYPE_STRING,
     FIELD_OPTIONAL ''volume'' TYPE_STRING,
     FIELD_REQUIRED ''dsname'' TYPE_STRING]"

definition RestoreDatasetRequest_schema :: "field_descriptor list" where
  "RestoreDatasetRequest_schema = [FIELD_REQUIRED ''dsname'' TYPE_STRING]"

definition WriteDatasetRequest_schema :: "field_descriptor list" where
  "WriteDatasetRequest_schema = [FIELD_OPTIONAL ''stream'' TYPE_ANY,
     FIELD_OPTIONAL ''encoding'' TYPE_STRING,
     FIELD_OPTIONAL ''localEncoding'' TYPE_STRING,
     FIELD_OPTIONAL ''etag'' TYPE_STRING,
     FIELD_OPTIONAL ''volume'' TYPE_STRING,
     FIELD_REQUIRED ''dsname'' TYPE_STRING,
     FIELD_OPTIONAL ''data'' TYPE_STRING]"

definition CancelJobRequest_schema :: "field_descriptor list" where
  "CancelJobRequest_schema = [FIELD_REQUIRED ''jobId'' TYPE_STRING]"

definition DeleteJobRequest_schema :: "field_descriptor list" where
  "DeleteJobRequest_schema = [FIELD_REQUIRED ''jobId'' TYPE_STRING]"

definition GetJclRequest_schema :: "field_descriptor list" where
  "GetJclRequest_schema = [FIELD_REQUIRED ''jobId'' TYPE_STRING]"

definition GetJobStatusRequest_schema :: "field_descriptor list" where
  "GetJobStatusRequest_schema = [FIELD_REQUIRED ''jobId'' TYPE_STRING]"

definition HoldJobRequest_schema :: "field_descriptor list" where
  "HoldJobRequest_schema = [FIELD_REQUIRED ''jobId'' TYPE_STRING]"

definition ListJobsRequest_schema :: "field_descriptor list" where
  "ListJobsRequest_schema = [FIELD_OPTIONAL ''maxItems'' TYPE_NUMBER,
     FIELD_OPTIONAL ''responseTimeout'' TYPE_NUMBER,
     FIELD_OPTIONAL ''owner'' TYPE_STRING,
     FIELD_OPTIONAL ''prefix'' TYPE_STRING,
     FIELD_OPTIONAL ''status'' TYPE_STRING]"

definition ListSpoolsRequest_schema :: "field_descriptor list" where
  "ListSpoolsRequest_schema = [FIELD_REQUIRED ''jobId'' TYPE_STRING]"

definition ReadSpoolRequest_schema :: "field_descriptor list" where
  "ReadSpoolRequest_schema = [FIELD_OPTIONAL ''encoding'' TYPE_STRING,
     FIELD_OPTIONAL ''localEncoding'' TYPE_STRING,
     FIELD_REQUIRED ''spoolId'' TYPE_NUMBER,
     FIELD_REQUIRED ''jobId'' TYPE_STRING]"

definition ReleaseJobRequest_schema :: "field_descriptor list" where
  "ReleaseJobRequest_schema = [FIELD_REQUIRED ''jobId'' TYPE_STRING]"

definition SubmitJclRequest_schema :: "field_descriptor list" where
  "SubmitJclRequest_schema = [FIELD_OPTIONAL ''encoding'' TYPE_STRING,
     FIELD_OPTIONAL ''localEncoding'' TYPE_STRING,
     FIELD_REQUIRED ''jcl'' TYPE_STRING]"

definition SubmitJobRequest_schema :: "field_descriptor list" where
  "SubmitJobRequest_schema = [FIELD_REQUIRED ''dsname'' TYPE_STRING]"

definition SubmitUssRequest_schema :: "field_descriptor list" where
  "SubmitUssRequest_schema = [FIELD_REQUIRED ''fspath'' TYPE_STRING]"

definition ToolSearchRequest_schema :: "field_descriptor list" where
  "ToolSearchRequest_schema = [FIELD_REQUIRED ''dsname'' TYPE_STRING,
     FIELD_REQUIRED ''string'' TYPE_STRING,
     FIELD_OPTIONAL ''parms'' TYPE_STRING]"

definition IssueTsoCmdRequest_schema :: "field_descriptor list" where
  "IssueTsoCmdRequest_schema = [FIELD_REQUIRED ''commandText'' TYPE_STRING]"

definition ChmodFileRequest_schema :: "field_descriptor list" where
  "ChmodFileRequest_schema = [FIELD_REQUIRED ''mode'' TYPE_STRING,
     FIELD_REQUIRED ''fspath'' TYPE_STRING,
     FIELD_OPTIONAL ''recursive'' TYPE_BOOL]"

definition ChownFileRequest_schema :: "field_descriptor list" where
  "ChownFileRequest_schema = [FIELD_REQUIRED ''owner'' TYPE_STRING,
     FIELD_REQUIRED ''fspath'' TYPE_STRING,
     FIELD_OPTIONAL ''recursive'' TYPE_BOOL]"

definition ChtagFileRequest_schema :: "field_descriptor list" where
  "ChtagFileRequest_schema = [FIELD_REQUIRED ''fspath'' TYPE_STRING,
     FIELD_REQUIRED ''tag'' TYPE_STRING,
     FIELD_OPTIONAL ''recursive'' TYPE_BOOL]"

definition CopyUssRequest_schema :: "field_descriptor list" where
  "CopyUssRequest_schema = [FIELD_REQUIRED ''srcFsPath'' TYPE_STRING,
     FIELD_REQUIRED ''dstFsPath'' TYPE_STRING,
     FIELD_OPTIONAL ''recursive'' TYPE_BOOL,
     FIELD_OPTIONAL ''followSymlinks'' TYPE_BOOL,
     FIELD_OPTIONAL ''preserveAttributes'' TYPE_BOOL,
     FIELD_OPTIONAL ''force'' TYPE_BOOL]"

definition CreateFileRequest_schema :: "field_descriptor list" where
  "CreateFileRequest_schema = [FIELD_OPTIONAL ''permissions'' TYPE_STRING,
     FIELD_REQUIRED ''fspath'' TYPE_STRING,
     FIELD_OPTIONAL ''isDir'' TYPE_BOOL]"

definition DeleteFileRequest_schema :: "field_descriptor list" where
  "DeleteFileRequest_schema = [FIELD_REQUIRED ''fspath'' TYPE_STRING,
     FIELD_OPTIONAL ''recursive'' TYPE_BOOL]"

definition ListFilesRequest_schema :: "field_descriptor list" where
  "ListFilesRequest_schema = [FIELD_OPTIONAL ''maxItems'' TYPE_NUMBER,
     FIELD_OPTIONAL ''responseTimeout'' TYPE_NUMBER,
     FIELD_REQUIRED ''fspath'' TYPE_STRING,
     FIELD_OPTIONAL ''all'' TYPE_BOOL,
     FIELD_OPTIONAL ''long'' TYPE_BOOL,
     FIELD_OPTIONAL ''depth'' TYPE_NUMBER]"

definition ReadFileRequest_schema :: "field_descriptor list" where
  "ReadFileRequest_schema = [FIELD_OPTIONAL ''stream'' TYPE_ANY,
     FIELD_OPTIONAL ''encoding'' TYPE_STRING,
     FIELD_OPTIONAL ''localEncoding'' TYPE_STRING,
     FIELD_REQUIRED ''fspath'' TYPE_STRING]"

definition WriteFileRequest_schema :: "field_descriptor list" where
  "WriteFileRequest_schema = [FIELD_OPTIONAL ''stream'' TYPE_ANY,
     FIELD_OPTIONAL ''encoding'' TYPE_STRING,
     FIELD_OPTIONAL ''localEncoding'' TYPE_STRING,
     FIELD_OPTIONAL ''etag'' TYPE_STRING,
     FIELD_REQUIRED ''fspath'' TYPE_STRING,
     FIELD_OPTIONAL ''data'' TYPE_STRING,
     FIELD_OPTIONAL ''contentLen'' TYPE_NUMBER]"

definition IssueUssCmdRequest_schema :: "field_descriptor list" where
  "IssueUssCmdRequest_schema = [FIELD_REQUIRED ''commandText'' TYPE_STRING]"

definition MoveFileRequest_schema :: "field_descriptor list" where
  "MoveFileRequest_schema = [FIELD_REQUIRED ''source'' TYPE_STRING,
     FIELD_REQUIRED ''target'' TYPE_STRING,
     FIELD_OPTIONAL ''force'' TYPE_BOOL]"

section \<open>Responses\<close>

definition Dataset_schema :: "field_descriptor list" where
  "Dataset_schema = [FIELD_REQUIRED ''name'' TYPE_STRING,
     FIELD_OPTIONAL ''alloc'' TYPE_NUMBER,
     FIELD_OPTIONAL ''allocx'' TYPE_NUMBER,
     FIELD_OPTIONAL ''blksize'' TYPE_NUMBER,
     FIELD_OPTIONAL ''cdate'' TYPE_STRING,
     FIELD_OPTIONAL ''dataclass'' TYPE_STRING,
     FIELD_OPTIONAL ''devtype'' TYPE_STRING,
     FIELD_OPTIONAL ''dsntype'' TYPE_STRING,
     FIELD_OPTIONAL ''dsorg'' TYPE_STRING,
     FIELD_OPTIONAL ''edate'' TYPE_STRING,
     FIELD_OPTIONAL ''encrypted'' TYPE_BOOL,
     FIELD_OPTIONAL ''lrecl'' TYPE_NUMBER,
     FIELD_OPTIONAL ''mgmtclass'' TYPE_STRING,
     FIELD_OPTIONAL ''migrated'' TYPE_BOOL,
     FIELD_OPTIONAL ''multivolume'' TYPE_BOOL,
     FIELD_OPTIONAL ''primary'' TYPE_NUMBER,
     FIELD_OPTIONAL ''rdate'' TYPE_STRING,
     FIELD_OPTIONAL ''recfm'' TYPE_STRING,
     FIELD_OPTIONAL ''secondary'' TYPE_NUMBER,
     FIELD_OPTIONAL ''spacu'' TYPE_STRING,
     FIELD_OPTIONAL ''storclass'' TYPE_STRING,
     FIELD_OPTIONAL ''usedp'' TYPE_NUMBER,
     FIELD_OPTIONAL ''usedx'' TYPE_NUMBER,
     FIELD_OPTIONAL ''volser'' TYPE_STRING,
     FIELD_OPTIONAL_ARRAY ''volsers'' TYPE_STRING]"

definition DsMember_schema :: "field_descriptor list" where
  "DsMember_schema = [FIELD_REQUIRED ''name'' TYPE_STRING,
     FIELD_OPTIONAL ''user'' TYPE_STRING,
     FIELD_OPTIONAL ''vers'' TYPE_NUMBER,
     FIELD_OPTIONAL ''mod'' TYPE_NUMBER,
     FIELD_OPTIONAL ''c4date'' TYPE_STRING,
     FIELD_OPTIONAL ''m4date'' TYPE_STRING,
     FIELD_OPTIONAL ''mtime'' TYPE_STRING,
     FIELD_OPTIONAL ''cnorc'' TYPE_NUMBER,
     FIELD_OPTIONAL ''inorc'' TYPE_NUMBER,
     FIELD_OPTIONAL ''mnorc'' TYPE_NUMBER,
     FIELD_OPTIONAL ''sclm'' TYPE_STRING]"

definition Job_schema :: "field_descriptor list" where
  "Job_schema = [FIELD_REQUIRED ''id'' TYPE_STRING,
     FIELD_REQUIRED ''name'' TYPE_STRING,
     FIELD_OPTIONAL ''subsystem'' TYPE_STRING,
     FIELD_REQUIRED ''owner'' TYPE_STRING,
     FIELD_REQUIRED ''status'' TYPE_STRING,
     FIELD_REQUIRED ''type'' TYPE_STRING,
     FIELD_REQUIRED ''class'' TYPE_STRING,
     FIELD_OPTIONAL ''retcode'' TYPE_STRING,
     FIELD_OPTIONAL ''correlator'' TYPE_STRING,
     FIELD_REQUIRED ''phase'' TYPE_NUMBER,
     FIELD_REQUIRED ''phaseName'' TYPE_STRING]"

definition Spool_schema :: "field_descriptor list" where
  "Spool_schema = [FIELD_REQUIRED ''id'' TYPE_NUMBER,
     FIELD_REQUIRED ''ddname'' TYPE_STRING,
     FIELD_REQUIRED ''stepname'' TYPE_STRING,
     FIELD_REQUIRED ''dsname'' TYPE_STRING,
     FIELD_REQUIRED ''procstep'' TYPE_STRING]"

definition UssItem_schema :: "field_descriptor list" where
  "UssItem_schema = [FIELD_REQUIRED ''name'' TYPE_STRING,
     FIELD_OPTIONAL ''links'' TYPE_NUMBER,
     FIELD_OPTIONAL ''user'' TYPE_STRING,
     FIELD_OPTIONAL ''group'' TYPE_STRING,
     FIELD_OPTIONAL ''size'' TYPE_NUMBER,
     FIELD_OPTIONAL ''filetag'' TYPE_STRING,
     FIELD_OPTIONAL ''mtime'' TYPE_STRING,
     FIELD_OPTIONAL ''mode'' TYPE_STRING]"

definition IssueConsoleCmdResponse_schema :: "field_descriptor list" where
  "IssueConsoleCmdResponse_schema = [FIELD_REQUIRED ''success'' TYPE_BOOL,
     FIELD_REQUIRED ''data'' TYPE_STRING]"

definition GetInfoResponse_schema :: "field_descriptor list" where
  "GetInfoResponse_schema = [FIELD_REQUIRED ''success'' TYPE_BOOL,
     FIELD_REQUIRED ''version'' TYPE_STRING,
     FIELD_REQUIRED ''buildDate'' TYPE_STRING]"

definition CreateDatasetResponse_schema :: "field_descriptor list" where
  "CreateDatasetResponse_schema = [FIELD_REQUIRED ''success'' TYPE_BOOL]"

definition CreateMemberResponse_schema :: "field_descriptor list" where
  "CreateMemberResponse_schema = [FIELD_REQUIRED ''success'' TYPE_BOOL]"

definition DeleteDatasetResponse_schema :: "field_descriptor list" where
  "DeleteDatasetResponse_schema = [FIELD_REQUIRED ''success'' TYPE_BOOL]"

definition RenameDatasetResponse_schema :: "field_descriptor list" where
  "RenameDatasetResponse_schema = [FIELD_REQUIRED ''success'' TYPE_BOOL]"

definition RenameMemberResponse_schema :: "field_descriptor list" where
  "RenameMemberResponse_schema = [FIELD_REQUIRED ''success'' TYPE_BOOL]"

definition ListDatasetsResponse_schema :: "field_descriptor list" where
  "ListDatasetsResponse_schema = [FIELD_REQUIRED ''success'' TYPE_BOOL,
     FIELD_REQUIRED_OBJECT_ARRAY ''items'' Dataset_schema,
     FIELD_REQUIRED ''returnedRows'' TYPE_NUMBER]"

definition ListDsMembersResponse_schema :: "field_descriptor list" where
  "ListDsMembersResponse_schema = [FIELD_REQUIRED ''success'' TYPE_BOOL,
     FIELD_REQUIRED_OBJECT_ARRAY ''items'' DsMember_schema,
     FIELD_REQUIRED ''returnedRows'' TYPE_NUMBER]"

definition ReadDatasetResponse_schema :: "field_descriptor list" where
  "ReadDatasetResponse_schema = [FIELD_REQUIRED ''success'' TYPE_BOOL,
     FIELD_OPTIONAL ''encoding'' TYPE_STRING,
     FIELD_REQUIRED ''etag'' TYPE_STRING,
     FIELD_REQUIRED ''data'' TYPE_STRING,
     FIELD_OPTIONAL ''contentLen'' TYPE_NUMBER]"

definition RestoreDatasetResponse_schema :: "field_descriptor list" where
  "RestoreDatasetResponse_schema = [FIELD_REQUIRED ''success'' TYPE_BOOL]"

definition WriteDatasetResponse_schema :: "field_descriptor list" where
  "WriteDatasetResponse_schema = [FIELD_REQUIRED ''success'' TYPE_BOOL,
     FIELD_REQUIRED ''etag'' TYPE_STRING,
     FIELD_OPTIONAL ''contentLen'' TYPE_NUMBER,
     FIELD_OPTIONAL ''truncationWarning'' TYPE_STRING]"

definition CancelJobResponse_schema :: "field_descriptor list" where
  "CancelJobResponse_schema = [FIELD_REQUIRED ''success'' TYPE_BOOL]"

definition DeleteJobResponse_schema :: "field_descriptor list" where
  "DeleteJobResponse_schema = [FIELD_REQUIRED ''success'' TYPE_BOOL]"

definition GetJclResponse_schema :: "field_descriptor list" where
  "GetJclResponse_schema = [FIELD_REQUIRED ''success'' TYPE_BOOL,
     FIELD_REQUIRED ''data'' TYPE_STRING]"

definition GetJobStatusResponse_schema :: "field_descriptor list" where
  "GetJobStatusResponse_schema = [FIELD_REQUIRED ''success'' TYPE_BOOL,
     FIELD_REQUIRED ''id'' TYPE_STRING,
     FIELD_REQUIRED ''name'' TYPE_STRING,
     FIELD_OPTIONAL ''subsystem'' TYPE_STRING,
     FIELD_REQUIRED ''owner'' TYPE_STRING,
     FIELD_REQUIRED ''status'' TYPE_STRING,
     FIELD_REQUIRED ''type'' TYPE_STRING,
     FIELD_REQUIRED ''class'' TYPE_STRING,
     FIELD_OPTIONAL ''retcode'' TYPE_STRING,
     FIELD_OPTIONAL ''correlator'' TYPE_STRING,
     FIELD_REQUIRED ''phase'' TYPE_NUMBER,
     FIELD_REQUIRED ''phaseName'' TYPE_STRING]"

definition HoldJobResponse_schema :: "field_descriptor list" where
  "HoldJobResponse_schema = [FIELD_REQUIRED ''success'' TYPE_BOOL]"

definition ListJobsResponse_schema :: "field_descriptor list" where
  "ListJobsResponse_schema = [FIELD_REQUIRED ''success'' TYPE_BOOL,
     FIELD_REQUIRED_OBJECT_ARRAY ''items'' Job_schema]"

definition ListSpoolsResponse_schema :: "field_descriptor list" where
  "ListSpoolsResponse_schema = [FIELD_REQUIRED ''success'' TYPE_BOOL,
     FIELD_REQUIRED_OBJECT_ARRAY ''items'' Spool_schema]"

definition ReadSpoolResponse_schema :: "field_descriptor list" where
  "ReadSpoolResponse_schema = [FIELD_REQUIRED ''success'' TYPE_BOOL,
     FIELD_OPTIONAL ''encoding'' TYPE_STRING,
     FIELD_REQUIRED ''data'' TYPE_STRING]"

definition ReleaseJobResponse_schema :: "field_descriptor list" where
  "ReleaseJobResponse_schema = [FIELD_REQUIRED ''success'' TYPE_BOOL]"

definition SubmitJclResponse_schema :: "field_descriptor list" where
  "SubmitJclResponse_schema = [FIELD_REQUIRED ''success'' TYPE_BOOL,
     FIELD_REQUIRED ''jobId'' TYPE_STRING,
     FIELD_REQUIRED ''jobName'' TYPE_STRING]"

definition SubmitJobResponse_schema :: "field_descriptor list" where
  "SubmitJobResponse_schema = [FIELD_REQUIRED ''success'' TYPE_BOOL,
     FIELD_REQUIRED ''jobId'' TYPE_STRING,
     FIELD_REQUIRED ''jobName'' TYPE_STRING]"

definition SubmitUssResponse_schema :: "field_descriptor list" where
  "SubmitUssResponse_schema = [FIELD_REQUIRED ''success'' TYPE_BOOL,
     FIELD_REQUIRED ''jobId'' TYPE_STRING,
     FIELD_REQUIRED ''jobName'' TYPE_STRING]"

definition ToolSearchResponse_schema :: "field_descriptor list" where
  "ToolSearchResponse_schema = [FIELD_REQUIRED ''success'' TYPE_BOOL,
     FIELD_REQUIRED ''data'' TYPE_STRING]"

definition IssueTsoCmdResponse_schema :: "field_descriptor list" where
  "IssueTsoCmdResponse_schema = [FIELD_REQUIRED ''success'' TYPE_BOOL,
     FIELD_REQUIRED ''data'' TYPE_STRING]"

definition ChmodFileResponse_schema :: "field_descriptor list" where
  "ChmodFileResponse_schema = [FIELD_REQUIRED ''success'' TYPE_BOOL]"

definition ChownFileResponse_schema :: "field_descriptor list" where
  "ChownFileResponse_schema = [FIELD_REQUIRED ''success'' TYPE_BOOL]"

definition ChtagFileResponse_schema :: "field_descriptor list" where
  "ChtagFileResponse_schema = [FIELD_REQUIRED ''success'' TYPE_BOOL]"

definition CopyUssResponse_schema :: "field_descriptor list" where
  "CopyUssResponse_schema = [FIELD_REQUIRED ''success'' TYPE_BOOL]"

definition CreateFileResponse_schema :: "field_descriptor list" where
  "CreateFileResponse_schema = [FIELD_REQUIRED ''success'' TYPE_BOOL]"

definition DeleteFileResponse_schema :: "field_descriptor list" where
  "DeleteFileResponse_schema = [FIELD_REQUIRED ''success'' TYPE_BOOL]"

definition ListFilesResponse_schema :: "field_descriptor list" where
  "ListFilesResponse_schema = [FIELD_REQUIRED ''success'' TYPE_BOOL,
     FIELD_REQUIRED_OBJECT_ARRAY ''items'' UssItem_schema,
     FIELD_REQUIRED ''returnedRows'' TYPE_NUMBER]"

definition ReadFileResponse_schema :: "field_descriptor list" where
  "ReadFileResponse_schema = [FIELD_REQUIRED ''success'' TYPE_BOOL,
     FIELD_OPTIONAL ''encoding'' TYPE_STRING,
     FIELD_REQUIRED ''etag'' TYPE_STRING,
     FIELD_REQUIRED ''data'' TYPE_STRING,
     FIELD_OPTIONAL ''contentLen'' TYPE_NUMBER]"

definition WriteFileResponse_schema :: "field_descriptor list" where
  "WriteFileResponse_schema = [FIELD_REQUIRED ''success'' TYPE_BOOL,
     FIELD_REQUIRED ''etag'' TYPE_STRING,
     FIELD_REQUIRED ''created'' TYPE_BOOL,
     FIELD_OPTIONAL ''contentLen'' TYPE_NUMBER]"

definition IssueUssCmdResponse_schema :: "field_descriptor list" where
  "IssueUssCmdResponse_schema = [FIELD_REQUIRED ''success'' TYPE_BOOL,
     FIELD_REQUIRED ''data'' TYPE_STRING]"

definition MoveFileResponse_schema :: "field_descriptor list" where
  "MoveFileResponse_schema = [FIELD_REQUIRED ''success'' TYPE_BOOL]"

lemmas request_schema_defs [request_schemas] =
  DatasetAttributes_schema_def IssueConsoleCmdRequest_schema_def GetInfoRequest_schema_def CreateDatasetRequest_schema_def
  CreateMemberRequest_schema_def DeleteDatasetRequest_schema_def RenameDatasetRequest_schema_def RenameMemberRequest_schema_def
  ListDatasetsRequest_schema_def ListDsMembersRequest_schema_def ReadDatasetRequest_schema_def RestoreDatasetRequest_schema_def
  WriteDatasetRequest_schema_def CancelJobRequest_schema_def DeleteJobRequest_schema_def GetJclRequest_schema_def
  GetJobStatusRequest_schema_def HoldJobRequest_schema_def ListJobsRequest_schema_def ListSpoolsRequest_schema_def
  ReadSpoolRequest_schema_def ReleaseJobRequest_schema_def SubmitJclRequest_schema_def SubmitJobRequest_schema_def
  SubmitUssRequest_schema_def ToolSearchRequest_schema_def IssueTsoCmdRequest_schema_def ChmodFileRequest_schema_def
  ChownFileRequest_schema_def ChtagFileRequest_schema_def CopyUssRequest_schema_def CreateFileRequest_schema_def
  DeleteFileRequest_schema_def ListFilesRequest_schema_def ReadFileRequest_schema_def WriteFileRequest_schema_def
  IssueUssCmdRequest_schema_def MoveFileRequest_schema_def

lemmas response_schema_defs [response_schemas] =
  Dataset_schema_def DsMember_schema_def Job_schema_def Spool_schema_def
  UssItem_schema_def IssueConsoleCmdResponse_schema_def GetInfoResponse_schema_def CreateDatasetResponse_schema_def
  CreateMemberResponse_schema_def DeleteDatasetResponse_schema_def RenameDatasetResponse_schema_def RenameMemberResponse_schema_def
  ListDatasetsResponse_schema_def ListDsMembersResponse_schema_def ReadDatasetResponse_schema_def RestoreDatasetResponse_schema_def
  WriteDatasetResponse_schema_def CancelJobResponse_schema_def DeleteJobResponse_schema_def GetJclResponse_schema_def
  GetJobStatusResponse_schema_def HoldJobResponse_schema_def ListJobsResponse_schema_def ListSpoolsResponse_schema_def
  ReadSpoolResponse_schema_def ReleaseJobResponse_schema_def SubmitJclResponse_schema_def SubmitJobResponse_schema_def
  SubmitUssResponse_schema_def ToolSearchResponse_schema_def IssueTsoCmdResponse_schema_def ChmodFileResponse_schema_def
  ChownFileResponse_schema_def ChtagFileResponse_schema_def CopyUssResponse_schema_def CreateFileResponse_schema_def
  DeleteFileResponse_schema_def ListFilesResponse_schema_def ReadFileResponse_schema_def WriteFileResponse_schema_def
  IssueUssCmdResponse_schema_def MoveFileResponse_schema_def

section \<open>Well-formed schemas\<close>

text \<open>What the validator relies on: no field name is empty or occurs twice, and nesting stops after
  one level.\<close>

definition flat_schema :: "field_descriptor list \<Rightarrow> bool" where
  "flat_schema schema \<longleftrightarrow> distinct (map fd_name schema) \<and>
     list_all (\<lambda>f. fd_name f \<noteq> [] \<and> nested_schema f = None) schema"

definition well_formed_schema :: "field_descriptor list \<Rightarrow> bool" where
  "well_formed_schema schema \<longleftrightarrow> distinct (map fd_name schema) \<and> schema_named schema \<and>
     list_all (\<lambda>f. case nested_schema f of None \<Rightarrow> True
       | Some ns \<Rightarrow> flat_schema ns \<and> (fd_type f = TYPE_OBJECT \<or> fd_type f = TYPE_ARRAY \<and> array_element_type f = TYPE_OBJECT)) schema"

lemma well_formed_named: "well_formed_schema s \<Longrightarrow> schema_named s"
  by (simp add: well_formed_schema_def)

end
