(* ===== verification/Zut.thy ===== *)
theory Zut
  imports Prelude
begin

text \<open>
  The utilities that work on memory alone (\<open>zut.cpp\<close>, \<open>zut.hpp\<close>): trimming and padding,
  hexadecimal output and input, the Adler-32 checksum, e-tags, the tracker of truncated lines, the
  encoding options, the allocation strings and the reading of input.  What calls the system is in
  the theories that follow.
\<close>

section \<open>Strings\<close>

definition RTNCD_SUCCESS :: int where
  "RTNCD_SUCCESS = 0"

definition RTNCD_FAILURE :: int where
  "RTNCD_FAILURE = -1"

definition nul_char :: char where
  "nul_char = char_of (0::nat)"

definition zut_strip_final_newline :: "string \<Rightarrow> string" where
  "zut_strip_final_newline input = (if input \<noteq> [] \<and> last input = newline then butlast input else input)"

text \<open>\<open>erase(find_last_not_of(t) + 1)\<close> and \<open>erase(0, find_first_not_of(t))\<close>; when every character
  is in \<open>t\<close>, both erase everything.\<close>

definition zut_rtrim :: "string \<Rightarrow> string \<Rightarrow> string" where
  "zut_rtrim t s = rev (dropWhile (\<lambda>c. c \<in> set t) (rev s))"

definition zut_ltrim :: "string \<Rightarrow> string \<Rightarrow> string" where
  "zut_ltrim t s = dropWhile (\<lambda>c. c \<in> set t) s"

definition zut_trim :: "string \<Rightarrow> string \<Rightarrow> string" where
  "zut_trim t s = zut_ltrim t (zut_rtrim t s)"

fun zut_format_as_csv :: "string list \<Rightarrow> string" where
  "zut_format_as_csv [] = []"
| "zut_format_as_csv [f] = zut_trim '' '' f"
| "zut_format_as_csv (f # fs) = zut_trim '' '' f @ '','' @ zut_format_as_csv fs"

text \<open>The characters up to the first NUL.\<close>

definition c_string :: "string \<Rightarrow> string" where
  "c_string s = takeWhile (\<lambda>c. c \<noteq> nul_char) s"

text \<open>The buffer of \<open>len\<close> characters; \<open>strncpy\<close> stops at a NUL and fills up with NULs, the rest
  stays blank.\<close>

definition zut_uppercase_pad_truncate :: "string \<Rightarrow> nat \<Rightarrow> string" where
  "zut_uppercase_pad_truncate source len =
     (let s = map to_upper source; n = (if length s > len then len else length s); copied = take n (c_string s)
      in copied @ replicate (n - length copied) nul_char @ replicate (len - n) (CHR '' ''))"

definition zut_string_compare_c :: "string \<Rightarrow> string \<Rightarrow> bool" where
  "zut_string_compare_c a b \<longleftrightarrow> ord_class.lexordp (map (\<lambda>c. unat (byte_of c)) (c_string a)) (map (\<lambda>c. unat (byte_of c)) (c_string b))"

section \<open>Hexadecimal text\<close>

definition hex_digit_char :: "nat \<Rightarrow> char" where
  "hex_digit_char n = ''0123456789abcdef'' ! n"

definition zut_get_hex_char :: "int \<Rightarrow> char" where
  "zut_get_hex_char num = ''0123456789ABCDEF'' ! nat (num mod 16)"

text \<open>\<open>std::hex\<close> on an unsigned number.\<close>

function etag_hex :: "nat \<Rightarrow> string" where
  "etag_hex n = (if n < 16 then [hex_digit_char n] else etag_hex (n div 16) @ [hex_digit_char (n mod 16)])"
  by pat_completeness auto
termination
  by (relation "measure id") auto

declare etag_hex.simps [simp del]

definition zut_build_etag :: "64 word \<Rightarrow> 64 word \<Rightarrow> string" where
  "zut_build_etag mtime byte_size = etag_hex (unat mtime) @ ''-'' @ etag_hex (unat byte_size)"

definition hex_byte :: "byte \<Rightarrow> string" where
  "hex_byte b = [hex_digit_char (unat b div 16), hex_digit_char (unat b mod 16)]"

fun hex_bytes :: "byte list \<Rightarrow> string" where
  "hex_bytes [] = []"
| "hex_bytes [b] = hex_byte b"
| "hex_bytes (b # bs) = hex_byte b @ '' '' @ hex_bytes bs"

definition zut_print_string_as_bytes :: "string \<Rightarrow> string" where
  "zut_print_string_as_bytes input = hex_bytes (map byte_of input) @ [newline]"

text \<open>\<open>strtoul\<close> with base 16 on a short text: white space, a sign, the prefix \<open>0x\<close> when a digit
  follows it, then digits; the number of an empty digit sequence is 0 and a minus negates.\<close>

definition c_space :: "char \<Rightarrow> bool" where
  "c_space c \<longleftrightarrow> c = CHR '' '' \<or> 9 \<le> code c \<and> code c \<le> 13"

definition hex_char_value :: "char \<Rightarrow> nat option" where
  "hex_char_value c = (if 48 \<le> code c \<and> code c \<le> 57 then Some (code c - 48)
     else if 97 \<le> code c \<and> code c \<le> 102 then Some (code c - 87)
     else if 65 \<le> code c \<and> code c \<le> 70 then Some (code c - 55) else None)"

fun read_hex :: "nat \<Rightarrow> string \<Rightarrow> nat" where
  "read_hex acc [] = acc"
| "read_hex acc (c # cs) = (case hex_char_value c of None \<Rightarrow> acc | Some v \<Rightarrow> read_hex (16 * acc + v) cs)"

definition skip_prefix :: "string \<Rightarrow> string" where
  "skip_prefix s = (case s of z # x # d # rest \<Rightarrow>
     if z = CHR ''0'' \<and> (x = CHR ''x'' \<or> x = CHR ''X'') \<and> hex_char_value d \<noteq> None then d # rest else s | _ \<Rightarrow> s)"

definition c_strtoul16 :: "string \<Rightarrow> 64 word" where
  "c_strtoul16 s = (case dropWhile c_space s of
     [] \<Rightarrow> 0
   | c # cs \<Rightarrow> (if c = CHR ''-'' then - of_nat (read_hex 0 (skip_prefix cs))
       else of_nat (read_hex 0 (skip_prefix (if c = CHR ''+'' then cs else c # cs)))))"

fun pairs_as_bytes :: "string \<Rightarrow> byte list" where
  "pairs_as_bytes (c # d # s) = ucast (c_strtoul16 [c, d]) # pairs_as_bytes s"
| "pairs_as_bytes s = []"

definition zut_get_contents_as_bytes :: "string \<Rightarrow> byte list" where
  "zut_get_contents_as_bytes hex_string = (if length hex_string mod 2 \<noteq> 0 then [] else pairs_as_bytes hex_string)"

section \<open>Checksum\<close>

definition MOD_ADLER :: u32 where
  "MOD_ADLER = 65521"

definition adler_byte :: "u32 \<times> u32 \<Rightarrow> byte \<Rightarrow> u32 \<times> u32" where
  "adler_byte s d = (case s of (a, b) \<Rightarrow> (a + ucast d, b + (a + ucast d)))"

definition adler_reduce :: "u32 \<times> u32 \<Rightarrow> u32 \<times> u32" where
  "adler_reduce s = (case s of (a, b) \<Rightarrow> (a mod MOD_ADLER, b mod MOD_ADLER))"

text \<open>Blocks of 16 bytes first, then what remains.\<close>

function adler_loop :: "u32 \<times> u32 \<Rightarrow> byte list \<Rightarrow> u32 \<times> u32" where
  "adler_loop s data = (if 16 \<le> length data
     then adler_loop (adler_reduce (foldl adler_byte s (take 16 data))) (drop 16 data)
     else adler_reduce (foldl adler_byte s data))"
  by pat_completeness auto
termination
  by (relation "measure (\<lambda>(s, data). length data)") auto

declare adler_loop.simps [simp del]

definition zut_calc_adler32_checksum :: "string \<Rightarrow> u32" where
  "zut_calc_adler32_checksum input = (case adler_loop (1, 0) (map byte_of input) of (a, b) \<Rightarrow> or (push_bit 16 b) a)"

section \<open>Truncated lines\<close>

record truncation_tracker =
  tt_count :: int
  range_start :: int
  range_end :: int
  lines_str :: string

definition new_tracker :: truncation_tracker where
  "new_tracker = \<lparr>tt_count = 0, range_start = -1, range_end = -1, lines_str = []\<rparr>"

definition flush_range :: "truncation_tracker \<Rightarrow> truncation_tracker" where
  "flush_range t = (if range_start t = -1 then t
     else t\<lparr>lines_str := (if lines_str t = [] then [] else lines_str t @ '', '') @
         (if range_start t = range_end t then show_int (range_start t)
          else show_int (range_start t) @ ''-'' @ show_int (range_end t)),
       range_start := -1, range_end := -1\<rparr>)"

definition add_line :: "int \<Rightarrow> truncation_tracker \<Rightarrow> truncation_tracker" where
  "add_line n t = (let t = t\<lparr>tt_count := tt_count t + 1\<rparr> in
     if range_start t = -1 then t\<lparr>range_start := n, range_end := n\<rparr>
     else if n = range_end t + 1 then t\<lparr>range_end := n\<rparr>
     else (flush_range t)\<lparr>range_start := n, range_end := n\<rparr>)"

definition get_warning_message :: "truncation_tracker \<Rightarrow> string" where
  "get_warning_message t = show_int (tt_count t) @ '' line(s) truncated to fit LRECL: '' @ lines_str t"

section \<open>Encoding options\<close>

datatype data_type = eDataTypeText | eDataTypeBinary

record zencode =
  codepage :: string
  source_codepage :: string
  data_type :: data_type

definition zut_prepare_encoding :: "string \<Rightarrow> zencode \<Rightarrow> zencode option" where
  "zut_prepare_encoding encoding_value opts =
     (if encoding_value = [] then None
      else if length encoding_value < 16 then
        Some (opts\<lparr>codepage := c_string encoding_value,
          data_type := (if encoding_value = ''binary'' then eDataTypeBinary else eDataTypeText)\<rparr>)
      else None)"

section \<open>Reading input\<close>

text \<open>\<open>getline\<close> until the stream fails; the lines are joined again.\<close>

fun split_lines :: "string \<Rightarrow> string list" where
  "split_lines [] = []"
| "split_lines (c # s) = (if c = newline then [] # split_lines s
     else (case split_lines s of [] \<Rightarrow> [[c]] | l # ls \<Rightarrow> (c # l) # ls))"

fun join_lines :: "string list \<Rightarrow> string" where
  "join_lines [] = []"
| "join_lines [l] = l"
| "join_lines (l # ls) = l @ newline # join_lines ls"

definition zut_read_input :: "bool \<Rightarrow> string \<Rightarrow> string" where
  "zut_read_input is_a_tty input = (if \<not> is_a_tty then input else join_lines (split_lines input))"

section \<open>Facts\<close>

lemma hex_digit_chars: "list_all (\<lambda>n. hex_char_value (hex_digit_char n) = Some n \<and> \<not> c_space (hex_digit_char n) \<and>
    hex_digit_char n \<noteq> CHR ''-'' \<and> hex_digit_char n \<noteq> CHR ''+'') [0..<16]"
  by (simp add: hex_digit_char_def hex_char_value_def c_space_def code_def upt_rec)

lemma hex_digit_simps [simp]:
  assumes "n < 16"
  shows "hex_char_value (hex_digit_char n) = Some n" "\<not> c_space (hex_digit_char n)" "hex_digit_char n \<noteq> CHR ''-''" "hex_digit_char n \<noteq> CHR ''+''"
  using hex_digit_chars assms by (auto simp: list_all_iff)

lemma read_show_hex: "read_hex 0 (etag_hex n @ s) = read_hex n s"
proof (induction n arbitrary: s rule: etag_hex.induct)
  case (1 n)
  then show ?case
    by (cases "n < 16") (simp_all add: etag_hex.simps [of n] algebra_simps)
qed

lemma show_hex_inject: "etag_hex m = etag_hex n \<longleftrightarrow> m = n"
  by (metis append_Nil2 read_hex.simps(1) read_show_hex)

text \<open>Two e-tags are equal exactly when the modification times and the sizes are.\<close>

theorem etag_identifies:
  "zut_build_etag t n = zut_build_etag t' n' \<longleftrightarrow> t = t' \<and> n = n'"
proof
  assume eq: "zut_build_etag t n = zut_build_etag t' n'"
  have first: "read_hex 0 (zut_build_etag u k) = unat u" for u k
    by (simp add: zut_build_etag_def read_show_hex hex_char_value_def code_def)
  have "unat t = unat t'"
    using first [of t n] first [of t' n'] eq by simp
  then show "t = t' \<and> n = n'"
    using eq by (auto simp: zut_build_etag_def show_hex_inject intro: unsigned_word_eqI)
qed simp

lemma strtoul16_digits: "a < 16 \<Longrightarrow> b < 16 \<Longrightarrow> c_strtoul16 [hex_digit_char a, hex_digit_char b] = of_nat (16 * a + b)"
  by (simp add: c_strtoul16_def skip_prefix_def)

lemma byte_widened [simp]:
  "ucast (ucast (b :: byte) :: 64 word) = b" "unat (ucast b :: u32) = unat b"
  by (transfer, simp)+

lemma strtoul16_hex_byte: "ucast (c_strtoul16 (hex_byte b)) = b"
proof -
  have "unat b < 256"
    using unsigned_less [of b] by simp
  then have "unat b div 16 < 16" "unat b mod 16 < 16" "16 * (unat b div 16) + unat b mod 16 = unat b"
    by auto
  then show ?thesis
    by (simp add: hex_byte_def strtoul16_digits)
qed

lemma hex_roundtrip: "zut_get_contents_as_bytes (concat (map hex_byte bs)) = bs"
proof -
  have "length (concat (map hex_byte bs)) = 2 * length bs"
    by (induction bs) (simp_all add: hex_byte_def)
  moreover have "pairs_as_bytes (concat (map hex_byte bs)) = bs"
  proof (induction bs)
    case (Cons b bs)
    then show ?case
      using strtoul16_hex_byte [of b] by (simp add: hex_byte_def)
  qed simp
  ultimately show ?thesis
    by (simp add: zut_get_contents_as_bytes_def)
qed

lemma uppercase_pad_length [simp]: "length (zut_uppercase_pad_truncate s n) = n"
  by (simp add: zut_uppercase_pad_truncate_def Let_def)

lemma to_upper_not_nul: "to_upper c = nul_char \<longleftrightarrow> c = nul_char"
proof -
  have "to_upper c = nul_char \<longleftrightarrow> code (to_upper c) = 0"
    using code_inj [of "to_upper c" nul_char] by (simp add: nul_char_def code_def)
  moreover have "c = nul_char \<longleftrightarrow> code c = 0"
    using code_inj [of c nul_char] by (simp add: nul_char_def code_def)
  ultimately show ?thesis
    by (auto simp: to_upper_def is_lower_def code_char_of)
qed

lemma uppercase_pad_exact:
  assumes "nul_char \<notin> set s"
  shows "zut_uppercase_pad_truncate s n = take n (map to_upper s) @ replicate (n - length s) (CHR '' '')"
proof -
  have "c_string (map to_upper s) = map to_upper s"
    using assms unfolding c_string_def by (intro takeWhile_eq_all_conv [THEN iffD2]) (auto simp: to_upper_not_nul)
  then show ?thesis
    by (auto simp: zut_uppercase_pad_truncate_def Let_def min_def)
qed

lemma strip_newline_Cons: "s \<noteq> [] \<Longrightarrow> zut_strip_final_newline (c # s) = c # zut_strip_final_newline s"
  by (simp add: zut_strip_final_newline_def)

lemma split_lines_nonempty: "s \<noteq> [] \<Longrightarrow> split_lines s \<noteq> []"
  by (cases s) (auto split: list.splits)

lemma join_split_lines: "join_lines (split_lines s) = zut_strip_final_newline s"
proof (induction s)
  case (Cons c s)
  show ?case
  proof (cases "s = []")
    case False
    then obtain l ls where ls: "split_lines s = l # ls"
      using split_lines_nonempty by (meson neq_Nil_conv)
    then show ?thesis
      using Cons.IH by (cases ls) (simp_all add: strip_newline_Cons [OF False])
  qed (simp add: zut_strip_final_newline_def)
qed (simp add: zut_strip_final_newline_def)

lemma terminal_input: "zut_read_input True s = zut_strip_final_newline s" "zut_read_input False s = s"
  by (simp_all add: zut_read_input_def join_split_lines)

section \<open>The checksum\<close>

definition adler_nat :: "nat \<times> nat \<Rightarrow> byte list \<Rightarrow> nat \<times> nat" where
  "adler_nat = foldl (\<lambda>(a, b) d. (a + unat d, b + a + unat d))"

lemma adler_nat_simps [simp]:
  "adler_nat s [] = s" "adler_nat (a, b) (d # ds) = adler_nat (a + unat d, b + a + unat d) ds"
  by (simp_all add: adler_nat_def)

lemma adler_nat_append: "adler_nat s (ds @ es) = adler_nat (adler_nat s ds) es"
  by (simp add: adler_nat_def)

text \<open>Within 16 bytes nothing overflows.\<close>

lemma adler_bytes_exact:
  assumes "unat a + 255 * length ds < 2 ^ 24" "unat b + length ds * (unat a + 255 * length ds) < 2 ^ 32"
  shows "map_prod unat unat (foldl adler_byte (a, b) ds) = adler_nat (unat a, unat b) ds"
  using assms
proof (induction ds arbitrary: a b)
  case (Cons d ds)
  have d: "unat d < 256"
    using unsigned_less [of d] by simp
  have a: "unat (a + ucast d) = unat a + unat d"
    using Cons.prems(1) d by (subst unat_plus_simple [THEN iffD1]) (auto simp: no_olen_add_nat)
  have step: "unat b + unat a + unat d + length ds * (unat a + unat d + 255 * length ds)
      \<le> unat b + length (d # ds) * (unat a + 255 * length (d # ds))"
    using d mult_le_mono2 [of "unat d" 255 "Suc (length ds)"] by (simp add: algebra_simps)
  have b: "unat (b + (a + ucast d)) = unat b + unat a + unat d"
    using Cons.prems(2) step by (subst unat_plus_simple [THEN iffD1]) (auto simp: a no_olen_add_nat)
  have "map_prod unat unat (foldl adler_byte (a + ucast d, b + (a + ucast d)) ds)
      = adler_nat (unat a + unat d, unat b + unat a + unat d) ds"
    using Cons.prems step d by (subst Cons.IH) (auto simp: a b)
  then show ?case
    by (simp add: adler_byte_def [of "(a, b)" d])
qed simp

text \<open>The reference: the two sums of RFC 1950, without intermediate reductions.\<close>

definition adler_a :: "byte list \<Rightarrow> nat" where
  "adler_a ds = (1 + sum_list (map unat ds)) mod 65521"

definition adler_b :: "byte list \<Rightarrow> nat" where
  "adler_b ds = sum_list (map (\<lambda>k. 1 + sum_list (map unat (take k ds))) [1..<Suc (length ds)]) mod 65521"

lemma fst_adler_nat: "fst (adler_nat (A, B) ds) = A + sum_list (map unat ds)"
  by (induction ds arbitrary: A B) simp_all

lemma snd_adler_nat:
  "snd (adler_nat (A, B) ds) = B + sum_list (map (\<lambda>k. A + sum_list (map unat (take k ds))) [1..<Suc (length ds)])"
proof (induction ds rule: rev_induct)
  case (snoc d ds)
  have old: "map (\<lambda>k. A + sum_list (map unat (take k (ds @ [d])))) [1..<Suc (length ds)]
      = map (\<lambda>k. A + sum_list (map unat (take k ds))) [1..<Suc (length ds)]"
    by (rule map_cong) auto
  have last: "[1..<Suc (length (ds @ [d]))] = [1..<Suc (length ds)] @ [Suc (length ds)]"
    by simp
  have "snd (adler_nat (A, B) (ds @ [d])) = snd (adler_nat (A, B) ds) + fst (adler_nat (A, B) ds) + unat d"
    by (cases "adler_nat (A, B) ds") (simp add: adler_nat_append)
  then show ?case
    unfolding last map_append old sum_list.append snoc fst_adler_nat by simp
qed simp

lemma snd_adler_nat_linear: "snd (adler_nat (A, B) ds) = B + length ds * A + snd (adler_nat (0, 0) ds)"
  by (simp add: snd_adler_nat sum_list_addf [of "\<lambda>k. A"] sum_list_triv del: upt_Suc)

definition adler_mod :: "nat \<times> nat \<Rightarrow> nat \<times> nat" where
  "adler_mod s = map_prod (\<lambda>a. a mod 65521) (\<lambda>b. b mod 65521) s"

lemma adler_mod_start: "adler_mod (adler_nat (adler_mod s) ds) = adler_mod (adler_nat s ds)"
proof (rule prod_eqI)
  show "fst (adler_mod (adler_nat (adler_mod s) ds)) = fst (adler_mod (adler_nat s ds))"
    by (cases s) (simp add: adler_mod_def fst_adler_nat mod_simps)
  show "snd (adler_mod (adler_nat (adler_mod s) ds)) = snd (adler_mod (adler_nat s ds))"
  proof (cases s)
    case (Pair a b)
    have "(b mod 65521 + length ds * (a mod 65521) + c) mod 65521 = (b + length ds * a + c) mod 65521" for c
      by (intro mod_add_cong mod_mult_cong refl mod_mod_trivial)
    with Pair show ?thesis
      by (simp add: adler_mod_def snd_adler_nat_linear [of a b] snd_adler_nat_linear [of "a mod 65521" "b mod 65521"])
  qed
qed

lemma adler_reduce_exact: "map_prod unat unat (adler_reduce s) = adler_mod (map_prod unat unat s)"
  by (cases s) (simp add: adler_reduce_def adler_mod_def MOD_ADLER_def unat_mod)

lemma adler_block_exact:
  assumes "fst (map_prod unat unat s) < 65521" "snd (map_prod unat unat s) < 65521" "length ds \<le> 16"
  shows "map_prod unat unat (adler_reduce (foldl adler_byte s ds)) = adler_mod (adler_nat (map_prod unat unat s) ds)"
proof -
  obtain a b where s: "s = (a, b)"
    by force
  have "length ds * (unat a + 255 * length ds) \<le> 16 * (65520 + 255 * 16)"
    using assms by (intro mult_mono add_mono) (auto simp: s)
  then have "map_prod unat unat (foldl adler_byte s ds) = adler_nat (map_prod unat unat s) ds"
    using assms adler_bytes_exact [of a ds b] by (simp add: s)
  then show ?thesis
    by (simp add: adler_reduce_exact)
qed

lemma adler_mod_bound: "fst (adler_mod s) < 65521" "snd (adler_mod s) < 65521"
  by (cases s; simp add: adler_mod_def)+

lemma adler_loop_exact:
  assumes "fst (map_prod unat unat s) < 65521" "snd (map_prod unat unat s) < 65521"
  shows "map_prod unat unat (adler_loop s ds) = adler_mod (adler_nat (map_prod unat unat s) ds)"
  using assms
proof (induction s ds rule: adler_loop.induct)
  case (1 s ds)
  define s' where "s' = adler_reduce (foldl adler_byte s (take 16 ds))"
  have s': "map_prod unat unat s' = adler_mod (adler_nat (map_prod unat unat s) (take 16 ds))"
    unfolding s'_def using "1.prems" by (intro adler_block_exact) auto
  show ?case
  proof (cases "16 \<le> length ds")
    case True
    then have "map_prod unat unat (adler_loop s ds) = adler_mod (adler_nat (map_prod unat unat s') (drop 16 ds))"
      using "1.IH" unfolding s'_def [symmetric] by (simp add: adler_loop.simps [of s] s'_def [symmetric] s' adler_mod_bound)
    also have "\<dots> = adler_mod (adler_nat (map_prod unat unat s) ds)"
      by (simp add: s' adler_mod_start flip: adler_nat_append)
    finally show ?thesis .
  next
    case False
    then show ?thesis
      using "1.prems" adler_block_exact [of s ds] by (simp add: adler_loop.simps [of s])
  qed
qed

lemma combine_halves:
  fixes a b :: u32
  assumes "unat a < 65536" "unat b < 65536"
  shows "unat (or (push_bit 16 b) a) = unat b * 65536 + unat a"
proof -
  have "\<not> bit (push_bit 16 (unat b)) n \<or> \<not> bit (unat a) n" for n
  proof (cases "n < 16")
    case False
    then have "(2 :: nat) ^ 16 \<le> 2 ^ n"
      by (intro power_increasing) auto
    then show ?thesis
      using assms(1) by (simp add: bit_iff_odd [of "unat a"])
  qed (simp add: bit_push_bit_iff_nat)
  then have "push_bit 16 (unat b) + unat a = or (push_bit 16 (unat b)) (unat a)"
    by (rule disjunctive_add)
  then show ?thesis
    using assms unfolding unsigned_or_eq unsigned_push_bit_eq by (simp add: take_bit_nat_eq_self push_bit_eq_mult)
qed

text \<open>C36: The checksum is Adler-32 as RFC 1950 defines it: the low half is one more than the sum of the bytes, the
  high half the sum of those sums over all prefixes, both modulo 65521.  Reducing only after every
  16 bytes never overflows 32 bits.\<close>

theorem checksum_is_adler32:
  "unat (zut_calc_adler32_checksum input) = adler_b (map byte_of input) * 65536 + adler_a (map byte_of input)"
proof -
  define s where "s = adler_loop (1, 0) (map byte_of input)"
  have "map_prod unat unat s = (adler_a (map byte_of input), adler_b (map byte_of input))"
    unfolding s_def by (subst adler_loop_exact)
      (auto simp: adler_mod_def adler_a_def adler_b_def fst_adler_nat snd_adler_nat intro!: prod_eqI simp del: upt_Suc)
  moreover have "adler_a ds < 65536" "adler_b ds < 65536" for ds
    by (simp_all add: adler_a_def adler_b_def order.strict_trans [OF pos_mod_bound])
  ultimately show ?thesis
    unfolding zut_calc_adler32_checksum_def s_def [symmetric] by (cases s) (simp add: combine_halves)
qed

section \<open>The tracker\<close>

fun comma_separated :: "string list \<Rightarrow> string" where
  "comma_separated [] = []"
| "comma_separated [s] = s"
| "comma_separated (s # ss) = s @ '', '' @ comma_separated ss"

definition show_run :: "int \<times> int \<Rightarrow> string" where
  "show_run r = (case r of (a, b) \<Rightarrow> if a = b then show_int a else show_int a @ ''-'' @ show_int b)"

text \<open>The maximal runs of consecutive numbers.\<close>

definition runs_of :: "int list \<Rightarrow> (int \<times> int) list \<Rightarrow> bool" where
  "runs_of xs rs \<longleftrightarrow> concat (map (\<lambda>(a, b). [a..b]) rs) = xs \<and> list_all (\<lambda>(a, b). a \<le> b) rs \<and>
     successively (\<lambda>r r'. fst r' \<noteq> snd r + 1) rs"

lemma comma_separated_snoc:
  "comma_separated (ss @ [s]) = (if ss = [] then s else comma_separated ss @ '', '' @ s)"
  by (induction ss rule: comma_separated.induct) auto

lemma show_int_nonempty [simp]: "show_int i \<noteq> []"
  by (simp add: show_int_def)

lemma comma_separated_runs_empty: "comma_separated (map show_run rs) = [] \<longleftrightarrow> rs = []"
  by (cases rs rule: rev_cases) (auto simp: comma_separated_snoc show_run_def split: prod.splits)

lemma runs_of_new: "runs_of xs rs \<Longrightarrow> (rs \<noteq> [] \<Longrightarrow> x \<noteq> snd (last rs) + 1) \<Longrightarrow> runs_of (xs @ [x]) (rs @ [(x, x)])"
  by (auto simp: runs_of_def successively_append_iff)

lemma upto_snoc: "a \<le> b \<Longrightarrow> [a..b + 1] = [a..b] @ [b + 1]"
  using upto_rec2 [of a "b + 1"] by simp

lemma runs_of_extend: "runs_of xs (rs @ [(a, b)]) \<Longrightarrow> runs_of (xs @ [b + 1]) (rs @ [(a, b + 1)])"
  by (auto simp: runs_of_def successively_append_iff upto_snoc)

definition tracks :: "truncation_tracker \<Rightarrow> (int \<times> int) list \<Rightarrow> bool" where
  "tracks t rs \<longleftrightarrow> (if rs = [] then range_start t = -1 \<and> lines_str t = []
     else (range_start t, range_end t) = last rs \<and> range_start t \<noteq> -1 \<and>
       lines_str t = comma_separated (map show_run (butlast rs)))"

lemma flush_tracks: "tracks t rs \<Longrightarrow> lines_str (flush_range t) = comma_separated (map show_run rs)"
  by (cases rs rule: rev_cases)
    (auto simp: tracks_def flush_range_def comma_separated_snoc comma_separated_runs_empty show_run_def split: prod.splits)

lemma flush_count: "lines_str (flush_range (t\<lparr>tt_count := k\<rparr>)) = lines_str (flush_range t)"
  by (simp add: flush_range_def)

lemma add_line_new:
  assumes "tracks t rs" "n \<noteq> -1" "rs \<noteq> [] \<Longrightarrow> n \<noteq> snd (last rs) + 1"
  shows "tracks (add_line n t) (rs @ [(n, n)])"
proof (cases "rs = []")
  case False
  then obtain a b where "last rs = (a, b)"
    by force
  then show ?thesis
    using assms False flush_tracks [OF assms(1)] by (simp add: tracks_def add_line_def Let_def flush_count)
qed (use assms in \<open>simp add: tracks_def add_line_def Let_def\<close>)

lemma add_line_extend:
  "tracks t (rs @ [(a, b)]) \<Longrightarrow> tracks (add_line (b + 1) t) (rs @ [(a, b + 1)])"
  by (auto simp: tracks_def add_line_def Let_def)

lemma tracked_runs:
  assumes "-1 \<notin> set xs"
  shows "\<exists>rs. tracks (fold add_line xs new_tracker) rs \<and> runs_of xs rs"
  using assms
proof (induction xs rule: rev_induct)
  case Nil
  show ?case
    by (rule exI [of _ "[]"]) (simp add: tracks_def new_tracker_def runs_of_def)
next
  case (snoc x xs)
  then obtain rs where rs: "tracks (fold add_line xs new_tracker) rs" "runs_of xs rs"
    by auto
  show ?case
  proof (cases "rs \<noteq> [] \<and> x = snd (last rs) + 1")
    case True
    then obtain a b where "rs = butlast rs @ [(a, b)]" "x = b + 1"
      by (metis append_butlast_last_id prod.collapse)
    then show ?thesis
      using rs add_line_extend [of _ "butlast rs" a b] runs_of_extend [of xs "butlast rs" a b] by auto
  next
    case False
    then show ?thesis
      using snoc.prems rs add_line_new [of _ rs x] runs_of_new [of xs rs x] by auto
  qed
qed

lemma add_line_counts: "tt_count (add_line n t) = tt_count t + 1"
  by (simp add: add_line_def flush_range_def Let_def)

lemma lines_counted: "tt_count (fold add_line xs t) = tt_count t + int (length xs)"
  by (induction xs arbitrary: t) (simp_all add: add_line_counts)

text \<open>However many lines are added, the warning counts them all and lists them as maximal runs of
  consecutive numbers, in the order they were added and with none lost.\<close>

theorem warning_lists_lines:
  assumes "-1 \<notin> set xs"
  shows "\<exists>rs. runs_of xs rs \<and> get_warning_message (flush_range (fold add_line xs new_tracker)) =
    show_int (int (length xs)) @ '' line(s) truncated to fit LRECL: '' @ comma_separated (map show_run rs)"
proof -
  obtain rs where "tracks (fold add_line xs new_tracker) rs" "runs_of xs rs"
    using tracked_runs [OF assms] by blast
  then show ?thesis
    using flush_tracks lines_counted [of xs new_tracker]
    by (intro exI [of _ rs]) (simp add: get_warning_message_def flush_range_def new_tracker_def)
qed

theorem warning_lists_lines_witness:
  "\<exists>rs. runs_of [5, 6, 7, 12] rs \<and> get_warning_message (flush_range (fold add_line [5, 6, 7, 12] new_tracker)) =
    show_int 4 @ '' line(s) truncated to fit LRECL: '' @ comma_separated (map show_run rs)"
  using warning_lists_lines [of "[5, 6, 7, 12]"] by simp

section \<open>Comma-separated values\<close>

fun split_commas :: "string \<Rightarrow> string list" where
  "split_commas [] = [[]]"
| "split_commas (c # s) = (if c = CHR '','' then [] # split_commas s else (c # hd (split_commas s)) # tl (split_commas s))"

lemma split_commas_append: "CHR '','' \<notin> set f \<Longrightarrow> split_commas (f @ '','' @ s) = f # split_commas s"
  by (induction f) auto

lemma split_commas_single: "CHR '','' \<notin> set f \<Longrightarrow> split_commas f = [f]"
  by (induction f) auto

lemma trim_subset: "set (zut_trim t s) \<subseteq> set s"
  unfolding zut_trim_def zut_ltrim_def zut_rtrim_def
  by (metis set_dropWhileD set_rev subsetI)

lemma csv_fields:
  assumes "fs \<noteq> []" "list_all (\<lambda>f. CHR '','' \<notin> set f) fs"
  shows "split_commas (zut_format_as_csv fs) = map (zut_trim '' '') fs"
  using assms
proof (induction fs rule: zut_format_as_csv.induct)
  case (2 f)
  then show ?case
    using trim_subset [of "'' ''" f] by (auto intro: split_commas_single)
next
  case (3 f g fs)
  then show ?case
    using trim_subset [of "'' ''" f] split_commas_append [of "zut_trim '' '' f" "zut_format_as_csv (g # fs)"] by auto
qed simp

text \<open>A field with a comma cannot be told from two fields.\<close>

lemma csv_ambiguous: "zut_format_as_csv [''a,b''] = zut_format_as_csv [''a'', ''b'']"
  by (simp add: zut_trim_def zut_ltrim_def zut_rtrim_def)

end
