(* ===== verification/Uss.thy ===== *)
theory Uss
  imports Builder Zut
begin

text \<open>
  The handlers of the USS commands that create, move and change files (\<open>commands/uss.cpp\<close>), up
  to the file operations of \<open>zusf.cpp\<close>, which are arguments: each takes the world and gives the
  return code, the diagnostic message and the new world.
\<close>

section \<open>File operations\<close>

record 'w zusf =
  zusf_create :: "string \<Rightarrow> u32 \<Rightarrow> bool \<Rightarrow> 'w \<Rightarrow> int \<times> string \<times> 'w"
  zusf_move :: "string \<Rightarrow> string \<Rightarrow> bool \<Rightarrow> 'w \<Rightarrow> int \<times> string \<times> 'w"
  zusf_chmod :: "string \<Rightarrow> u32 \<Rightarrow> bool \<Rightarrow> 'w \<Rightarrow> int \<times> string \<times> 'w"
  zusf_chown :: "string \<Rightarrow> string \<Rightarrow> bool \<Rightarrow> 'w \<Rightarrow> int \<times> string \<times> 'w"
  zusf_chtag :: "string \<Rightarrow> string \<Rightarrow> bool \<Rightarrow> 'w \<Rightarrow> int \<times> string \<times> 'w"

section \<open>Modes\<close>

text \<open>The conversion loop that the handlers share; the mode is first cut to an \<open>int\<close>.\<close>

function mode_loop :: "int \<Rightarrow> int \<Rightarrow> u32 \<Rightarrow> u32" where
  "mode_loop temp_mode multiplier m =
     (if temp_mode > 0
      then mode_loop (temp_mode div 10) (multiplier * 8) (m + word_of_int ((temp_mode mod 10) * multiplier))
      else m)"
  by pat_completeness auto
termination
  by (relation "measure (\<lambda>(t, k, m). nat t)") auto

declare mode_loop.simps [simp del]

definition octal_mode :: "int \<Rightarrow> u32" where
  "octal_mode mode = mode_loop (to_int mode) 1 0"

section \<open>Handlers\<close>

definition out_line :: "string \<Rightarrow> 'w ctx \<Rightarrow> 'w ctx" where
  "out_line s c = c\<lparr>output_stream := output_stream c @ s @ [newline]\<rparr>"

definition err_line :: "string \<Rightarrow> 'w ctx \<Rightarrow> 'w ctx" where
  "err_line s c = c\<lparr>error_stream := error_stream c @ s @ [newline]\<rparr>"

definition quoted :: "string \<Rightarrow> string" where
  "quoted s = [CHR 0x27] @ s @ [CHR 0x27]"

definition arg_string :: "string \<Rightarrow> string \<Rightarrow> 'w ctx \<Rightarrow> string" where
  "arg_string key d c = io_get_default arg_get_string key d (args c)"

definition arg_int :: "string \<Rightarrow> int \<Rightarrow> 'w ctx \<Rightarrow> int" where
  "arg_int key d c = io_get_default arg_get_int key d (args c)"

definition invalid_mode :: "'w ctx \<Rightarrow> outcome \<times> 'w ctx" where
  "invalid_mode c = (Returned RTNCD_FAILURE,
     err_line (''Error: invalid mode provided.'' @ [newline] @ ''Examples of valid modes: 777, 0644'') c)"

text \<open>The common end of the handlers: the two error messages, or the success message.\<close>

definition finish_zusf :: "string \<Rightarrow> string \<Rightarrow> int \<times> string \<times> 'w \<Rightarrow> 'w ctx \<Rightarrow> outcome \<times> 'w ctx" where
  "finish_zusf failure success r c = (case r of (rc, e_msg, w) \<Rightarrow>
     (let c = c\<lparr>world := w\<rparr> in
      if rc \<noteq> 0 then (Returned RTNCD_FAILURE,
        err_line (''  Details:'' @ [newline] @ e_msg) (err_line (failure @ '' rc: '' @ quoted (show_int rc)) c))
      else (Returned rc, out_line success c)))"

definition handle_uss_create_file :: "'w zusf \<Rightarrow> 'w handler" where
  "handle_uss_create_file z c =
     (let file_path = arg_string ''file-path'' [] c; mode = arg_int ''mode'' 644 c in
      if mode = 0 then invalid_mode c
      else finish_zusf (''Error: could not create USS file: '' @ quoted file_path) (''USS file '' @ quoted file_path @ '' created'')
        (zusf_create z file_path (octal_mode mode) False (world c)) c)"

definition handle_uss_create_dir :: "'w zusf \<Rightarrow> 'w handler" where
  "handle_uss_create_dir z c =
     (let file_path = arg_string ''file-path'' [] c; mode = arg_int ''mode'' 755 c in
      if mode = 0 then invalid_mode c
      else finish_zusf (''Error: could not create USS directory: '' @ quoted file_path)
        (''USS directory '' @ quoted file_path @ '' created'')
        (zusf_create z file_path (octal_mode mode) True (world c)) c)"

definition handle_uss_move :: "'w zusf \<Rightarrow> 'w handler" where
  "handle_uss_move z c =
     (let source = arg_string ''source'' [] c; target = arg_string ''target'' [] c;
          force = io_get_bool_default ''force'' True (args c) in
      finish_zusf (''Error: could not move USS file or directory: '' @ quoted source @ '' to '' @ quoted target)
        (''USS file or directory '' @ quoted source @ '' moved to '' @ quoted target)
        (zusf_move z source target force (world c)) c)"

definition handle_uss_chmod :: "'w zusf \<Rightarrow> 'w handler" where
  "handle_uss_chmod z c =
     (let mode = arg_int ''mode'' 0 c in
      if mode = 0 \<and> arg_string ''mode'' [] c \<noteq> [] then invalid_mode c
      else
        (let file_path = arg_string ''file-path'' [] c; recursive = io_get_bool_default ''recursive'' False (args c) in
         finish_zusf (''Error: could not chmod USS path: '' @ quoted file_path)
           (''USS path '' @ quoted file_path @ '' modified: '' @ quoted (show_int mode))
           (zusf_chmod z file_path (octal_mode mode) recursive (world c)) c))"

definition handle_uss_chown :: "'w zusf \<Rightarrow> 'w handler" where
  "handle_uss_chown z c =
     (let path = arg_string ''file-path'' [] c; owner = arg_string ''owner'' [] c;
          recursive = io_get_bool_default ''recursive'' False (args c) in
      finish_zusf (''Error: could not chown USS path: '' @ quoted path)
        (''USS path '' @ quoted path @ '' owner changed to '' @ quoted owner)
        (zusf_chown z path owner recursive (world c)) c)"

definition handle_uss_chtag :: "'w zusf \<Rightarrow> 'w handler" where
  "handle_uss_chtag z c =
     (let path = arg_string ''file-path'' [] c; tag = arg_string ''tag'' [] c;
          tag = (if tag = [] then show_int (arg_int ''tag'' 0 c) else tag) in
      if tag = [] then (Returned RTNCD_FAILURE, err_line ''Error: no tag provided'' c)
      else
        (let recursive = io_get_bool_default ''recursive'' False (args c) in
         finish_zusf (''Error: could not chtag USS path: '' @ quoted path)
           (''USS path '' @ quoted path @ '' tag changed to '' @ quoted tag)
           (zusf_chtag z path tag recursive (world c)) c))"

section \<open>Modes as octal numbers\<close>

lemma mode_loop_value:
  assumes "0 \<le> t" "t < 10 ^ n"
  shows "mode_loop t k m = m + word_of_int (k * (\<Sum>i<n. (t div 10 ^ i mod 10) * 8 ^ i))"
  using assms
proof (induction n arbitrary: t k m)
  case 0
  then show ?case
    by (simp add: mode_loop.simps)
next
  case (Suc n)
  show ?case
  proof (cases "t = 0")
    case True
    then show ?thesis
      by (simp add: mode_loop.simps)
  next
    case False
    have shift: "t div 10 div 10 ^ i = t div 10 ^ Suc i" for i
      by (simp add: zdiv_zmult2_eq)
    have sum: "(\<Sum>i<Suc n. (t div 10 ^ i mod 10) * 8 ^ i) = t mod 10 + 8 * (\<Sum>i<n. (t div 10 div 10 ^ i mod 10) * 8 ^ i)"
      unfolding shift by (simp add: sum.lessThan_Suc_shift sum_distrib_left mult.left_commute del: sum.lessThan_Suc)
    have "mode_loop t k m = mode_loop (t div 10) (k * 8) (m + word_of_int ((t mod 10) * k))"
      using False Suc.prems by (subst mode_loop.simps) simp
    also have "\<dots> = m + word_of_int ((t mod 10) * k) + word_of_int (k * 8 * (\<Sum>i<n. (t div 10 div 10 ^ i mod 10) * 8 ^ i))"
      by (rule Suc.IH) (use Suc.prems in auto)
    also have "\<dots> = m + word_of_int (k * (\<Sum>i<Suc n. (t div 10 ^ i mod 10) * 8 ^ i))"
      unfolding sum by (simp add: algebra_simps)
    finally show ?thesis .
  qed
qed

lemma octal_term_bound:
  assumes "k < 10"
  shows "0 \<le> (t div 10 ^ k mod 10) * (8 :: int) ^ k" "(t div 10 ^ k mod 10) * 8 ^ k \<le> 9 * 8 ^ k" "9 * (8 :: int) ^ k < 2 ^ 31"
proof -
  have "(8 :: int) ^ k \<le> 8 ^ 9"
    using assms by (intro power_increasing) auto
  then show "9 * (8 :: int) ^ k < 2 ^ 31"
    by simp
  show "0 \<le> (t div 10 ^ k mod 10) * (8 :: int) ^ k"
    by simp
  have "t div 10 ^ k mod 10 \<le> 9"
    using pos_mod_bound [of 10 "t div 10 ^ k"] by simp
  then show "(t div 10 ^ k mod 10) * 8 ^ k \<le> 9 * 8 ^ k"
    by (intro mult_right_mono) simp_all
qed

text \<open>A mode given as a decimal number is read as octal: the result is the sum of its decimal
  digits times the powers of eight, without wrapping, and no product that the loop computes overflows
  an \<open>int\<close>; so 755 gives octal 755.\<close>

theorem octal_mode_value:
  assumes "0 \<le> mode" "mode < 2 ^ 31"
  shows "uint (octal_mode mode) = (\<Sum>i<10. (mode div 10 ^ i mod 10) * 8 ^ i) \<and>
    (\<forall>k<10. (mode div 10 ^ k mod 10) * 8 ^ k < 2 ^ 31)"
proof (intro conjI allI impI)
  define S where "S = (\<Sum>i<10. (mode div 10 ^ i mod 10) * (8 :: int) ^ i)"
  have "S \<le> (\<Sum>i<10. 9 * 8 ^ i)"
    unfolding S_def by (rule sum_mono) (simp add: octal_term_bound(2))
  also have "\<dots> < 2 ^ 32"
    by (simp add: numeral_eq_Suc)
  finally have "S < 2 ^ 32" .
  moreover have "0 \<le> S"
    unfolding S_def by (rule sum_nonneg) simp
  moreover have "octal_mode mode = word_of_int S"
    using mode_loop_value [of mode 10 1 0] to_int_ok [of mode] assms
    by (simp only: octal_mode_def int_ok_def S_def) simp
  ultimately show "uint (octal_mode mode) = (\<Sum>i<10. (mode div 10 ^ i mod 10) * 8 ^ i)"
    unfolding S_def [symmetric] by (simp add: uint_word_of_int)
next
  fix k :: nat
  assume "k < 10"
  then show "(mode div 10 ^ k mod 10) * 8 ^ k < 2 ^ 31"
    using octal_term_bound(2) [of k mode] octal_term_bound(3) [of k] by linarith
qed

theorem octal_mode_value_witness:
  "uint (octal_mode 755) = 7 * 64 + 5 * 8 + 5"
  using octal_mode_value [of 755] by (simp add: numeral_eq_Suc)

text \<open>A mode that arrives as a string, which is what the request schemas ask for, is not read.\<close>

lemma create_ignores_string_mode:
  assumes "map_of (args c) ''mode'' = Some (mk_arg (VString m))"
  shows "handle_uss_create_file z c = finish_zusf (''Error: could not create USS file: '' @ quoted (arg_string ''file-path'' [] c))
      (''USS file '' @ quoted (arg_string ''file-path'' [] c) @ '' created'')
      (zusf_create z (arg_string ''file-path'' [] c) (octal_mode 644) False (world c)) c"
    and "handle_uss_create_dir z c = finish_zusf (''Error: could not create USS directory: '' @ quoted (arg_string ''file-path'' [] c))
      (''USS directory '' @ quoted (arg_string ''file-path'' [] c) @ '' created'')
      (zusf_create z (arg_string ''file-path'' [] c) (octal_mode 755) True (world c)) c"
  using assms by (simp_all add: handle_uss_create_file_def handle_uss_create_dir_def arg_int_def io_get_default_def
      io_get_if_def arg_get_int_def mk_arg_def Let_def)

end
