(* ===== verification/Commands.thy ===== *)
theory Commands
  imports RpcServer Schemas Uss
begin

text \<open>
  The commands of the server (\<open>server/rpc_commands.cpp\<close>): each register function adds its
  rows to the table, in the source's order.  The command handlers themselves are the argument
  \<open>hs\<close>, by the qualified name of the function.
\<close>

section \<open>Builders with common renamings\<close>

definition create_ds_builder :: "'w handler \<Rightarrow> 'w builder" where
  "create_ds_builder h = rename_arg ''dsname'' ''dsn'' (command_builder (Some h))"

definition create_job_builder :: "'w handler \<Rightarrow> 'w builder" where
  "create_job_builder h = rename_arg ''jobId'' ''jobid'' (command_builder (Some h))"

definition create_uss_builder :: "'w handler \<Rightarrow> 'w builder" where
  "create_uss_builder h = rename_arg ''fspath'' ''file-path'' (command_builder (Some h))"

definition copy_uss_builder :: "'w handler \<Rightarrow> 'w builder" where
  "copy_uss_builder h = rename_arg ''dstFsPath'' ''destination-path'' (rename_arg ''srcFsPath'' ''source-path'' (command_builder (Some h)))"

definition handle_uss_create :: "(string \<Rightarrow> 'w handler) \<Rightarrow> 'w handler" where
  "handle_uss_create hs c = (if io_get_bool_default ''is-dir'' False (args c)
     then hs ''uss::handle_uss_create_dir'' c else hs ''uss::handle_uss_create_file'' c)"

section \<open>Registration\<close>

text \<open>\<open>chain\<close> applies the builder's methods in the order they are called; the result of
  \<open>register_command\<close> is ignored.\<close>

definition chain :: "('w builder \<Rightarrow> 'w builder) list \<Rightarrow> 'w builder \<Rightarrow> 'w builder" where
  "chain fs b = fold (\<lambda>f b. f b) fs b"

definition register :: "string \<times> 'w builder \<Rightarrow> 'w dispatcher \<Rightarrow> 'w dispatcher" where
  "register nb commands = snd (register_command (fst nb) (snd nb) commands)"

definition ds_commands :: "(string \<Rightarrow> 'w handler) \<Rightarrow> (string \<times> 'w builder) list" where
  "ds_commands hs =
     [(''createDataset'', chain [validate CreateDatasetRequest_schema CreateDatasetResponse_schema,
          flatten_obj ''attributes'']
        (create_ds_builder (hs ''ds::create_with_attributes''))),
      (''createMember'', chain [validate CreateMemberRequest_schema CreateMemberResponse_schema]
        (create_ds_builder (hs ''ds::handle_data_set_create_member''))),
      (''deleteDataset'', chain [validate DeleteDatasetRequest_schema DeleteDatasetResponse_schema]
        (create_ds_builder (hs ''ds::handle_data_set_delete''))),
      (''listDatasets'', chain [validate ListDatasetsRequest_schema ListDatasetsResponse_schema,
          rename_arg ''pattern'' ''dsn'',
          rename_arg ''maxItems'' ''max-entries'',
          set_default ''warn'' (VBool False)]
        (command_builder (Some (hs ''ds::handle_data_set_list'')))),
      (''listDsMembers'', chain [validate ListDsMembersRequest_schema ListDsMembersResponse_schema,
          rename_arg ''maxItems'' ''max-entries'',
          set_default ''warn'' (VBool False),
          set_default ''pattern'' (VString '''')]
        (create_ds_builder (hs ''ds::handle_data_set_list_members''))),
      (''readDataset'', chain [validate ReadDatasetRequest_schema ReadDatasetResponse_schema,
          rename_arg ''volume'' ''volser'',
          set_default ''encoding'' (VString ''IBM-1047''),
          set_default ''return-etag'' (VBool True),
          read_stdout ''data'' True,
          handle_fifo ''stream'' ''pipe-path'' GET False]
        (create_ds_builder (hs ''ds::handle_data_set_view''))),
      (''restoreDataset'', chain [validate RestoreDatasetRequest_schema RestoreDatasetResponse_schema]
        (create_ds_builder (hs ''ds::handle_data_set_restore''))),
      (''writeDataset'', chain [validate WriteDatasetRequest_schema WriteDatasetResponse_schema,
          rename_arg ''volume'' ''volser'',
          set_default ''encoding'' (VString ''IBM-1047''),
          write_stdin ''data'' True,
          handle_fifo ''stream'' ''pipe-path'' PUT False]
        (create_ds_builder (hs ''ds::handle_data_set_write''))),
      (''renameDataset'', chain [validate RenameDatasetRequest_schema RenameDatasetResponse_schema]
        (create_ds_builder (hs ''ds::handle_data_set_rename''))),
      (''renameMember'', chain [validate RenameMemberRequest_schema RenameMemberResponse_schema]
        (create_ds_builder (hs ''ds::handle_rename_member'')))]"

definition register_ds_commands :: "(string \<Rightarrow> 'w handler) \<Rightarrow> 'w dispatcher \<Rightarrow> 'w dispatcher" where
  "register_ds_commands hs = fold register (ds_commands hs)"

definition job_commands :: "(string \<Rightarrow> 'w handler) \<Rightarrow> (string \<times> 'w builder) list" where
  "job_commands hs =
     [(''cancelJob'', chain [validate CancelJobRequest_schema CancelJobResponse_schema]
        (create_job_builder (hs ''job::handle_job_cancel''))),
      (''deleteJob'', chain [validate DeleteJobRequest_schema DeleteJobResponse_schema]
        (create_job_builder (hs ''job::handle_job_delete''))),
      (''getJcl'', chain [validate GetJclRequest_schema GetJclResponse_schema,
          read_stdout ''data'' False]
        (create_job_builder (hs ''job::handle_job_view_jcl''))),
      (''getJobStatus'', chain [validate GetJobStatusRequest_schema GetJobStatusResponse_schema]
        (create_job_builder (hs ''job::handle_job_view_status''))),
      (''holdJob'', chain [validate HoldJobRequest_schema HoldJobResponse_schema]
        (create_job_builder (hs ''job::handle_job_hold''))),
      (''listJobs'', chain [validate ListJobsRequest_schema ListJobsResponse_schema,
          rename_arg ''maxItems'' ''max-entries'',
          set_default ''warn'' (VBool False)]
        (command_builder (Some (hs ''job::handle_job_list'')))),
      (''listSpools'', chain [validate ListSpoolsRequest_schema ListSpoolsResponse_schema]
        (create_job_builder (hs ''job::handle_job_list_files''))),
      (''readSpool'', chain [validate ReadSpoolRequest_schema ReadSpoolResponse_schema,
          rename_arg ''spoolId'' ''key'',
          set_default ''encoding'' (VString ''IBM-1047''),
          read_stdout ''data'' True]
        (create_job_builder (hs ''job::handle_job_view_file_by_id''))),
      (''releaseJob'', chain [validate ReleaseJobRequest_schema ReleaseJobResponse_schema]
        (create_job_builder (hs ''job::handle_job_release''))),
      (''submitJcl'', chain [validate SubmitJclRequest_schema SubmitJclResponse_schema,
          set_default ''encoding'' (VString ''IBM-1047''),
          write_stdin ''jcl'' True]
        (command_builder (Some (hs ''job::handle_job_submit_jcl'')))),
      (''submitJob'', chain [validate SubmitJobRequest_schema SubmitJclResponse_schema]
        (create_ds_builder (hs ''job::handle_job_submit''))),
      (''submitUss'', chain [validate SubmitUssRequest_schema SubmitJclResponse_schema]
        (create_uss_builder (hs ''job::handle_job_submit_uss'')))]"

definition register_job_commands :: "(string \<Rightarrow> 'w handler) \<Rightarrow> 'w dispatcher \<Rightarrow> 'w dispatcher" where
  "register_job_commands hs = fold register (job_commands hs)"

definition uss_commands :: "(string \<Rightarrow> 'w handler) \<Rightarrow> (string \<times> 'w builder) list" where
  "uss_commands hs =
     [(''chmodFile'', chain [validate ChmodFileRequest_schema ChmodFileResponse_schema]
        (create_uss_builder (hs ''uss::handle_uss_chmod''))),
      (''chownFile'', chain [validate ChownFileRequest_schema ChownFileResponse_schema]
        (create_uss_builder (hs ''uss::handle_uss_chown''))),
      (''chtagFile'', chain [validate ChtagFileRequest_schema ChtagFileResponse_schema]
        (create_uss_builder (hs ''uss::handle_uss_chtag''))),
      (''copyUss'', chain [validate CopyUssRequest_schema CopyUssResponse_schema]
        (copy_uss_builder (hs ''uss::handle_uss_copy''))),
      (''createFile'', chain [validate CreateFileRequest_schema CreateFileResponse_schema,
          rename_arg ''permissions'' ''mode'']
        (create_uss_builder (handle_uss_create hs))),
      (''deleteFile'', chain [validate DeleteFileRequest_schema DeleteFileResponse_schema]
        (create_uss_builder (hs ''uss::handle_uss_delete''))),
      (''moveFile'', chain [validate MoveFileRequest_schema MoveFileResponse_schema,
          set_default ''force'' (VBool True)]
        (create_uss_builder (hs ''uss::handle_uss_move''))),
      (''listFiles'', chain [validate ListFilesRequest_schema ListFilesResponse_schema,
          set_default ''response-format-csv'' (VBool True)]
        (create_uss_builder (hs ''uss::handle_uss_list''))),
      (''readFile'', chain [validate ReadFileRequest_schema ReadFileResponse_schema,
          set_default ''encoding'' (VString ''IBM-1047''),
          set_default ''return-etag'' (VBool True),
          read_stdout ''data'' True,
          handle_fifo ''stream'' ''pipe-path'' GET True]
        (create_uss_builder (hs ''uss::handle_uss_view''))),
      (''writeFile'', chain [validate WriteFileRequest_schema WriteFileResponse_schema,
          set_default ''encoding'' (VString ''IBM-1047''),
          write_stdin ''data'' True,
          handle_fifo ''stream'' ''pipe-path'' PUT False]
        (create_uss_builder (hs ''uss::handle_uss_write''))),
      (''unixCommand'', chain [validate IssueUssCmdRequest_schema IssueUssCmdResponse_schema,
          rename_arg ''commandText'' ''command'',
          read_stdout ''data'' False]
        (command_builder (Some (hs ''uss::handle_uss_issue_cmd''))))]"

definition register_uss_commands :: "(string \<Rightarrow> 'w handler) \<Rightarrow> 'w dispatcher \<Rightarrow> 'w dispatcher" where
  "register_uss_commands hs = fold register (uss_commands hs)"

definition tso_commands :: "(string \<Rightarrow> 'w handler) \<Rightarrow> (string \<times> 'w builder) list" where
  "tso_commands hs =
     [(''tsoCommand'', chain [validate IssueTsoCmdRequest_schema IssueTsoCmdResponse_schema,
          rename_arg ''commandText'' ''command'',
          read_stdout ''data'' False]
        (command_builder (Some (hs ''tso::handle_tso_issue''))))]"

definition register_tso_commands :: "(string \<Rightarrow> 'w handler) \<Rightarrow> 'w dispatcher \<Rightarrow> 'w dispatcher" where
  "register_tso_commands hs = fold register (tso_commands hs)"

definition tool_commands :: "(string \<Rightarrow> 'w handler) \<Rightarrow> (string \<times> 'w builder) list" where
  "tool_commands hs =
     [(''toolSearch'', chain [validate ToolSearchRequest_schema ToolSearchResponse_schema,
          read_stdout ''data'' False]
        (create_ds_builder (hs ''tool::handle_tool_search'')))]"

definition register_tool_commands :: "(string \<Rightarrow> 'w handler) \<Rightarrow> 'w dispatcher \<Rightarrow> 'w dispatcher" where
  "register_tool_commands hs = fold register (tool_commands hs)"

definition core_commands :: "(string \<Rightarrow> 'w handler) \<Rightarrow> (string \<times> 'w builder) list" where
  "core_commands hs =
     [(''getInfo'', chain [validate GetInfoRequest_schema GetInfoResponse_schema]
        (command_builder (Some (hs ''core::handle_version''))))]"

definition register_core_commands :: "(string \<Rightarrow> 'w handler) \<Rightarrow> 'w dispatcher \<Rightarrow> 'w dispatcher" where
  "register_core_commands hs = fold register (core_commands hs)"

definition register_all_commands :: "(string \<Rightarrow> 'w handler) \<Rightarrow> 'w dispatcher \<Rightarrow> 'w dispatcher" where
  "register_all_commands hs commands =
     register_tso_commands hs (register_tool_commands hs (register_uss_commands hs (register_job_commands hs
       (register_ds_commands hs (register_core_commands hs commands)))))"

section \<open>The table\<close>

lemma builder_simps [simp]:
  "handler (add_transform t b) = handler b" "transforms (add_transform t b) = transforms b @ [t]"
  "request_validator (add_transform t b) = request_validator b" "response_validator (add_transform t b) = response_validator b"
  "handler (validate rq rs b) = handler b" "transforms (validate rq rs b) = transforms b"
  "request_validator (validate rq rs b) = Some (\<lambda>p. validate_schema p rq True [])"
  "response_validator (validate rq rs b) = Some (\<lambda>p. validate_schema p rs False [])"
  "handler (command_builder h) = h" "transforms (command_builder h) = []"
  by (simp_all add: add_transform_def validate_def command_builder_def)

lemma chain_simps [simp]: "chain [] b = b" "chain (f # fs) b = chain fs (f b)"
  by (simp_all add: chain_def)

lemmas builder_defs = rename_arg_def set_default_def handle_fifo_def read_stdout_def write_stdin_def flatten_obj_def
  create_ds_builder_def create_job_builder_def create_uss_builder_def copy_uss_builder_def

lemmas command_tables = core_commands_def ds_commands_def job_commands_def uss_commands_def tool_commands_def tso_commands_def

definition all_commands :: "(string \<Rightarrow> 'w handler) \<Rightarrow> (string \<times> 'w builder) list" where
  "all_commands hs = core_commands hs @ ds_commands hs @ job_commands hs @ uss_commands hs @ tool_commands hs @ tso_commands hs"

lemma update_fresh: "map_of m k = None \<Longrightarrow> AList.update k v m = m @ [(k, v)]"
  by (induction m) (auto split: if_splits)

lemma fold_register:
  assumes "distinct (map fst (d @ rows))" "list_all (\<lambda>(n, b). n \<noteq> [] \<and> handler b \<noteq> None) rows"
  shows "fold register rows d = d @ rows"
  using assms
proof (induction rows arbitrary: d)
  case (Cons row rows)
  obtain n b where row: "row = (n, b)"
    by (cases row)
  have "map_of d n = None"
    using Cons.prems(1) by (auto simp: row map_of_eq_None_iff)
  then have "register row d = d @ [row]"
    using Cons.prems(2) by (simp add: row register_def register_command_def update_fresh)
  then show ?case
    using Cons.IH [of "d @ [row]"] Cons.prems by simp
qed simp

lemma all_command_names: "map fst (all_commands hs) =
  [''getInfo'', ''createDataset'', ''createMember'', ''deleteDataset'', ''listDatasets'', ''listDsMembers'', ''readDataset'',
   ''restoreDataset'', ''writeDataset'', ''renameDataset'', ''renameMember'',
   ''cancelJob'', ''deleteJob'', ''getJcl'', ''getJobStatus'', ''holdJob'', ''listJobs'', ''listSpools'', ''readSpool'',
   ''releaseJob'', ''submitJcl'', ''submitJob'', ''submitUss'',
   ''chmodFile'', ''chownFile'', ''chtagFile'', ''copyUss'', ''createFile'', ''deleteFile'', ''moveFile'', ''listFiles'',
   ''readFile'', ''writeFile'', ''unixCommand'', ''toolSearch'', ''tsoCommand'']"
  by (simp add: all_commands_def command_tables)

lemma all_command_handlers: "list_all (\<lambda>(n, b). n \<noteq> [] \<and> handler b \<noteq> None) (all_commands hs)"
  by (simp add: all_commands_def command_tables builder_defs)

lemma register_all: "register_all_commands hs [] = all_commands hs"
proof -
  have "register_all_commands hs [] = fold register (all_commands hs) []"
    by (simp add: register_all_commands_def register_core_commands_def register_ds_commands_def register_job_commands_def
        register_uss_commands_def register_tool_commands_def register_tso_commands_def all_commands_def)
  then show ?thesis
    using fold_register [of "[]" "all_commands hs"] all_command_handlers [of hs] by (simp add: all_command_names)
qed

section \<open>Commands and their schemas\<close>

definition command_schemas :: "(string \<times> field_descriptor list \<times> field_descriptor list) list" where
  "command_schemas =
    [(''getInfo'', GetInfoRequest_schema, GetInfoResponse_schema),
     (''createDataset'', CreateDatasetRequest_schema, CreateDatasetResponse_schema),
     (''createMember'', CreateMemberRequest_schema, CreateMemberResponse_schema),
     (''deleteDataset'', DeleteDatasetRequest_schema, DeleteDatasetResponse_schema),
     (''listDatasets'', ListDatasetsRequest_schema, ListDatasetsResponse_schema),
     (''listDsMembers'', ListDsMembersRequest_schema, ListDsMembersResponse_schema),
     (''readDataset'', ReadDatasetRequest_schema, ReadDatasetResponse_schema),
     (''restoreDataset'', RestoreDatasetRequest_schema, RestoreDatasetResponse_schema),
     (''writeDataset'', WriteDatasetRequest_schema, WriteDatasetResponse_schema),
     (''renameDataset'', RenameDatasetRequest_schema, RenameDatasetResponse_schema),
     (''renameMember'', RenameMemberRequest_schema, RenameMemberResponse_schema),
     (''cancelJob'', CancelJobRequest_schema, CancelJobResponse_schema),
     (''deleteJob'', DeleteJobRequest_schema, DeleteJobResponse_schema),
     (''getJcl'', GetJclRequest_schema, GetJclResponse_schema),
     (''getJobStatus'', GetJobStatusRequest_schema, GetJobStatusResponse_schema),
     (''holdJob'', HoldJobRequest_schema, HoldJobResponse_schema),
     (''listJobs'', ListJobsRequest_schema, ListJobsResponse_schema),
     (''listSpools'', ListSpoolsRequest_schema, ListSpoolsResponse_schema),
     (''readSpool'', ReadSpoolRequest_schema, ReadSpoolResponse_schema),
     (''releaseJob'', ReleaseJobRequest_schema, ReleaseJobResponse_schema),
     (''submitJcl'', SubmitJclRequest_schema, SubmitJclResponse_schema),
     (''submitJob'', SubmitJobRequest_schema, SubmitJclResponse_schema),
     (''submitUss'', SubmitUssRequest_schema, SubmitJclResponse_schema),
     (''chmodFile'', ChmodFileRequest_schema, ChmodFileResponse_schema),
     (''chownFile'', ChownFileRequest_schema, ChownFileResponse_schema),
     (''chtagFile'', ChtagFileRequest_schema, ChtagFileResponse_schema),
     (''copyUss'', CopyUssRequest_schema, CopyUssResponse_schema),
     (''createFile'', CreateFileRequest_schema, CreateFileResponse_schema),
     (''deleteFile'', DeleteFileRequest_schema, DeleteFileResponse_schema),
     (''moveFile'', MoveFileRequest_schema, MoveFileResponse_schema),
     (''listFiles'', ListFilesRequest_schema, ListFilesResponse_schema),
     (''readFile'', ReadFileRequest_schema, ReadFileResponse_schema),
     (''writeFile'', WriteFileRequest_schema, WriteFileResponse_schema),
     (''unixCommand'', IssueUssCmdRequest_schema, IssueUssCmdResponse_schema),
     (''toolSearch'', ToolSearchRequest_schema, ToolSearchResponse_schema),
     (''tsoCommand'', IssueTsoCmdRequest_schema, IssueTsoCmdResponse_schema)]"

definition default_fits :: "arg_value \<Rightarrow> field_type \<Rightarrow> bool" where
  "default_fits v t \<longleftrightarrow> (case v of VBool _ \<Rightarrow> t = TYPE_BOOL | VString _ \<Rightarrow> t = TYPE_STRING | _ \<Rightarrow> False)"

text \<open>What a transformation needs of the command's schemas.\<close>

definition transform_fits :: "field_descriptor list \<Rightarrow> field_descriptor list \<Rightarrow> arg_transform \<Rightarrow> bool" where
  "transform_fits req resp t = (case tkind t of
     RenameArg \<Rightarrow> list_all (\<lambda>f. camel_case_to_kebab_case (fd_name f) \<noteq> renamed_to t) req
   | SetDefault \<Rightarrow> list_all (\<lambda>f. camel_case_to_kebab_case (fd_name f) = arg_name t \<longrightarrow>
       \<not> required f \<and> default_fits (arg_val (default_value t)) (fd_type f)) req
   | WriteStdin \<Rightarrow> list_ex (\<lambda>f. fd_name f = arg_name t \<and> fd_type f = TYPE_STRING) req
   | ReadStdout \<Rightarrow> list_ex (\<lambda>f. fd_name f = arg_name t \<and> fd_type f = TYPE_STRING \<and> required f) resp
   | HandleFifo \<Rightarrow> list_ex (\<lambda>f. fd_name f = rpc_id_param t) req \<and>
       list_all (\<lambda>f. camel_case_to_kebab_case (fd_name f) \<noteq> arg_name t) req
   | FlattenObj \<Rightarrow> list_ex (\<lambda>f. fd_name f = arg_name t \<and> fd_type f = TYPE_OBJECT \<and>
       (case nested_schema f of None \<Rightarrow> False
        | Some ns \<Rightarrow> list_all (\<lambda>g. camel_case_to_kebab_case (fd_name g) = fd_name g \<and>
            (fd_type g = TYPE_BOOL \<or> fd_type g = TYPE_NUMBER \<or> fd_type g = TYPE_STRING)) ns)) req)"

definition command_fits :: "string \<times> 'w builder \<Rightarrow> string \<times> field_descriptor list \<times> field_descriptor list \<Rightarrow> bool" where
  "command_fits nb ns \<longleftrightarrow> fst nb = fst ns \<and> well_formed_schema (fst (snd ns)) \<and> well_formed_schema (snd (snd ns)) \<and>
     list_all (transform_fits (fst (snd ns)) (snd (snd ns))) (transforms (snd nb))"

lemma schemas_well_formed:
  "list_all (\<lambda>(n, req, resp). well_formed_schema req \<and> well_formed_schema resp) command_schemas"
  by code_simp

lemma transforms_fit:
  "list_all2 (\<lambda>ts (n, req, resp). list_all (transform_fits req resp) ts) (map (\<lambda>(n, b). transforms b) (all_commands hs)) command_schemas"
  by code_simp

lemma validators_match:
  "list_all2 (\<lambda>(n, b) (n', req, resp). n = n' \<and> request_validator b = Some (\<lambda>p. validate_schema p req True []) \<and>
     response_validator b = Some (\<lambda>p. validate_schema p resp False [])) (all_commands hs) command_schemas"
  by (simp add: all_commands_def command_tables command_schemas_def builder_defs)

text \<open>C18: Registering all commands gives the 36 commands of the table, each with a handler and
  validators for its request schema (lenient) and its response schema (strict); both schemas are well
  formed, and the command's transformations fit them: standard input comes from a string parameter,
  captured output goes to a required string field, a stream id is a declared parameter, a flattened
  object has scalar fields whose names are their own kebab form, a default is for an optional
  parameter of its type, and no renaming collides with a declared parameter.\<close>

theorem commands_fit_schemas:
  "length (register_all_commands hs []) = 36 \<and>
   list_all2 (\<lambda>(n, b) (n', req, resp). n = n' \<and> handler b \<noteq> None \<and>
     request_validator b = Some (\<lambda>p. validate_schema p req True []) \<and>
     response_validator b = Some (\<lambda>p. validate_schema p resp False []) \<and>
     well_formed_schema req \<and> well_formed_schema resp \<and> list_all (transform_fits req resp) (transforms b))
   (register_all_commands hs []) command_schemas"
proof (rule conjI)
  show "length (register_all_commands hs []) = 36"
    using arg_cong [OF all_command_names [of hs], of length] by (simp add: register_all)
  show "list_all2 (\<lambda>(n, b) (n', req, resp). n = n' \<and> handler b \<noteq> None \<and>
     request_validator b = Some (\<lambda>p. validate_schema p req True []) \<and>
     response_validator b = Some (\<lambda>p. validate_schema p resp False []) \<and>
     well_formed_schema req \<and> well_formed_schema resp \<and> list_all (transform_fits req resp) (transforms b))
   (register_all_commands hs []) command_schemas"
    using validators_match [of hs] transforms_fit [of hs] schemas_well_formed all_command_handlers [of hs]
    unfolding register_all list_all2_conv_all_nth list_all_length by (auto simp: case_prod_beta)
qed

lemma command_lookup:
  assumes "map_of (register_all_commands hs []) n = Some b"
  shows "\<exists>req resp. request_validator b = Some (\<lambda>p. validate_schema p req True []) \<and>
     response_validator b = Some (\<lambda>p. validate_schema p resp False []) \<and> (n, req, resp) \<in> set command_schemas \<and>
     schema_named req \<and> schema_named resp"
proof -
  have "(n, b) \<in> set (all_commands hs)"
    using assms by (simp add: register_all map_of_SomeD)
  then obtain i where i: "i < length (all_commands hs)" "all_commands hs ! i = (n, b)"
    by (auto simp: in_set_conv_nth)
  obtain n' req resp where ns: "command_schemas ! i = (n', req, resp)"
    by (metis prod_cases3)
  have len: "length (all_commands hs) = length command_schemas"
    using validators_match [of hs] by (simp add: list_all2_lengthD)
  have "well_formed_schema req \<and> well_formed_schema resp"
    using schemas_well_formed i(1) ns len by (auto simp: list_all_length)
  moreover have "n' = n \<and> request_validator b = Some (\<lambda>p. validate_schema p req True []) \<and>
      response_validator b = Some (\<lambda>p. validate_schema p resp False [])"
    using list_all2_nthD [OF validators_match [of hs] i(1)] i(2) ns by simp
  moreover have "(n', req, resp) \<in> set command_schemas"
    using i(1) len ns by (metis nth_mem)
  ultimately show ?thesis
    using well_formed_named by blast
qed

text \<open>For every registered command, the parameters it accepts are exactly the values that conform
  to its request schema read declaratively, whatever else they hold, and the results it may answer with
  are exactly the values that conform to its response schema and hold nothing else.\<close>

theorem commands_validate:
  assumes "has_command n (register_all_commands hs [])"
  shows "\<exists>req resp. (n, req, resp) \<in> set command_schemas \<and>
    (\<forall>v. is_valid (validate_json_with_schema (register_all_commands hs []) n v True) \<longleftrightarrow> conforms True v req) \<and>
    (\<forall>v. is_valid (validate_json_with_schema (register_all_commands hs []) n v False) \<longleftrightarrow> conforms False v resp)"
proof -
  obtain b where b: "map_of (register_all_commands hs []) n = Some b"
    using assms by (auto simp: has_command_def)
  from command_lookup [OF b] obtain req resp where
    rq: "request_validator b = Some (\<lambda>p. validate_schema p req True [])" "response_validator b = Some (\<lambda>p. validate_schema p resp False [])"
      "(n, req, resp) \<in> set command_schemas" "schema_named req" "schema_named resp"
    by blast
  then show ?thesis
    by (intro exI [of _ req] exI [of _ resp]) (simp add: validate_json_with_schema_def b validate_conforms)
qed

theorem commands_validate_witness:
  "\<exists>req resp. (''getJcl'', req, resp) \<in> set command_schemas \<and>
    (\<forall>v. is_valid (validate_json_with_schema (register_all_commands (\<lambda>_ c. (Returned 0, c :: unit ctx)) []) ''getJcl'' v True) \<longleftrightarrow> conforms True v req)"
proof -
  have "has_command ''getJcl'' (register_all_commands (\<lambda>_ c. (Returned 0, c :: unit ctx)) [])"
    unfolding has_command_def register_all map_of_eq_None_iff set_map [symmetric] all_command_names by simp
  from commands_validate [OF this] show ?thesis
    by blast
qed

section \<open>The mode of a file over RPC\<close>

definition chmod_message :: string where
  "chmod_message = ''Error: invalid mode provided.''"

definition chmod_detail :: string where
  "chmod_detail = ''Examples of valid modes: 777, 0644'' @ [newline]"

lemma chmod_row: "map_of (all_commands hs) ''chmodFile'' =
    Some (chain [validate ChmodFileRequest_schema ChmodFileResponse_schema] (create_uss_builder (hs ''uss::handle_uss_chmod'')))"
  by (simp add: all_commands_def command_tables)

lemma chmod_builder:
  "handler (chain [validate ChmodFileRequest_schema ChmodFileResponse_schema] (create_uss_builder h)) = Some h"
  "transforms (chain [validate ChmodFileRequest_schema ChmodFileResponse_schema] (create_uss_builder h)) =
     [(blank_transform RenameArg ''fspath'')\<lparr>renamed_to := ''file-path''\<rparr>]"
  by (simp_all add: builder_defs)

lemma split_message: "newline \<notin> set t \<Longrightarrow> process_error_output (t @ newline # d) = (t, d)"
proof -
  assume "newline \<notin> set t"
  then have "takeWhile (\<lambda>c. c \<noteq> newline) (t @ newline # d) = t" "dropWhile (\<lambda>c. c \<noteq> newline) (t @ newline # d) = newline # d"
    by (induction t) auto
  then show ?thesis
    by (simp add: process_error_output_def)
qed

text \<open>C19: Changing a mode over RPC never works.  The request schema asks for the mode as a string, so
  every admitted request with a non-empty mode reaches the handler with a string argument, which the
  handler, reading an integer, takes for an invalid mode: the answer is always that error, and the
  file is not touched.\<close>

theorem chmod_over_rpc_refused:
  assumes "hs ''uss::handle_uss_chmod'' = handle_uss_chmod z"
    and "from_str_request e s = Ok r" "rmethod r = ''chmodFile''" "params r = Some (JObject obj)"
    and "is_valid (validate_json_with_schema (register_all_commands hs []) ''chmodFile'' (JObject obj) True)"
    and "keys_ok obj" "list_all (camel_case \<circ> fst) obj" "map_of obj ''mode'' \<noteq> Some (JString [])"
    and "response_text e (error_response (request_nr r) RTNCD_FAILURE chmod_message (Some chmod_detail)) = Ok txt"
  shows "process_request e (register_all_commands hs []) s w = ([Stderr txt], w, None)"
proof -
  let ?d = "register_all_commands hs []"
  define b where "b = chain [validate ChmodFileRequest_schema ChmodFileResponse_schema] (create_uss_builder (hs ''uss::handle_uss_chmod''))"
  have row: "map_of ?d ''chmodFile'' = Some b"
    by (simp only: register_all chmod_row b_def)
  have b: "handler b = Some (handle_uss_chmod z)" "transforms b = [(blank_transform RenameArg ''fspath'')\<lparr>renamed_to := ''file-path''\<rparr>]"
    "request_validator b = Some (\<lambda>p. validate_schema p ChmodFileRequest_schema True [])"
    unfolding b_def chmod_builder assms(1) by (simp_all add: builder_defs)
  have "schema_named ChmodFileRequest_schema"
    by (simp add: schema_named_def ChmodFileRequest_schema_def field_macros)
  then have "conforms True (JObject obj) ChmodFileRequest_schema"
    using assms(5) by (simp add: validate_json_with_schema_def row b validate_conforms)
  then obtain md where md: "map_of obj ''mode'' = Some (JString md)" "md \<noteq> []"
    using assms(8) by (auto simp: conforms_def conforms_with_def ChmodFileRequest_schema_def field_macros field_ok_def
        check_type_def is_string_def split: option.splits jvalue.splits)
  have kebab: "camel_case_to_kebab_case ''mode'' = ''mode''" "camel_case ''mode''"
    "camel_case_to_kebab_case ''fspath'' = ''fspath''"
    by code_simp+
  obtain m where m: "convert_json_params_to_argument_map e (JObject obj) = Ok m" "map_of m ''mode'' = Some (mk_arg (VString md))"
    using convert_loop_lookup [OF assms(6,7) kebab(2), of e "[]"] md
    by (simp add: convert_json_params_to_argument_map_def kebab param_argument_def scalar_argument_def)
  have admitted: "admit e ?d r = Admitted m"
    using assms(3-5) m(1) row by (simp add: admit_def has_command_def)
  define c where "c = apply_input_transforms e b (new_ctx ''chmodFile'' m w)"
  have c: "map_of (args c) ''mode'' = Some (mk_arg (VString md))" "error_stream c = []" "world c = w" "emitted c = []"
    "object_node c = None"
    using m(2) by (simp_all add: c_def apply_input_transforms_def b apply_input_transform_def blank_transform_def
        apply_rename_def kebab update_args_def new_ctx_def Let_def map_of_update map_of_delete split: option.split)
  have "arg_int ''mode'' 0 c = 0" "arg_string ''mode'' [] c = md"
    by (simp_all add: arg_int_def arg_string_def io_get_default_def io_get_if_def c(1) arg_get_int_def arg_get_string_def mk_arg_def)
  then have h: "handle_uss_chmod z c = invalid_mode c"
    using md(2) by (simp add: handle_uss_chmod_def)
  define c' where "c' = apply_output_transforms e b (snd (invalid_mode c))"
  have run: "dispatch e ?d (rmethod r) (new_ctx (rmethod r) m w) = (RTNCD_FAILURE, c')"
    by (simp add: assms(3) dispatch_def row b c_def [symmetric, unfolded assms(3)] h c'_def)
      (simp add: invalid_mode_def)
  have c': "error_stream c' = chmod_message @ newline # chmod_detail" "world c' = w" "emitted c' = []"
    by (simp_all add: c'_def apply_output_transforms_def b invalid_mode_def err_line_def c
        apply_output_transform_def blank_transform_def set_object_def chmod_message_def chmod_detail_def)
  have "newline \<notin> set chmod_message"
    by code_simp
  then have "process_error_output (error_stream c') = (chmod_message, chmod_detail)"
    by (simp add: c' split_message)
  moreover have "chmod_message \<noteq> []" "chmod_detail \<noteq> []"
    by (simp_all add: chmod_message_def chmod_detail_def)
  ultimately have "respond e ?d r RTNCD_FAILURE c' = Ok [Stderr txt]"
    using assms(9) by (simp add: respond_def RTNCD_FAILURE_def get_error_content_def print_error_eq)
  from process_admitted [OF assms(2) admitted run this] show ?thesis
    by (simp add: c')
qed

definition chmod_request :: rpc_request where
  "chmod_request = \<lparr>jsonrpc = ''2.0'', rmethod = ''chmodFile'',
     params = Some (JObject [(''mode'', JString ''755''), (''fspath'', JString ''/u/a'')]), request_nr = 3\<rparr>"

definition chmod_env :: "unit env" where
  "chmod_env = \<lparr>env_from_str = (\<lambda>s. request_to_json example_fp chmod_request), env_to_string = (\<lambda>v. Ok ''{}''),
     env_fp = example_fp, env_tmpdir = None, env_geteuid = 1, env_getpid = 2,
     env_unlink = (\<lambda>p w. (0, w)), env_mkfifo = (\<lambda>p m w. (0, w)), env_ENOENT = 129\<rparr>"

definition willing_zusf :: "unit zusf" where
  "willing_zusf = \<lparr>zusf_create = (\<lambda>p m r w. (0, [], w)), zusf_move = (\<lambda>p q f w. (0, [], w)),
     zusf_chmod = (\<lambda>p m r w. (0, [], w)), zusf_chown = (\<lambda>p o' r w. (0, [], w)), zusf_chtag = (\<lambda>p t r w. (0, [], w))\<rparr>"

theorem chmod_over_rpc_refused_witness:
  "process_request chmod_env (register_all_commands (\<lambda>n. if n = ''uss::handle_uss_chmod'' then handle_uss_chmod willing_zusf
     else (\<lambda>c. (Returned 0, c))) []) ''x'' () = ([Stderr ''{}''], (), None)"
proof (rule chmod_over_rpc_refused [where z = willing_zusf and r = chmod_request and obj = "[(''mode'', JString ''755''), (''fspath'', JString ''/u/a'')]"])
  show "from_str_request chmod_env ''x'' = Ok chmod_request"
    using request_back [of chmod_request example_fp]
    by (simp add: from_str_request_def chmod_env_def chmod_request_def int_ok_def not_null_def)
  show "is_valid (validate_json_with_schema (register_all_commands (\<lambda>n. if n = ''uss::handle_uss_chmod'' then handle_uss_chmod willing_zusf
     else (\<lambda>c. (Returned 0, c))) []) ''chmodFile'' (JObject [(''mode'', JString ''755''), (''fspath'', JString ''/u/a'')]) True)"
    unfolding register_all validate_json_with_schema_def chmod_row
    by (simp add: builder_defs validate_conforms schema_named_def conforms_def conforms_with_def ChmodFileRequest_schema_def
        field_macros field_ok_def nested_ok_def check_type_def is_string_def)
  show "list_all (camel_case \<circ> fst) [(''mode'', JString ''755''), (''fspath'', JString ''/u/a'')]"
    by code_simp
  show "response_text chmod_env (error_response (request_nr chmod_request) RTNCD_FAILURE chmod_message (Some chmod_detail)) = Ok ''{}''"
    by (simp add: response_text_def serialize_json_def chmod_env_def)
qed (simp_all add: chmod_request_def keys_ok_def)

end
