(* ===== verification/ZutProcess.thy ===== *)
theory ZutProcess
  imports Zut "HOL-Library.Multiset"
begin

text \<open>
  The utilities around the system (\<open>zut.cpp\<close>): running a program with captured output, the
  environment a child gets, dynamic allocation, code page conversion and the queries of z/OS
  services.  What the system answers is an argument.
\<close>

section \<open>Diagnostics\<close>

text \<open>\<open>ZDIAG\<close>.  The message is what \<open>sprintf\<close> writes; the field has room for 255 characters and the
  terminating NUL, a longer text runs past its end.\<close>

record zdiag =
  detail_rc :: int
  service_rc :: int
  service_rsn :: int
  service_name :: string
  diag_msg :: string
  diag_msg_len :: int

definition blank_diag :: zdiag where
  "blank_diag = \<lparr>detail_rc = 0, service_rc = 0, service_rsn = 0, service_name = [], diag_msg = [], diag_msg_len = 0\<rparr>"

definition set_msg :: "string \<Rightarrow> zdiag \<Rightarrow> zdiag" where
  "set_msg s d = d\<lparr>diag_msg := s, diag_msg_len := int (length s)\<rparr>"

definition msg_fits :: "zdiag \<Rightarrow> bool" where
  "msg_fits d \<longleftrightarrow> length (diag_msg d) < 256"

definition in_quotes :: "string \<Rightarrow> string" where
  "in_quotes s = [CHR 0x27] @ s @ [CHR 0x27]"

section \<open>Capturing output\<close>

datatype read_answer = ReadBytes string | ReadEof | ReadInterrupted | ReadFailed

datatype fd_event = NoEvent | Readable read_answer | HungUp

datatype poll_answer = PollInterrupted | PollFailed | Polled fd_event fd_event

text \<open>The descriptor is open or not; the last component tells whether the child was killed.\<close>

definition drain_fd :: "fd_event \<Rightarrow> bool \<times> string \<times> bool \<Rightarrow> bool \<times> string \<times> bool" where
  "drain_fd ev s = (case s of (is_open, output, killed) \<Rightarrow>
     if \<not> is_open then s
     else (case ev of
       NoEvent \<Rightarrow> s
     | HungUp \<Rightarrow> (False, output, killed)
     | Readable (ReadBytes bs) \<Rightarrow> (True, output @ bs, killed)
     | Readable ReadEof \<Rightarrow> (False, output, killed)
     | Readable ReadInterrupted \<Rightarrow> s
     | Readable ReadFailed \<Rightarrow> (False, output, True)))"

text \<open>The loop takes the answers of \<open>poll\<close> and \<open>read\<close> from a list; \<open>None\<close> when it still waits at the
  end of the list.\<close>

fun drain_pipes :: "poll_answer list \<Rightarrow> bool \<Rightarrow> string \<Rightarrow> bool \<Rightarrow> string \<Rightarrow> bool \<Rightarrow> (string \<times> string \<times> bool) option" where
  "drain_pipes ps o1 out o2 err killed =
     (if \<not> o1 \<and> \<not> o2 then Some (out, err, killed)
      else (case ps of
        [] \<Rightarrow> None
      | PollInterrupted # ps \<Rightarrow> drain_pipes ps o1 out o2 err killed
      | PollFailed # ps \<Rightarrow> Some (out, err, True)
      | Polled e1 e2 # ps \<Rightarrow>
          (case drain_fd e1 (o1, out, killed) of (o1, out, killed) \<Rightarrow>
             (case drain_fd e2 (o2, err, killed) of (o2, err, killed) \<Rightarrow> drain_pipes ps o1 out o2 err killed))))"

declare drain_pipes.simps [simp del]

section \<open>The environment of the child\<close>

definition ZUT_NOSHAREAS_COMMANDS :: "string list" where
  "ZUT_NOSHAREAS_COMMANDS = [''newgrp'', ''su'', ''sg'']"

definition is_blank_char :: "char \<Rightarrow> bool" where
  "is_blank_char c \<longleftrightarrow> c = CHR '' '' \<or> c = char_of (9::nat) \<or> c = newline"

function blank_words :: "string \<Rightarrow> string list" where
  "blank_words s = (case dropWhile is_blank_char s of [] \<Rightarrow> []
     | c # cs \<Rightarrow> (c # takeWhile (\<lambda>d. \<not> is_blank_char d) cs) # blank_words (dropWhile (\<lambda>d. \<not> is_blank_char d) cs))"
  by pat_completeness auto
termination
proof (relation "measure length", goal_cases)
  case (2 s c cs)
  have "length (dropWhile (\<lambda>d. \<not> is_blank_char d) cs) < length (c # cs)"
    by (simp add: le_imp_less_Suc length_dropWhile_le)
  also have "\<dots> \<le> length s"
    unfolding 2 [symmetric] by (rule length_dropWhile_le)
  finally show ?case
    by simp
qed simp

declare blank_words.simps [simp del]

definition basename :: "string \<Rightarrow> string" where
  "basename t = rev (takeWhile (\<lambda>c. c \<noteq> CHR ''/'') (rev t))"

fun first_command_in :: "string list \<Rightarrow> string list \<Rightarrow> bool" where
  "first_command_in cmds [] = False"
| "first_command_in cmds (t # ts) = (if CHR ''='' \<in> set t \<and> hd t \<noteq> CHR ''='' then first_command_in cmds ts
     else basename t \<in> set cmds)"

definition command_requires_noshareas :: "string \<Rightarrow> bool" where
  "command_requires_noshareas cmd = first_command_in ZUT_NOSHAREAS_COMMANDS (blank_words cmd)"

definition is_shareas :: "string \<Rightarrow> bool" where
  "is_shareas s \<longleftrightarrow> take 13 s = ''_BPX_SHAREAS=''"

definition build_env :: "string list \<Rightarrow> string \<Rightarrow> string list" where
  "build_env environ cmd = (let noshareas = command_requires_noshareas cmd in
     filter (\<lambda>s. \<not> (noshareas \<and> is_shareas s)) environ @
     (if \<not> noshareas \<and> \<not> list_ex is_shareas environ then [''_BPX_SHAREAS=YES''] else []))"

text \<open>\<open>/bin/sh\<close> if it can be executed, otherwise \<open>$SHELL\<close> when it is set and not empty.\<close>

definition get_shell :: "bool \<Rightarrow> string option \<Rightarrow> string" where
  "get_shell sh_usable env_shell = (if sh_usable then ''/bin/sh''
     else (case env_shell of Some s \<Rightarrow> if s \<noteq> [] then s else ''/bin/sh'' | None \<Rightarrow> ''/bin/sh''))"

section \<open>Running a program\<close>

datatype spawn_answer = Spawned | SpawnNotFound | SpawnDenied | SpawnError string

datatype wait_answer = WaitFailed | Exited int | Signalled

record run_answers =
  ans_pipe1 :: "(nat \<times> nat) option"
  ans_pipe2 :: "(nat \<times> nat) option"
  ans_null :: "nat option"
  ans_spawn :: spawn_answer
  ans_polls :: "poll_answer list"
  ans_wait :: wait_answer

text \<open>The outcome: the return code, the two responses, the open descriptors and, when a child was
  started, its arguments and environment.\<close>

record run_result =
  run_rc :: int
  stdout_response :: string
  stderr_response :: string
  open_fds :: "nat list"
  launched :: "(string list \<times> string list) option"

definition close_fd :: "nat \<Rightarrow> nat list \<Rightarrow> nat list" where
  "close_fd fd fds = remove1 fd fds"

definition close_all :: "nat list \<Rightarrow> nat list \<Rightarrow> nat list" where
  "close_all cs fds = fold close_fd cs fds"

definition run_failure :: "string \<Rightarrow> string \<Rightarrow> nat list \<Rightarrow> run_result" where
  "run_failure out err fds = \<lparr>run_rc = RTNCD_FAILURE, stdout_response = out, stderr_response = err, open_fds = fds, launched = None\<rparr>"

definition reported :: "bool \<Rightarrow> string \<Rightarrow> nat list \<Rightarrow> run_result" where
  "reported merge_streams msg fds = (if merge_streams then run_failure msg [] fds else run_failure [] msg fds)"

definition spawn_message :: "spawn_answer \<Rightarrow> string \<Rightarrow> string" where
  "spawn_message a program = (case a of
     SpawnNotFound \<Rightarrow> ''zut_private_run_program: '' @ program @ '': command not found''
   | SpawnDenied \<Rightarrow> ''zut_private_run_program: Permission denied when trying to execute '' @ in_quotes program @ ''.''
   | SpawnError e \<Rightarrow> ''zut_private_run_program: error running '' @ program @ '': '' @ e
   | Spawned \<Rightarrow> [])"

definition exit_code_of :: "wait_answer \<Rightarrow> int" where
  "exit_code_of a = (case a of Exited n \<Rightarrow> n | _ \<Rightarrow> RTNCD_FAILURE)"

definition zut_private_run_program :: "run_answers \<Rightarrow> string list \<Rightarrow> string \<Rightarrow> string list \<Rightarrow> bool \<Rightarrow> nat list \<Rightarrow> run_result option" where
  "zut_private_run_program a environ program as merge_streams fds =
     (if program = [] then Some (reported merge_streams ''Error: You must specify a program to run.'' fds)
      else (case ans_pipe1 a of
        None \<Rightarrow> Some (run_failure [] [] fds)
      | Some (r1, w1) \<Rightarrow>
      (let fds = r1 # w1 # fds in case ans_pipe2 a of
        None \<Rightarrow> Some (run_failure [] [] (close_all [r1, w1] fds))
      | Some (r2, w2) \<Rightarrow>
      (let fds = r2 # w2 # fds in case ans_null a of
        None \<Rightarrow> Some (run_failure [] [] (close_all [r1, w1, r2, w2] fds))
      | Some null_fd \<Rightarrow>
      (let fds = null_fd # fds; argv = program # as; envv = build_env environ program; fds = close_fd null_fd fds in
       if ans_spawn a \<noteq> Spawned then
         Some (reported merge_streams (spawn_message (ans_spawn a) program) (close_all [r1, w1, r2, w2] fds))
       else (case drain_pipes (ans_polls a) True [] (\<not> merge_streams) [] False of
         None \<Rightarrow> None
       | Some (out, err, killed) \<Rightarrow>
           Some \<lparr>run_rc = exit_code_of (ans_wait a), stdout_response = zut_strip_final_newline out,
             stderr_response = zut_strip_final_newline err,
             open_fds = close_all [w1, w2, r1, r2] fds, launched = Some (argv, envv)\<rparr>))))))"

definition zut_run_program :: "run_answers \<Rightarrow> string list \<Rightarrow> string \<Rightarrow> string list \<Rightarrow> nat list \<Rightarrow> run_result option" where
  "zut_run_program a environ program as fds = zut_private_run_program a environ program as False fds"

definition zut_run_program_merged :: "run_answers \<Rightarrow> string list \<Rightarrow> string \<Rightarrow> string list \<Rightarrow> nat list \<Rightarrow> run_result option" where
  "zut_run_program_merged a environ program as fds = zut_private_run_program a environ program as True fds"

definition zut_spawn_shell_command :: "run_answers \<Rightarrow> string list \<Rightarrow> bool \<Rightarrow> string option \<Rightarrow> string \<Rightarrow> nat list \<Rightarrow> run_result option" where
  "zut_spawn_shell_command a environ sh_usable env_shell cmd fds =
     (if cmd = [] then Some (run_failure [] ''Error: You must specify a program to run.'' fds)
      else zut_private_run_program a environ (get_shell sh_usable env_shell) [''-c'', cmd] False fds)"

section \<open>What running a program keeps\<close>

lemma mset_close_all: "mset (close_all cs fds) = mset fds - mset cs"
  by (induction cs arbitrary: fds) (simp_all add: close_all_def close_fd_def)

text \<open>However a run ends - no program, no descriptors, a failed start, a killed child or a normal exit - it
  closes every descriptor it opened and no other: those open afterwards are those open before.\<close>

theorem run_closes_descriptors:
  assumes "zut_private_run_program a environ program as merge_streams fds = Some r"
  shows "mset (open_fds r) = mset fds"
proof -
  note simps = zut_private_run_program_def run_failure_def reported_def Let_def mset_close_all close_fd_def
  show ?thesis
  proof (cases "program = []")
    case True
    then show ?thesis
      using assms by (auto simp: simps)
  next
    case False
    show ?thesis
    proof (cases "ans_pipe1 a")
      case None
      then show ?thesis
        using assms False by (auto simp: simps)
    next
      case p1: (Some p1)
      show ?thesis
      proof (cases "ans_pipe2 a")
        case None
        then show ?thesis
          using assms False p1 by (auto simp: simps split: prod.splits)
      next
        case p2: (Some p2)
        obtain r1 w1 r2 w2 where p: "p1 = (r1, w1)" "p2 = (r2, w2)"
          by (cases p1; cases p2)
        show ?thesis
          using assms False p1 p2 unfolding p
          by (cases "ans_null a"; cases "ans_spawn a = Spawned") (auto simp: simps split: option.splits)
      qed
    qed
  qed
qed

fun received :: "fd_event list \<Rightarrow> string" where
  "received [] = []"
| "received (Readable (ReadBytes bs) # es) = bs @ received es"
| "received (NoEvent # es) = received es"
| "received (Readable ReadInterrupted # es) = received es"
| "received (e # es) = []"

fun events :: "bool \<Rightarrow> poll_answer list \<Rightarrow> fd_event list" where
  "events first [] = []"
| "events first (Polled e1 e2 # ps) = (if first then e1 else e2) # events first ps"
| "events first (p # ps) = events first ps"

lemma drain_fd_received:
  "drain_fd e (opened, out, killed) = (opened', out', False) \<Longrightarrow>
    out' @ (if opened' then received es else []) = out @ (if opened then received (e # es) else []) \<and> \<not> killed"
  by (auto simp: drain_fd_def split: if_splits fd_event.splits read_answer.splits)

lemma drain_fd_killed: "drain_fd e (opened, out, True) = (opened', out', killed') \<Longrightarrow> killed'"
  by (auto simp: drain_fd_def split: if_splits fd_event.splits read_answer.splits)

lemma drain_pipes_received:
  "drain_pipes ps o1 out o2 err killed = Some (out', err', False) \<Longrightarrow>
    out' = out @ (if o1 then received (events True ps) else []) \<and>
    err' = err @ (if o2 then received (events False ps) else []) \<and> \<not> killed"
proof (induction ps arbitrary: o1 out o2 err killed)
  case Nil
  then show ?case
    by (auto simp: drain_pipes.simps [of "[]"] split: if_splits)
next
  case (Cons p ps)
  show ?case
  proof (cases "\<not> o1 \<and> \<not> o2")
    case True
    with Cons.prems show ?thesis
      by (simp add: drain_pipes.simps [of "p # ps"])
  next
    case False
    show ?thesis
    proof (cases p)
      case (Polled e1 e2)
      obtain o1' out1 k1 where d1: "drain_fd e1 (o1, out, killed) = (o1', out1, k1)"
        by (metis prod_cases3)
      obtain o2' err1 k2 where d2: "drain_fd e2 (o2, err, k1) = (o2', err1, k2)"
        by (metis prod_cases3)
      have rest: "drain_pipes ps o1' out1 o2' err1 k2 = Some (out', err', False)"
        using Cons.prems False by (simp add: drain_pipes.simps [of "Polled e1 e2 # ps"] Polled d1 d2)
      from Cons.IH [OF rest] have IH: "out' = out1 @ (if o1' then received (events True ps) else [])"
        "err' = err1 @ (if o2' then received (events False ps) else [])" "\<not> k2"
        by auto
      moreover have "\<not> k1"
        using d2 drain_fd_killed IH(3) by metis
      ultimately show ?thesis
        using d1 d2 drain_fd_received [of e1 o1 out killed o1' out1 "events True ps"]
          drain_fd_received [of e2 o2 err k1 o2' err1 "events False ps"] by (simp add: Polled)
    next
      case PollInterrupted
      have "drain_pipes ps o1 out o2 err killed = Some (out', err', False)"
        using Cons.prems False by (simp add: drain_pipes.simps [of "PollInterrupted # ps"] PollInterrupted)
      from Cons.IH [OF this] show ?thesis
        by (simp add: PollInterrupted)
    qed (use Cons.prems False in \<open>simp add: drain_pipes.simps [of "PollFailed # ps"]\<close>)
  qed
qed

text \<open>When the child was not killed, the captured output is exactly what arrived on the pipe up to its end,
  in order and without what a single final newline adds, and the same for the error stream.\<close>

theorem output_is_captured:
  assumes "zut_run_program a environ program as fds = Some r" "launched r \<noteq> None"
    and "drain_pipes (ans_polls a) True [] True [] False = Some (out, err, False)"
  shows "stdout_response r = zut_strip_final_newline (received (events True (ans_polls a))) \<and>
    stderr_response r = zut_strip_final_newline (received (events False (ans_polls a))) \<and>
    run_rc r = exit_code_of (ans_wait a)"
proof -
  have "out = received (events True (ans_polls a))" "err = received (events False (ans_polls a))"
    using drain_pipes_received [OF assms(3)] by auto
  then show ?thesis
    using assms
    by (auto simp: zut_run_program_def zut_private_run_program_def reported_def run_failure_def Let_def
        split: if_splits option.splits prod.splits)
qed

section \<open>Address spaces\<close>

lemma build_env_shareas: "list_ex is_shareas (build_env environ cmd) \<longleftrightarrow> \<not> command_requires_noshareas cmd"
proof -
  have "is_shareas ''_BPX_SHAREAS=YES''"
    by (simp add: is_shareas_def)
  then show ?thesis
    by (auto simp: build_env_def Let_def list_ex_iff)
qed

lemma requires_noshareas_examples:
  "command_requires_noshareas ''su''" "command_requires_noshareas ''LANG=C /bin/newgrp SYS1''"
  "\<not> command_requires_noshareas ''/bin/sh''" "\<not> command_requires_noshareas ''issue su''"
  by code_simp+

text \<open>The rule that a command which changes the identity of its process (\<open>su\<close>, \<open>sg\<close>, \<open>newgrp\<close>) must not get
  \<open>_BPX_SHAREAS\<close> holds for a program that is run directly, but never for a command given to the
  shell: there the rule looks at \<open>/bin/sh\<close>, so the child has the variable whatever the command is.\<close>

theorem shell_commands_share_address_space:
  assumes "zut_spawn_shell_command a environ True env_shell cmd fds = Some r" "launched r = Some (argv, envv)"
  shows "argv = [''/bin/sh'', ''-c'', cmd] \<and> list_ex is_shareas envv \<and> \<not> list_ex is_shareas (build_env environ ''su'')"
proof -
  have "argv = [''/bin/sh'', ''-c'', cmd]" "envv = build_env environ ''/bin/sh''"
    using assms by (auto simp: zut_spawn_shell_command_def zut_private_run_program_def get_shell_def reported_def run_failure_def
        Let_def split: if_splits option.splits prod.splits)
  then show ?thesis
    using requires_noshareas_examples by (simp add: build_env_shareas)
qed

definition demo_answers :: run_answers where
  "demo_answers = \<lparr>ans_pipe1 = Some (3, 4), ans_pipe2 = Some (5, 6), ans_null = Some 7, ans_spawn = Spawned,
     ans_polls = [PollInterrupted, Polled (Readable (ReadBytes ''ab'')) NoEvent,
       Polled (Readable (ReadBytes ''c'')) (Readable (ReadBytes ''!'')), Polled (Readable ReadEof) HungUp],
     ans_wait = Exited 2\<rparr>"

definition demo_run :: run_result where
  "demo_run = \<lparr>run_rc = 2, stdout_response = ''abc'', stderr_response = ''!'', open_fds = [0, 1, 2],
     launched = Some ([''ls'', ''-l''], [''A=1'', ''_BPX_SHAREAS=YES''])\<rparr>"

lemma demo_drained: "drain_pipes (ans_polls demo_answers) True [] True [] False = Some (''abc'', ''!'', False)"
  by code_simp

lemma demo_runs: "zut_run_program demo_answers [''A=1''] ''ls'' [''-l''] [0, 1, 2] = Some demo_run"
  by code_simp

theorem run_closes_descriptors_witness: "mset (open_fds demo_run) = mset [0, 1, 2]"
  using run_closes_descriptors [OF demo_runs [unfolded zut_run_program_def]] .

theorem output_is_captured_witness:
  "stdout_response demo_run = zut_strip_final_newline (received (events True (ans_polls demo_answers)))"
  using output_is_captured [OF demo_runs _ demo_drained] by (simp add: demo_run_def)

theorem shell_commands_share_address_space_witness:
  "case zut_spawn_shell_command demo_answers [''A=1''] True None ''su'' [0] of
     Some r \<Rightarrow> (case launched r of Some p \<Rightarrow> list_ex is_shareas (snd p) | None \<Rightarrow> False) | None \<Rightarrow> False"
proof -
  obtain r where r: "zut_spawn_shell_command demo_answers [''A=1''] True None ''su'' [0] = Some r"
    "launched r = Some ([''/bin/sh'', ''-c'', ''su''], build_env [''A=1''] ''/bin/sh'')"
    using demo_drained
    by (simp add: zut_spawn_shell_command_def zut_private_run_program_def get_shell_def demo_answers_def Let_def)
  from shell_commands_share_address_space [OF r] show ?thesis
    by (simp add: r)
qed

end
