(* ===== verification/Posix.thy ===== *)
theory Posix
  imports ZutProcess
begin

text \<open>
  The interface of the file system that the USS operations (\<open>zusf.cpp\<close>) call: the state of the
  system is a value \<open>'w\<close>, a call takes it and gives its answer and the new state.  A path is passed as
  the C string that \<open>c_str\<close> gives.  The law of the calls that the deletion and listing of a tree rely on is
  a locale, with a system that keeps a map from paths to kinds as an instance.
\<close>

section \<open>The calls\<close>

datatype file_type = FtRegular | FtDirectory | FtLink | FtFifo | FtSocket | FtCharacter | FtOther

record stat_info =
  st_type :: file_type
  st_mode :: u32
  st_nlink :: int
  st_uid :: u32
  st_gid :: u32
  st_size :: "64 word"
  st_mtime :: "64 word"
  st_ccsid :: "16 word"
  st_txtflag :: bool

text \<open>An error is the \<open>errno\<close>.  A call that only changes the state answers 0 or its \<open>errno\<close>.  Opening a directory
  and reading its entries is one call, which answers all names.  A file is read whole; it is written by
  opening it, which creates or empties it, by appending, which answers how many bytes were taken, and
  by flushing what is buffered.  Opening a named pipe may fail, before or after there is a descriptor, or
  gives what can be read from it up to its end.  A program is run by \<open>zut_run_program\<close>.\<close>

datatype fifo_open = FifoFailed int | FifoNoStream | FifoOpened string

record 'w posix =
  px_stat :: "string \<Rightarrow> 'w \<Rightarrow> int + stat_info"
  px_lstat :: "string \<Rightarrow> 'w \<Rightarrow> int + stat_info"
  px_realpath :: "string \<Rightarrow> 'w \<Rightarrow> int + string"
  px_list :: "string \<Rightarrow> 'w \<Rightarrow> string list option"
  px_chmod :: "string \<Rightarrow> u32 \<Rightarrow> 'w \<Rightarrow> int \<times> 'w"
  px_chown :: "string \<Rightarrow> u32 \<Rightarrow> u32 \<Rightarrow> 'w \<Rightarrow> int \<times> 'w"
  px_tag :: "string \<Rightarrow> 16 word \<times> bool \<Rightarrow> 'w \<Rightarrow> int \<times> 'w"
  px_mkdir :: "string \<Rightarrow> u32 \<Rightarrow> 'w \<Rightarrow> int \<times> 'w"
  px_rmdir :: "string \<Rightarrow> 'w \<Rightarrow> int \<times> 'w"
  px_remove :: "string \<Rightarrow> 'w \<Rightarrow> int \<times> 'w"
  px_create :: "string \<Rightarrow> 'w \<Rightarrow> bool \<times> 'w"
  px_run :: "string \<Rightarrow> string list \<Rightarrow> 'w \<Rightarrow> (int \<times> string \<times> string) \<times> 'w"
  px_read :: "string \<Rightarrow> 'w \<Rightarrow> string option"
  px_append :: "string \<Rightarrow> string \<Rightarrow> 'w \<Rightarrow> nat \<times> 'w"
  px_flush :: "string \<Rightarrow> 'w \<Rightarrow> int \<times> 'w"
  px_fifo :: "string \<Rightarrow> 'w \<Rightarrow> fifo_open"
  px_user_id :: "string \<Rightarrow> u32 option"
  px_group_id :: "string \<Rightarrow> u32 option"
  px_user_name :: "u32 \<Rightarrow> string option"
  px_group_name :: "u32 \<Rightarrow> string option"
  px_utc :: "64 word \<Rightarrow> string option"
  px_local :: "64 word \<Rightarrow> string option"

definition sys_stat :: "'w posix \<Rightarrow> string \<Rightarrow> 'w \<Rightarrow> int + stat_info" where
  "sys_stat px file = px_stat px (c_string file)"

definition sys_lstat :: "'w posix \<Rightarrow> string \<Rightarrow> 'w \<Rightarrow> int + stat_info" where
  "sys_lstat px file = px_lstat px (c_string file)"

definition is_dir :: "stat_info \<Rightarrow> bool" where
  "is_dir st \<longleftrightarrow> st_type st = FtDirectory"

text \<open>What \<open>opendir\<close> and \<open>readdir\<close> give, without the two names every directory has.\<close>

definition sys_children :: "'w posix \<Rightarrow> string \<Rightarrow> 'w \<Rightarrow> string list option" where
  "sys_children px dir w = (case px_list px (c_string dir) w of
     None \<Rightarrow> None | Some names \<Rightarrow> Some (filter (\<lambda>n. n \<noteq> ''.'' \<and> n \<noteq> ''..'') names))"

section \<open>A loop that stops at the first failure\<close>

fun each :: "('a \<Rightarrow> 's \<Rightarrow> (int \<times> 's) option) \<Rightarrow> 'a list \<Rightarrow> 's \<Rightarrow> (int \<times> 's) option" where
  "each f [] s = Some (0, s)"
| "each f (x # xs) s = (case f x s of None \<Rightarrow> None
    | Some r \<Rightarrow> if fst r \<noteq> 0 then Some r else each f xs (snd r))"

lemma each_mono [partial_function_mono]:
  assumes "\<And>x s. mono_option (\<lambda>g. f g x s)"
  shows "mono_option (\<lambda>g. each (f g) xs s)"
proof (induction xs arbitrary: s)
  case Nil
  show ?case
    by (simp add: partial_function_mono)
next
  case (Cons x xs)
  have step: "mono_option (\<lambda>g. Option.bind (f g x s) (\<lambda>r. if fst r \<noteq> 0 then Some r else each (f g) xs (snd r)))"
    by (intro bind_mono assms if_mono option.const_mono) (rule Cons.IH)
  have "each (f g) (x # xs) s = Option.bind (f g x s) (\<lambda>r. if fst r \<noteq> 0 then Some r else each (f g) xs (snd r))" for g
    by (cases "f g x s") simp_all
  then show ?case
    using step by simp
qed

end
