(* ===== verification/Zusf.thy ===== *)
theory Zusf
  imports Posix Ccsid
begin

text \<open>
  The operations on USS files and directories (\<open>zusf.cpp\<close>): creating, moving, copying, deleting, and
  changing mode, owner and tag, each with every call of the system in the order of the code.  An
  operation that follows the directory tree may not end (the system may answer ever deeper names),
  so it is a partial function whose value is then \<open>None\<close>.
\<close>

section \<open>The request record\<close>

text \<open>\<open>ZUSF\<close>: the diagnostics, the encoding options, the e-tag, and whether a write created its file.\<close>

record zusf_rec =
  zu_diag :: zdiag
  zu_encoding :: zencode
  zu_etag :: string
  zu_created :: bool

definition blank_zusf :: zusf_rec where
  "blank_zusf = \<lparr>zu_diag = blank_diag, zu_encoding = \<lparr>codepage = [], source_codepage = [], data_type = eDataTypeText\<rparr>, zu_etag = [], zu_created = False\<rparr>"

definition zusf_fail :: "string \<Rightarrow> zusf_rec \<Rightarrow> 'w \<Rightarrow> int \<times> zusf_rec \<times> 'w" where
  "zusf_fail msg z w = (RTNCD_FAILURE, z\<lparr>zu_diag := set_msg msg (zu_diag z)\<rparr>, w)"

definition quoted_path :: "string \<Rightarrow> string" where
  "quoted_path s = in_quotes (c_string s)"

definition missing_path :: "string \<Rightarrow> string" where
  "missing_path file = ''Path '' @ quoted_path file @ '' does not exist''"

section \<open>Paths\<close>

definition zusf_join_path :: "string \<Rightarrow> string \<Rightarrow> string" where
  "zusf_join_path dir_path name = (if dir_path \<noteq> [] \<and> last dir_path = CHR ''/'' then dir_path @ name else dir_path @ ''/'' @ name)"

definition PATH_MAX :: nat where
  "PATH_MAX = 1024"

definition zusf_is_valid_path :: "string \<Rightarrow> bool" where
  "zusf_is_valid_path path \<longleftrightarrow> path \<noteq> [] \<and> length path \<le> PATH_MAX"

definition last_slash :: "string \<Rightarrow> nat option" where
  "last_slash s = (if CHR ''/'' \<in> set s then Some (length s - 1 - length (takeWhile (\<lambda>c. c \<noteq> CHR ''/'') (rev s))) else None)"

lemma last_slash_less: "last_slash s = Some i \<Longrightarrow> i < length s"
  by (cases "s = []") (auto simp: last_slash_def split: if_splits)

section \<open>Creating\<close>

function octal_digits :: "nat \<Rightarrow> string" where
  "octal_digits n = (if n < 8 then [char_of (48 + n)] else octal_digits (n div 8) @ [char_of (48 + n mod 8)])"
  by pat_completeness auto
termination
  by (relation "measure id") auto

declare octal_digits.simps [simp del]

definition show_octal8 :: "u32 \<Rightarrow> string" where
  "show_octal8 m = (let s = octal_digits (unat m) in replicate (8 - length s) (CHR ''0'') @ s)"

definition already_exists :: "string \<Rightarrow> stat_info \<Rightarrow> string" where
  "already_exists file st = (case st_type st of
     FtRegular \<Rightarrow> ''File '' @ quoted_path file @ '' already exists''
   | FtDirectory \<Rightarrow> ''Directory '' @ quoted_path file @ '' already exists''
   | _ \<Rightarrow> ''Path '' @ quoted_path file @ '' already exists! Mode: '' @ in_quotes (show_octal8 (st_mode st)))"

text \<open>\<open>mkdir\<close> and \<open>chmod\<close>, whatever \<open>mkdir\<close> answers.\<close>

definition make_dir :: "'w posix \<Rightarrow> string \<Rightarrow> u32 \<Rightarrow> zusf_rec \<Rightarrow> 'w \<Rightarrow> int \<times> zusf_rec \<times> 'w" where
  "make_dir px file mode z w = (case px_mkdir px (c_string file) mode w of (e, w) \<Rightarrow>
     let w' = snd (px_chmod px (c_string file) mode w) in
     if e \<noteq> 0 then zusf_fail (''Failed to create directory '' @ quoted_path file @ '', errno: '' @ show_int e) z w'
     else (0, z, w'))"

definition make_file :: "'w posix \<Rightarrow> string \<Rightarrow> u32 \<Rightarrow> zusf_rec \<Rightarrow> 'w \<Rightarrow> int \<times> zusf_rec \<times> 'w" where
  "make_file px file mode z w = (case px_create px (c_string file) w of (opened, w) \<Rightarrow>
     if opened then (RTNCD_SUCCESS, z, snd (px_chmod px (c_string file) mode w))
     else zusf_fail (''Could not create '' @ quoted_path file) z w)"

function zusf_create_uss_file_or_dir :: "'w posix \<Rightarrow> string \<Rightarrow> u32 \<Rightarrow> bool \<Rightarrow> zusf_rec \<Rightarrow> 'w \<Rightarrow> int \<times> zusf_rec \<times> 'w" where
  "zusf_create_uss_file_or_dir px file mode createDir z w = (case sys_stat px file w of
     Inr st \<Rightarrow> zusf_fail (already_exists file st) z w
   | Inl _ \<Rightarrow>
     if createDir then
       (case last_slash file of
          None \<Rightarrow> make_dir px file mode z w
        | Some i \<Rightarrow> (case sys_stat px (take i file) w of
            Inr _ \<Rightarrow> make_dir px file mode z w
          | Inl _ \<Rightarrow> (case zusf_create_uss_file_or_dir px (take i file) mode True z w of (rc, z, w) \<Rightarrow>
              if rc \<noteq> 0 then (rc, z, w) else make_dir px file mode z w)))
     else make_file px file mode z w)"
  by pat_completeness auto
termination
  by (relation "measure (\<lambda>(px, file, mode, d, z, w). length file)") (auto dest: last_slash_less)

declare zusf_create_uss_file_or_dir.simps [simp del]

section \<open>Moving and copying\<close>

definition shortened :: "string \<Rightarrow> string" where
  "shortened s = (if length s > 100 then ''...'' @ drop (length s - 100) s else s)"

definition no_paths :: string where
  "no_paths = ''Source or target path is empty or too long''"

definition identical_paths :: "string \<Rightarrow> string \<Rightarrow> string" where
  "identical_paths source target =
     ''Source '' @ quoted_path (shortened source) @ '' and target '' @ quoted_path (shortened target) @ '' are identical''"

text \<open>A path that exists is resolved; otherwise the buffer keeps what it had, an argument here.  The status
  is that of the target of a link, or of the link itself when its target does not exist.\<close>

definition resolve :: "'w posix \<Rightarrow> string \<Rightarrow> stat_info \<Rightarrow> string \<Rightarrow> 'w \<Rightarrow> int + string \<times> stat_info" where
  "resolve px path link_stats buffer w = (case sys_stat px path w of
     Inl _ \<Rightarrow> Inr (buffer, link_stats)
   | Inr st \<Rightarrow> (case px_realpath px (c_string path) w of Inl e \<Rightarrow> Inl e | Inr r \<Rightarrow> Inr (r, st)))"

definition run_mv :: "'w posix \<Rightarrow> string \<Rightarrow> string \<Rightarrow> zusf_rec \<Rightarrow> 'w \<Rightarrow> int \<times> zusf_rec \<times> 'w" where
  "run_mv px source target z w = (case px_run px ''mv'' [source, target] w of ((rc, out, err), w) \<Rightarrow>
     if rc \<noteq> 0 then zusf_fail (''Failed to move file or directory from '' @ quoted_path (shortened source) @ '' to '' @
       quoted_path (shortened target) @ '', errno: '' @ show_int rc) z w
     else (RTNCD_SUCCESS, z, w))"

definition zusf_move_uss_file_or_dir ::
  "'w posix \<Rightarrow> string \<times> string \<Rightarrow> string \<Rightarrow> string \<Rightarrow> bool \<Rightarrow> zusf_rec \<Rightarrow> 'w \<Rightarrow> int \<times> zusf_rec \<times> 'w" where
  "zusf_move_uss_file_or_dir px buffers source target force z w =
     (if \<not> zusf_is_valid_path source \<or> \<not> zusf_is_valid_path target then zusf_fail no_paths z w
      else (case sys_lstat px source w of
        Inl _ \<Rightarrow> zusf_fail (''Source path '' @ quoted_path (shortened source) @ '' does not exist'') z w
      | Inr link_stats \<Rightarrow>
        if c_string source = c_string target then zusf_fail (identical_paths source target) z w
        else (case resolve px source link_stats (fst buffers) w of
          Inl e \<Rightarrow> zusf_fail (''Failed to resolve source path '' @ quoted_path (shortened source) @ ''; errno: '' @ show_int e) z w
        | Inr (resolved_source, source_stats) \<Rightarrow> (case sys_lstat px target w of
            Inl _ \<Rightarrow> run_mv px source target z w
          | Inr target_link \<Rightarrow>
            if \<not> force then zusf_fail (''Target path '' @ quoted_path (shortened target) @ '' already exists'') z w
            else (case resolve px target target_link (snd buffers) w of
              Inl e \<Rightarrow> zusf_fail (''Failed to resolve target path '' @ quoted_path (shortened target) @ ''; errno: '' @ show_int e) z w
            | Inr (resolved_target, target_stats) \<Rightarrow>
              if c_string resolved_source = c_string resolved_target then zusf_fail (identical_paths source target) z w
              else if is_dir source_stats \<and> \<not> is_dir target_stats then
                zusf_fail (''Cannot move directory '' @ quoted_path (shortened source) @ ''. Target '' @
                  quoted_path (shortened target) @ '' is not a directory'') z w
              else if st_type source_stats = FtFifo \<and> st_type target_stats \<noteq> FtFifo then
                zusf_fail (''Cannot move pipe '' @ quoted_path (shortened source) @ ''. Target '' @
                  quoted_path (shortened target) @ '' is not a pipe'') z w
              else run_mv px source target z w)))))"

record copy_options =
  copy_recursive :: bool
  copy_follow_symlinks :: bool
  copy_preserve_attributes :: bool
  copy_force :: bool

definition is_fifo :: "'w posix \<Rightarrow> string \<Rightarrow> 'w \<Rightarrow> bool" where
  "is_fifo px path w = (case sys_stat px path w of Inl _ \<Rightarrow> False | Inr st \<Rightarrow> st_type st = FtFifo)"

definition cp_arguments :: "string \<Rightarrow> string \<Rightarrow> copy_options \<Rightarrow> string list" where
  "cp_arguments source target opts =
     (if copy_recursive opts then [''-R''] else []) @ (if copy_follow_symlinks opts then [''-L''] else []) @
     (if copy_preserve_attributes opts then [''-p''] else []) @ (if copy_force opts then [''-f''] else []) @ [source, target]"

definition zusf_copy_file_or_dir :: "'w posix \<Rightarrow> string \<Rightarrow> string \<Rightarrow> copy_options \<Rightarrow> zusf_rec \<Rightarrow> 'w \<Rightarrow> int \<times> zusf_rec \<times> 'w" where
  "zusf_copy_file_or_dir px source target opts z w =
     (if \<not> zusf_is_valid_path source \<or> \<not> zusf_is_valid_path target then zusf_fail no_paths z w
      else if copy_follow_symlinks opts \<and> \<not> copy_recursive opts then
        zusf_fail ''follow symlinks option requires setting the recursive flag'' z w
      else if is_fifo px source w then zusf_fail ''we do not support copying from named pipes'' z w
      else if is_fifo px target w then zusf_fail ''we do not support copying to named pipes'' z w
      else (case px_run px ''cp'' (cp_arguments source target opts) w of ((rc, out, err), w) \<Rightarrow>
        if rc > 0 then zusf_fail (''Failed to copy '' @ c_string source @ '' to '' @ c_string target @ '', errno: '' @ show_int rc @
          [newline] @ ''stderr: '' @ c_string err) z w
        else (rc, z, w)))"

section \<open>Mode\<close>

text \<open>The operations on a tree call themselves for every name of a directory, in a loop that stops at the
  first failure.  The status of a child that cannot be read is not set; the call for the child then
  fails before it uses what was made of it.\<close>

definition child_is_dir :: "'w posix \<Rightarrow> string \<Rightarrow> 'w \<Rightarrow> bool" where
  "child_is_dir px child w = (case sys_stat px child w of Inl _ \<Rightarrow> False | Inr st \<Rightarrow> is_dir st)"

definition folder_message :: "string \<Rightarrow> string" where
  "folder_message file = ''Path '' @ quoted_path file @ '' is a folder and recursive is false''"

definition opendir_message :: "string \<Rightarrow> string" where
  "opendir_message file = ''Could not open directory '' @ quoted_path file"

definition child_stat_message :: "string \<Rightarrow> string" where
  "child_stat_message child = ''Could not stat child path '' @ quoted_path child"

partial_function (option) zusf_chmod_uss_file_or_dir ::
  "'w posix \<Rightarrow> string \<Rightarrow> u32 \<Rightarrow> bool \<Rightarrow> zusf_rec \<Rightarrow> 'w \<Rightarrow> (int \<times> zusf_rec \<times> 'w) option" where
  "zusf_chmod_uss_file_or_dir px file mode recursive z w = (case sys_stat px file w of
     Inl _ \<Rightarrow> Some (zusf_fail (missing_path file) z w)
   | Inr st \<Rightarrow>
     if \<not> recursive \<and> is_dir st then Some (zusf_fail (folder_message file) z w)
     else (let w' = snd (px_chmod px (c_string file) mode w) in
       if recursive \<and> is_dir st then (case sys_children px file w' of
           None \<Rightarrow> Some (zusf_fail (opendir_message file) z w')
         | Some names \<Rightarrow> each (\<lambda>name s. zusf_chmod_uss_file_or_dir px (zusf_join_path file name) mode
             (child_is_dir px (zusf_join_path file name) (snd s)) (fst s) (snd s)) names (z, w'))
       else Some (0, z, w')))"

section \<open>Deletion\<close>

text \<open>The last step: the entry itself is removed.\<close>

definition delete_entry :: "'w posix \<Rightarrow> string \<Rightarrow> bool \<Rightarrow> zusf_rec \<Rightarrow> 'w \<Rightarrow> int \<times> zusf_rec \<times> 'w" where
  "delete_entry px file dir z w = (case (if dir then px_rmdir px (c_string file) w else px_remove px (c_string file) w) of (e, w) \<Rightarrow>
     if e \<noteq> 0 then zusf_fail (''Could not delete '' @ quoted_path file @ '', rc: '' @ show_int e) z w else (0, z, w))"

partial_function (option) zusf_delete_uss_item ::
  "'w posix \<Rightarrow> string \<Rightarrow> bool \<Rightarrow> zusf_rec \<Rightarrow> 'w \<Rightarrow> (int \<times> zusf_rec \<times> 'w) option" where
  "zusf_delete_uss_item px file recursive z w = (case sys_lstat px file w of
     Inl _ \<Rightarrow> Some (zusf_fail (missing_path file) z w)
   | Inr st \<Rightarrow>
     if is_dir st \<and> \<not> recursive then
       Some (zusf_fail (''Path '' @ quoted_path file @ '' is a directory and recursive was false'') z w)
     else if is_dir st then (case sys_children px file w of
         None \<Rightarrow> Some (zusf_fail (opendir_message file) z w)
       | Some names \<Rightarrow> Option.bind (each (\<lambda>name s. (case sys_lstat px (zusf_join_path file name) (snd s) of
             Inl _ \<Rightarrow> Some (zusf_fail (child_stat_message (zusf_join_path file name)) (fst s) (snd s))
           | Inr child \<Rightarrow> zusf_delete_uss_item px (zusf_join_path file name) (is_dir child) (fst s) (snd s))) names (z, w))
           (\<lambda>r. Some (if fst r \<noteq> 0 then r else delete_entry px file True (fst (snd r)) (snd (snd r)))))
     else Some (delete_entry px file False z w))"

section \<open>Users and groups\<close>

definition zusf_get_owner_from_uid :: "'w posix \<Rightarrow> u32 \<Rightarrow> string" where
  "zusf_get_owner_from_uid px uid = (case px_user_name px uid of None \<Rightarrow> [] | Some n \<Rightarrow> n)"

definition zusf_get_group_from_gid :: "'w posix \<Rightarrow> u32 \<Rightarrow> string" where
  "zusf_get_group_from_gid px gid = (case px_group_name px gid of None \<Rightarrow> [] | Some n \<Rightarrow> n)"

text \<open>The identifier is cut to a \<open>short\<close>; the empty text counts as numeric and is 0.\<close>

definition zusf_get_id_from_user_or_group :: "'w posix \<Rightarrow> string \<Rightarrow> bool \<Rightarrow> int" where
  "zusf_get_id_from_user_or_group px user_or_group is_user =
     (if list_all is_digit user_or_group then sint (word_of_int (fst (strtol10 user_or_group)) :: 16 word)
      else (case (if is_user then px_user_id px (c_string user_or_group) else px_group_id px (c_string user_or_group)) of
        None \<Rightarrow> -1 | Some i \<Rightarrow> sint (word_of_int (uint i) :: 16 word)))"

definition ULONG_MAX :: int where
  "ULONG_MAX = 2 ^ 64 - 1"

text \<open>An identifier from its text; the empty text and the number 4294967295 both give the value that stands for
  no change.  Users and groups differ in the table that is asked.\<close>

definition unchanged_id :: u32 where
  "unchanged_id = 0xFFFFFFFF"

definition resolve_id :: "(string \<Rightarrow> u32 option) \<Rightarrow> string \<Rightarrow> u32 option" where
  "resolve_id lookup s = (if s = [] then Some unchanged_id
     else if list_all is_digit s then
       (let v = min ULONG_MAX (fst (read_decimal 0 s)) in if v > 2 ^ 32 - 1 then None else Some (word_of_int v))
     else lookup (c_string s))"

definition split_owner :: "string \<Rightarrow> string \<times> string" where
  "split_owner owner = (if CHR '':'' \<in> set owner
     then (takeWhile (\<lambda>c. c \<noteq> CHR '':'') owner, tl (dropWhile (\<lambda>c. c \<noteq> CHR '':'') owner)) else (owner, []))"

text \<open>The ids to set for a file with the given status: the group of the file when only the user is given.\<close>

definition resolve_owner :: "'w posix \<Rightarrow> string \<Rightarrow> stat_info \<Rightarrow> string + u32 \<times> u32" where
  "resolve_owner px owner st = (case split_owner owner of (user, grp) \<Rightarrow>
     (case resolve_id (px_user_id px) user of
        None \<Rightarrow> Inl (''chown error: invalid user '' @ quoted_path user)
      | Some uid \<Rightarrow> (case resolve_id (px_group_id px) grp of
          None \<Rightarrow> Inl (''chown error: invalid group '' @ quoted_path grp)
        | Some gid \<Rightarrow>
          if uid = unchanged_id \<and> gid = unchanged_id then Inl ''chown error: neither user nor group specified''
          else Inr (uid, if gid = unchanged_id then st_gid st else gid))))"

partial_function (option) zusf_chown_uss_file_or_dir ::
  "'w posix \<Rightarrow> string \<Rightarrow> string \<Rightarrow> bool \<Rightarrow> zusf_rec \<Rightarrow> 'w \<Rightarrow> (int \<times> zusf_rec \<times> 'w) option" where
  "zusf_chown_uss_file_or_dir px file owner recursive z w = (case sys_stat px file w of
     Inl _ \<Rightarrow> Some (zusf_fail (missing_path file) z w)
   | Inr st \<Rightarrow>
     if is_dir st \<and> \<not> recursive then Some (zusf_fail (folder_message file) z w)
     else (case resolve_owner px owner st of
         Inl msg \<Rightarrow> Some (zusf_fail msg z w)
       | Inr ids \<Rightarrow> (case px_chown px (c_string file) (fst ids) (snd ids) w of (e, w') \<Rightarrow>
         if e \<noteq> 0 then Some (zusf_fail (''chown failed for path '' @ quoted_path file @ '', errno '' @ show_int e) z w')
         else if recursive \<and> is_dir st then (case sys_children px file w' of
             None \<Rightarrow> Some (zusf_fail (opendir_message file) z w')
           | Some names \<Rightarrow> each (\<lambda>name s. (case sys_stat px (zusf_join_path file name) (snd s) of
                 Inl _ \<Rightarrow> Some (zusf_fail (child_stat_message (zusf_join_path file name)) (fst s) (snd s))
               | Inr child \<Rightarrow> zusf_chown_uss_file_or_dir px (zusf_join_path file name) owner (is_dir child) (fst s) (snd s)))
               names (z, w'))
         else Some (0, z, w'))))"

section \<open>Tags\<close>

partial_function (option) zusf_chtag_uss_file_or_dir ::
  "'w posix \<Rightarrow> (int \<times> string) list \<Rightarrow> string \<Rightarrow> string \<Rightarrow> bool \<Rightarrow> zusf_rec \<Rightarrow> 'w \<Rightarrow> (int \<times> zusf_rec \<times> 'w) option" where
  "zusf_chtag_uss_file_or_dir px tbl file tag recursive z w = (case sys_stat px file w of
     Inl _ \<Rightarrow> Some (zusf_fail (missing_path file) z w)
   | Inr st \<Rightarrow> (case tag_ccsid tbl tag of
       None \<Rightarrow> Some (zusf_fail (''Invalid tag '' @ quoted_path tag @ '' - not a valid CCSID or display name'') z w)
     | Some ccsid \<Rightarrow>
       if \<not> is_dir st then (case px_tag px (c_string file) (file_tag ccsid) w of (e, w') \<Rightarrow>
         if e \<noteq> 0 then Some (zusf_fail (''Failed to update attributes for path '' @ quoted_path file) z w')
         else Some (0, z, w'))
       else if recursive then (case sys_children px file w of
           None \<Rightarrow> Some (zusf_fail (opendir_message file) z w)
         | Some names \<Rightarrow> each (\<lambda>name s. zusf_chtag_uss_file_or_dir px tbl (zusf_join_path file name) tag
             (child_is_dir px (zusf_join_path file name) (snd s)) (fst s) (snd s)) names (z, w))
       else Some (0, z, w)))"

definition zusf_get_file_ccsid :: "'w posix \<Rightarrow> string \<Rightarrow> zusf_rec \<Rightarrow> 'w \<Rightarrow> int \<times> zusf_rec" where
  "zusf_get_file_ccsid px file z w = (case sys_stat px file w of
     Inl _ \<Rightarrow> (RTNCD_FAILURE, z\<lparr>zu_diag := set_msg (missing_path file) (zu_diag z)\<rparr>)
   | Inr st \<Rightarrow>
     if is_dir st then (RTNCD_FAILURE, z\<lparr>zu_diag := set_msg (''Path '' @ quoted_path file @ '' is a directory'') (zu_diag z)\<rparr>)
     else (uint (st_ccsid st), z))"

end
