(* ===== verification/ZusfTree.thy ===== *)
theory ZusfTree
  imports Zusf "HOL-Library.Sublist"
begin

text \<open>
  What a deletion does to the tree.  The file system is seen through a view, a map from the physical
  paths (those without links and dots) of its entries to their kinds; the laws of the calls are the
  assumptions of a locale, and a system that keeps such a map satisfies them.
\<close>

section \<open>Paths in a tree\<close>

definition strictly_below :: "string \<Rightarrow> string \<Rightarrow> bool" where
  "strictly_below p q \<longleftrightarrow> q \<noteq> p \<and> prefix (zusf_join_path p []) q"

definition below :: "string \<Rightarrow> string \<Rightarrow> bool" where
  "below p q \<longleftrightarrow> q = p \<or> strictly_below p q"

definition plain_name :: "string \<Rightarrow> bool" where
  "plain_name n \<longleftrightarrow> n \<noteq> [] \<and> CHR ''/'' \<notin> set n"

lemma join_split: "zusf_join_path p n = zusf_join_path p [] @ n"
  by (simp add: zusf_join_path_def)

lemma join_plain: "plain_name n \<Longrightarrow> zusf_join_path (zusf_join_path p n) [] = zusf_join_path p n @ ''/''"
  by (cases n rule: rev_cases) (auto simp: plain_name_def zusf_join_path_def)

lemma join_slash: "last (zusf_join_path p []) = CHR ''/'' \<and> zusf_join_path p [] \<noteq> []"
  by (simp add: zusf_join_path_def)

lemma child_strictly_below: "plain_name n \<Longrightarrow> strictly_below p (zusf_join_path p n)"
  by (auto simp: strictly_below_def join_split [of p n] plain_name_def zusf_join_path_def)

lemma below_child: "plain_name n \<Longrightarrow> below (zusf_join_path p n) q \<Longrightarrow> strictly_below p q"
proof -
  assume n: "plain_name n" and "below (zusf_join_path p n) q"
  then consider "q = zusf_join_path p n" | "prefix (zusf_join_path p n @ ''/'') q"
    by (auto simp: below_def strictly_below_def join_plain)
  then show ?thesis
  proof cases
    case 2
    then obtain t where "q = zusf_join_path p [] @ n @ ''/'' @ t"
      by (auto simp: prefix_def join_split [of p n])
    then show ?thesis
      using n by (auto simp: strictly_below_def zusf_join_path_def)
  qed (simp add: child_strictly_below n)
qed

lemma siblings_apart:
  assumes "plain_name n" "plain_name m" "n \<noteq> m"
  shows "\<not> below (zusf_join_path p n) (zusf_join_path p m)"
proof
  assume "below (zusf_join_path p n) (zusf_join_path p m)"
  moreover have "zusf_join_path p m \<noteq> zusf_join_path p n"
    using assms(3) by (simp add: join_split [of p n] join_split [of p m])
  ultimately have "prefix (zusf_join_path p n @ ''/'') (zusf_join_path p m)"
    by (simp add: below_def strictly_below_def join_plain assms(1))
  then have "prefix (n @ ''/'') m"
    by (simp add: join_split [of p n] join_split [of p m])
  then show False
    using assms by (auto simp: prefix_def plain_name_def)
qed

section \<open>The laws of the calls\<close>

locale posix_tree =
  fixes px :: "'w posix" and view :: "'w \<Rightarrow> string \<Rightarrow> file_type option"
  assumes view_nul: "view w p = Some k \<Longrightarrow> nul_char \<notin> set p"
    and view_lstat: "view w p = Some k \<Longrightarrow> px_lstat px p w = Inr st \<Longrightarrow> st_type st = k"
    and view_list: "view w p = Some FtDirectory \<Longrightarrow> px_list px p w = Some ns \<Longrightarrow> distinct ns"
      "view w p = Some FtDirectory \<Longrightarrow> px_list px p w = Some ns \<Longrightarrow> n \<in> set ns \<Longrightarrow> n \<noteq> ''.'' \<Longrightarrow> n \<noteq> ''..'' \<Longrightarrow>
        plain_name n \<and> view w (zusf_join_path p n) \<noteq> None"
    and view_rmdir: "view w p = Some FtDirectory \<Longrightarrow> px_rmdir px p w = (e, w') \<Longrightarrow>
        view w' = (if e = 0 then (view w)(p := None) else view w)"
      "view w p = Some FtDirectory \<Longrightarrow> px_rmdir px p w = (0, w') \<Longrightarrow> strictly_below p q \<Longrightarrow> view w q = None"
    and view_remove: "view w p = Some k \<Longrightarrow> k \<noteq> FtDirectory \<Longrightarrow> px_remove px p w = (e, w') \<Longrightarrow>
        view w' = (if e = 0 then (view w)(p := None) else view w)"
      "view w p = Some k \<Longrightarrow> k \<noteq> FtDirectory \<Longrightarrow> strictly_below p q \<Longrightarrow> view w q = None"
begin

definition deleted :: "string \<Rightarrow> 'w \<Rightarrow> int \<Rightarrow> 'w \<Rightarrow> bool" where
  "deleted p w rc w' \<longleftrightarrow> (\<forall>q. view w' q = view w q \<or> below p q \<and> view w' q = None) \<and>
     (if rc = 0 then \<forall>q. below p q \<longrightarrow> view w' q = None else rc = RTNCD_FAILURE \<and> view w' p = view w p)"

definition children_deleted :: "string \<Rightarrow> 'w \<Rightarrow> int \<Rightarrow> 'w \<Rightarrow> bool" where
  "children_deleted p w rc w' \<longleftrightarrow> (\<forall>q. view w' q = view w q \<or> strictly_below p q \<and> view w' q = None) \<and>
     (rc = 0 \<or> rc = RTNCD_FAILURE)"

definition size_below :: "string \<Rightarrow> 'w \<Rightarrow> nat" where
  "size_below p w = card {q \<in> dom (view w). below p q}"

lemma c_string_view [simp]: "view w p = Some k \<Longrightarrow> c_string p = p"
  using view_nul [of w p k] unfolding c_string_def by (intro takeWhile_eq_all_conv [THEN iffD2]) auto

lemma dom_shrinks: "(\<And>q. view w' q = view w q \<or> P q \<and> view w' q = None) \<Longrightarrow> dom (view w') \<subseteq> dom (view w)"
  by (metis domIff subsetI)

lemma size_below_mono: "dom (view w') \<subseteq> dom (view w) \<Longrightarrow> finite (dom (view w)) \<Longrightarrow> size_below p w' \<le> size_below p w"
  unfolding size_below_def by (rule card_mono) auto

lemma size_below_child:
  assumes "finite (dom (view w))" "view w p \<noteq> None" "plain_name n"
  shows "size_below (zusf_join_path p n) w < size_below p w"
proof -
  have "{q \<in> dom (view w). below (zusf_join_path p n) q} \<subset> {q \<in> dom (view w). below p q}"
  proof
    show "{q \<in> dom (view w). below (zusf_join_path p n) q} \<subseteq> {q \<in> dom (view w). below p q}"
      using below_child [OF assms(3)] by (auto simp: below_def [of p])
    have "\<not> below (zusf_join_path p n) p"
      using below_child [OF assms(3), of p p] by (auto simp: strictly_below_def)
    then show "{q \<in> dom (view w). below (zusf_join_path p n) q} \<noteq> {q \<in> dom (view w). below p q}"
      using assms(2) by (auto simp: below_def [of p p])
  qed
  then show ?thesis
    unfolding size_below_def using assms(1) by (intro psubset_card_mono) auto
qed

lemma children_outcome:
  assumes "\<And>q r z w. finite (dom (view w)) \<Longrightarrow> view w q \<noteq> None \<Longrightarrow> size_below q w < N \<Longrightarrow>
      \<exists>rc z' w'. zusf_delete_uss_item px q r z w = Some (rc, z', w') \<and> deleted q w rc w'"
  shows "finite (dom (view w)) \<Longrightarrow> view w p \<noteq> None \<Longrightarrow> size_below p w \<le> N \<Longrightarrow> distinct ns \<Longrightarrow>
    list_all (\<lambda>n. plain_name n \<and> view w (zusf_join_path p n) \<noteq> None) ns \<Longrightarrow>
    \<exists>rc z' w'. each (\<lambda>name s. (case sys_lstat px (zusf_join_path p name) (snd s) of
         Inl _ \<Rightarrow> Some (zusf_fail (child_stat_message (zusf_join_path p name)) (fst s) (snd s))
       | Inr child \<Rightarrow> zusf_delete_uss_item px (zusf_join_path p name) (is_dir child) (fst s) (snd s))) ns (z, w) = Some (rc, z', w') \<and>
     children_deleted p w rc w'"
proof (induction ns arbitrary: z w)
  case Nil
  show ?case
    by (simp add: children_deleted_def)
next
  case (Cons n ns)
  let ?c = "zusf_join_path p n"
  have n: "plain_name n" "view w ?c \<noteq> None"
    using Cons.prems(5) by auto
  show ?case
  proof (cases "sys_lstat px ?c w")
    case (Inl e)
    then show ?thesis
      by (simp add: zusf_fail_def RTNCD_FAILURE_def children_deleted_def)
  next
    case (Inr child)
    have "size_below ?c w < N"
      using size_below_child [OF Cons.prems(1,2) n(1)] Cons.prems(3) by simp
    then obtain rc z1 w1 where del: "zusf_delete_uss_item px ?c (is_dir child) z w = Some (rc, z1, w1)" "deleted ?c w rc w1"
      using assms [OF Cons.prems(1) n(2)] by blast
    have sub: "view w1 q = view w q \<or> below ?c q \<and> view w1 q = None" for q
      using del(2) by (auto simp: deleted_def)
    show ?thesis
    proof (cases "rc = 0")
      case False
      then show ?thesis
        using del Inr below_child [OF n(1)] by (auto simp: children_deleted_def deleted_def split: if_splits)
    next
      case True
      have keep: "\<not> below ?c q \<Longrightarrow> view w1 q = view w q" for q
        using sub [of q] by auto
      have "\<not> below ?c p"
        using below_child [OF n(1), of p p] by (auto simp: strictly_below_def)
      moreover have "list_all (\<lambda>m. plain_name m \<and> view w1 (zusf_join_path p m) \<noteq> None) ns"
        using Cons.prems(4,5) keep siblings_apart [OF n(1)] by (fastforce simp: list_all_iff)
      moreover have "finite (dom (view w1))" "size_below p w1 \<le> N"
        using dom_shrinks [of w1 w "below ?c"] sub Cons.prems(1,3) size_below_mono [of w1 w p]
        by (auto intro: finite_subset)
      ultimately obtain rc2 z2 w2 where rest: "each (\<lambda>name s. (case sys_lstat px (zusf_join_path p name) (snd s) of
         Inl _ \<Rightarrow> Some (zusf_fail (child_stat_message (zusf_join_path p name)) (fst s) (snd s))
       | Inr child \<Rightarrow> zusf_delete_uss_item px (zusf_join_path p name) (is_dir child) (fst s) (snd s))) ns (z1, w1) = Some (rc2, z2, w2)"
        "children_deleted p w1 rc2 w2"
        using Cons.IH [of w1 z1] Cons.prems(2,4) keep by auto
      have "children_deleted p w rc2 w2"
        using rest(2) sub below_child [OF n(1)] unfolding children_deleted_def by metis
      then show ?thesis
        using del(1) rest(1) True Inr by simp
    qed
  qed
qed

lemma entry_outcome:
  assumes "view w p \<noteq> None" "children_deleted p v 0 w" "dir = (view w p = Some FtDirectory)"
  shows "\<exists>rc z' w'. delete_entry px p dir z w = (rc, z', w') \<and> deleted p v rc w'"
proof -
  obtain k where k: "view w p = Some k"
    using assms(1) by auto
  then have v: "view v p = Some k"
    using assms(2) unfolding children_deleted_def strictly_below_def by metis
  obtain e w' where call: "(if dir then px_rmdir px p w else px_remove px p w) = (e, w')"
    by (cases "if dir then px_rmdir px p w else px_remove px p w") auto
  have view': "view w' = (if e = 0 then (view w)(p := None) else view w)"
  proof (cases dir)
    case True
    then show ?thesis
      using call k assms(3) by (intro view_rmdir(1) [of w p]) simp_all
  next
    case False
    then show ?thesis
      using call k assms(3) by (intro view_remove(1) [OF k]) simp_all
  qed
  have none: "view w q = None" if "e = 0" "strictly_below p q" for q
  proof (cases dir)
    case True
    then show ?thesis
      using call k assms(3) that by (intro view_rmdir(2) [of w p w']) simp_all
  next
    case False
    then show ?thesis
      using call k assms(3) that by (intro view_remove(2) [OF k]) simp_all
  qed
  have entry: "delete_entry px p dir z w =
      (if e \<noteq> 0 then zusf_fail (''Could not delete '' @ quoted_path p @ '', rc: '' @ show_int e) z w' else (0, z, w'))"
    unfolding delete_entry_def c_string_view [OF k] call by simp
  have kept: "view w q = view v q \<or> strictly_below p q \<and> view w q = None" for q
    using assms(2) by (simp add: children_deleted_def)
  show ?thesis
  proof (cases "e = 0")
    case True
    have "view w' q = None" if "below p q" for q
      using that view' none True by (auto simp: below_def)
    moreover have "view w' q = view v q \<or> below p q \<and> view w' q = None" for q
      using kept [of q] view' True by (auto simp: below_def)
    ultimately have "deleted p v 0 w'"
      by (simp add: deleted_def)
    then show ?thesis
      using entry True by simp
  next
    case False
    have "view w' q = view v q \<or> below p q \<and> view w' q = None" for q
      using kept [of q] view' False by (auto simp: below_def)
    then have "deleted p v RTNCD_FAILURE w'"
      using view' False k v by (simp add: deleted_def RTNCD_FAILURE_def)
    then show ?thesis
      using entry False by (simp add: zusf_fail_def)
  qed
qed

lemma delete_outcome:
  "finite (dom (view w)) \<Longrightarrow> view w p \<noteq> None \<Longrightarrow>
    \<exists>rc z' w'. zusf_delete_uss_item px p r z w = Some (rc, z', w') \<and> deleted p w rc w'"
proof (induction "size_below p w" arbitrary: p r z w rule: less_induct)
  case less
  obtain k where k: "view w p = Some k"
    using less.prems by auto
  have refuse: "deleted p w RTNCD_FAILURE w"
    by (simp add: deleted_def RTNCD_FAILURE_def)
  show ?case
  proof (cases "sys_lstat px p w")
    case (Inl e)
    then show ?thesis
      using refuse by (subst zusf_delete_uss_item.simps) (simp add: zusf_fail_def)
  next
    case (Inr st)
    then have st: "is_dir st \<longleftrightarrow> k = FtDirectory"
      using view_lstat [OF k] k by (auto simp: sys_lstat_def is_dir_def)
    consider "is_dir st" "\<not> r" | "\<not> is_dir st" | "is_dir st" "r" "sys_children px p w = None"
      | ns where "is_dir st" "r" "sys_children px p w = Some ns"
      by blast
    then show ?thesis
    proof cases
      case 2
      have "children_deleted p w 0 w"
        by (simp add: children_deleted_def)
      from entry_outcome [OF less.prems(2) this, of False z] show ?thesis
        using Inr 2 st k by (subst zusf_delete_uss_item.simps) auto
    next
      case (4 ns)
      then have ns: "distinct ns" "list_all (\<lambda>n. plain_name n \<and> view w (zusf_join_path p n) \<noteq> None) ns"
        using view_list [of w p] k st by (auto simp: sys_children_def list_all_iff split: option.splits)
      obtain rc z1 w1 where loop: "each (\<lambda>name s. (case sys_lstat px (zusf_join_path p name) (snd s) of
         Inl _ \<Rightarrow> Some (zusf_fail (child_stat_message (zusf_join_path p name)) (fst s) (snd s))
       | Inr child \<Rightarrow> zusf_delete_uss_item px (zusf_join_path p name) (is_dir child) (fst s) (snd s))) ns (z, w) = Some (rc, z1, w1)"
        "children_deleted p w rc w1"
        using children_outcome [OF less.hyps less.prems order.refl ns] by blast
      then have w1: "view w1 p = view w p"
        by (auto simp: children_deleted_def strictly_below_def)
      show ?thesis
      proof (cases "rc = 0")
        case True
        then obtain rc2 z2 w2 where "delete_entry px p True z1 w1 = (rc2, z2, w2)" "deleted p w rc2 w2"
          using entry_outcome [of w1 p w True z1] loop(2) w1 k 4 st by auto
        then show ?thesis
          using Inr 4 loop(1) True by (subst zusf_delete_uss_item.simps) auto
      next
        case False
        then have "deleted p w rc w1"
          using loop(2) w1 by (auto simp: deleted_def children_deleted_def below_def)
        then show ?thesis
          using Inr 4 loop(1) False by (subst zusf_delete_uss_item.simps) auto
      qed
    qed (use Inr refuse in \<open>subst zusf_delete_uss_item.simps, simp add: zusf_fail_def\<close>)+
  qed
qed

end

section \<open>A system that refuses nothing\<close>

locale open_tree = posix_tree +
  assumes lstat_ok: "view w p = Some k \<Longrightarrow> \<exists>st. px_lstat px p w = Inr st"
    and list_ok: "view w p = Some FtDirectory \<Longrightarrow> \<exists>ns. px_list px p w = Some ns"
    and list_complete: "view w p = Some FtDirectory \<Longrightarrow> px_list px p w = Some ns \<Longrightarrow> strictly_below p q \<Longrightarrow>
      view w q = Some k \<Longrightarrow> \<exists>n. n \<in> set ns \<and> n \<noteq> ''.'' \<and> n \<noteq> ''..'' \<and> below (zusf_join_path p n) q"
    and rmdir_ok: "view w p = Some FtDirectory \<Longrightarrow> (\<And>q. strictly_below p q \<Longrightarrow> view w q = None) \<Longrightarrow> fst (px_rmdir px p w) = 0"
    and remove_ok: "view w p = Some k \<Longrightarrow> k \<noteq> FtDirectory \<Longrightarrow> fst (px_remove px p w) = 0"
begin

lemma children_complete:
  assumes "\<And>q z w. finite (dom (view w)) \<Longrightarrow> view w q \<noteq> None \<Longrightarrow> size_below q w < N \<Longrightarrow>
      \<exists>z' w'. zusf_delete_uss_item px q (view w q = Some FtDirectory) z w = Some (0, z', w') \<and> deleted q w 0 w'"
  shows "finite (dom (view w)) \<Longrightarrow> view w p \<noteq> None \<Longrightarrow> size_below p w \<le> N \<Longrightarrow> distinct ns \<Longrightarrow>
    list_all (\<lambda>n. plain_name n \<and> view w (zusf_join_path p n) \<noteq> None) ns \<Longrightarrow>
    \<exists>z' w'. each (\<lambda>name s. (case sys_lstat px (zusf_join_path p name) (snd s) of
         Inl _ \<Rightarrow> Some (zusf_fail (child_stat_message (zusf_join_path p name)) (fst s) (snd s))
       | Inr child \<Rightarrow> zusf_delete_uss_item px (zusf_join_path p name) (is_dir child) (fst s) (snd s))) ns (z, w) = Some (0, z', w') \<and>
     (\<forall>q. view w' q = view w q \<or> strictly_below p q \<and> view w' q = None) \<and>
     list_all (\<lambda>n. \<forall>q. below (zusf_join_path p n) q \<longrightarrow> view w' q = None) ns"
proof (induction ns arbitrary: z w)
  case Nil
  show ?case
    by simp
next
  case (Cons n ns)
  let ?c = "zusf_join_path p n"
  obtain k where n: "plain_name n" "view w ?c = Some k"
    using Cons.prems(5) by auto
  obtain child where lstat: "sys_lstat px ?c w = Inr child" "is_dir child \<longleftrightarrow> view w ?c = Some FtDirectory"
    using lstat_ok [OF n(2)] view_lstat [OF n(2)] n(2) by (auto simp: sys_lstat_def is_dir_def)
  have "size_below ?c w < N"
    using size_below_child [OF Cons.prems(1,2) n(1)] Cons.prems(3) by simp
  then obtain z1 w1 where del: "zusf_delete_uss_item px ?c (view w ?c = Some FtDirectory) z w = Some (0, z1, w1)" "deleted ?c w 0 w1"
    using assms [OF Cons.prems(1)] n(2) by blast
  have sub: "view w1 q = view w q \<or> below ?c q \<and> view w1 q = None" for q
    using del(2) by (simp add: deleted_def)
  then have keep: "\<not> below ?c q \<Longrightarrow> view w1 q = view w q" for q
    by auto
  have gone: "below ?c q \<Longrightarrow> view w1 q = None" for q
    using del(2) by (simp add: deleted_def)
  have "\<not> below ?c p"
    using below_child [OF n(1), of p p] by (auto simp: strictly_below_def)
  moreover have "list_all (\<lambda>m. plain_name m \<and> view w1 (zusf_join_path p m) \<noteq> None) ns"
    using Cons.prems(4,5) keep siblings_apart [OF n(1)] by (fastforce simp: list_all_iff)
  moreover have "finite (dom (view w1))" "size_below p w1 \<le> N"
    using dom_shrinks [of w1 w "below ?c"] sub Cons.prems(1,3) size_below_mono [of w1 w p]
    by (auto intro: finite_subset)
  ultimately obtain z2 w2 where rest: "each (\<lambda>name s. (case sys_lstat px (zusf_join_path p name) (snd s) of
       Inl _ \<Rightarrow> Some (zusf_fail (child_stat_message (zusf_join_path p name)) (fst s) (snd s))
     | Inr child \<Rightarrow> zusf_delete_uss_item px (zusf_join_path p name) (is_dir child) (fst s) (snd s))) ns (z1, w1) = Some (0, z2, w2)"
    "\<And>q. view w2 q = view w1 q \<or> strictly_below p q \<and> view w2 q = None"
    "list_all (\<lambda>n. \<forall>q. below (zusf_join_path p n) q \<longrightarrow> view w2 q = None) ns"
    using Cons.IH [of w1 z1] Cons.prems(2,4) keep by auto
  have "view w2 q = view w q \<or> strictly_below p q \<and> view w2 q = None" for q
    using rest(2) [of q] sub [of q] below_child [OF n(1), of p q] by auto
  moreover have "below ?c q \<Longrightarrow> view w2 q = None" for q
    using rest(2) [of q] gone [of q] by auto
  ultimately show ?case
    using lstat del(1) rest(1,3) by simp
qed

lemma delete_complete:
  "finite (dom (view w)) \<Longrightarrow> view w p \<noteq> None \<Longrightarrow>
    \<exists>z' w'. zusf_delete_uss_item px p (view w p = Some FtDirectory) z w = Some (0, z', w') \<and> deleted p w 0 w'"
proof (induction "size_below p w" arbitrary: p z w rule: less_induct)
  case less
  obtain k where k: "view w p = Some k"
    using less.prems by auto
  obtain st where st: "sys_lstat px p w = Inr st" "is_dir st \<longleftrightarrow> k = FtDirectory"
    using lstat_ok [OF k] view_lstat [OF k] k by (auto simp: sys_lstat_def is_dir_def)
  show ?case
  proof (cases "k = FtDirectory")
    case False
    obtain w' where call: "px_remove px p w = (0, w')"
      using remove_ok [OF k False] by (cases "px_remove px p w") auto
    have "delete_entry px p False z w = (0, z, w')"
      by (simp add: delete_entry_def c_string_view [OF k] call)
    moreover have "children_deleted p w 0 w"
      by (simp add: children_deleted_def)
    then obtain rc z2 w2 where "delete_entry px p False z w = (rc, z2, w2)" "deleted p w rc w2"
      using entry_outcome [OF less.prems(2), of w False z] k False by auto
    ultimately show ?thesis
      using st k False by (subst zusf_delete_uss_item.simps) auto
  next
    case True
    obtain names where names: "px_list px p w = Some names"
      using list_ok k True by blast
    define ns where "ns = filter (\<lambda>n. n \<noteq> ''.'' \<and> n \<noteq> ''..'') names"
    have children: "sys_children px p w = Some ns"
      by (simp add: sys_children_def ns_def names c_string_view [OF k])
    have ns: "distinct ns" "list_all (\<lambda>n. plain_name n \<and> view w (zusf_join_path p n) \<noteq> None) ns"
      using view_list [of w p names] k True names by (auto simp: ns_def list_all_iff)
    obtain z1 w1 where loop: "each (\<lambda>name s. (case sys_lstat px (zusf_join_path p name) (snd s) of
         Inl _ \<Rightarrow> Some (zusf_fail (child_stat_message (zusf_join_path p name)) (fst s) (snd s))
       | Inr child \<Rightarrow> zusf_delete_uss_item px (zusf_join_path p name) (is_dir child) (fst s) (snd s))) ns (z, w) = Some (0, z1, w1)"
      "\<And>q. view w1 q = view w q \<or> strictly_below p q \<and> view w1 q = None"
      "list_all (\<lambda>n. \<forall>q. below (zusf_join_path p n) q \<longrightarrow> view w1 q = None) ns"
      using children_complete [OF less.hyps less.prems order.refl ns] by blast
    have w1: "view w1 p = Some FtDirectory"
      using loop(2) [of p] k True by (simp add: strictly_below_def)
    have empty: "view w1 q = None" if q: "strictly_below p q" for q
    proof (cases "view w q")
      case None
      then show ?thesis
        using loop(2) [of q] by auto
    next
      case (Some k')
      then obtain n where "n \<in> set ns" "below (zusf_join_path p n) q"
        using list_complete [OF _ names q Some] k True by (auto simp: ns_def)
      then show ?thesis
        using loop(3) by (auto simp: list_all_iff)
    qed
    obtain w2 where call: "px_rmdir px p w1 = (0, w2)"
      using rmdir_ok [OF w1 empty] by (cases "px_rmdir px p w1") auto
    have "delete_entry px p True z1 w1 = (0, z1, w2)"
      by (simp add: delete_entry_def c_string_view [OF k] call)
    moreover have "children_deleted p w 0 w1"
      using loop(2) by (simp add: children_deleted_def)
    then obtain rc z3 w3 where "delete_entry px p True z1 w1 = (rc, z3, w3)" "deleted p w rc w3"
      using entry_outcome [of w1 p w True z1] w1 by auto
    ultimately show ?thesis
      using st k True children loop(1) by (subst zusf_delete_uss_item.simps) auto
  qed
qed

end

end
