(* ===== verification/MapFs.thy ===== *)
theory MapFs
  imports ZusfTree
begin

text \<open>
  A file system in memory, a list of paths (as component lists) with their kinds, that satisfies the
  laws of \<open>posix_tree\<close> and \<open>open_tree\<close>; and what the recursive deletion does on every system
  with those laws.
\<close>

section \<open>Paths and components\<close>

definition component :: "string \<Rightarrow> bool" where
  "component n \<longleftrightarrow> n \<noteq> [] \<and> CHR ''/'' \<notin> set n \<and> nul_char \<notin> set n \<and> n \<noteq> ''.'' \<and> n \<noteq> ''..''"

fun slashes :: "string list \<Rightarrow> string" where
  "slashes [] = []"
| "slashes (n # ns) = CHR ''/'' # n @ slashes ns"

definition render :: "string list \<Rightarrow> string" where
  "render cs = (if cs = [] then ''/'' else slashes cs)"

abbreviation first_part :: "string \<Rightarrow> string" where
  "first_part s \<equiv> takeWhile (\<lambda>c. c \<noteq> CHR ''/'') s"

lemma component_char: "component n \<Longrightarrow> c \<in> set n \<Longrightarrow> c \<noteq> CHR ''/''"
  by (auto simp: component_def)

lemma first_part_plain: "component n \<Longrightarrow> first_part (n @ CHR ''/'' # t) = n" "component n \<Longrightarrow> first_part n = n"
  by (simp_all add: takeWhile_append component_char takeWhile_eq_all_conv)

lemma first_part_slashes: "component n \<Longrightarrow> first_part (n @ slashes ns) = n"
  by (cases ns) (simp_all add: first_part_plain)

lemma slashes_append: "slashes (xs @ ys) = slashes xs @ slashes ys"
  by (induction xs) auto

lemma slashes_Nil [simp]: "slashes cs = [] \<longleftrightarrow> cs = []"
  by (cases cs) auto

lemma slashes_prefix:
  "list_all component ds \<Longrightarrow> list_all component cs \<Longrightarrow> prefix (slashes ds @ ''/'') (slashes cs) \<Longrightarrow> strict_prefix ds cs"
proof (induction ds arbitrary: cs)
  case Nil
  then show ?case
    by (cases cs) auto
next
  case (Cons d ds)
  obtain t where t: "slashes cs = CHR ''/'' # d @ slashes ds @ CHR ''/'' # t"
    using Cons.prems(3) by (auto simp: prefix_def)
  then obtain c cs' where cs: "cs = c # cs'"
    by (cases cs) auto
  have "first_part (d @ slashes ds @ CHR ''/'' # t) = d"
    using Cons.prems(1) by (cases ds) (simp_all add: first_part_plain)
  then have "c = d"
    using t cs Cons.prems(2) first_part_slashes [of c cs'] by simp
  then have "strict_prefix ds cs'"
    using t cs Cons.prems by (intro Cons.IH) (auto simp: prefix_def)
  then show ?case
    using cs \<open>c = d\<close> by simp
qed

lemma slashes_inject:
  "list_all component cs \<Longrightarrow> list_all component ds \<Longrightarrow> slashes cs = slashes ds \<Longrightarrow> cs = ds"
proof (induction cs arbitrary: ds)
  case Nil
  then show ?case
    by (cases ds) auto
next
  case (Cons c cs)
  then obtain d ds' where ds: "ds = d # ds'"
    by (cases ds) auto
  then have "c = d"
    using Cons.prems first_part_slashes [of c cs] first_part_slashes [of d ds'] by simp
  then show ?case
    using Cons ds by simp
qed

lemma slash_alone: "list_all component cs \<Longrightarrow> slashes cs \<noteq> ''/''"
  by (cases cs) (auto simp: component_def)

lemma render_inject:
  "list_all component cs \<Longrightarrow> list_all component ds \<Longrightarrow> render cs = render ds \<longleftrightarrow> cs = ds"
  using slashes_inject [of cs ds] slash_alone [of cs] slash_alone [of ds] by (auto simp: render_def)

lemma last_slashes: "list_all component cs \<Longrightarrow> cs \<noteq> [] \<Longrightarrow> slashes cs \<noteq> [] \<and> last (slashes cs) \<noteq> CHR ''/''"
  by (cases cs rule: rev_cases) (auto simp: slashes_append component_def last_append dest: last_in_set)

lemma join_render: "list_all component cs \<Longrightarrow> zusf_join_path (render cs) n = slashes cs @ ''/'' @ n"
proof (cases "cs = []")
  case True
  then show ?thesis
    by (simp add: zusf_join_path_def render_def)
next
  case False
  moreover assume "list_all component cs"
  ultimately show ?thesis
    using last_slashes [of cs] by (simp add: zusf_join_path_def render_def)
qed

lemma join_component: "list_all component cs \<Longrightarrow> zusf_join_path (render cs) n = render (cs @ [n])"
  by (simp add: join_render) (simp add: render_def slashes_append)

lemma below_render:
  assumes "list_all component ds" "list_all component cs"
  shows "strictly_below (render ds) (render cs) \<longleftrightarrow> strict_prefix ds cs"
proof
  assume "strictly_below (render ds) (render cs)"
  then have "cs \<noteq> ds" "prefix (slashes ds @ ''/'') (render cs)"
    using assms by (auto simp: strictly_below_def join_render)
  then show "strict_prefix ds cs"
    using slashes_prefix [OF assms] assms(1) slash_alone [OF assms(1)] by (cases "cs = []") (auto simp: render_def prefix_def Cons_eq_append_conv neq_Nil_conv)
next
  assume "strict_prefix ds cs"
  then obtain e es where cs: "cs = ds @ e # es"
    by (rule strict_prefixE')
  then show "strictly_below (render ds) (render cs)"
    using assms render_inject [OF assms(2,1)]
    by (auto simp: strictly_below_def join_render) (simp add: render_def slashes_append)
qed

section \<open>The file system\<close>

type_synonym map_fs = "(string list \<times> file_type) list"

definition look :: "map_fs \<Rightarrow> string list \<Rightarrow> file_type option" where
  "look w cs = (if list_all component cs \<and> list_all (\<lambda>i. map_of w (take i cs) = Some FtDirectory) [0..<length cs]
     then map_of w cs else None)"

definition path_of :: "map_fs \<Rightarrow> string \<Rightarrow> string list option" where
  "path_of w p = find (\<lambda>cs. look w cs \<noteq> None \<and> render cs = p) (map fst w)"

definition fs_view :: "map_fs \<Rightarrow> string \<Rightarrow> file_type option" where
  "fs_view w p = (case path_of w p of None \<Rightarrow> None | Some cs \<Rightarrow> look w cs)"

lemma look_component: "look w cs = Some k \<Longrightarrow> list_all component cs"
  by (auto simp: look_def split: if_splits)

lemma path_of_render: "look w cs = Some k \<Longrightarrow> path_of w (render cs) = Some cs"
proof -
  assume k: "look w cs = Some k"
  then have "cs \<in> set (map fst w)"
    by (force simp: look_def dest: map_of_SomeD split: if_splits)
  then have "path_of w (render cs) \<noteq> None"
    using k by (auto simp: path_of_def find_None_iff)
  then obtain ds where ds: "path_of w (render cs) = Some ds" "look w ds \<noteq> None" "render ds = render cs"
    by (auto simp: path_of_def find_Some_iff)
  then show ?thesis
    using render_inject [of ds cs] look_component [OF k] look_component [of w ds] by auto
qed

lemma fs_view_iff: "fs_view w p = Some k \<longleftrightarrow> (\<exists>cs. p = render cs \<and> look w cs = Some k)"
proof
  assume "fs_view w p = Some k"
  then obtain cs where "path_of w p = Some cs" "look w cs = Some k"
    by (auto simp: fs_view_def split: option.splits)
  then show "\<exists>cs. p = render cs \<and> look w cs = Some k"
    by (auto simp: path_of_def find_Some_iff)
qed (auto simp: fs_view_def path_of_render)

lemma fs_view_render: "list_all component cs \<Longrightarrow> fs_view w (render cs) = look w cs"
proof (cases "look w cs")
  case None
  assume cs: "list_all component cs"
  have "fs_view w (render cs) \<noteq> Some k" for k
    unfolding fs_view_iff using None render_inject [OF cs look_component] by force
  then show ?thesis
    using None by (cases "fs_view w (render cs)") auto
qed (simp add: fs_view_def path_of_render)

definition fs_stat :: "file_type \<Rightarrow> stat_info" where
  "fs_stat k = \<lparr>st_type = k, st_mode = 0, st_nlink = 1, st_uid = 0, st_gid = 0, st_size = 0, st_mtime = 0, st_ccsid = 0, st_txtflag = False\<rparr>"

definition fs_lstat :: "string \<Rightarrow> map_fs \<Rightarrow> int + stat_info" where
  "fs_lstat p w = (case fs_view w p of None \<Rightarrow> Inl 129 | Some k \<Rightarrow> Inr (fs_stat k))"

definition fs_children :: "map_fs \<Rightarrow> string list \<Rightarrow> string list" where
  "fs_children w cs = remdups (map last (filter (\<lambda>ds. ds \<noteq> [] \<and> butlast ds = cs \<and> look w ds \<noteq> None) (map fst w)))"

definition fs_list :: "string \<Rightarrow> map_fs \<Rightarrow> string list option" where
  "fs_list p w = (if fs_view w p = Some FtDirectory
     then map_option (\<lambda>cs. ''.'' # ''..'' # fs_children w cs) (path_of w p) else None)"

definition fs_unlink :: "string list \<Rightarrow> map_fs \<Rightarrow> map_fs" where
  "fs_unlink cs w = filter (\<lambda>e. fst e \<noteq> cs) w"

definition fs_rmdir :: "string \<Rightarrow> map_fs \<Rightarrow> int \<times> map_fs" where
  "fs_rmdir p w = (if fs_view w p = Some FtDirectory then (case path_of w p of None \<Rightarrow> (129, w) | Some cs \<Rightarrow>
       if fs_children w cs = [] then (0, fs_unlink cs w) else (136, w))
     else (135, w))"

definition fs_remove :: "string \<Rightarrow> map_fs \<Rightarrow> int \<times> map_fs" where
  "fs_remove p w = (case path_of w p of None \<Rightarrow> (129, w) | Some cs \<Rightarrow>
     if look w cs = Some FtDirectory then (135, w) else (0, fs_unlink cs w))"

text \<open>The calls that a deletion does not use are refused.\<close>

definition map_px :: "map_fs posix" where
  "map_px = \<lparr>px_stat = fs_lstat, px_lstat = fs_lstat, px_realpath = (\<lambda>p w. Inr p), px_list = fs_list,
     px_chmod = (\<lambda>p m w. (111, w)), px_chown = (\<lambda>p u g w. (111, w)), px_tag = (\<lambda>p t w. (111, w)),
     px_mkdir = (\<lambda>p m w. (111, w)), px_rmdir = fs_rmdir, px_remove = fs_remove, px_create = (\<lambda>p w. (False, w)),
     px_run = (\<lambda>p as w. ((127, [], []), w)), px_read = (\<lambda>p w. None), px_append = (\<lambda>p t w. (0, w)), px_flush = (\<lambda>p w. (111, w)), px_fifo = (\<lambda>p w. FifoFailed 111),
     px_user_id = (\<lambda>n. None), px_group_id = (\<lambda>n. None), px_user_name = (\<lambda>u. None), px_group_name = (\<lambda>g. None),
     px_utc = (\<lambda>t. None), px_local = (\<lambda>t. None)\<rparr>"

section \<open>Its laws\<close>

lemma look_parent:
  assumes "look w ds = Some k" "strict_prefix cs ds"
  shows "look w cs = Some FtDirectory"
proof -
  obtain e es where ds: "ds = cs @ e # es"
    using assms(2) by (rule strict_prefixE')
  have dirs: "map_of w (take i ds) = Some FtDirectory" if "i < length ds" for i
    using assms(1) that by (auto simp: look_def list_all_iff split: if_splits)
  have "map_of w (take i cs) = Some FtDirectory" if "i \<le> length cs" for i
    using dirs [of i] that ds by simp
  moreover from this [of "length cs"] have "map_of w cs = Some FtDirectory"
    by simp
  ultimately show ?thesis
    using look_component [OF assms(1)] ds by (simp add: look_def list_all_iff)
qed

lemma map_of_unlink: "map_of (fs_unlink cs w) ds = (if ds = cs then None else map_of w ds)"
  by (induction w) (auto simp: fs_unlink_def)

lemma look_unlink:
  assumes "\<And>ds. strict_prefix cs ds \<Longrightarrow> look w ds = None"
  shows "look (fs_unlink cs w) ds = (if ds = cs then None else look w ds)"
proof (cases "strict_prefix cs ds")
  case True
  then have "take (length cs) ds = cs" "length cs < length ds"
    by (auto simp: strict_prefix_def prefix_def)
  then have "look (fs_unlink cs w) ds = None"
    by (fastforce simp: look_def map_of_unlink list_all_iff)
  then show ?thesis
    using assms True by auto
next
  case False
  have "take i ds \<noteq> cs" if "i < length ds" for i
    using that False by (auto simp: strict_prefix_def take_is_prefix)
  then show ?thesis
    by (auto simp: look_def map_of_unlink list_all_iff)
qed

lemma fs_view_unlink:
  assumes "list_all component cs" "\<And>ds. strict_prefix cs ds \<Longrightarrow> look w ds = None"
  shows "fs_view (fs_unlink cs w) = (fs_view w)(render cs := None)"
proof
  fix p
  have "fs_view (fs_unlink cs w) p = Some k \<longleftrightarrow> ((fs_view w)(render cs := None)) p = Some k" for k
  proof
    assume "fs_view (fs_unlink cs w) p = Some k"
    then obtain ds where "p = render ds" "ds \<noteq> cs" "look w ds = Some k"
      using look_unlink [OF assms(2)] by (auto simp: fs_view_iff split: if_splits)
    then show "((fs_view w)(render cs := None)) p = Some k"
      using render_inject [OF look_component assms(1)] fs_view_iff by fastforce
  next
    assume "((fs_view w)(render cs := None)) p = Some k"
    then obtain ds where "p = render ds" "ds \<noteq> cs" "look w ds = Some k"
      by (auto simp: fs_view_iff split: if_splits)
    then show "fs_view (fs_unlink cs w) p = Some k"
      using look_unlink [OF assms(2)] by (auto simp: fs_view_iff)
  qed
  then show "fs_view (fs_unlink cs w) p = ((fs_view w)(render cs := None)) p"
    by (metis not_None_eq)
qed

lemma in_children: "n \<in> set (fs_children w cs) \<longleftrightarrow> look w (cs @ [n]) \<noteq> None"
proof -
  have "cs @ [n] \<in> fst ` set w" if "look w (cs @ [n]) \<noteq> None"
    using that by (force simp: look_def dest: map_of_SomeD split: if_splits)
  moreover have "(\<exists>ds\<in>fst ` set w. ds \<noteq> [] \<and> butlast ds = cs \<and> look w ds \<noteq> None \<and> n = last ds) \<longleftrightarrow>
      cs @ [n] \<in> fst ` set w \<and> look w (cs @ [n]) \<noteq> None"
    by (metis append_butlast_last_id butlast_snoc last_snoc snoc_eq_iff_butlast)
  ultimately show ?thesis
    by (force simp: fs_children_def)
qed

lemma no_children_below: "fs_children w cs = [] \<Longrightarrow> strict_prefix cs ds \<Longrightarrow> look w ds = None"
proof (rule ccontr)
  assume none: "fs_children w cs = []" and ds: "strict_prefix cs ds" "look w ds \<noteq> None"
  obtain k where k: "look w ds = Some k"
    using ds(2) by auto
  obtain e es where e: "ds = cs @ e # es"
    using ds(1) by (rule strict_prefixE')
  have "look w (cs @ [e]) \<noteq> None"
    using k look_parent [OF k, of "cs @ [e]"] e by (cases es) (auto simp: strict_prefix_def prefix_def)
  then show False
    using none in_children [of e w cs] by simp
qed

lemma render_nul: "list_all component cs \<Longrightarrow> nul_char \<notin> set (render cs)"
proof -
  have slash: "nul_char \<noteq> CHR ''/''"
    by code_simp
  then have "list_all component cs \<Longrightarrow> nul_char \<notin> set (slashes cs)"
    by (induction cs) (auto simp: component_def)
  with slash show "list_all component cs \<Longrightarrow> nul_char \<notin> set (render cs)"
    by (auto simp: render_def)
qed

lemma below_view:
  assumes "look w cs = Some k" "fs_view w q \<noteq> None" "strictly_below (render cs) q"
  shows "\<exists>ds. q = render ds \<and> look w ds = fs_view w q \<and> strict_prefix cs ds"
proof -
  obtain ds k' where "q = render ds" "look w ds = Some k'" "fs_view w q = Some k'"
    using assms(2) fs_view_iff by fastforce
  then show ?thesis
    using assms(3) below_render [OF look_component [OF assms(1)] look_component [of w ds]] by auto
qed

lemma view_rendered:
  assumes "fs_view w p = Some k"
  obtains cs where "p = render cs" "look w cs = Some k" "path_of w p = Some cs" "list_all component cs"
  using assms path_of_render look_component by (auto simp: fs_view_iff)

lemma rmdir_unlinks:
  assumes "fs_view w p = Some FtDirectory" "fs_rmdir p w = (e, w')"
  shows "fs_view w' = (if e = 0 then (fs_view w)(p := None) else fs_view w)"
    "e = 0 \<Longrightarrow> strictly_below p q \<Longrightarrow> fs_view w q = None"
proof -
  obtain cs where cs: "p = render cs" "look w cs = Some FtDirectory" "path_of w p = Some cs" "list_all component cs"
    using assms(1) by (rule view_rendered)
  have call: "(e, w') = (if fs_children w cs = [] then (0, fs_unlink cs w) else (136, w))"
    using assms cs(3) by (auto simp: fs_rmdir_def)
  show "fs_view w' = (if e = 0 then (fs_view w)(p := None) else fs_view w)"
  proof (cases "fs_children w cs = []")
    case True
    then show ?thesis
      using call fs_view_unlink [OF cs(4) no_children_below [OF True]] cs(1) by simp
  next
    case False
    then show ?thesis
      using call by simp
  qed
  show "fs_view w q = None" if e: "e = 0" and q: "strictly_below p q"
  proof (rule ccontr)
    assume "fs_view w q \<noteq> None"
    then obtain ds where "look w ds = fs_view w q" "strict_prefix cs ds"
      using below_view [OF cs(2), of q] q cs(1) by auto
    then show False
      using no_children_below [of w cs ds] call e \<open>fs_view w q \<noteq> None\<close> by (simp split: if_splits)
  qed
qed

lemma remove_unlinks:
  assumes "fs_view w p = Some k" "k \<noteq> FtDirectory"
  shows "fs_remove p w = (e, w') \<Longrightarrow> fs_view w' = (if e = 0 then (fs_view w)(p := None) else fs_view w)"
    "strictly_below p q \<Longrightarrow> fs_view w q = None"
    "fst (fs_remove p w) = 0"
proof -
  obtain cs where cs: "p = render cs" "look w cs = Some k" "path_of w p = Some cs" "list_all component cs"
    using assms(1) by (rule view_rendered)
  have none: "look w ds = None" if "strict_prefix cs ds" for ds
    using look_parent [of w ds _ cs] that cs(2) assms(2) by (cases "look w ds") auto
  show "fs_view w' = (if e = 0 then (fs_view w)(p := None) else fs_view w)" if "fs_remove p w = (e, w')"
    using that cs assms(2) fs_view_unlink [OF cs(4) none] by (auto simp: fs_remove_def)
  show "fs_view w q = None" if "strictly_below p q"
    using below_view [OF cs(2), of q] that cs(1) none by (cases "fs_view w q") fastforce+
  show "fst (fs_remove p w) = 0"
    using cs assms(2) by (simp add: fs_remove_def)
qed

lemma listed_names:
  assumes "fs_view w p = Some FtDirectory" "fs_list p w = Some ns"
  shows "distinct ns" "n \<in> set ns \<Longrightarrow> n \<noteq> ''.'' \<Longrightarrow> n \<noteq> ''..'' \<Longrightarrow> plain_name n \<and> fs_view w (zusf_join_path p n) \<noteq> None"
    "strictly_below p q \<Longrightarrow> fs_view w q = Some k \<Longrightarrow> \<exists>n. n \<in> set ns \<and> n \<noteq> ''.'' \<and> n \<noteq> ''..'' \<and> below (zusf_join_path p n) q"
proof -
  obtain cs where cs: "p = render cs" "look w cs = Some FtDirectory" "path_of w p = Some cs" "list_all component cs"
    using assms(1) by (rule view_rendered)
  have ns: "ns = ''.'' # ''..'' # fs_children w cs"
    using assms cs(3) by (auto simp: fs_list_def)
  have comp: "component n" if "n \<in> set (fs_children w cs)" for n
    using that look_component [of w "cs @ [n]"] by (auto simp: in_children)
  show "distinct ns"
    using comp by (auto simp: ns fs_children_def component_def)
  show "plain_name n \<and> fs_view w (zusf_join_path p n) \<noteq> None" if "n \<in> set ns" "n \<noteq> ''.''" "n \<noteq> ''..''"
  proof -
    have n: "n \<in> set (fs_children w cs)"
      using that ns by simp
    then show ?thesis
      using comp [OF n] fs_view_render [of "cs @ [n]" w] cs(1,4)
      by (simp add: in_children join_component plain_name_def component_def)
  qed
  show "\<exists>n. n \<in> set ns \<and> n \<noteq> ''.'' \<and> n \<noteq> ''..'' \<and> below (zusf_join_path p n) q"
    if q: "strictly_below p q" "fs_view w q = Some k"
  proof -
    obtain ds where ds: "q = render ds" "look w ds = Some k" "strict_prefix cs ds"
      using below_view [OF cs(2), of q] q cs(1) by auto
    obtain e es where e: "ds = cs @ e # es"
      using ds(3) by (rule strict_prefixE')
    have comps: "list_all component (cs @ [e])" "list_all component ds"
      using look_component [OF ds(2)] e by simp_all
    have "look w (cs @ [e]) \<noteq> None"
      using ds(2) look_parent [OF ds(2), of "cs @ [e]"] e by (cases es) (auto simp: strict_prefix_def prefix_def)
    moreover have "below (render (cs @ [e])) q"
      using below_render [OF comps] ds(1) e by (cases es) (auto simp: below_def strict_prefix_def prefix_def)
    ultimately show ?thesis
      using comps(1) ns join_component [OF cs(4)] cs(1) by (intro exI [of _ e]) (auto simp: in_children component_def)
  qed
qed

interpretation map_fs: open_tree map_px fs_view
proof unfold_locales
  show "nul_char \<notin> set p" if "fs_view w p = Some k" for w p k
    using that render_nul by (auto elim: view_rendered)
  show "px_list map_px p w = Some ns \<Longrightarrow> distinct ns" if "fs_view w p = Some FtDirectory" for w p ns
    using listed_names(1) [OF that] by (simp add: map_px_def)
  show "plain_name n \<and> fs_view w (zusf_join_path p n) \<noteq> None"
    if "fs_view w p = Some FtDirectory" "px_list map_px p w = Some ns" "n \<in> set ns" "n \<noteq> ''.''" "n \<noteq> ''..''" for w p ns n
    using listed_names(2) [of w p ns n] that by (simp add: map_px_def)
  show "\<exists>n. n \<in> set ns \<and> n \<noteq> ''.'' \<and> n \<noteq> ''..'' \<and> below (zusf_join_path p n) q"
    if "fs_view w p = Some FtDirectory" "px_list map_px p w = Some ns" "strictly_below p q" "fs_view w q = Some k" for w p ns q k
    using listed_names(3) [of w p ns q k] that by (simp add: map_px_def)
  show "\<exists>ns. px_list map_px p w = Some ns" if "fs_view w p = Some FtDirectory" for w p
    using that by (auto simp: map_px_def fs_list_def elim!: view_rendered)
  show "fs_view w' = (if e = 0 then (fs_view w)(p := None) else fs_view w)"
    if "fs_view w p = Some FtDirectory" "px_rmdir map_px p w = (e, w')" for w p e w'
    using rmdir_unlinks(1) [of w p e w'] that by (simp add: map_px_def)
  show "fs_view w q = None" if "fs_view w p = Some FtDirectory" "px_rmdir map_px p w = (0, w')" "strictly_below p q" for w p w' q
    using rmdir_unlinks(2) [of w p 0 w' q] that by (simp add: map_px_def)
  show "fst (px_rmdir map_px p w) = 0"
    if dir: "fs_view w p = Some FtDirectory" and none: "\<And>q. strictly_below p q \<Longrightarrow> fs_view w q = None" for w p
  proof -
    obtain cs where cs: "p = render cs" "look w cs = Some FtDirectory" "path_of w p = Some cs" "list_all component cs"
      using dir by (rule view_rendered)
    have "look w (cs @ [n]) = None" for n
    proof (rule ccontr)
      assume "look w (cs @ [n]) \<noteq> None"
      then have n: "list_all component (cs @ [n])" "fs_view w (render (cs @ [n])) \<noteq> None"
        using look_component fs_view_render by (auto simp del: list_all_append)
      have "strictly_below p (render (cs @ [n]))"
        unfolding cs(1) using below_render [OF cs(4) n(1)] by (simp add: strict_prefix_def)
      from none [OF this] n(2) show False
        by simp
    qed
    then have "fs_children w cs = []"
      using in_children [of _ w cs] by (cases "fs_children w cs") auto
    then show ?thesis
      using dir cs(3) by (simp add: map_px_def fs_rmdir_def)
  qed
qed (auto simp: map_px_def fs_lstat_def fs_stat_def dest: remove_unlinks)

lemma finite_view: "finite (dom (fs_view w))"
proof -
  have "dom (fs_view w) \<subseteq> render ` fst ` set w"
  proof
    fix p
    assume "p \<in> dom (fs_view w)"
    then obtain cs k where "p = render cs" "look w cs = Some k"
      by (auto simp: fs_view_iff)
    then show "p \<in> render ` fst ` set w"
      by (force simp: look_def dest: map_of_SomeD split: if_splits)
  qed
  then show ?thesis
    by (rule finite_subset) simp
qed

section \<open>The deletion of a tree\<close>

text \<open>C29: Deleting an entry always returns, and whatever the system refuses, nothing outside the tree below the
  path changes, nothing appears, and a link is removed itself, not what it points to; the return code is 0
  only when the whole tree is gone, and otherwise the entry itself is still there.\<close>

theorem deletion_is_confined:
  assumes "posix_tree px view" "finite (dom (view w))" "view w p \<noteq> None"
  shows "case zusf_delete_uss_item px p r z w of None \<Rightarrow> False | Some (rc, z', w') \<Rightarrow>
    (\<forall>q. view w' q = view w q \<or> below p q \<and> view w' q = None) \<and>
    (if rc = 0 then (\<forall>q. view w' q = (if below p q then None else view w q)) else rc = RTNCD_FAILURE \<and> view w' p = view w p)"
proof -
  obtain rc z' w' where "zusf_delete_uss_item px p r z w = Some (rc, z', w')" "posix_tree.deleted view p w rc w'"
    using posix_tree.delete_outcome [OF assms] by blast
  then show ?thesis
    unfolding posix_tree.deleted_def [OF assms(1)] by (auto split: if_splits)
qed

text \<open>When the system refuses nothing, the recursive deletion of a directory, or the deletion of any other
  entry, succeeds: afterwards exactly the tree below the path is gone.\<close>

theorem deletion_succeeds:
  assumes "open_tree px view" "finite (dom (view w))" "view w p \<noteq> None"
  shows "case zusf_delete_uss_item px p (view w p = Some FtDirectory) z w of None \<Rightarrow> False | Some (rc, z', w') \<Rightarrow>
    rc = 0 \<and> (\<forall>q. view w' q = (if below p q then None else view w q))"
proof -
  have tree: "posix_tree px view"
    using assms(1) by (simp add: open_tree_def)
  obtain z' w' where "zusf_delete_uss_item px p (view w p = Some FtDirectory) z w = Some (0, z', w')"
      "posix_tree.deleted view p w 0 w'"
    using open_tree.delete_complete [OF assms] by blast
  then show ?thesis
    unfolding posix_tree.deleted_def [OF tree] by auto
qed

definition demo_fs :: map_fs where
  "demo_fs = [([], FtDirectory), ([''d''], FtDirectory), ([''d'', ''l''], FtLink), ([''d'', ''s''], FtDirectory),
     ([''d'', ''s'', ''f''], FtRegular), ([''e''], FtRegular)]"

lemma demo_view: "fs_view demo_fs ''/d'' = Some FtDirectory" "fs_view demo_fs ''/e'' = Some FtRegular" "fs_view demo_fs ''/d/s/f'' = Some FtRegular"
  by code_simp+

lemma demo_below: "below ''/d'' ''/d/s/f''" "\<not> below ''/d'' ''/e''"
  by (simp_all add: below_def strictly_below_def zusf_join_path_def)

theorem deletion_is_confined_witness:
  "case zusf_delete_uss_item map_px ''/d'' True blank_zusf demo_fs of None \<Rightarrow> False | Some (rc, z', w') \<Rightarrow>
    fs_view w' ''/e'' = Some FtRegular"
  using deletion_is_confined [OF map_fs.posix_tree_axioms finite_view, of demo_fs "''/d''" True blank_zusf] demo_view demo_below
  by (auto split: option.splits) metis

theorem deletion_succeeds_witness:
  "case zusf_delete_uss_item map_px ''/d'' True blank_zusf demo_fs of None \<Rightarrow> False | Some (rc, z', w') \<Rightarrow>
    rc = 0 \<and> fs_view w' ''/d/s/f'' = None \<and> fs_view w' ''/e'' = Some FtRegular"
  using deletion_succeeds [OF map_fs.open_tree_axioms finite_view, of demo_fs "''/d''" blank_zusf] demo_view demo_below
  by (auto split: option.splits)

end
