(* ===== verification/ZutServices.thy ===== *)
theory ZutServices
  imports ZutProcess
begin

text \<open>
  The utilities that ask a z/OS service (\<open>zut.cpp\<close>): dynamic allocation through BPXWDYN, system
  symbols, subsystems, parmlib, the current user and code page conversion with \<open>iconv\<close>.  Each service is
  an argument that takes the world and changes it.
\<close>

section \<open>Dynamic allocation\<close>

record bpxwdyn_response =
  bpx_rc :: int
  bpx_code :: u32
  bpx_text :: string
  bpx_ddname :: string
  bpx_dsname :: string

text \<open>\<open>ZUTWDYN\<close> with the two request bits.  The parameter text is copied by \<open>sprintf\<close> into a field of
  260 characters; \<open>None\<close> is a text that runs past its end.\<close>

type_synonym 'w bpxwdyn_service = "bool \<Rightarrow> bool \<Rightarrow> string \<Rightarrow> 'w \<Rightarrow> bpxwdyn_response \<times> 'w"

definition RET_ARG_MAX_LEN :: nat where
  "RET_ARG_MAX_LEN = 260"

definition zut_bpxwdyn_common :: "'w bpxwdyn_service \<Rightarrow> string \<Rightarrow> string \<Rightarrow> string \<Rightarrow> 'w \<Rightarrow> (bpxwdyn_response \<times> 'w) option" where
  "zut_bpxwdyn_common z parm ddname dsname w =
     (let text = c_string parm; rtdd = (ddname = ''RTDDN''); rtdsn = (\<not> rtdd \<and> dsname = ''RTDSN'') in
      if length text \<ge> RET_ARG_MAX_LEN then None
      else (case z rtdd rtdsn text w of (r, w) \<Rightarrow>
        Some (r\<lparr>bpx_ddname := (if rtdd then c_string (bpx_ddname r) else ddname),
                bpx_dsname := (if rtdsn then c_string (bpx_dsname r) else dsname),
                bpx_text := c_string (bpx_text r)\<rparr>, w)))"

definition zut_bpxwdyn :: "'w bpxwdyn_service \<Rightarrow> string \<Rightarrow> 'w \<Rightarrow> (bpxwdyn_response \<times> 'w) option" where
  "zut_bpxwdyn z parm = zut_bpxwdyn_common z parm [] []"

definition zut_bpxwdyn_rtdd :: "'w bpxwdyn_service \<Rightarrow> string \<Rightarrow> 'w \<Rightarrow> (bpxwdyn_response \<times> 'w) option" where
  "zut_bpxwdyn_rtdd z parm = zut_bpxwdyn_common z parm ''RTDDN'' []"

definition zut_bpxwdyn_rtdsn :: "'w bpxwdyn_service \<Rightarrow> string \<Rightarrow> 'w \<Rightarrow> (bpxwdyn_response \<times> 'w) option" where
  "zut_bpxwdyn_rtdsn z parm = zut_bpxwdyn_common z parm [] ''RTDSN''"

definition ZUT_RTNCD_SERVICE_FAILURE :: int where
  "ZUT_RTNCD_SERVICE_FAILURE = -2"

definition dynalloc_failed :: "int \<Rightarrow> string \<Rightarrow> zdiag \<Rightarrow> zdiag" where
  "dynalloc_failed rc alloc d = set_msg (''bpxwdyn failed with '' @ in_quotes ''bpxwdyn'' @ '' rc: '' @ in_quotes (show_int rc) @
       '', emsg: '' @ in_quotes (c_string alloc))
     (d\<lparr>detail_rc := ZUT_RTNCD_SERVICE_FAILURE, service_rc := rc, service_name := ''bpxwdyn''\<rparr>)"

fun zut_loop_dynalloc :: "'w bpxwdyn_service \<Rightarrow> string list \<Rightarrow> zdiag \<Rightarrow> 'w \<Rightarrow> (int \<times> zdiag \<times> 'w) option" where
  "zut_loop_dynalloc z [] d w = Some (0, d, w)"
| "zut_loop_dynalloc z (alloc # rest) d w = (case zut_bpxwdyn z alloc w of
     None \<Rightarrow> None
   | Some (r, w) \<Rightarrow> (if bpx_rc r \<noteq> 0 then Some (RTNCD_FAILURE, dynalloc_failed (bpx_rc r) alloc d, w)
       else zut_loop_dynalloc z rest d w))"

text \<open>\<open>std::string::find\<close>: where a text starts to occur.\<close>

fun find_text :: "string \<Rightarrow> string \<Rightarrow> nat option" where
  "find_text t [] = (if t = [] then Some 0 else None)"
| "find_text t (c # s) = (if take (length t) (c # s) = t then Some 0 else map_option Suc (find_text t s))"

text \<open>The \<open>dd(...)\<close> part of an allocation.\<close>

definition dd_part :: "string \<Rightarrow> string option" where
  "dd_part entry = (case find_text ''dd('' entry of
     None \<Rightarrow> None
   | Some i \<Rightarrow> (case find_text '')'' (drop (i + 3) entry) of
       None \<Rightarrow> None | Some j \<Rightarrow> Some (take (j + 4) (drop i entry))))"

fun free_requests :: "string list \<Rightarrow> string + string list" where
  "free_requests [] = Inr []"
| "free_requests (entry # rest) = (case dd_part entry of
     None \<Rightarrow> Inl entry | Some dd \<Rightarrow> map_sum id (\<lambda>ds. (''free '' @ dd) # ds) (free_requests rest))"

definition zut_free_dynalloc_dds :: "'w bpxwdyn_service \<Rightarrow> string list \<Rightarrow> zdiag \<Rightarrow> 'w \<Rightarrow> (int \<times> zdiag \<times> 'w) option" where
  "zut_free_dynalloc_dds z list d w = (case free_requests list of
     Inl entry \<Rightarrow> Some (RTNCD_FAILURE, set_msg (''Invalid format in DD alloc string: '' @ c_string entry) d, w)
   | Inr frees \<Rightarrow> zut_loop_dynalloc z frees d w)"

definition zut_alloc_debug :: "'w bpxwdyn_service \<Rightarrow> int \<Rightarrow> 'w \<Rightarrow> (int \<times> 'w) option" where
  "zut_alloc_debug z pid w = map_option (\<lambda>(r, w). (bpx_rc r, w))
     (zut_bpxwdyn z (''alloc fi(zowexdbg) path('' @ in_quotes (''/tmp/zowex_debug_'' @ show_int pid @ ''.txt'') @
       '') pathopts(owronly,ocreat) pathmode(sirusr,siwusr,sirgrp) filedata(text) msg(2)'') w)"

section \<open>Queries\<close>

text \<open>\<open>ZUTSYMBP\<close> gives a return code and the substituted text; the input field has 128 characters.  A
  pattern of exactly 128 characters passes the check although its NUL does not fit.\<close>

definition zut_substitute_symbol :: "(string \<Rightarrow> int \<times> string) \<Rightarrow> bool \<Rightarrow> string \<Rightarrow> string \<Rightarrow> int \<times> string" where
  "zut_substitute_symbol symbp storage pattern result =
     (if \<not> storage \<or> length pattern > 128 then (RTNCD_FAILURE, result)
      else (case symbp (c_string pattern) of (rc, output) \<Rightarrow>
        if rc \<noteq> RTNCD_SUCCESS then (rc, result) else (RTNCD_SUCCESS, result @ c_string output)))"

definition zut_get_current_user :: "int \<times> string \<Rightarrow> string \<Rightarrow> int \<times> string" where
  "zut_get_current_user answer struser = (case answer of (rc, user) \<Rightarrow>
     if rc \<noteq> 0 then (rc, struser) else (rc, zut_rtrim '' '' (c_string user)))"

definition upper_hex :: "byte \<Rightarrow> string" where
  "upper_hex b = [zut_get_hex_char (int (unat b) div 16), zut_get_hex_char (int (unat b))]"

definition subsystem_name :: "byte list \<Rightarrow> string" where
  "subsystem_name name = (if list_all (\<lambda>b. is_print (char_of_byte b)) name then map char_of_byte name
     else ''x'' @ in_quotes (concat (map upper_hex name)))"

definition zut_list_subsystems :: "int \<times> byte list list \<Rightarrow> string list \<Rightarrow> int \<times> string list" where
  "zut_list_subsystems answer subsystems = (case answer of (rc, entries) \<Rightarrow>
     if rc \<noteq> 0 then (rc, subsystems) else (rc, subsystems @ map subsystem_name entries))"

definition MAX_PARMLIB_DSNS :: nat where
  "MAX_PARMLIB_DSNS = 11"

definition zut_list_parmlib :: "int \<times> int \<times> string list \<Rightarrow> string list \<Rightarrow> int \<times> string list" where
  "zut_list_parmlib answer parmlibs = (case answer of (rc, num_dsns, dsns) \<Rightarrow>
     if rc \<noteq> 0 then (rc, parmlibs)
     else (rc, parmlibs @ take (if num_dsns < 0 then 0 else if num_dsns > int MAX_PARMLIB_DSNS then MAX_PARMLIB_DSNS else nat num_dsns) dsns))"

definition zut_convert_date :: "int \<times> string \<Rightarrow> int \<times> string" where
  "zut_convert_date answer = (case answer of (rc, buffer) \<Rightarrow> (rc, if rc = 0 then c_string buffer else []))"

definition zut_hello :: "string \<Rightarrow> string" where
  "zut_hello name = (if name = [] then ''Hello world!'' else ''Hello '' @ name) @ [newline]"

section \<open>Code page conversion\<close>

text \<open>\<open>iconv\<close> on a descriptor in the state \<open>'s\<close>: the bytes to convert, or none to reset the shift state,
  and the room for the output.  It answers whether it failed, how much of the input is left, what it
  wrote, and \<open>errno\<close>.\<close>

record conversion =
  conv_failed :: bool
  conv_left :: nat
  conv_output :: string
  conv_errno :: int

type_synonym 's iconv = "'s \<Rightarrow> string option \<Rightarrow> nat \<Rightarrow> conversion \<times> 's"

definition minus_one_size :: string where
  "minus_one_size = ''18446744073709551615''"

definition rc_errno :: "string \<Rightarrow> int \<Rightarrow> string" where
  "rc_errno rc errno = ''rc='' @ rc @ '',errno='' @ show_int errno"

text \<open>The outcome: the message of the error, or the output; and the descriptor afterwards.  The return
  code of a conversion that succeeds is the number of characters converted irreversibly, here 0.\<close>

definition zut_iconv :: "'s iconv \<Rightarrow> bool \<Rightarrow> nat \<Rightarrow> string \<Rightarrow> 's \<Rightarrow> (string + string) \<times> 's" where
  "zut_iconv cd flush_state room input s = (case cd s (Some input) room of (r, s) \<Rightarrow>
     if conv_failed r then (Inl (''[zut_iconv] Error when converting characters. '' @ rc_errno minus_one_size (conv_errno r)), s)
     else if conv_left r \<noteq> 0 then (Inl (''[zut_iconv] Failed to convert all input bytes. '' @ rc_errno ''0'' (conv_errno r)), s)
     else if flush_state then (case cd s None (room - length (conv_output r)) of (f, s) \<Rightarrow>
       if conv_failed f then (Inl (''[zut_iconv] Error flushing shift state. '' @ rc_errno minus_one_size (conv_errno f)), s)
       else (Inr (conv_output r @ conv_output f), s))
     else (Inr (conv_output r), s))"

definition zut_iconv_flush :: "'s iconv \<Rightarrow> 's \<Rightarrow> zdiag \<Rightarrow> string \<times> zdiag \<times> 's" where
  "zut_iconv_flush cd s d = (case cd s None 16 of (f, s) \<Rightarrow>
     if conv_failed f then ([], set_msg (''[zut_iconv_flush] Error flushing shift state. '' @ rc_errno minus_one_size (conv_errno f)) d, s)
     else (conv_output f, d, s))"

text \<open>\<open>iconv_open\<close> by the names of the code pages gives a descriptor or fails.  An exception is \<open>Inl\<close>; the
  diagnostics change in every case that fails.\<close>

type_synonym 's iconv_lib = "string \<Rightarrow> string \<Rightarrow> ('s iconv \<times> 's) option"

definition zut_encode :: "'s iconv_lib \<Rightarrow> string \<Rightarrow> string \<Rightarrow> string \<Rightarrow> zdiag \<Rightarrow> string result \<times> zdiag" where
  "zut_encode lib input from_encoding to_encoding d =
     (if from_encoding = to_encoding then (Ok input, d)
      else (case lib to_encoding from_encoding of
        None \<Rightarrow> (Ok [], set_msg (''Cannot open converter from '' @ c_string from_encoding @ '' to '' @ c_string to_encoding) d)
      | Some (cd, s) \<Rightarrow> (case zut_iconv cd True (length input * 4) input s of
          (Inl msg, s) \<Rightarrow> (Throw msg, set_msg msg d)
        | (Inr out, s) \<Rightarrow> (Ok out, d))))"

definition zut_encode_chunk :: "'s iconv \<Rightarrow> string \<Rightarrow> 's \<Rightarrow> zdiag \<Rightarrow> string result \<times> 's \<times> zdiag" where
  "zut_encode_chunk cd input s d = (case zut_iconv cd False (length input * 4) input s of
     (Inl msg, s) \<Rightarrow> (Throw msg, s, set_msg msg d)
   | (Inr out, s) \<Rightarrow> (Ok out, s, d))"

section \<open>Allocation messages\<close>

lemma in_quotes_length [simp]: "length (in_quotes s) = length s + 2"
  by (simp add: in_quotes_def)

lemma find_text_decomp: "find_text t s = Some i \<Longrightarrow> s = take i s @ t @ drop (i + length t) s"
proof (induction t s arbitrary: i rule: find_text.induct)
  case (2 t c s)
  show ?case
  proof (cases "take (length t) (c # s) = t")
    case True
    then show ?thesis
      using 2 append_take_drop_id [of "length t" "c # s"] by simp
  next
    case False
    with 2 obtain j where "find_text t s = Some j" "i = Suc j"
      by auto
    with 2 False show ?thesis
      by simp
  qed
qed (simp split: if_splits)

lemma nul_char_iff: "nul_char = c \<longleftrightarrow> code c = 0"
  using code_inj [of nul_char c] by (auto simp: nul_char_def)

lemma find_char: "CHR '')'' \<notin> set name \<Longrightarrow> find_text '')'' (name @ CHR '')'' # post) = Some (length name)"
  by (induction name) auto

lemma dd_part_exact:
  assumes "find_text ''dd('' (pre @ ''dd('' @ name @ '')'' @ post) = Some (length pre)" "CHR '')'' \<notin> set name"
  shows "dd_part (pre @ ''dd('' @ name @ '')'' @ post) = Some (''dd('' @ name @ '')'')"
  using assms find_char [of name post] by (simp add: dd_part_def numeral_eq_Suc)

lemma dd_part_example: "dd_part ''alloc dd(sysin) da(MY.DATA) shr'' = Some ''dd(sysin)''"
  by code_simp

text \<open>An allocation text of more than 259 characters is written past the end of the service's parameter; a
  shorter one is passed on, but from 209 characters the message about its failure no longer fits
  the 256 bytes of the diagnostics.\<close>

theorem allocation_text_bounds:
  assumes "length alloc \<ge> 209" "nul_char \<notin> set alloc" "bpx_rc (fst (z False False alloc w)) \<noteq> 0"
  shows "case zut_loop_dynalloc z [alloc] d w of
      None \<Rightarrow> length alloc \<ge> 260
    | Some (rc, d', w') \<Rightarrow> length alloc < 260 \<and> rc = RTNCD_FAILURE \<and> \<not> msg_fits d'"
proof -
  have c: "c_string alloc = alloc"
    using assms(2) unfolding c_string_def by (intro takeWhile_eq_all_conv [THEN iffD2]) auto
  have one: "length (show_int i) \<ge> 1" for i
    using show_int_nonempty [of i] by (cases "show_int i") auto
  have "\<not> length (diag_msg (dynalloc_failed rc alloc d)) < 256" for rc
    using assms(1) one [of rc] by (simp add: dynalloc_failed_def set_msg_def c)
  then show ?thesis
    using assms c one by (auto simp: zut_bpxwdyn_def zut_bpxwdyn_common_def RET_ARG_MAX_LEN_def msg_fits_def Let_def
        split: prod.splits)
qed

text \<open>A service that always fails, and an allocation of 215 characters.\<close>

definition refusing :: "unit bpxwdyn_service" where
  "refusing rtdd rtdsn text w = (\<lparr>bpx_rc = 8, bpx_code = 0, bpx_text = [], bpx_ddname = [], bpx_dsname = []\<rparr>, w)"

theorem allocation_text_bounds_witness:
  "case zut_loop_dynalloc refusing [''alloc da('' @ replicate 205 (CHR ''A'') @ '')''] blank_diag () of
     None \<Rightarrow> False | Some (rc, d', w') \<Rightarrow> rc = RTNCD_FAILURE \<and> \<not> msg_fits d'"
proof -
  define alloc where "alloc = ''alloc da('' @ replicate 205 (CHR ''A'') @ '')''"
  have "nul_char \<notin> set alloc" "length alloc = 215"
    by (auto simp: alloc_def nul_char_iff code_def)
  then show ?thesis
    using allocation_text_bounds [of alloc refusing "()" blank_diag] unfolding alloc_def [symmetric]
    by (auto simp: refusing_def split: option.splits)
qed

end
