(* ===== verification/ZusfData.thy ===== *)
theory ZusfData
  imports Zusf ZutServices Base64
begin

text \<open>
  Reading and writing USS files (\<open>zusf.cpp\<close>), whole or streamed through a named pipe in Base64, with the
  choice of the encoding, the e-tag check and the conversion by \<open>iconv\<close>.
\<close>

section \<open>The encoding\<close>

text \<open>The text encoding of a request: the code page given, else the tag of the file unless that is UTF-8 or
  binary.  Looking for the tag may leave a message in the diagnostics.\<close>

definition select_encoding :: "'w posix \<Rightarrow> string \<Rightarrow> zusf_rec \<Rightarrow> 'w \<Rightarrow> string option \<times> zusf_rec" where
  "select_encoding px file z w =
     (if data_type (zu_encoding z) = eDataTypeText then
        if codepage (zu_encoding z) \<noteq> [] then (Some (codepage (zu_encoding z)), z)
        else (case zusf_get_file_ccsid px file z w of (file_ccsid, z) \<Rightarrow>
          (if file_ccsid > 0 \<and> file_ccsid \<noteq> 1208 \<and> file_ccsid \<noteq> 65535 then Some (show_int file_ccsid) else None, z))
      else (None, z))"

definition source_encoding :: "zusf_rec \<Rightarrow> string" where
  "source_encoding z = (if source_codepage (zu_encoding z) \<noteq> [] then source_codepage (zu_encoding z) else ''UTF-8'')"

definition conversion_message :: "string \<Rightarrow> string \<Rightarrow> string" where
  "conversion_message from_encoding to_encoding =
     ''Failed to convert input data from '' @ c_string from_encoding @ '' to '' @ c_string to_encoding"

definition converter_message :: "string \<Rightarrow> string \<Rightarrow> string" where
  "converter_message from_encoding to_encoding =
     ''Cannot open converter from '' @ c_string from_encoding @ '' to '' @ c_string to_encoding"

section \<open>Reading a file\<close>

text \<open>The answer has the response, which starts as the given text.\<close>

definition zusf_read_from_uss_file ::
  "'w posix \<Rightarrow> 's iconv_lib \<Rightarrow> string \<Rightarrow> string \<Rightarrow> zusf_rec \<Rightarrow> 'w \<Rightarrow> int \<times> zusf_rec \<times> string" where
  "zusf_read_from_uss_file px lib file response z w = (case px_read px (c_string file) w of
     None \<Rightarrow> (RTNCD_FAILURE, z\<lparr>zu_diag := set_msg (''Could not open file '' @ quoted_path file) (zu_diag z)\<rparr>, response)
   | Some raw_data \<Rightarrow> (case select_encoding px file z w of
       (None, z) \<Rightarrow> (RTNCD_SUCCESS, z, raw_data)
     | (Some enc, z) \<Rightarrow>
       if raw_data = [] then (RTNCD_SUCCESS, z, raw_data)
       else (case zut_encode lib raw_data enc (source_encoding z) (zu_diag z) of
           (Inl e, d) \<Rightarrow> (RTNCD_FAILURE, z\<lparr>zu_diag := set_msg (conversion_message (source_encoding z) enc) d\<rparr>, raw_data)
         | (Inr text, d) \<Rightarrow> (RTNCD_SUCCESS, z\<lparr>zu_diag := d\<rparr>, if text \<noteq> [] then text else raw_data))))"

section \<open>Pieces of a stream\<close>

definition FIFO_CHUNK_SIZE :: nat where
  "FIFO_CHUNK_SIZE = 32768"

text \<open>What successive calls of \<open>fread\<close> give.\<close>

function chunks_of :: "nat \<Rightarrow> 'a list \<Rightarrow> 'a list list" where
  "chunks_of n xs = (if n = 0 \<or> xs = [] then [] else take n xs # chunks_of n (drop n xs))"
  by pat_completeness auto
termination
  by (relation "measure (\<lambda>(n, xs). length xs)") auto

declare chunks_of.simps [simp del]

text \<open>The conversion of one piece with the descriptor that is open for the whole stream, if any.\<close>

definition convert_piece ::
  "('s iconv \<times> 's) option \<Rightarrow> string \<Rightarrow> zdiag \<Rightarrow> (string \<times> ('s iconv \<times> 's) option \<times> zdiag) option" where
  "convert_piece cd piece d = (case cd of
     None \<Rightarrow> Some (piece, None, d)
   | Some (c, s) \<Rightarrow> (case zut_encode_chunk c piece s d of
       (Inl e, s', d') \<Rightarrow> None
     | (Inr out, s', d') \<Rightarrow> Some (out, Some (c, s'), d')))"

text \<open>The bytes that reset the shift state; \<open>Inl\<close> when the stream ends in failure here.\<close>

definition finish_conversion :: "('s iconv \<times> 's) option \<Rightarrow> zdiag \<Rightarrow> zdiag + string \<times> zdiag" where
  "finish_conversion cd d = (case cd of
     None \<Rightarrow> Inr ([], d)
   | Some (c, s) \<Rightarrow> (case zut_iconv_flush c s d of (out, d', s') \<Rightarrow>
       if out = [] \<and> diag_msg_len d' > 0 then Inl d' else Inr (out, d')))"

section \<open>Reading through a pipe\<close>

text \<open>The loop over the pieces: whether every piece could be converted, the descriptor, the bytes left over by
  the Base64 encoder, the diagnostics, the length so far and what was written to the pipe.\<close>

fun send_chunks ::
  "string list \<Rightarrow> ('s iconv \<times> 's) option \<Rightarrow> byte list \<Rightarrow> zdiag \<Rightarrow> nat \<Rightarrow> byte list \<Rightarrow>
    bool \<times> ('s iconv \<times> 's) option \<times> byte list \<times> zdiag \<times> nat \<times> byte list" where
  "send_chunks [] cd left_over d content_len sent = (True, cd, left_over, d, content_len, sent)"
| "send_chunks (chunk # chunks) cd left_over d content_len sent = (case convert_piece cd chunk d of
     None \<Rightarrow> (False, cd, left_over, d, content_len, sent)
   | Some (out, cd', d') \<Rightarrow> (case encode_chunk (Some left_over) (bytes_of out) of (encoded, left_over') \<Rightarrow>
       send_chunks chunks cd' (the left_over') d' (content_len + length out) (sent @ encoded)))"

record stream_read =
  read_rc :: int
  read_zusf :: zusf_rec
  read_announced :: "64 word option"
  read_len :: nat
  read_sent :: "byte list"

definition read_failed :: "string \<Rightarrow> zusf_rec \<Rightarrow> 64 word option \<Rightarrow> nat \<Rightarrow> byte list \<Rightarrow> stream_read" where
  "read_failed msg z announced content_len sent = \<lparr>read_rc = RTNCD_FAILURE, read_zusf = z\<lparr>zu_diag := set_msg msg (zu_diag z)\<rparr>,
     read_announced = announced, read_len = content_len, read_sent = sent\<rparr>"

text \<open>From the first piece on.\<close>

definition send_file :: "string \<Rightarrow> string \<Rightarrow> string \<Rightarrow> ('s iconv \<times> 's) option \<Rightarrow> zusf_rec \<Rightarrow> 64 word option \<Rightarrow> nat \<Rightarrow> stream_read" where
  "send_file data enc src cd z announced content_len =
     (case send_chunks (chunks_of (FIFO_CHUNK_SIZE * 3 div 4) data) cd [] (zu_diag z) content_len [] of
        (False, cd, left_over, d, content_len, sent) \<Rightarrow>
          read_failed (conversion_message enc src) (z\<lparr>zu_diag := d\<rparr>) announced content_len sent
      | (True, cd, left_over, d, content_len, sent) \<Rightarrow> (case finish_conversion cd d of
          Inl d \<Rightarrow> \<lparr>read_rc = RTNCD_FAILURE, read_zusf = z\<lparr>zu_diag := d\<rparr>, read_announced = announced, read_len = content_len, read_sent = sent\<rparr>
        | Inr (flushed, d) \<Rightarrow>
          (case (if flushed \<noteq> [] then encode_chunk (Some left_over) (bytes_of flushed) else ([], Some left_over)) of (encoded, left_over) \<Rightarrow>
            \<lparr>read_rc = RTNCD_SUCCESS, read_zusf = z\<lparr>zu_diag := d\<rparr>, read_announced = announced, read_len = content_len + length flushed,
             read_sent = sent @ encoded @ encode (the left_over)\<rparr>)))"

text \<open>The length is counted up from its value at the call; without a place for it the request fails.\<close>

definition zusf_read_from_uss_file_streamed ::
  "'w posix \<Rightarrow> 's iconv_lib \<Rightarrow> string \<Rightarrow> string \<Rightarrow> nat option \<Rightarrow> zusf_rec \<Rightarrow> 'w \<Rightarrow> stream_read" where
  "zusf_read_from_uss_file_streamed px lib file pipe content_len z w = (case content_len of
     None \<Rightarrow> read_failed ''content_len must be a valid size_t pointer'' z None 0 []
   | Some len \<Rightarrow> (case px_read px (c_string file) w of
       None \<Rightarrow> read_failed (''Could not open file '' @ quoted_path file) z None len []
     | Some data \<Rightarrow> (case sys_stat px file w of
         Inl e \<Rightarrow> read_failed (''Could not stat file '' @ quoted_path file) z None len []
       | Inr st \<Rightarrow> (case px_fifo px (c_string pipe) w of
           FifoFailed e \<Rightarrow> read_failed (''open() failed on output pipe '' @ quoted_path pipe @ '', errno: '' @ show_int e) z (Some (st_size st)) len []
         | FifoNoStream \<Rightarrow> read_failed (''Could not open output pipe '' @ quoted_path pipe) z (Some (st_size st)) len []
         | FifoOpened _ \<Rightarrow> (case select_encoding px file z w of
             (None, z) \<Rightarrow> send_file data [] [] (None :: ('s iconv \<times> 's) option) z (Some (st_size st)) len
           | (Some enc, z) \<Rightarrow> (case lib (source_encoding z) enc of
               None \<Rightarrow> read_failed (converter_message enc (source_encoding z)) z (Some (st_size st)) len []
             | Some cd \<Rightarrow> send_file data enc (source_encoding z) (Some cd) z (Some (st_size st)) len))))))"

section \<open>Writing a file\<close>

definition ENOENT :: int where
  "ENOENT = 129"

definition etag_of :: "stat_info \<Rightarrow> string" where
  "etag_of st = zut_build_etag (st_mtime st) (st_size st)"

text \<open>The message when the request has an e-tag and the file another one; a file that is not there has none.\<close>

definition etag_mismatch :: "zusf_rec \<Rightarrow> int + stat_info \<Rightarrow> string option" where
  "etag_mismatch z r = (case r of Inl _ \<Rightarrow> None | Inr st \<Rightarrow>
     if zu_etag z \<noteq> [] \<and> etag_of st \<noteq> zu_etag z then
       Some (''Etag mismatch: expected '' @ zu_etag z @ '', actual '' @ etag_of st) else None)"

definition unusable :: "int + stat_info \<Rightarrow> bool" where
  "unusable r = (case r of Inl e \<Rightarrow> e \<noteq> ENOENT | Inr _ \<Rightarrow> False)"

definition is_missing :: "int + stat_info \<Rightarrow> bool" where
  "is_missing r = (case r of Inl _ \<Rightarrow> True | Inr _ \<Rightarrow> False)"

definition space_message :: "string \<Rightarrow> string" where
  "space_message file = ''Failed to write to '' @ quoted_path file @ '' (possibly out of space)''"

text \<open>The common end: the file is tagged, whatever comes of it, and the new e-tag is set.\<close>

definition finish_write ::
  "'w posix \<Rightarrow> (int \<times> string) list \<Rightarrow> string \<Rightarrow> string option \<Rightarrow> string \<Rightarrow> zusf_rec \<Rightarrow> 'w \<Rightarrow> (int \<times> zusf_rec \<times> 'w) option" where
  "finish_write px tbl file enc missing z w =
     Option.bind (case enc of None \<Rightarrow> Some (0, z, w) | Some tag \<Rightarrow> zusf_chtag_uss_file_or_dir px tbl file tag False z w)
       (\<lambda>(rc, z, w). Some (case sys_stat px file w of
          Inl _ \<Rightarrow> zusf_fail missing z w
        | Inr st \<Rightarrow> (RTNCD_SUCCESS, z\<lparr>zu_etag := etag_of st\<rparr>, w)))"

text \<open>Closing the file writes what is buffered; nothing looks at whether that worked.\<close>

definition write_text :: "'w posix \<Rightarrow> string \<Rightarrow> string \<Rightarrow> zusf_rec \<Rightarrow> 'w \<Rightarrow> int \<times> zusf_rec \<times> 'w" where
  "write_text px file text z w = (case px_create px (c_string file) w of (opened, w) \<Rightarrow>
     if \<not> opened then zusf_fail (''Could not open '' @ quoted_path file @ '' for writing'') z w
     else (case (if text = [] then (0, w) else px_append px (c_string file) text w) of (n, w) \<Rightarrow>
       let closed = snd (px_flush px (c_string file) w) in
       if n \<noteq> length text then zusf_fail (space_message file) z closed else (RTNCD_SUCCESS, z, closed)))"

definition zusf_write_to_uss_file ::
  "'w posix \<Rightarrow> 's iconv_lib \<Rightarrow> (int \<times> string) list \<Rightarrow> string \<Rightarrow> string \<Rightarrow> zusf_rec \<Rightarrow> 'w \<Rightarrow> (int \<times> zusf_rec \<times> 'w) option" where
  "zusf_write_to_uss_file px lib tbl file data z w = (let st = sys_stat px file w in
     case etag_mismatch z st of
       Some msg \<Rightarrow> Some (zusf_fail msg z w)
     | None \<Rightarrow>
       if unusable st then Some (RTNCD_FAILURE, z, w)
       else (case select_encoding px file (z\<lparr>zu_created := is_missing st\<rparr>) w of (enc, z) \<Rightarrow>
         (case (case enc of None \<Rightarrow> (Inr data, zu_diag z) | Some e \<Rightarrow> zut_encode lib data (source_encoding z) e (zu_diag z)) of
            (Inl e, d) \<Rightarrow> Some (zusf_fail (conversion_message (source_encoding z) (the enc)) (z\<lparr>zu_diag := d\<rparr>) w)
          | (Inr text, d) \<Rightarrow> (case write_text px file text (z\<lparr>zu_diag := d\<rparr>) w of (rc, z, w) \<Rightarrow>
              if rc \<noteq> 0 then Some (rc, z, w)
              else finish_write px tbl file enc (''Could not stat file '' @ quoted_path file @ '' after writing'') z w))))"

section \<open>Writing through a pipe\<close>

text \<open>How the loop over the pieces ends: with the last piece, with a short write, or in an exception, of the
  conversion, which is caught, or of the Base64 decoder, which is not.\<close>

datatype receive_end = Received | Truncated | NotConverted | BadBase64 exn

fun receive_chunks ::
  "'w posix \<Rightarrow> string \<Rightarrow> string list \<Rightarrow> ('s iconv \<times> 's) option \<Rightarrow> byte list \<Rightarrow> zdiag \<Rightarrow> nat \<Rightarrow> 'w \<Rightarrow>
    receive_end \<times> ('s iconv \<times> 's) option \<times> zdiag \<times> nat \<times> 'w" where
  "receive_chunks px file [] cd left_over d content_len w = (Received, cd, d, content_len, w)"
| "receive_chunks px file (chunk # chunks) cd left_over d content_len w = (case decode_chunk (Some left_over) (bytes_of chunk) of
     Inl e \<Rightarrow> (BadBase64 e, cd, d, content_len, w)
   | Inr (decoded, left_over') \<Rightarrow> (case convert_piece cd (string_of decoded) d of
       None \<Rightarrow> (NotConverted, cd, d, content_len + length decoded, w)
     | Some (out, cd', d') \<Rightarrow> (case px_append px (c_string file) out w of (n, w') \<Rightarrow>
         if n \<noteq> length out then (Truncated, cd', d', content_len + length decoded, w')
         else receive_chunks px file chunks cd' (the left_over') d' (content_len + length decoded) w')))"

text \<open>What becomes of the request: an exception, or the return code with the diagnostics; and the length and the
  state in every case.\<close>

type_synonym 'w stream_write = "(exn + int \<times> zusf_rec) \<times> nat \<times> 'w"

definition write_failed :: "string \<Rightarrow> zusf_rec \<Rightarrow> nat \<Rightarrow> 'w \<Rightarrow> 'w stream_write" where
  "write_failed msg z content_len w = (Inr (RTNCD_FAILURE, z\<lparr>zu_diag := set_msg msg (zu_diag z)\<rparr>), content_len, w)"

definition flush_file ::
  "'w posix \<Rightarrow> (int \<times> string) list \<Rightarrow> string \<Rightarrow> string option \<Rightarrow> bool \<Rightarrow> zusf_rec \<Rightarrow> nat \<Rightarrow> 'w \<Rightarrow> 'w stream_write option" where
  "flush_file px tbl file enc truncated z content_len w = (case px_flush px (c_string file) w of (e, w) \<Rightarrow>
     if truncated \<or> e \<noteq> 0 then Some (write_failed (space_message file) z content_len w)
     else Option.bind (finish_write px tbl file enc (missing_path file) z w)
       (\<lambda>(rc, z, w). Some (Inr (rc, z), content_len, w)))"

definition receive_file ::
  "'w posix \<Rightarrow> (int \<times> string) list \<Rightarrow> string \<Rightarrow> string \<Rightarrow> string option \<Rightarrow> ('s iconv \<times> 's) option \<Rightarrow> zusf_rec \<Rightarrow> nat \<Rightarrow> 'w \<Rightarrow>
    'w stream_write option" where
  "receive_file px tbl file text enc cd z content_len w =
     (case receive_chunks px file (chunks_of FIFO_CHUNK_SIZE text) cd [] (zu_diag z) content_len w of (how, cd, d, content_len, w) \<Rightarrow>
       (case how of
          BadBase64 e \<Rightarrow> Some (Inl e, content_len, w)
        | NotConverted \<Rightarrow> Some (write_failed (conversion_message (source_encoding z) (the enc)) (z\<lparr>zu_diag := d\<rparr>) content_len w)
        | _ \<Rightarrow> (case finish_conversion cd d of
            Inl d \<Rightarrow> Some (Inr (RTNCD_FAILURE, z\<lparr>zu_diag := d\<rparr>), content_len, w)
          | Inr (flushed, d) \<Rightarrow>
            (case (if flushed = [] then (0, w) else px_append px (c_string file) flushed w) of (n, w) \<Rightarrow>
              flush_file px tbl file enc (how = Truncated \<or> n \<noteq> length flushed) (z\<lparr>zu_diag := d\<rparr>) content_len w))))"

definition zusf_write_to_uss_file_streamed ::
  "'w posix \<Rightarrow> 's iconv_lib \<Rightarrow> (int \<times> string) list \<Rightarrow> string \<Rightarrow> string \<Rightarrow> nat option \<Rightarrow> zusf_rec \<Rightarrow> 'w \<Rightarrow> 'w stream_write option" where
  "zusf_write_to_uss_file_streamed px lib tbl file pipe content_len z w = (case content_len of
     None \<Rightarrow> Some (write_failed ''content_len must be a valid size_t pointer'' z 0 w)
   | Some len \<Rightarrow> (case select_encoding px file z w of (enc, z) \<Rightarrow> (let st = sys_stat px file w in
       case etag_mismatch z st of
         Some msg \<Rightarrow> Some (write_failed msg z len w)
       | None \<Rightarrow>
         if unusable st then Some (Inr (RTNCD_FAILURE, z), len, w)
         else (let z = z\<lparr>zu_created := is_missing st\<rparr> in case px_create px (c_string file) w of (opened, w) \<Rightarrow>
           if \<not> opened then Some (write_failed (''Could not open '' @ quoted_path file) z len w)
           else (case px_fifo px (c_string pipe) w of
             FifoFailed e \<Rightarrow> Some (write_failed (''open() failed on input pipe '' @ quoted_path pipe @ '', errno: '' @ show_int e) z len w)
           | FifoNoStream \<Rightarrow> Some (write_failed (''Could not open input pipe '' @ quoted_path pipe) z len w)
           | FifoOpened text \<Rightarrow> (case enc of
               None \<Rightarrow> receive_file px tbl file text None (None :: ('s iconv \<times> 's) option) z len w
             | Some e \<Rightarrow> (case lib e (source_encoding z) of
                 None \<Rightarrow> Some (write_failed (converter_message (source_encoding z) e) z len w)
               | Some cd \<Rightarrow> receive_file px tbl file text enc (Some cd) z len w)))))))"

end
