(* ===== verification/ZusfStore.thy ===== *)
theory ZusfStore
  imports ZusfData
begin

text \<open>
  What reading and writing do to the content of files: the streams through a pipe, the protection by an
  e-tag, an encoding that \<open>iconv\<close> does not know.  The laws of the calls on a file are a locale; a map
  from names to contents satisfies them.
\<close>

section \<open>Pieces\<close>

lemma concat_chunks_of: "0 < n \<Longrightarrow> concat (chunks_of n xs) = xs"
proof (induction n xs rule: chunks_of.induct)
  case (1 n xs)
  then show ?case
    by (subst chunks_of.simps) auto
qed

lemma bytes_of_concat: "bytes_of (concat xss) = concat (map bytes_of xss)"
  by (induction xss) (simp_all add: bytes_of_def)

lemma send_chunks_plain:
  "enc.run left_over (map bytes_of chunks) = Ok (out, left_over') \<Longrightarrow>
    send_chunks chunks None left_over d content_len sent =
      (True, None, left_over', d, content_len + length (concat chunks), sent @ out)"
proof (induction chunks arbitrary: left_over content_len sent out)
  case (Cons c cs)
  obtain out1 lo1 where step: "encode_chunk (Some left_over) (bytes_of c) = (out1, lo1)"
    by (cases "encode_chunk (Some left_over) (bytes_of c)") auto
  then have "enc_step left_over (bytes_of c) = Ok (out1, the lo1)"
    by (simp add: enc_step_def)
  then obtain out2 where "enc.run (the lo1) (map bytes_of cs) = Ok (out2, left_over')" "out = out1 @ out2"
    using Cons.prems by (cases "enc.run (the lo1) (map bytes_of cs)") auto
  then show ?case
    using Cons.IH [of "the lo1" out2] step by (simp add: convert_piece_def)
qed simp

text \<open>The pieces of any size are encoded as a whole.\<close>

lemma send_chunks_whole:
  assumes "concat chunks = data"
  shows "\<exists>left_over sent. send_chunks chunks None [] d content_len [] =
    (True, None, left_over, d, content_len + length data, sent) \<and> sent @ encode left_over = encode (bytes_of data)"
proof -
  let ?c = "bytes_of data" and ?m = "length (bytes_of data) - length (bytes_of data) mod 3"
  have "concat (map bytes_of chunks) = ?c"
    using assms by (simp flip: bytes_of_concat)
  then have run: "enc.run [] (map bytes_of chunks) = Ok (encode (take ?m ?c), drop ?m ?c)"
    using enc.run_total [of "[]" "map bytes_of chunks"] by (simp add: Let_def)
  have "encode (take ?m ?c @ drop ?m ?c) = encode (take ?m ?c) @ encode (drop ?m ?c)"
    unfolding encode_eq_ref by (rule encode_ref_append) (rule mod_split_length, simp)
  then have "encode (take ?m ?c) @ encode (drop ?m ?c) = encode ?c"
    by (simp only: append_take_drop_id)
  then show ?thesis
    using send_chunks_plain [OF run, of d content_len "[]"] assms by (intro exI conjI) simp_all
qed

lemma no_etag: "zu_etag z = [] \<Longrightarrow> etag_mismatch z r = None"
  by (simp add: etag_mismatch_def split: sum.split)

section \<open>The laws of the calls on a file\<close>

locale byte_store =
  fixes px :: "'w posix" and content :: "'w \<Rightarrow> string \<Rightarrow> string option"
  assumes read_content: "px_read px f w = content w f"
    and stat_content: "content w f = Some c \<Longrightarrow> \<exists>st. px_stat px f w = Inr st"
    and create_content: "\<exists>w'. px_create px f w = (True, w') \<and> content w' f = Some []"
    and append_content: "content w f = Some c \<Longrightarrow> \<exists>w'. px_append px f t w = (length t, w') \<and> content w' f = Some (c @ t)"
    and flush_content: "content w f = Some c \<Longrightarrow> \<exists>w'. px_flush px f w = (0, w') \<and> content w' f = Some c"
    and tag_content: "px_tag px f tag w = (e, w') \<Longrightarrow> content w' = content w"
begin

lemma receive_chunks_plain:
  "dec.run left_over (map bytes_of chunks) = Ok (out, left_over') \<Longrightarrow> content w (c_string file) = Some c \<Longrightarrow>
    \<exists>w'. receive_chunks px file chunks None left_over d content_len w = (Received, None, d, content_len + length out, w') \<and>
      content w' (c_string file) = Some (c @ string_of out)"
proof (induction chunks arbitrary: left_over content_len w c out)
  case Nil
  then show ?case
    by (simp add: string_of_def)
next
  case (Cons chunk chunks)
  obtain out1 lo1 where step: "decode_chunk (Some left_over) (bytes_of chunk) = Ok (out1, lo1)"
  proof (cases "decode_chunk (Some left_over) (bytes_of chunk)")
    case (Inl e)
    then have "dec_step left_over (bytes_of chunk) = Throw e"
      by (simp add: dec_step_def)
    then show thesis
      using Cons.prems(1) by simp
  qed auto
  then have "dec_step left_over (bytes_of chunk) = Ok (out1, the lo1)"
    by (simp add: dec_step_def)
  then obtain out2 where run: "dec.run (the lo1) (map bytes_of chunks) = Ok (out2, left_over')" "out = out1 @ out2"
    using Cons.prems(1) by (cases "dec.run (the lo1) (map bytes_of chunks)") auto
  obtain w1 where w1: "px_append px (c_string file) (string_of out1) w = (length out1, w1)"
      "content w1 (c_string file) = Some (c @ string_of out1)"
    using append_content [OF Cons.prems(2), of "string_of out1"] by auto
  show ?case
    using Cons.IH [OF run(1) w1(2), of "content_len + length out1"] step run(2) w1(1)
    by (auto simp: convert_piece_def string_of_def)
qed

lemma finish_write_keeps:
  assumes "content w (c_string file) = Some c"
  shows "\<exists>z' w'. finish_write px tbl file enc missing z w = Some (RTNCD_SUCCESS, z', w') \<and> content w' = content w"
proof -
  obtain st where st: "sys_stat px file w = Inr st"
    using stat_content [OF assms] by (auto simp: sys_stat_def)
  have tagged: "\<exists>rc z1 w1. (case enc of None \<Rightarrow> Some (0, z, w) | Some tag \<Rightarrow> zusf_chtag_uss_file_or_dir px tbl file tag False z w) =
      Some (rc, z1, w1) \<and> content w1 = content w"
  proof (cases enc)
    case (Some tag)
    obtain e w1 where call: "px_tag px (c_string file) (file_tag (the (tag_ccsid tbl tag))) w = (e, w1)"
      by (cases "px_tag px (c_string file) (file_tag (the (tag_ccsid tbl tag))) w") auto
    then show ?thesis
      using Some st tag_content [OF call]
      by (cases "tag_ccsid tbl tag") (simp_all, (subst zusf_chtag_uss_file_or_dir.simps, simp add: zusf_fail_def)+)
  qed simp
  then obtain rc z1 w1 where w1: "(case enc of None \<Rightarrow> Some (0, z, w) | Some tag \<Rightarrow> zusf_chtag_uss_file_or_dir px tbl file tag False z w) =
      Some (rc, z1, w1)" "content w1 = content w"
    by blast
  then obtain st' where "sys_stat px file w1 = Inr st'"
    using stat_content [of w1 "c_string file" c] assms by (auto simp: sys_stat_def)
  then show ?thesis
    using w1 by (simp add: finish_write_def)
qed

lemma write_text_stores:
  "\<exists>w'. write_text px file text z w = (RTNCD_SUCCESS, z, w') \<and> content w' (c_string file) = Some text"
proof -
  obtain w1 where w1: "px_create px (c_string file) w = (True, w1)" "content w1 (c_string file) = Some []"
    using create_content by blast
  obtain w2 where w2: "(if text = [] then (0, w1) else px_append px (c_string file) text w1) = (length text, w2)"
      "content w2 (c_string file) = Some text"
    using append_content [OF w1(2), of "text"] w1(2) by (cases "text = []") auto
  obtain w3 where "px_flush px (c_string file) w2 = (0, w3)" "content w3 (c_string file) = Some text"
    using flush_content [OF w2(2)] by blast
  then show ?thesis
    using w1(1) w2(1) by (simp add: write_text_def Let_def)
qed

lemma receive_file_decodes:
  assumes "decode (bytes_of text) = Ok out" "4 dvd length text" "content w (c_string file) = Some []"
  shows "\<exists>z' w'. receive_file px tbl file text None (None :: ('s iconv \<times> 's) option) z content_len w = Some (Inr (RTNCD_SUCCESS, z'), content_len + length out, w') \<and>
    content w' (c_string file) = Some (string_of out)"
proof -
  let ?chunks = "chunks_of FIFO_CHUNK_SIZE text"
  have whole: "concat (map bytes_of ?chunks) = bytes_of text"
    using concat_chunks_of [of FIFO_CHUNK_SIZE "text"] by (simp add: FIFO_CHUNK_SIZE_def flip: bytes_of_concat)
  then have run: "dec.run [] (map bytes_of ?chunks) = Ok (out, [])"
    using dec.run_from_empty [of "map bytes_of ?chunks"] assms(1,2) by simp
  obtain w1 where w1: "receive_chunks px file ?chunks (None :: ('s iconv \<times> 's) option) [] (zu_diag z) content_len w =
      (Received, None, zu_diag z, content_len + length out, w1)" "content w1 (c_string file) = Some (string_of out)"
    using receive_chunks_plain [OF run assms(3)] by auto
  obtain w2 where w2: "px_flush px (c_string file) w1 = (0, w2)" "content w2 (c_string file) = Some (string_of out)"
    using flush_content [OF w1(2)] by blast
  obtain z3 w3 where "finish_write px tbl file None (missing_path file) (z\<lparr>zu_diag := zu_diag z\<rparr>) w2 = Some (RTNCD_SUCCESS, z3, w3)"
      "content w3 = content w2"
    using finish_write_keeps [OF w2(2)] by blast
  then show ?thesis
    using w1(1) w2 by (simp add: receive_file_def finish_conversion_def flush_file_def)
qed

lemma upload_stores:
  assumes "fst (select_encoding px file z w) = None" "zu_etag z = []" "\<not> unusable (sys_stat px file w)"
    and "\<And>w'. px_fifo px (c_string pipe) w' = FifoOpened text" "decode (bytes_of text) = Ok out" "4 dvd length text"
  shows "\<exists>z' w'. zusf_write_to_uss_file_streamed px (lib :: 's iconv_lib) tbl file pipe (Some len) z w =
      Some (Inr (RTNCD_SUCCESS, z'), len + length out, w') \<and> content w' (c_string file) = Some (string_of out)"
proof -
  obtain z1 where z1: "select_encoding px file z w = (None, z1)" "zu_etag z1 = []"
    using assms(1,2) by (cases "select_encoding px file z w")
      (auto simp: select_encoding_def zusf_get_file_ccsid_def split: if_splits sum.splits prod.splits)
  obtain w1 where w1: "px_create px (c_string file) w = (True, w1)" "content w1 (c_string file) = Some []"
    using create_content by blast
  let ?z = "z1\<lparr>zu_created := is_missing (sys_stat px file w)\<rparr>"
  obtain z2 w2 where "receive_file px tbl file text None (None :: ('s iconv \<times> 's) option) ?z len w1 =
      Some (Inr (RTNCD_SUCCESS, z2), len + length out, w2)" "content w2 (c_string file) = Some (string_of out)"
    using receive_file_decodes [OF assms(5,6) w1(2)] by blast
  then show ?thesis
    using z1 w1(1) assms(3,4) by (simp add: zusf_write_to_uss_file_streamed_def no_etag Let_def)
qed

lemma unknown_encoding_writes_nothing:
  assumes "select_encoding px file (z\<lparr>zu_created := is_missing (sys_stat px file w)\<rparr>) w = (Some enc, z1)"
    and "zu_etag z = []" "\<not> unusable (sys_stat px file w)" "lib enc (source_encoding z1) = None" "enc \<noteq> source_encoding z1"
  shows "\<exists>z' w'. zusf_write_to_uss_file px (lib :: 's iconv_lib) tbl file data z w = Some (RTNCD_SUCCESS, z', w') \<and>
    content w' (c_string file) = Some []"
proof -
  define d where "d = snd (zut_encode lib data (source_encoding z1) enc (zu_diag z1))"
  have enc: "zut_encode lib data (source_encoding z1) enc (zu_diag z1) = (Ok [], d)"
    using assms(4,5) by (simp add: d_def zut_encode_def)
  obtain w1 where w1: "write_text px file [] (z1\<lparr>zu_diag := d\<rparr>) w = (RTNCD_SUCCESS, z1\<lparr>zu_diag := d\<rparr>, w1)"
      "content w1 (c_string file) = Some []"
    using write_text_stores by blast
  obtain z2 w2 where "finish_write px tbl file (Some enc) (''Could not stat file '' @ quoted_path file @ '' after writing'')
      (z1\<lparr>zu_diag := d\<rparr>) w1 = Some (RTNCD_SUCCESS, z2, w2)" "content w2 = content w1"
    using finish_write_keeps [OF w1(2)] by blast
  then show ?thesis
    using assms(1-3) enc w1
    by (simp add: zusf_write_to_uss_file_def Let_def no_etag RTNCD_SUCCESS_def)
qed

end

section \<open>A store in memory\<close>

type_synonym mem_fs = "(string \<times> string) list"

definition mem_stat :: "string \<Rightarrow> stat_info" where
  "mem_stat c = \<lparr>st_type = FtRegular, st_mode = 0, st_nlink = 1, st_uid = 0, st_gid = 0, st_size = of_nat (length c),
     st_mtime = 0, st_ccsid = 0, st_txtflag = False\<rparr>"

definition mem_status :: "string \<Rightarrow> mem_fs \<Rightarrow> int + stat_info" where
  "mem_status f w = (case map_of w f of None \<Rightarrow> Inl ENOENT | Some c \<Rightarrow> Inr (mem_stat c))"

text \<open>Every pipe holds the given text; there are no directories.\<close>

definition mem_px :: "string \<Rightarrow> mem_fs posix" where
  "mem_px pipe_text = \<lparr>px_stat = mem_status, px_lstat = mem_status, px_realpath = (\<lambda>p w. Inr p), px_list = (\<lambda>p w. None),
     px_chmod = (\<lambda>p m w. (0, w)), px_chown = (\<lambda>p u g w. (0, w)), px_tag = (\<lambda>p t w. (0, w)),
     px_mkdir = (\<lambda>p m w. (111, w)), px_rmdir = (\<lambda>p w. (111, w)), px_remove = (\<lambda>p w. (0, AList.delete p w)),
     px_create = (\<lambda>p w. (True, AList.update p [] w)), px_run = (\<lambda>p as w. ((127, [], []), w)), px_read = (\<lambda>p w. map_of w p),
     px_append = (\<lambda>p t w. case map_of w p of None \<Rightarrow> (0, w) | Some c \<Rightarrow> (length t, AList.update p (c @ t) w)),
     px_flush = (\<lambda>p w. (0, w)), px_fifo = (\<lambda>p w. FifoOpened pipe_text),
     px_user_id = (\<lambda>n. None), px_group_id = (\<lambda>n. None), px_user_name = (\<lambda>u. None), px_group_name = (\<lambda>g. None),
     px_utc = (\<lambda>t. None), px_local = (\<lambda>t. None)\<rparr>"

interpretation mem: byte_store "mem_px pipe_text" map_of
  by unfold_locales (auto simp: mem_px_def mem_status_def update_conv' split: option.splits)

section \<open>Streams\<close>

lemma download_plain:
  assumes "px_read px (c_string file) w = Some data" "sys_stat px file w = Inr st"
    and "px_fifo px (c_string pipe) w = FifoOpened rest" "fst (select_encoding px file z w) = None"
  shows "\<exists>z'. zusf_read_from_uss_file_streamed px (lib :: 's iconv_lib) file pipe (Some len) z w =
    \<lparr>read_rc = RTNCD_SUCCESS, read_zusf = z', read_announced = Some (st_size st), read_len = len + length data,
     read_sent = encode (bytes_of data)\<rparr>"
proof -
  obtain z1 where z1: "select_encoding px file z w = (None, z1)"
    using assms(4) by (cases "select_encoding px file z w") auto
  have "concat (chunks_of (FIFO_CHUNK_SIZE * 3 div 4) data) = data"
    by (simp add: concat_chunks_of FIFO_CHUNK_SIZE_def)
  then obtain left_over sent where
      "send_chunks (chunks_of (FIFO_CHUNK_SIZE * 3 div 4) data) (None :: ('s iconv \<times> 's) option) [] (zu_diag z1) len [] =
        (True, None, left_over, zu_diag z1, len + length data, sent)" "sent @ encode left_over = encode (bytes_of data)"
    using send_chunks_whole by blast
  then show ?thesis
    using assms z1 by (simp add: zusf_read_from_uss_file_streamed_def send_file_def finish_conversion_def)
qed

text \<open>A streamed download without conversion announces the size of the file and sends the Base64 encoding of
  exactly its content, however the content is cut into pieces; the length counts the bytes of the
  content.\<close>

theorem download_sends_file:
  assumes "px_read px (c_string file) w = Some data" "sys_stat px file w = Inr st"
    and "px_fifo px (c_string pipe) w = FifoOpened rest" "fst (select_encoding px file z w) = None"
  shows "let r = zusf_read_from_uss_file_streamed px lib file pipe (Some 0) z w in
    read_rc r = RTNCD_SUCCESS \<and> read_announced r = Some (st_size st) \<and> read_len r = length data \<and>
    read_sent r = encode (bytes_of data)"
  using download_plain [OF assms, of lib 0] by (auto simp: Let_def)

lemma binary_encoding: "data_type (zu_encoding z) = eDataTypeBinary \<Longrightarrow> select_encoding px file z w = (None, z)"
  by (simp add: select_encoding_def)

text \<open>C30: A binary file that is downloaded through one pipe and uploaded through another arrives byte for byte,
  and both lengths are its size.\<close>

theorem transfer_roundtrip:
  assumes "byte_store px content" "content w (c_string source) = Some data" "data_type (zu_encoding z) = eDataTypeBinary"
    and "px_fifo px (c_string out_pipe) w = FifoOpened rest" "zu_etag z = []" "\<not> unusable (sys_stat px target w)"
    and "\<And>w'. px_fifo px (c_string in_pipe) w' =
      FifoOpened (string_of (read_sent (zusf_read_from_uss_file_streamed px lib source out_pipe (Some 0) z w)))"
  shows "case zusf_write_to_uss_file_streamed px lib tbl target in_pipe (Some 0) z w of
      None \<Rightarrow> False
    | Some (r, len, w') \<Rightarrow> (case r of Inl e \<Rightarrow> False | Inr (rc, z') \<Rightarrow> rc = RTNCD_SUCCESS) \<and> len = length data \<and>
        content w' (c_string target) = Some data"
proof -
  let ?text = "string_of (encode (bytes_of data))"
  obtain st where st: "sys_stat px source w = Inr st"
    using byte_store.stat_content [OF assms(1,2)] by (auto simp: sys_stat_def)
  have read: "px_read px (c_string source) w = Some data"
    using byte_store.read_content [OF assms(1)] assms(2) by simp
  have plain: "fst (select_encoding px f z w) = None" for f
    by (simp add: binary_encoding [OF assms(3)])
  have piped: "px_fifo px (c_string in_pipe) w' = FifoOpened ?text" for w'
    using download_plain [OF read st assms(4) plain, of lib 0] assms(7) [of w'] by auto
  have "4 dvd length ?text"
    by (simp add: encode_eq_ref length_encode_ref encoded_size_def)
  then obtain z' w' where "zusf_write_to_uss_file_streamed px lib tbl target in_pipe (Some 0) z w =
      Some (Inr (RTNCD_SUCCESS, z'), length data, w')" "content w' (c_string target) = Some data"
    using byte_store.upload_stores [OF assms(1) plain assms(5,6) piped, of "bytes_of data" lib tbl 0] by (auto simp: decode_encode)
  then show ?thesis
    by simp
qed

text \<open>C32: A request with an e-tag that is not the current one of the file changes nothing: it fails with the
  message of the mismatch, streamed or not, before the file is opened.\<close>

theorem stale_etag_refused:
  assumes "sys_stat px file w = Inr st" "zu_etag z \<noteq> []" "zu_etag z \<noteq> etag_of st"
  shows "(case zusf_write_to_uss_file px lib tbl file data z w of None \<Rightarrow> False | Some (rc, z', w') \<Rightarrow>
      rc = RTNCD_FAILURE \<and> w' = w \<and> diag_msg (zu_diag z') = ''Etag mismatch: expected '' @ zu_etag z @ '', actual '' @ etag_of st) \<and>
    (case zusf_write_to_uss_file_streamed px lib tbl file pipe (Some 0) z w of None \<Rightarrow> False | Some (r, len, w') \<Rightarrow>
      w' = w \<and> len = 0 \<and> (case r of Inl e \<Rightarrow> False | Inr (rc, z') \<Rightarrow>
        rc = RTNCD_FAILURE \<and> diag_msg (zu_diag z') = ''Etag mismatch: expected '' @ zu_etag z @ '', actual '' @ etag_of st))"
proof -
  obtain enc z1 where "select_encoding px file z w = (enc, z1)" "zu_etag z1 = zu_etag z"
    by (cases "select_encoding px file z w")
      (auto simp: select_encoding_def zusf_get_file_ccsid_def split: if_splits sum.splits prod.splits)
  then show ?thesis
    using assms by (simp add: zusf_write_to_uss_file_def zusf_write_to_uss_file_streamed_def etag_mismatch_def
        zusf_fail_def write_failed_def set_msg_def Let_def)
qed

text \<open>A write in a code page that \<open>iconv\<close> does not know empties the file and reports success.\<close>

theorem unknown_code_page_empties_file:
  assumes "byte_store px content" "data_type (zu_encoding z) = eDataTypeText" "codepage (zu_encoding z) \<noteq> []"
    and "zu_etag z = []" "\<not> unusable (sys_stat px file w)"
    and "lib (codepage (zu_encoding z)) (source_encoding z) = None" "codepage (zu_encoding z) \<noteq> source_encoding z"
  shows "case zusf_write_to_uss_file px lib tbl file data z w of None \<Rightarrow> False | Some (rc, z', w') \<Rightarrow>
    rc = RTNCD_SUCCESS \<and> content w' (c_string file) = Some []"
proof -
  let ?z = "z\<lparr>zu_created := is_missing (sys_stat px file w)\<rparr>"
  have "select_encoding px file ?z w = (Some (codepage (zu_encoding z)), ?z)"
    using assms(2,3) by (simp add: select_encoding_def)
  moreover have "source_encoding ?z = source_encoding z"
    by (simp add: source_encoding_def)
  ultimately show ?thesis
    using byte_store.unknown_encoding_writes_nothing [OF assms(1) _ assms(4,5), of _ ?z lib tbl data] assms(6,7) by fastforce
qed

section \<open>Examples\<close>

definition demo_zusf :: "data_type \<Rightarrow> string \<Rightarrow> string \<Rightarrow> zusf_rec" where
  "demo_zusf t page etag = \<lparr>zu_diag = blank_diag, zu_encoding = \<lparr>codepage = page, source_codepage = [], data_type = t\<rparr>,
     zu_etag = etag, zu_created = False\<rparr>"

definition demo_store :: mem_fs where
  "demo_store = [(''/a'', ''hello'')]"

definition no_iconv :: "unit iconv_lib" where
  "no_iconv to_code from_code = None"

definition demo_pipe :: string where
  "demo_pipe = string_of (encode (bytes_of ''hello''))"

lemma c_string_demo: "c_string ''/a'' = ''/a''" "c_string ''/b'' = ''/b''"
  by code_simp+

lemma demo_stat: "sys_stat (mem_px t) ''/a'' demo_store = Inr (mem_stat ''hello'')" "sys_stat (mem_px t) ''/b'' demo_store = Inl ENOENT"
  by (simp_all add: sys_stat_def c_string_demo mem_px_def mem_status_def demo_store_def)

lemma demo_fifo: "px_fifo (mem_px t) p w = FifoOpened t"
  by (simp add: mem_px_def)

lemma demo_read: "px_read (mem_px t) (c_string ''/a'') demo_store = Some ''hello''"
  by (simp add: c_string_demo mem_px_def demo_store_def)

lemma demo_binary: "select_encoding px f (demo_zusf eDataTypeBinary p e) w = (None, demo_zusf eDataTypeBinary p e)"
  by (rule binary_encoding) (simp add: demo_zusf_def)

theorem download_sends_file_witness:
  "let r = zusf_read_from_uss_file_streamed (mem_px []) no_iconv ''/a'' ''/p'' (Some 0) (demo_zusf eDataTypeBinary [] []) demo_store in
    read_rc r = RTNCD_SUCCESS \<and> read_len r = length ''hello'' \<and> read_sent r = encode (bytes_of ''hello'')"
  using download_sends_file [OF demo_read demo_stat(1) demo_fifo, of "[]" "demo_zusf eDataTypeBinary [] []" no_iconv "''/p''"]
  by (simp add: demo_binary Let_def)

theorem transfer_roundtrip_witness:
  "case zusf_write_to_uss_file_streamed (mem_px demo_pipe) no_iconv [] ''/b'' ''/q'' (Some 0)
       (demo_zusf eDataTypeBinary [] []) demo_store of
     None \<Rightarrow> False | Some (r, len, w') \<Rightarrow> len = length ''hello'' \<and> map_of w' (c_string ''/b'') = Some ''hello''"
proof -
  let ?z = "demo_zusf eDataTypeBinary [] []" and ?px = "mem_px demo_pipe"
  have z: "data_type (zu_encoding ?z) = eDataTypeBinary" "zu_etag ?z = []"
    by (simp_all add: demo_zusf_def)
  have content: "map_of demo_store (c_string ''/a'') = Some ''hello''"
    by (simp add: c_string_demo demo_store_def)
  have target: "\<not> unusable (sys_stat ?px ''/b'' demo_store)"
    by (simp add: unusable_def demo_stat)
  obtain z' where "zusf_read_from_uss_file_streamed ?px no_iconv ''/a'' ''/p'' (Some 0) ?z demo_store =
      \<lparr>read_rc = RTNCD_SUCCESS, read_zusf = z', read_announced = Some (st_size (mem_stat ''hello'')),
       read_len = 0 + length ''hello'', read_sent = encode (bytes_of ''hello'')\<rparr>"
    using download_plain [OF demo_read demo_stat(1) demo_fifo, of demo_pipe ?z no_iconv "''/p''" 0] by (auto simp: demo_binary)
  then have "px_fifo ?px (c_string ''/q'') w' =
      FifoOpened (string_of (read_sent (zusf_read_from_uss_file_streamed ?px no_iconv ''/a'' ''/p'' (Some 0) ?z demo_store)))" for w'
    by (simp add: demo_fifo demo_pipe_def)
  from transfer_roundtrip [OF mem.byte_store_axioms content z(1) demo_fifo z(2) target this, of "[]"]
  show ?thesis
    by (auto split: option.splits)
qed

theorem stale_etag_refused_witness:
  "case zusf_write_to_uss_file (mem_px []) no_iconv [] ''/a'' ''new'' (demo_zusf eDataTypeText [] ''0-9'') demo_store of
     None \<Rightarrow> False | Some (rc, z', w') \<Rightarrow> rc = RTNCD_FAILURE \<and> w' = demo_store"
proof -
  have "etag_of (mem_stat ''hello'') = ''0-5''"
    by code_simp
  then show ?thesis
    using stale_etag_refused [OF demo_stat(1), of "demo_zusf eDataTypeText [] ''0-9''" "[]" no_iconv "[]" "''new''" "[]"]
    by (auto simp: demo_zusf_def split: option.splits)
qed

theorem unknown_code_page_empties_file_witness:
  "case zusf_write_to_uss_file (mem_px []) no_iconv [] ''/a'' ''new'' (demo_zusf eDataTypeText ''IBM-9999'' []) demo_store of
     None \<Rightarrow> False | Some (rc, z', w') \<Rightarrow> rc = RTNCD_SUCCESS \<and> map_of w' ''/a'' = Some []"
  using unknown_code_page_empties_file [OF mem.byte_store_axioms, of "demo_zusf eDataTypeText ''IBM-9999'' []" "[]" "''/a''" demo_store no_iconv "[]" "''new''"]
  unfolding c_string_demo by (simp add: demo_zusf_def demo_stat unusable_def no_iconv_def source_encoding_def)

end
