(* ===== verification/ZusfOps.thy ===== *)
theory ZusfOps
  imports MapFs ZusfStore
begin

text \<open>
  What the single operations of \<open>zusf.cpp\<close> do: a refused \<open>chmod\<close>, the room for messages and e-tags, the
  creation of directories with their parents, owners and identifiers.
\<close>

section \<open>Mode\<close>

text \<open>Whatever \<open>chmod\<close> answers, changing the mode of a file reports success, with no message.\<close>

theorem chmod_failure_unreported:
  assumes "sys_stat px file w = Inr st" "\<not> is_dir st" "px_chmod px (c_string file) mode w = (e, w')"
  shows "zusf_chmod_uss_file_or_dir px file mode recursive z w = Some (0, z, w')"
  using assms by (subst zusf_chmod_uss_file_or_dir.simps) simp

lemma demo_c_string: "c_string ''/e'' = ''/e''"
  by code_simp

theorem chmod_failure_unreported_witness:
  "fst (px_chmod map_px (c_string ''/e'') 511 demo_fs) = 111 \<and>
   zusf_chmod_uss_file_or_dir map_px ''/e'' 511 False blank_zusf demo_fs = Some (0, blank_zusf, demo_fs)"
proof -
  have "sys_stat map_px ''/e'' demo_fs = Inr (fs_stat FtRegular)"
    using demo_view(2) by (simp add: sys_stat_def demo_c_string map_px_def fs_lstat_def)
  from chmod_failure_unreported [OF this] show ?thesis
    by (simp add: is_dir_def fs_stat_def map_px_def)
qed

section \<open>Room for messages\<close>

lemma missing_fits: "msg_fits (zu_diag (fst (snd (zusf_fail (missing_path file) z w)))) \<longleftrightarrow> length (c_string file) < 234"
  by (auto simp: zusf_fail_def missing_path_def quoted_path_def in_quotes_def msg_fits_def set_msg_def)

text \<open>The message about a path that does not exist fits the 256 bytes of the diagnostics exactly for paths of
  less than 234 characters, in every operation on existing files; a longer path, and paths may have 1024
  characters, is written past the end.\<close>

theorem long_paths_overrun:
  assumes "sys_stat px file w = Inl e" "sys_lstat px file w = Inl e'"
  shows "list_all (\<lambda>r. case r of None \<Rightarrow> False | Some (rc, z', w') \<Rightarrow>
      rc = RTNCD_FAILURE \<and> w' = w \<and> (msg_fits (zu_diag z') \<longleftrightarrow> length (c_string file) < 234))
    [zusf_chmod_uss_file_or_dir px file mode recursive z w, zusf_delete_uss_item px file recursive z w,
     zusf_chown_uss_file_or_dir px file owner recursive z w, zusf_chtag_uss_file_or_dir px tbl file tag recursive z w]"
proof -
  have "zusf_chmod_uss_file_or_dir px file mode recursive z w = Some (zusf_fail (missing_path file) z w)"
    "zusf_delete_uss_item px file recursive z w = Some (zusf_fail (missing_path file) z w)"
    "zusf_chown_uss_file_or_dir px file owner recursive z w = Some (zusf_fail (missing_path file) z w)"
    "zusf_chtag_uss_file_or_dir px tbl file tag recursive z w = Some (zusf_fail (missing_path file) z w)"
    using assms by (subst zusf_chmod_uss_file_or_dir.simps zusf_delete_uss_item.simps zusf_chown_uss_file_or_dir.simps
        zusf_chtag_uss_file_or_dir.simps, simp)+
  then show ?thesis
    using missing_fits [of "file" z w] by (simp add: zusf_fail_def)
qed

theorem long_paths_overrun_witness:
  "case zusf_delete_uss_item (mem_px []) (replicate 300 (CHR ''a'')) False blank_zusf [] of None \<Rightarrow> False
   | Some (rc, z', w') \<Rightarrow> rc = RTNCD_FAILURE \<and> \<not> msg_fits (zu_diag z')"
proof -
  let ?file = "replicate 300 (CHR ''a'')"
  have "nul_char \<noteq> CHR ''a''"
    by code_simp
  then have "c_string ?file = ?file"
    unfolding c_string_def by (intro takeWhile_eq_all_conv [THEN iffD2]) auto
  then show ?thesis
    using long_paths_overrun [of "mem_px []" ?file "[]" ENOENT ENOENT 0 False blank_zusf "[]" "[]" "[]"]
    by (auto simp: sys_stat_def sys_lstat_def mem_px_def mem_status_def split: option.splits)
qed

section \<open>Room for e-tags\<close>

lemma length_etag_hex: "0 < k \<Longrightarrow> length (etag_hex n) \<le> k \<longleftrightarrow> n < 16 ^ k"
proof (induction k arbitrary: n)
  case (Suc k)
  show ?case
  proof (cases "n < 16")
    case True
    then have "n < 16 * 16 ^ k"
      using mult_le_mono2 [of 1 "16 ^ k" 16] by (auto intro: order.strict_trans2)
    with True show ?thesis
      by (simp add: etag_hex.simps [of n])
  next
    case False
    then have "length (etag_hex n) \<le> Suc k \<longleftrightarrow> length (etag_hex (n div 16)) \<le> k"
      by (simp add: etag_hex.simps [of n])
    also have "\<dots> \<longleftrightarrow> n div 16 < 16 ^ k"
      using Suc.IH [of "n div 16"] False by (cases "k = 0") (auto simp: etag_hex.simps [of "n div 16"])
    finally show ?thesis
      by (simp add: less_mult_imp_div_less div_less_iff_less_mult mult.commute)
  qed
qed simp

text \<open>For a file modified between 1978 and 2106, the e-tag fits the 16 bytes of the request exactly when the
  file is smaller than 16 MiB; the e-tag of a larger one is copied past the end.\<close>

theorem etag_room:
  assumes "2 ^ 28 \<le> unat t" "unat t < 2 ^ 32"
  shows "length (zut_build_etag t n) < 16 \<longleftrightarrow> unat n < 2 ^ 24"
proof -
  have "length (etag_hex (unat t)) = 8"
    using length_etag_hex [of 7 "unat t"] length_etag_hex [of 8 "unat t"] assms by simp
  then show ?thesis
    using length_etag_hex [of 6 "unat n"] by (auto simp: zut_build_etag_def)
qed

theorem etag_room_witness: "\<not> length (zut_build_etag 0x60000000 0x1000000) < 16"
  using etag_room [of "0x60000000" "0x1000000"] by simp

section \<open>Directories and their parents\<close>

text \<open>The ancestors of a path other than the root: what precedes each of its slashes, from the outermost.\<close>

definition ancestors :: "string \<Rightarrow> string list" where
  "ancestors path = map (\<lambda>i. take i path) (filter (\<lambda>i. 0 < i \<and> path ! i = CHR ''/'') [0..<length path])"

definition path_exists :: "'w posix \<Rightarrow> 'w \<Rightarrow> string \<Rightarrow> bool" where
  "path_exists px w p \<longleftrightarrow> (case sys_stat px p w of Inr _ \<Rightarrow> True | Inl _ \<Rightarrow> False)"

definition missing_ancestors :: "'w posix \<Rightarrow> 'w \<Rightarrow> string \<Rightarrow> string list" where
  "missing_ancestors px w path = filter (\<lambda>p. \<not> path_exists px w p) (ancestors path)"

text \<open>What exists has ancestors that exist.\<close>

definition parents_exist :: "'w posix \<Rightarrow> 'w \<Rightarrow> string \<Rightarrow> bool" where
  "parents_exist px w path \<longleftrightarrow> (\<forall>p\<in>set (ancestors path). \<forall>q\<in>set (ancestors path). length p < length q \<longrightarrow> path_exists px w q \<longrightarrow> path_exists px w p)"

definition absolute :: "string \<Rightarrow> bool" where
  "absolute path \<longleftrightarrow> prefix ''/'' path"

lemma ancestors_none: "CHR ''/'' \<notin> set path \<Longrightarrow> ancestors path = []"
  by (auto simp: ancestors_def filter_empty_conv) (metis nth_mem)

lemma ancestors_last:
  assumes "CHR ''/'' \<notin> set b"
  shows "ancestors (a @ CHR ''/'' # b) = (if a = [] then [] else ancestors a @ [a])"
proof -
  let ?p = "a @ CHR ''/'' # b"
  have r: "[0..<length ?p] = [0..<length a] @ length a # [Suc (length a)..<length ?p]"
    using upt_add_eq_append [of 0 "length a" "Suc (length b)"] by (simp add: upt_conv_Cons del: upt_Suc)
  have rest: "?p ! i \<noteq> CHR ''/''" if i: "Suc (length a) \<le> i" "i < length ?p" for i
  proof -
    obtain k where "i = Suc (length a) + k"
      using i(1) le_Suc_ex by blast
    with i(2) have "?p ! i = b ! k" "k < length b"
      by (auto simp: nth_append)
    then show ?thesis
      using assms nth_mem by metis
  qed
  have "filter (\<lambda>i. 0 < i \<and> ?p ! i = CHR ''/'') [Suc (length a)..<length ?p] = []"
    by (rule filter_False) (use rest in \<open>auto simp del: upt_Suc\<close>)
  moreover have "filter (\<lambda>i. 0 < i \<and> ?p ! i = CHR ''/'') [0..<length a] = filter (\<lambda>i. 0 < i \<and> a ! i = CHR ''/'') [0..<length a]"
    by (rule filter_cong) (auto simp: nth_append)
  moreover have "map (\<lambda>i. take i ?p) (filter (\<lambda>i. 0 < i \<and> a ! i = CHR ''/'') [0..<length a]) = ancestors a"
    by (simp add: ancestors_def)
  ultimately show ?thesis
    unfolding ancestors_def [of ?p] r by (auto simp: ancestors_def)
qed

lemma shorter_ancestor: "p \<in> set (ancestors path) \<Longrightarrow> length p < length path"
  by (auto simp: ancestors_def)

lemma last_slash_split: "last_slash path = Some i \<Longrightarrow> \<exists>b. path = take i path @ CHR ''/'' # b \<and> CHR ''/'' \<notin> set b"
proof -
  assume l: "last_slash path = Some i"
  then have "CHR ''/'' \<in> set path"
    by (simp add: last_slash_def split: if_splits)
  then obtain a b where ab: "path = a @ CHR ''/'' # b" "CHR ''/'' \<notin> set b"
    by (auto dest: split_list_last)
  have "takeWhile (\<lambda>c. c \<noteq> CHR ''/'') (rev path) = rev b"
    using ab by (subst ab(1)) (auto simp: takeWhile_append)
  then have "i = length a"
    using l ab(1) by (simp add: last_slash_def)
  with ab show ?thesis
    by auto
qed

fun make_dirs :: "'w posix \<Rightarrow> string list \<Rightarrow> u32 \<Rightarrow> zusf_rec \<Rightarrow> 'w \<Rightarrow> int \<times> zusf_rec \<times> 'w" where
  "make_dirs px [] mode z w = (0, z, w)"
| "make_dirs px (p # ps) mode z w = (case make_dir px p mode z w of (rc, z', w') \<Rightarrow>
     if rc \<noteq> 0 then (rc, z', w') else make_dirs px ps mode z' w')"

lemma make_dirs_append: "make_dirs px (ps @ qs) mode z w = (case make_dirs px ps mode z w of (rc, z', w') \<Rightarrow>
    if rc \<noteq> 0 then (rc, z', w') else make_dirs px qs mode z' w')"
  by (induction ps arbitrary: z w) (auto split: prod.splits)

lemma make_dirs_single: "make_dirs px [p] mode z w = make_dir px p mode z w"
  by (auto split: prod.splits)

text \<open>C33: Creating a directory that exists already fails and changes nothing.  Otherwise, if the path is relative or one of its
  ancestors exists, it makes exactly its ancestors that do not exist, from the outermost, and then the directory,
  each with the given mode, and stops at the first that fails.  An absolute path with no ancestor below the
  root that exists is never made: the first directory that is asked for is the empty path.  What exists has ancestors that exist,
  and the empty path has no status and cannot be made.\<close>

theorem create_makes_ancestors:
  assumes "parents_exist px w path" "px_stat px [] w = Inl e0" "px_mkdir px [] mode w = (e1, w1)" "e1 \<noteq> 0"
  shows "zusf_create_uss_file_or_dir px path mode True z w = (case sys_stat px path w of
     Inr st \<Rightarrow> zusf_fail (already_exists path st) z w
   | Inl _ \<Rightarrow> if \<not> absolute path \<or> (\<exists>p\<in>set (ancestors path). path_exists px w p)
       then make_dirs px (missing_ancestors px w path @ [path]) mode z w
       else zusf_fail (''Failed to create directory '' @ quoted_path [] @ '', errno: '' @ show_int e1) z (snd (px_chmod px [] mode w1)))"
  using assms(1)
proof (induction "length path" arbitrary: path rule: less_induct)
  case less
  have nil: "sys_stat px [] w = Inl e0" "c_string [] = []"
    using assms(2) by (simp_all add: sys_stat_def c_string_def)
  have mk: "make_dir px [] mode z w =
      zusf_fail (''Failed to create directory '' @ quoted_path [] @ '', errno: '' @ show_int e1) z (snd (px_chmod px [] mode w1))"
    using assms(3,4) nil by (simp add: make_dir_def Let_def)
  show ?case
  proof (cases "sys_stat px path w")
    case (Inr st)
    then show ?thesis
      by (simp add: zusf_create_uss_file_or_dir.simps [of px path])
  next
    case missing: (Inl e)
    show ?thesis
    proof (cases "last_slash path")
      case None
      then have "CHR ''/'' \<notin> set path"
        by (auto simp: last_slash_def split: if_splits)
      then have "ancestors path = []" "\<not> absolute path"
        using ancestors_none by (auto simp: absolute_def prefix_def)
      then show ?thesis
        using missing None
        by (simp add: zusf_create_uss_file_or_dir.simps [of px path] missing_ancestors_def make_dirs_single del: make_dirs.simps)
    next
      case (Some i)
      define q where "q = take i path"
      obtain b where b: "path = q @ CHR ''/'' # b" "CHR ''/'' \<notin> set b"
        using last_slash_split [OF Some] by (auto simp: q_def)
      have run: "zusf_create_uss_file_or_dir px path mode True z w = (case sys_stat px q w of
          Inr _ \<Rightarrow> make_dir px path mode z w
        | Inl _ \<Rightarrow> (case zusf_create_uss_file_or_dir px q mode True z w of (rc, z, w) \<Rightarrow> if rc \<noteq> 0 then (rc, z, w) else make_dir px path mode z w))"
        unfolding q_def using missing Some by (simp add: zusf_create_uss_file_or_dir.simps [of px path])
      show ?thesis
      proof (cases "q = []")
        case True
        then have "ancestors path = []" "absolute path"
          using b ancestors_last [OF b(2), of q] by (simp_all add: absolute_def)
        moreover have "zusf_create_uss_file_or_dir px [] mode True z w = make_dir px [] mode z w"
          using nil by (simp add: zusf_create_uss_file_or_dir.simps [of px "[]"] last_slash_def)
        ultimately show ?thesis
          using run missing True nil mk by (simp add: zusf_fail_def RTNCD_FAILURE_def)
      next
        case False
        have anc: "ancestors path = ancestors q @ [q]" "absolute path \<longleftrightarrow> absolute q"
          using b False ancestors_last [OF b(2), of q] by (cases q; simp add: absolute_def)+
        show ?thesis
        proof (cases "sys_stat px q w")
          case (Inr st)
          then have q: "path_exists px w q"
            by (simp add: path_exists_def)
          have "path_exists px w p" if "p \<in> set (ancestors q)" for p
            using less.prems that q shorter_ancestor [OF that] unfolding parents_exist_def anc(1) by auto
          then have "missing_ancestors px w path = []"
            using q anc(1) by (simp add: missing_ancestors_def)
          then show ?thesis
            using run Inr missing q anc(1) by (simp add: make_dirs_single del: make_dirs.simps)
        next
          case (Inl e')
          then have q: "\<not> path_exists px w q"
            by (simp add: path_exists_def)
          have "length q < length path"
            by (simp add: b(1))
          moreover have "parents_exist px w q"
            using less.prems by (simp add: parents_exist_def anc(1))
          ultimately
          have IH: "zusf_create_uss_file_or_dir px q mode True z w = (if \<not> absolute q \<or> (\<exists>p\<in>set (ancestors q). path_exists px w p)
              then make_dirs px (missing_ancestors px w q @ [q]) mode z w
              else zusf_fail (''Failed to create directory '' @ quoted_path [] @ '', errno: '' @ show_int e1) z (snd (px_chmod px [] mode w1)))"
            using less.hyps [of q] Inl by simp
          have m: "missing_ancestors px w path = missing_ancestors px w q @ [q]"
            using q anc(1) by (simp add: missing_ancestors_def)
          show ?thesis
            using run IH Inl missing q anc m
            by (simp add: make_dirs_append [of px _ "[path]"] make_dirs_single zusf_fail_def RTNCD_FAILURE_def del: make_dirs.simps append_assoc split: prod.split)
        qed
      qed
    qed
  qed
qed

text \<open>A directory directly under the root can never be created: its parent is taken to be the empty path.\<close>

lemma root_child_refused:
  assumes "CHR ''/'' \<notin> set n" "sys_stat px (CHR ''/'' # n) w = Inl e" "px_stat px [] w = Inl e0" "px_mkdir px [] mode w = (e1, w1)" "e1 \<noteq> 0"
  shows "fst (zusf_create_uss_file_or_dir px (CHR ''/'' # n) mode True z w) = RTNCD_FAILURE"
proof -
  have "last_slash (CHR ''/'' # n) = Some 0" "last_slash [] = None"
    using assms(1) by (simp_all add: last_slash_def takeWhile_append)
  then show ?thesis
    using assms(2-5) by (simp add: zusf_create_uss_file_or_dir.simps [of px "CHR ''/'' # n"] zusf_create_uss_file_or_dir.simps [of px "[]"]
      sys_stat_def c_string_def make_dir_def zusf_fail_def RTNCD_FAILURE_def Let_def)
qed

text \<open>A file system in memory in which directories can be made.\<close>

definition make_px :: "map_fs posix" where
  "make_px = map_px\<lparr>px_mkdir := (\<lambda>p m w. if p = ''/d/x'' then (0, w @ [([''d'', ''x''], FtDirectory)])
     else if p = ''/d/x/y'' then (0, w @ [([''d'', ''x'', ''y''], FtDirectory)]) else (129, w))\<rparr>"

theorem create_makes_ancestors_witness:
  "fst (zusf_create_uss_file_or_dir make_px ''/d/x/y'' 493 True blank_zusf demo_fs) = 0 \<and>
   fs_view (snd (snd (zusf_create_uss_file_or_dir make_px ''/d/x/y'' 493 True blank_zusf demo_fs))) ''/d/x/y'' = Some FtDirectory"
proof -
  have a: "ancestors ''/d/x/y'' = [''/d'', ''/d/x'']" "absolute ''/d/x/y''"
    by code_simp+
  have e: "path_exists make_px demo_fs ''/d''" "\<not> path_exists make_px demo_fs ''/d/x''"
    by code_simp+
  have "parents_exist make_px demo_fs ''/d/x/y''"
    using a e by (simp add: parents_exist_def)
  moreover have "px_stat make_px [] demo_fs = Inl 129" "px_mkdir make_px [] 493 demo_fs = (129, demo_fs)" "sys_stat make_px ''/d/x/y'' demo_fs = Inl 129"
    by code_simp+
  ultimately have "zusf_create_uss_file_or_dir make_px ''/d/x/y'' 493 True blank_zusf demo_fs =
      make_dirs make_px [''/d/x'', ''/d/x/y''] 493 blank_zusf demo_fs"
    using create_makes_ancestors [of make_px demo_fs "''/d/x/y''" 129 493 129 demo_fs blank_zusf] a e by (simp add: missing_ancestors_def del: make_dirs.simps)
  moreover have "fst (make_dirs make_px [''/d/x'', ''/d/x/y''] 493 blank_zusf demo_fs) = 0"
    "fs_view (snd (snd (make_dirs make_px [''/d/x'', ''/d/x/y''] 493 blank_zusf demo_fs))) ''/d/x/y'' = Some FtDirectory"
    by code_simp+
  ultimately show ?thesis
    by simp
qed

end
