(* ===== verification/ZusfList.thy ===== *)
theory ZusfList
  imports Zusf
begin

text \<open>
  Listing USS files (\<open>zusf.cpp\<close>): the columns of an entry, the collection of the names of a directory down
  to a depth, and the two formats.
\<close>

section \<open>Columns\<close>

record list_options =
  all_files :: bool
  long_format :: bool
  max_depth :: int

definition zusf_format_ls_time :: "'w posix \<Rightarrow> 64 word \<Rightarrow> bool \<Rightarrow> string" where
  "zusf_format_ls_time px mtime use_csv_format =
     (if use_csv_format then (case px_utc px mtime of Some t \<Rightarrow> t | None \<Rightarrow> ''1970-01-01T00:00:00'')
      else (case px_local px mtime of Some t \<Rightarrow> t | None \<Rightarrow> replicate 12 (CHR '' '')))"

definition type_char :: "file_type \<Rightarrow> char" where
  "type_char t = (case t of FtDirectory \<Rightarrow> CHR ''d'' | FtLink \<Rightarrow> CHR ''l'' | FtFifo \<Rightarrow> CHR ''p'' | FtSocket \<Rightarrow> CHR ''s''
     | FtCharacter \<Rightarrow> CHR ''c'' | _ \<Rightarrow> CHR ''-'')"

definition mode_char :: "u32 \<Rightarrow> nat \<Rightarrow> char \<Rightarrow> char" where
  "mode_char mode n c = (if bit mode n then c else CHR ''-'')"

definition zusf_build_mode_string :: "stat_info \<Rightarrow> string" where
  "zusf_build_mode_string st = type_char (st_type st) #
     map (\<lambda>(n, c). mode_char (st_mode st) n c)
       [(8, CHR ''r''), (7, CHR ''w''), (6, CHR ''x''), (5, CHR ''r''), (4, CHR ''w''), (3, CHR ''x''), (2, CHR ''r''), (1, CHR ''w''), (0, CHR ''x'')]"

text \<open>\<open>std::setw\<close> with \<open>std::left\<close> and \<open>std::right\<close>.\<close>

definition pad_right :: "nat \<Rightarrow> string \<Rightarrow> string" where
  "pad_right n s = s @ replicate (n - length s) (CHR '' '')"

definition pad_left :: "nat \<Rightarrow> string \<Rightarrow> string" where
  "pad_left n s = replicate (n - length s) (CHR '' '') @ s"

definition csv_entry :: "'w posix \<Rightarrow> stat_info \<Rightarrow> string \<Rightarrow> string list" where
  "csv_entry px st display_name =
     [zusf_build_mode_string st, show_int (st_nlink st), zusf_get_owner_from_uid px (st_uid st), zusf_get_group_from_gid px (st_gid st),
      show_int (sint (st_size st)), ccsid_display_name (uint (st_ccsid st)), zusf_format_ls_time px (st_mtime st) True, display_name]"

definition ls_entry :: "'w posix \<Rightarrow> stat_info \<Rightarrow> string \<Rightarrow> string" where
  "ls_entry px st display_name = (let ccsid = ccsid_display_name (uint (st_ccsid st)); directory = is_dir st in
     (if directory then [] else if ccsid \<noteq> ''untagged'' then ''t'' else ''-'') @ ''  '' @
     pad_right 12 (if directory then [] else ccsid) @ '' '' @
     pad_right 5 (if directory then [] else if st_txtflag st then ''T=on'' else ''T=off'') @
     (if directory then ''   '' else ''  '') @ zusf_build_mode_string st @ '' '' @
     pad_left 3 (show_int (st_nlink st)) @ '' '' @
     pad_right 8 (zusf_get_owner_from_uid px (st_uid st)) @ '' '' @
     pad_right 8 (zusf_get_group_from_gid px (st_gid st)) @ '' '' @
     pad_left 8 (show_int (sint (st_size st))) @ '' '' @ zusf_format_ls_time px (st_mtime st) False @ '' '' @ display_name @ [newline])"

definition zusf_format_file_entry :: "'w posix \<Rightarrow> stat_info \<Rightarrow> string \<Rightarrow> list_options \<Rightarrow> bool \<Rightarrow> string" where
  "zusf_format_file_entry px st display_name opts use_csv_format =
     (if \<not> long_format opts then display_name @ [newline]
      else if use_csv_format then zut_format_as_csv (csv_entry px st display_name) @ [newline]
      else ls_entry px st display_name)"

section \<open>The names of a directory\<close>

fun insort_name :: "string \<Rightarrow> string list \<Rightarrow> string list" where
  "insort_name a [] = [a]"
| "insort_name a (b # bs) = (if zut_string_compare_c b a then b # insort_name a bs else a # b # bs)"

definition sort_names :: "string list \<Rightarrow> string list" where
  "sort_names ns = foldr insort_name ns []"

definition listed :: "list_options \<Rightarrow> string \<Rightarrow> bool" where
  "listed opts name \<longleftrightarrow> all_files opts \<or> \<not> (name \<noteq> [] \<and> hd name = CHR ''.'')"

text \<open>The names below a directory, or none when it cannot be opened; a subdirectory that cannot be opened gives
  no names.\<close>

function zusf_collect_directory_entries_recursive :: "'w posix \<Rightarrow> string \<Rightarrow> list_options \<Rightarrow> int \<Rightarrow> 'w \<Rightarrow> string list option" where
  "zusf_collect_directory_entries_recursive px dir_path opts current_depth w = (case sys_children px dir_path w of
     None \<Rightarrow> None
   | Some names \<Rightarrow> Some (concat (map (\<lambda>name. name #
       (if max_depth opts > 1 \<and> current_depth < max_depth opts - 1 then
          (case sys_lstat px (zusf_join_path dir_path name) w of
             Inl _ \<Rightarrow> []
           | Inr child \<Rightarrow>
             if is_dir child then
               (case zusf_collect_directory_entries_recursive px (zusf_join_path dir_path name) opts (current_depth + 1) w of
                  None \<Rightarrow> [] | Some subentries \<Rightarrow> map (\<lambda>subentry. name @ ''/'' @ subentry) subentries)
             else [])
        else []))
       (sort_names (filter (listed opts) names)))))"
  by pat_completeness auto
termination
  by (relation "measure (\<lambda>(px, dir, opts, depth, w). nat (max_depth opts - depth))") auto

declare zusf_collect_directory_entries_recursive.simps [simp del]

section \<open>The listing\<close>

fun format_children :: "'w posix \<Rightarrow> string \<Rightarrow> list_options \<Rightarrow> bool \<Rightarrow> string list \<Rightarrow> string \<Rightarrow> zusf_rec \<Rightarrow> 'w \<Rightarrow> int \<times> zusf_rec \<times> string" where
  "format_children px file opts use_csv_format [] response z w = (RTNCD_SUCCESS, z, response)"
| "format_children px file opts use_csv_format (name # names) response z w =
     (case sys_lstat px (zusf_join_path file name) w of
        Inl _ \<Rightarrow> (RTNCD_FAILURE, z\<lparr>zu_diag := set_msg (child_stat_message (zusf_join_path file name)) (zu_diag z)\<rparr>, response)
      | Inr child \<Rightarrow> format_children px file opts use_csv_format names
          (response @ zusf_format_file_entry px child name opts use_csv_format) z w)"

text \<open>The entry of the parent: the path up to its last slash, the whole path when it has none.\<close>

definition parent_path :: "string \<Rightarrow> string" where
  "parent_path file = (let p = (case last_slash file of None \<Rightarrow> file | Some i \<Rightarrow> take i file) in if p = [] then ''/'' else p)"

definition dot_entries :: "'w posix \<Rightarrow> string \<Rightarrow> stat_info \<Rightarrow> list_options \<Rightarrow> bool \<Rightarrow> 'w \<Rightarrow> string" where
  "dot_entries px file st opts use_csv_format w =
     (if all_files opts then zusf_format_file_entry px st ''.'' opts use_csv_format @
        (case sys_stat px (parent_path file) w of Inl _ \<Rightarrow> [] | Inr p \<Rightarrow> zusf_format_file_entry px p ''..'' opts use_csv_format)
      else [])"

text \<open>The return code, the diagnostics and the response, which is empty until it is set.\<close>

definition zusf_list_uss_file_path :: "'w posix \<Rightarrow> string \<Rightarrow> list_options \<Rightarrow> bool \<Rightarrow> zusf_rec \<Rightarrow> 'w \<Rightarrow> int \<times> zusf_rec \<times> string" where
  "zusf_list_uss_file_path px file opts use_csv_format z w =
     (let failed = (\<lambda>msg response. (RTNCD_FAILURE, z\<lparr>zu_diag := set_msg msg (zu_diag z)\<rparr>, response)) in
      if \<not> zusf_is_valid_path file then failed ''File path is empty or too long'' []
      else (case sys_stat px file w of
        Inl _ \<Rightarrow> failed (missing_path file) []
      | Inr st \<Rightarrow>
        if st_type st = FtRegular then (RTNCD_SUCCESS, z, zusf_format_file_entry px st (basename file) opts use_csv_format)
        else if \<not> is_dir st then failed (''Path '' @ quoted_path file @ '' is not a directory'') []
        else if max_depth opts = 0 then (RTNCD_SUCCESS, z, zusf_format_file_entry px st (basename file) opts use_csv_format)
        else (let response = dot_entries px file st opts use_csv_format w in
          case zusf_collect_directory_entries_recursive px file opts 0 w of
            None \<Rightarrow> failed (opendir_message file) response
          | Some names \<Rightarrow> format_children px file opts use_csv_format names response z w)))"

section \<open>Sorting\<close>

lemma mset_insort_name: "mset (insort_name a bs) = add_mset a (mset bs)"
  by (induction bs) auto

lemma mset_sort_names: "mset (sort_names ns) = mset ns"
  by (induction ns) (simp_all add: sort_names_def mset_insort_name)

lemma set_sort_names [simp]: "set (sort_names ns) = set ns"
  using mset_sort_names [of ns] by (metis set_mset_mset)

definition name_key :: "string \<Rightarrow> nat list" where
  "name_key s = map (\<lambda>c. unat (byte_of c)) (c_string s)"

lemma compare_key: "zut_string_compare_c a b \<longleftrightarrow> ord_class.lexordp (name_key a) (name_key b)"
  by (simp add: zut_string_compare_c_def name_key_def)

definition in_order :: "string \<Rightarrow> string \<Rightarrow> bool" where
  "in_order a b \<longleftrightarrow> \<not> zut_string_compare_c b a"

lemma in_order_trans: "in_order a b \<Longrightarrow> in_order b c \<Longrightarrow> in_order a c"
  unfolding in_order_def compare_key by (metis lexordp_linear lexordp_trans)

lemma sorted_insort_name: "sorted_wrt in_order bs \<Longrightarrow> sorted_wrt in_order (insort_name a bs)"
proof (induction bs)
  case (Cons b bs)
  show ?case
  proof (cases "zut_string_compare_c b a")
    case True
    then have "in_order b a"
      unfolding in_order_def compare_key by (metis lexordp_antisym)
    then show ?thesis
      using Cons True mset_insort_name [of a bs] by (auto simp flip: set_mset_mset)
  next
    case False
    then have "in_order a b"
      by (simp add: in_order_def)
    then show ?thesis
      using Cons.prems False in_order_trans by auto
  qed
qed simp

lemma sorted_sort_names: "sorted_wrt in_order (sort_names ns)"
  by (induction ns) (simp_all add: sort_names_def sorted_insort_name)

end
