(* ===== verification/ListingSpec.thy ===== *)
theory ListingSpec
  imports ZusfList MapFs
begin

text \<open>
  What a listing shows, on every file system with the laws of \<open>open_tree\<close>: exactly the visible entries
  down to the depth asked for.
\<close>

section \<open>Parts of a relative path\<close>

fun parts :: "string \<Rightarrow> string list" where
  "parts [] = [[]]"
| "parts (c # s) = (if c = CHR ''/'' then [] # parts s else (c # hd (parts s)) # tl (parts s))"

lemma parts_nonempty [simp]: "parts s \<noteq> []"
  by (cases s) auto

lemma parts_plain: "CHR ''/'' \<notin> set n \<Longrightarrow> parts n = [n]"
  by (induction n) auto

lemma parts_append: "CHR ''/'' \<notin> set n \<Longrightarrow> parts (n @ CHR ''/'' # r) = n # parts r"
  by (induction n) auto

lemma parts_cases:
  obtains "CHR ''/'' \<notin> set r" "parts r = [r]" | n r' where "CHR ''/'' \<notin> set n" "r = n @ CHR ''/'' # r'" "parts r = n # parts r'"
proof (cases "CHR ''/'' \<in> set r")
  case True
  then obtain n r' where "r = n @ CHR ''/'' # r'" "CHR ''/'' \<notin> set n"
    by (meson split_list_first)
  then show thesis
    using that(2) parts_append by blast
qed (use that(1) parts_plain in blast)

lemma join_assoc: "plain_name n \<Longrightarrow> zusf_join_path (zusf_join_path p n) r = zusf_join_path p (n @ CHR ''/'' # r)"
  by (simp only: join_split [of "zusf_join_path p n" r] join_plain) (simp add: join_split [of p n] join_split [of p "n @ CHR ''/'' # r"])

lemma join_strictly_below: "r \<noteq> [] \<Longrightarrow> strictly_below p (zusf_join_path p r)"
  by (auto simp: strictly_below_def zusf_join_path_def)

text \<open>A part of a path that a listing with these options shows.\<close>

definition shown :: "list_options \<Rightarrow> string \<Rightarrow> bool" where
  "shown opts n \<longleftrightarrow> plain_name n \<and> n \<noteq> ''.'' \<and> n \<noteq> ''..'' \<and> listed opts n"

definition levels :: "list_options \<Rightarrow> int \<Rightarrow> int" where
  "levels opts depth = max 1 (max_depth opts - depth)"

lemma below_first_part:
  assumes "plain_name m" "plain_name n" "below (zusf_join_path p m) (zusf_join_path p (n @ CHR ''/'' # r))"
  shows "m = n"
proof -
  have ne: "zusf_join_path p (n @ CHR ''/'' # r) \<noteq> zusf_join_path p m"
    using assms(1) by (auto simp: join_split [of p m] join_split [of p "n @ CHR ''/'' # r"] plain_name_def)
  have "prefix (zusf_join_path p m @ ''/'') (zusf_join_path p (n @ CHR ''/'' # r))"
    using assms(3) ne by (simp add: below_def strictly_below_def join_plain assms(1))
  then have "prefix (m @ ''/'') (n @ CHR ''/'' # r)"
    by (simp add: join_split [of p m] join_split [of p "n @ CHR ''/'' # r"])
  then obtain t where "m @ CHR ''/'' # t = n @ CHR ''/'' # r"
    by (auto simp: prefix_def)
  then have "takeWhile (\<lambda>c. c \<noteq> CHR ''/'') (m @ CHR ''/'' # t) = takeWhile (\<lambda>c. c \<noteq> CHR ''/'') (n @ CHR ''/'' # r)"
    by simp
  then show ?thesis
    using assms(1,2) by (auto simp: plain_name_def takeWhile_append split: if_splits)
qed

section \<open>The collection\<close>

context open_tree begin

lemma children_shown:
  assumes "view w p = Some FtDirectory"
  shows "\<exists>names. sys_children px p w = Some names \<and>
    (\<forall>n. n \<in> set names \<longleftrightarrow> plain_name n \<and> n \<noteq> ''.'' \<and> n \<noteq> ''..'' \<and> view w (zusf_join_path p n) \<noteq> None)"
proof -
  obtain ns where ns: "px_list px p w = Some ns"
    using list_ok [OF assms] by blast
  have "n \<in> set ns" if n: "plain_name n" "view w (zusf_join_path p n) = Some k" for n k
  proof -
    obtain m where m: "m \<in> set ns" "m \<noteq> ''.''" "m \<noteq> ''..''" "below (zusf_join_path p m) (zusf_join_path p n)"
      using list_complete [OF assms ns child_strictly_below [OF n(1)] n(2)] by blast
    then have "plain_name m"
      using view_list(2) [OF assms ns] by blast
    then show ?thesis
      using siblings_apart [OF _ n(1), of m p] m by auto
  qed
  then show ?thesis
    using ns view_list(2) [OF assms ns] by (auto simp: sys_children_def c_string_view [OF assms])
qed

lemma below_is_directory: "view w p = Some k \<Longrightarrow> strictly_below p q \<Longrightarrow> view w q = Some k' \<Longrightarrow> k = FtDirectory"
  using view_remove(2) by fastforce

lemma collection_exact:
  "view w p = Some FtDirectory \<Longrightarrow> 0 \<le> depth \<Longrightarrow>
    \<exists>names. zusf_collect_directory_entries_recursive px p opts depth w = Some names \<and>
      (\<forall>r. r \<in> set names \<longleftrightarrow> list_all (shown opts) (parts r) \<and> int (length (parts r)) \<le> levels opts depth \<and> view w (zusf_join_path p r) \<noteq> None)"
proof (induction "nat (max_depth opts - depth)" arbitrary: p depth rule: less_induct)
  case less
  obtain names where names: "sys_children px p w = Some names"
    "\<And>n. n \<in> set names \<longleftrightarrow> plain_name n \<and> n \<noteq> ''.'' \<and> n \<noteq> ''..'' \<and> view w (zusf_join_path p n) \<noteq> None"
    using children_shown [OF less.prems(1)] by blast
  define deep where "deep \<longleftrightarrow> max_depth opts > 1 \<and> depth < max_depth opts - 1"
  define sub where "sub name = (if deep then
       (case sys_lstat px (zusf_join_path p name) w of Inl _ \<Rightarrow> [] | Inr child \<Rightarrow>
          if is_dir child then
            (case zusf_collect_directory_entries_recursive px (zusf_join_path p name) opts (depth + 1) w of
               None \<Rightarrow> [] | Some subentries \<Rightarrow> map (\<lambda>subentry. name @ ''/'' @ subentry) subentries)
          else []) else [])" for name
  have collect: "zusf_collect_directory_entries_recursive px p opts depth w =
      Some (concat (map (\<lambda>name. name # sub name) (sort_names (filter (listed opts) names))))"
    unfolding sub_def deep_def by (subst zusf_collect_directory_entries_recursive.simps) (simp add: names(1) cong: if_cong)
  have shown_names: "n \<in> set names \<and> listed opts n \<longleftrightarrow> shown opts n \<and> view w (zusf_join_path p n) \<noteq> None" for n
    using names(2) [of n] by (auto simp: shown_def)
  have sub_exact: "r \<in> set (sub n) \<longleftrightarrow> deep \<and> (\<exists>r'. r = n @ CHR ''/'' # r' \<and> list_all (shown opts) (parts r') \<and>
      int (length (parts r')) \<le> levels opts (depth + 1) \<and> view w (zusf_join_path (zusf_join_path p n) r') \<noteq> None)"
    if n: "shown opts n" "view w (zusf_join_path p n) \<noteq> None" for n r
  proof -
    obtain k where k: "view w (zusf_join_path p n) = Some k"
      using n(2) by auto
    obtain child where child: "sys_lstat px (zusf_join_path p n) w = Inr child" "is_dir child \<longleftrightarrow> k = FtDirectory"
      using lstat_ok [OF k] view_lstat [OF k] k by (auto simp: sys_lstat_def is_dir_def)
    show ?thesis
    proof (cases "deep \<and> k = FtDirectory")
      case True
      then have "nat (max_depth opts - (depth + 1)) < nat (max_depth opts - depth)"
        by (simp add: deep_def)
      then obtain subs where "zusf_collect_directory_entries_recursive px (zusf_join_path p n) opts (depth + 1) w = Some subs"
        "\<And>r. r \<in> set subs \<longleftrightarrow> list_all (shown opts) (parts r) \<and> int (length (parts r)) \<le> levels opts (depth + 1) \<and>
          view w (zusf_join_path (zusf_join_path p n) r) \<noteq> None"
        using less.hyps [of "depth + 1" "zusf_join_path p n"] k True less.prems(2) by force
      then show ?thesis
        using child True by (auto simp: sub_def)
    next
      case False
      have none: "view w (zusf_join_path (zusf_join_path p n) r') = None" if "k \<noteq> FtDirectory" "list_all (shown opts) (parts r')" for r'
      proof -
        have "r' \<noteq> []"
          using that(2) by (auto simp: shown_def plain_name_def)
        then have "strictly_below (zusf_join_path p n) (zusf_join_path (zusf_join_path p n) r')"
          by (rule join_strictly_below)
        then show ?thesis
          using below_is_directory [OF k] that(1) by (cases "view w (zusf_join_path (zusf_join_path p n) r')") auto
      qed
      have "k \<noteq> FtDirectory" if deep
        using False that by simp
      then have "\<not> (deep \<and> (\<exists>r'. r = n @ CHR ''/'' # r' \<and> list_all (shown opts) (parts r') \<and>
          int (length (parts r')) \<le> levels opts (depth + 1) \<and> view w (zusf_join_path (zusf_join_path p n) r') \<noteq> None))"
        using none by (metis (no_types))
      moreover have "sub n = []"
        unfolding sub_def child(1) using child(2) False by simp
      ultimately show ?thesis
        by simp
    qed
  qed
  have "r \<in> set (concat (map (\<lambda>name. name # sub name) (sort_names (filter (listed opts) names)))) \<longleftrightarrow>
      list_all (shown opts) (parts r) \<and> int (length (parts r)) \<le> levels opts depth \<and> view w (zusf_join_path p r) \<noteq> None" for r
  proof -
    have members: "r \<in> set (concat (map (\<lambda>name. name # sub name) (sort_names (filter (listed opts) names)))) \<longleftrightarrow>
        (\<exists>n. shown opts n \<and> view w (zusf_join_path p n) \<noteq> None \<and> (r = n \<or> r \<in> set (sub n)))"
      using shown_names by auto
    show ?thesis
    proof (cases r rule: parts_cases)
      case 1
      have "r \<notin> set (sub n)" if "shown opts n" "view w (zusf_join_path p n) \<noteq> None" for n
        using sub_exact [OF that] 1(1) by auto
      then show ?thesis
        unfolding members using 1 by (auto simp: levels_def)
    next
      case (2 n r')
      have not_plain: "\<not> shown opts r"
        using 2(2) by (simp add: shown_def plain_name_def)
      have same: "m = n" if "shown opts m" "r = m @ CHR ''/'' # r''" for m r''
        using that 2 parts_append [of m r''] by (simp add: shown_def plain_name_def)
      have in_sub: "m = n \<and> r \<in> set (sub m)" if "shown opts m" "view w (zusf_join_path p m) \<noteq> None" "r = m \<or> r \<in> set (sub m)" for m
        using that not_plain same sub_exact [of m r] by blast
      show ?thesis
      proof (cases "shown opts n \<and> view w (zusf_join_path p r) \<noteq> None")
        case True
        then have plain: "plain_name n"
          by (simp add: shown_def)
        obtain k where k: "view w (zusf_join_path p r) = Some k"
          using True by auto
        have "strictly_below p (zusf_join_path p r)"
          using 2(2) by (intro join_strictly_below) simp
        moreover obtain ns where ns: "px_list px p w = Some ns"
          using list_ok [OF less.prems(1)] by blast
        ultimately obtain m where m: "m \<in> set ns" "m \<noteq> ''.''" "m \<noteq> ''..''" "below (zusf_join_path p m) (zusf_join_path p r)"
          using list_complete [OF less.prems(1) ns _ k] by blast
        have "plain_name m" "view w (zusf_join_path p m) \<noteq> None"
          using view_list(2) [OF less.prems(1) ns m(1-3)] by auto
        moreover have "m = n"
          using below_first_part [OF _ plain, of m p r'] m(4) calculation(1) 2(2) by simp
        ultimately have n: "view w (zusf_join_path p n) \<noteq> None"
          by simp
        have "r \<in> set (sub n) \<longleftrightarrow> deep \<and> list_all (shown opts) (parts r') \<and> int (length (parts r')) \<le> levels opts (depth + 1)"
          using sub_exact [of n r] True n 2(2) join_assoc [OF plain, of p r'] by simp
        moreover have "deep \<and> int (length (parts r')) \<le> levels opts (depth + 1) \<longleftrightarrow> int (length (parts r)) \<le> levels opts depth"
        proof -
          have "int (length (parts r')) \<ge> 1"
            using parts_nonempty [of r'] by (cases "parts r'") auto
          then show ?thesis
            using 2(3) less.prems(2) by (auto simp: deep_def levels_def max_def)
        qed
        moreover have "(\<exists>m. shown opts m \<and> view w (zusf_join_path p m) \<noteq> None \<and> (r = m \<or> r \<in> set (sub m))) \<longleftrightarrow> r \<in> set (sub n)"
          using in_sub True n by metis
        ultimately show ?thesis
          unfolding members using True 2(3) by (simp, blast)
      next
        case False
        have "\<not> (shown opts m \<and> view w (zusf_join_path p m) \<noteq> None \<and> (r = m \<or> r \<in> set (sub m)))" for m
        proof
          assume m: "shown opts m \<and> view w (zusf_join_path p m) \<noteq> None \<and> (r = m \<or> r \<in> set (sub m))"
          then have "m = n" "r \<in> set (sub m)"
            using in_sub by blast+
          then obtain r'' where "r = n @ CHR ''/'' # r''" "view w (zusf_join_path (zusf_join_path p n) r'') \<noteq> None"
            using sub_exact [of m r] m by blast
          then show False
            using False m \<open>m = n\<close> join_assoc [of n p r''] by (simp add: shown_def)
        qed
        then have "r \<notin> set (concat (map (\<lambda>name. name # sub name) (sort_names (filter (listed opts) names))))"
          unfolding members by blast
        then show ?thesis
          using False 2(3) by auto
      qed
    qed
  qed
  then show ?case
    using collect by blast
qed

end

text \<open>C31: The names collected for a directory are exactly the relative paths of the entries below it, at most as
  many levels deep as the depth allows, none of whose parts is hidden unless all files are asked for; a
  directory behind a link is not entered.\<close>

theorem listing_shows_tree:
  assumes "open_tree px view" "view w dir = Some FtDirectory"
  shows "case zusf_collect_directory_entries_recursive px dir opts 0 w of None \<Rightarrow> False | Some names \<Rightarrow>
    (\<forall>r. r \<in> set names \<longleftrightarrow> list_all (shown opts) (parts r) \<and> int (length (parts r)) \<le> max 1 (max_depth opts) \<and>
      view w (zusf_join_path dir r) \<noteq> None)"
  using open_tree.collection_exact [OF assms, of 0 opts] by (auto simp: levels_def)

definition deep_options :: "int \<Rightarrow> list_options" where
  "deep_options d = \<lparr>all_files = False, long_format = False, max_depth = d\<rparr>"

theorem listing_shows_tree_witness:
  "case zusf_collect_directory_entries_recursive map_px ''/d'' (deep_options 2) 0 demo_fs of None \<Rightarrow> False | Some names \<Rightarrow>
    ''s/f'' \<in> set names \<and> ''l/f'' \<notin> set names"
proof -
  have "list_all (shown (deep_options 2)) (parts ''s/f'')" "int (length (parts ''s/f'')) \<le> max 1 (max_depth (deep_options 2))"
    by (simp_all add: shown_def plain_name_def listed_def deep_options_def)
  moreover have "fs_view demo_fs (zusf_join_path ''/d'' ''s/f'') \<noteq> None" "fs_view demo_fs (zusf_join_path ''/d'' ''l/f'') = None"
    by code_simp+
  ultimately show ?thesis
    using listing_shows_tree [OF map_fs.open_tree_axioms demo_view(1), of "deep_options 2"]
    by (auto split: option.splits)
qed

text \<open>One level of names is in the order of their bytes.\<close>

lemma one_level_sorted:
  assumes "zusf_collect_directory_entries_recursive px dir opts 0 w = Some names" "max_depth opts \<le> 1"
  shows "sorted_wrt in_order names"
proof -
  have flat: "concat (map (\<lambda>n. [n]) ns) = ns" for ns :: "string list"
    by (induction ns) auto
  obtain all where "sys_children px dir w = Some all"
    using assms(1) by (cases "sys_children px dir w") (simp_all add: zusf_collect_directory_entries_recursive.simps [of px dir])
  then have "names = sort_names (filter (listed opts) all)"
    using assms flat by (simp add: zusf_collect_directory_entries_recursive.simps [of px dir] cong: if_cong)
  then show ?thesis
    using sorted_sort_names by simp
qed

end
