(* ===== verification/ZdsNames.thy ===== *)
theory ZdsNames
  imports Zut "HOL-Library.Sublist"
begin

text \<open>
  Names in \<open>zds.cpp\<close>: data set and member names, how a name is split into both, the file names given to the
  C library, and the wildcard match of member lists with the proof that its backtracking finds a match exactly
  when there is one.
\<close>

section \<open>Names\<close>

definition MAX_DS_LENGTH :: nat where
  "MAX_DS_LENGTH = 44"

definition is_alpha :: "char \<Rightarrow> bool" where
  "is_alpha c \<longleftrightarrow> is_upper c \<or> is_lower c"

definition national :: "char \<Rightarrow> bool" where
  "national c \<longleftrightarrow> c = CHR ''#'' \<or> c = CHR ''@'' \<or> c = CHR ''$''"

text \<open>\<open>name[0]\<close> of the empty name is the terminating NUL.\<close>

definition zds_is_valid_member_name :: "string \<Rightarrow> bool" where
  "zds_is_valid_member_name name \<longleftrightarrow> \<not> length name > 8 \<and>
     (let first = (case name of [] \<Rightarrow> nul_char | c # _ \<Rightarrow> c) in is_alpha first \<or> national first) \<and>
     list_all (\<lambda>c. is_alpha c \<or> is_digit c \<or> national c) (tl name)"

definition before_paren :: "string \<Rightarrow> string" where
  "before_paren dsn = takeWhile (\<lambda>c. c \<noteq> CHR ''('') dsn"

definition zds_get_base_dsn :: "string \<Rightarrow> string" where
  "zds_get_base_dsn dsn = before_paren dsn"

text \<open>\<open>std::string::find\<close> of a character.\<close>

fun index_of :: "char \<Rightarrow> string \<Rightarrow> nat option" where
  "index_of c [] = None"
| "index_of c (d # s) = (if d = c then Some 0 else map_option Suc (index_of c s))"

definition zds_has_member :: "string \<Rightarrow> bool" where
  "zds_has_member dsn = (case (index_of (CHR ''('') dsn, index_of (CHR '')'') dsn) of
     (Some open_paren, Some close_paren) \<Rightarrow> close_paren > open_paren | _ \<Rightarrow> False)"

text \<open>The data set and the member of a name as \<open>zds_get_type_info\<close> sees them.\<close>

definition split_dsn :: "string \<Rightarrow> string \<times> string" where
  "split_dsn dsn =
     (let (base, mem) = (case index_of (CHR ''('') dsn of
          None \<Rightarrow> (dsn, [])
        | Some i \<Rightarrow> (take i dsn, (case index_of (CHR '')'') (drop i dsn) of
             None \<Rightarrow> [] | Some j \<Rightarrow> if j > 1 then take (j - 1) (drop (i + 1) dsn) else [])))
      in (map to_upper (zut_trim '' '' base), map to_upper (zut_trim '' '' mem)))"

definition dsn_path :: "string \<Rightarrow> string" where
  "dsn_path dsn = CHR ''/'' # CHR ''/'' # CHR 0x27 # dsn @ [CHR 0x27]"

definition member_dsn :: "string \<Rightarrow> string \<Rightarrow> string" where
  "member_dsn dsn member = dsn @ CHR ''('' # member @ '')''"

section \<open>Wildcards\<close>

text \<open>The loop: what is left of the text and of the pattern, and, once a star was seen, the pattern after it and
  the place in the text it was tried at.\<close>

function match_loop :: "string \<Rightarrow> string \<Rightarrow> (string \<times> string) option \<Rightarrow> bool" where
  "match_loop [] p star = (dropWhile (\<lambda>c. c = CHR ''*'') p = [])"
| "match_loop (c # s) p star =
     (if p \<noteq> [] \<and> (hd p = CHR ''?'' \<or> hd p = c) then match_loop s (tl p) star
      else if p \<noteq> [] \<and> hd p = CHR ''*'' then match_loop (c # s) (tl p) (Some (tl p, c # s))
      else (case star of
          None \<Rightarrow> False
        | Some (star_p, star_s) \<Rightarrow> (case star_s of [] \<Rightarrow> False | _ # star_s \<Rightarrow> match_loop star_s star_p (Some (star_p, star_s)))))"
  by pat_completeness auto
termination
  by (relation "inv_image (less_than <*lex*> less_than <*lex*> less_than)
      (\<lambda>(s, p, star). (case star of None \<Rightarrow> Suc (length s) | Some (_, t) \<Rightarrow> max (length t) (length s), length s, length p))")
    (auto split: option.splits)

declare match_loop.simps(2) [simp del]

definition is_match :: "string \<Rightarrow> string \<Rightarrow> bool" where
  "is_match s p = match_loop (c_string s) (c_string p) None"

text \<open>What it means for a text to match.\<close>

fun glob :: "string \<Rightarrow> string \<Rightarrow> bool" where
  "glob [] s \<longleftrightarrow> s = []"
| "glob (c # p) s \<longleftrightarrow> (if c = CHR ''*'' then list_ex (\<lambda>k. glob p (drop k s)) [0..<Suc (length s)]
     else s \<noteq> [] \<and> (c = CHR ''?'' \<or> c = hd s) \<and> glob p (tl s))"

lemma glob_star: "glob (CHR ''*'' # p) s \<longleftrightarrow> (\<exists>t. suffix t s \<and> glob p t)"
proof -
  have "(\<exists>k \<le> length s. glob p (drop k s)) \<longleftrightarrow> (\<exists>t. suffix t s \<and> glob p t)"
    by (metis suffix_drop suffix_def append_eq_conv_conj length_append le_add1)
  then show ?thesis
    by (auto simp: list_ex_iff less_Suc_eq_le simp del: upt_Suc)
qed

lemma glob_simps: "c \<noteq> CHR ''*'' \<Longrightarrow> glob (c # p) [] = False"
  "c \<noteq> CHR ''*'' \<Longrightarrow> glob (c # p) (d # s) \<longleftrightarrow> (c = CHR ''?'' \<or> c = d) \<and> glob p s"
  by auto

declare glob.simps(2) [simp del]

lemma glob_Nil: "glob p [] \<longleftrightarrow> dropWhile (\<lambda>c. c = CHR ''*'') p = []"
  by (induction p) (auto simp: glob_star glob_simps)

text \<open>A stretch of pattern without a star takes its own length.\<close>

definition fits :: "string \<Rightarrow> string \<Rightarrow> bool" where
  "fits q u \<longleftrightarrow> list_all2 (\<lambda>c d. c \<noteq> CHR ''*'' \<and> (c = CHR ''?'' \<or> c = d)) q u"

lemma glob_fits: "fits q u \<Longrightarrow> glob (q @ p) (u @ s) = glob p s"
  unfolding fits_def by (induction q u rule: list_all2_induct) (auto simp: glob_simps)

lemma glob_taken:
  assumes "list_all (\<lambda>c. c \<noteq> CHR ''*'') q" "glob (q @ p) s"
  shows "\<exists>v w. s = v @ w \<and> length v = length q \<and> glob p w"
  using assms
proof (induction q arbitrary: s)
  case (Cons c q)
  then obtain d t where s: "s = d # t" "glob (q @ p) t"
    by (cases s) (auto simp: glob_simps)
  have "list_all (\<lambda>c. c \<noteq> CHR ''*'') q"
    using Cons.prems(1) by simp
  then obtain v w where "t = v @ w" "length v = length q" "glob p w"
    using Cons.IH s(2) by blast
  then show ?case
    using s(1) by (intro exI [of _ "d # v"] exI [of _ w]) simp
qed auto

lemma fits_no_star: "fits q u \<Longrightarrow> list_all (\<lambda>c. c \<noteq> CHR ''*'') q" "fits q u \<Longrightarrow> length q = length u"
  unfolding fits_def by (induction q u rule: list_all2_induct) auto

text \<open>Only what is left after the stretch can be matched by what is left of the pattern.\<close>

lemma glob_after:
  assumes "fits q u" "suffix t (u @ s)" "glob (q @ p) t"
  shows "\<exists>w. suffix w s \<and> glob p w"
proof -
  obtain v w where t: "t = v @ w" "length v = length q" "glob p w"
    using glob_taken [OF fits_no_star(1) [OF assms(1)] assms(3)] by blast
  obtain z where "u @ s = z @ v @ w"
    using assms(2) t(1) by (auto simp: suffix_def)
  then have "s = drop (length u) (z @ v) @ w"
    using fits_no_star(2) [OF assms(1)] t(2) by (metis append.assoc append_eq_conv_conj drop_append le_add2 length_append diff_is_0_eq drop_0)
  then show ?thesis
    using t(3) unfolding suffix_def by blast
qed

lemma suffix_drop_first: "t \<noteq> c # s \<Longrightarrow> suffix t (c # s) \<longleftrightarrow> suffix t s"
  by (auto simp: suffix_Cons)

definition loop_goal :: "string \<Rightarrow> string \<Rightarrow> (string \<times> string) option \<Rightarrow> bool" where
  "loop_goal s p star = (case star of None \<Rightarrow> glob p s | Some (ps, ss) \<Rightarrow> \<exists>t. suffix t ss \<and> glob ps t)"

definition loop_state :: "string \<Rightarrow> string \<Rightarrow> (string \<times> string) option \<Rightarrow> bool" where
  "loop_state s p star = (case star of None \<Rightarrow> True | Some (ps, ss) \<Rightarrow> \<exists>q u. ps = q @ p \<and> ss = u @ s \<and> fits q u)"


lemma loop_fails:
  assumes "fits q u" "\<not> glob p s"
  shows "\<not> glob (q @ p) (u @ s)"
  using assms glob_fits by blast

lemma star_goal:
  assumes "loop_state s (CHR ''*'' # p) star"
  shows "loop_goal s p (Some (p, s)) \<longleftrightarrow> loop_goal s (CHR ''*'' # p) star"
proof (cases star)
  case None
  then show ?thesis
    by (simp add: loop_goal_def glob_star)
next
  case (Some x)
  then obtain ps ss q u where x: "star = Some (ps, ss)" "ps = q @ CHR ''*'' # p" "ss = u @ s" "fits q u"
    using assms by (cases x) (auto simp: loop_state_def)
  have "glob (CHR ''*'' # p) s \<Longrightarrow> glob ps ss"
    using glob_fits [OF x(4)] x(2,3) by simp
  moreover have "glob (CHR ''*'' # p) s" if "suffix t ss" "glob ps t" for t
    using glob_after [of q u t s "CHR ''*'' # p"] x that suffix_order.trans by (fastforce simp: glob_star)
  ultimately show ?thesis
    using x(1) glob_star [of p s] by (auto simp: loop_goal_def)
qed

lemma match_loop_correct:
  "CHR ''*'' \<notin> set s \<Longrightarrow> (case star of None \<Rightarrow> True | Some (ps, ss) \<Rightarrow> CHR ''*'' \<notin> set ss) \<Longrightarrow> loop_state s p star \<Longrightarrow>
   match_loop s p star \<longleftrightarrow> loop_goal s p star"
proof (induction s p star rule: match_loop.induct)
  case (1 p star)
  show ?case
  proof (cases star)
    case (Some x)
    then obtain ps ss q where x: "star = Some (ps, ss)" "ps = q @ p" "fits q ss"
      using 1(3) by (cases x) (auto simp: loop_state_def)
    have "glob p []" if "suffix t ss" "glob ps t" for t
      using glob_after [of q ss t "[]" p] x that by auto
    moreover have "glob p [] \<Longrightarrow> glob ps ss"
      using glob_fits [OF x(3), of p "[]"] x(2) by simp
    ultimately show ?thesis
      using x(1) by (auto simp: loop_goal_def glob_Nil)
  qed (simp add: loop_goal_def glob_Nil)
next
  case (2 c s p star)
  consider (take) "p \<noteq> []" "hd p = CHR ''?'' \<or> hd p = c" | (star) "p \<noteq> []" "hd p = CHR ''*''"
    | (fail) "\<not> (p \<noteq> [] \<and> (hd p = CHR ''?'' \<or> hd p = c))" "\<not> (p \<noteq> [] \<and> hd p = CHR ''*'')"
    by blast
  then show ?case
  proof cases
    case take
    obtain d p' where p: "p = d # p'" "d = CHR ''?'' \<or> d = c" "d \<noteq> CHR ''*''"
      using 2(4) take by (cases p) auto
    have "loop_state s p' star"
      unfolding loop_state_def
    proof (cases star)
      case (Some x)
      then obtain ps ss q u where x: "star = Some (ps, ss)" "ps = q @ p" "ss = u @ c # s" "fits q u"
        using 2(6) by (cases x) (auto simp: loop_state_def)
      then have "ps = (q @ [d]) @ p'" "ss = (u @ [c]) @ s" "fits (q @ [d]) (u @ [c])"
        using p by (auto simp: fits_def list_all2_appendI)
      then have "\<exists>q u. ps = q @ p' \<and> ss = u @ s \<and> fits q u"
        by blast
      then show "case star of None \<Rightarrow> True | Some (ps, ss) \<Rightarrow> \<exists>q u. ps = q @ p' \<and> ss = u @ s \<and> fits q u"
        using x(1) by simp
    qed simp
    moreover have "loop_goal s p' star \<longleftrightarrow> loop_goal (c # s) p star"
      using p by (cases star) (auto simp: loop_goal_def glob_simps)
    ultimately show ?thesis
      using 2(1,4,5) take p by (simp add: match_loop.simps(2) [of c s "d # p'"])
  next
    case star
    then obtain p' where p: "p = CHR ''*'' # p'"
      by (cases p) auto
    moreover have "c \<noteq> CHR ''*''"
      using 2(4) by auto
    moreover have "loop_state (c # s) p' (Some (p', c # s))"
      by (simp add: loop_state_def fits_def)
    moreover have "loop_goal (c # s) p' (Some (p', c # s)) \<longleftrightarrow> loop_goal (c # s) p star"
      using star_goal [OF 2(6) [unfolded p]] p by simp
    ultimately show ?thesis
      using 2(2,4) by (simp add: match_loop.simps(2) [of c s "CHR ''*'' # p'"])
  next
    case fail
    have no: "\<not> glob p (c # s)"
      using fail by (cases p) (auto simp: glob_simps)
    note step = match_loop.simps(2) [of c s p star, unfolded if_not_P [OF fail(1)] if_not_P [OF fail(2)]]
    show ?thesis
    proof (cases star)
      case None
      then show ?thesis
        using no step by (simp add: loop_goal_def)
    next
      case (Some x)
      then obtain ps ss q u where x: "star = Some (ps, ss)" "ps = q @ p" "ss = u @ c # s" "fits q u"
        using 2(6) by (cases x) (auto simp: loop_state_def)
      obtain a ss' where ss: "ss = a # ss'"
        using x(3) by (metis Nil_is_append_conv list.exhaust list.distinct(1))
      have "\<not> glob ps ss"
        using loop_fails [OF x(4) no] x(2,3) by simp
      then have "(\<exists>t. suffix t ss \<and> glob ps t) \<longleftrightarrow> (\<exists>t. suffix t ss' \<and> glob ps t)"
        using ss by (metis suffix_Cons)
      moreover have "CHR ''*'' \<notin> set ss'" "loop_state ss' ps (Some (ps, ss'))"
        using 2(5) x(1) ss by (auto simp: loop_state_def fits_def)
      ultimately have "match_loop ss' ps (Some (ps, ss')) \<longleftrightarrow> loop_goal (c # s) p star"
        using 2(3) [OF fail x(1) refl ss] x(1) by (simp add: loop_goal_def)
      moreover have "match_loop (c # s) p star = match_loop ss' ps (Some (ps, ss'))"
        unfolding step by (simp add: x(1) ss)
      ultimately show ?thesis
        by (simp)
    qed
  qed
qed

text \<open>C17: The backtracking wildcard match answers what the pattern means, for every text without a star.\<close>

theorem is_match_correct:
  assumes "CHR ''*'' \<notin> set (c_string s)"
  shows "is_match s p \<longleftrightarrow> glob (c_string p) (c_string s)"
  using match_loop_correct [of "c_string s" None "c_string p"] assms
  by (simp add: is_match_def loop_state_def loop_goal_def)

text \<open>A star in the text is taken for the one of the pattern, which then matches nothing else.\<close>

lemma is_match_literal_star: "\<not> is_match ''*a'' ''*''" "glob ''*'' ''*a''"
  by code_simp+

theorem is_match_correct_witness:
  "is_match ''PAYROLL'' ''P*L?'' = glob ''P*L?'' ''PAYROLL''"
proof -
  have "c_string ''PAYROLL'' = ''PAYROLL''" "c_string ''P*L?'' = ''P*L?''"
    by code_simp+
  then show ?thesis
    using is_match_correct [of "''PAYROLL''" "''P*L?''"] by simp
qed

end
