(* ===== verification/ZdsDscb.thy ===== *)
theory ZdsDscb
  imports ZdsNames Ccsid
begin

text \<open>
  The attributes of a data set as they are read from its format 1 DSCB (\<open>zds.cpp\<close>): organisation, record format,
  dates, space and use.  Fields are kept at their width; the extents are lists of bytes.
\<close>

section \<open>Data\<close>

record dscb =
  ds1credt :: "byte list"
  ds1expdt :: "byte list"
  ds1noepv :: byte
  ds1flag1 :: byte
  ds1refd :: "byte list"
  ds1smsfg :: byte
  ds1scext :: "byte list"
  ds1dsorg :: "16 word"
  ds1recfm :: byte
  ds1blkl :: "byte list"
  ds1lrecl :: "byte list"
  ds1scalo :: "byte list"
  ds1lstar :: "byte list"
  ds1ttthi :: byte
  ds1exnts :: "byte list"

text \<open>The fields of the right lengths.\<close>

definition dscb_ok :: "dscb \<Rightarrow> bool" where
  "dscb_ok d \<longleftrightarrow> length (ds1credt d) = 3 \<and> length (ds1expdt d) = 3 \<and> length (ds1refd d) = 3 \<and> length (ds1scext d) = 3 \<and>
     length (ds1blkl d) = 2 \<and> length (ds1lrecl d) = 2 \<and> length (ds1scalo d) = 4 \<and> length (ds1lstar d) = 3 \<and> length (ds1exnts d) = 30"

record zds_entry =
  en_name :: string
  en_alloc :: int
  en_allocx :: int
  en_blksize :: int
  en_cdate :: string
  en_dataclass :: string
  en_devtype :: "16 word"
  en_dsorg :: string
  en_dsntype :: string
  en_edate :: string
  en_encrypted :: bool
  en_lrecl :: int
  en_mgmtclass :: string
  en_migrated :: bool
  en_multivolume :: bool
  en_primary :: int
  en_rdate :: string
  en_recfm :: string
  en_secondary :: int
  en_spacu :: string
  en_storclass :: string
  en_usedp :: int
  en_usedx :: int
  en_volser :: string
  en_volsers :: "string list"

definition new_entry :: zds_entry where
  "new_entry = \<lparr>en_name = [], en_alloc = 0, en_allocx = 0, en_blksize = 0, en_cdate = [], en_dataclass = [], en_devtype = 0,
     en_dsorg = [], en_dsntype = [], en_edate = [], en_encrypted = False, en_lrecl = 0, en_mgmtclass = [], en_migrated = False,
     en_multivolume = False, en_primary = 0, en_rdate = [], en_recfm = [], en_secondary = 0, en_spacu = [], en_storclass = [],
     en_usedp = 0, en_usedx = 0, en_volser = [], en_volsers = []\<rparr>"

definition bit_set :: "'a::len word \<Rightarrow> 'a word \<Rightarrow> bool" where
  "bit_set w m \<longleftrightarrow> and w m \<noteq> 0"

section \<open>Organisation and record format\<close>

definition load_dsorg_from_dscb :: "dscb \<Rightarrow> string \<Rightarrow> string" where
  "load_dsorg_from_dscb d dsorg =
     (let o' = ds1dsorg d;
          dsorg = (if bit_set o' 0x4000 then ''PS'' else if bit_set o' 0x2000 then ''DA'' else if bit_set o' 0x0200 then ''PO''
            else if bit_set o' 0x0008 then ''VS'' else dsorg);
          dsorg = (if bit_set o' 0x0100 then dsorg @ ''U'' else dsorg)
      in if dsorg = [] then ''--'' else dsorg)"

definition load_recfm_from_dscb :: "dscb \<Rightarrow> string \<Rightarrow> string" where
  "load_recfm_from_dscb d recfm =
     (let f = ds1recfm d;
          recfm = (if and f 0xC0 = 0x80 then ''F'' else if and f 0xC0 = 0x40 then ''V'' else if and f 0xC0 = 0xC0 then ''U'' else recfm);
          recfm = (if bit_set f 0x10 then recfm @ ''B'' else recfm);
          recfm = (if bit_set f 0x08 \<and> recfm \<noteq> ''U'' then recfm @ ''S'' else recfm);
          recfm = (if bit_set f 0x04 then recfm @ ''A'' else recfm);
          recfm = (if bit_set f 0x02 then recfm @ ''M'' else recfm)
      in if recfm = [] then ''U'' else recfm)"

section \<open>Dates\<close>

definition days_in_month :: "int list" where
  "days_in_month = [31, 28, 31, 30, 31, 30, 31, 31, 30, 31, 30, 31]"

definition leap_year :: "int \<Rightarrow> bool" where
  "leap_year year \<longleftrightarrow> year mod 4 = 0 \<and> year mod 100 \<noteq> 0 \<or> year mod 400 = 0"

fun month_loop :: "bool \<Rightarrow> nat \<Rightarrow> int list \<Rightarrow> int \<Rightarrow> int \<Rightarrow> int \<times> int" where
  "month_loop is_leap i [] month day = (month, day)"
| "month_loop is_leap i (n # ns) month day = (if day > n
     then month_loop is_leap (i + 1) ns (month + 1) (day - (if i = 1 \<and> is_leap then 29 else n)) else (month, day))"

definition month_and_day :: "int \<Rightarrow> int \<Rightarrow> int \<times> int" where
  "month_and_day year day_of_year = month_loop (leap_year year) 0 days_in_month 1 day_of_year"

definition two_digits :: "int \<Rightarrow> string" where
  "two_digits n = (let s = show_int n in replicate (2 - length s) (CHR ''0'') @ s)"

definition four_digits :: "int \<Rightarrow> string" where
  "four_digits n = (let s = show_int n in replicate (4 - length s) (CHR ''0'') @ s)"

definition date_year :: "byte list \<Rightarrow> int" where
  "date_year date_in = 1900 + uint (date_in ! 0)"

definition date_day :: "byte list \<Rightarrow> int" where
  "date_day date_in = uint (date_in ! 1) * 256 + uint (date_in ! 2)"

definition load_date_from_dscb :: "byte list \<Rightarrow> bool \<Rightarrow> string" where
  "load_date_from_dscb date_in is_expiration_date =
     (if take 3 date_in = [0, 0, 0] then []
      else if is_expiration_date \<and> date_year date_in = 1999 \<and> date_day date_in = 365 then []
      else (case month_and_day (date_year date_in) (date_day date_in) of (month, day) \<Rightarrow>
        four_digits (date_year date_in) @ ''/'' @ two_digits month @ ''/'' @ two_digits day))"

section \<open>Extents\<close>

definition parse_cchh_cylinder :: "byte list \<Rightarrow> u32" where
  "parse_cchh_cylinder cchh =
     (let cyl_low = or (push_bit 8 (ucast (cchh ! 0))) (ucast (cchh ! 1)) :: u32;
          cyl_high = and (or (push_bit 4 (ucast (cchh ! 2))) (drop_bit 4 (ucast (cchh ! 3)))) 0x0FFF :: u32
      in or (push_bit 16 cyl_high) cyl_low)"

definition get_bytes_per_track :: "16 word \<Rightarrow> int" where
  "get_bytes_per_track devtype = (if devtype = 0x3380 then 47476 else if devtype = 0x9345 then 46456 else 56664)"

definition extent_head :: "byte \<Rightarrow> u32" where
  "extent_head b = and (ucast b) 0x0F"

definition calculate_extent_tracks :: "byte list \<Rightarrow> int" where
  "calculate_extent_tracks extent =
     (let lower_cyl = parse_cchh_cylinder (drop 2 extent); upper_cyl = parse_cchh_cylinder (drop 6 extent) in
      if upper_cyl < lower_cyl then 0
      else sint ((upper_cyl - lower_cyl) * 15 + (extent_head (extent ! 9) - extent_head (extent ! 5)) + 1))"

section \<open>Space\<close>

definition space_request :: "dscb \<Rightarrow> byte" where
  "space_request d = drop_bit 6 (and (ds1scalo d ! 0) 0xC0)"

definition load_spacu_from_dscb :: "dscb \<Rightarrow> string" where
  "load_spacu_from_dscb d = (let scal1 = ds1scalo d ! 0; dspac = space_request d; scxtf = ds1scext d ! 0 in
     if dspac = 3 then ''CYLINDERS''
     else if dspac = 2 then (if bit_set scal1 0x10 then ''BYTES'' else ''TRACKS'')
     else if dspac = 1 then ''BLOCKS''
     else if bit_set scal1 0x20 then (if bit_set scxtf 0x40 then ''MEGABYTES'' else if bit_set scxtf 0x20 then ''KILOBYTES''
       else if bit_set scxtf 0x10 then ''BYTES'' else ''TRACKS'')
     else ''BYTES'')"

definition load_primary_secondary_from_dscb :: "dscb \<Rightarrow> zds_entry \<Rightarrow> zds_entry" where
  "load_primary_secondary_from_dscb d e =
     (let scal3 = uint (ds1scalo d ! 1) * 65536 + uint (ds1scalo d ! 2) * 256 + uint (ds1scalo d ! 3);
          first_extent = ds1exnts d;
          primary = (if ds1noepv d > 0 then
            (if space_request d = 3 then uint (parse_cchh_cylinder (drop 6 first_extent) - parse_cchh_cylinder (drop 2 first_extent) + 1)
             else calculate_extent_tracks first_extent) else 0);
          scxtf = ds1scext d ! 0; scxtv = uint (ds1scext d ! 1) * 256 + uint (ds1scext d ! 2);
          secondary = (if en_spacu e = ''BYTES'' then
            (if bit_set scxtf 0x08 then scxtv * 256 else if bit_set scxtf 0x04 then scxtv * 65536 else scxtv) else scal3)
      in e\<lparr>en_primary := primary, en_secondary := secondary\<rparr>)"

definition load_general_attrs_from_dscb :: "dscb \<Rightarrow> zds_entry \<Rightarrow> zds_entry" where
  "load_general_attrs_from_dscb d e =
     (let e = e\<lparr>en_dsorg := load_dsorg_from_dscb d (en_dsorg e), en_spacu := load_spacu_from_dscb d\<rparr>;
          e = (if bit_set (ds1dsorg d) 0x0008 then e\<lparr>en_blksize := -1, en_lrecl := -1, en_recfm := []\<rparr>
            else e\<lparr>en_recfm := load_recfm_from_dscb d (en_recfm e),
              en_blksize := uint (ds1blkl d ! 0) * 256 + uint (ds1blkl d ! 1),
              en_lrecl := uint (ds1lrecl d ! 0) * 256 + uint (ds1lrecl d ! 1)\<rparr>);
          e = e\<lparr>en_dsntype := (if bit_set (ds1dsorg d) 0x0200 then (if bit_set (ds1smsfg d) 0x10 then ''LIBRARY'' else ''PDS'') else []),
            en_encrypted := bit_set (ds1flag1 d) 0x04\<rparr>
      in load_primary_secondary_from_dscb d e)"

definition extent_at :: "dscb \<Rightarrow> nat \<Rightarrow> byte list" where
  "extent_at d i = take 10 (drop (i * 10) (ds1exnts d))"

text \<open>The extents up to the first one that is not in use.\<close>

definition used_extents :: "dscb \<Rightarrow> byte list list" where
  "used_extents d = takeWhile (\<lambda>e. e ! 0 \<noteq> 0) (map (extent_at d) [0..<3])"

definition forward_extent :: "byte list \<Rightarrow> bool" where
  "forward_extent e \<longleftrightarrow> parse_cchh_cylinder (drop 6 e) \<ge> parse_cchh_cylinder (drop 2 e)"

definition block_bytes :: "zds_entry \<Rightarrow> int" where
  "block_bytes e = (let blocks_per_track = get_bytes_per_track (en_devtype e) div en_blksize e;
     blocks_per_track = (if blocks_per_track \<le> 0 then 1 else blocks_per_track) in blocks_per_track * en_blksize e)"

definition load_alloc_attrs_from_dscb :: "dscb \<Rightarrow> zds_entry \<Rightarrow> zds_entry" where
  "load_alloc_attrs_from_dscb d e =
     (let extents = filter forward_extent (used_extents d);
          total_cylinders = sum_list (map (\<lambda>x. sint (parse_cchh_cylinder (drop 6 x) - parse_cchh_cylinder (drop 2 x) + 1)) extents);
          total_tracks = sum_list (map calculate_extent_tracks extents);
          e = e\<lparr>en_allocx := uint (ds1noepv d), en_alloc := (if space_request d = 3 then total_cylinders else total_tracks)\<rparr>
      in if en_spacu e = ''BYTES'' \<and> en_blksize e > 0 then
           e\<lparr>en_alloc := (if en_alloc e > 0 then en_alloc e * block_bytes e else en_alloc e),
             en_primary := (if en_primary e > 0 then en_primary e * block_bytes e else en_primary e)\<rparr>
         else e)"

definition last_used_track :: "dscb \<Rightarrow> u32" where
  "last_used_track d = (let t = or (push_bit 8 (ucast (ds1lstar d ! 0))) (ucast (ds1lstar d ! 1)) :: u32 in
     if bit_set (ds1flag1 d) 0x10 then or t (push_bit 16 (ucast (ds1ttthi d))) else t)"

text \<open>The number of the first extent that reaches the track; \<open>i\<close> extents with \<open>cumulative\<close> tracks come before.\<close>

fun extents_used :: "u32 \<Rightarrow> int \<Rightarrow> nat \<Rightarrow> byte list list \<Rightarrow> int" where
  "extents_used t cumulative i [] = 0"
| "extents_used t cumulative i (x # xs) = (let cumulative = cumulative + calculate_extent_tracks x in
     if t \<le> word_of_int cumulative then int i + 1 else extents_used t cumulative (i + 1) xs)"

definition used_percentage :: "int \<Rightarrow> int \<Rightarrow> int" where
  "used_percentage used alloc = min 100 (100 * used div alloc)"

definition load_used_attrs_from_dscb :: "dscb \<Rightarrow> zds_entry \<Rightarrow> zds_entry" where
  "load_used_attrs_from_dscb d e =
     (if bit_set (ds1dsorg d) 0x2000 \<or> bit_set (ds1dsorg d) 0x0008 \<or> bit_set (ds1smsfg d) 0x10 then e\<lparr>en_usedp := -1, en_usedx := -1\<rparr>
      else if last_used_track d = 0 \<and> en_blksize e = 0 then e\<lparr>en_usedp := 0, en_usedx := 0\<rparr>
      else (let used = (if space_request d = 3 then sint ((last_used_track d + 1 + 15 - 1) div 15) else sint (last_used_track d + 1));
                e = e\<lparr>en_usedp := used, en_usedx := (if used > 0 then extents_used (last_used_track d) 0 0 (used_extents d) else en_usedx e)\<rparr>
            in if used > 0 \<and> en_alloc e > 0 then
                 e\<lparr>en_usedp := used_percentage used (if en_spacu e = ''BYTES'' \<and> en_blksize e > 0 then en_alloc e div block_bytes e else en_alloc e)\<rparr>
               else if used = 0 then e else e\<lparr>en_usedp := -1\<rparr>))"

definition load_date_attrs_from_dscb :: "dscb \<Rightarrow> zds_entry \<Rightarrow> zds_entry" where
  "load_date_attrs_from_dscb d e = e\<lparr>en_cdate := load_date_from_dscb (ds1credt d) False,
     en_edate := load_date_from_dscb (ds1expdt d) True, en_rdate := load_date_from_dscb (ds1refd d) False\<rparr>"

text \<open>\<open>ZDSDSCB1\<close> finds the DSCB or fails.\<close>

definition zds_get_attrs_from_dscb :: "(string \<Rightarrow> string \<Rightarrow> dscb option) \<Rightarrow> zds_entry \<Rightarrow> zds_entry" where
  "zds_get_attrs_from_dscb dscb1 e = (case dscb1 (c_string (en_name e)) (c_string (en_volser e)) of
     Some d \<Rightarrow> load_date_attrs_from_dscb d (load_used_attrs_from_dscb d (load_alloc_attrs_from_dscb d (load_general_attrs_from_dscb d e)))
   | None \<Rightarrow> e\<lparr>en_alloc := -1, en_allocx := -1, en_blksize := -1, en_lrecl := -1, en_primary := -1, en_secondary := -1,
       en_usedp := -1, en_usedx := -1\<rparr>)"

section \<open>Packed times\<close>

definition packed_digits :: "byte \<Rightarrow> int" where
  "packed_digits b = uint (and (drop_bit 4 b) 0x0F) * 10 + uint (and b 0x0F)"

definition parse_packed_time :: "byte \<Rightarrow> byte \<Rightarrow> byte \<Rightarrow> string" where
  "parse_packed_time hours minutes seconds =
     (if hours = 0 \<and> minutes = 0 \<and> seconds = 0 then []
      else (let hh = packed_digits hours; mm = packed_digits minutes; ss = packed_digits seconds in
        if hh > 23 \<or> mm > 59 \<or> ss > 59 then [] else two_digits hh @ '':'' @ two_digits mm @ '':'' @ two_digits ss))"

section \<open>Dates are right, but for leap days\<close>

text \<open>The days of the year before a month.\<close>

definition days_before :: "bool \<Rightarrow> nat \<Rightarrow> int" where
  "days_before leap months = sum_list (take months days_in_month) + (if leap \<and> months \<ge> 2 then 1 else 0)"

definition month_length :: "bool \<Rightarrow> nat \<Rightarrow> int" where
  "month_length leap months = days_in_month ! months + (if leap \<and> months = 1 then 1 else 0)"

definition right_date :: "bool \<Rightarrow> int \<Rightarrow> bool" where
  "right_date leap doy = (case month_loop leap 0 days_in_month 1 doy of (m, d) \<Rightarrow>
     1 \<le> m \<and> m \<le> 12 \<and> 1 \<le> d \<and> d \<le> month_length leap (nat (m - 1)) \<and> days_before leap (nat (m - 1)) + d = doy)"

lemma right_dates:
  "list_all (right_date False) [1..365]" "list_all (right_date True) ([1..59] @ [61..366])"
  by code_simp+

text \<open>A day of the year is given as the month and day of the calendar, the 29th of February excepted, in every
  year that a DSCB can hold.\<close>

theorem dscb_dates_right:
  assumes "1 \<le> doy" "doy \<le> (if leap_year year then 366 else 365)" "\<not> (leap_year year \<and> doy = 60)"
  shows "case month_and_day year doy of (m, d) \<Rightarrow> 1 \<le> m \<and> m \<le> 12 \<and> 1 \<le> d \<and> d \<le> month_length (leap_year year) (nat (m - 1)) \<and>
    days_before (leap_year year) (nat (m - 1)) + d = doy"
proof -
  have "right_date False doy" if "doy \<in> {1..365}"
    using that right_dates(1) unfolding list_all_iff set_upto by blast
  moreover have "right_date True doy" if "doy \<in> {1..59} \<union> {61..366}"
    using that right_dates(2) unfolding list_all_iff set_append set_upto by blast
  moreover have "doy \<in> (if leap_year year then {1..59} \<union> {61..366} else {1..365})"
    using assms by (auto split: if_splits)
  ultimately have "right_date (leap_year year) doy"
    by (auto split: if_splits)
  then show ?thesis
    by (simp add: right_date_def month_and_day_def)
qed

text \<open>The 29th of February is shown as day 0 of March.\<close>

theorem leap_day_lost:
  assumes "leap_year (date_year d)" "date_day d = 60"
  shows "load_date_from_dscb d expiration = four_digits (date_year d) @ ''/03/00''"
proof -
  have "month_and_day (date_year d) 60 = (3, 0)"
    using assms(1) by (simp add: month_and_day_def days_in_month_def)
  moreover have "take 3 d \<noteq> [0, 0, 0]"
  proof
    assume *: "take 3 d = [0, 0, 0]"
    then have "d ! 1 = 0" "d ! 2 = 0"
      by (metis nth_take nth_Cons_0 nth_Cons_Suc numeral_3_eq_3 One_nat_def lessI less_Suc_eq numeral_2_eq_2)+
    then show False
      using assms(2) by (simp add: date_day_def)
  qed
  moreover have "two_digits 3 = ''03''" "two_digits 0 = ''00''"
    by code_simp+
  ultimately show ?thesis
    using assms by (simp add: load_date_from_dscb_def)
qed

theorem dscb_dates_right_witness:
  "case month_and_day 2024 366 of (m, d) \<Rightarrow> m \<le> 12 \<and> d \<le> month_length True (nat (m - 1)) \<and> days_before True (nat (m - 1)) + d = 366"
  using dscb_dates_right [of 366 2024] by (simp add: leap_year_def split: prod.splits)

theorem leap_day_lost_witness:
  "load_date_from_dscb [124, 0, 60] False = ''2024/03/00''"
proof -
  have "date_year [124, 0, 60] = 2024" "date_day [124, 0, 60] = 60" "leap_year 2024" "four_digits 2024 = ''2024''"
    by code_simp+
  then show ?thesis
    using leap_day_lost [of "[124, 0, 60]" False] by simp
qed

section \<open>Extents have as many tracks as they should\<close>

definition cchh :: "nat \<Rightarrow> nat \<Rightarrow> byte list" where
  "cchh cyl head = [word_of_nat (cyl div 256 mod 256), word_of_nat (cyl mod 256), word_of_nat (cyl div 65536 div 16 mod 256),
     word_of_nat ((cyl div 65536 mod 16) * 16 + head)]"

lemma cchh_length [simp]: "length (cchh cyl head) = 4"
  by (simp add: cchh_def)

lemma byte_unat: "n < 256 \<Longrightarrow> unat (word_of_nat n :: byte) = n"
  by (simp add: unat_of_nat)

lemma byte_less: "unat (b :: byte) < 256"
  using unsigned_less [of b, where ?'a = nat] by simp

lemma unat_shift:
  fixes a :: byte
  assumes "n \<le> 24"
  shows "unat (push_bit n (ucast a) :: u32) = unat a * 2 ^ n"
proof -
  have "unat a < 2 ^ 8"
    using byte_less [of a] by simp
  then have "unat a * 2 ^ n < 2 ^ 8 * 2 ^ n"
    by simp
  also have "\<dots> \<le> (2::nat) ^ 32"
    using power_increasing [OF assms, of "2 :: nat"] by simp
  finally have "unat a * 2 ^ n < 2 ^ 32" .
  then show ?thesis
    unfolding unsigned_push_bit_eq by (simp add: unsigned_ucast_eq take_bit_nat_eq_self push_bit_eq_mult)
qed

lemma unat_or_add: "and (a :: u32) b = 0 \<Longrightarrow> unat a + unat b < 2 ^ 32 \<Longrightarrow> unat (or a b) = unat a + unat b"
  by (simp add: disjunctive_add_eq_or [symmetric] unat_word_ariths)

lemma joined_bytes: "unat (or (push_bit 8 (ucast (a :: byte))) (ucast (b :: byte)) :: u32) = unat a * 256 + unat b"
proof -
  have "and (push_bit 8 (ucast a)) (ucast b) = (0 :: u32)"
    by (rule bit_word_eqI) (auto simp: bit_simps dest: bit_imp_le_length)
  then show ?thesis
    using byte_less [of a] byte_less [of b] by (simp add: unat_or_add unat_shift unsigned_ucast_eq take_bit_nat_eq_self)
qed

lemma high_nibbles: "unat (and (or (push_bit 4 (ucast (a :: byte))) (drop_bit 4 (ucast (b :: byte)))) 0x0FFF :: u32) = unat a * 16 + unat b div 16"
proof -
  have "and (push_bit 4 (ucast a)) (drop_bit 4 (ucast b)) = (0 :: u32)"
    by (rule bit_word_eqI) (auto simp: bit_simps dest: bit_imp_le_length)
  moreover have "unat (drop_bit 4 (ucast b) :: u32) = unat b div 16"
    using byte_less [of b] unfolding unsigned_drop_bit_eq by (simp add: unsigned_ucast_eq take_bit_nat_eq_self drop_bit_eq_div)
  ultimately have "unat (or (push_bit 4 (ucast a)) (drop_bit 4 (ucast b)) :: u32) = unat a * 16 + unat b div 16"
    using byte_less [of a] byte_less [of b] by (simp add: unat_or_add unat_shift)
  moreover have "unat a * 16 + unat b div 16 < 4096"
    using byte_less [of a] byte_less [of b] by simp
  moreover have "and w 0x0FFF = take_bit 12 w" for w :: u32
    by (simp add: take_bit_eq_mask mask_eq_exp_minus_1)
  ultimately show ?thesis
    by (simp only: unsigned_take_bit_eq) (simp add: take_bit_nat_eq_self)
qed

lemma joined_halves:
  assumes "unat (a :: u32) < 4096" "unat (b :: u32) < 65536"
  shows "unat (or (push_bit 16 a) b) = unat a * 65536 + unat b"
proof -
  have "take_bit 16 b = b"
    using assms(2) by (intro word_unat_eq_iff [THEN iffD2]) (simp add: unsigned_take_bit_eq take_bit_nat_eq_self)
  then have small: "n < 16" if "bit b n" for n
    using that by (metis bit_take_bit_iff)
  then have "and (push_bit 16 a) b = 0"
    by (intro bit_word_eqI) (auto simp: bit_simps dest: small)
  moreover have "unat (push_bit 16 a) = unat a * 65536"
    using assms(1) unfolding unsigned_push_bit_eq by (simp add: take_bit_nat_eq_self push_bit_eq_mult)
  ultimately show ?thesis
    using assms by (simp add: unat_or_add)
qed

lemma cylinder_value:
  "unat (parse_cchh_cylinder (a # b # c # d # rest)) = (unat c * 16 + unat d div 16) * 65536 + (unat a * 256 + unat b)"
proof -
  have "unat (and (or (push_bit 4 (ucast c)) (drop_bit 4 (ucast d))) 0x0FFF :: u32) < 4096"
      "unat (or (push_bit 8 (ucast a)) (ucast b) :: u32) < 65536"
    unfolding high_nibbles joined_bytes using byte_less [of a] byte_less [of b] byte_less [of c] byte_less [of d] by simp_all
  from joined_halves [OF this] show ?thesis
    unfolding high_nibbles joined_bytes by (simp add: parse_cchh_cylinder_def Let_def)
qed

lemma parse_cylinder:
  assumes "cyl < 2 ^ 28" "head < 16"
  shows "unat (parse_cchh_cylinder (cchh cyl head @ rest)) = cyl"
proof -
  have b: "cyl div 65536 div 16 mod 256 < 256" "(cyl div 65536 mod 16) * 16 + head < 256" "cyl mod 256 < 256" "cyl div 256 mod 256 < 256"
    using assms by simp_all
  have v: "unat (parse_cchh_cylinder (cchh cyl head @ rest)) =
      (cyl div 65536 div 16 mod 256 * 16 + (cyl div 65536 mod 16 * 16 + head) div 16) * 65536 + (cyl div 256 mod 256 * 256 + cyl mod 256)"
    using b [THEN byte_unat] unfolding cchh_def append.simps cylinder_value by (simp only:)
  have "cyl div 65536 < 4096"
    using assms(1) by (simp add: less_mult_imp_div_less)
  then have "cyl div 65536 div 16 mod 256 * 16 + (cyl div 65536 mod 16 * 16 + head) div 16 = cyl div 65536"
    using assms(2) by simp
  moreover have "cyl div 256 mod 256 * 256 + cyl mod 256 = cyl mod 65536"
    using mod_mult2_eq [of cyl 256 256] by simp
  ultimately show ?thesis
    unfolding v by simp
qed

lemma word_from_nat: "unat w = n \<Longrightarrow> w = word_of_nat n"
  by (metis of_nat_unat ucast_id)

lemma head_value:
  assumes "head < 16"
  shows "extent_head (cchh cyl head ! 3) = word_of_nat head"
proof -
  have m: "and w 0x0F = take_bit 4 w" for w :: u32
    by (simp add: take_bit_eq_mask mask_eq_exp_minus_1)
  have "(cyl div 65536 mod 16) * 16 + head < 256"
    using assms by simp
  then have "unat (cchh cyl head ! 3) = (cyl div 65536 mod 16) * 16 + head"
    unfolding cchh_def by (simp add: byte_unat numeral_3_eq_3 del: of_nat_add of_nat_mult)
  then have "unat (ucast (cchh cyl head ! 3) :: u32) = (cyl div 65536 mod 16) * 16 + head"
    using assms by (simp add: unsigned_ucast_eq take_bit_nat_eq_self)
  then have "unat (extent_head (cchh cyl head ! 3)) = head"
    unfolding extent_head_def m unsigned_take_bit_eq using assms by (simp add: take_bit_eq_mod)
  then show ?thesis
    by (rule word_from_nat)
qed

lemma sint_small: "0 \<le> v \<Longrightarrow> v < 2 ^ 31 \<Longrightarrow> sint (word_of_int v :: u32) = v"
  by (simp add: signed_of_int signed_take_bit_int_eq_self)

text \<open>An extent from one track to another has as many tracks as lie between them, both counted.\<close>

theorem extent_tracks_exact:
  assumes "lc * 15 + lh \<le> uc * 15 + uh" "lh < 15" "uh < 15" "uc < 2 ^ 27"
  shows "calculate_extent_tracks (t # n # cchh lc lh @ cchh uc uh) = int (uc * 15 + uh) - int (lc * 15 + lh) + 1"
proof -
  have le: "lc \<le> uc"
    using assms by presburger
  have c: "parse_cchh_cylinder (cchh lc lh @ rest) = word_of_nat lc" "parse_cchh_cylinder (cchh uc uh @ rest) = word_of_nat uc" for rest
    using parse_cylinder [of lc lh rest] parse_cylinder [of uc uh rest] assms le by (simp_all add: word_from_nat)
  have drops: "drop 2 (t # n # cchh lc lh @ cchh uc uh) = cchh lc lh @ cchh uc uh" "drop 6 (t # n # cchh lc lh @ cchh uc uh) = cchh uc uh @ []"
    by (simp_all add: cchh_def)
  have heads: "(t # n # cchh lc lh @ cchh uc uh) ! 5 = cchh lc lh ! 3" "(t # n # cchh lc lh @ cchh uc uh) ! 9 = cchh uc uh ! 3"
    by (simp_all add: cchh_def)
  have nl: "\<not> (word_of_nat uc :: u32) < word_of_nat lc"
    using le assms(4) by (simp add: word_less_nat_alt unat_of_nat)
  have w: "(word_of_nat uc - word_of_nat lc) * 15 + (word_of_nat uh - word_of_nat lh) + 1 =
      (word_of_int (int (uc * 15 + uh) - int (lc * 15 + lh) + 1) :: u32)"
    by (simp add: algebra_simps)
  have h: "extent_head (cchh lc lh ! 3) = word_of_nat lh" "extent_head (cchh uc uh ! 3) = word_of_nat uh"
    using assms by (simp_all add: head_value)
  show ?thesis
    unfolding calculate_extent_tracks_def Let_def drops heads c if_not_P [OF nl] h w using assms by (intro sint_small) simp_all
qed

theorem extent_tracks_exact_witness:
  "calculate_extent_tracks (1 # 0 # cchh 100 3 @ cchh 101 2) = 15"
  using extent_tracks_exact [of 100 3 101 2 1 0] by simp

text \<open>A data set whose last track is the first one of its second extent counts as having one extent in use.\<close>

lemma usedx_off_by_one: "extents_used 15 0 0 [1 # 0 # cchh 10 0 @ cchh 10 14, 1 # 1 # cchh 20 0 @ cchh 20 14] = 1"
  using extent_tracks_exact [of 10 0 10 14 1 0] by simp

text \<open>A time of midnight is shown as no time.\<close>

lemma midnight_lost: "parse_packed_time 0 0 0 = []" "parse_packed_time 0 0 1 = ''00:00:01''"
  by code_simp+

end
