(* ===== verification/ZdsMembers.thy ===== *)
theory ZdsMembers
  imports ZdsDscb
begin

text \<open>
  The members of a partitioned data set (\<open>zds_list_members\<close>): its directory is read as blocks of 256 bytes, a
  count and entries of varying length.  The listing of a well-formed directory is proved to be its entries, in
  order, cut at the limit.
\<close>

section \<open>Data\<close>

record zds_mem =
  mem_name :: string
  mem_vers :: int
  mem_mod :: int
  mem_c4date :: string
  mem_m4date :: string
  mem_mtime :: string
  mem_cnorc :: int
  mem_inorc :: int
  mem_mnorc :: int
  mem_user :: string
  mem_sclm :: bool

definition new_mem :: "string \<Rightarrow> zds_mem" where
  "new_mem name = \<lparr>mem_name = name, mem_vers = 0, mem_mod = 0, mem_c4date = [], mem_m4date = [], mem_mtime = [],
     mem_cnorc = 0, mem_inorc = 0, mem_mnorc = 0, mem_user = [], mem_sclm = False\<rparr>"

text \<open>A block: the count, which includes its own two bytes, and the 254 bytes after it.\<close>

record dir_block =
  blk_count :: nat
  blk_rest :: "byte list"

definition RECORD_ENTRY_SIZE :: nat where
  "RECORD_ENTRY_SIZE = 12"

definition ISPF_STATS_SIZE :: nat where
  "ISPF_STATS_SIZE = 30"

definition ZDS_DEFAULT_MAX_MEMBER_ENTRIES :: int where
  "ZDS_DEFAULT_MAX_MEMBER_ENTRIES = 5000"

definition RTNCD_WARNING :: int where
  "RTNCD_WARNING = 1"

definition short_at :: "byte list \<Rightarrow> nat \<Rightarrow> int" where
  "short_at s i = sint (word_of_int (uint (s ! i) * 256 + uint (s ! (i + 1))) :: 16 word)"

text \<open>The service that formats a date answers a return code and the text.\<close>

definition load_stats :: "(byte list \<Rightarrow> int \<times> string) \<Rightarrow> byte list \<Rightarrow> zds_mem \<Rightarrow> zds_mem" where
  "load_stats convert_date s m =
     (let date = (\<lambda>i. case convert_date (take 4 (drop i s)) of (rc, text') \<Rightarrow> if rc = 0 then text' else []) in
      m\<lparr>mem_vers := uint (s ! 0), mem_mod := uint (s ! 1), mem_sclm := bit_set (s ! 2) 0x80,
        mem_c4date := date 4, mem_m4date := date 8, mem_mtime := parse_packed_time (s ! 12) (s ! 13) (s ! 3),
        mem_cnorc := short_at s 14, mem_inorc := short_at s 16, mem_mnorc := short_at s 18,
        mem_user := c_string (string_of (take 8 (drop 20 s)))\<rparr>)"

text \<open>The blanks of a name become NULs; the first one ends it.\<close>

definition entry_name :: "byte list \<Rightarrow> string" where
  "entry_name bs = c_string (map (\<lambda>c. if c = CHR '' '' then nul_char else c) (string_of bs))"

definition halfwords :: "byte \<Rightarrow> nat" where
  "halfwords info = unat (and info 0x1F)"

definition end_of_entries :: "byte list" where
  "end_of_entries = replicate 8 0xFF"

section \<open>Scanning\<close>

record member_query =
  q_convert :: "byte list \<Rightarrow> int \<times> string"
  q_pattern :: string
  q_attributes :: bool
  q_max :: int

definition wanted :: "member_query \<Rightarrow> string \<Rightarrow> bool" where
  "wanted q name \<longleftrightarrow> q_pattern q = [] \<or> is_match name (map to_upper (q_pattern q))"

definition member_of :: "member_query \<Rightarrow> byte list \<Rightarrow> string \<Rightarrow> nat \<Rightarrow> zds_mem" where
  "member_of q data name user_data_len =
     (if q_attributes q \<and> user_data_len \<ge> ISPF_STATS_SIZE then load_stats (q_convert q) (drop RECORD_ENTRY_SIZE data) (new_mem name)
      else new_mem name)"

text \<open>The entries of a block: whether the limit was exceeded, and the members so far.  \<open>left\<close> is what the count
  leaves.  \<open>None\<close> when an entry reaches past the block.  The limit is compared with a counter that is the number of
  members so far.\<close>

function scan_entries :: "member_query \<Rightarrow> byte list \<Rightarrow> int \<Rightarrow> zds_mem list \<Rightarrow> (bool \<times> zds_mem list) option" where
  "scan_entries q data left ms =
     (if left \<le> 0 then Some (False, ms)
      else if length data < RECORD_ENTRY_SIZE then None
      else if take 8 data = end_of_entries then Some (False, ms)
      else (let hw = halfwords (data ! 11); name = entry_name (take 8 data); len = RECORD_ENTRY_SIZE + hw * 2;
                added = wanted q name in
        if added \<and> int (length ms) + 1 > q_max q then Some (True, ms)
        else if added \<and> q_attributes q \<and> hw * 2 \<ge> ISPF_STATS_SIZE \<and> length data < RECORD_ENTRY_SIZE + ISPF_STATS_SIZE then None
        else (let ms = (if added then ms @ [member_of q data name (hw * 2)] else ms); remainder = left - int len in
          if 0 \<le> remainder \<and> remainder < int RECORD_ENTRY_SIZE then Some (False, ms)
          else scan_entries q (drop len data) remainder ms)))"
  by pat_completeness auto
termination
  by (relation "measure (\<lambda>(q, data, left, ms). length data)") (auto simp: RECORD_ENTRY_SIZE_def)

declare scan_entries.simps [simp del]

fun scan_blocks :: "member_query \<Rightarrow> dir_block list \<Rightarrow> zds_mem list \<Rightarrow> (bool \<times> zds_mem list) option" where
  "scan_blocks q [] ms = Some (False, ms)"
| "scan_blocks q (b # bs) ms = (case scan_entries q (blk_rest b) (int (blk_count b)) ms of
     None \<Rightarrow> None | Some (True, ms) \<Rightarrow> Some (True, ms) | Some (False, ms) \<Rightarrow> scan_blocks q bs ms)"

section \<open>Listing\<close>

text \<open>Opening a directory fails with an \<open>errno\<close>, its text and an abend code, or gives the blocks.\<close>

datatype dir_open = DirFailed int string int | DirBlocks "dir_block list"

definition cut_msg :: "string \<Rightarrow> zdiag \<Rightarrow> zdiag" where
  "cut_msg s d = d\<lparr>diag_msg := take 255 s, diag_msg_len := int (length s)\<rparr>"

definition hex3 :: "int \<Rightarrow> string" where
  "hex3 n = (let s = map to_upper (etag_hex (nat n)) in replicate (3 - length s) (CHR ''0'') @ s)"

definition list_failed :: "string \<Rightarrow> int \<Rightarrow> string \<Rightarrow> int \<Rightarrow> string" where
  "list_failed dsn errno reason abend =
     (if errno = 92 then
        (if abend = 0x913 then ''Insufficient permissions for opening data set '' @ in_quotes (c_string dsn) @ '' (S913 abend)''
         else ''Could not list members for '' @ in_quotes (c_string dsn) @ '': '' @ reason @ '' (errno '' @ show_int errno @
           '') abend code S'' @ hex3 abend)
      else ''Could not list members for '' @ in_quotes (c_string dsn) @ '': '' @ reason @ '' (errno '' @ show_int errno @ '')'')"

definition ZDS_RSNCD_MAXED_ENTRIES_REACHED :: int where
  "ZDS_RSNCD_MAXED_ENTRIES_REACHED = -1"

definition default_max :: "int \<Rightarrow> int \<Rightarrow> int" where
  "default_max d max_entries = (if max_entries = 0 then d else max_entries)"

text \<open>The return code, the diagnostics and the members.  A negative limit makes the reservation of the vector throw
  and has no result here, as when an entry reaches past its block.\<close>

definition zds_list_members ::
  "(string \<Rightarrow> dir_open) \<Rightarrow> (byte list \<Rightarrow> int \<times> string) \<Rightarrow> int \<Rightarrow> string \<Rightarrow> string \<Rightarrow> bool \<Rightarrow> zdiag \<Rightarrow> (int \<times> zdiag \<times> zds_mem list) option" where
  "zds_list_members open_dir convert_date max_entries dsn pattern show_attributes d =
     (let maximum = default_max ZDS_DEFAULT_MAX_MEMBER_ENTRIES max_entries in
      if maximum < 0 then None
      else (case open_dir (dsn_path dsn) of
        DirFailed errno reason abend \<Rightarrow> Some (RTNCD_FAILURE, cut_msg (list_failed dsn errno reason abend) d, [])
      | DirBlocks bs \<Rightarrow>
        map_option (\<lambda>(maxed, ms). if maxed then (RTNCD_WARNING,
            (cut_msg (''Reached maximum returned members requested '' @ show_int maximum) d)\<lparr>detail_rc := ZDS_RSNCD_MAXED_ENTRIES_REACHED\<rparr>, ms)
          else (0, d, ms))
        (scan_blocks \<lparr>q_convert = convert_date, q_pattern = pattern, q_attributes = show_attributes, q_max = maximum\<rparr> bs [])))"

section \<open>Directories as they should be\<close>

text \<open>An entry: the name, which fills eight bytes with blanks, where the member starts, flags and user data.\<close>

record dir_entry =
  de_name :: string
  de_ttr :: "byte list"
  de_info :: byte
  de_data :: "byte list"

definition entry_ok :: "dir_entry \<Rightarrow> bool" where
  "entry_ok e \<longleftrightarrow> de_name e \<noteq> [] \<and> length (de_name e) \<le> 8 \<and> list_all (\<lambda>c. c \<noteq> CHR '' '' \<and> c \<noteq> nul_char \<and> byte_of c \<noteq> 0xFF) (de_name e) \<and>
     length (de_ttr e) = 3 \<and> length (de_data e) = 2 * halfwords (de_info e)"

definition padded :: "string \<Rightarrow> byte list" where
  "padded name = bytes_of (name @ replicate (8 - length name) (CHR '' ''))"

definition entry_bytes :: "dir_entry \<Rightarrow> byte list" where
  "entry_bytes e = padded (de_name e) @ de_ttr e @ [de_info e] @ de_data e"

text \<open>A block ends with the last entry that fits, or with the mark that ends the directory.\<close>

definition block_holds :: "dir_entry list \<Rightarrow> dir_block \<Rightarrow> bool" where
  "block_holds es b \<longleftrightarrow> list_all entry_ok es \<and> (let used = concat (map entry_bytes es); tail = drop (length used) (blk_rest b) in
     take (length used) (blk_rest b) = used \<and>
     (take 8 tail = end_of_entries \<and> length tail \<ge> 12 \<and> blk_count b \<ge> length used + 10 \<or> es \<noteq> [] \<and> blk_count b = length used + 2))"

definition query_member :: "member_query \<Rightarrow> dir_entry \<Rightarrow> zds_mem" where
  "query_member q e = member_of q (entry_bytes e) (de_name e) (length (de_data e))"

lemma entry_lengths: "entry_ok e \<Longrightarrow> length (entry_bytes e) = 12 + 2 * halfwords (de_info e)" "length (de_name e) \<le> 8 \<Longrightarrow> length (padded (de_name e)) = 8"
  by (simp_all add: entry_ok_def entry_bytes_def padded_def bytes_of_def)

lemma entry_name_padded: "entry_ok e \<Longrightarrow> entry_name (padded (de_name e)) = de_name e"
proof -
  assume ok: "entry_ok e"
  let ?f = "\<lambda>c. if c = CHR '' '' then nul_char else c"
  have "string_of (padded (de_name e)) = de_name e @ replicate (8 - length (de_name e)) (CHR '' '')"
    by (simp add: padded_def string_of_def bytes_of_def comp_def)
  moreover have "map ?f (de_name e) = de_name e"
    using ok by (intro map_idI) (auto simp: entry_ok_def list_all_iff)
  moreover have "takeWhile (\<lambda>c. c \<noteq> nul_char) (de_name e @ replicate n nul_char) = de_name e" for n
    using ok by (subst takeWhile_append2) (auto simp: entry_ok_def list_all_iff)
  ultimately show "entry_name (padded (de_name e)) = de_name e"
    by (simp add: entry_name_def c_string_def)
qed

lemma entry_parts:
  assumes "entry_ok e"
  shows "take 8 (entry_bytes e @ suf) = padded (de_name e)" "(entry_bytes e @ suf) ! 11 = de_info e"
    "drop 12 (entry_bytes e @ suf) = de_data e @ suf" "padded (de_name e) \<noteq> end_of_entries"
proof -
  have l: "length (padded (de_name e)) = 8" "length (de_ttr e) = 3"
    using assms entry_lengths(2) by (simp_all add: entry_ok_def)
  show "take 8 (entry_bytes e @ suf) = padded (de_name e)" "(entry_bytes e @ suf) ! 11 = de_info e"
    "drop 12 (entry_bytes e @ suf) = de_data e @ suf"
    using l by (simp_all add: entry_bytes_def nth_append)
  obtain c cs where n: "de_name e = c # cs" "byte_of c \<noteq> 0xFF"
    using assms by (cases "de_name e") (auto simp: entry_ok_def)
  then show "padded (de_name e) \<noteq> end_of_entries"
    by (simp add: padded_def bytes_of_def end_of_entries_def numeral_eq_Suc)
qed

lemma load_stats_prefix: "length s \<ge> 30 \<Longrightarrow> load_stats f (s @ t) m = load_stats f s m"
  by (cases "s = []") (simp_all add: load_stats_def Let_def nth_append short_at_def)

lemma query_member_more:
  assumes "entry_ok e"
  shows "member_of q (entry_bytes e @ suf) (de_name e) (halfwords (de_info e) * 2) = query_member q e"
proof -
  have "length (de_data e) = halfwords (de_info e) * 2"
    using assms by (simp add: entry_ok_def)
  then show ?thesis
    using entry_parts(3) [OF assms, of suf] entry_parts(3) [OF assms, of "[]"]
    by (simp add: query_member_def member_of_def RECORD_ENTRY_SIZE_def ISPF_STATS_SIZE_def load_stats_prefix)
qed

definition found :: "member_query \<Rightarrow> dir_entry list \<Rightarrow> zds_mem list" where
  "found q es = map (query_member q) (filter (\<lambda>e. wanted q (de_name e)) es)"

definition limited :: "member_query \<Rightarrow> zds_mem list \<Rightarrow> bool \<times> zds_mem list" where
  "limited q ms = (int (length ms) > q_max q, take (nat (q_max q)) ms)"

lemma found_Cons: "found q (e # es) = (if wanted q (de_name e) then [query_member q e] else []) @ found q es"
  by (simp add: found_def)

lemma scan_entry:
  assumes "entry_ok e" "left > 0"
  shows "scan_entries q (entry_bytes e @ suf) left ms =
    (if wanted q (de_name e) \<and> int (length ms) + 1 > q_max q then Some (True, ms)
     else (let ms = ms @ found q [e]; remainder = left - int (length (entry_bytes e)) in
       if 0 \<le> remainder \<and> remainder < 12 then Some (False, ms) else scan_entries q suf remainder ms))"
proof -
  have "length (de_data e) = halfwords (de_info e) * 2"
    using assms(1) by (simp add: entry_ok_def)
  then have "length (entry_bytes e) = 12 + halfwords (de_info e) * 2" "drop (12 + halfwords (de_info e) * 2) (entry_bytes e @ suf) = suf"
    using entry_lengths(1) [OF assms(1)] by simp_all
  then show ?thesis
    using assms(2) entry_parts(1-3) [OF assms(1), of suf] entry_parts(4) [OF assms(1)] entry_name_padded [OF assms(1)] query_member_more [OF assms(1), of q suf]
    by (subst scan_entries.simps) (auto simp: RECORD_ENTRY_SIZE_def ISPF_STATS_SIZE_def Let_def found_def)
qed

text \<open>How scanning goes on: with all the members of the entries, or cut at the limit.\<close>

lemma scan_block:
  "es \<noteq> [] \<and> left = int (length (concat (map entry_bytes es))) + 2 \<or>
     take 8 tail = end_of_entries \<and> length tail \<ge> 12 \<and> left \<ge> int (length (concat (map entry_bytes es))) + 10 \<Longrightarrow>
   list_all entry_ok es \<Longrightarrow> int (length ms) \<le> q_max q \<Longrightarrow>
   scan_entries q (concat (map entry_bytes es) @ tail) left ms = Some (limited q (ms @ found q es))"
proof (induction es arbitrary: left ms)
  case Nil
  then have "scan_entries q tail left ms = Some (False, ms)"
    by (subst scan_entries.simps) (auto simp: RECORD_ENTRY_SIZE_def)
  then show ?case
    using Nil by (simp add: limited_def found_def)
next
  case (Cons e es)
  have ok: "entry_ok e" "list_all entry_ok es"
    using Cons.prems(2) by simp_all
  have len: "length (entry_bytes e) \<ge> 12"
    using entry_lengths(1) [OF ok(1)] by simp
  have pos: "left > 0"
    using Cons.prems(1) by auto
  note step = scan_entry [OF ok(1) pos, of q "concat (map entry_bytes es) @ tail" ms]
  show ?case
  proof (cases "wanted q (de_name e) \<and> int (length ms) + 1 > q_max q")
    case True
    then have "limited q (ms @ found q (e # es)) = (True, ms)"
      using Cons.prems(3) by (simp add: limited_def found_Cons)
    then show ?thesis
      using step True by simp
  next
    case False
    let ?ms = "ms @ found q [e]" and ?left = "left - int (length (entry_bytes e))"
    have fits: "int (length ?ms) \<le> q_max q"
      using False Cons.prems(3) by (auto simp: found_def)
    have split: "ms @ found q (e # es) = ?ms @ found q es"
      by (simp add: found_def)
    show ?thesis
    proof (cases "0 \<le> ?left \<and> ?left < 12")
      case True
      have "es = []"
      proof (rule ccontr)
        assume "es \<noteq> []"
        then obtain e' es' where "es = e' # es'"
          by (cases es) auto
        then have "length (concat (map entry_bytes es)) \<ge> 12"
          using entry_lengths(1) [of e'] ok(2) by simp
        then show False
          using True Cons.prems(1) by auto
      qed
      then show ?thesis
        using step False True fits by (simp add: Let_def limited_def)
    next
      case more_left: False
      then have "es \<noteq> [] \<and> ?left = int (length (concat (map entry_bytes es))) + 2 \<or>
          take 8 tail = end_of_entries \<and> length tail \<ge> 12 \<and> ?left \<ge> int (length (concat (map entry_bytes es))) + 10"
        using Cons.prems(1) by auto
      from Cons.IH [OF this ok(2) fits] show ?thesis
        using step unfolding Let_def if_not_P [OF False] if_not_P [OF more_left] split by simp
    qed
  qed
qed

lemma scan_directory:
  "list_all2 block_holds gs bs \<Longrightarrow> int (length ms) \<le> q_max q \<Longrightarrow>
   scan_blocks q bs ms = Some (limited q (ms @ found q (concat gs)))"
proof (induction gs bs arbitrary: ms rule: list_all2_induct)
  case Nil
  then show ?case
    by (simp add: limited_def found_def)
next
  case (Cons g gs b bs)
  let ?used = "concat (map entry_bytes g)"
  have b: "blk_rest b = ?used @ drop (length ?used) (blk_rest b)"
    using Cons.hyps(1) unfolding block_holds_def Let_def by (metis append_take_drop_id)
  have "scan_entries q (blk_rest b) (int (blk_count b)) ms = Some (limited q (ms @ found q g))"
    by (subst b, rule scan_block) (use Cons.hyps(1) Cons.prems in \<open>auto simp: block_holds_def Let_def\<close>)
  moreover have "found q (concat (g # gs)) = found q g @ found q (concat gs)"
    by (simp add: found_def)
  ultimately show ?case
    using Cons.IH [of "ms @ found q g"] by (cases "int (length (ms @ found q g)) > q_max q") (auto simp: limited_def)
qed

text \<open>C16: Listing the members of a directory gives its entries in order, those whose names match the pattern, with the
  attributes of each; when there are more than the limit, exactly the first ones and a warning.\<close>

theorem members_listed:
  assumes "open_dir (dsn_path dsn) = DirBlocks bs" "list_all2 block_holds gs bs" "max_entries \<ge> 0"
  shows "\<exists>d'. zds_list_members open_dir convert max_entries dsn pattern attributes d =
    (let maximum = nat (default_max 5000 max_entries); ms = map (query_member \<lparr>q_convert = convert, q_pattern = pattern, q_attributes = attributes, q_max = int maximum\<rparr>)
         (filter (\<lambda>e. pattern = [] \<or> is_match (de_name e) (map to_upper pattern)) (concat gs)) in
     Some (if length ms > maximum then (RTNCD_WARNING, d', take maximum ms) else (0, d, ms)))"
proof -
  let ?max = "default_max 5000 max_entries"
  let ?q = "\<lparr>q_convert = convert, q_pattern = pattern, q_attributes = attributes, q_max = ?max\<rparr>"
  have pos: "0 \<le> ?max"
    using assms(3) by (simp add: default_max_def)
  have "scan_blocks ?q bs [] = Some (limited ?q (found ?q (concat gs)))"
    using scan_directory [OF assms(2), of "[]" ?q] pos by simp
  moreover have "found ?q (concat gs) = map (query_member ?q) (filter (\<lambda>e. pattern = [] \<or> is_match (de_name e) (map to_upper pattern)) (concat gs))"
    by (simp add: found_def wanted_def)
  ultimately show ?thesis
    using assms(1) pos
    by (auto simp: zds_list_members_def Let_def limited_def ZDS_DEFAULT_MAX_MEMBER_ENTRIES_def)
qed

definition plain_entry :: "string \<Rightarrow> dir_entry" where
  "plain_entry name = \<lparr>de_name = name, de_ttr = [0, 0, 1], de_info = 0, de_data = []\<rparr>"

text \<open>The block of a short directory, up to its mark.\<close>

definition only_block :: "dir_entry list \<Rightarrow> dir_block" where
  "only_block es = \<lparr>blk_count = length (concat (map entry_bytes es)) + 14,
     blk_rest = concat (map entry_bytes es) @ end_of_entries @ replicate 4 0\<rparr>"

lemma only_block_holds: "list_all entry_ok es \<Longrightarrow> block_holds es (only_block es)"
  by (simp add: block_holds_def only_block_def Let_def end_of_entries_def)

lemma last_byte: "byte_of c = 0xFF \<longleftrightarrow> c = char_of_byte 0xFF" "code (char_of_byte 0xFF) = 159"
proof -
  show "byte_of c = 0xFF \<longleftrightarrow> c = char_of_byte 0xFF"
    by (metis byte_of_char_of_byte char_of_byte_of)
  show "code (char_of_byte 0xFF) = 159"
    by (simp add: char_of_byte_def code_def e2a_table_def)
qed

lemma plain_entry_ok:
  "name \<noteq> [] \<Longrightarrow> length name \<le> 8 \<Longrightarrow> list_all is_upper name \<Longrightarrow> entry_ok (plain_entry name)"
  using last_byte by (auto simp: entry_ok_def plain_entry_def list_all_iff is_upper_def halfwords_def nul_char_def code_def)

lemma plain_entries: "entry_ok (plain_entry ''ALPHA'')" "entry_ok (plain_entry ''BETA'')"
  by (rule plain_entry_ok; code_simp)+

theorem members_listed_witness:
  "zds_list_members (\<lambda>p. DirBlocks [only_block [plain_entry ''ALPHA'', plain_entry ''BETA'']]) (\<lambda>b. (0, [])) 0 ''MY.PDS'' ''b*'' False blank_diag =
    Some (0, blank_diag, [new_mem ''BETA''])"
proof -
  have h: "list_all2 block_holds [[plain_entry ''ALPHA'', plain_entry ''BETA'']] [only_block [plain_entry ''ALPHA'', plain_entry ''BETA'']]"
    using plain_entries by (simp add: only_block_holds)
  have "map to_upper ''b*'' = ''B*''" "is_match ''ALPHA'' ''B*'' = False" "is_match ''BETA'' ''B*'' = True"
    by code_simp+
  then show ?thesis
    using members_listed [OF refl h, of 0 "\<lambda>b. (0, [])" "''MY.PDS''" "''b*''" False blank_diag]
    by (simp add: default_max_def plain_entry_def query_member_def member_of_def)
qed

end
