(* ===== verification/ZdsCatalog.thy ===== *)
theory ZdsCatalog
  imports ZdsMembers ZutServices
begin

text \<open>
  The catalog search (\<open>zds_list_data_sets\<close>).  The search service answers one work area after the other, until
  one does not ask to be resumed; an area is its header, its catalog entry and its data set entries.  Every
  entry goes through the same steps: its flags, its fields, the attributes from its DSCB.
\<close>

section \<open>Data\<close>

definition ZDS_DEFAULT_BUFFER_SIZE :: int where
  "ZDS_DEFAULT_BUFFER_SIZE = 8096"

definition ZDS_DEFAULT_MAX_ENTRIES :: int where
  "ZDS_DEFAULT_MAX_ENTRIES = 1000"

definition CSI_FIELD_COUNT :: int where
  "CSI_FIELD_COUNT = 5"

definition CSIFIELD_SIZE :: int where
  "CSIFIELD_SIZE = 162"

record csi_entry =
  ce_flag :: byte
  ce_type :: char
  ce_name :: string
  ce_field_lens :: "nat list"
  ce_data :: "byte list"

record csi_area =
  ca_number_fields :: int
  ca_flag :: byte
  ca_type :: byte
  ca_entries :: "csi_entry list"
  ca_resume :: bool

text \<open>An answer of the service: a return code and the work area.\<close>

type_synonym csi_answer = "int \<times> csi_area"

record catalog_services =
  cs_search :: "string \<Rightarrow> csi_answer list"
  cs_dscb :: "string \<Rightarrow> string \<Rightarrow> dscb option"
  cs_symbol :: "string \<Rightarrow> int \<times> string"
  cs_storage :: bool

section \<open>Fields of an entry\<close>

text \<open>A field is read at an offset that then moves on by its length.\<close>

definition field_bytes :: "byte list \<Rightarrow> nat \<Rightarrow> nat \<Rightarrow> byte list" where
  "field_bytes data csi_offset n = take n (drop csi_offset data)"

definition volser_at :: "byte list \<Rightarrow> nat \<Rightarrow> string" where
  "volser_at data i = zut_rtrim '' '' (string_of (field_bytes data i 6))"

definition load_volsers_from_catalog :: "catalog_services \<Rightarrow> byte list \<Rightarrow> nat \<Rightarrow> nat \<Rightarrow> zds_entry \<Rightarrow> zds_entry" where
  "load_volsers_from_catalog cs data field_len csi_offset e =
     (let num_volumes = field_len div 6;
          volsers = filter (\<lambda>v. v \<noteq> []) (map (\<lambda>i. volser_at data (csi_offset + i * 6)) [0..<num_volumes]);
          all_volsers = en_volsers e @ volsers;
          volser = (case all_volsers of [] \<Rightarrow> ''------'' | v # _ \<Rightarrow> v);
          volser = (if c_string volser = ''******'' then
            (case zut_substitute_symbol (cs_symbol cs) (cs_storage cs) ''&SYSR1'' [] of (rc, value) \<Rightarrow> if rc = 0 then value else volser)
            else volser)
      in e\<lparr>en_multivolume := num_volumes > 1, en_volsers := all_volsers, en_volser := volser\<rparr>)"

definition ucb_to_devtype :: "byte \<Rightarrow> 16 word" where
  "ucb_to_devtype b = (if b = 0x0E then 0x3380 else if b = 0x0F then 0x3390 else if b = 0x04 then 0x9345 else 0)"

definition load_devtype_from_catalog :: "byte list \<Rightarrow> nat \<Rightarrow> nat \<Rightarrow> 16 word \<Rightarrow> 16 word" where
  "load_devtype_from_catalog data field_len csi_offset attr =
     (if field_len \<ge> 4 then (let bytes = field_bytes data csi_offset 4 in
        if bytes \<noteq> [0, 0, 0, 0] then ucb_to_devtype (bytes ! 3) else 0x3390)
      else attr)"

definition load_storage_attr_from_catalog :: "byte list \<Rightarrow> nat \<Rightarrow> nat \<Rightarrow> string" where
  "load_storage_attr_from_catalog data field_len csi_offset =
     (if field_len > 2 then
        (let actual_len = unat (data ! csi_offset) * 256 + unat (data ! (csi_offset + 1)) in
         if actual_len > 0 \<and> actual_len \<le> field_len - 2 then string_of (field_bytes data (csi_offset + 2) actual_len) else [])
      else [])"

definition migrated_volser :: "string \<Rightarrow> bool" where
  "migrated_volser v \<longleftrightarrow> v = ''MIGRAT'' \<or> v = ''ARCIVE''"

text \<open>The types of entries that are accepted; the last step of an entry sets its volume by the type.\<close>

definition known_type :: "char \<Rightarrow> bool" where
  "known_type t \<longleftrightarrow> t \<in> set ''ACDIBHXRG''"

definition by_type :: "char \<Rightarrow> zds_entry \<Rightarrow> zds_entry" where
  "by_type t e = (if t = CHR ''B'' then e\<lparr>en_volser := ''??????''\<rparr>
     else if t = CHR ''C'' then e\<lparr>en_dsorg := ''VS'', en_volser := ''*VSAM*''\<rparr>
     else if t = CHR ''D'' \<or> t = CHR ''I'' then e\<lparr>en_dsorg := ''VS''\<rparr>
     else if t = CHR ''G'' then e\<lparr>en_volser := ''*AIX *''\<rparr>
     else if t = CHR ''R'' then e\<lparr>en_volser := ''*PATH*''\<rparr>
     else if t = CHR ''X'' then e\<lparr>en_dsorg := ''--'', en_volser := ''*ALIAS''\<rparr>
     else e)"

definition settle_volsers :: "string \<Rightarrow> zds_entry \<Rightarrow> zds_entry" where
  "settle_volsers old_volser e = (if old_volser \<noteq> en_volser e then e\<lparr>en_volsers := [en_volser e]\<rparr> else e)"

definition load_entry :: "catalog_services \<Rightarrow> bool \<Rightarrow> csi_entry \<Rightarrow> zds_entry" where
  "load_entry cs show_attributes f =
     (let e = new_entry\<lparr>en_name := c_string (take MAX_DS_LENGTH (ce_name f))\<rparr> in
      if \<not> show_attributes then e
      else (let n = (\<lambda>i. ce_field_lens f ! i); offset = (\<lambda>i. sum_list (take i (ce_field_lens f))); data = ce_data f;
                e = load_volsers_from_catalog cs data (n 0) (offset 0) e;
                e = (if migrated_volser (en_volser e) then e\<lparr>en_migrated := True, en_recfm := ''U''\<rparr> else e\<lparr>en_migrated := False\<rparr>);
                e = e\<lparr>en_devtype := load_devtype_from_catalog data (n 1) (offset 1) (en_devtype e),
                  en_dataclass := load_storage_attr_from_catalog data (n 2) (offset 2),
                  en_mgmtclass := load_storage_attr_from_catalog data (n 3) (offset 3),
                  en_storclass := load_storage_attr_from_catalog data (n 4) (offset 4)\<rparr>;
                e = (if en_migrated e then e else zds_get_attrs_from_dscb (cs_dscb cs) e)
            in settle_volsers (en_volser e) (by_type (ce_type f) e)))"

section \<open>The search\<close>

definition catalog_error :: "int \<Rightarrow> int \<Rightarrow> string \<Rightarrow> zdiag \<Rightarrow> zdiag" where
  "catalog_error detail service message d = set_msg message (d\<lparr>detail_rc := detail, service_rc := service\<rparr>)"

definition hex_text :: "byte \<Rightarrow> string" where
  "hex_text b = etag_hex (unat b)"

text \<open>What is wrong with an area, or with an entry.\<close>

definition area_problem :: "int \<Rightarrow> csi_answer \<Rightarrow> (int \<times> (zdiag \<Rightarrow> zdiag)) option" where
  "area_problem number_of_fields answer = (case answer of (rc, a) \<Rightarrow>
     let flag_message = ''Unexpected catalog flag '' @ in_quotes (hex_text (ca_flag a)) @ '' '' in
     if rc \<noteq> 0 then Some (RTNCD_FAILURE, \<lambda>d. (catalog_error (-2) rc (''ZDSCSI00 failed with rc '' @ show_int rc) d)\<lparr>service_name := ''ZDSCSI00''\<rparr>)
     else if ca_number_fields a - 1 \<noteq> number_of_fields then
       Some (RTNCD_FAILURE, \<lambda>d. set_msg (''Unexpected work area field response preset len '' @ show_int (ca_number_fields a - 1) @
         '' and return len '' @ show_int number_of_fields @ '' are not equal'') (d\<lparr>detail_rc := -9\<rparr>))
     else if ca_flag a = 0xF8 then Some (RTNCD_FAILURE, catalog_error (-10) (-6) flag_message)
     else if bit_set (ca_flag a) 0x20 then Some (RTNCD_FAILURE, catalog_error (-10) (-6) flag_message)
     else if bit_set (ca_flag a) 0x40 then Some (RTNCD_WARNING, catalog_error (-2) (-6) (''Not found in catalog, flag '' @ in_quotes (hex_text (ca_flag a)) @ '' ''))
     else if ca_type a \<noteq> 0xF0 then Some (RTNCD_FAILURE, catalog_error (-10) (-6) (''Unexpected type '' @ in_quotes (hex_text (ca_type a)) @ '' ''))
     else None)"

definition entry_problem :: "csi_entry \<Rightarrow> (zdiag \<Rightarrow> zdiag) option" where
  "entry_problem f =
     (if ce_flag f = 0x40 then Some (catalog_error (-2) (-7) (''Unexpected entry flag '' @ in_quotes (hex_text (ce_flag f)) @ '' ''))
      else if ce_type f = nul_char then Some (catalog_error (-5) (-7) (''No entry found '' @ in_quotes ''0'' @ '' ''))
      else if \<not> known_type (ce_type f) then Some (catalog_error (-2) (-8) (''Unsupported entry type '' @ in_quotes (hex_text (byte_of (ce_type f))) @ '' ''))
      else None)"

text \<open>The entries of an area, up to the limit; a negative limit is none.  \<open>Inl\<close> is the end of the search.\<close>

fun take_entries :: "catalog_services \<Rightarrow> bool \<Rightarrow> int \<Rightarrow> csi_entry list \<Rightarrow> zds_entry list \<Rightarrow> (int \<times> (zdiag \<Rightarrow> zdiag) \<times> zds_entry list) + zds_entry list" where
  "take_entries cs show_attributes maximum [] datasets = Inr datasets"
| "take_entries cs show_attributes maximum (f # fs) datasets = (case entry_problem f of
     Some p \<Rightarrow> Inl (RTNCD_FAILURE, p, datasets)
   | None \<Rightarrow> if 0 \<le> maximum \<and> int (length datasets) + 1 > maximum then
       Inl (RTNCD_WARNING, \<lambda>d. (set_msg (''Reached maximum returned records requested '' @ show_int maximum) d)\<lparr>detail_rc := ZDS_RSNCD_MAXED_ENTRIES_REACHED\<rparr>, datasets)
     else take_entries cs show_attributes maximum fs (datasets @ [load_entry cs show_attributes f]))"

text \<open>The areas until one is not resumed; none when the service is still asked to resume at the end.\<close>

fun search_areas :: "catalog_services \<Rightarrow> bool \<Rightarrow> int \<Rightarrow> int \<Rightarrow> csi_answer list \<Rightarrow> zdiag \<Rightarrow> zds_entry list \<Rightarrow> (int \<times> zdiag \<times> zds_entry list) option" where
  "search_areas cs show_attributes number_of_fields maximum [] d datasets = None"
| "search_areas cs show_attributes number_of_fields maximum (answer # rest) d datasets =
     (case area_problem number_of_fields answer of
        Some (rc, p) \<Rightarrow> Some (rc, p d, datasets)
      | None \<Rightarrow> (case take_entries cs show_attributes maximum (ca_entries (snd answer)) datasets of
          Inl (rc, p, datasets) \<Rightarrow> Some (rc, p d, datasets)
        | Inr datasets \<Rightarrow> if ca_resume (snd answer) then search_areas cs show_attributes number_of_fields maximum rest d datasets
            else Some (RTNCD_SUCCESS, d, datasets)))"

definition min_buffer_size :: "int \<Rightarrow> int" where
  "min_buffer_size number_of_fields = 1024 + (CSIFIELD_SIZE + number_of_fields * 8)"

text \<open>A name of more than 44 characters does not fit the filter and has no result here.\<close>

definition zds_list_data_sets :: "catalog_services \<Rightarrow> int \<Rightarrow> int \<Rightarrow> string \<Rightarrow> bool \<Rightarrow> zdiag \<Rightarrow> (int \<times> zdiag \<times> zds_entry list) option" where
  "zds_list_data_sets cs buffer_size max_entries dsn show_attributes d =
     (let number_of_fields = (if show_attributes then CSI_FIELD_COUNT else 0);
          buffer_size = default_max ZDS_DEFAULT_BUFFER_SIZE buffer_size;
          maximum = default_max ZDS_DEFAULT_MAX_ENTRIES max_entries in
      if buffer_size < min_buffer_size number_of_fields then
        Some (RTNCD_FAILURE, set_msg (''Minimum buffer size required is '' @ show_int (min_buffer_size number_of_fields) @ '' but '' @
          show_int buffer_size @ '' was provided'') (d\<lparr>detail_rc := -4\<rparr>), [])
      else if \<not> cs_storage cs then
        Some (RTNCD_FAILURE, set_msg (''Failed to allocate 31-bit buffer for workarea to list '' @ c_string dsn) (d\<lparr>detail_rc := -4\<rparr>), [])
      else if length dsn > MAX_DS_LENGTH then None
      else search_areas cs show_attributes number_of_fields maximum (cs_search cs (map to_upper dsn)) d [])"

section \<open>Facts\<close>

text \<open>The answers up to the one that is not resumed.\<close>

fun whole_search :: "csi_answer list \<Rightarrow> csi_entry list option" where
  "whole_search [] = None"
| "whole_search ((rc, a) # rest) = (if ca_resume a then map_option ((@) (ca_entries a)) (whole_search rest) else Some (ca_entries a))"

definition good_areas :: "int \<Rightarrow> csi_answer list \<Rightarrow> bool" where
  "good_areas n as \<longleftrightarrow> list_all (\<lambda>a. area_problem n a = None \<and> list_all (\<lambda>f. entry_problem f = None) (ca_entries (snd a))) as"

lemma take_entries_good:
  "list_all (\<lambda>f. entry_problem f = None) fs \<Longrightarrow> int (length ds) \<le> maximum \<Longrightarrow>
   take_entries cs sa maximum fs ds =
     (let all_ds = ds @ map (load_entry cs sa) fs in
      if int (length all_ds) > maximum then
        Inl (RTNCD_WARNING, \<lambda>d. (set_msg (''Reached maximum returned records requested '' @ show_int maximum) d)\<lparr>detail_rc := ZDS_RSNCD_MAXED_ENTRIES_REACHED\<rparr>,
          take (nat maximum) all_ds)
      else Inr all_ds)"
proof (induction fs arbitrary: ds)
  case (Cons f fs)
  show ?case
  proof (cases "int (length ds) + 1 > maximum")
    case True
    then show ?thesis
      using Cons.prems by (simp add: Let_def)
  next
    case False
    then show ?thesis
      using Cons.prems Cons.IH [of "ds @ [load_entry cs sa f]"] by (simp add: Let_def)
  qed
qed simp

lemma search_good:
  "good_areas n as \<Longrightarrow> whole_search as = Some fs \<Longrightarrow> int (length ds) \<le> maximum \<Longrightarrow>
   search_areas cs sa n maximum as d ds =
     (let all_ds = ds @ map (load_entry cs sa) fs in
      if int (length all_ds) > maximum then
        Some (RTNCD_WARNING, (set_msg (''Reached maximum returned records requested '' @ show_int maximum) d)\<lparr>detail_rc := ZDS_RSNCD_MAXED_ENTRIES_REACHED\<rparr>,
          take (nat maximum) all_ds)
      else Some (RTNCD_SUCCESS, d, all_ds))"
proof (induction as arbitrary: ds fs)
  case (Cons a as)
  obtain rc ar where a: "a = (rc, ar)"
    by (cases a)
  let ?ds = "ds @ map (load_entry cs sa) (ca_entries ar)"
  have good: "area_problem n a = None" "list_all (\<lambda>f. entry_problem f = None) (ca_entries ar)" "good_areas n as"
    using Cons.prems(1) a by (simp_all add: good_areas_def)
  note taken = take_entries_good [OF good(2) Cons.prems(3), of cs sa]
  show ?case
  proof (cases "ca_resume ar")
    case False
    then show ?thesis
      using Cons.prems(2) taken a good(1) by (simp add: Let_def)
  next
    case True
    then obtain fs' where fs: "whole_search as = Some fs'" "fs = ca_entries ar @ fs'"
      using Cons.prems(2) a by auto
    show ?thesis
    proof (cases "int (length ?ds) > maximum")
      case big: True
      then show ?thesis
        using taken a good(1) fs by (simp add: Let_def)
    next
      case small: False
      then show ?thesis
        using taken a good(1,3) fs True Cons.IH [OF good(3) fs(1), of ?ds] by (simp add: Let_def)
    qed
  qed
qed simp

text \<open>A search in which no area and no entry reports a problem gives all the entries of all the areas in order,
  however they are spread over areas, or exactly the first ones and a warning when there are more than the limit.\<close>

theorem search_complete:
  assumes "good_areas (if attributes then 5 else 0) (cs_search cs (map to_upper dsn))" "whole_search (cs_search cs (map to_upper dsn)) = Some fs"
    "length dsn \<le> 44" "cs_storage cs" "0 \<le> max_entries" "buffer_size = 0 \<or> 1226 \<le> buffer_size"
  shows "\<exists>d'. zds_list_data_sets cs buffer_size max_entries dsn attributes d =
    (let maximum = nat (default_max 1000 max_entries); all_entries = map (load_entry cs attributes) fs in
     Some (if length all_entries > maximum then (RTNCD_WARNING, d', take maximum all_entries) else (RTNCD_SUCCESS, d, all_entries)))"
proof -
  have "0 \<le> default_max 1000 max_entries" "\<not> default_max 8096 buffer_size < min_buffer_size (if attributes then 5 else 0)"
    using assms(5,6) by (auto simp: default_max_def min_buffer_size_def CSIFIELD_SIZE_def)
  then show ?thesis
    using search_good [OF assms(1,2), of "[]" "default_max 1000 max_entries" cs attributes d] assms(3,4)
    by (auto simp: zds_list_data_sets_def Let_def CSI_FIELD_COUNT_def ZDS_DEFAULT_BUFFER_SIZE_def ZDS_DEFAULT_MAX_ENTRIES_def MAX_DS_LENGTH_def)
qed

definition demo_area :: "string \<Rightarrow> bool \<Rightarrow> csi_answer" where
  "demo_area name resume = (0, \<lparr>ca_number_fields = 1, ca_flag = 0, ca_type = 0xF0,
     ca_entries = [\<lparr>ce_flag = 0x80, ce_type = CHR ''A'', ce_name = name, ce_field_lens = [], ce_data = []\<rparr>], ca_resume = resume\<rparr>)"

definition demo_catalog :: catalog_services where
  "demo_catalog = \<lparr>cs_search = (\<lambda>k. [demo_area ''USER.A'' True, demo_area ''USER.B'' False]), cs_dscb = (\<lambda>n v. None),
     cs_symbol = (\<lambda>s. (0, [])), cs_storage = True\<rparr>"

theorem search_complete_witness:
  "\<exists>d'. zds_list_data_sets demo_catalog 0 1 ''USER'' False blank_diag =
    Some (RTNCD_WARNING, d', [new_entry\<lparr>en_name := ''USER.A''\<rparr>])"
proof -
  have n: "c_string (take MAX_DS_LENGTH ''USER.A'') = ''USER.A''"
    by code_simp
  have "good_areas 0 [demo_area ''USER.A'' True, demo_area ''USER.B'' False]"
    by code_simp
  then show ?thesis
    using search_complete [of False demo_catalog "''USER''" _ 1 0 blank_diag] n
    by (simp add: demo_catalog_def demo_area_def default_max_def load_entry_def)
qed

text \<open>An area whose flags report an error together with others is taken, an entry as well.\<close>

lemma error_flags_ignored:
  "area_problem n (0, \<lparr>ca_number_fields = n + 1, ca_flag = 0x90, ca_type = 0xF0, ca_entries = es, ca_resume = r\<rparr>) = None"
  "entry_problem \<lparr>ce_flag = 0xC0, ce_type = CHR ''A'', ce_name = name, ce_field_lens = ls, ce_data = data\<rparr> = None"
proof -
  have b: "\<not> bit_set (0x90 :: byte) 0x20" "\<not> bit_set (0x90 :: byte) 0x40" "known_type (CHR ''A'')" "CHR ''A'' \<noteq> nul_char"
    by code_simp+
  show "area_problem n (0, \<lparr>ca_number_fields = n + 1, ca_flag = 0x90, ca_type = 0xF0, ca_entries = es, ca_resume = r\<rparr>) = None"
    "entry_problem \<lparr>ce_flag = 0xC0, ce_type = CHR ''A'', ce_name = name, ce_field_lens = ls, ce_data = data\<rparr> = None"
    using b by (simp_all add: area_problem_def entry_problem_def Let_def)
qed

end
