(* ===== verification/ZdsAsa.thy ===== *)
theory ZdsAsa
  imports ZdsNames
begin

text \<open>
  Text on its way into records (\<open>zds.cpp\<close>): the length a line may have, the search for lines that are too long,
  and the control characters that an ASA data set needs in place of blank lines and form feeds.  A printer of
  ASA records gives the lines back.
\<close>

section \<open>Record lengths\<close>

definition CR_CHAR :: char where
  "CR_CHAR = CHR 0x0D"

definition FF_CHAR :: char where
  "FF_CHAR = CHR 0x0C"

record dscb_attributes =
  at_recfm :: string
  at_lrecl :: int
  at_is_asa :: bool

definition no_attributes :: dscb_attributes where
  "no_attributes = \<lparr>at_recfm = [], at_lrecl = 0, at_is_asa = False\<rparr>"

definition get_effective_lrecl_from_attrs :: "dscb_attributes \<Rightarrow> int" where
  "get_effective_lrecl_from_attrs a =
     at_lrecl a - (if CHR ''V'' \<in> set (at_recfm a) then 4 else 0) - (if at_is_asa a then 1 else 0)"

text \<open>The same from the data control block of an open data set.\<close>

record dcb =
  dcb_lrecl :: int
  dcb_variable :: bool
  dcb_asa :: bool

definition get_effective_lrecl :: "dcb \<Rightarrow> int" where
  "get_effective_lrecl d = dcb_lrecl d - (if dcb_variable d then 4 else 0) - (if dcb_asa d then 1 else 0)"

section \<open>Lines\<close>

definition strip_cr :: "string \<Rightarrow> string" where
  "strip_cr line = (if line \<noteq> [] \<and> last line = CR_CHAR then butlast line else line)"

text \<open>The lines that end with the newline character, and what follows the last one.\<close>

fun cut_lines :: "char \<Rightarrow> string \<Rightarrow> string list \<times> string" where
  "cut_lines nl [] = ([], [])"
| "cut_lines nl (c # s) = (if c = nl then (case cut_lines nl s of (ls, r) \<Rightarrow> ([] # ls, r))
     else (case cut_lines nl s of ([], r) \<Rightarrow> ([], c # r) | (l # ls, r) \<Rightarrow> ((c # l) # ls, r)))"

definition scan_line :: "int \<Rightarrow> string \<Rightarrow> int \<times> truncation_tracker \<Rightarrow> int \<times> truncation_tracker" where
  "scan_line max_len line x = (case x of (line_num, t) \<Rightarrow>
     (line_num + 1, if int (length (strip_cr line)) > max_len then add_line (line_num + 1) t else t))"

definition scan_for_truncated_lines :: "string \<Rightarrow> int \<Rightarrow> char \<Rightarrow> truncation_tracker \<Rightarrow> truncation_tracker" where
  "scan_for_truncated_lines data max_len newline_char truncation =
     (case cut_lines newline_char data of (ls, r) \<Rightarrow>
       flush_range (snd (fold (scan_line max_len) (ls @ (if r = [] then [] else [r])) (0, truncation))))"

section \<open>ASA control characters\<close>

definition ASA_TRIPLE_SPACE_LINES :: nat where
  "ASA_TRIPLE_SPACE_LINES = 3"

record asa_state =
  blank_count :: nat
  is_first_line :: bool

definition new_asa :: asa_state where
  "new_asa = \<lparr>blank_count = 0, is_first_line = True\<rparr>"

definition has_overflow_blanks :: "asa_state \<Rightarrow> bool \<times> asa_state" where
  "has_overflow_blanks a = (if blank_count a \<ge> ASA_TRIPLE_SPACE_LINES
     then (True, a\<lparr>blank_count := blank_count a - ASA_TRIPLE_SPACE_LINES\<rparr>) else (False, a))"

definition get_asa_char_and_reset :: "bool \<Rightarrow> asa_state \<Rightarrow> char \<times> asa_state" where
  "get_asa_char_and_reset has_formfeed a =
     (if has_formfeed then CHR ''1'' else if blank_count a = 1 then CHR ''0'' else if blank_count a = 2 then CHR ''-'' else CHR '' '',
      a\<lparr>blank_count := 0, is_first_line := False\<rparr>)"

text \<open>The line without its form feed and whether it had one; \<open>None\<close> for a blank line, which is counted.\<close>

definition process_line_internal :: "string \<Rightarrow> asa_state \<Rightarrow> (string \<times> bool) option \<times> asa_state" where
  "process_line_internal line a =
     (let has_formfeed = (line \<noteq> [] \<and> hd line = FF_CHAR); line = (if has_formfeed then tl line else line) in
      if line = [] \<and> \<not> has_formfeed then (None, a\<lparr>blank_count := blank_count a + 1\<rparr>)
      else (Some (line, has_formfeed), a))"

function overflow_loop :: "nat \<Rightarrow> asa_state \<Rightarrow> nat \<times> asa_state" where
  "overflow_loop n a = (case has_overflow_blanks a of (True, a) \<Rightarrow> overflow_loop (n + 1) a | (False, a) \<Rightarrow> (n, a))"
  by pat_completeness auto
termination
  by (relation "measure (\<lambda>(n, a). blank_count a)")
    (auto simp: has_overflow_blanks_def ASA_TRIPLE_SPACE_LINES_def split: if_splits)

declare overflow_loop.simps [simp del]

text \<open>A prepared line: how many empty records come first, the control character and the text; none for a
  blank line.\<close>

definition prepare_line :: "string \<Rightarrow> asa_state \<Rightarrow> (nat \<times> char \<times> string) option \<times> asa_state" where
  "prepare_line line a = (case process_line_internal line a of
     (None, a) \<Rightarrow> (None, a)
   | (Some (line, has_formfeed), a) \<Rightarrow> (case overflow_loop 0 a of (overflow_records, a) \<Rightarrow>
       (case get_asa_char_and_reset has_formfeed a of (c, a) \<Rightarrow> (Some (overflow_records, c, line), a))))"

text \<open>The records of a list of lines: a control character and the text.\<close>

fun asa_records :: "string list \<Rightarrow> asa_state \<Rightarrow> (char \<times> string) list" where
  "asa_records [] a = []"
| "asa_records (line # ls) a = (case prepare_line line a of
     (None, a) \<Rightarrow> asa_records ls a
   | (Some (n, c, line), a) \<Rightarrow> replicate n (CHR ''-'', []) @ (c, line) # asa_records ls a)"

section \<open>Printing\<close>

text \<open>A printer advances by one, two or three lines, or to a new page, before it prints a record; a page break is
  shown as a form feed before the line.\<close>

definition printed_one :: "char \<times> string \<Rightarrow> string list" where
  "printed_one r = (case r of (c, line) \<Rightarrow>
     if c = CHR ''1'' then [FF_CHAR # line] else if c = CHR ''0'' then [[], line] else if c = CHR ''-'' then [[], [], line] else [line])"

definition printed_all :: "(char \<times> string) list \<Rightarrow> string list" where
  "printed_all rs = concat (map printed_one rs)"

text \<open>The lines a printer shows: without blank lines at the end of a page.  How many blank lines stood before a
  form feed is cut to whole groups of three.\<close>

fun printable :: "nat \<Rightarrow> string list \<Rightarrow> string list" where
  "printable n [] = []"
| "printable n (line # ls) = (if line = [] then printable (n + 1) ls
     else if hd line = FF_CHAR then replicate (3 * (n div 3)) [] @ line # printable 0 ls
     else replicate n [] @ line # printable 0 ls)"

lemma overflow_loop_exact:
  "overflow_loop n a = (n + blank_count a div 3, a\<lparr>blank_count := blank_count a mod 3\<rparr>)"
proof (induction n a rule: overflow_loop.induct)
  case (1 n a)
  show ?case
  proof (cases "blank_count a \<ge> 3")
    case True
    then have "has_overflow_blanks a = (True, a\<lparr>blank_count := blank_count a - 3\<rparr>)"
      by (simp add: has_overflow_blanks_def ASA_TRIPLE_SPACE_LINES_def)
    then show ?thesis
      using 1 True by (simp add: overflow_loop.simps [of n a] le_div_geq le_mod_geq)
  next
    case False
    then show ?thesis
      by (simp add: overflow_loop.simps [of n a] has_overflow_blanks_def ASA_TRIPLE_SPACE_LINES_def)
  qed
qed

lemma printed_blanks: "printed_all (replicate n (CHR ''-'', [])) = replicate (3 * n) []"
  by (induction n) (simp_all add: printed_all_def printed_one_def numeral_3_eq_3)

lemma printed_all_simps:
  "printed_all [] = []" "printed_all (r # rs) = printed_one r @ printed_all rs"
  "printed_all (rs @ rs') = printed_all rs @ printed_all rs'"
  by (simp_all add: printed_all_def)

lemma three_parts: "replicate (3 * (n div 3)) x @ replicate (n mod 3) x = replicate n x"
  by (simp flip: replicate_add)

lemma printed_line:
  assumes "c = fst (get_asa_char_and_reset False \<lparr>blank_count = n mod 3, is_first_line = b\<rparr>)"
  shows "printed_one (c, line) = replicate (n mod 3) [] @ [line]"
proof -
  have "n mod 3 = 0 \<or> n mod 3 = 1 \<or> n mod 3 = 2"
    by auto
  then show ?thesis
    using assms by (auto simp: get_asa_char_and_reset_def printed_one_def numeral_2_eq_2)
qed

text \<open>Writing lines to an ASA data set and printing its records gives the lines back, without the blank lines at
  the end and but for the blank lines before a form feed.\<close>

lemma asa_prints_lines: "printed_all (asa_records ls a) = printable (blank_count a) ls"
proof (induction ls arbitrary: a)
  case Nil
  then show ?case
    by (simp add: printed_all_simps)
next
  case (Cons line ls)
  show ?case
  proof (cases "line = []")
    case True
    then show ?thesis
      using Cons by (simp add: prepare_line_def process_line_internal_def)
  next
    case False
    let ?n = "blank_count a"
    show ?thesis
    proof (cases "hd line = FF_CHAR")
      case True
      then have "prepare_line line a = (Some (?n div 3, CHR ''1'', tl line), a\<lparr>blank_count := 0, is_first_line := False\<rparr>)"
        using False by (simp add: prepare_line_def process_line_internal_def overflow_loop_exact get_asa_char_and_reset_def)
      then show ?thesis
        using True False Cons [of "a\<lparr>blank_count := 0, is_first_line := False\<rparr>"]
        by (cases line) (simp_all add: printed_all_simps printed_blanks, simp add: printed_one_def)
    next
      case ff: False
      let ?c = "fst (get_asa_char_and_reset False \<lparr>blank_count = ?n mod 3, is_first_line = is_first_line a\<rparr>)"
      have "prepare_line line a = (Some (?n div 3, ?c, line), a\<lparr>blank_count := 0, is_first_line := False\<rparr>)"
        using False ff by (simp add: prepare_line_def process_line_internal_def overflow_loop_exact get_asa_char_and_reset_def)
      then show ?thesis
        using False ff Cons [of "a\<lparr>blank_count := 0, is_first_line := False\<rparr>"] printed_line [OF refl, of ?n "is_first_line a" line]
          three_parts [of ?n "[]"]
        by (simp add: printed_all_simps printed_blanks flip: append_assoc)
    qed
  qed
qed

end
