(* ===== verification/ZdsIo.thy ===== *)
theory ZdsIo
  imports ZdsCatalog ZdsAsa
begin

text \<open>
  Reading and writing data sets (\<open>zds_read\<close>, \<open>zds_write\<close> and what they call).  The files of the C library, the
  access method for members and dynamic allocation are a record of functions on a state; the code page conversion is
  the one of \<open>zut.cpp\<close>.  A function is \<open>None\<close> where a request overruns a buffer of the services.
\<close>

section \<open>The system\<close>

text \<open>Opening for reading gives all that \<open>fread\<close> will give, or the records one by one; opening for writing empties the
  data set.  \<open>ZDSOBPAM\<close>, \<open>ZDSWBPAM\<close> and \<open>ZDSCBPAM\<close> open, write a record and close; they may set the
  diagnostics.\<close>

record 'w mvs =
  mvs_read :: "string \<Rightarrow> string \<Rightarrow> 'w \<Rightarrow> string option"
  mvs_records :: "string \<Rightarrow> int \<Rightarrow> 'w \<Rightarrow> string list option"
  mvs_open_write :: "string \<Rightarrow> string \<Rightarrow> 'w \<Rightarrow> bool \<times> 'w"
  mvs_write :: "string \<Rightarrow> string \<Rightarrow> 'w \<Rightarrow> nat \<times> 'w"
  mvs_remove :: "string \<Rightarrow> 'w \<Rightarrow> int \<times> 'w"
  mvs_rename :: "string \<Rightarrow> string \<Rightarrow> 'w \<Rightarrow> (int \<times> int) \<times> 'w"
  mvs_dir :: "'w \<Rightarrow> string \<Rightarrow> dir_open"
  mvs_catalog :: "'w \<Rightarrow> catalog_services"
  mvs_date :: "byte list \<Rightarrow> int \<times> string"
  mvs_dynalloc :: "'w bpxwdyn_service"
  mvs_obpam :: "string \<Rightarrow> zdiag \<Rightarrow> 'w \<Rightarrow> (int \<times> dcb) \<times> zdiag \<times> 'w"
  mvs_wbpam :: "string \<Rightarrow> string \<Rightarrow> zdiag \<Rightarrow> 'w \<Rightarrow> int \<times> zdiag \<times> 'w"
  mvs_cbpam :: "string \<Rightarrow> zdiag \<Rightarrow> 'w \<Rightarrow> int \<times> zdiag \<times> 'w"

record zds_rec =
  zd_encoding :: zencode
  zd_etag :: string
  zd_ddname :: string
  zd_max_entries :: int
  zd_buffer_size :: int
  zd_dynalloc :: bool
  zd_diag :: zdiag

definition blank_zds :: zds_rec where
  "blank_zds = \<lparr>zd_encoding = \<lparr>codepage = [], source_codepage = [], data_type = eDataTypeText\<rparr>, zd_etag = [], zd_ddname = [],
     zd_max_entries = 0, zd_buffer_size = 0, zd_dynalloc = False, zd_diag = blank_diag\<rparr>"

definition zds_message :: "string \<Rightarrow> zds_rec \<Rightarrow> zds_rec" where
  "zds_message s z = z\<lparr>zd_diag := set_msg s (zd_diag z)\<rparr>"

definition zds_use_codepage :: "zds_rec \<Rightarrow> bool" where
  "zds_use_codepage z \<longleftrightarrow> data_type (zd_encoding z) = eDataTypeText \<and> codepage (zd_encoding z) \<noteq> []"

definition zds_source_encoding :: "zds_rec \<Rightarrow> string" where
  "zds_source_encoding z = (if source_codepage (zd_encoding z) \<noteq> [] then source_codepage (zd_encoding z) else ''UTF-8'')"

text \<open>The target of a request: a DD name comes before a data set name.\<close>

record zds_opts =
  op_ddname :: string
  op_dsname :: string

definition zds_resolve_dsname :: "zds_opts \<Rightarrow> string" where
  "zds_resolve_dsname opts = (if op_ddname opts \<noteq> [] then ''//DD:'' @ op_ddname opts else dsn_path (op_dsname opts))"

definition zds_resolve_write_target :: "zds_opts \<Rightarrow> string" where
  "zds_resolve_write_target opts = (if op_ddname opts \<noteq> [] then ''DD:'' @ op_ddname opts else dsn_path (op_dsname opts))"

definition no_target :: "zds_opts \<Rightarrow> bool" where
  "no_target opts \<longleftrightarrow> op_dsname opts = [] \<and> op_ddname opts = []"

definition no_target_message :: string where
  "no_target_message = ''Either a dsname or ddname must be provided''"

section \<open>Existence and attributes\<close>

definition zds_dataset_exists :: "'w mvs \<Rightarrow> string \<Rightarrow> 'w \<Rightarrow> bool" where
  "zds_dataset_exists sys dsn w \<longleftrightarrow> mvs_read sys (dsn_path (before_paren dsn)) ''r'' w \<noteq> None"

definition zds_member_exists :: "'w mvs \<Rightarrow> string \<Rightarrow> string \<Rightarrow> 'w \<Rightarrow> bool" where
  "zds_member_exists sys dsn member w \<longleftrightarrow> mvs_read sys (dsn_path (member_dsn dsn member)) ''r'' w \<noteq> None"

definition zds_get_dscb_attributes :: "'w mvs \<Rightarrow> string \<Rightarrow> 'w \<Rightarrow> dscb_attributes option" where
  "zds_get_dscb_attributes sys dsn w =
     map_option (\<lambda>(rc, d, datasets). case datasets of
         e # _ \<Rightarrow> if rc \<noteq> RTNCD_SUCCESS then no_attributes
           else \<lparr>at_recfm = en_recfm e, at_lrecl = en_lrecl e, at_is_asa = (CHR ''A'' \<in> set (en_recfm e))\<rparr>
       | [] \<Rightarrow> no_attributes)
       (zds_list_data_sets (mvs_catalog sys w) 0 0 (before_paren dsn) True blank_diag)"

definition zds_resolve_dscb :: "'w mvs \<Rightarrow> zds_opts \<Rightarrow> 'w \<Rightarrow> dscb_attributes option" where
  "zds_resolve_dscb sys opts w = (if op_dsname opts = [] then Some no_attributes else zds_get_dscb_attributes sys (op_dsname opts) w)"

section \<open>Reading\<close>

definition asa_text :: "string list \<Rightarrow> string" where
  "asa_text records = concat (map (\<lambda>r. zut_rtrim '' '' r @ [newline]) records)"

definition read_contents :: "'w mvs \<Rightarrow> zds_rec \<Rightarrow> string \<Rightarrow> dscb_attributes \<Rightarrow> 'w \<Rightarrow> string option" where
  "read_contents sys z path a w =
     (if at_is_asa a \<and> data_type (zd_encoding z) \<noteq> eDataTypeBinary
      then map_option asa_text (mvs_records sys path (if at_lrecl a > 0 then at_lrecl a else 32760) w)
      else mvs_read sys path (if data_type (zd_encoding z) = eDataTypeBinary then ''rb'' else ''r'') w)"

definition zds_conversion_message :: "string \<Rightarrow> string \<Rightarrow> string" where
  "zds_conversion_message from_encoding to_encoding =
     ''Failed to convert input data from '' @ c_string from_encoding @ '' to '' @ c_string to_encoding"

text \<open>The return code, the record and the response.\<close>

definition zds_read :: "'w mvs \<Rightarrow> 's iconv_lib \<Rightarrow> zds_opts \<Rightarrow> zds_rec \<Rightarrow> 'w \<Rightarrow> (int \<times> zds_rec \<times> string) option" where
  "zds_read sys lib opts z w =
     (if no_target opts then Some (RTNCD_FAILURE, zds_message no_target_message z, [])
      else (case zds_resolve_dscb sys opts w of
        None \<Rightarrow> None
      | Some a \<Rightarrow> Some (case read_contents sys z (zds_resolve_dsname opts) a w of
          None \<Rightarrow> (RTNCD_FAILURE, zds_message (''Could not open handle to '' @ (if op_ddname opts \<noteq> [] then ''DD'' else ''data set'') @ '' '' @
            in_quotes (c_string (zds_resolve_dsname opts))) z, [])
        | Some response \<Rightarrow>
          if response \<noteq> [] \<and> zds_use_codepage z then
            (case zut_encode lib response (codepage (zd_encoding z)) (zds_source_encoding z) (zd_diag z) of
              (Inl e, d) \<Rightarrow> (RTNCD_FAILURE, zds_message (zds_conversion_message (zds_source_encoding z) (codepage (zd_encoding z))) (z\<lparr>zd_diag := d\<rparr>), response)
            | (Inr converted, d) \<Rightarrow> (0, z\<lparr>zd_diag := d\<rparr>, if converted \<noteq> [] then converted else response))
          else (0, z, response))))"

section \<open>The encoding of a write\<close>

definition get_newline_char :: "'s iconv_lib \<Rightarrow> string \<Rightarrow> zdiag \<Rightarrow> char \<times> zdiag" where
  "get_newline_char lib encoding d = (if encoding = [] then (newline, d)
     else (case zut_encode lib [newline] ''IBM-1047'' encoding d of
       (Inr (c # _), d) \<Rightarrow> (c, d) | (_, d) \<Rightarrow> (newline, d)))"

record encoding_setup =
  es_has_encoding :: bool
  es_codepage :: string
  es_source :: string
  es_newline :: char

definition setup_encoding :: "'s iconv_lib \<Rightarrow> zds_rec \<Rightarrow> encoding_setup \<times> zds_rec" where
  "setup_encoding lib z = (case get_newline_char lib (if zds_use_codepage z then zds_source_encoding z else []) (zd_diag z) of
     (c, d) \<Rightarrow> (\<lparr>es_has_encoding = zds_use_codepage z, es_codepage = codepage (zd_encoding z), es_source = zds_source_encoding z,
       es_newline = c\<rparr>, z\<lparr>zd_diag := d\<rparr>))"

definition ZDS_RSNCD_TRUNCATION_WARNING :: int where
  "ZDS_RSNCD_TRUNCATION_WARNING = -3"

definition handle_truncation_result :: "int \<Rightarrow> truncation_tracker \<Rightarrow> zds_rec \<Rightarrow> int \<times> zds_rec" where
  "handle_truncation_result write_rc t z =
     (if write_rc \<noteq> RTNCD_SUCCESS then (write_rc, z)
      else if tt_count t > 0 then
        (RTNCD_WARNING, z\<lparr>zd_diag := (set_msg (c_string (get_warning_message t)) (zd_diag z))\<lparr>detail_rc := ZDS_RSNCD_TRUNCATION_WARNING\<rparr>\<rparr>)
      else (RTNCD_SUCCESS, z))"

section \<open>Sequential data sets\<close>

definition write_flags :: "zds_rec \<Rightarrow> dscb_attributes \<Rightarrow> string" where
  "write_flags z a = (if data_type (zd_encoding z) = eDataTypeBinary then ''wb''
     else ''w,recfm='' @ (if at_recfm a = [] then ''*'' else at_recfm a))"

definition encode_whole :: "'s iconv_lib \<Rightarrow> encoding_setup \<Rightarrow> string \<Rightarrow> zds_rec \<Rightarrow> string option \<times> zds_rec" where
  "encode_whole lib es data z = (if \<not> es_has_encoding es then (Some data, z)
     else (case zut_encode lib data (es_source es) (es_codepage es) (zd_diag z) of
       (Inl e, d) \<Rightarrow> (None, zds_message (zds_conversion_message (es_source es) (es_codepage es)) (z\<lparr>zd_diag := d\<rparr>))
     | (Inr out, d) \<Rightarrow> (Some out, z\<lparr>zd_diag := d\<rparr>)))"

definition zds_write_sequential :: "'w mvs \<Rightarrow> 's iconv_lib \<Rightarrow> string \<Rightarrow> string \<Rightarrow> dscb_attributes \<Rightarrow> zds_rec \<Rightarrow> 'w \<Rightarrow> int \<times> zds_rec \<times> 'w" where
  "zds_write_sequential sys lib dsn data a z w =
     (case setup_encoding lib z of (es, z) \<Rightarrow>
      (case mvs_open_write sys dsn (write_flags z a) w of
        (False, w) \<Rightarrow> (RTNCD_FAILURE, zds_message (''Could not open dsn '' @ in_quotes (c_string dsn)) z, w)
      | (True, w) \<Rightarrow>
        if data = [] then (case handle_truncation_result RTNCD_SUCCESS new_tracker z of (rc, z) \<Rightarrow> (rc, z, w))
        else (case encode_whole lib es data z of
            (None, z) \<Rightarrow> (RTNCD_FAILURE, z, w)
          | (Some temp, z) \<Rightarrow>
            let t = (if data_type (zd_encoding z) \<noteq> eDataTypeBinary \<and> at_lrecl a > 0 \<and> temp \<noteq> []
              then scan_for_truncated_lines temp (get_effective_lrecl_from_attrs a) (es_newline es) new_tracker else new_tracker) in
            (case mvs_write sys dsn temp w of (bytes_written, w) \<Rightarrow>
              if bytes_written \<noteq> length temp then
                (RTNCD_FAILURE, zds_message (''Failed to write all contents to '' @ in_quotes (c_string dsn) @ '' (possibly out of space)'') z, w)
              else (case handle_truncation_result RTNCD_SUCCESS t z of (rc, z) \<Rightarrow> (rc, z, w))))))"

section \<open>Members\<close>

definition zds_open_output_bpam :: "'w mvs \<Rightarrow> string \<Rightarrow> zds_rec \<Rightarrow> 'w \<Rightarrow> ((int \<times> dcb option) \<times> zds_rec \<times> 'w) option" where
  "zds_open_output_bpam sys dsname z w =
     map_option (\<lambda>(r, w).
       if bpx_rc r \<noteq> 0 then
         ((RTNCD_FAILURE, None), z\<lparr>zd_diag := (set_msg (''Failed to allocate with code '' @ in_quotes (concat (map upper_hex
             [ucast (drop_bit 24 (bpx_code r)), ucast (drop_bit 16 (bpx_code r)), ucast (drop_bit 8 (bpx_code r)), ucast (bpx_code r)])) @
             '' on data set '' @ in_quotes (c_string dsname) @ '': '' @ c_string (bpx_text r)) (zd_diag z))
           \<lparr>service_name := ''BPXWDYN'', detail_rc := -2, service_rc := sint (bpx_code r)\<rparr>\<rparr>, w)
       else (let ddname = zut_uppercase_pad_truncate (c_string (bpx_ddname r)) 8; z = z\<lparr>zd_dynalloc := True, zd_ddname := ddname\<rparr> in
         case mvs_obpam sys ddname (zd_diag z) w of ((rc, b), d, w) \<Rightarrow>
           if rc \<noteq> 0 then ((rc, None), z\<lparr>zd_diag := d\<rparr>, w) else ((RTNCD_SUCCESS, Some b), z\<lparr>zd_diag := d\<rparr>, w)))
     (zut_bpxwdyn_rtdd (mvs_dynalloc sys) (''ALLOC DA('' @ in_quotes dsname @ '') SHR'') w)"

text \<open>A control character that is NUL is none.\<close>

definition zds_write_output_bpam :: "'w mvs \<Rightarrow> string \<Rightarrow> char \<Rightarrow> zds_rec \<Rightarrow> 'w \<Rightarrow> int \<times> zds_rec \<times> 'w" where
  "zds_write_output_bpam sys data asa_char z w =
     (let rec = (if asa_char \<noteq> nul_char then asa_char # data else data) in
      case mvs_wbpam sys (zd_ddname z) rec (zd_diag z) w of (rc, d, w) \<Rightarrow>
        if rc \<noteq> 0 \<and> diag_msg_len d = 0 then
          (RTNCD_FAILURE, z\<lparr>zd_diag := set_msg (''Failed to write output to BPAM: '' @ c_string (take 20 data) @ ''... ('' @
             show_int (int (length rec)) @ '' bytes)'') d\<rparr>, w)
        else (rc, z\<lparr>zd_diag := d\<rparr>, w))"

text \<open>The return code of the close; a failure to free the allocation only shows in the diagnostics.\<close>

definition zds_close_output_bpam :: "'w mvs \<Rightarrow> zds_rec \<Rightarrow> 'w \<Rightarrow> (int \<times> zds_rec \<times> 'w) option" where
  "zds_close_output_bpam sys z w =
     (case mvs_cbpam sys (zd_ddname z) (zd_diag z) w of (rc, d, w) \<Rightarrow>
        let z = z\<lparr>zd_diag := d\<rparr> in
        if \<not> zd_dynalloc z then
          Some (rc, if diag_msg_len d = 0 then z\<lparr>zd_diag := set_msg ''Data set was not dynamically allocated'' (d\<lparr>detail_rc := RTNCD_WARNING\<rparr>)\<rparr> else z, w)
        else map_option (\<lambda>(r, w).
            (rc, if bpx_rc r \<noteq> 0 \<and> diag_msg_len d = 0 then
               z\<lparr>zd_diag := set_msg (''Failed to free with code '' @ in_quotes (concat (map upper_hex
                   [ucast (drop_bit 24 (bpx_code r)), ucast (drop_bit 16 (bpx_code r)), ucast (drop_bit 8 (bpx_code r)), ucast (bpx_code r)])) @
                   '' on data set '' @ in_quotes (c_string (zd_ddname z)) @ '': '' @ c_string (bpx_text r))
                 (d\<lparr>detail_rc := -2, service_rc := sint (bpx_code r)\<rparr>)\<rparr> else z, w))
          (zut_bpxwdyn (mvs_dynalloc sys) (''FREE DD('' @ zd_ddname z @ '')'') w))"

text \<open>What the lines of the data become: the records with their control characters, the position in the text and
  the state of the converter.\<close>

record 's bpam_lines =
  bl_asa :: asa_state
  bl_line_num :: int
  bl_truncation :: truncation_tracker
  bl_conv :: "('s iconv \<times> 's) option"
  bl_diag :: zdiag
  bl_lines :: "(string \<times> char) list"

definition encode_line_if_needed :: "encoding_setup \<Rightarrow> string \<Rightarrow> 's bpam_lines \<Rightarrow> zdiag + string \<times> 's bpam_lines" where
  "encode_line_if_needed es line b = (case bl_conv b of
       None \<Rightarrow> Inr (line, b)
     | Some (cd, s) \<Rightarrow> (case zut_encode_chunk cd line s (bl_diag b) of
         (Inl e, s, d) \<Rightarrow> Inl (set_msg (zds_conversion_message (es_source es) (es_codepage es)) d)
       | (Inr out, s, d) \<Rightarrow> Inr (out, b\<lparr>bl_conv := Some (cd, s), bl_diag := d\<rparr>)))"

definition put_line :: "bool \<Rightarrow> encoding_setup \<Rightarrow> int \<Rightarrow> string \<Rightarrow> char \<Rightarrow> 's bpam_lines \<Rightarrow> zdiag + 's bpam_lines" where
  "put_line is_asa es max_len line asa_char b =
     (let b = b\<lparr>bl_line_num := bl_line_num b + 1\<rparr> in
      case encode_line_if_needed es line b of
        Inl d \<Rightarrow> Inl d
      | Inr (line, b) \<Rightarrow> Inr (b\<lparr>
          bl_truncation := (if int (length line) + (if is_asa then 1 else 0) > max_len then add_line (bl_line_num b) (bl_truncation b) else bl_truncation b),
          bl_lines := bl_lines b @ [(line, asa_char)]\<rparr>))"

definition bpam_line :: "bool \<Rightarrow> encoding_setup \<Rightarrow> int \<Rightarrow> string \<Rightarrow> 's bpam_lines \<Rightarrow> zdiag + 's bpam_lines" where
  "bpam_line is_asa es max_len line b =
     (if \<not> is_asa then put_line is_asa es max_len (strip_cr line) nul_char b
      else (case prepare_line (strip_cr line) (bl_asa b) of
        (None, a) \<Rightarrow> Inr (b\<lparr>bl_asa := a\<rparr>)
      | (Some (n, c, line), a) \<Rightarrow>
          put_line is_asa es max_len line c (b\<lparr>bl_asa := a, bl_lines := bl_lines b @ replicate n ([], CHR ''-'')\<rparr>)))"

fun bpam_loop :: "bool \<Rightarrow> encoding_setup \<Rightarrow> int \<Rightarrow> string list \<Rightarrow> 's bpam_lines \<Rightarrow> zdiag + 's bpam_lines" where
  "bpam_loop is_asa es max_len [] b = Inr b"
| "bpam_loop is_asa es max_len (line # ls) b = bind_res (bpam_line is_asa es max_len line b) (bpam_loop is_asa es max_len ls)"

definition process_bpam_trailing_line :: "bool \<Rightarrow> encoding_setup \<Rightarrow> int \<Rightarrow> string \<Rightarrow> 's bpam_lines \<Rightarrow> zdiag + 's bpam_lines" where
  "process_bpam_trailing_line is_asa es max_len line b =
     (if strip_cr line = [] then Inr b else bpam_line is_asa es max_len line b)"

definition collect_lines :: "bool \<Rightarrow> encoding_setup \<Rightarrow> int \<Rightarrow> string \<Rightarrow> 's bpam_lines \<Rightarrow> zdiag + 's bpam_lines" where
  "collect_lines is_asa es max_len data b = (case cut_lines (es_newline es) data of (ls, r) \<Rightarrow>
     bind_res (bpam_loop is_asa es max_len ls b)
       (\<lambda>b. if r = [] then Inr b else process_bpam_trailing_line is_asa es max_len r b))"

text \<open>The bytes that end a shift state go to the last line that is not empty.\<close>

definition append_flush :: "string \<Rightarrow> (string \<times> char) list \<Rightarrow> (string \<times> char) list" where
  "append_flush bytes lines = (case dropWhile (\<lambda>l. fst l = []) (rev lines) of
     [] \<Rightarrow> lines
   | (l, c) # before \<Rightarrow> rev before @ (l @ bytes, c) # rev (takeWhile (\<lambda>l. fst l = []) (rev lines)))"

definition flush_encoding_state :: "'s bpam_lines \<Rightarrow> zdiag + string \<times> 's bpam_lines" where
  "flush_encoding_state b = (case bl_conv b of
       None \<Rightarrow> Inr ([], b)
     | Some (cd, s) \<Rightarrow> (case zut_iconv_flush cd s (bl_diag b) of (out, d, s) \<Rightarrow>
         if out = [] \<and> diag_msg_len d > 0 then Inl d else Inr (out, b\<lparr>bl_conv := Some (cd, s), bl_diag := d\<rparr>)))"

definition finish_lines :: "'s bpam_lines \<Rightarrow> zdiag + 's bpam_lines" where
  "finish_lines b = bind_res (flush_encoding_state b) (\<lambda>(bytes, b).
     Inr (if bytes = [] then b else b\<lparr>bl_lines := append_flush bytes (bl_lines b)\<rparr>))"

definition close_with :: "'w mvs \<Rightarrow> int \<Rightarrow> zds_rec \<Rightarrow> 'w \<Rightarrow> (int \<times> zds_rec \<times> 'w) option" where
  "close_with sys rc z w = map_option (\<lambda>(_, z, w). (rc, z, w)) (zds_close_output_bpam sys z w)"

text \<open>After a failed write the message is kept over the close.\<close>

definition guarded_close :: "'w mvs \<Rightarrow> int \<Rightarrow> zds_rec \<Rightarrow> 'w \<Rightarrow> (int \<times> zds_rec \<times> 'w) option" where
  "guarded_close sys rc z w = map_option (\<lambda>(rc, z', w). (rc, z'\<lparr>zd_diag := (zd_diag z')
     \<lparr>diag_msg := diag_msg (zd_diag z), diag_msg_len := diag_msg_len (zd_diag z)\<rparr>\<rparr>, w)) (close_with sys rc z w)"

fun write_records :: "'w mvs \<Rightarrow> (string \<times> char) list \<Rightarrow> zds_rec \<Rightarrow> 'w \<Rightarrow> int \<times> zds_rec \<times> 'w" where
  "write_records sys [] z w = (RTNCD_SUCCESS, z, w)"
| "write_records sys ((line, c) # ls) z w = (case zds_write_output_bpam sys line c z w of (rc, z, w) \<Rightarrow>
     if rc \<noteq> RTNCD_SUCCESS then (rc, z, w) else write_records sys ls z w)"

definition close_and_report :: "'w mvs \<Rightarrow> truncation_tracker \<Rightarrow> zds_rec \<Rightarrow> 'w \<Rightarrow> (int \<times> zds_rec \<times> 'w) option" where
  "close_and_report sys t z w = map_option (\<lambda>(rc, z, w). (fst (handle_truncation_result rc t z), snd (handle_truncation_result rc t z), w))
     (zds_close_output_bpam sys z w)"

definition zds_write_member_bpam :: "'w mvs \<Rightarrow> 's iconv_lib \<Rightarrow> string \<Rightarrow> string \<Rightarrow> zds_rec \<Rightarrow> 'w \<Rightarrow> (int \<times> zds_rec \<times> 'w) option" where
  "zds_write_member_bpam sys lib dsn data z w =
     (case zds_open_output_bpam sys dsn z w of
        None \<Rightarrow> None
      | Some ((rc, None), z, w) \<Rightarrow> Some (rc, z, w)
      | Some ((rc, Some b), z, w) \<Rightarrow>
        (case setup_encoding lib z of (es, z) \<Rightarrow>
          let conv = (if es_has_encoding es then lib (es_codepage es) (es_source es) else None) in
          if es_has_encoding es \<and> conv = None then
            close_with sys RTNCD_FAILURE (zds_message (''Cannot open converter from '' @ c_string (es_source es) @ '' to '' @ c_string (es_codepage es)) z) w
          else
            (case bind_res (collect_lines (dcb_asa b) es (get_effective_lrecl b) data
                \<lparr>bl_asa = new_asa, bl_line_num = 0, bl_truncation = new_tracker, bl_conv = conv, bl_diag = zd_diag z, bl_lines = []\<rparr>) finish_lines of
              Inl d \<Rightarrow> close_with sys RTNCD_FAILURE (z\<lparr>zd_diag := d\<rparr>) w
            | Inr bl \<Rightarrow> (case write_records sys (bl_lines bl) (z\<lparr>zd_diag := bl_diag bl\<rparr>) w of (rc, z, w) \<Rightarrow>
                if rc \<noteq> RTNCD_SUCCESS then guarded_close sys rc z w
                else close_and_report sys (flush_range (bl_truncation bl)) z w))))"

section \<open>Facts about members with control characters\<close>

definition as_line :: "char \<times> string \<Rightarrow> string \<times> char" where
  "as_line r = (snd r, fst r)"

text \<open>Without a conversion, the lines that the loop collects are the records of the text.\<close>

lemma bpam_loop_asa:
  assumes "bl_conv b = None"
  shows "\<exists>b'. bpam_loop True es max_len ls b = Inr b' \<and> bl_lines b' = bl_lines b @ map as_line (asa_records (map strip_cr ls) (bl_asa b)) \<and>
    bl_conv b' = None"
  using assms
proof (induction ls arbitrary: b)
  case (Cons line ls)
  show ?case
  proof (cases "prepare_line (strip_cr line) (bl_asa b)")
    case (Pair r a)
    show ?thesis
    proof (cases r)
      case None
      then show ?thesis
        using Pair Cons.IH [of "b\<lparr>bl_asa := a\<rparr>"] Cons.prems by (simp add: bpam_line_def)
    next
      case (Some x)
      then obtain n c body where x: "r = Some (n, c, body)"
        by (cases x) auto
      obtain b1 where b1: "bpam_line True es max_len line b = Inr b1" "bl_conv b1 = None" "bl_asa b1 = a"
        "bl_lines b1 = bl_lines b @ replicate n ([], CHR ''-'') @ [(body, c)]"
        using Pair x Cons.prems by (simp add: bpam_line_def put_line_def encode_line_if_needed_def Let_def)
      then show ?thesis
        using Pair x Cons.IH [of b1] by (simp add: as_line_def)
    qed
  qed
qed simp

text \<open>C13: The records that a text becomes in a member with control characters print as its lines: blank lines are kept, but for those at the
  end of a page, where only whole groups of three before a form feed are.\<close>

theorem asa_member_prints_lines:
  assumes "bl_conv b = None" "bl_asa b = new_asa" "bl_lines b = []"
  shows "\<exists>b'. bpam_loop True es max_len ls b = Inr b' \<and> printed_all (map (\<lambda>(line, c). (c, line)) (bl_lines b')) = printable 0 (map strip_cr ls)"
proof -
  obtain b' where b': "bpam_loop True es max_len ls b = Inr b'" "bl_lines b' = map as_line (asa_records (map strip_cr ls) new_asa)"
    using bpam_loop_asa [OF assms(1)] assms(2,3) by fastforce
  have "map (\<lambda>(line, c). (c, line)) (bl_lines b') = asa_records (map strip_cr ls) new_asa"
    using b'(2) by (simp add: as_line_def comp_def)
  then show ?thesis
    using b'(1) asa_prints_lines [of "map strip_cr ls" new_asa] by (simp add: new_asa_def)
qed

definition plain_setup :: encoding_setup where
  "plain_setup = \<lparr>es_has_encoding = False, es_codepage = [], es_source = ''UTF-8'', es_newline = newline\<rparr>"

definition demo_lines :: "unit bpam_lines" where
  "demo_lines = \<lparr>bl_asa = new_asa, bl_line_num = 0, bl_truncation = new_tracker, bl_conv = None, bl_diag = blank_diag, bl_lines = []\<rparr>"

theorem asa_member_prints_lines_witness:
  "\<exists>b'. bpam_loop True plain_setup 80 [''a'', [], [], [], [], ''b'', FF_CHAR # ''c'' @ [CR_CHAR]] demo_lines = Inr b' \<and>
    printed_all (map (\<lambda>(line, c). (c, line)) (bl_lines b')) = [''a'', [], [], [], [], ''b'', FF_CHAR # ''c'']"
proof -
  have "printable 0 (map strip_cr [''a'', [], [], [], [], ''b'', FF_CHAR # ''c'' @ [CR_CHAR]]) = [''a'', [], [], [], [], ''b'', FF_CHAR # ''c'']"
    by code_simp
  then show ?thesis
    using asa_member_prints_lines [of demo_lines plain_setup 80 "[''a'', [], [], [], [], ''b'', FF_CHAR # ''c'' @ [CR_CHAR]]"] by (simp add: demo_lines_def)
qed

section \<open>E-tags\<close>

definition hex_word :: "nat \<Rightarrow> string" where
  "hex_word n = etag_hex n"

definition contents_etag :: "string \<Rightarrow> string" where
  "contents_etag contents = hex_word (unat (zut_calc_adler32_checksum contents))"

text \<open>The comparison reads the data set with the code pages of the request only when there is a code page, else as
  text.\<close>

definition etag_reader :: "zds_rec \<Rightarrow> bool \<Rightarrow> zds_rec" where
  "etag_reader z has_encoding = (if has_encoding then blank_zds\<lparr>zd_encoding := zd_encoding z\<rparr> else blank_zds)"

definition zds_validate_etag :: "'w mvs \<Rightarrow> 's iconv_lib \<Rightarrow> string \<Rightarrow> bool \<Rightarrow> zds_rec \<Rightarrow> 'w \<Rightarrow> (int \<times> zds_rec) option" where
  "zds_validate_etag sys lib dsn has_encoding z w =
     map_option (\<lambda>(rc, r, contents).
       if rc \<noteq> 0 then (RTNCD_FAILURE, zds_message (''Failed to read contents of data set for e-tag comparison: '' @
           take 127 (c_string (diag_msg (zd_diag r)))) z)
       else (let given_etag = c_strtoul16 (zd_etag z); new_etag = zut_calc_adler32_checksum contents in
         if unat given_etag \<noteq> unat new_etag then
           (RTNCD_FAILURE, zds_message (''Etag mismatch: expected '' @ hex_word (unat given_etag) @ '', actual '' @ hex_word (unat new_etag)) z)
         else (RTNCD_SUCCESS, z)))
     (zds_read sys lib \<lparr>op_ddname = [], op_dsname = dsn\<rparr> (etag_reader z has_encoding) w)"

definition validate_etag_if_present :: "'w mvs \<Rightarrow> 's iconv_lib \<Rightarrow> string \<Rightarrow> bool \<Rightarrow> zds_rec \<Rightarrow> 'w \<Rightarrow> (int \<times> zds_rec) option" where
  "validate_etag_if_present sys lib dsn has_encoding z w =
     (if zd_etag z = [] then Some (RTNCD_SUCCESS, z)
      else map_option (\<lambda>(rc, z). if rc \<noteq> 0 then (RTNCD_FAILURE, z) else (RTNCD_SUCCESS, z)) (zds_validate_etag sys lib dsn has_encoding z w))"

definition zds_write_recfm_unsupported :: "string \<Rightarrow> bool \<Rightarrow> bool" where
  "zds_write_recfm_unsupported recfm include_standard \<longleftrightarrow> recfm = ''U'' \<or> include_standard \<and> CHR ''S'' \<in> set recfm"

text \<open>What stops a write before it starts: the data set must exist and have a format that can be written.\<close>

definition write_refused :: "'w mvs \<Rightarrow> string \<Rightarrow> dscb_attributes \<Rightarrow> zds_rec \<Rightarrow> 'w \<Rightarrow> zds_rec option" where
  "write_refused sys dsn a z w =
     (if \<not> zds_dataset_exists sys dsn w then Some (zds_message (''Could not access '' @ in_quotes (c_string dsn)) z)
      else if zds_write_recfm_unsupported (at_recfm a) (\<not> zds_has_member dsn) then
        Some (let z = zds_message (''Writing to RECFM='' @ c_string (at_recfm a) @ '' data sets is not supported'') z in
          z\<lparr>zd_diag := (zd_diag z)\<lparr>detail_rc := -13\<rparr>\<rparr>)
      else None)"

definition new_etag :: "'w mvs \<Rightarrow> 's iconv_lib \<Rightarrow> string \<Rightarrow> int \<Rightarrow> zds_rec \<Rightarrow> 'w \<Rightarrow> (int \<times> zds_rec \<times> 'w) option" where
  "new_etag sys lib dsn rc z w = map_option (\<lambda>(read_rc, z, saved).
       if read_rc \<noteq> 0 then (RTNCD_FAILURE, z, w) else (rc, z\<lparr>zd_etag := contents_etag saved\<rparr>, w))
     (zds_read sys lib \<lparr>op_ddname = [], op_dsname = dsn\<rparr> z w)"

definition zds_write :: "'w mvs \<Rightarrow> 's iconv_lib \<Rightarrow> zds_opts \<Rightarrow> string \<Rightarrow> zds_rec \<Rightarrow> 'w \<Rightarrow> (int \<times> zds_rec \<times> 'w) option" where
  "zds_write sys lib opts data z w =
     (if no_target opts then Some (RTNCD_FAILURE, zds_message no_target_message z, w)
      else if op_ddname opts \<noteq> [] then Some (zds_write_sequential sys lib (zds_resolve_write_target opts) data no_attributes z w)
      else (let dsn = op_dsname opts in
        if \<not> zds_dataset_exists sys dsn w then
          Some (RTNCD_FAILURE, zds_message (''Could not access '' @ in_quotes (c_string dsn)) z, w)
        else (case zds_get_dscb_attributes sys dsn w of
          None \<Rightarrow> None
        | Some a \<Rightarrow> (case write_refused sys dsn a z w of
            Some z \<Rightarrow> Some (RTNCD_FAILURE, z, w)
          | None \<Rightarrow> (case validate_etag_if_present sys lib dsn (zds_use_codepage z) z w of
              None \<Rightarrow> None
            | Some (rc, z) \<Rightarrow>
              if rc \<noteq> RTNCD_SUCCESS then Some (rc, z, w)
              else (case (if zds_has_member dsn
                  then map_option (\<lambda>(rc, z, w). (rc, z\<lparr>zd_ddname := replicate 8 nul_char\<rparr>, w)) (zds_write_member_bpam sys lib dsn data z w)
                  else Some (zds_write_sequential sys lib (zds_resolve_write_target opts) data a z w)) of
                None \<Rightarrow> None
              | Some (rc, z, w) \<Rightarrow> if rc = RTNCD_FAILURE then Some (rc, z, w) else new_etag sys lib dsn rc z w))))))"

section \<open>Facts about e-tags\<close>

lemma etag_hex_digits: "list_all (\<lambda>c. \<exists>n < 16. c = hex_digit_char n) (etag_hex n)"
proof (induction n rule: etag_hex.induct)
  case (1 n)
  then show ?case
    by (cases "n < 16") (auto simp: etag_hex.simps [of n] intro: exI [of _ "n mod 16"])
qed

lemma etag_hex_nonempty: "etag_hex n \<noteq> []"
  by (simp add: etag_hex.simps [of n])

lemma hex_digit_no_x: "n < 16 \<Longrightarrow> hex_digit_char n \<noteq> CHR ''x'' \<and> hex_digit_char n \<noteq> CHR ''X''"
  using hex_digit_simps(1) [of n] by (auto simp: hex_char_value_def code_def split: if_splits)

lemma etag_hex_no_x: "list_all (\<lambda>c. c \<noteq> CHR ''x'' \<and> c \<noteq> CHR ''X'') (etag_hex n)"
  by (rule list.pred_mono_strong [OF etag_hex_digits]) (metis hex_digit_no_x)

text \<open>A number written in hexadecimal is read back.\<close>

lemma strtoul_etag_hex: "c_strtoul16 (etag_hex n) = of_nat n"
proof -
  obtain c cs where s: "etag_hex n = c # cs"
    using etag_hex_nonempty by (cases "etag_hex n") auto
  then obtain k where c: "k < 16" "c = hex_digit_char k"
    using etag_hex_digits [of n] by auto
  have "skip_prefix (c # cs) = c # cs"
    using etag_hex_no_x [of n] s by (auto simp: skip_prefix_def split: list.splits)
  then show ?thesis
    using s c read_show_hex [of n "[]"] by (simp add: c_strtoul16_def)
qed

lemma contents_etag_read: "unat (c_strtoul16 (contents_etag s)) = unat (zut_calc_adler32_checksum s)"
proof -
  have "unat (zut_calc_adler32_checksum s) < 2 ^ 64"
    using unsigned_less [of "zut_calc_adler32_checksum s", where ?'a = nat] by simp
  then show ?thesis
    by (simp add: contents_etag_def hex_word_def strtoul_etag_hex unsigned_ucast_eq take_bit_nat_eq_self)
qed

lemma contents_etag_nonempty: "contents_etag s \<noteq> []"
  by (simp add: contents_etag_def hex_word_def etag_hex_nonempty)

text \<open>What a read answers does not depend on the diagnostics, the e-tag and the rest of the record.\<close>

definition same_text :: "zds_rec \<Rightarrow> zds_rec \<Rightarrow> bool" where
  "same_text z z' \<longleftrightarrow> data_type (zd_encoding z) = data_type (zd_encoding z') \<and> zds_use_codepage z = zds_use_codepage z' \<and>
     (zds_use_codepage z \<longrightarrow> zd_encoding z = zd_encoding z')"

lemma encode_result: "fst (zut_encode lib s a b d) = fst (zut_encode lib s a b d')"
  by (simp add: zut_encode_def split: option.splits prod.splits sum.splits)

lemma read_same:
  assumes "same_text z z'" "zds_read sys lib opts z w = Some (0, r, s)"
  shows "\<exists>r'. zds_read sys lib opts z' w = Some (0, r', s)"
proof -
  have c: "read_contents sys z path a w = read_contents sys z' path a w" for path a
    using assms(1) by (simp add: read_contents_def same_text_def)
  have u: "zds_use_codepage z' = zds_use_codepage z"
    using assms(1) by (simp add: same_text_def)
  have t: "\<not> no_target opts"
    using assms(2) by (auto simp: zds_read_def RTNCD_FAILURE_def)
  obtain a where a: "zds_resolve_dscb sys opts w = Some a"
    using assms(2) t by (cases "zds_resolve_dscb sys opts w") (simp_all add: zds_read_def)
  obtain x where x: "read_contents sys z' (zds_resolve_dsname opts) a w = Some x"
    using assms(2) t a c by (cases "read_contents sys z' (zds_resolve_dsname opts) a w") (simp_all add: zds_read_def RTNCD_FAILURE_def)
  show ?thesis
  proof (cases "x \<noteq> [] \<and> zds_use_codepage z")
    case False
    then have "s = x"
      using assms(2) t a x c by (auto simp: zds_read_def split: if_splits)
    then show ?thesis
      using False t a x u by (auto simp: zds_read_def)
  next
    case True
    then have enc: "zd_encoding z' = zd_encoding z"
      using assms(1) by (simp add: same_text_def)
    then have src: "zds_source_encoding z' = zds_source_encoding z"
      by (simp add: zds_source_encoding_def)
    obtain out d where o': "zut_encode lib x (codepage (zd_encoding z)) (zds_source_encoding z) (zd_diag z) = (Inr out, d)"
      using assms(2) t a x c True
      by (cases "zut_encode lib x (codepage (zd_encoding z)) (zds_source_encoding z) (zd_diag z)"; cases "fst (zut_encode lib x (codepage (zd_encoding z)) (zds_source_encoding z) (zd_diag z))")
        (simp_all add: zds_read_def RTNCD_FAILURE_def)
    then have "fst (zut_encode lib x (codepage (zd_encoding z)) (zds_source_encoding z) (zd_diag z')) = Inr out"
      using encode_result [of lib x _ _ "zd_diag z'" "zd_diag z"] by simp
    then obtain d' where "zut_encode lib x (codepage (zd_encoding z)) (zds_source_encoding z) (zd_diag z') = (Inr out, d')"
      by (metis prod.collapse)
    then show ?thesis
      using assms(2) True t a x c u enc src o' by (simp add: zds_read_def)
  qed
qed

text \<open>The encoding of a request is never changed.\<close>

lemma message_encoding [simp]: "zd_encoding (zds_message s z) = zd_encoding z"
  by (simp add: zds_message_def)

lemma setup_keeps: "setup_encoding lib z = (es, z') \<Longrightarrow> zd_encoding z' = zd_encoding z"
  by (auto simp: setup_encoding_def split: prod.splits)

lemma truncation_keeps [simp]: "zd_encoding (snd (handle_truncation_result rc t z)) = zd_encoding z"
  by (simp add: handle_truncation_result_def)

lemma truncation_result: "handle_truncation_result rc t z = (rc', z') \<Longrightarrow> zd_encoding z' = zd_encoding z"
  using truncation_keeps [of rc t z] by simp

lemma whole_keeps: "encode_whole lib es data z = (r, z') \<Longrightarrow> zd_encoding z' = zd_encoding z"
  by (auto simp: encode_whole_def split: if_splits prod.splits sum.splits)

lemma sequential_keeps: "zds_write_sequential sys lib dsn data a z w = (rc, z', w') \<Longrightarrow> zd_encoding z' = zd_encoding z"
  unfolding zds_write_sequential_def
  by (auto simp: Let_def split: prod.splits if_splits bool.splits option.splits dest!: setup_keeps truncation_result whole_keeps)

lemma open_keeps: "zds_open_output_bpam sys dsn z w = Some (r, z', w') \<Longrightarrow> zd_encoding z' = zd_encoding z"
  by (auto simp: zds_open_output_bpam_def Let_def split: prod.splits if_splits)

lemma output_keeps: "zds_write_output_bpam sys data c z w = (rc, z', w') \<Longrightarrow> zd_encoding z' = zd_encoding z"
  by (auto simp: zds_write_output_bpam_def Let_def split: prod.splits if_splits)

lemma close_keeps: "zds_close_output_bpam sys z w = Some (rc, z', w') \<Longrightarrow> zd_encoding z' = zd_encoding z"
  by (auto simp: zds_close_output_bpam_def Let_def split: prod.splits if_splits)

lemma close_with_keeps: "close_with sys rc z w = Some (rc', z', w') \<Longrightarrow> zd_encoding z' = zd_encoding z \<and> rc' = rc"
  by (auto simp: close_with_def dest: close_keeps)

lemma guarded_close_keeps: "guarded_close sys rc z w = Some (rc', z', w') \<Longrightarrow> zd_encoding z' = zd_encoding z"
  by (auto simp: guarded_close_def dest: close_with_keeps)

lemma report_keeps: "close_and_report sys t z w = Some (rc', z', w') \<Longrightarrow> zd_encoding z' = zd_encoding z"
  by (auto simp: close_and_report_def dest: close_keeps)

lemma records_keep: "write_records sys ls z w = (rc, z', w') \<Longrightarrow> zd_encoding z' = zd_encoding z"
  by (induction sys ls z w rule: write_records.induct) (auto split: prod.splits if_splits dest: output_keeps)

lemma member_keeps: "zds_write_member_bpam sys lib dsn data z w = Some (rc, z', w') \<Longrightarrow> zd_encoding z' = zd_encoding z"
  unfolding zds_write_member_bpam_def Let_def
  by (auto split: option.splits prod.splits if_splits sum.splits
      dest!: open_keeps setup_keeps records_keep close_with_keeps guarded_close_keeps report_keeps)

lemma validate_keeps: "validate_etag_if_present sys lib dsn e z w = Some (rc, z') \<Longrightarrow>
    zd_encoding z' = zd_encoding z \<and> (rc = RTNCD_SUCCESS \<or> rc = RTNCD_FAILURE)"
  by (auto simp: validate_etag_if_present_def zds_validate_etag_def Let_def split: if_splits prod.splits)

lemma read_keeps: "zds_read sys lib opts z w = Some (rc, z', s) \<Longrightarrow> zd_encoding z' = zd_encoding z"
  by (auto simp: zds_read_def split: if_splits option.splits prod.splits sum.splits)

text \<open>A write of a data set that does not fail ends with the new e-tag.\<close>

lemma write_ends_with_read:
  assumes "zds_write sys lib \<lparr>op_ddname = [], op_dsname = dsn\<rparr> data z w = Some (rc, z', w')" "rc \<noteq> RTNCD_FAILURE"
  shows "\<exists>rc0 z0. new_etag sys lib dsn rc0 z0 w' = Some (rc, z', w') \<and> zd_encoding z0 = zd_encoding z"
proof -
  obtain rc0 z0 w0 where n: "new_etag sys lib dsn rc0 z0 w0 = Some (rc, z', w')" "zd_encoding z0 = zd_encoding z"
    using assms unfolding zds_write_def no_target_def Let_def
    by (auto split: if_splits option.splits prod.splits dest!: validate_keeps member_keeps sequential_keeps)
  moreover have "w0 = w'"
    using n(1) by (auto simp: new_etag_def split: if_splits)
  ultimately show ?thesis
    by blast
qed

text \<open>C12: The e-tag that a text write of a data set returns is the one that a later write of it may give: as long as the
  data set stays as it is, the comparison accepts it.\<close>

theorem returned_etag_accepted:
  assumes "zds_write sys lib \<lparr>op_ddname = [], op_dsname = dsn\<rparr> data z w = Some (rc, z', w')" "rc \<noteq> RTNCD_FAILURE"
    "data_type (zd_encoding z) = eDataTypeText"
  shows "\<exists>z''. zds_validate_etag sys lib dsn (zds_use_codepage z') z' w' = Some (RTNCD_SUCCESS, z'')"
proof -
  obtain rc0 z0 where made: "new_etag sys lib dsn rc0 z0 w' = Some (rc, z', w')" "zd_encoding z0 = zd_encoding z"
    using write_ends_with_read [OF assms(1,2)] by blast
  then obtain z1 s where r: "zds_read sys lib \<lparr>op_ddname = [], op_dsname = dsn\<rparr> z0 w' = Some (0, z1, s)" "z' = z1\<lparr>zd_etag := contents_etag s\<rparr>"
    using assms(2) by (auto simp: new_etag_def split: prod.splits if_splits)
  have enc: "zd_encoding z' = zd_encoding z"
    using read_keeps [OF r(1)] r(2) made(2) by simp
  have "same_text z0 (etag_reader z' (zds_use_codepage z'))"
    using enc made(2) assms(3) by (simp add: same_text_def etag_reader_def zds_use_codepage_def blank_zds_def)
  from read_same [OF this r(1)] obtain r' where
    "zds_read sys lib \<lparr>op_ddname = [], op_dsname = dsn\<rparr> (etag_reader z' (zds_use_codepage z')) w' = Some (0, r', s)"
    by blast
  then show ?thesis
    using contents_etag_read [of s] r(2) by (simp add: zds_validate_etag_def)
qed

text \<open>C11: A write that carries an e-tag other than that of the contents fails and leaves the system as it is.\<close>

theorem stale_data_set_write_refused:
  assumes "op_ddname opts = []" "zd_etag z \<noteq> []" "zds_read sys lib \<lparr>op_ddname = [], op_dsname = op_dsname opts\<rparr> (etag_reader z (zds_use_codepage z)) w = Some (0, r, contents)"
    "unat (c_strtoul16 (zd_etag z)) \<noteq> unat (zut_calc_adler32_checksum contents)"
  shows "\<exists>z'. zds_write sys lib opts data z w = Some (RTNCD_FAILURE, z', w)"
proof -
  obtain z1 where v: "validate_etag_if_present sys lib (op_dsname opts) (zds_use_codepage z) z w = Some (RTNCD_FAILURE, z1)"
    using assms by (simp add: validate_etag_if_present_def zds_validate_etag_def RTNCD_FAILURE_def)
  have t: "op_dsname opts \<noteq> []"
    using assms(3) by (auto simp: zds_read_def no_target_def RTNCD_FAILURE_def)
  obtain a where "zds_get_dscb_attributes sys (op_dsname opts) w = Some a"
    using assms(3) t by (auto simp: zds_read_def no_target_def zds_resolve_dscb_def split: option.splits)
  moreover have "RTNCD_FAILURE \<noteq> RTNCD_SUCCESS"
    by (simp add: RTNCD_FAILURE_def RTNCD_SUCCESS_def)
  ultimately show ?thesis
    using v t assms(1) by (cases "zds_dataset_exists sys (op_dsname opts) w"; cases "write_refused sys (op_dsname opts) a z w")
      (auto simp: zds_write_def no_target_def Let_def)
qed

text \<open>The e-tag that a binary write returns is refused afterwards, when the data set reads differently as text.\<close>

theorem binary_etag_refused:
  assumes "zds_write sys lib \<lparr>op_ddname = [], op_dsname = dsn\<rparr> data z w = Some (rc, z', w')" "rc \<noteq> RTNCD_FAILURE"
    "data_type (zd_encoding z) = eDataTypeBinary" "zds_read sys lib \<lparr>op_ddname = [], op_dsname = dsn\<rparr> blank_zds w' = Some (0, r, contents)"
    "\<And>r' c'. zds_read sys lib \<lparr>op_ddname = [], op_dsname = dsn\<rparr> (blank_zds\<lparr>zd_encoding := zd_encoding z\<rparr>) w' = Some (0, r', c') \<Longrightarrow>
      zut_calc_adler32_checksum c' \<noteq> zut_calc_adler32_checksum contents"
  shows "\<exists>z''. zds_validate_etag sys lib dsn (zds_use_codepage z') z' w' = Some (RTNCD_FAILURE, z'')"
proof -
  obtain rc0 z0 where made: "new_etag sys lib dsn rc0 z0 w' = Some (rc, z', w')" "zd_encoding z0 = zd_encoding z"
    using write_ends_with_read [OF assms(1,2)] by blast
  then obtain z1 s where r: "zds_read sys lib \<lparr>op_ddname = [], op_dsname = dsn\<rparr> z0 w' = Some (0, z1, s)" "z' = z1\<lparr>zd_etag := contents_etag s\<rparr>"
    using assms(2) by (auto simp: new_etag_def split: prod.splits if_splits)
  have "zds_use_codepage z' = False"
    using read_keeps [OF r(1)] r(2) made(2) assms(3) by (simp add: zds_use_codepage_def)
  moreover have "same_text z0 (blank_zds\<lparr>zd_encoding := zd_encoding z\<rparr>)"
    using made(2) by (simp add: same_text_def zds_use_codepage_def)
  then have "zut_calc_adler32_checksum s \<noteq> zut_calc_adler32_checksum contents"
    using read_same [OF _ r(1)] assms(5) by blast
  then have "unat (c_strtoul16 (zd_etag z')) \<noteq> unat (zut_calc_adler32_checksum contents)"
    using contents_etag_read [of s] r(2) by (simp add: word_unat_eq_iff)
  ultimately show ?thesis
    using assms(4) by (simp add: zds_validate_etag_def etag_reader_def)
qed

section \<open>A system in memory\<close>

text \<open>Data sets and members by their names in the C library; lines of text are kept with their newlines, which a binary
  read does not give.\<close>

type_synonym memory = "(string \<times> string) list"

definition no_catalog :: catalog_services where
  "no_catalog = \<lparr>cs_search = (\<lambda>k. [(8, \<lparr>ca_number_fields = 0, ca_flag = 0, ca_type = 0, ca_entries = [], ca_resume = False\<rparr>)]),
     cs_dscb = (\<lambda>n v. None), cs_symbol = (\<lambda>s. (8, [])), cs_storage = True\<rparr>"

definition memory_mvs :: "memory mvs" where
  "memory_mvs = \<lparr>mvs_read = (\<lambda>p f w. map_option (\<lambda>t. if f = ''rb'' then filter (\<lambda>c. c \<noteq> newline) t else t) (map_of w p)),
     mvs_records = (\<lambda>p n w. map_option split_lines (map_of w p)), mvs_open_write = (\<lambda>p f w. (True, AList.update p [] w)),
     mvs_write = (\<lambda>p t w. (length t, AList.update p (case map_of w p of None \<Rightarrow> t | Some s \<Rightarrow> s @ t) w)),
     mvs_remove = (\<lambda>p w. if map_of w p = None then (-1, w) else (0, AList.delete p w)),
     mvs_rename = (\<lambda>p q w. ((-1, 0), w)), mvs_dir = (\<lambda>w p. DirFailed 0 [] 0), mvs_catalog = (\<lambda>w. no_catalog), mvs_date = (\<lambda>b. (8, [])),
     mvs_dynalloc = (\<lambda>a b p w. (\<lparr>bpx_rc = 8, bpx_code = 0, bpx_text = [], bpx_ddname = [], bpx_dsname = []\<rparr>, w)),
     mvs_obpam = (\<lambda>dd d w. ((8, \<lparr>dcb_lrecl = 0, dcb_variable = False, dcb_asa = False\<rparr>), d, w)), mvs_wbpam = (\<lambda>dd r d w. (8, d, w)),
     mvs_cbpam = (\<lambda>dd d w. (8, d, w))\<rparr>"

definition demo_memory :: memory where
  "demo_memory = [(dsn_path ''A.B'', ''x'' @ [newline] @ ''y'')]"

definition plain_iconv :: "unit iconv_lib" where
  "plain_iconv = (\<lambda>a b. None)"

lemma demo_attributes: "zds_get_dscb_attributes memory_mvs ''A.B'' w = Some no_attributes"
  by (simp add: zds_get_dscb_attributes_def memory_mvs_def no_catalog_def zds_list_data_sets_def default_max_def
      ZDS_DEFAULT_BUFFER_SIZE_def min_buffer_size_def CSIFIELD_SIZE_def CSI_FIELD_COUNT_def MAX_DS_LENGTH_def before_paren_def Let_def area_problem_def)

lemma memory_read:
  assumes "\<not> zds_use_codepage z" "map_of w (dsn_path ''A.B'') = Some t"
  shows "zds_read memory_mvs plain_iconv \<lparr>op_ddname = [], op_dsname = ''A.B''\<rparr> z w =
    Some (0, z, if data_type (zd_encoding z) = eDataTypeBinary then filter (\<lambda>c. c \<noteq> newline) t else t)"
proof -
  have "read_contents memory_mvs z (dsn_path ''A.B'') no_attributes w =
      Some (if data_type (zd_encoding z) = eDataTypeBinary then filter (\<lambda>c. c \<noteq> newline) t else t)"
    using assms(2) by (simp add: read_contents_def no_attributes_def memory_mvs_def)
  then show ?thesis
    using assms(1) demo_attributes [of w] by (simp add: zds_read_def no_target_def zds_resolve_dscb_def zds_resolve_dsname_def)
qed

definition demo_zds :: "data_type \<Rightarrow> string \<Rightarrow> zds_rec" where
  "demo_zds t tag = blank_zds\<lparr>zd_encoding := \<lparr>codepage = [], source_codepage = [], data_type = t\<rparr>, zd_etag := tag\<rparr>"

lemma demo_zds_simps [simp]: "\<not> zds_use_codepage (demo_zds t tag)" "zd_etag (demo_zds t tag) = tag" "data_type (zd_encoding (demo_zds t tag)) = t"
  "etag_reader (demo_zds t tag) False = blank_zds" "\<not> zds_use_codepage blank_zds" "data_type (zd_encoding blank_zds) = eDataTypeText"
  by (simp_all add: demo_zds_def zds_use_codepage_def etag_reader_def blank_zds_def)

lemma demo_map: "map_of demo_memory (dsn_path ''A.B'') = Some (''x'' @ [newline] @ ''y'')"
  by (simp add: demo_memory_def)

theorem stale_data_set_write_refused_witness:
  "\<exists>z'. zds_write memory_mvs plain_iconv \<lparr>op_ddname = [], op_dsname = ''A.B''\<rparr> ''new'' (demo_zds eDataTypeText ''1'') demo_memory =
    Some (RTNCD_FAILURE, z', demo_memory)"
proof -
  have "c_strtoul16 ''1'' = 1" "zut_calc_adler32_checksum (''x'' @ [newline] @ ''y'') = 46793061"
    by code_simp+
  then have "unat (c_strtoul16 ''1'') \<noteq> unat (zut_calc_adler32_checksum (''x'' @ [newline] @ ''y''))"
    by simp
  then show ?thesis
    using stale_data_set_write_refused [of "\<lparr>op_ddname = [], op_dsname = ''A.B''\<rparr>" "demo_zds eDataTypeText ''1''" memory_mvs plain_iconv demo_memory
        blank_zds "''x'' @ [newline] @ ''y''"] memory_read [of blank_zds demo_memory, OF _ demo_map] by simp
qed

lemma demo_write:
  "\<exists>z'. zds_write memory_mvs plain_iconv \<lparr>op_ddname = [], op_dsname = ''A.B''\<rparr> (''p'' @ [newline]) (demo_zds t []) demo_memory =
    Some (RTNCD_SUCCESS, z', [(dsn_path ''A.B'', ''p'' @ [newline])])"
proof -
  have f: "before_paren ''A.B'' = ''A.B''" "\<not> zds_has_member ''A.B''"
    by code_simp+
  have e: "zds_dataset_exists memory_mvs ''A.B'' demo_memory" "write_refused memory_mvs ''A.B'' no_attributes (demo_zds t []) demo_memory = None"
    by (simp_all add: write_refused_def zds_dataset_exists_def f memory_mvs_def demo_map no_attributes_def zds_write_recfm_unsupported_def)
  have se: "setup_encoding plain_iconv (demo_zds t []) = (\<lparr>es_has_encoding = False, es_codepage = [], es_source = ''UTF-8'', es_newline = newline\<rparr>, demo_zds t [])"
    by (simp add: setup_encoding_def get_newline_char_def demo_zds_def zds_use_codepage_def zds_source_encoding_def)
  have op: "mvs_open_write memory_mvs (dsn_path ''A.B'') f demo_memory = (True, [(dsn_path ''A.B'', [])])" for f
    by (simp add: memory_mvs_def demo_memory_def)
  have wr: "mvs_write memory_mvs (dsn_path ''A.B'') (''p'' @ [newline]) [(dsn_path ''A.B'', [])] = (2, [(dsn_path ''A.B'', ''p'' @ [newline])])"
    by (simp add: memory_mvs_def)
  have s: "zds_write_sequential memory_mvs plain_iconv (dsn_path ''A.B'') (''p'' @ [newline]) no_attributes (demo_zds t []) demo_memory =
      (RTNCD_SUCCESS, demo_zds t [], [(dsn_path ''A.B'', ''p'' @ [newline])])"
    by (simp add: zds_write_sequential_def se op wr [simplified] encode_whole_def handle_truncation_result_def new_tracker_def no_attributes_def Let_def)
  have r: "map_of [(dsn_path ''A.B'', ''p'' @ [newline])] (dsn_path ''A.B'') = Some (''p'' @ [newline])"
    by simp
  show ?thesis
    using e f s demo_attributes [of demo_memory] memory_read [OF _ r, of "demo_zds t []"]
    by (simp add: zds_write_def no_target_def validate_etag_if_present_def zds_resolve_write_target_def new_etag_def RTNCD_FAILURE_def RTNCD_SUCCESS_def Let_def)
qed

theorem returned_etag_accepted_witness:
  "\<exists>z' w' z''. zds_write memory_mvs plain_iconv \<lparr>op_ddname = [], op_dsname = ''A.B''\<rparr> (''p'' @ [newline]) (demo_zds eDataTypeText []) demo_memory =
       Some (RTNCD_SUCCESS, z', w') \<and>
     zds_validate_etag memory_mvs plain_iconv ''A.B'' (zds_use_codepage z') z' w' = Some (RTNCD_SUCCESS, z'')"
proof -
  obtain z' where w: "zds_write memory_mvs plain_iconv \<lparr>op_ddname = [], op_dsname = ''A.B''\<rparr> (''p'' @ [newline]) (demo_zds eDataTypeText []) demo_memory =
      Some (RTNCD_SUCCESS, z', [(dsn_path ''A.B'', ''p'' @ [newline])])"
    using demo_write by blast
  have "RTNCD_SUCCESS \<noteq> RTNCD_FAILURE" "data_type (zd_encoding (demo_zds eDataTypeText [])) = eDataTypeText"
    by (simp_all add: RTNCD_FAILURE_def RTNCD_SUCCESS_def)
  from returned_etag_accepted [OF w this] show ?thesis
    using w by blast
qed

theorem binary_etag_refused_witness:
  "\<exists>z' w' z''. zds_write memory_mvs plain_iconv \<lparr>op_ddname = [], op_dsname = ''A.B''\<rparr> (''p'' @ [newline]) (demo_zds eDataTypeBinary []) demo_memory =
       Some (RTNCD_SUCCESS, z', w') \<and>
     zds_validate_etag memory_mvs plain_iconv ''A.B'' (zds_use_codepage z') z' w' = Some (RTNCD_FAILURE, z'')"
proof -
  let ?w = "[(dsn_path ''A.B'', ''p'' @ [newline])]" and ?b = "blank_zds\<lparr>zd_encoding := zd_encoding (demo_zds eDataTypeBinary [])\<rparr>"
  obtain z' where w: "zds_write memory_mvs plain_iconv \<lparr>op_ddname = [], op_dsname = ''A.B''\<rparr> (''p'' @ [newline]) (demo_zds eDataTypeBinary []) demo_memory =
      Some (RTNCD_SUCCESS, z', ?w)"
    using demo_write by blast
  have m: "map_of ?w (dsn_path ''A.B'') = Some (''p'' @ [newline])"
    by simp
  have u: "\<not> zds_use_codepage ?b"
    by (simp add: zds_use_codepage_def)
  have n: "zut_calc_adler32_checksum ''p'' \<noteq> zut_calc_adler32_checksum (''p'' @ [newline])"
    by code_simp
  have nl: "newline \<noteq> CHR ''p''"
    by code_simp
  have f: "filter (\<lambda>c. c \<noteq> newline) (''p'' @ [newline]) = ''p''"
    using nl by simp
  have t: "zds_read memory_mvs plain_iconv \<lparr>op_ddname = [], op_dsname = ''A.B''\<rparr> blank_zds ?w = Some (0, blank_zds, ''p'' @ [newline])"
    using memory_read [OF _ m, of blank_zds] by simp
  have b: "zds_read memory_mvs plain_iconv \<lparr>op_ddname = [], op_dsname = ''A.B''\<rparr> ?b ?w = Some (0, ?b, ''p'')"
    using memory_read [OF u m] f by simp
  have c: "RTNCD_SUCCESS \<noteq> RTNCD_FAILURE" "data_type (zd_encoding (demo_zds eDataTypeBinary [])) = eDataTypeBinary"
    by (simp_all add: RTNCD_FAILURE_def RTNCD_SUCCESS_def)
  have "\<exists>z''. zds_validate_etag memory_mvs plain_iconv ''A.B'' (zds_use_codepage z') z' ?w = Some (RTNCD_FAILURE, z'')"
  proof (rule binary_etag_refused [OF w c t])
    fix r' c' assume "zds_read memory_mvs plain_iconv \<lparr>op_ddname = [], op_dsname = ''A.B''\<rparr> ?b ?w = Some (0, r', c')"
    then have "c' = ''p''"
      using b by simp
    then show "zut_calc_adler32_checksum c' \<noteq> zut_calc_adler32_checksum (''p'' @ [newline])"
      using n by simp
  qed
  then show ?thesis
    using w by blast
qed

end
