(* ===== verification/ZdsManage.thy ===== *)
theory ZdsManage
  imports ZdsIo
begin

text \<open>
  Making, deleting, renaming and copying data sets (\<open>zds_create_dsn\<close> and its variants, \<open>zds_delete_dsn\<close>,
  \<open>zds_rename_dsn\<close>, \<open>zds_rename_members\<close>, \<open>zds_copy_dsn\<close>).  A function is \<open>None\<close> where a request overruns
  a buffer of the services it calls.
\<close>

section \<open>Creating\<close>

record ds_attributes =
  da_alcunit :: string
  da_blksize :: int
  da_dirblk :: int
  da_dsorg :: string
  da_primary :: int
  da_recfm :: string
  da_lrecl :: int
  da_dataclass :: string
  da_unit :: string
  da_dsntype :: string
  da_mgntclass :: string
  da_secondary :: int
  da_storclass :: string
  da_vol :: string

definition blank_ds_attributes :: ds_attributes where
  "blank_ds_attributes = \<lparr>da_alcunit = [], da_blksize = 0, da_dirblk = 0, da_dsorg = [], da_primary = 0, da_recfm = [], da_lrecl = 0,
     da_dataclass = [], da_unit = [], da_dsntype = [], da_mgntclass = [], da_secondary = 0, da_storclass = [], da_vol = []\<rparr>"

text \<open>The return code, the text of the last response and the state.\<close>

definition alloc_and_free :: "'w mvs \<Rightarrow> string \<Rightarrow> string \<Rightarrow> 'w \<Rightarrow> (int \<times> string \<times> 'w) option" where
  "alloc_and_free sys alloc_dd dsn w =
     (case zut_bpxwdyn (mvs_dynalloc sys) alloc_dd w of
        None \<Rightarrow> None
      | Some (r, w) \<Rightarrow> if bpx_rc r \<noteq> RTNCD_SUCCESS then Some (bpx_rc r, bpx_text r, w)
          else map_option (\<lambda>(r, w). (bpx_rc r, bpx_text r, w)) (zut_bpxwdyn (mvs_dynalloc sys) (''FREE DA('' @ in_quotes dsn @ '')'') w))"

definition allocation_unit :: "string \<Rightarrow> string + string" where
  "allocation_unit s = (let u = map to_upper s in
     if u = [] \<or> u = ''TRACKS'' \<or> u = ''TRK'' then Inr ''TRACKS''
     else if u = ''CYLINDERS'' \<or> u = ''CYL'' then Inr ''CYL''
     else Inl (''Invalid allocation unit '' @ in_quotes u))"

definition default_attributes :: "ds_attributes \<Rightarrow> ds_attributes" where
  "default_attributes a =
     (let a = (if da_blksize a < 0 then a\<lparr>da_blksize := (if da_lrecl a > 0 then da_lrecl a else 80)\<rparr> else a);
          a = (if da_primary a = 0 then a\<lparr>da_primary := 1\<rparr> else a)
      in if da_lrecl a < 0 then a\<lparr>da_lrecl := 80\<rparr> else a)"

definition keyword :: "string \<Rightarrow> string \<Rightarrow> string" where
  "keyword name value = (if value = [] then [] else '' '' @ name @ ''('' @ value @ '')'')"

definition space_text :: "ds_attributes \<Rightarrow> string" where
  "space_text a = (if da_primary a > 0
     then '' SPACE('' @ show_int (da_primary a) @ (if da_secondary a > 0 then '','' @ show_int (da_secondary a) else []) @ '') '' @ da_alcunit a else [])"

definition allocation_text :: "string \<Rightarrow> ds_attributes \<Rightarrow> string" where
  "allocation_text dsn a = (let is_recfm_u = (da_recfm a = ''U'') in
     ''ALLOC DA('' @ in_quotes dsn @ '')'' @
     '' DSORG('' @ (if da_dsorg a \<noteq> [] then da_dsorg a else ''PS'') @ '')'' @
     space_text a @
     keyword ''RECFM'' (da_recfm a) @
     (if da_lrecl a > 0 \<and> \<not> is_recfm_u then '' LRECL('' @ show_int (da_lrecl a) @ '')'' else []) @
     (if da_dirblk a > 0 then '' DIR('' @ show_int (da_dirblk a) @ '')'' else []) @
     '' NEW CATALOG'' @
     keyword ''DSNTYPE'' (da_dsntype a) @ keyword ''STORCLAS'' (da_storclass a) @ keyword ''DATACLAS'' (da_dataclass a) @
     keyword ''MGMTCLAS'' (da_mgntclass a) @ keyword ''VOL'' (da_vol a) @ keyword ''UNIT'' (da_unit a) @
     (if da_blksize a \<ge> 0 \<and> \<not> is_recfm_u then '' BLKSIZE('' @ show_int (da_blksize a) @ '')'' else []))"

definition zds_create_dsn :: "'w mvs \<Rightarrow> string \<Rightarrow> ds_attributes \<Rightarrow> 'w \<Rightarrow> (int \<times> string \<times> 'w) option" where
  "zds_create_dsn sys dsn attributes w = (case allocation_unit (da_alcunit attributes) of
     Inl response \<Rightarrow> Some (RTNCD_FAILURE, response, w)
   | Inr u \<Rightarrow> alloc_and_free sys (allocation_text dsn (default_attributes (attributes\<lparr>da_alcunit := u\<rparr>))) dsn w)"

definition library_attributes :: ds_attributes where
  "library_attributes = blank_ds_attributes\<lparr>da_dsorg := ''PO'', da_primary := 5, da_secondary := 5, da_alcunit := ''CYL'', da_dirblk := 5,
     da_dsntype := ''LIBRARY''\<rparr>"

definition zds_create_dsn_fb :: "'w mvs \<Rightarrow> string \<Rightarrow> 'w \<Rightarrow> (int \<times> string \<times> 'w) option" where
  "zds_create_dsn_fb sys dsn = zds_create_dsn sys dsn (library_attributes\<lparr>da_lrecl := 80, da_recfm := ''F,B''\<rparr>)"

definition zds_create_dsn_vb :: "'w mvs \<Rightarrow> string \<Rightarrow> 'w \<Rightarrow> (int \<times> string \<times> 'w) option" where
  "zds_create_dsn_vb sys dsn = zds_create_dsn sys dsn (library_attributes\<lparr>da_lrecl := 255, da_recfm := ''V,B''\<rparr>)"

definition zds_create_dsn_adata :: "'w mvs \<Rightarrow> string \<Rightarrow> 'w \<Rightarrow> (int \<times> string \<times> 'w) option" where
  "zds_create_dsn_adata sys dsn = zds_create_dsn sys dsn (library_attributes\<lparr>da_lrecl := 32756, da_blksize := 32760, da_recfm := ''V,B''\<rparr>)"

definition zds_create_dsn_loadlib :: "'w mvs \<Rightarrow> string \<Rightarrow> 'w \<Rightarrow> (int \<times> string \<times> 'w) option" where
  "zds_create_dsn_loadlib sys dsn = zds_create_dsn sys dsn (library_attributes\<lparr>da_lrecl := 0, da_blksize := 32760, da_recfm := ''U''\<rparr>)"

section \<open>Deleting and renaming\<close>

definition service_failed :: "string \<Rightarrow> int \<Rightarrow> string \<Rightarrow> zds_rec \<Rightarrow> zds_rec" where
  "service_failed name rc message z = z\<lparr>zd_diag := set_msg message ((zd_diag z)\<lparr>service_name := name, service_rc := rc, detail_rc := -2\<rparr>)\<rparr>"

definition zds_delete_dsn :: "'w mvs \<Rightarrow> string \<Rightarrow> zds_rec \<Rightarrow> 'w \<Rightarrow> int \<times> zds_rec \<times> 'w" where
  "zds_delete_dsn sys dsn z w = (case mvs_remove sys (dsn_path dsn) w of (rc, w) \<Rightarrow>
     if rc \<noteq> 0 then (RTNCD_FAILURE, service_failed ''remove'' rc
         (''Could not delete data set '' @ in_quotes (c_string (dsn_path dsn)) @ '', rc: '' @ in_quotes (show_int rc)) z, w)
     else (0, z, w))"

definition zds_rename_dsn :: "'w mvs \<Rightarrow> string \<Rightarrow> string \<Rightarrow> zds_rec \<Rightarrow> 'w \<Rightarrow> int \<times> zds_rec \<times> 'w" where
  "zds_rename_dsn sys dsn_before dsn_after z w =
     (if dsn_before = [] \<or> dsn_after = [] then (RTNCD_FAILURE, zds_message ''Data set names must be valid'' z, w)
      else if length dsn_after > 44 then (RTNCD_FAILURE, zds_message ''Target data set name exceeds max character length of 44'' z, w)
      else if \<not> zds_dataset_exists sys dsn_before w then
        (RTNCD_FAILURE, zds_message (''Source data set does not exist '' @ in_quotes (c_string dsn_before)) z, w)
      else if zds_dataset_exists sys dsn_after w then
        (RTNCD_FAILURE, zds_message (''Target data set name already exists '' @ in_quotes (c_string dsn_after)) z, w)
      else (case mvs_rename sys (dsn_path dsn_before) (dsn_path dsn_after) w of ((rc, err), w) \<Rightarrow>
        if rc \<noteq> 0 then (RTNCD_FAILURE, service_failed ''rename'' rc
            (''Could not rename data set '' @ in_quotes (c_string (dsn_path dsn_before)) @ '', errno: '' @ in_quotes (show_int err)) z, w)
        else (0, z, w)))"

definition zds_rename_members :: "'w mvs \<Rightarrow> string \<Rightarrow> string \<Rightarrow> string \<Rightarrow> zds_rec \<Rightarrow> 'w \<Rightarrow> int \<times> zds_rec \<times> 'w" where
  "zds_rename_members sys dsname member_before member_after z w =
     (if dsname = [] then (RTNCD_FAILURE, zds_message ''Data set name must be valid'' z, w)
      else if member_before = [] \<or> member_after = [] then (RTNCD_FAILURE, zds_message ''Member name cannot be empty'' z, w)
      else if \<not> zds_dataset_exists sys dsname w then (RTNCD_FAILURE, zds_message ''Data set does not exist'' z, w)
      else if \<not> zds_member_exists sys dsname member_before w then (RTNCD_FAILURE, zds_message ''Source member does not exist'' z, w)
      else if zds_member_exists sys dsname member_after w then (RTNCD_FAILURE, zds_message ''Target member already exists'' z, w)
      else if \<not> zds_is_valid_member_name member_after \<or> \<not> zds_is_valid_member_name member_before then
        (RTNCD_FAILURE, zds_message ''Member name must start with A-Z,#,@,$ and contain only A-Z,0-9,#,@,$ (max 8 chars)'' z, w)
      else (case mvs_rename sys (dsn_path (member_dsn dsname member_before)) (dsn_path (member_dsn dsname member_after)) w of ((rc, err), w) \<Rightarrow>
        if rc \<noteq> 0 then (RTNCD_FAILURE, service_failed ''rename_members'' rc
            (''Could not rename member '' @ in_quotes (c_string (dsn_path (member_dsn dsname member_before))) @ '', errno: '' @
              in_quotes (show_int err)) z, w)
        else (0, z, w)))"

section \<open>Types of data sets\<close>

datatype zds_type = ZDS_TYPE_UNKNOWN | ZDS_TYPE_PS | ZDS_TYPE_PDS | ZDS_TYPE_MEMBER | ZDS_TYPE_VSAM

record zds_type_info =
  ti_exists :: bool
  ti_type :: zds_type
  ti_base_dsn :: string
  ti_member_name :: string
  ti_entry :: zds_entry

text \<open>The return code of the list is not looked at: a list cut at its limit is taken for all members.\<close>

definition get_member_names :: "'w mvs \<Rightarrow> string \<Rightarrow> 'w \<Rightarrow> string list option" where
  "get_member_names sys pds_dsn w = map_option (\<lambda>(rc, d, ms). map (\<lambda>m. zut_trim '' '' (mem_name m)) ms)
     (zds_list_members (mvs_dir sys w) (mvs_date sys) 0 pds_dsn [] False blank_diag)"

definition member_exists_in_pds :: "'w mvs \<Rightarrow> string \<Rightarrow> string \<Rightarrow> 'w \<Rightarrow> bool option" where
  "member_exists_in_pds sys pds_dsn member w = map_option (\<lambda>names. member \<in> set names) (get_member_names sys pds_dsn w)"

definition zds_get_type_info :: "'w mvs \<Rightarrow> string \<Rightarrow> 'w \<Rightarrow> zds_type_info option" where
  "zds_get_type_info sys dsn w =
     (case split_dsn dsn of (base, member) \<Rightarrow>
        let info = \<lparr>ti_exists = False, ti_type = ZDS_TYPE_UNKNOWN, ti_base_dsn = base, ti_member_name = member, ti_entry = new_entry\<rparr> in
        if \<not> zds_dataset_exists sys base w then Some info
        else (case zds_list_data_sets (mvs_catalog sys w) 0 0 base True blank_diag of
            None \<Rightarrow> None
          | Some (rc, d, [e]) \<Rightarrow>
              if rc \<noteq> RTNCD_SUCCESS then Some info
              else (let info = info\<lparr>ti_exists := True, ti_entry := e\<rparr> in
                if en_dsorg e = ''PS'' then Some (info\<lparr>ti_type := ZDS_TYPE_PS\<rparr>)
                else if take 2 (en_dsorg e) = ''PO'' then
                  (if member \<noteq> [] then map_option (\<lambda>b. info\<lparr>ti_type := ZDS_TYPE_MEMBER, ti_exists := b\<rparr>) (member_exists_in_pds sys base member w)
                   else Some (info\<lparr>ti_type := ZDS_TYPE_PDS\<rparr>))
                else if en_dsorg e = ''VS'' then Some (info\<lparr>ti_type := ZDS_TYPE_VSAM\<rparr>)
                else Some info)
          | Some _ \<Rightarrow> Some info))"

section \<open>Copying\<close>

text \<open>The target is opened, and thus emptied, before the source is read.  The reads of 32760 bytes are written one by
  one.\<close>

function copy_chunks :: "'w mvs \<Rightarrow> string \<Rightarrow> string \<Rightarrow> 'w \<Rightarrow> bool \<times> 'w" where
  "copy_chunks sys path data w = (if data = [] then (True, w)
     else (let chunk = take 32760 data in case mvs_write sys path chunk w of (n, w) \<Rightarrow>
       if n \<noteq> length chunk then (False, w) else copy_chunks sys path (drop 32760 data) w))"
  by pat_completeness auto
termination
  by (relation "measure (\<lambda>(sys, path, data, w). length data)") auto

declare copy_chunks.simps [simp del]

definition copy_sequential :: "'w mvs \<Rightarrow> string \<Rightarrow> string \<Rightarrow> zds_rec \<Rightarrow> 'w \<Rightarrow> int \<times> zds_rec \<times> 'w" where
  "copy_sequential sys src_dsn dst_dsn z w =
     (if mvs_read sys (dsn_path src_dsn) ''rb'' w = None then
        (RTNCD_FAILURE, zds_message (''Could not open source '' @ in_quotes (c_string src_dsn)) z, w)
      else (case mvs_open_write sys (dsn_path dst_dsn) ''wb'' w of
        (False, w) \<Rightarrow> (RTNCD_FAILURE, zds_message (''Could not open target '' @ in_quotes (c_string dst_dsn)) z, w)
      | (True, w) \<Rightarrow> (case copy_chunks sys (dsn_path dst_dsn) (case mvs_read sys (dsn_path src_dsn) ''rb'' w of None \<Rightarrow> [] | Some s \<Rightarrow> s) w of
          (False, w) \<Rightarrow> (RTNCD_FAILURE, zds_message (''Write error copying to '' @ in_quotes (c_string dst_dsn)) z, w)
        | (True, w) \<Rightarrow> (RTNCD_SUCCESS, z, w))))"

fun copy_members :: "'w mvs \<Rightarrow> string \<Rightarrow> string \<Rightarrow> bool \<Rightarrow> string list \<Rightarrow> zds_rec \<Rightarrow> 'w \<Rightarrow> (int \<times> zds_rec \<times> 'w) option" where
  "copy_members sys src dst replace [] z w = Some (RTNCD_SUCCESS, z, w)"
| "copy_members sys src dst replace (m # ms) z w =
     (case (if replace then Some False else member_exists_in_pds sys dst m w) of
        None \<Rightarrow> None
      | Some True \<Rightarrow> copy_members sys src dst replace ms z w
      | Some False \<Rightarrow> (case copy_sequential sys (member_dsn src m) (member_dsn dst m) z w of (rc, z, w) \<Rightarrow>
          if rc \<noteq> RTNCD_SUCCESS then Some (rc, z, w) else copy_members sys src dst replace ms z w))"

definition copy_pds_to_pds :: "'w mvs \<Rightarrow> zds_type_info \<Rightarrow> zds_type_info \<Rightarrow> bool \<Rightarrow> zds_rec \<Rightarrow> 'w \<Rightarrow> (int \<times> zds_rec \<times> 'w) option" where
  "copy_pds_to_pds sys src dst replace z w = (case get_member_names sys (ti_base_dsn src) w of
     None \<Rightarrow> None | Some ms \<Rightarrow> copy_members sys (ti_base_dsn src) (ti_base_dsn dst) replace ms z w)"

fun delete_members :: "'w mvs \<Rightarrow> string \<Rightarrow> string list \<Rightarrow> zds_rec \<Rightarrow> 'w \<Rightarrow> int \<times> zds_rec \<times> 'w" where
  "delete_members sys pds_dsn [] z w = (RTNCD_SUCCESS, z, w)"
| "delete_members sys pds_dsn (m # ms) z w = (case zds_delete_dsn sys (member_dsn pds_dsn m) z w of (rc, z, w) \<Rightarrow>
     if rc \<noteq> RTNCD_SUCCESS then
       (RTNCD_FAILURE, zds_message (''Failed to delete member '' @ in_quotes (c_string (member_dsn pds_dsn m))) z, w)
     else delete_members sys pds_dsn ms z w)"

definition delete_all_members :: "'w mvs \<Rightarrow> string \<Rightarrow> zds_rec \<Rightarrow> 'w \<Rightarrow> (int \<times> zds_rec \<times> 'w) option" where
  "delete_all_members sys pds_dsn z w = (case get_member_names sys pds_dsn w of
     None \<Rightarrow> None | Some ms \<Rightarrow> Some (delete_members sys pds_dsn ms z w))"

record zds_copy_options =
  co_replace :: bool
  co_delete_target_members :: bool
  co_target_created :: bool
  co_member_created :: bool

definition int_max :: int where
  "int_max = 2147483647"

text \<open>The attributes of a new target: the space unit is cylinders or else tracks.\<close>

definition target_attributes :: "zds_type_info \<Rightarrow> ds_attributes" where
  "target_attributes info =
     (let e = ti_entry info;
          a = blank_ds_attributes\<lparr>da_recfm := c_string (en_recfm e), da_lrecl := en_lrecl e, da_blksize := en_blksize e,
            da_alcunit := (if en_spacu e = ''CYLINDERS'' \<or> en_spacu e = ''CYL'' then ''CYL'' else ''TRACKS'')\<rparr>;
          a = (if en_primary e \<ge> 0 \<and> en_secondary e \<ge> 0
            then a\<lparr>da_primary := min (en_primary e) int_max, da_secondary := min (en_secondary e) int_max\<rparr>
            else a\<lparr>da_primary := 1, da_secondary := 1\<rparr>)
      in if ti_type info = ZDS_TYPE_PDS \<or> ti_type info = ZDS_TYPE_MEMBER
         then a\<lparr>da_dsorg := ''PO'', da_dirblk := 5, da_dsntype := c_string (en_dsntype e)\<rparr>
         else a\<lparr>da_dsorg := ''PS''\<rparr>)"

text \<open>What the types of source and target forbid.\<close>

definition copy_forbidden :: "zds_type_info \<Rightarrow> zds_type_info \<Rightarrow> string option" where
  "copy_forbidden info1 info2 =
     (if \<not> ti_exists info1 then Some (''Source data set '' @ in_quotes (c_string (ti_base_dsn info1)) @ '' not found'')
      else if ti_type info1 = ZDS_TYPE_PDS \<and> ti_member_name info2 \<noteq> [] then
        Some ''Cannot copy entire PDS to a member. Target must be a PDS.''
      else if ti_type info1 = ZDS_TYPE_MEMBER \<and> ti_member_name info2 = [] then
        Some ''Cannot copy PDS member to a sequential data set. Target must specify a member name.''
      else if ti_type info1 = ZDS_TYPE_PS \<and> ti_member_name info2 \<noteq> [] then
        Some ''Cannot copy sequential data set to a PDS member. Target must be a sequential data set.''
      else if ti_type info1 = ZDS_TYPE_PDS \<and> ti_type info2 = ZDS_TYPE_PS then
        Some ''Cannot copy PDS to a sequential data set. Target must be a PDS.''
      else None)"

text \<open>The target is made when there is none; \<open>Inl\<close> is the message of a failure.\<close>

definition ensure_target :: "'w mvs \<Rightarrow> zds_type_info \<Rightarrow> zds_type_info \<Rightarrow> 'w \<Rightarrow> ((string + bool) \<times> 'w) option" where
  "ensure_target sys info1 info2 w =
     (if zds_dataset_exists sys (ti_base_dsn info2) w then Some (Inr False, w)
      else map_option (\<lambda>(rc, response, w).
          (if rc \<noteq> RTNCD_SUCCESS then Inl (''Failed to create target data set '' @ in_quotes (c_string (ti_base_dsn info2)) @ '': '' @
             take 127 (c_string response)) else Inr True, w))
        (zds_create_dsn sys (ti_base_dsn info2) (target_attributes info1) w))"

text \<open>A member or a sequential data set is copied.\<close>

definition copy_one :: "'w mvs \<Rightarrow> string \<Rightarrow> string \<Rightarrow> zds_type_info \<Rightarrow> zds_type_info \<Rightarrow> bool \<Rightarrow> zds_copy_options \<Rightarrow> zds_rec \<Rightarrow> 'w \<Rightarrow> int \<times> zds_copy_options \<times> zds_rec \<times> 'w" where
  "copy_one sys dsn1 dsn2 info1 info2 target_member_exists opts z w =
     (let target_is_member = (ti_member_name info2 \<noteq> []);
          same_pds = (ti_type info1 = ZDS_TYPE_MEMBER \<and> target_is_member \<and> ti_base_dsn info1 = ti_base_dsn info2) in
      case (if same_pds then copy_sequential sys (member_dsn (ti_base_dsn info1) (ti_member_name info1)) (member_dsn (ti_base_dsn info2) (ti_member_name info2)) z w
            else copy_sequential sys dsn1 dsn2 z w) of (rc, z, w) \<Rightarrow>
        (rc, if rc = RTNCD_SUCCESS \<and> target_is_member \<and> \<not> target_member_exists then opts\<lparr>co_member_created := True\<rparr> else opts, z, w))"

definition copy_all :: "'w mvs \<Rightarrow> zds_type_info \<Rightarrow> zds_type_info \<Rightarrow> bool \<Rightarrow> zds_copy_options \<Rightarrow> zds_rec \<Rightarrow> 'w \<Rightarrow> (int \<times> zds_copy_options \<times> zds_rec \<times> 'w) option" where
  "copy_all sys info1 info2 target_base_exists opts z w =
     (case (if co_delete_target_members opts \<and> target_base_exists then delete_all_members sys (ti_base_dsn info2) z w else Some (RTNCD_SUCCESS, z, w)) of
        None \<Rightarrow> None
      | Some (rc, z, w) \<Rightarrow> if rc \<noteq> RTNCD_SUCCESS then Some (rc, opts, z, w)
          else map_option (\<lambda>(rc, z, w). (rc, opts, z, w))
            (copy_pds_to_pds sys info1 info2 (co_replace opts \<or> co_delete_target_members opts) z w))"

definition target_taken :: "zds_type_info \<Rightarrow> bool \<Rightarrow> bool \<Rightarrow> bool" where
  "target_taken info2 target_member_exists target_base_exists = (if ti_member_name info2 \<noteq> [] then target_member_exists else target_base_exists)"

definition copy_to :: "'w mvs \<Rightarrow> string \<Rightarrow> string \<Rightarrow> zds_type_info \<Rightarrow> zds_type_info \<Rightarrow> bool \<Rightarrow> zds_copy_options \<Rightarrow> zds_rec \<Rightarrow> 'w \<Rightarrow> (int \<times> zds_copy_options \<times> zds_rec \<times> 'w) option" where
  "copy_to sys dsn1 dsn2 info1 info2 target_base_exists opts z w =
     (case (if ti_member_name info2 \<noteq> [] then member_exists_in_pds sys (ti_base_dsn info2) (ti_member_name info2) w else Some False) of
        None \<Rightarrow> None
      | Some target_member_exists \<Rightarrow>
        let is_pds_full_copy = (ti_type info1 = ZDS_TYPE_PDS \<and> ti_member_name info2 = []) in
        if \<not> co_replace opts \<and> \<not> is_pds_full_copy \<and> target_taken info2 target_member_exists target_base_exists then
          Some (RTNCD_FAILURE, opts, zds_message (''Target '' @ in_quotes (c_string dsn2) @ '' already exists. Use --replace to overwrite.'') z, w)
        else if is_pds_full_copy then copy_all sys info1 info2 target_base_exists opts z w
        else Some (copy_one sys dsn1 dsn2 info1 info2 target_member_exists opts z w))"

definition zds_copy_dsn :: "'w mvs \<Rightarrow> string \<Rightarrow> string \<Rightarrow> zds_copy_options \<Rightarrow> zds_rec \<Rightarrow> 'w \<Rightarrow> (int \<times> zds_copy_options \<times> zds_rec \<times> 'w) option" where
  "zds_copy_dsn sys dsn1 dsn2 options z w =
     (let opts = options\<lparr>co_target_created := False, co_member_created := False\<rparr> in
      case (zds_get_type_info sys dsn1 w, zds_get_type_info sys dsn2 w) of
        (Some info1, Some info2) \<Rightarrow>
          (case copy_forbidden info1 info2 of
             Some message \<Rightarrow> Some (RTNCD_FAILURE, opts, zds_message message z, w)
           | None \<Rightarrow> (case ensure_target sys info1 info2 w of
               None \<Rightarrow> None
             | Some (Inl message, w) \<Rightarrow> Some (RTNCD_FAILURE, opts, zds_message message z, w)
             | Some (Inr created, w) \<Rightarrow>
                 copy_to sys dsn1 dsn2 info1 info2 (\<not> created) (if created then opts\<lparr>co_target_created := True\<rparr> else opts) z w))
      | _ \<Rightarrow> None)"

section \<open>What copying keeps\<close>

text \<open>C4: Without the replace option a copy onto a member or a sequential data set that exists fails and leaves the system as
  it is.\<close>

theorem copy_keeps_existing_target:
  assumes "zds_get_type_info sys dsn1 w = Some info1" "zds_get_type_info sys dsn2 w = Some info2"
    "\<not> (ti_type info1 = ZDS_TYPE_PDS \<and> ti_member_name info2 = [])" "zds_dataset_exists sys (ti_base_dsn info2) w"
    "ti_member_name info2 \<noteq> [] \<Longrightarrow> member_exists_in_pds sys (ti_base_dsn info2) (ti_member_name info2) w = Some True"
    "\<not> co_replace opts"
  shows "\<exists>opts' z'. zds_copy_dsn sys dsn1 dsn2 opts z w = Some (RTNCD_FAILURE, opts', z', w)"
proof (cases "copy_forbidden info1 info2")
  case None
  have "ensure_target sys info1 info2 w = Some (Inr False, w)"
    using assms(4) by (simp add: ensure_target_def)
  moreover have "\<exists>opts' z'. copy_to sys dsn1 dsn2 info1 info2 True opts0 z w = Some (RTNCD_FAILURE, opts', z', w)" if "\<not> co_replace opts0" for opts0
    using assms(3,5) that by (auto simp: copy_to_def target_taken_def Let_def)
  ultimately show ?thesis
    using None assms(1,2,6) by (simp add: zds_copy_dsn_def Let_def)
next
  case (Some message)
  then show ?thesis
    using assms(1,2) by (simp add: zds_copy_dsn_def Let_def)
qed

text \<open>The members that are listed are the first 5000, whatever the list says.\<close>

lemma member_names_cut:
  assumes "mvs_dir sys w (dsn_path dsn) = DirBlocks bs" "list_all2 block_holds gs bs"
  shows "get_member_names sys dsn w = Some (take 5000 (map (\<lambda>e. zut_trim '' '' (de_name e)) (concat gs)))"
proof -
  let ?q = "\<lparr>q_convert = mvs_date sys, q_pattern = [], q_attributes = False, q_max = 5000\<rparr>"
  have q: "query_member ?q e = new_mem (de_name e)" for e
    by (simp add: query_member_def member_of_def)
  have f: "found ?q (concat gs) = map (\<lambda>e. new_mem (de_name e)) (concat gs)"
    by (simp add: found_def wanted_def q)
  have "scan_blocks ?q bs [] = Some (limited ?q (found ?q (concat gs)))"
    using scan_directory [OF assms(2), of "[]" ?q] by simp
  then show ?thesis
    using assms(1) by (auto simp: get_member_names_def zds_list_members_def Let_def limited_def f default_max_def
      ZDS_DEFAULT_MAX_MEMBER_ENTRIES_def new_mem_def take_map)
qed

text \<open>The directory of a library holds these members in every state.\<close>

definition library_of :: "'w mvs \<Rightarrow> string \<Rightarrow> ('w \<Rightarrow> string list) \<Rightarrow> bool" where
  "library_of sys dsn members \<longleftrightarrow> (\<forall>w. \<exists>bs gs. mvs_dir sys w (dsn_path dsn) = DirBlocks bs \<and> list_all2 block_holds gs bs \<and>
     members w = map (\<lambda>e. zut_trim '' '' (de_name e)) (concat gs))"

text \<open>What \<open>remove\<close> does with a member: it can be removed, and then it and no other member is gone.\<close>

definition removes_member :: "'w mvs \<Rightarrow> string \<Rightarrow> ('w \<Rightarrow> string list) \<Rightarrow> bool" where
  "removes_member sys dsn members \<longleftrightarrow> (\<forall>w. \<forall>m\<in>set (members w). case mvs_remove sys (dsn_path (member_dsn dsn m)) w of (rc, w') \<Rightarrow>
     rc = 0 \<and> set (members w') = set (members w) - {m})"

lemma library_names: "library_of sys dsn members \<Longrightarrow> get_member_names sys dsn w = Some (take 5000 (members w))"
  using member_names_cut unfolding library_of_def by metis

lemma delete_members_all:
  assumes "removes_member sys dsn members"
  shows "distinct ms \<Longrightarrow> set ms \<subseteq> set (members w) \<Longrightarrow>
    \<exists>w'. delete_members sys dsn ms z w = (RTNCD_SUCCESS, z, w') \<and> set (members w') = set (members w) - set ms"
proof (induction ms arbitrary: w)
  case (Cons m ms)
  obtain rc w1 where r: "mvs_remove sys (dsn_path (member_dsn dsn m)) w = (rc, w1)"
    by fastforce
  then have w1: "rc = 0" "set (members w1) = set (members w) - {m}"
    using bspec [OF spec [OF assms [unfolded removes_member_def], of w], of m] Cons.prems(2) by auto
  moreover from this obtain w' where "delete_members sys dsn ms z w1 = (RTNCD_SUCCESS, z, w')" "set (members w') = set (members w1) - set ms"
    using Cons.IH [of w1] Cons.prems by auto
  ultimately show ?case
    using r by (auto simp: zds_delete_dsn_def RTNCD_SUCCESS_def)
qed simp

text \<open>C6: A library of at most 5000 members that is copied onto itself with the option to delete the members of the target
  first has no members afterwards, and the copy reports success, on a system that removes a member when it is asked to.\<close>

theorem self_copy_loses_members:
  assumes "zds_get_type_info sys dsn w = Some info" "ti_exists info" "ti_type info = ZDS_TYPE_PDS" "ti_member_name info = []"
    "zds_dataset_exists sys (ti_base_dsn info) w" "co_delete_target_members opts"
    "library_of sys (ti_base_dsn info) members" "removes_member sys (ti_base_dsn info) members"
    "distinct (members w)" "length (members w) \<le> 5000"
  shows "\<exists>w'. zds_copy_dsn sys dsn dsn opts z w =
      Some (RTNCD_SUCCESS, opts\<lparr>co_target_created := False, co_member_created := False\<rparr>, z, w') \<and> members w' = []"
proof -
  obtain w' where d: "delete_members sys (ti_base_dsn info) (members w) z w = (RTNCD_SUCCESS, z, w')" "members w' = []"
    using delete_members_all [OF assms(8,9) order_refl, of z] by auto
  have "copy_forbidden info info = None"
    using assms(2-4) by (simp add: copy_forbidden_def)
  moreover have "ensure_target sys info info w = Some (Inr False, w)"
    using assms(5) by (simp add: ensure_target_def)
  moreover have "delete_all_members sys (ti_base_dsn info) z w = Some (RTNCD_SUCCESS, z, w')"
    using d(1) assms(10) library_names [OF assms(7)] by (simp add: delete_all_members_def)
  then have "copy_all sys info info True o' z w = Some (RTNCD_SUCCESS, o', z, w')" if "co_delete_target_members o'" for o'
    using that d(2) library_names [OF assms(7), of w'] by (simp add: copy_all_def copy_pds_to_pds_def)
  ultimately show ?thesis
    using assms(1,3,4,6) d(2) by (simp add: zds_copy_dsn_def copy_to_def Let_def)
qed



definition member_path :: "string \<Rightarrow> string \<Rightarrow> string" where
  "member_path dsn m = dsn_path (member_dsn dsn m)"








text \<open>A data set that is copied onto itself is opened, and thus emptied, before it is read: nothing is written back.\<close>

lemma self_copy_empties:
  assumes "mvs_read sys (dsn_path dsn) ''rb'' w \<noteq> None" "mvs_open_write sys (dsn_path dsn) ''wb'' w = (True, w1)"
    "mvs_read sys (dsn_path dsn) ''rb'' w1 = Some []"
  shows "copy_sequential sys dsn dsn z w = (RTNCD_SUCCESS, z, w1)"
  using assms by (auto simp: copy_sequential_def copy_chunks.simps)

text \<open>C7: A data set that was allocated in contiguous tracks is copied to a new one that is given as many tracks as the old one
  has bytes in its first extent.\<close>

theorem copied_bytes_become_tracks:
  assumes "space_request d = 2" "bit_set (ds1scalo d ! 0) 0x10" "\<not> bit_set (ds1dsorg d) 0x0008" "ds1noepv d > 0"
    "calculate_extent_tracks (ds1exnts d) = n" "n > 0" "uint (ds1blkl d ! 0) * 256 + uint (ds1blkl d ! 1) = blksize" "blksize > 0"
    "en_devtype e = 0x3390" "n * (max 1 (56664 div blksize) * blksize) < 2 ^ 31"
    "ti_entry info = zds_get_attrs_from_dscb (\<lambda>name volser. Some d) e"
  shows "da_alcunit (target_attributes info) = ''TRACKS'' \<and>
    da_primary (target_attributes info) = n * (max 1 (56664 div blksize) * blksize)"
proof -
  define g where "g = load_general_attrs_from_dscb d e"
  have g: "en_primary g = n" "en_spacu g = ''BYTES''" "en_blksize g = blksize" "en_devtype g = 0x3390" "en_secondary g \<ge> 0"
    using assms(1-9) by (simp_all add: g_def load_general_attrs_from_dscb_def load_primary_secondary_from_dscb_def load_spacu_from_dscb_def Let_def)
  have b: "block_bytes g = max 1 (56664 div blksize) * blksize"
    using g assms(8) by (simp add: block_bytes_def get_bytes_per_track_def Let_def max_def)
  define a where "a = load_alloc_attrs_from_dscb d g"
  have a: "en_primary a = n * block_bytes g" "en_spacu a = ''BYTES''" "en_secondary a \<ge> 0"
    using g assms(6,8) by (simp_all add: a_def load_alloc_attrs_from_dscb_def Let_def block_bytes_def)
  have keep: "en_primary (load_date_attrs_from_dscb d (load_used_attrs_from_dscb d x)) = en_primary x"
    "en_secondary (load_date_attrs_from_dscb d (load_used_attrs_from_dscb d x)) = en_secondary x"
    "en_spacu (load_date_attrs_from_dscb d (load_used_attrs_from_dscb d x)) = en_spacu x" for x
    by (simp_all add: load_date_attrs_from_dscb_def load_used_attrs_from_dscb_def Let_def)
  have i: "en_primary (ti_entry info) = n * block_bytes g" "en_spacu (ti_entry info) = ''BYTES''" "en_secondary (ti_entry info) \<ge> 0"
    using assms(11) a keep by (simp_all add: zds_get_attrs_from_dscb_def g_def a_def)
  have "0 \<le> n * block_bytes g" "n * block_bytes g \<le> int_max"
    using b assms(6,8,10) by (simp_all add: int_max_def)
  then show ?thesis
    using i b by (simp add: target_attributes_def Let_def)
qed

section \<open>A library in memory\<close>

text \<open>The data sets of the memory system without the loss of newlines; A.LIB and B.LIB are libraries with the members that
  there are files of.\<close>

definition lib_dscb :: dscb where
  "lib_dscb = \<lparr>ds1credt = [0, 0, 0], ds1expdt = [0, 0, 0], ds1noepv = 1, ds1flag1 = 0, ds1refd = [0, 0, 0], ds1smsfg = 0, ds1scext = [0, 0, 0],
     ds1dsorg = 0x0200, ds1recfm = 0x90, ds1blkl = [0x6B, 0xD0], ds1lrecl = [0, 80], ds1scalo = [0x90, 0, 0, 0], ds1lstar = [0, 0, 0], ds1ttthi = 0,
     ds1exnts = [1, 0, 0, 1, 0, 0, 0, 1, 0, 1] @ replicate 20 0\<rparr>"

definition lib_catalog :: catalog_services where
  "lib_catalog = \<lparr>cs_search = (\<lambda>k. [(0, \<lparr>ca_number_fields = 6, ca_flag = 0, ca_type = 0xF0,
       ca_entries = [\<lparr>ce_flag = 0x80, ce_type = CHR ''A'', ce_name = k, ce_field_lens = [0, 0, 0, 0, 0], ce_data = []\<rparr>], ca_resume = False\<rparr>)]),
     cs_dscb = (\<lambda>n v. Some lib_dscb), cs_symbol = (\<lambda>s. (8, [])), cs_storage = True\<rparr>"

definition lib_members :: "memory \<Rightarrow> string \<Rightarrow> string list" where
  "lib_members w p = filter (\<lambda>m. p = dsn_path ''A.LIB'' \<and> map_of w (member_path ''A.LIB'' m) \<noteq> None) [''M'', ''N'']"

definition lib_mvs :: "memory mvs" where
  "lib_mvs = memory_mvs\<lparr>mvs_read := (\<lambda>p f w. map_of w p), mvs_open_write := (\<lambda>p f w. (True, AList.update p [] w)),
     mvs_dir := (\<lambda>w p. DirBlocks [only_block (map plain_entry (lib_members w p))]), mvs_catalog := (\<lambda>w. lib_catalog)\<rparr>"

definition lib_memory :: memory where
  "lib_memory = [(dsn_path ''A.LIB'', []), (member_path ''A.LIB'' ''M'', ''one''), (member_path ''A.LIB'' ''N'', ''two'')]"

lemma lib_entries: "entry_ok (plain_entry ''M'')" "entry_ok (plain_entry ''N'')"
  by (rule plain_entry_ok; code_simp)+

lemma lib_names: "get_member_names lib_mvs dsn w = Some (lib_members w (dsn_path dsn))"
proof -
  have "list_all entry_ok (map plain_entry (lib_members w (dsn_path dsn)))"
    using lib_entries by (auto simp: lib_members_def)
  then have b: "list_all2 block_holds [map plain_entry (lib_members w (dsn_path dsn))] [only_block (map plain_entry (lib_members w (dsn_path dsn)))]"
    by (simp add: only_block_holds)
  have d: "mvs_dir lib_mvs w (dsn_path dsn) = DirBlocks [only_block (map plain_entry (lib_members w (dsn_path dsn)))]"
    by (simp add: lib_mvs_def)
  have t: "map (\<lambda>m. zut_trim '' '' (de_name (plain_entry m))) (lib_members w (dsn_path dsn)) = lib_members w (dsn_path dsn)"
  proof (rule map_idI)
    fix m assume "m \<in> set (lib_members w (dsn_path dsn))"
    then have "m = ''M'' \<or> m = ''N''"
      by (auto simp: lib_members_def split: if_splits)
    then show "zut_trim '' '' (de_name (plain_entry m)) = m"
      by (auto simp: plain_entry_def zut_trim_def zut_ltrim_def zut_rtrim_def)
  qed
  have "length (lib_members w (dsn_path dsn)) \<le> 2"
    by (simp add: lib_members_def)
  then show ?thesis
    using member_names_cut [OF d b] t by (simp add: comp_def)
qed

lemma lib_paths: "dsn_path ''A.LIB'' \<noteq> member_path ''A.LIB'' ''M''" "dsn_path ''A.LIB'' \<noteq> member_path ''A.LIB'' ''N''"
  "member_path ''A.LIB'' ''M'' \<noteq> member_path ''A.LIB'' ''N''"
  by (simp_all add: dsn_path_def member_path_def member_dsn_def)

lemma lib_contents: "lib_members lib_memory (dsn_path ''A.LIB'') = [''M'', ''N'']"
  using lib_paths by (simp add: lib_members_def lib_memory_def)

definition lib_info :: "string \<Rightarrow> zds_type_info" where
  "lib_info dsn = \<lparr>ti_exists = True, ti_type = ZDS_TYPE_PDS, ti_base_dsn = dsn, ti_member_name = [], ti_entry = new_entry\<rparr>"

lemma lib_library: "library_of lib_mvs ''A.LIB'' (\<lambda>w. lib_members w (dsn_path ''A.LIB''))"
  unfolding library_of_def
proof
  fix w :: memory
  have "list_all entry_ok (map plain_entry (lib_members w (dsn_path ''A.LIB'')))"
    using lib_entries by (auto simp: lib_members_def)
  then have "list_all2 block_holds [map plain_entry (lib_members w (dsn_path ''A.LIB''))] [only_block (map plain_entry (lib_members w (dsn_path ''A.LIB'')))]"
    by (simp add: only_block_holds)
  moreover have "map (\<lambda>m. zut_trim '' '' (de_name (plain_entry m))) (lib_members w (dsn_path ''A.LIB'')) = lib_members w (dsn_path ''A.LIB'')"
    by (rule map_idI) (auto simp: lib_members_def plain_entry_def zut_trim_def zut_ltrim_def zut_rtrim_def split: if_splits)
  ultimately show "\<exists>bs gs. mvs_dir lib_mvs w (dsn_path ''A.LIB'') = DirBlocks bs \<and> list_all2 block_holds gs bs \<and>
      lib_members w (dsn_path ''A.LIB'') = map (\<lambda>e. zut_trim '' '' (de_name e)) (concat gs)"
    by (intro exI [of _ "[only_block (map plain_entry (lib_members w (dsn_path ''A.LIB'')))]"]
        exI [of _ "[map plain_entry (lib_members w (dsn_path ''A.LIB''))]"]) (simp add: lib_mvs_def comp_def)
qed

lemma lib_removes: "removes_member lib_mvs ''A.LIB'' (\<lambda>w. lib_members w (dsn_path ''A.LIB''))"
  using lib_paths by (auto simp: removes_member_def lib_members_def lib_mvs_def memory_mvs_def member_path_def map_of_delete split: if_splits)




lemma lib_entry: "en_dsorg (load_entry lib_catalog True \<lparr>ce_flag = 0x80, ce_type = CHR ''A'', ce_name = ''A.LIB'', ce_field_lens = [0, 0, 0, 0, 0], ce_data = []\<rparr>) = ''PO''"
proof -
  have o': "load_dsorg_from_dscb lib_dscb [] = ''PO''"
    by code_simp
  have keep: "en_dsorg (load_date_attrs_from_dscb d e) = en_dsorg e" "en_dsorg (load_used_attrs_from_dscb d e) = en_dsorg e"
    "en_dsorg (load_alloc_attrs_from_dscb d e) = en_dsorg e" "en_dsorg (load_general_attrs_from_dscb d e) = load_dsorg_from_dscb d (en_dsorg e)" for d e
    by (simp_all add: load_date_attrs_from_dscb_def load_used_attrs_from_dscb_def load_alloc_attrs_from_dscb_def load_general_attrs_from_dscb_def
        load_primary_secondary_from_dscb_def Let_def)
  show ?thesis
    by (simp add: load_entry_def Let_def settle_volsers_def by_type_def load_volsers_from_catalog_def migrated_volser_def zds_get_attrs_from_dscb_def
        lib_catalog_def keep o' new_entry_def c_string_def nul_char_def)
qed

lemma lib_search: "zds_list_data_sets (mvs_catalog lib_mvs w) 0 0 ''A.LIB'' True blank_diag =
    Some (RTNCD_SUCCESS, blank_diag, [load_entry lib_catalog True \<lparr>ce_flag = 0x80, ce_type = CHR ''A'', ce_name = ''A.LIB'', ce_field_lens = [0, 0, 0, 0, 0], ce_data = []\<rparr>])"
proof -
  have u: "map to_upper ''A.LIB'' = ''A.LIB''" "known_type (CHR ''A'')" "CHR ''A'' \<noteq> nul_char"
    by code_simp+
  have b: "\<not> bit_set (0 :: byte) m" for m
    by (simp add: bit_set_def)
  show ?thesis
    using u b by (simp add: zds_list_data_sets_def lib_mvs_def lib_catalog_def default_max_def ZDS_DEFAULT_BUFFER_SIZE_def ZDS_DEFAULT_MAX_ENTRIES_def
        min_buffer_size_def CSIFIELD_SIZE_def CSI_FIELD_COUNT_def MAX_DS_LENGTH_def area_problem_def entry_problem_def Let_def)
qed

lemma lib_type_info:
  assumes "split_dsn dsn = (''A.LIB'', member)" "map_of w (dsn_path ''A.LIB'') \<noteq> None"
  shows "\<exists>info. zds_get_type_info lib_mvs dsn w = Some info \<and> ti_exists info = (member = [] \<or> member \<in> set (lib_members w (dsn_path ''A.LIB''))) \<and>
    ti_type info = (if member = [] then ZDS_TYPE_PDS else ZDS_TYPE_MEMBER) \<and> ti_base_dsn info = ''A.LIB'' \<and> ti_member_name info = member"
proof -
  have p: "before_paren ''A.LIB'' = ''A.LIB''"
    by code_simp
  then have "zds_dataset_exists lib_mvs ''A.LIB'' w"
    using assms(2) by (simp add: zds_dataset_exists_def lib_mvs_def)
  then show ?thesis
    using assms(1) lib_search [of w] lib_entry by (simp add: zds_get_type_info_def Let_def member_exists_in_pds_def lib_names)
qed

theorem copy_keeps_existing_target_witness:
  "\<exists>opts' z'. zds_copy_dsn lib_mvs ''a.lib(m)'' ''A.LIB(N)'' \<lparr>co_replace = False, co_delete_target_members = False, co_target_created = False,
     co_member_created = False\<rparr> blank_zds lib_memory = Some (RTNCD_FAILURE, opts', z', lib_memory)"
proof -
  have s: "split_dsn ''a.lib(m)'' = (''A.LIB'', ''M'')" "split_dsn ''A.LIB(N)'' = (''A.LIB'', ''N'')" "before_paren ''A.LIB'' = ''A.LIB''"
    by code_simp+
  have e: "map_of lib_memory (dsn_path ''A.LIB'') \<noteq> None"
    by (simp add: lib_memory_def)
  obtain i1 where i1: "zds_get_type_info lib_mvs ''a.lib(m)'' lib_memory = Some i1" "ti_type i1 = ZDS_TYPE_MEMBER"
    using lib_type_info [OF s(1) e] by auto
  obtain i2 where i2: "zds_get_type_info lib_mvs ''A.LIB(N)'' lib_memory = Some i2" "ti_base_dsn i2 = ''A.LIB''" "ti_member_name i2 = ''N''"
    using lib_type_info [OF s(2) e] by auto
  have x: "zds_dataset_exists lib_mvs (ti_base_dsn i2) lib_memory"
    using e i2(2) s(3) by (simp add: zds_dataset_exists_def lib_mvs_def)
  have y: "member_exists_in_pds lib_mvs (ti_base_dsn i2) (ti_member_name i2) lib_memory = Some True"
    using i2 lib_names lib_contents by (simp add: member_exists_in_pds_def)
  show ?thesis
    by (rule copy_keeps_existing_target [OF i1(1) i2(1) _ x y]) (simp_all add: i1(2))
qed

theorem self_copy_loses_members_witness:
  "\<exists>w'. zds_copy_dsn lib_mvs ''A.LIB'' ''A.LIB'' \<lparr>co_replace = False, co_delete_target_members = True, co_target_created = False,
     co_member_created = False\<rparr> blank_zds lib_memory =
   Some (RTNCD_SUCCESS, \<lparr>co_replace = False, co_delete_target_members = True, co_target_created = False, co_member_created = False\<rparr>,
     blank_zds, w') \<and> lib_members w' (dsn_path ''A.LIB'') = []"
proof -
  have s: "split_dsn ''A.LIB'' = (''A.LIB'', [])" "before_paren ''A.LIB'' = ''A.LIB''"
    by code_simp+
  have e: "map_of lib_memory (dsn_path ''A.LIB'') \<noteq> None"
    by (simp add: lib_memory_def)
  obtain i where i: "zds_get_type_info lib_mvs ''A.LIB'' lib_memory = Some i" "ti_exists i" "ti_type i = ZDS_TYPE_PDS" "ti_member_name i = []"
    "ti_base_dsn i = ''A.LIB''"
    using lib_type_info [OF s(1) e] by auto
  have x: "zds_dataset_exists lib_mvs (ti_base_dsn i) lib_memory"
    using e i(5) s(2) by (simp add: zds_dataset_exists_def lib_mvs_def)
  have l: "library_of lib_mvs (ti_base_dsn i) (\<lambda>w. lib_members w (dsn_path ''A.LIB''))"
    "removes_member lib_mvs (ti_base_dsn i) (\<lambda>w. lib_members w (dsn_path ''A.LIB''))"
    using lib_library lib_removes i(5) by simp_all
  show ?thesis
    using self_copy_loses_members [where opts = "\<lparr>co_replace = False, co_delete_target_members = True, co_target_created = False, co_member_created = False\<rparr>" and z = blank_zds, OF i(1-4) x _ l] lib_contents by simp
qed

theorem copied_bytes_become_tracks_witness:
  "da_alcunit (target_attributes (lib_info ''A''\<lparr>ti_entry := zds_get_attrs_from_dscb (\<lambda>n v. Some lib_dscb) (new_entry\<lparr>en_devtype := 0x3390\<rparr>)\<rparr>)) = ''TRACKS'' \<and>
   da_primary (target_attributes (lib_info ''A''\<lparr>ti_entry := zds_get_attrs_from_dscb (\<lambda>n v. Some lib_dscb) (new_entry\<lparr>en_devtype := 0x3390\<rparr>)\<rparr>)) = 2 * 55200"
proof -
  have c: "space_request lib_dscb = 2" "bit_set (ds1scalo lib_dscb ! 0) 0x10" "\<not> bit_set (ds1dsorg lib_dscb) 0x0008" "ds1noepv lib_dscb > 0"
    "calculate_extent_tracks (ds1exnts lib_dscb) = 2" "uint (ds1blkl lib_dscb ! 0) * 256 + uint (ds1blkl lib_dscb ! 1) = 27600"
    by code_simp+
  show ?thesis
    using copied_bytes_become_tracks [OF c(1-5) _ c(6), of "new_entry\<lparr>en_devtype := 0x3390\<rparr>"] by simp
qed

end
