(* ===== verification/ZdsStream.thy ===== *)
theory ZdsStream
  imports ZdsManage ZusfStore
begin

text \<open>
  Reading and writing data sets through a named pipe in Base64 (\<open>zds_read_streamed\<close>, \<open>zds_write_streamed\<close> and what
  they call), and the records of a VSAM data set (\<open>zds_read_vsam\<close>).  The pipe and the flush of a file are functions
  on the state; the pieces of a stream are those of \<open>zusf.cpp\<close>.
\<close>

record 'w pipes =
  pp_fifo :: "string \<Rightarrow> 'w \<Rightarrow> fifo_open"
  pp_flush :: "string \<Rightarrow> 'w \<Rightarrow> int \<times> 'w"

definition no_length_message :: string where
  "no_length_message = ''content_len must be a valid size_t pointer''"

section \<open>Reading\<close>

record ds_stream_read =
  dr_rc :: int
  dr_zds :: zds_rec
  dr_len :: nat
  dr_sent :: "byte list"

definition ds_read_failed :: "string \<Rightarrow> zds_rec \<Rightarrow> nat \<Rightarrow> byte list \<Rightarrow> ds_stream_read" where
  "ds_read_failed msg z len sent = \<lparr>dr_rc = RTNCD_FAILURE, dr_zds = zds_message msg z, dr_len = len, dr_sent = sent\<rparr>"

text \<open>Records with control characters are sent one by one, each but the first after a newline, and a newline last.\<close>

definition asa_pieces :: "string list \<Rightarrow> string list" where
  "asa_pieces records = (case map (zut_rtrim '' '') records of
     [] \<Rightarrow> [] | r # rs \<Rightarrow> r # map (\<lambda>r. newline # r) rs @ [[newline]])"

definition stream_pieces :: "'w mvs \<Rightarrow> zds_rec \<Rightarrow> string \<Rightarrow> dscb_attributes \<Rightarrow> 'w \<Rightarrow> string list option" where
  "stream_pieces sys z path a w =
     (if at_is_asa a \<and> data_type (zd_encoding z) \<noteq> eDataTypeBinary
      then map_option asa_pieces (mvs_records sys path (if at_lrecl a > 0 then at_lrecl a else 32760) w)
      else map_option (chunks_of (FIFO_CHUNK_SIZE * 3 div 4)) (mvs_read sys path (if data_type (zd_encoding z) = eDataTypeBinary then ''rb'' else ''r'') w))"

definition send_data_set :: "string list \<Rightarrow> string \<Rightarrow> string \<Rightarrow> ('s iconv \<times> 's) option \<Rightarrow> zds_rec \<Rightarrow> nat \<Rightarrow> ds_stream_read" where
  "send_data_set pieces cp src cd z content_len =
     (case send_chunks pieces cd [] (zd_diag z) content_len [] of
        (False, cd, left_over, d, len, sent) \<Rightarrow> ds_read_failed (zds_conversion_message cp src) (z\<lparr>zd_diag := d\<rparr>) len sent
      | (True, cd, left_over, d, len, sent) \<Rightarrow> (case finish_conversion cd d of
          Inl d \<Rightarrow> \<lparr>dr_rc = RTNCD_FAILURE, dr_zds = z\<lparr>zd_diag := d\<rparr>, dr_len = len, dr_sent = sent\<rparr>
        | Inr (flushed, d) \<Rightarrow>
          (case (if flushed \<noteq> [] then encode_chunk (Some left_over) (bytes_of flushed) else ([], Some left_over)) of (encoded, left_over) \<Rightarrow>
            \<lparr>dr_rc = RTNCD_SUCCESS, dr_zds = z\<lparr>zd_diag := d\<rparr>, dr_len = len + length flushed, dr_sent = sent @ encoded @ encode (the left_over)\<rparr>)))"

definition zds_read_streamed :: "'w mvs \<Rightarrow> 'w pipes \<Rightarrow> 's iconv_lib \<Rightarrow> zds_opts \<Rightarrow> string \<Rightarrow> nat option \<Rightarrow> zds_rec \<Rightarrow> 'w \<Rightarrow> ds_stream_read option" where
  "zds_read_streamed sys pp lib opts pipe content_len z w =
     (if no_target opts then Some (ds_read_failed no_target_message z 0 [])
      else (case content_len of
        None \<Rightarrow> Some (ds_read_failed no_length_message z 0 [])
      | Some len \<Rightarrow> (case zds_resolve_dscb sys opts w of
          None \<Rightarrow> None
        | Some a \<Rightarrow> Some (case stream_pieces sys z (zds_resolve_dsname opts) a w of
            None \<Rightarrow> ds_read_failed (''Could not open handle to '' @ (if op_ddname opts \<noteq> [] then ''DD'' else ''data set'') @ '' '' @
              in_quotes (c_string (zds_resolve_dsname opts))) z len []
          | Some pieces \<Rightarrow> (case pp_fifo pp (c_string pipe) w of
              FifoOpened _ \<Rightarrow>
                if zds_use_codepage z then
                  (case lib (zds_source_encoding z) (codepage (zd_encoding z)) of
                    None \<Rightarrow> ds_read_failed (converter_message (codepage (zd_encoding z)) (zds_source_encoding z)) z len []
                  | Some cd \<Rightarrow> send_data_set pieces (codepage (zd_encoding z)) (zds_source_encoding z) (Some cd) z len)
                else send_data_set pieces [] [] (None :: ('s iconv \<times> 's) option) z len
            | _ \<Rightarrow> ds_read_failed (''Could not open output pipe '' @ in_quotes (c_string pipe)) z len [])))))"

section \<open>Writing sequential data sets\<close>

text \<open>The search for truncated lines: the number of lines so far, the tracker and the line that is not complete.\<close>

record stream_scan =
  sc_line_num :: int
  sc_truncation :: truncation_tracker
  sc_buffer :: string

definition scan_piece :: "char \<Rightarrow> int \<Rightarrow> string \<Rightarrow> stream_scan \<Rightarrow> stream_scan" where
  "scan_piece nl max_len piece s = (case cut_lines nl (sc_buffer s @ piece) of (ls, r) \<Rightarrow>
     (case fold (scan_line max_len) ls (sc_line_num s, sc_truncation s) of (n, t) \<Rightarrow>
       \<lparr>sc_line_num = n, sc_truncation = t, sc_buffer = r\<rparr>))"

definition scan_rest :: "int \<Rightarrow> stream_scan \<Rightarrow> truncation_tracker" where
  "scan_rest max_len s = flush_range (if sc_buffer s \<noteq> []
     then snd (scan_line max_len (sc_buffer s) (sc_line_num s, sc_truncation s)) else sc_truncation s)"

definition new_scan :: stream_scan where
  "new_scan = \<lparr>sc_line_num = 0, sc_truncation = new_tracker, sc_buffer = []\<rparr>"

fun receive_pieces ::
  "'w mvs \<Rightarrow> string \<Rightarrow> (string \<Rightarrow> stream_scan \<Rightarrow> stream_scan) \<Rightarrow> string list \<Rightarrow> ('s iconv \<times> 's) option \<Rightarrow> byte list \<Rightarrow> zdiag \<Rightarrow> nat \<Rightarrow> stream_scan \<Rightarrow> 'w \<Rightarrow>
    receive_end \<times> ('s iconv \<times> 's) option \<times> zdiag \<times> nat \<times> stream_scan \<times> 'w" where
  "receive_pieces sys dsn scan [] cd left_over d len s w = (Received, cd, d, len, s, w)"
| "receive_pieces sys dsn scan (chunk # chunks) cd left_over d len s w = (case decode_chunk (Some left_over) (bytes_of chunk) of
     Inl e \<Rightarrow> (BadBase64 e, cd, d, len, s, w)
   | Inr (decoded, left_over') \<Rightarrow> (case convert_piece cd (string_of decoded) d of
       None \<Rightarrow> (NotConverted, cd, d, len + length decoded, s, w)
     | Some (out, cd', d') \<Rightarrow> (case mvs_write sys dsn out w of (n, w') \<Rightarrow>
         if n \<noteq> length out then (Truncated, cd', d', len + length decoded, scan out s, w')
         else receive_pieces sys dsn scan chunks cd' (the left_over') d' (len + length decoded) (scan out s) w')))"

text \<open>An exception, or the return code and the record; the length and the state in every case.\<close>

type_synonym 'w ds_stream_write = "(exn + int \<times> zds_rec) \<times> nat \<times> 'w"

definition ds_write_failed :: "string \<Rightarrow> zds_rec \<Rightarrow> nat \<Rightarrow> 'w \<Rightarrow> 'w ds_stream_write" where
  "ds_write_failed msg z len w = (Inr (RTNCD_FAILURE, zds_message msg z), len, w)"

definition short_name :: "string \<Rightarrow> string" where
  "short_name s = (let s = take 44 (c_string s) in replicate (44 - length s) (CHR '' '') @ s)"

definition receive_data_set ::
  "'w mvs \<Rightarrow> 'w pipes \<Rightarrow> string \<Rightarrow> string \<Rightarrow> dscb_attributes \<Rightarrow> encoding_setup \<Rightarrow> ('s iconv \<times> 's) option \<Rightarrow> nat \<Rightarrow> zds_rec \<Rightarrow> 'w \<Rightarrow> 'w ds_stream_write" where
  "receive_data_set sys pp dsn contents a es cd len z w =
     (let max_len = get_effective_lrecl_from_attrs a;
          scan = (if data_type (zd_encoding z) \<noteq> eDataTypeBinary \<and> at_lrecl a > 0 then scan_piece (es_newline es) max_len else (\<lambda>_ s. s)) in
      case receive_pieces sys dsn scan (chunks_of FIFO_CHUNK_SIZE contents) cd [] (zd_diag z) len new_scan w of
        (how, cd, d, len, s, w) \<Rightarrow>
          (case how of
             BadBase64 e \<Rightarrow> (Inl e, len, w)
           | NotConverted \<Rightarrow> ds_write_failed (zds_conversion_message (es_source es) (es_codepage es)) (z\<lparr>zd_diag := d\<rparr>) len w
           | _ \<Rightarrow> (case finish_conversion cd d of
               Inl d \<Rightarrow> (Inr (RTNCD_FAILURE, z\<lparr>zd_diag := d\<rparr>), len, w)
             | Inr (flushed, d) \<Rightarrow>
               (case (if flushed = [] then (0, w) else mvs_write sys dsn flushed w) of (n, w) \<Rightarrow>
                (case pp_flush pp dsn w of (e, w) \<Rightarrow>
                  if how = Truncated \<or> n \<noteq> length flushed \<or> e \<noteq> 0 then
                    ds_write_failed (''Failed to write to '' @ in_quotes (short_name dsn) @ '' (possibly out of space)'') (z\<lparr>zd_diag := d\<rparr>) len w
                  else (Inr (handle_truncation_result RTNCD_SUCCESS (scan_rest max_len s) (z\<lparr>zd_diag := d\<rparr>)), len, w))))))"

text \<open>The data set is opened, and emptied, before the pipe.\<close>

definition zds_write_sequential_streamed ::
  "'w mvs \<Rightarrow> 'w pipes \<Rightarrow> 's iconv_lib \<Rightarrow> string \<Rightarrow> string \<Rightarrow> nat \<Rightarrow> dscb_attributes \<Rightarrow> zds_rec \<Rightarrow> 'w \<Rightarrow> 'w ds_stream_write" where
  "zds_write_sequential_streamed sys pp lib dsn pipe len a z w =
     (case setup_encoding lib z of (es, z) \<Rightarrow>
      (case mvs_open_write sys dsn (write_flags z a) w of
        (False, w) \<Rightarrow> ds_write_failed (''Could not open dsn '' @ in_quotes (c_string dsn)) z len w
      | (True, w) \<Rightarrow> (case pp_fifo pp (c_string pipe) w of
          FifoFailed e \<Rightarrow> ds_write_failed (''open() failed on input pipe '' @ in_quotes (c_string pipe) @ '', errno '' @ show_int e) z len w
        | FifoNoStream \<Rightarrow> ds_write_failed (''Could not open input pipe '' @ in_quotes (c_string pipe)) z len w
        | FifoOpened contents \<Rightarrow>
            if \<not> es_has_encoding es then receive_data_set sys pp dsn contents a es (None :: ('s iconv \<times> 's) option) len z w
            else (case lib (es_codepage es) (es_source es) of
                None \<Rightarrow> ds_write_failed (converter_message (es_source es) (es_codepage es)) z len w
              | Some cd \<Rightarrow> receive_data_set sys pp dsn contents a es (Some cd) len z w))))"

section \<open>Writing members\<close>

text \<open>The last line is kept back, so that the bytes that end a shift state can go to it; here it is the only element of
  \<open>bl_lines\<close>.\<close>

type_synonym ('s, 'w) member_stream = "'s bpam_lines \<times> zds_rec \<times> 'w"

fun write_asa_overflow_records :: "'w mvs \<Rightarrow> nat \<Rightarrow> zds_rec \<Rightarrow> 'w \<Rightarrow> int \<times> zds_rec \<times> 'w" where
  "write_asa_overflow_records sys 0 z w = (RTNCD_SUCCESS, z, w)"
| "write_asa_overflow_records sys (Suc n) z w = (case zds_write_output_bpam sys ''-'' nul_char z w of (rc, z, w) \<Rightarrow>
     if rc \<noteq> RTNCD_SUCCESS then (rc, z, w) else write_asa_overflow_records sys n z w)"

definition write_previous :: "'w mvs \<Rightarrow> string \<Rightarrow> char \<Rightarrow> ('s, 'w) member_stream \<Rightarrow> (int \<times> zds_rec \<times> 'w) option + ('s, 'w) member_stream" where
  "write_previous sys line c x = (case x of (b, z, w) \<Rightarrow> (case bl_lines b of
     [] \<Rightarrow> Inr (b\<lparr>bl_lines := [(line, c)]\<rparr>, z, w)
   | (prev, prev_c) # _ \<Rightarrow> (case zds_write_output_bpam sys prev prev_c z w of (rc, z, w) \<Rightarrow>
       if rc \<noteq> RTNCD_SUCCESS then Inl (guarded_close sys rc z w) else Inr (b\<lparr>bl_lines := [(line, c)]\<rparr>, z, w))))"

definition convert_line :: "bool \<Rightarrow> encoding_setup \<Rightarrow> int \<Rightarrow> string \<Rightarrow> 's bpam_lines \<Rightarrow> zds_rec \<Rightarrow> zdiag + string \<times> 's bpam_lines \<times> zds_rec" where
  "convert_line is_asa es max_len line b z =
     bind_res (encode_line_if_needed es line (b\<lparr>bl_line_num := bl_line_num b + 1, bl_diag := zd_diag z\<rparr>)) (\<lambda>(line, b).
       Inr (line, b\<lparr>bl_truncation := (if int (length line) + (if is_asa then 1 else 0) > max_len
         then add_line (bl_line_num b) (bl_truncation b) else bl_truncation b)\<rparr>, z\<lparr>zd_diag := bl_diag b\<rparr>))"

definition overflow_or_close :: "'w mvs \<Rightarrow> nat \<Rightarrow> zds_rec \<Rightarrow> 'w \<Rightarrow> (int \<times> zds_rec \<times> 'w) option + zds_rec \<times> 'w" where
  "overflow_or_close sys n z w = (case write_asa_overflow_records sys n z w of (rc, z, w) \<Rightarrow>
     if rc \<noteq> RTNCD_SUCCESS then Inl (close_with sys rc z w) else Inr (z, w))"

definition convert_or_close :: "'w mvs \<Rightarrow> bool \<Rightarrow> encoding_setup \<Rightarrow> int \<Rightarrow> string \<Rightarrow> 's bpam_lines \<Rightarrow> zds_rec \<Rightarrow> 'w \<Rightarrow>
    (int \<times> zds_rec \<times> 'w) option + string \<times> 's bpam_lines \<times> zds_rec" where
  "convert_or_close sys is_asa es max_len line b z w = (case convert_line is_asa es max_len line b z of
     Inl d \<Rightarrow> Inl (close_with sys RTNCD_FAILURE (z\<lparr>zd_diag := d\<rparr>) w) | Inr r \<Rightarrow> Inr r)"

text \<open>A line of the loop: the records for blank lines are written at once, before the line that was kept back.\<close>

definition stream_line :: "'w mvs \<Rightarrow> bool \<Rightarrow> encoding_setup \<Rightarrow> int \<Rightarrow> string \<Rightarrow> ('s, 'w) member_stream \<Rightarrow>
    (int \<times> zds_rec \<times> 'w) option + ('s, 'w) member_stream" where
  "stream_line sys is_asa es max_len line x = (case x of (b, z, w) \<Rightarrow>
     if \<not> is_asa then
       bind_res (convert_or_close sys is_asa es max_len (strip_cr line) b z w) (\<lambda>(line, b, z). write_previous sys line nul_char (b, z, w))
     else (case prepare_line (strip_cr line) (bl_asa b) of
         (None, a) \<Rightarrow> Inr (b\<lparr>bl_asa := a\<rparr>, z, w)
       | (Some (n, c, line), a) \<Rightarrow> bind_res (overflow_or_close sys n z w) (\<lambda>(z, w).
           bind_res (convert_or_close sys is_asa es max_len line (b\<lparr>bl_asa := a\<rparr>) z w) (\<lambda>(line, b, z). write_previous sys line c (b, z, w)))))"

fun stream_lines :: "'w mvs \<Rightarrow> bool \<Rightarrow> encoding_setup \<Rightarrow> int \<Rightarrow> string list \<Rightarrow> ('s, 'w) member_stream \<Rightarrow>
    (int \<times> zds_rec \<times> 'w) option + ('s, 'w) member_stream" where
  "stream_lines sys is_asa es max_len [] x = Inr x"
| "stream_lines sys is_asa es max_len (line # ls) x = bind_res (stream_line sys is_asa es max_len line x) (stream_lines sys is_asa es max_len ls)"

text \<open>What follows the last newline: here the conversion comes first.\<close>

definition stream_trailing :: "'w mvs \<Rightarrow> bool \<Rightarrow> encoding_setup \<Rightarrow> int \<Rightarrow> string \<Rightarrow> ('s, 'w) member_stream \<Rightarrow>
    (int \<times> zds_rec \<times> 'w) option + ('s, 'w) member_stream" where
  "stream_trailing sys is_asa es max_len line x = (case x of (b, z, w) \<Rightarrow>
     if strip_cr line = [] then Inr x
     else if \<not> is_asa then stream_line sys is_asa es max_len line x
     else (case prepare_line (strip_cr line) (bl_asa b) of
         (None, a) \<Rightarrow> Inr (b\<lparr>bl_asa := a\<rparr>, z, w)
       | (Some (n, c, line), a) \<Rightarrow> bind_res (convert_or_close sys is_asa es max_len line (b\<lparr>bl_asa := a\<rparr>) z w) (\<lambda>(line, b, z).
           bind_res (overflow_or_close sys n z w) (\<lambda>(z, w). write_previous sys line c (b, z, w)))))"

type_synonym 'w member_write = "((exn + int \<times> zds_rec) \<times> nat \<times> 'w) option"

definition member_result :: "nat \<Rightarrow> (int \<times> zds_rec \<times> 'w) option \<Rightarrow> 'w member_write" where
  "member_result len r = map_option (\<lambda>(rc, z, w). (Inr (rc, z), len, w)) r"

text \<open>The pieces of the stream.  An exception of the Base64 decoder leaves the member open.\<close>

fun receive_lines :: "'w mvs \<Rightarrow> bool \<Rightarrow> encoding_setup \<Rightarrow> int \<Rightarrow> string list \<Rightarrow> byte list \<Rightarrow> nat \<Rightarrow> string \<Rightarrow> ('s, 'w) member_stream \<Rightarrow>
    'w member_write + nat \<times> string \<times> ('s, 'w) member_stream" where
  "receive_lines sys is_asa es max_len [] left_over len line_buffer x = Inr (len, line_buffer, x)"
| "receive_lines sys is_asa es max_len (chunk # chunks) left_over len line_buffer x =
     (case decode_chunk (Some left_over) (bytes_of chunk) of
        Inl e \<Rightarrow> Inl (Some (Inl e, len, snd (snd x)))
      | Inr (decoded, left_over) \<Rightarrow> (case cut_lines (es_newline es) (line_buffer @ string_of decoded) of (ls, r) \<Rightarrow>
          (case stream_lines sys is_asa es max_len ls x of
             Inl res \<Rightarrow> Inl (member_result (len + length decoded) res)
           | Inr x \<Rightarrow> receive_lines sys is_asa es max_len chunks (the left_over) (len + length decoded) r x)))"

definition close_member :: "'w mvs \<Rightarrow> ('s, 'w) member_stream \<Rightarrow> (int \<times> zds_rec \<times> 'w) option" where
  "close_member sys x = (case x of (b, z, w) \<Rightarrow> (case flush_encoding_state (b\<lparr>bl_diag := zd_diag z\<rparr>) of
     Inl d \<Rightarrow> close_with sys RTNCD_FAILURE (z\<lparr>zd_diag := d\<rparr>) w
   | Inr (flushed, b) \<Rightarrow> (let z = z\<lparr>zd_diag := bl_diag b\<rparr> in case bl_lines b of
       [] \<Rightarrow> close_and_report sys (flush_range (bl_truncation b)) z w
     | (line, c) # _ \<Rightarrow> (case zds_write_output_bpam sys (line @ flushed) c z w of (rc, z, w) \<Rightarrow>
         if rc \<noteq> RTNCD_SUCCESS then guarded_close sys rc z w else close_and_report sys (flush_range (bl_truncation b)) z w))))"

definition receive_member :: "'w mvs \<Rightarrow> dcb \<Rightarrow> encoding_setup \<Rightarrow> ('s iconv \<times> 's) option \<Rightarrow> string \<Rightarrow> nat \<Rightarrow> zds_rec \<Rightarrow> 'w \<Rightarrow> 'w member_write" where
  "receive_member sys b es conv contents len z w =
     (let is_asa = dcb_asa b; max_len = get_effective_lrecl b in
      case receive_lines sys is_asa es max_len (chunks_of FIFO_CHUNK_SIZE contents) [] len []
          (\<lparr>bl_asa = new_asa, bl_line_num = 0, bl_truncation = new_tracker, bl_conv = conv, bl_diag = zd_diag z, bl_lines = []\<rparr>, z, w) of
        Inl r \<Rightarrow> r
      | Inr (len, line_buffer, x) \<Rightarrow> member_result len
          (case (if line_buffer \<noteq> [] then stream_trailing sys is_asa es max_len line_buffer x else Inr x) of
             Inl r \<Rightarrow> r | Inr x \<Rightarrow> close_member sys x))"

definition zds_write_member_bpam_streamed :: "'w mvs \<Rightarrow> 'w pipes \<Rightarrow> 's iconv_lib \<Rightarrow> string \<Rightarrow> string \<Rightarrow> nat \<Rightarrow> zds_rec \<Rightarrow> 'w \<Rightarrow> 'w member_write" where
  "zds_write_member_bpam_streamed sys pp lib dsn pipe len z w =
     (case zds_open_output_bpam sys dsn z w of
        None \<Rightarrow> None
      | Some ((rc, None), z, w) \<Rightarrow> Some (Inr (rc, z), len, w)
      | Some ((rc, Some b), z, w) \<Rightarrow> (case pp_fifo pp (c_string pipe) w of
          FifoFailed e \<Rightarrow> member_result len (close_with sys RTNCD_FAILURE
            (zds_message (''open() failed on input pipe '' @ in_quotes (c_string pipe) @ '', errno '' @ show_int e) z) w)
        | FifoNoStream \<Rightarrow> member_result len (close_with sys RTNCD_FAILURE
            (zds_message (''Could not open input pipe '' @ in_quotes (c_string pipe)) z) w)
        | FifoOpened contents \<Rightarrow> (case setup_encoding lib z of (es, z) \<Rightarrow>
            if \<not> es_has_encoding es then receive_member sys b es (None :: ('s iconv \<times> 's) option) contents len z w
            else (case lib (es_codepage es) (es_source es) of
                None \<Rightarrow> member_result len (close_with sys RTNCD_FAILURE (zds_message (converter_message (es_source es) (es_codepage es)) z) w)
              | Some cd \<Rightarrow> receive_member sys b es (Some cd) contents len z w))))"

section \<open>Writing\<close>

definition write_target_streamed :: "'w mvs \<Rightarrow> 'w pipes \<Rightarrow> 's iconv_lib \<Rightarrow> zds_opts \<Rightarrow> string \<Rightarrow> nat \<Rightarrow> dscb_attributes \<Rightarrow> zds_rec \<Rightarrow> 'w \<Rightarrow> 'w member_write" where
  "write_target_streamed sys pp lib opts pipe len a z w =
     (if zds_has_member (op_dsname opts)
      then map_option (\<lambda>(r, len, w). (map_sum id (\<lambda>(rc, z). (rc, z\<lparr>zd_ddname := replicate 8 nul_char\<rparr>)) r, len, w))
        (zds_write_member_bpam_streamed sys pp lib (op_dsname opts) pipe len z w)
      else Some (zds_write_sequential_streamed sys pp lib (zds_resolve_write_target opts) pipe len a z w))"

definition zds_write_streamed :: "'w mvs \<Rightarrow> 'w pipes \<Rightarrow> 's iconv_lib \<Rightarrow> zds_opts \<Rightarrow> string \<Rightarrow> nat option \<Rightarrow> zds_rec \<Rightarrow> 'w \<Rightarrow> 'w member_write" where
  "zds_write_streamed sys pp lib opts pipe content_len z w =
     (if no_target opts then Some (ds_write_failed no_target_message z 0 w)
      else (case content_len of
        None \<Rightarrow> Some (ds_write_failed no_length_message z 0 w)
      | Some len \<Rightarrow>
        if op_ddname opts \<noteq> [] then Some (zds_write_sequential_streamed sys pp lib (zds_resolve_write_target opts) pipe len no_attributes z w)
        else if \<not> zds_dataset_exists sys (op_dsname opts) w then
          Some (ds_write_failed (''Could not access '' @ in_quotes (c_string (op_dsname opts))) z len w)
        else (case zds_get_dscb_attributes sys (op_dsname opts) w of
          None \<Rightarrow> None
        | Some a \<Rightarrow> (case write_refused sys (op_dsname opts) a z w of
            Some z \<Rightarrow> Some (Inr (RTNCD_FAILURE, z), len, w)
          | None \<Rightarrow> (case validate_etag_if_present sys lib (op_dsname opts) (zds_use_codepage z) z w of
              None \<Rightarrow> None
            | Some (rc, z) \<Rightarrow>
              if rc \<noteq> RTNCD_SUCCESS then Some (Inr (rc, z), len, w)
              else (case write_target_streamed sys pp lib opts pipe len a z w of
                None \<Rightarrow> None
              | Some (Inl e, len, w) \<Rightarrow> Some (Inl e, len, w)
              | Some (Inr (rc, z), len, w) \<Rightarrow>
                if rc = RTNCD_FAILURE then Some (Inr (rc, z), len, w)
                else member_result len (new_etag sys lib (op_dsname opts) rc z w)))))))"

section \<open>VSAM\<close>

text \<open>Opening, positioning, reading and closing; a record, the end of the data or a return code.\<close>

datatype vsam_record = VsamRecord string | VsamEnd | VsamFailed int

record vsam_services =
  vs_open :: int
  vs_point :: int
  vs_records :: "vsam_record list"
  vs_close :: int

text \<open>The records in the order they are read.  The limit is looked at after a record was read.\<close>

fun vsam_loop :: "int \<Rightarrow> int \<Rightarrow> vsam_record list \<Rightarrow> string \<Rightarrow> (int \<times> string) option" where
  "vsam_loop max_lines n [] response = None"
| "vsam_loop max_lines n (VsamEnd # rs) response = Some (RTNCD_SUCCESS, response)"
| "vsam_loop max_lines n (VsamFailed rc # rs) response = Some (rc, response)"
| "vsam_loop max_lines n (VsamRecord r # rs) response =
     (let response = response @ r @ [newline] in
      if n + 1 \<ge> max_lines then Some (RTNCD_SUCCESS, response) else vsam_loop max_lines (n + 1) rs response)"

definition zds_read_vsam :: "vsam_services \<Rightarrow> int \<Rightarrow> (int \<times> string) option" where
  "zds_read_vsam vs max_lines =
     (if vs_open vs \<noteq> RTNCD_SUCCESS then Some (vs_open vs, [])
      else if vs_point vs \<noteq> RTNCD_SUCCESS then Some (vs_point vs, [])
      else map_option (\<lambda>(rc, response). (if rc \<noteq> RTNCD_SUCCESS then rc else vs_close vs, response))
        (vsam_loop max_lines 0 (vs_records vs) []))"

section \<open>Streams and whole texts\<close>

lemma asa_pieces_text: "concat (asa_pieces records) = asa_text records"
proof -
  have "concat (map (\<lambda>x. newline # f x) rs) @ [newline] = newline # concat (map (\<lambda>r. f r @ [newline]) rs)" for f and rs :: "string list"
    by (induction rs) simp_all
  then show ?thesis
    by (cases records) (simp_all add: asa_pieces_def asa_text_def comp_def)
qed

lemma stream_pieces_contents:
  "read_contents sys z path a w = Some s \<Longrightarrow> \<exists>pieces. stream_pieces sys z path a w = Some pieces \<and> concat pieces = s"
  using asa_pieces_text by (auto simp: read_contents_def stream_pieces_def concat_chunks_of FIFO_CHUNK_SIZE_def split: if_splits)

text \<open>C9: What a streamed read without a code page sends through the pipe is the Base64 form of the text that a plain read answers, and
  the length is counted up by the length of that text.\<close>

theorem streamed_read_is_read:
  assumes "zds_read sys lib opts z w = Some (0, z', s)" "\<not> zds_use_codepage z" "pp_fifo pp (c_string pipe) w = FifoOpened t"
  shows "zds_read_streamed sys pp lib opts pipe (Some len) z w =
    Some \<lparr>dr_rc = RTNCD_SUCCESS, dr_zds = z, dr_len = len + length s, dr_sent = encode (bytes_of s)\<rparr>"
proof -
  have t: "\<not> no_target opts"
    using assms(1) by (auto simp: zds_read_def RTNCD_FAILURE_def)
  obtain a where a: "zds_resolve_dscb sys opts w = Some a"
    using assms(1) t by (cases "zds_resolve_dscb sys opts w") (simp_all add: zds_read_def)
  have r: "read_contents sys z (zds_resolve_dsname opts) a w = Some s"
    using assms(1,2) t a by (auto simp: zds_read_def RTNCD_FAILURE_def split: option.splits)
  obtain pieces where p: "stream_pieces sys z (zds_resolve_dsname opts) a w = Some pieces" "concat pieces = s"
    using stream_pieces_contents [OF r] by blast
  obtain left_over sent where c: "send_chunks pieces (None :: ('b iconv \<times> 'b) option) [] (zd_diag z) len [] =
      (True, None, left_over, zd_diag z, len + length s, sent)" "sent @ encode left_over = encode (bytes_of s)"
    using send_chunks_whole [OF p(2)] by blast
  have "send_data_set pieces [] [] (None :: ('b iconv \<times> 'b) option) z len =
      \<lparr>dr_rc = RTNCD_SUCCESS, dr_zds = z, dr_len = len + length s, dr_sent = encode (bytes_of s)\<rparr>"
    using c by (simp add: send_data_set_def finish_conversion_def)
  then show ?thesis
    using t a p(1) assms(2,3) by (simp add: zds_read_streamed_def)
qed

text \<open>How the lines of two texts join.\<close>

lemma cut_lines_append:
  "cut_lines nl (a @ b) = (case cut_lines nl a of (ls, r) \<Rightarrow> case cut_lines nl (r @ b) of (ls', r') \<Rightarrow> (ls @ ls', r'))"
proof (induction a)
  case Nil
  then show ?case
    by (simp split: prod.splits)
next
  case (Cons c a)
  obtain ls r where a: "cut_lines nl a = (ls, r)"
    by (cases "cut_lines nl a")
  show ?case
    using Cons a by (cases ls) (auto split: prod.splits list.splits)
qed

lemma cut_lines_rest: "cut_lines nl s = (ls, r) \<Longrightarrow> cut_lines nl r = ([], r)"
proof (induction s arbitrary: ls r)
  case (Cons c s)
  then show ?case
    by (auto split: if_splits prod.splits list.splits)
qed simp

text \<open>The pieces are searched as the whole text is.\<close>

definition scan_of :: "char \<Rightarrow> int \<Rightarrow> string \<Rightarrow> stream_scan" where
  "scan_of nl max_len s = (case cut_lines nl s of (ls, r) \<Rightarrow> (case fold (scan_line max_len) ls (0, new_tracker) of (n, t) \<Rightarrow>
     \<lparr>sc_line_num = n, sc_truncation = t, sc_buffer = r\<rparr>))"

lemma scan_piece_of: "scan_piece nl max_len b (scan_of nl max_len a) = scan_of nl max_len (a @ b)"
  by (simp add: scan_piece_def scan_of_def cut_lines_append [of nl a b] split: prod.splits)

lemma scan_pieces_of: "fold (scan_piece nl max_len) pieces (scan_of nl max_len a) = scan_of nl max_len (a @ concat pieces)"
  by (induction pieces arbitrary: a) (simp_all add: scan_piece_of)

text \<open>C10: However a text is cut into pieces, the search for truncated lines of the streamed write finds the lines that the search
  of the whole text finds.\<close>

theorem streamed_scan_is_whole:
  "scan_rest max_len (fold (scan_piece nl max_len) pieces new_scan) = scan_for_truncated_lines (concat pieces) max_len nl new_tracker"
proof -
  have "new_scan = scan_of nl max_len []"
    by (simp add: new_scan_def scan_of_def)
  then show ?thesis
    using scan_pieces_of [of nl max_len pieces "[]"]
    by (simp add: scan_rest_def scan_of_def scan_for_truncated_lines_def split: prod.splits)
qed

section \<open>Blank lines of a streamed member\<close>

text \<open>A service that notes the records of a member.\<close>

definition notes_records :: "string list mvs \<Rightarrow> bool" where
  "notes_records sys \<longleftrightarrow> (\<forall>dd rec d w. mvs_wbpam sys dd rec d w = (0, d, w @ [rec]))"

lemma notes_output: "notes_records sys \<Longrightarrow> zds_write_output_bpam sys l c z w = (0, z, w @ [if c \<noteq> nul_char then c # l else l])"
  by (simp add: zds_write_output_bpam_def notes_records_def Let_def)

lemma notes_overflow: "notes_records sys \<Longrightarrow> write_asa_overflow_records sys n z w = (RTNCD_SUCCESS, z, w @ replicate n ''-'')"
  by (induction n arbitrary: w) (simp_all add: notes_output RTNCD_SUCCESS_def replicate_append_same [symmetric])

lemma prepare_blank: "prepare_line [] a = (None, a\<lparr>blank_count := blank_count a + 1\<rparr>)"
  by (simp add: prepare_line_def process_line_internal_def)

lemma prepare_text:
  assumes "l \<noteq> []" "hd l \<noteq> FF_CHAR"
  shows "prepare_line l a = (Some (blank_count a div 3, fst (get_asa_char_and_reset False (a\<lparr>blank_count := blank_count a mod 3\<rparr>)), l),
    a\<lparr>blank_count := 0, is_first_line := False\<rparr>)"
  using assms by (simp add: prepare_line_def process_line_internal_def overflow_loop_exact get_asa_char_and_reset_def Let_def)

definition plain_line :: "string \<Rightarrow> bool" where
  "plain_line l \<longleftrightarrow> l \<noteq> [] \<and> hd l \<noteq> FF_CHAR \<and> last l \<noteq> CR_CHAR"

text \<open>C8: In the streamed write of a member with control characters, three blank lines between two lines of text become a record that is
  written before the first of the two, where the plain write has it between them.\<close>

theorem streamed_blank_lines_misplaced:
  assumes "notes_records sys" "bl_conv b = None" "bl_asa b = new_asa" "bl_lines b = []" "plain_line l" "plain_line m"
  shows "\<exists>b' z' b''. stream_lines sys True es max_len [l, [], [], [], m] (b, z, []) = Inr (b', z', [''-'', CHR '' '' # l]) \<and> bl_lines b' = [(m, CHR '' '')] \<and>
    bpam_loop True es max_len [l, [], [], [], m] b = Inr b'' \<and> map (\<lambda>(line, c). c # line) (bl_lines b'') = [CHR '' '' # l, ''-'', CHR '' '' # m]"
proof -
  let ?ls = "[l, [], [], [], m]"
  have l: "strip_cr l = l" "strip_cr m = m" "strip_cr [] = []" "l \<noteq> []" "hd l \<noteq> FF_CHAR" "m \<noteq> []" "hd m \<noteq> FF_CHAR" 
    using assms(5,6) by (auto simp: plain_line_def strip_cr_def)
  have blank: "CHR '' '' \<noteq> nul_char"
    by code_simp
  note steps = stream_line_def convert_or_close_def convert_line_def encode_line_if_needed_def overflow_or_close_def write_previous_def
    notes_overflow [OF assms(1)] notes_output [OF assms(1)] prepare_blank prepare_text [OF l(4,5)] prepare_text [OF l(6,7)] get_asa_char_and_reset_def
  have "\<exists>b' z'. stream_lines sys True es max_len ?ls (b, z, []) = Inr (b', z', [''-'', CHR '' '' # l]) \<and> bl_lines b' = [(m, CHR '' '')]"
    using assms(2-4) l blank by (simp add: steps new_asa_def RTNCD_SUCCESS_def)
  moreover obtain b'' where "bpam_loop True es max_len ?ls b = Inr b''" "bl_lines b'' = map as_line (asa_records (map strip_cr ?ls) new_asa)"
    using bpam_loop_asa [OF assms(2), of es max_len ?ls] assms(3,4) by fastforce
  moreover have "asa_records (map strip_cr ?ls) new_asa = [(CHR '' '', l), (CHR ''-'', []), (CHR '' '', m)]"
    using l by (simp add: prepare_blank prepare_text [OF l(4,5)] prepare_text [OF l(6,7)] get_asa_char_and_reset_def new_asa_def)
  ultimately show ?thesis
    by (auto simp: as_line_def)
qed

definition noting_mvs :: "string list mvs" where
  "noting_mvs = \<lparr>mvs_read = (\<lambda>p f w. None), mvs_records = (\<lambda>p n w. None), mvs_open_write = (\<lambda>p f w. (False, w)), mvs_write = (\<lambda>p t w. (0, w)),
     mvs_remove = (\<lambda>p w. (-1, w)), mvs_rename = (\<lambda>p q w. ((-1, 0), w)), mvs_dir = (\<lambda>w p. DirFailed 0 [] 0), mvs_catalog = (\<lambda>w. no_catalog),
     mvs_date = (\<lambda>b. (8, [])), mvs_dynalloc = (\<lambda>a b p w. (\<lparr>bpx_rc = 8, bpx_code = 0, bpx_text = [], bpx_ddname = [], bpx_dsname = []\<rparr>, w)),
     mvs_obpam = (\<lambda>dd d w. ((0, \<lparr>dcb_lrecl = 80, dcb_variable = False, dcb_asa = True\<rparr>), d, w)), mvs_wbpam = (\<lambda>dd r d w. (0, d, w @ [r])),
     mvs_cbpam = (\<lambda>dd d w. (0, d, w))\<rparr>"

theorem streamed_blank_lines_misplaced_witness:
  "\<exists>b' z'. stream_lines noting_mvs True plain_setup 79 [''one'', [], [], [], ''two''] (demo_lines, blank_zds, []) = Inr (b', z', [''-'', '' one''])"
proof -
  have "notes_records noting_mvs"
    by (simp add: notes_records_def noting_mvs_def)
  moreover have "plain_line ''one''" "plain_line ''two''"
    by code_simp+
  ultimately show ?thesis
    using streamed_blank_lines_misplaced [of noting_mvs demo_lines "''one''" "''two''" plain_setup 79 blank_zds] by (auto simp: demo_lines_def)
qed

theorem streamed_read_is_read_witness:
  "zds_read_streamed memory_mvs \<lparr>pp_fifo = (\<lambda>p w. FifoOpened []), pp_flush = (\<lambda>p w. (0, w))\<rparr> plain_iconv \<lparr>op_ddname = [], op_dsname = ''A.B''\<rparr> ''p'' (Some 0)
     blank_zds demo_memory =
   Some \<lparr>dr_rc = RTNCD_SUCCESS, dr_zds = blank_zds, dr_len = 3, dr_sent = encode (bytes_of (''x'' @ [newline] @ ''y''))\<rparr>"
proof -
  have r: "zds_read memory_mvs plain_iconv \<lparr>op_ddname = [], op_dsname = ''A.B''\<rparr> blank_zds demo_memory = Some (0, blank_zds, ''x'' @ [newline] @ ''y'')"
    using memory_read [OF _ demo_map, of blank_zds] by simp
  show ?thesis
    using streamed_read_is_read [OF r, of "\<lparr>pp_fifo = (\<lambda>p w. FifoOpened []), pp_flush = (\<lambda>p w. (0, w))\<rparr>" "''p''" "[]" 0] by simp
qed

text \<open>A limit of no lines still reads one record.\<close>

lemma vsam_reads_one: "vsam_loop 0 0 (VsamRecord r # rs) [] = Some (RTNCD_SUCCESS, r @ [newline])"
  by simp

end
