(* ===== verification/UssHandlers.thy ===== *)
theory UssHandlers
  imports Uss ZusfData ZusfList MapFs
begin

text \<open>
  The handlers of the USS commands that copy, list, view, write and delete files and run shell commands
  (\<open>commands/uss.cpp\<close>), on the operations of \<open>zusf.cpp\<close>.  A handler is \<open>None\<close> when an operation does not
  end, or where it reads past the end of a vector.
\<close>

type_synonym 'w partial_handler = "'w ctx \<Rightarrow> (outcome \<times> 'w ctx) option"

definition message_of :: "zusf_rec \<Rightarrow> string" where
  "message_of z = c_string (diag_msg (zu_diag z))"

definition double_quoted :: "string \<Rightarrow> string" where
  "double_quoted s = CHR 0x22 # s @ [CHR 0x22]"

section \<open>Copying and deleting\<close>

definition handle_uss_copy :: "'w posix \<Rightarrow> 'w handler" where
  "handle_uss_copy px c = (case io_get arg_get_string ''source-path'' (args c) of
     Inl e \<Rightarrow> (ThrewStd e, c)
   | Inr source_path \<Rightarrow> (case io_get arg_get_string ''destination-path'' (args c) of
       Inl e \<Rightarrow> (ThrewStd e, c)
     | Inr destination_path \<Rightarrow>
       (case zusf_copy_file_or_dir px source_path destination_path
           \<lparr>copy_recursive = io_get_bool_default ''recursive'' False (args c),
            copy_follow_symlinks = io_get_bool_default ''follow-symlinks'' False (args c),
            copy_preserve_attributes = io_get_bool_default ''preserve-attributes'' False (args c),
            copy_force = io_get_bool_default ''force'' False (args c)\<rparr> blank_zusf (world c) of (rc, z, w) \<Rightarrow>
         let c = c\<lparr>world := w\<rparr> in
         (Returned rc, if rc \<noteq> 0 then err_line (''  Details: '' @ message_of z)
            (err_line (''Error occurred while trying to copy '' @ double_quoted source_path @ '' to '' @ double_quoted destination_path) c)
          else c))))"

definition handle_uss_delete :: "'w posix \<Rightarrow> 'w partial_handler" where
  "handle_uss_delete px c = (let file_path = arg_string ''file-path'' [] c in
     map_option (\<lambda>(rc, z, w). let c = c\<lparr>world := w\<rparr> in
       if rc \<noteq> 0 then (Returned RTNCD_FAILURE,
         err_line (''Failed to delete USS item '' @ file_path @ '':'' @ [newline] @ '' '' @ message_of z) c)
       else (Returned rc, out_line (''USS item '' @ quoted file_path @ '' deleted'') c))
     (zusf_delete_uss_item px file_path (io_get_bool_default ''recursive'' False (args c)) blank_zusf (world c)))"

section \<open>Listing\<close>

text \<open>\<open>getline\<close> with a delimiter, until the stream is at its end.\<close>

fun getlines :: "char \<Rightarrow> string \<Rightarrow> string list" where
  "getlines d [] = []"
| "getlines d (c # s) = (if c = d then [] # getlines d s
     else (case getlines d s of [] \<Rightarrow> [[c]] | l # ls \<Rightarrow> (c # l) # ls))"

definition atoi :: "string \<Rightarrow> int" where
  "atoi s = to_int (fst (strtol10 (c_string s)))"

text \<open>The object of a line of the long format, none when a field is missing.\<close>

definition long_entry :: "string \<Rightarrow> ast option" where
  "long_entry line = (case getlines (CHR '','') line of
     mode # links # user # grp # size_ # tag # date # name # _ \<Rightarrow>
       Some (AObject [(''mode'', Some (AString mode)), (''links'', Some (AInteger (atoi links))), (''user'', Some (AString user)),
         (''group'', Some (AString grp)), (''size'', Some (AInteger (atoi size_))), (''filetag'', Some (AString tag)),
         (''mtime'', Some (AString date)), (''name'', Some (AString name))])
   | _ \<Rightarrow> None)"

definition list_entry :: "bool \<Rightarrow> string \<Rightarrow> ast option" where
  "list_entry long line = (if long then long_entry line else Some (AObject [(''name'', Some (AString line))]))"

fun list_entries :: "bool \<Rightarrow> string list \<Rightarrow> ast list option" where
  "list_entries long [] = Some []"
| "list_entries long (line # ls) = (if line = [] then list_entries long ls
     else (case list_entry long line of None \<Rightarrow> None | Some e \<Rightarrow> map_option ((#) e) (list_entries long ls)))"

definition list_object :: "ast list \<Rightarrow> ast" where
  "list_object entries = AObject [(''items'', Some (AArray (map Some entries))), (''returnedRows'', Some (AInteger (int (length entries))))]"

definition uss_list_options :: "'w ctx \<Rightarrow> list_options" where
  "uss_list_options c = \<lparr>all_files = io_get_bool_default ''all'' False (args c), long_format = io_get_bool_default ''long'' False (args c),
     max_depth = to_int (arg_int ''depth'' 1 c)\<rparr>"

definition handle_uss_list :: "'w posix \<Rightarrow> 'w partial_handler" where
  "handle_uss_list px c = (let uss_file = arg_string ''file-path'' [] c; opts = uss_list_options c;
       use_csv_format = io_get_bool_default ''response-format-csv'' False (args c) in
     case zusf_list_uss_file_path px uss_file opts use_csv_format blank_zusf (world c) of (rc, z, response) \<Rightarrow>
       if rc \<noteq> 0 then Some (Returned RTNCD_FAILURE,
         err_line response (err_line (''  Details:'' @ [newline] @ message_of z)
           (err_line (''Error: could not list USS files: '' @ quoted uss_file @ '' rc: '' @ quoted (show_int rc)) c)))
       else (let c = c\<lparr>output_stream := output_stream c @ response\<rparr> in
         if use_csv_format then
           map_option (\<lambda>entries. (Returned rc, set_object (Some (list_object entries)) c))
             (list_entries (long_format opts) (getlines newline response))
         else Some (Returned rc, c)))"

section \<open>Reading and writing\<close>

text \<open>The encodings of a request; one that does not fit its field is ignored.\<close>

definition request_encoding :: "'w ctx \<Rightarrow> zusf_rec" where
  "request_encoding c =
     (let z = (if io_has ''encoding'' (args c)
          then (case zut_prepare_encoding (arg_string ''encoding'' [] c) (zu_encoding blank_zusf) of
             None \<Rightarrow> blank_zusf | Some opts \<Rightarrow> blank_zusf\<lparr>zu_encoding := opts\<rparr>)
          else blank_zusf);
        local = arg_string ''local-encoding'' [] c in
      if io_has ''local-encoding'' (args c) \<and> local \<noteq> [] \<and> length local < 16
      then z\<lparr>zu_encoding := (zu_encoding z)\<lparr>source_codepage := c_string local\<rparr>\<rparr> else z)"

text \<open>The lines that a request shows only when its output is not redirected.\<close>

definition show_unless :: "bool \<Rightarrow> string \<Rightarrow> 'w ctx \<Rightarrow> 'w ctx" where
  "show_unless redirecting s c = (if redirecting then c else c\<lparr>output_stream := output_stream c @ s\<rparr>)"

definition etag_entry :: "'w ctx \<Rightarrow> stat_info \<Rightarrow> (string \<times> ast option) list" where
  "etag_entry c st = (if io_get_bool_default ''return-etag'' False (args c) then [(''etag'', Some (AString (etag_of st)))] else [])"

text \<open>The streamed view: the size is reported while the file is read, which may throw; what was sent goes to
  the pipe.\<close>

definition view_streamed ::
  "'w posix \<Rightarrow> 's iconv_lib \<Rightarrow> 'w env \<Rightarrow> (string \<Rightarrow> byte list \<Rightarrow> 'w \<Rightarrow> 'w) \<Rightarrow> bool \<Rightarrow> string \<Rightarrow> string \<Rightarrow> stat_info \<Rightarrow> 'w handler" where
  "view_streamed px lib e send redirecting uss_file pipe st c =
     (let r = zusf_read_from_uss_file_streamed px lib uss_file pipe (Some 0) (request_encoding c) (world c) in
      case (case read_announced r of None \<Rightarrow> (None, c) | Some len \<Rightarrow> set_content_len e (unat len) c) of
        (Some err, c) \<Rightarrow> (ThrewStd err, c)
      | (None, c) \<Rightarrow>
        let c = c\<lparr>world := send pipe (read_sent r) (world c)\<rparr>;
            c = (if io_get_bool_default ''return-etag'' False (args c) then show_unless redirecting (''etag: '' @ etag_of st @ [newline]) c else c);
            c = show_unless redirecting (''size: '' @ show_int (int (read_len r)) @ [newline]) c in
        (Returned (read_rc r), set_object (Some (AObject (etag_entry c st @ [(''contentLen'', Some (AInteger (int (read_len r))))]))) c))"

definition view_whole :: "'w posix \<Rightarrow> 's iconv_lib \<Rightarrow> bool \<Rightarrow> string \<Rightarrow> stat_info \<Rightarrow> 'w handler" where
  "view_whole px lib redirecting uss_file st c =
     (case zusf_read_from_uss_file px lib uss_file [] (request_encoding c) (world c) of (rc, z, response) \<Rightarrow>
       if rc \<noteq> 0 then (Returned RTNCD_FAILURE,
         err_line response (err_line (''  Details:'' @ [newline] @ message_of z)
           (err_line (''Error: could not view USS file: '' @ quoted uss_file @ '' rc: '' @ quoted (show_int rc)) c)))
       else
         (let c = (if io_get_bool_default ''return-etag'' False (args c)
              then show_unless redirecting (''etag: '' @ etag_of st @ [newline] @ ''data: '') c else c);
            shown = (if io_has ''encoding'' (args c) \<and> io_get_bool_default ''response-format-bytes'' False (args c)
              then zut_print_string_as_bytes response else response) in
          (Returned rc, set_object (Some (AObject (etag_entry c st))) (c\<lparr>output_stream := output_stream c @ shown\<rparr>))))"

definition handle_uss_view ::
  "'w posix \<Rightarrow> 's iconv_lib \<Rightarrow> 'w env \<Rightarrow> (string \<Rightarrow> byte list \<Rightarrow> 'w \<Rightarrow> 'w) \<Rightarrow> bool \<Rightarrow> 'w handler" where
  "handle_uss_view px lib e send redirecting c =
     (let uss_file = arg_string ''file-path'' [] c; pipe = arg_string ''pipe-path'' [] c in
      case sys_stat px uss_file (world c) of
        Inl _ \<Rightarrow> (Returned RTNCD_FAILURE, err_line (''Error: Path '' @ uss_file @ '' does not exist'') c)
      | Inr st \<Rightarrow>
        if io_has ''pipe-path'' (args c) \<and> pipe \<noteq> [] then view_streamed px lib e send redirecting uss_file pipe st c
        else view_whole px lib redirecting uss_file st c)"

text \<open>The etag of a request is copied into a field of 16 bytes, whatever its length: \<open>None\<close> when it does not
  fit.\<close>

definition request_etag :: "'w ctx \<Rightarrow> zusf_rec \<Rightarrow> zusf_rec option" where
  "request_etag c z = (let etag_value = arg_string ''etag'' [] c in
     if io_has ''etag'' (args c) \<and> etag_value \<noteq> [] then
       (if length (c_string etag_value) < 16 then Some (z\<lparr>zu_etag := c_string etag_value\<rparr>) else None)
     else Some z)"

definition write_reported :: "string \<Rightarrow> nat option \<Rightarrow> int \<Rightarrow> zusf_rec \<Rightarrow> 'w handler" where
  "write_reported path streamed rc z c = (let content_len = (case streamed of None \<Rightarrow> 0 | Some n \<Rightarrow> n) in
     if rc \<noteq> 0 then (Returned RTNCD_FAILURE, err_line (''  Details: '' @ message_of z)
         (err_line (''Error: could not write to USS file: '' @ quoted path @ '' rc: '' @ quoted (show_int rc)) c))
     else (let c = (if io_get_bool_default ''etag-only'' False (args c)
            then (let c = out_line (''created: '' @ (if zu_created z then ''true'' else ''false'')) (out_line (''etag: '' @ zu_etag z) c) in
              if content_len > 0 then out_line (''size: '' @ show_int (int content_len)) c else c)
            else out_line (''Wrote data to '' @ quoted path @ (if zu_created z then '' (created new file)'' else '' (overwrote existing)'')) c) in
       (Returned rc, set_object (Some (AObject
         ((case streamed of None \<Rightarrow> [] | Some n \<Rightarrow> [(''contentLen'', Some (AInteger (int n)))]) @
          [(''created'', Some (ABoolean (zu_created z))), (''etag'', Some (AString (zu_etag z)))]))) c)))"

definition handle_uss_write ::
  "'w posix \<Rightarrow> 's iconv_lib \<Rightarrow> (int \<times> string) list \<Rightarrow> bool \<Rightarrow> 'w partial_handler" where
  "handle_uss_write px lib tbl is_a_tty c =
     (let path = arg_string ''file-path'' [] c; pipe = arg_string ''pipe-path'' [] c in
      case request_etag c (request_encoding c) of
        None \<Rightarrow> None
      | Some z \<Rightarrow>
        if io_has ''pipe-path'' (args c) \<and> pipe \<noteq> [] then
          map_option (\<lambda>(r, n, w). let c = c\<lparr>world := w\<rparr> in
              case r of Inl err \<Rightarrow> (ThrewStd err, c) | Inr (rc, z) \<Rightarrow> write_reported path (Some n) rc z c)
            (zusf_write_to_uss_file_streamed px lib tbl path pipe (Some 0) z (world c))
        else
          map_option (\<lambda>(rc, z, w). write_reported path None rc z (c\<lparr>world := w\<rparr>))
            (zusf_write_to_uss_file px lib tbl path (zut_read_input is_a_tty (input_stream c)) z (world c)))"

section \<open>Shell commands\<close>

definition handle_uss_issue_cmd ::
  "run_answers \<Rightarrow> string list \<Rightarrow> bool \<Rightarrow> string option \<Rightarrow> nat list \<Rightarrow> 'w partial_handler" where
  "handle_uss_issue_cmd a environ has_shell env_shell fds c =
     map_option (\<lambda>r. let c = (if run_rc r \<noteq> 0 then
           (let c = err_line (''Error running command, rc '' @ quoted (show_int (run_rc r))) c in
            if stderr_response r \<noteq> [] then err_line (''  Details: '' @ stderr_response r) c else c) else c) in
         (Returned (run_rc r), out_line (stdout_response r) c))
       (zut_spawn_shell_command a environ has_shell env_shell (arg_string ''command'' [] c) fds)"

section \<open>The rows of a listing\<close>

lemma separators: "newline \<noteq> CHR '',''" "nul_char \<noteq> CHR ''-''" "\<not> c_space (CHR ''-'')" "newline \<noteq> CHR '' ''" "newline \<noteq> CHR ''b''"
  by code_simp+

lemma getlines_split_commas: "s \<noteq> [] \<Longrightarrow> last s \<noteq> CHR '','' \<Longrightarrow> getlines (CHR '','') s = split_commas s"
proof (induction s)
  case (Cons c s)
  have "split_commas s \<noteq> []"
    by (cases s) auto
  then show ?case
    using Cons by (cases "s = []") (auto split: list.splits)
qed simp

lemma getlines_line: "d \<notin> set l \<Longrightarrow> getlines d (l @ d # s) = l # getlines d s"
  by (induction l) auto

lemma getlines_lines: "list_all (\<lambda>l. d \<notin> set l) ls \<Longrightarrow> getlines d (concat (map (\<lambda>l. l @ [d]) ls)) = ls"
  by (induction ls) (simp_all add: getlines_line)

lemma trim_id: "CHR '' '' \<notin> set s \<Longrightarrow> zut_trim '' '' s = s"
proof -
  assume *: "CHR '' '' \<notin> set s"
  then have "dropWhile (\<lambda>c. c \<in> set '' '') (rev s) = rev s" "dropWhile (\<lambda>c. c \<in> set '' '') s = s"
    by (metis dropWhile_eq_self_iff empty_iff empty_set hd_in_set set_ConsD set_rev)+
  then show "zut_trim '' '' s = s"
    by (simp add: zut_trim_def zut_ltrim_def zut_rtrim_def)
qed

lemma show_nat_digits: "list_all is_digit (show_nat n)"
  using read_show_nat [of n "[]"] by (intro read_decimal_digits [of 0 _ "int n"]) simp

lemma show_int_chars: "set (show_int i) \<subseteq> insert (CHR ''-'') {c. is_digit c}"
  using show_nat_digits by (auto simp: show_int_def list_all_iff)

lemma trim_show_int [simp]: "zut_trim '' '' (show_int i) = show_int i"
  using show_int_chars [of i] by (intro trim_id) (auto simp: is_digit_def code_def)

lemma c_string_show_int [simp]: "c_string (show_int i) = show_int i"
proof -
  have "x \<noteq> nul_char" if "x \<in> set (show_int i)" for x
  proof -
    have "x = CHR ''-'' \<or> is_digit x"
      using that show_int_chars [of i] by blast
    then show ?thesis
      using digit_chars(4) [of x] separators(2) by blast
  qed
  then show ?thesis
    unfolding c_string_def by (intro takeWhile_eq_all_conv [THEN iffD2]) blast
qed

lemma strtol_number:
  assumes "is_digit d" "read_decimal 0 (d # ds) = (v, r)"
  shows "fst (strtol10 (d # ds)) = min LONG_MAX v" "fst (strtol10 (CHR ''-'' # d # ds)) = max LONG_MIN (- v)"
proof -
  have "dropWhile c_space (d # ds) = d # ds" "dropWhile c_space (CHR ''-'' # d # ds) = CHR ''-'' # d # ds"
    using digit_chars(1) [OF assms(1)] separators(3) by simp_all
  then show "fst (strtol10 (d # ds)) = min LONG_MAX v" "fst (strtol10 (CHR ''-'' # d # ds)) = max LONG_MIN (- v)"
    unfolding strtol10_def Let_def using digit_chars [OF assms(1)] assms by (simp_all del: read_decimal.simps)
qed

lemma strtol_show_int:
  assumes "LONG_MIN \<le> i" "i \<le> LONG_MAX"
  shows "fst (strtol10 (show_int i)) = i"
proof -
  obtain d ds where n: "show_nat (nat \<bar>i\<bar>) = d # ds" "is_digit d"
    using show_nat_digits [of "nat \<bar>i\<bar>"] show_nat_nonempty [of "nat \<bar>i\<bar>"] by (cases "show_nat (nat \<bar>i\<bar>)") auto
  have "read_decimal 0 (d # ds) = (\<bar>i\<bar>, [])"
    using read_show_nat [of "nat \<bar>i\<bar>" "[]"] n(1) by simp
  then show ?thesis
    using assms n strtol_number [OF n(2)] by (cases "i < 0") (simp_all add: show_int_def)
qed

lemma atoi_show_int: "LONG_MIN \<le> i \<Longrightarrow> i \<le> LONG_MAX \<Longrightarrow> atoi (show_int i) = to_int i"
  by (simp add: atoi_def strtol_show_int)

text \<open>The object that a row stands for.\<close>

definition row_object :: "'w posix \<Rightarrow> stat_info \<Rightarrow> string \<Rightarrow> ast" where
  "row_object px st name = AObject [(''mode'', Some (AString (zut_trim '' '' (zusf_build_mode_string st)))),
     (''links'', Some (AInteger (to_int (st_nlink st)))),
     (''user'', Some (AString (zut_trim '' '' (zusf_get_owner_from_uid px (st_uid st))))),
     (''group'', Some (AString (zut_trim '' '' (zusf_get_group_from_gid px (st_gid st))))),
     (''size'', Some (AInteger (to_int (sint (st_size st))))),
     (''filetag'', Some (AString (zut_trim '' '' (ccsid_display_name (uint (st_ccsid st)))))),
     (''mtime'', Some (AString (zut_trim '' '' (zusf_format_ls_time px (st_mtime st) True)))),
     (''name'', Some (AString (zut_trim '' '' name)))]"

definition plain_row :: "'w posix \<Rightarrow> stat_info \<Rightarrow> string \<Rightarrow> bool" where
  "plain_row px st name \<longleftrightarrow> list_all (\<lambda>f. CHR '','' \<notin> set f \<and> newline \<notin> set f) (csv_entry px st name) \<and>
     zut_trim '' '' name \<noteq> [] \<and> 0 \<le> st_nlink st \<and> st_nlink st \<le> LONG_MAX"

definition csv_rows :: "'w posix \<Rightarrow> (stat_info \<times> string) list \<Rightarrow> string" where
  "csv_rows px rows = concat (map (\<lambda>(st, name). zut_format_as_csv (csv_entry px st name) @ [newline]) rows)"

lemma csv_chars: "set (zut_format_as_csv fs) \<subseteq> insert (CHR '','') (\<Union> (set (map set fs)))"
proof (induction fs rule: zut_format_as_csv.induct)
  case (2 f)
  then show ?case
    using trim_subset [of "'' ''" f] by auto
next
  case (3 f g fs)
  then show ?case
    using trim_subset [of "'' ''" f] by auto
qed simp

lemma csv_last: "fs \<noteq> [] \<Longrightarrow> zut_trim '' '' (last fs) \<noteq> [] \<Longrightarrow>
    zut_format_as_csv fs \<noteq> [] \<and> last (zut_format_as_csv fs) = last (zut_trim '' '' (last fs))"
  by (induction fs rule: zut_format_as_csv.induct) auto

lemma csv_entry_last: "csv_entry px st name \<noteq> []" "last (csv_entry px st name) = name"
  by (simp_all add: csv_entry_def)

lemma row_fields:
  assumes "plain_row px st name"
  shows "getlines (CHR '','') (zut_format_as_csv (csv_entry px st name)) = map (zut_trim '' '') (csv_entry px st name)"
proof -
  have p: "list_all (\<lambda>f. CHR '','' \<notin> set f) (csv_entry px st name)" "zut_trim '' '' name \<noteq> []"
    using assms unfolding plain_row_def list_all_iff by blast+
  have "CHR '','' \<notin> set (last (csv_entry px st name))"
    using bspec [OF p(1) [unfolded list_all_iff] last_in_set [OF csv_entry_last(1)]] .
  moreover have "last (zut_trim '' '' name) \<in> set name"
    using subsetD [OF trim_subset last_in_set [OF p(2)]] .
  ultimately have "last (zut_trim '' '' name) \<noteq> CHR '',''"
    unfolding csv_entry_last by metis
  then show ?thesis
    using csv_last [OF csv_entry_last(1) [of px st name]] p(2) csv_fields [OF csv_entry_last(1) p(1)]
    unfolding csv_entry_last by (simp add: getlines_split_commas)
qed

lemma long_row:
  assumes "plain_row px st name"
  shows "long_entry (zut_format_as_csv (csv_entry px st name)) = Some (row_object px st name)"
proof -
  have size: "LONG_MIN \<le> sint (st_size st)" "sint (st_size st) \<le> LONG_MAX"
    using sint_greater_eq [of "st_size st"] sint_lt [of "st_size st"] by (simp_all add: LONG_MIN_def LONG_MAX_def)
  have "0 \<le> st_nlink st" "st_nlink st \<le> LONG_MAX" "LONG_MIN \<le> st_nlink st"
    using assms by (auto simp: plain_row_def LONG_MIN_def)
  then show ?thesis
    unfolding long_entry_def row_fields [OF assms] using size by (simp add: csv_entry_def row_object_def atoi_show_int)
qed

lemma row_line:
  assumes "plain_row px st name"
  shows "newline \<notin> set (zut_format_as_csv (csv_entry px st name))" "zut_format_as_csv (csv_entry px st name) \<noteq> []"
proof -
  show "zut_format_as_csv (csv_entry px st name) \<noteq> []"
    using assms csv_last [OF csv_entry_last(1) [of px st name]] unfolding csv_entry_last by (simp add: plain_row_def)
  have "list_all (\<lambda>f. newline \<notin> set f) (csv_entry px st name)"
    using assms by (simp add: plain_row_def list_all_iff)
  then show "newline \<notin> set (zut_format_as_csv (csv_entry px st name))"
    using csv_chars [of "csv_entry px st name"] separators(1) by (auto simp: list_all_iff)
qed

lemma rows_parsed:
  "list_all (\<lambda>(st, name). plain_row px st name) rows \<Longrightarrow>
   list_entries True (getlines newline (csv_rows px rows)) = Some (map (\<lambda>(st, name). row_object px st name) rows)"
  by (induction rows) (auto simp: csv_rows_def getlines_line row_line list_entry_def long_row)

lemma csv_rows_append: "csv_rows px (rows @ rows') = csv_rows px rows @ csv_rows px rows'"
  by (simp add: csv_rows_def)

lemma entry_is_row: "long_format opts \<Longrightarrow> zusf_format_file_entry px st name opts True = csv_rows px [(st, name)]"
  by (simp add: zusf_format_file_entry_def csv_rows_def)

lemma children_rows:
  "long_format opts \<Longrightarrow> format_children px dir opts True names (csv_rows px rows) z w = (0, z', response) \<Longrightarrow>
   \<exists>more. response = csv_rows px (rows @ more) \<and> map snd more = names"
proof (induction names arbitrary: rows)
  case (Cons name names)
  then obtain child where "sys_lstat px (zusf_join_path dir name) w = Inr child"
    by (auto simp: RTNCD_FAILURE_def split: sum.splits)
  then obtain more where "response = csv_rows px ((rows @ [(child, name)]) @ more)" "map snd more = names"
    using Cons.IH [of "rows @ [(child, name)]"] Cons.prems by (auto simp: entry_is_row csv_rows_append)
  then show ?case
    by (intro exI [of _ "(child, name) # more"]) simp
qed simp

lemma dots_rows: "long_format opts \<Longrightarrow> \<exists>rows. dot_entries px dir st opts True w = csv_rows px rows"
  unfolding dot_entries_def
  by (cases "all_files opts"; cases "sys_stat px (parent_path dir) w")
    (auto simp: entry_is_row csv_rows_append [symmetric] intro: exI [of _ "[]"], auto simp: csv_rows_def intro: exI [of _ "[]"])

lemma response_is_rows:
  assumes "zusf_list_uss_file_path px path opts True z w = (0, z', response)" "long_format opts"
  shows "\<exists>rows. response = csv_rows px rows"
proof -
  note list = assms(1) [unfolded zusf_list_uss_file_path_def Let_def]
  obtain st where st: "sys_stat px path w = Inr st" and valid: "zusf_is_valid_path path"
    using list by (auto simp: RTNCD_FAILURE_def split: if_splits sum.splits)
  obtain dots where dots: "dot_entries px path st opts True w = csv_rows px dots"
    using dots_rows [OF assms(2)] by metis
  show ?thesis
  proof (cases "st_type st = FtRegular \<or> max_depth opts = 0 \<and> is_dir st")
    case True
    then have "response = csv_rows px [(st, basename path)]"
      using list by (auto simp: st valid entry_is_row [OF assms(2)] split: if_splits)
    then show ?thesis
      by blast
  next
    case False
    then obtain names where "format_children px path opts True names (csv_rows px dots) z w = (0, z', response)"
      using list by (auto simp: st valid dots RTNCD_FAILURE_def split: if_splits option.splits)
    from children_rows [OF assms(2) this] show ?thesis
      by metis
  qed
qed

lemma csv_snoc: "fs \<noteq> [] \<Longrightarrow> zut_format_as_csv (fs @ [f]) = zut_format_as_csv fs @ '','' @ zut_trim '' '' f"
  by (induction fs rule: zut_format_as_csv.induct) (auto simp: neq_Nil_conv)

lemma csv_entry_snoc: "\<exists>fs. \<forall>name. fs \<noteq> [] \<and> csv_entry px st name = fs @ [name]"
  unfolding csv_entry_def by (intro exI allI) auto

lemma broken_row:
  assumes "CHR '' '' \<notin> set a" "CHR '' '' \<notin> set b"
  shows "zut_format_as_csv (csv_entry px st (a @ newline # b)) = zut_format_as_csv (csv_entry px st a) @ newline # b"
proof -
  obtain fs where "fs \<noteq> []" and fs: "csv_entry px st name = fs @ [name]" for name
    using csv_entry_snoc [of px st] by metis
  moreover have "zut_trim '' '' (a @ newline # b) = a @ newline # b"
    using assms separators(4) by (intro trim_id) auto
  ultimately show ?thesis
    using trim_id [OF assms(1)] by (simp add: csv_snoc)
qed

text \<open>A file name with a newline breaks its row in two: the second one has no eight fields, and the handler
  reads past the end of the field vector.\<close>

theorem newline_name_overruns:
  assumes "plain_row px st a" "CHR '' '' \<notin> set (a @ b)" "b \<noteq> []" "newline \<notin> set b" "CHR '','' \<notin> set b"
  shows "list_entries True (getlines newline (csv_rows px [(st, a @ newline # b)])) = None"
proof -
  have "csv_rows px [(st, a @ newline # b)] = zut_format_as_csv (csv_entry px st a) @ newline # b @ newline # []"
    using broken_row [of a b px st] assms(2) by (simp add: csv_rows_def)
  then have "getlines newline (csv_rows px [(st, a @ newline # b)]) = [zut_format_as_csv (csv_entry px st a), b]"
    using row_line(1) [OF assms(1)] assms(4) by (simp add: getlines_line)
  moreover have "long_entry b = None"
    using getlines_split_commas [of b] split_commas_single [OF assms(5)] last_in_set [OF assms(3)] assms(3,5)
    by (cases "last b = CHR '',''") (simp_all add: long_entry_def)
  ultimately show ?thesis
    using row_line(2) [OF assms(1)] assms(3) by (simp add: list_entry_def long_row [OF assms(1)])
qed

text \<open>The response of a long listing is one row per entry; when no field of a row has a comma or a newline, the
  object that the handler returns has the fields of every entry, with sizes cut to 32 bits.\<close>

theorem listing_reports_rows:
  assumes "zusf_list_uss_file_path px (arg_string ''file-path'' [] c) (uss_list_options c) True blank_zusf (world c) = (0, z, response)"
    "long_format (uss_list_options c)" "io_get_bool_default ''response-format-csv'' False (args c)"
  shows "\<exists>rows. response = csv_rows px rows \<and> (list_all (\<lambda>(st, name). plain_row px st name) rows \<longrightarrow>
    handle_uss_list px c = Some (Returned 0, c\<lparr>output_stream := output_stream c @ response,
      object_node := Some (list_object (map (\<lambda>(st, name). row_object px st name) rows))\<rparr>))"
proof -
  obtain rows where "response = csv_rows px rows"
    using response_is_rows [OF assms(1,2)] by blast
  then show ?thesis
    using assms rows_parsed [of px rows] by (intro exI [of _ rows]) (simp add: handle_uss_list_def Let_def set_object_def)
qed

text \<open>A refusal of the deletion.\<close>

lemma refusal_reported:
  assumes "zusf_delete_uss_item px p r blank_zusf (world c) = Some (zusf_fail msg blank_zusf (world c))" "nul_char \<notin> set msg"
    "p = arg_string ''file-path'' [] c" "r = io_get_bool_default ''recursive'' False (args c)"
  shows "handle_uss_delete px c = Some (Returned RTNCD_FAILURE, err_line (''Failed to delete USS item '' @ p @ '':'' @ [newline] @ '' '' @ msg) c)"
proof -
  have "c_string msg = msg"
    using assms(2) unfolding c_string_def by (intro takeWhile_eq_all_conv [THEN iffD2]) auto
  then show ?thesis
    using assms(1,3,4) by (simp add: handle_uss_delete_def Let_def zusf_fail_def message_of_def set_msg_def RTNCD_FAILURE_def)
qed

lemma nul_code: "nul_char = CHR 0x00"
  by code_simp

lemma c_string_no_nul: "nul_char \<notin> set (c_string s)"
  using set_takeWhileD by (fastforce simp: c_string_def)

text \<open>The recursive option matters for directories only.\<close>

lemma delete_ignores_option:
  assumes "open_tree px view" "view w p = Some k" "k = FtDirectory \<longrightarrow> r"
  shows "zusf_delete_uss_item px p r z w = zusf_delete_uss_item px p (view w p = Some FtDirectory) z w"
proof (cases "k = FtDirectory")
  case False
  have tree: "posix_tree px view"
    using assms(1) by (simp add: open_tree_def)
  obtain st where "sys_lstat px p w = Inr st" "\<not> is_dir st"
    using open_tree.lstat_ok [OF assms(1,2)] posix_tree.view_lstat [OF tree assms(2)] posix_tree.c_string_view [OF tree assms(2)] False
    by (auto simp: sys_lstat_def is_dir_def)
  then have "zusf_delete_uss_item px p b z w = Some (delete_entry px p False z w)" for b
    by (subst zusf_delete_uss_item.simps) simp
  then show ?thesis
    by simp
qed (use assms in simp)

text \<open>C28: The delete handler, on a system that refuses nothing.  A path without an entry is reported as missing, and a directory
  without the recursive option as refused: the handler fails, the message is on the error stream, and nothing is changed.  In every other case
  it returns 0 with its message and removes exactly the tree below the path.  The path names an entry
  of the tree, or it has no status.\<close>

theorem delete_handler_deletes:
  assumes "open_tree px view" "finite (dom (view (world c)))" "p = arg_string ''file-path'' [] c"
    "view (world c) p \<noteq> None \<or> (\<exists>e. sys_lstat px p (world c) = Inl e \<and> view (world c) p = None)"
  shows "case handle_uss_delete px c of None \<Rightarrow> False | Some (r, c') \<Rightarrow>
    (if view (world c) p = None then r = Returned RTNCD_FAILURE \<and>
       c' = err_line (''Failed to delete USS item '' @ p @ '':'' @ [newline] @ '' '' @ missing_path p) c
     else if view (world c) p = Some FtDirectory \<and> \<not> io_get_bool_default ''recursive'' False (args c) then r = Returned RTNCD_FAILURE \<and>
       c' = err_line (''Failed to delete USS item '' @ p @ '':'' @ [newline] @ '' '' @ ''Path '' @ quoted_path p @ '' is a directory and recursive was false'') c
     else r = Returned 0 \<and> output_stream c' = output_stream c @ ''USS item '' @ quoted p @ '' deleted'' @ [newline] \<and>
       error_stream c' = error_stream c \<and> (\<forall>q. view (world c') q = (if below p q then None else view (world c) q)))"
proof -
  have tree: "posix_tree px view"
    using assms(1) by (simp add: open_tree_def)
  define rec where "rec = io_get_bool_default ''recursive'' False (args c)"
  consider "view (world c) p = None" | "view (world c) p = Some FtDirectory" "\<not> rec"
    | k where "view (world c) p = Some k" "k = FtDirectory \<longrightarrow> rec"
    by (cases "view (world c) p") auto
  then show ?thesis
  proof cases
    case 1
    then have "zusf_delete_uss_item px p rec blank_zusf (world c) = Some (zusf_fail (missing_path p) blank_zusf (world c))"
      using assms(4) by (subst zusf_delete_uss_item.simps) auto
    moreover have "nul_char \<notin> set (missing_path p)"
      using c_string_no_nul [of p] by (simp add: missing_path_def quoted_path_def in_quotes_def nul_code)
    ultimately show ?thesis
      using refusal_reported [of px p rec c] assms(3) 1 by (simp add: rec_def)
  next
    case 2
    obtain st where "sys_lstat px p (world c) = Inr st" "is_dir st"
      using open_tree.lstat_ok [OF assms(1) 2(1)] posix_tree.view_lstat [OF tree 2(1)] posix_tree.c_string_view [OF tree 2(1)]
      by (auto simp: sys_lstat_def is_dir_def)
    then have "zusf_delete_uss_item px p rec blank_zusf (world c) =
        Some (zusf_fail (''Path '' @ quoted_path p @ '' is a directory and recursive was false'') blank_zusf (world c))"
      using 2(2) by (subst zusf_delete_uss_item.simps) simp
    moreover have "nul_char \<notin> set (''Path '' @ quoted_path p @ '' is a directory and recursive was false'')"
      using c_string_no_nul [of p] by (simp add: quoted_path_def in_quotes_def nul_code)
    ultimately show ?thesis
      using refusal_reported [of px p rec c] assms(3) 2 by (simp add: rec_def)
  next
    case 3
    then have n: "view (world c) p \<noteq> None"
      by simp
    show ?thesis
      using open_tree.delete_complete [where z = blank_zusf and w = "world c", OF assms(1,2) n]
        delete_ignores_option [OF assms(1) 3, of blank_zusf] 3 assms(3)
      by (auto simp: handle_uss_delete_def Let_def out_line_def posix_tree.deleted_def [OF tree] rec_def)
  qed
qed

definition demo_ctx :: "(string \<times> argument) list \<Rightarrow> map_fs ctx" where
  "demo_ctx as = new_ctx ''uss'' as demo_fs"

theorem delete_handler_deletes_witness:
  "case handle_uss_delete map_px (demo_ctx [(''file-path'', mk_arg (VString ''/d'')), (''recursive'', mk_arg (VBool True))]) of None \<Rightarrow> False
   | Some (r, c') \<Rightarrow> r = Returned 0 \<and> fs_view (world c') ''/d/s/f'' = None \<and> fs_view (world c') ''/e'' = Some FtRegular"
proof -
  define c where "c = demo_ctx [(''file-path'', mk_arg (VString ''/d'')), (''recursive'', mk_arg (VBool True))]"
  have "arg_string ''file-path'' [] c = ''/d''" "io_get_bool_default ''recursive'' False (args c)" "world c = demo_fs"
    unfolding c_def by code_simp+
  then show ?thesis
    using delete_handler_deletes [OF map_fs.open_tree_axioms finite_view, of "''/d''" c] demo_view demo_below
    unfolding c_def by (auto split: option.splits)
qed

definition demo_row_stat :: stat_info where
  "demo_row_stat = \<lparr>st_type = FtRegular, st_mode = 420, st_nlink = 1, st_uid = 0, st_gid = 0, st_size = 3000000000, st_mtime = 0,
     st_ccsid = 0, st_txtflag = False\<rparr>"

lemma demo_entry: "csv_entry map_px demo_row_stat ''a'' =
    [''-rw-r--r--'', ''1'', [], [], ''3000000000'', ''untagged'', ''1970-01-01T00:00:00'', ''a'']"
proof -
  have "ccsid_display_name (uint (st_ccsid demo_row_stat)) = ''untagged''"
    by (simp add: demo_row_stat_def ccsid_display_name_def)
  moreover have "zusf_build_mode_string demo_row_stat = ''-rw-r--r--''" "zusf_get_owner_from_uid map_px (st_uid demo_row_stat) = []"
      "show_int (st_nlink demo_row_stat) = ''1''"
      "zusf_get_group_from_gid map_px (st_gid demo_row_stat) = []" "zusf_format_ls_time map_px (st_mtime demo_row_stat) True = ''1970-01-01T00:00:00''"
    by code_simp+
  moreover have "sint (st_size demo_row_stat) = 3000000000"
    by code_simp
  moreover have "show_int 3000000000 = ''3000000000''"
    by (simp add: show_int_def show_nat.simps, code_simp)
  ultimately show ?thesis
    by (simp add: csv_entry_def)
qed

lemma demo_row: "plain_row map_px demo_row_stat ''a''"
  unfolding plain_row_def demo_entry by code_simp

text \<open>A file of 3 billion bytes is reported with a negative size.\<close>

lemma demo_size: "to_int (sint (st_size demo_row_stat)) = -1294967296"
  by code_simp

theorem newline_name_overruns_witness:
  "list_entries True (getlines newline (csv_rows map_px [(demo_row_stat, ''a'' @ newline # ''b'')])) = None"
  using newline_name_overruns [OF demo_row, of "''b''"] separators by simp

theorem listing_reports_rows_witness:
  "\<exists>z response rows. zusf_list_uss_file_path map_px ''/e'' \<lparr>all_files = False, long_format = True, max_depth = 1\<rparr> True blank_zusf demo_fs =
     (0, z, response) \<and> response = csv_rows map_px rows"
proof -
  define c where "c = demo_ctx [(''file-path'', mk_arg (VString ''/e'')), (''long'', mk_arg (VBool True)), (''response-format-csv'', mk_arg (VBool True))]"
  have c: "arg_string ''file-path'' [] c = ''/e''" "uss_list_options c = \<lparr>all_files = False, long_format = True, max_depth = 1\<rparr>"
      "io_get_bool_default ''response-format-csv'' False (args c)" "world c = demo_fs"
    unfolding c_def by code_simp+
  have "fst (zusf_list_uss_file_path map_px ''/e'' \<lparr>all_files = False, long_format = True, max_depth = 1\<rparr> True blank_zusf demo_fs) = 0"
    by code_simp
  then obtain z response where r: "zusf_list_uss_file_path map_px ''/e'' \<lparr>all_files = False, long_format = True, max_depth = 1\<rparr> True blank_zusf demo_fs = (0, z, response)"
    by (metis prod.collapse)
  then show ?thesis
    using listing_reports_rows [of map_px c z response] c by auto
qed

end
