(* ===== verification/DsHandlers.thy ===== *)
theory DsHandlers
  imports ZdsStream UssHandlers
begin

text \<open>
  The handlers of the data set commands (\<open>commands/ds.cpp\<close>), on the operations of \<open>zds.cpp\<close>.  A handler is \<open>None\<close>
  where an operation overruns a buffer.
\<close>

definition ds_message :: "zds_rec \<Rightarrow> string" where
  "ds_message z = c_string (diag_msg (zd_diag z))"

definition ds_target :: "string \<Rightarrow> zds_opts" where
  "ds_target dsn = \<lparr>op_ddname = [], op_dsname = dsn\<rparr>"

definition rc_text :: "string \<Rightarrow> string \<Rightarrow> int \<Rightarrow> string" where
  "rc_text lead name rc = lead @ quoted name @ '' rc: '' @ quoted (show_int rc)"

section \<open>Creating\<close>

text \<open>A member is named when a parenthesis opens before the last one that closes.\<close>

definition names_member :: "string \<Rightarrow> bool" where
  "names_member dsn = (case (index_of (CHR ''('') dsn, index_of (CHR '')'') (rev dsn)) of
     (Some start, Some k) \<Rightarrow> length dsn - 1 - k > start | _ \<Rightarrow> False)"

definition create_member :: "'w mvs \<Rightarrow> 's iconv_lib \<Rightarrow> string \<Rightarrow> zds_rec \<Rightarrow> 'w partial_handler" where
  "create_member sys lib dsn z c = map_option (\<lambda>(rc, z, w). let c = c\<lparr>world := w\<rparr> in
       if rc \<noteq> 0 then (Returned RTNCD_FAILURE, out_line (''  Details: '' @ ds_message z)
           (out_line (rc_text ''Error: could not write to data set: '' dsn rc) c))
       else (Returned rc, out_line (''Data set and/or member created: '' @ quoted dsn) c))
     (zds_write sys lib (ds_target dsn) [] z (world c))"

definition process_data_set_create_result :: "'w mvs \<Rightarrow> 's iconv_lib \<Rightarrow> int \<Rightarrow> string \<Rightarrow> string \<Rightarrow> 'w partial_handler" where
  "process_data_set_create_result sys lib rc dsn response c =
     (if rc \<noteq> 0 then Some (Returned RTNCD_FAILURE, err_line (''  Details:'' @ [newline] @ response)
         (err_line (rc_text ''Error: could not create data set: '' dsn rc) c))
      else if names_member dsn then create_member sys lib dsn blank_zds c
      else Some (Returned rc, out_line (''Data set created: '' @ quoted dsn) c))"

text \<open>Attributes that the request does not have stay empty or 0.\<close>

definition request_attributes :: "'w ctx \<Rightarrow> ds_attributes" where
  "request_attributes c = \<lparr>da_alcunit = arg_string ''alcunit'' [] c, da_blksize = to_int (arg_int ''blksize'' 0 c),
     da_dirblk = to_int (arg_int ''dirblk'' 0 c), da_dsorg = arg_string ''dsorg'' [] c, da_primary = to_int (arg_int ''primary'' 0 c),
     da_recfm = arg_string ''recfm'' [] c, da_lrecl = (if io_has ''lrecl'' (args c) then to_int (arg_int ''lrecl'' (-1) c) else 0),
     da_dataclass = arg_string ''dataclass'' [] c, da_unit = arg_string ''unit'' [] c, da_dsntype = arg_string ''dsntype'' [] c,
     da_mgntclass = arg_string ''mgntclass'' [] c, da_secondary = to_int (arg_int ''secondary'' 0 c),
     da_storclass = arg_string ''storclass'' [] c, da_vol = arg_string ''vol'' [] c\<rparr>"

definition create_with :: "(string \<Rightarrow> 'w \<Rightarrow> (int \<times> string \<times> 'w) option) \<Rightarrow> 'w mvs \<Rightarrow> 's iconv_lib \<Rightarrow> 'w partial_handler" where
  "create_with create sys lib c = (let dsn = arg_string ''dsn'' [] c in
     case create dsn (world c) of
       None \<Rightarrow> None
     | Some (rc, response, w) \<Rightarrow> process_data_set_create_result sys lib rc dsn response (c\<lparr>world := w\<rparr>))"

definition create_with_attributes :: "'w mvs \<Rightarrow> 's iconv_lib \<Rightarrow> 'w partial_handler" where
  "create_with_attributes sys lib c = create_with (\<lambda>dsn. zds_create_dsn sys dsn (request_attributes c)) sys lib c"

definition handle_data_set_create_fb :: "'w mvs \<Rightarrow> 's iconv_lib \<Rightarrow> 'w partial_handler" where
  "handle_data_set_create_fb sys = create_with (zds_create_dsn_fb sys) sys"

definition handle_data_set_create_vb :: "'w mvs \<Rightarrow> 's iconv_lib \<Rightarrow> 'w partial_handler" where
  "handle_data_set_create_vb sys = create_with (zds_create_dsn_vb sys) sys"

definition handle_data_set_create_adata :: "'w mvs \<Rightarrow> 's iconv_lib \<Rightarrow> 'w partial_handler" where
  "handle_data_set_create_adata sys = create_with (zds_create_dsn_adata sys) sys"

definition handle_data_set_create_loadlib :: "'w mvs \<Rightarrow> 's iconv_lib \<Rightarrow> 'w partial_handler" where
  "handle_data_set_create_loadlib sys = create_with (zds_create_dsn_loadlib sys) sys"

definition handle_data_set_create_member :: "'w mvs \<Rightarrow> 's iconv_lib \<Rightarrow> 'w partial_handler" where
  "handle_data_set_create_member sys lib c = (let dsn = arg_string ''dsn'' [] c in
     if \<not> names_member dsn then Some (Returned RTNCD_FAILURE, out_line (''Error: could not find member name in dsn: '' @ quoted dsn) c)
     else (case zds_list_data_sets (mvs_catalog sys (world c)) 0 0 (before_paren dsn) False blank_diag of
         None \<Rightarrow> None
       | Some (rc, d, entries) \<Rightarrow>
         if rc > RTNCD_WARNING \<or> entries = [] then
           Some (Returned RTNCD_FAILURE, out_line (''  Details:'' @ [newline] @ c_string (diag_msg d))
             (out_line (rc_text ''Error: could not create data set member: '' (before_paren dsn) rc) c))
         else create_member sys lib dsn (blank_zds\<lparr>zd_diag := d\<rparr>) c))"

section \<open>Objects of lists\<close>

definition field_when :: "bool \<Rightarrow> string \<Rightarrow> ast \<Rightarrow> (string \<times> ast option) list" where
  "field_when b key v = (if b then [(key, Some v)] else [])"

definition known_string_field :: "string \<Rightarrow> string \<Rightarrow> (string \<times> ast option) list" where
  "known_string_field key s = field_when (s \<noteq> []) key (AString s)"

definition known_int_field :: "string \<Rightarrow> int \<Rightarrow> (string \<times> ast option) list" where
  "known_int_field key i = field_when (i \<noteq> -1) key (AInteger i)"

definition zut_hex_to_string :: "16 word \<Rightarrow> string" where
  "zut_hex_to_string v = map to_upper (etag_hex (unat v))"

definition build_ds_object :: "bool \<Rightarrow> zds_entry \<Rightarrow> ast" where
  "build_ds_object attributes e = AObject ((''name'', Some (AString (zut_rtrim '' '' (en_name e)))) #
     (if \<not> attributes then [] else
       known_int_field ''alloc'' (en_alloc e) @ known_int_field ''allocx'' (en_allocx e) @ known_int_field ''blksize'' (en_blksize e) @
       known_string_field ''cdate'' (en_cdate e) @ known_string_field ''dataclass'' (en_dataclass e) @
       field_when (en_devtype e \<noteq> 0) ''devtype'' (AString (zut_hex_to_string (en_devtype e))) @
       known_string_field ''dsntype'' (en_dsntype e) @ known_string_field ''dsorg'' (en_dsorg e) @ known_string_field ''edate'' (en_edate e) @
       field_when (en_alloc e \<noteq> -1) ''encrypted'' (ABoolean (en_encrypted e)) @ known_int_field ''lrecl'' (en_lrecl e) @
       known_string_field ''mgmtclass'' (en_mgmtclass e) @
       [(''migrated'', Some (ABoolean (en_migrated e))), (''multivolume'', Some (ABoolean (en_multivolume e)))] @
       known_int_field ''primary'' (en_primary e) @ known_string_field ''rdate'' (en_rdate e) @ known_string_field ''recfm'' (en_recfm e) @
       known_int_field ''secondary'' (en_secondary e) @ known_string_field ''spacu'' (en_spacu e) @ known_string_field ''storclass'' (en_storclass e) @
       known_int_field ''usedp'' (en_usedp e) @ known_int_field ''usedx'' (en_usedx e) @
       [(''volser'', Some (AString (en_volser e))), (''volsers'', Some (AArray (map (\<lambda>v. Some (AString v)) (en_volsers e))))]))"

definition build_member_object :: "bool \<Rightarrow> zds_mem \<Rightarrow> ast" where
  "build_member_object attributes m = AObject ((''name'', Some (AString (zut_rtrim '' '' (mem_name m)))) #
     (if \<not> attributes then [] else
       known_int_field ''vers'' (mem_vers m) @ known_int_field ''mod'' (mem_mod m) @ known_string_field ''c4date'' (mem_c4date m) @
       known_string_field ''m4date'' (mem_m4date m) @ known_string_field ''mtime'' (mem_mtime m) @ known_int_field ''cnorc'' (mem_cnorc m) @
       known_int_field ''inorc'' (mem_inorc m) @ known_int_field ''mnorc'' (mem_mnorc m) @ known_string_field ''user'' (mem_user m) @
       [(''sclm'', Some (AString (if mem_sclm m then ''Y'' else ''N'')))]))"

section \<open>Lists\<close>

definition known_int :: "int \<Rightarrow> string" where
  "known_int i = (if i = -1 then [] else show_int i)"

definition shown_volser :: "zds_entry \<Rightarrow> string" where
  "shown_volser e = (if en_multivolume e then en_volser e @ ''+'' else en_volser e)"

definition shown_devtype :: "zds_entry \<Rightarrow> string" where
  "shown_devtype e = (if en_devtype e \<noteq> 0 then zut_hex_to_string (en_devtype e) else [])"

definition ds_row :: "bool \<Rightarrow> bool \<Rightarrow> zds_entry \<Rightarrow> string" where
  "ds_row emit_csv attributes e =
     (let shown = [shown_volser e, shown_devtype e, en_dsorg e, en_recfm e, known_int (en_lrecl e), known_int (en_blksize e),
            known_int (en_primary e), known_int (en_secondary e), en_dsntype e, if en_migrated e then ''YES'' else ''NO''] in
      if emit_csv then zut_format_as_csv (en_name e # (if attributes then shown else []))
      else if attributes then
        concat (map (\<lambda>(n, s). pad_right n s @ '' '') (zip [44, 7, 7, 4, 6, 6, 6, 10, 10, 8] (en_name e # butlast shown))) @ last shown
      else pad_right 44 (en_name e))"

definition member_row :: "bool \<Rightarrow> bool \<Rightarrow> zds_mem \<Rightarrow> string" where
  "member_row emit_csv attributes m =
     (let shown = [known_int (mem_vers m), known_int (mem_mod m), mem_c4date m, mem_m4date m, mem_mtime m, known_int (mem_cnorc m),
            known_int (mem_inorc m), known_int (mem_mnorc m), mem_user m, if mem_sclm m then ''Y'' else ''N''] in
      if emit_csv then zut_format_as_csv (mem_name m # (if attributes then shown else []))
      else if attributes then
        concat (map (\<lambda>(n, s). pad_right n s @ '' '') (zip [12, 4, 4, 10, 10, 8, 6, 6, 6, 8] (mem_name m # butlast shown))) @ last shown
      else pad_right 12 (mem_name m))"

definition list_rows :: "string list \<Rightarrow> 'w ctx \<Rightarrow> 'w ctx" where
  "list_rows rows c = fold out_line rows c"

definition request_limit :: "'w ctx \<Rightarrow> int" where
  "request_limit c = (let n = arg_int ''max-entries'' 0 c in if n > 0 then to_int n else 0)"

text \<open>The common end of a list: rows and object on success and on a warning, which is only returned when it is not
  suppressed.\<close>

definition warning_text :: "int \<Rightarrow> string option" where
  "warning_text detail = (if detail = ZDS_RSNCD_MAXED_ENTRIES_REACHED then Some ''Warning: results truncated''
     else if detail = -2 then Some ''Warning: no matching results found'' else None)"

definition show_warning :: "bool \<Rightarrow> int \<Rightarrow> string option \<Rightarrow> 'w ctx \<Rightarrow> 'w ctx" where
  "show_warning warn rc shown c = (if rc = RTNCD_WARNING \<and> warn then (case shown of None \<Rightarrow> c | Some s \<Rightarrow> err_line s c) else c)"

definition list_return :: "bool \<Rightarrow> int \<Rightarrow> outcome" where
  "list_return warn rc = Returned (if \<not> warn \<and> rc = RTNCD_WARNING then RTNCD_SUCCESS else rc)"

definition handle_data_set_list :: "'w mvs \<Rightarrow> 'w partial_handler" where
  "handle_data_set_list sys c = (let dsn = arg_string ''dsn'' [] c in
     if length dsn > MAX_DS_LENGTH then
       Some (Returned RTNCD_FAILURE, err_line ''Error: data set pattern exceeds 44 character length limit'' c)
     else (let dsn = dsn @ ''.**''; warn = io_get_bool_default ''warn'' True (args c); attributes = io_get_bool_default ''attributes'' False (args c);
               emit_csv = io_get_bool_default ''response-format-csv'' False (args c) in
       map_option (\<lambda>(rc, d, entries).
         if rc = RTNCD_SUCCESS \<or> rc = RTNCD_WARNING then
           (list_return warn rc, show_warning warn rc (warning_text (detail_rc d))
             (set_object (Some (list_object (map (build_ds_object attributes) entries))) (list_rows (map (ds_row emit_csv attributes) entries) c)))
         else (Returned RTNCD_FAILURE, err_line (''  Details: '' @ c_string (diag_msg d))
           (err_line (rc_text ''Error: could not list data set: '' dsn rc) c)))
       (zds_list_data_sets (mvs_catalog sys (world c)) 0 (request_limit c) dsn attributes blank_diag)))"

definition handle_data_set_list_members :: "'w mvs \<Rightarrow> 'w partial_handler" where
  "handle_data_set_list_members sys c = (let warn = io_get_bool_default ''warn'' True (args c); attributes = io_get_bool_default ''attributes'' False (args c);
       emit_csv = io_get_bool_default ''response-format-csv'' False (args c) in
     map_option (\<lambda>(rc, d, members).
       if rc = RTNCD_SUCCESS \<or> rc = RTNCD_WARNING then
         (list_return warn rc, show_warning warn rc (if detail_rc d = ZDS_RSNCD_MAXED_ENTRIES_REACHED then Some ''Warning: results truncated'' else None)
           (set_object (Some (list_object (map (build_member_object attributes) members))) (list_rows (map (member_row emit_csv attributes) members) c)))
       else (Returned RTNCD_FAILURE, err_line (''Error: '' @ c_string (diag_msg d)) c))
     (zds_list_members (mvs_dir sys (world c)) (mvs_date sys) (request_limit c) (arg_string ''dsn'' [] c) (arg_string ''pattern'' [] c) attributes blank_diag))"

section \<open>Viewing\<close>

definition ds_request :: "'w ctx \<Rightarrow> zds_rec" where
  "ds_request c = blank_zds\<lparr>zd_encoding := zu_encoding (request_encoding c)\<rparr>"

text \<open>The allocation on a volume, when the request names one.\<close>

definition volume_request :: "string \<Rightarrow> string \<Rightarrow> 'w ctx \<Rightarrow> string list" where
  "volume_request dd dsn c = (let volser = arg_string ''volser'' [] c in
     if io_has ''volser'' (args c) \<and> volser \<noteq> [] then [''alloc dd('' @ dd @ '') da('' @ in_quotes dsn @ '') shr vol('' @ volser @ '')''] else [])"

definition content_etag_entry :: "string \<Rightarrow> (string \<times> ast option) list" where
  "content_etag_entry s = [(''etag'', Some (AString (contents_etag s)))]"

text \<open>The end of a view: what was allocated is freed, and the return code of that replaces the one of the read.\<close>

definition free_and_return :: "'w mvs \<Rightarrow> string list \<Rightarrow> int \<Rightarrow> ast \<Rightarrow> 'w partial_handler" where
  "free_and_return sys dds rc result c = (if dds = [] then Some (Returned rc, set_object (Some result) c)
     else map_option (\<lambda>(rc, d, w). let c = c\<lparr>world := w\<rparr> in
         if rc \<noteq> 0 then (Returned RTNCD_FAILURE, err_line (c_string (diag_msg d)) c) else (Returned rc, set_object (Some result) c))
       (zut_free_dynalloc_dds (mvs_dynalloc sys) dds blank_diag (world c)))"

text \<open>The e-tag of a streamed view needs a second read; it is left out when that fails.\<close>

definition streamed_etag :: "'w mvs \<Rightarrow> 's iconv_lib \<Rightarrow> zds_opts \<Rightarrow> zds_rec \<Rightarrow> 'w ctx \<Rightarrow> string option option" where
  "streamed_etag sys lib opts z c = (if \<not> io_get_bool_default ''return-etag'' False (args c) then Some None
     else map_option (\<lambda>(rc, z, contents). if rc = 0 then Some contents else None) (zds_read sys lib opts z (world c)))"

definition ds_view_streamed ::
  "'w mvs \<Rightarrow> 'w pipes \<Rightarrow> 's iconv_lib \<Rightarrow> (string \<Rightarrow> byte list \<Rightarrow> 'w \<Rightarrow> 'w) \<Rightarrow> bool \<Rightarrow> zds_opts \<Rightarrow> string \<Rightarrow> string list \<Rightarrow> 'w partial_handler" where
  "ds_view_streamed sys pp lib send redirecting opts pipe dds c =
     (case zds_read_streamed sys pp lib opts pipe (Some 0) (ds_request c) (world c) of
        None \<Rightarrow> None
      | Some r \<Rightarrow> (let c = c\<lparr>world := send pipe (dr_sent r) (world c)\<rparr> in
          case streamed_etag sys lib opts (dr_zds r) c of
            None \<Rightarrow> None
          | Some contents \<Rightarrow>
              free_and_return sys dds (dr_rc r)
                (AObject ((case contents of None \<Rightarrow> [] | Some s \<Rightarrow> content_etag_entry s) @ [(''contentLen'', Some (AInteger (int (dr_len r))))]))
                (show_unless redirecting (''size: '' @ show_int (int (dr_len r)) @ [newline])
                  (case contents of None \<Rightarrow> c | Some s \<Rightarrow> show_unless redirecting (''etag: '' @ contents_etag s @ [newline]) c))))"

definition ds_view_whole :: "'w mvs \<Rightarrow> 's iconv_lib \<Rightarrow> bool \<Rightarrow> string \<Rightarrow> zds_opts \<Rightarrow> string list \<Rightarrow> 'w partial_handler" where
  "ds_view_whole sys lib redirecting dsn opts dds c =
     (case zds_read sys lib opts (ds_request c) (world c) of
        None \<Rightarrow> None
      | Some (rc, z, response) \<Rightarrow>
        if rc \<noteq> 0 then Some (Returned RTNCD_FAILURE, err_line (''  Details: '' @ ds_message z)
            (err_line (rc_text ''Error: could not read data set: '' dsn rc) c))
        else (let etag = io_get_bool_default ''return-etag'' False (args c);
                  c = (if etag then show_unless redirecting (''etag: '' @ contents_etag response @ [newline] @ ''data: '') c else c);
                  shown = (if io_has ''encoding'' (args c) \<and> io_get_bool_default ''response-format-bytes'' False (args c)
                    then zut_print_string_as_bytes response else response) in
          free_and_return sys dds rc (AObject (if etag then content_etag_entry response else [])) (c\<lparr>output_stream := output_stream c @ shown\<rparr>)))"

definition handle_data_set_view ::
  "'w mvs \<Rightarrow> 'w pipes \<Rightarrow> 's iconv_lib \<Rightarrow> (string \<Rightarrow> byte list \<Rightarrow> 'w \<Rightarrow> 'w) \<Rightarrow> bool \<Rightarrow> 'w partial_handler" where
  "handle_data_set_view sys pp lib send redirecting c =
     (let dsn = arg_string ''dsn'' [] c; dds = volume_request ''input'' dsn c; pipe = arg_string ''pipe-path'' [] c;
          opts = \<lparr>op_ddname = (if dds = [] then [] else ''INPUT''), op_dsname = dsn\<rparr> in
      case zut_loop_dynalloc (mvs_dynalloc sys) dds blank_diag (world c) of
        None \<Rightarrow> None
      | Some (rc, d, w) \<Rightarrow> (let c = c\<lparr>world := w\<rparr> in
          if rc \<noteq> 0 then Some (Returned RTNCD_FAILURE, err_line (c_string (diag_msg d)) c)
          else if io_has ''pipe-path'' (args c) \<and> pipe \<noteq> [] then ds_view_streamed sys pp lib send redirecting opts pipe dds c
          else ds_view_whole sys lib redirecting dsn opts dds c))"

section \<open>Writing\<close>

text \<open>An e-tag of decimal digits only comes as a number.  Its field has 8 bytes and the one of the DD name follows: \<open>None\<close>
  when more than the terminator goes there.\<close>

definition ds_request_etag :: "'w ctx \<Rightarrow> zds_rec \<Rightarrow> zds_rec option" where
  "ds_request_etag c z =
     (let etag_value = arg_string ''etag'' [] c;
          etag_value = (if etag_value = [] then (case io_get_if arg_get_int ''etag'' (args c) of Some i \<Rightarrow> show_int i | None \<Rightarrow> []) else etag_value) in
      if io_has ''etag'' (args c) \<and> etag_value \<noteq> [] then
        (if length (c_string etag_value) \<le> 8 then Some (z\<lparr>zd_etag := c_string etag_value\<rparr>) else None)
      else Some z)"

definition ds_write_reported :: "string \<Rightarrow> nat option \<Rightarrow> int \<Rightarrow> zds_rec \<Rightarrow> 'w handler" where
  "ds_write_reported dsn streamed rc z c =
     (let content_len = (case streamed of None \<Rightarrow> 0 | Some n \<Rightarrow> n); truncated = (rc = RTNCD_WARNING \<and> detail_rc (zd_diag z) = ZDS_RSNCD_TRUNCATION_WARNING) in
      if rc \<noteq> 0 \<and> \<not> truncated then (Returned RTNCD_FAILURE, err_line (''  Details: '' @ ds_message z)
          (err_line (rc_text ''Error: could not write to data set: '' dsn rc) c))
      else (let c = (if truncated then err_line ([newline] @ ''Warning: '' @ ds_message z) c else c);
                c = (if io_get_bool_default ''etag-only'' False (args c)
                  then (let c = out_line (''etag: '' @ zd_etag z) c in if content_len > 0 then out_line (''size: '' @ show_int (int content_len)) c else c)
                  else out_line (''Wrote data to '' @ quoted dsn) c) in
        (Returned RTNCD_SUCCESS, set_object (Some (AObject
           ((case streamed of None \<Rightarrow> [] | Some n \<Rightarrow> [(''contentLen'', Some (AInteger (int n)))]) @
            (if truncated then [(''truncationWarning'', Some (AString (ds_message z)))] else []) @
            [(''etag'', Some (AString (zd_etag z)))]))) c)))"

definition free_and_report :: "'w mvs \<Rightarrow> string list \<Rightarrow> string \<Rightarrow> nat option \<Rightarrow> int \<Rightarrow> zds_rec \<Rightarrow> 'w partial_handler" where
  "free_and_report sys dds dsn streamed rc z c = (if dds = [] then Some (ds_write_reported dsn streamed rc z c)
     else map_option (\<lambda>(free_rc, d, w). let c = c\<lparr>world := w\<rparr> in
         if free_rc \<noteq> 0 then (Returned RTNCD_FAILURE, err_line (c_string (diag_msg d)) c) else ds_write_reported dsn streamed rc z c)
       (zut_free_dynalloc_dds (mvs_dynalloc sys) dds blank_diag (world c)))"

text \<open>The write goes to the data set by its name, also when a DD was allocated for a volume.\<close>

definition ds_write_data :: "'w mvs \<Rightarrow> 'w pipes \<Rightarrow> 's iconv_lib \<Rightarrow> bool \<Rightarrow> string \<Rightarrow> string list \<Rightarrow> zds_rec \<Rightarrow> 'w partial_handler" where
  "ds_write_data sys pp lib is_a_tty dsn dds z c =
     (let pipe = arg_string ''pipe-path'' [] c in
      if io_has ''pipe-path'' (args c) \<and> pipe \<noteq> [] then
        (case zds_write_streamed sys pp lib (ds_target dsn) pipe (Some 0) z (world c) of
           None \<Rightarrow> None
         | Some (Inl err, n, w) \<Rightarrow> Some (ThrewStd err, c\<lparr>world := w\<rparr>)
         | Some (Inr (rc, z), n, w) \<Rightarrow> free_and_report sys dds dsn (Some n) rc z (c\<lparr>world := w\<rparr>))
      else (case zds_write sys lib (ds_target dsn) (zut_read_input is_a_tty (input_stream c)) z (world c) of
           None \<Rightarrow> None
         | Some (rc, z, w) \<Rightarrow> free_and_report sys dds dsn None rc z (c\<lparr>world := w\<rparr>)))"

definition handle_data_set_write :: "'w mvs \<Rightarrow> 'w pipes \<Rightarrow> 's iconv_lib \<Rightarrow> bool \<Rightarrow> 'w partial_handler" where
  "handle_data_set_write sys pp lib is_a_tty c =
     (let dsn = arg_string ''dsn'' [] c; dds = volume_request ''output'' dsn c in
      case ds_request_etag c (ds_request c) of
        None \<Rightarrow> None
      | Some z \<Rightarrow> (case zut_loop_dynalloc (mvs_dynalloc sys) dds blank_diag (world c) of
          None \<Rightarrow> None
        | Some (rc, d, w) \<Rightarrow> (let c = c\<lparr>world := w\<rparr> in
            if rc \<noteq> 0 then Some (Returned RTNCD_FAILURE, err_line (c_string (diag_msg d)) c)
            else ds_write_data sys pp lib is_a_tty dsn dds (if dds = [] then z else z\<lparr>zd_ddname := ''OUTPUT''\<rparr>) c)))"

section \<open>Deleting, renaming, copying\<close>

definition handle_data_set_delete :: "'w mvs \<Rightarrow> 'w handler" where
  "handle_data_set_delete sys c = (let dsn = arg_string ''dsn'' [] c in
     case zds_delete_dsn sys dsn blank_zds (world c) of (rc, z, w) \<Rightarrow> let c = c\<lparr>world := w\<rparr> in
       if rc \<noteq> 0 then (Returned RTNCD_FAILURE, err_line (''  Details: '' @ ds_message z) (err_line (rc_text ''Error: could not delete data set: '' dsn rc) c))
       else (Returned rc, out_line (''Data set '' @ quoted dsn @ '' deleted'') c))"

definition handle_data_set_rename :: "'w mvs \<Rightarrow> 'w handler" where
  "handle_data_set_rename sys c = (let dsn_before = arg_string ''dsname-before'' [] c; dsn_after = arg_string ''dsname-after'' [] c in
     case zds_rename_dsn sys dsn_before dsn_after blank_zds (world c) of (rc, z, w) \<Rightarrow> let c = c\<lparr>world := w\<rparr> in
       if rc \<noteq> 0 then (Returned RTNCD_FAILURE, err_line ('' Details: '' @ ds_message z) (err_line (rc_text ''Error: Could not rename data set: '' dsn_before rc) c))
       else (Returned rc, out_line (''Data set '' @ quoted dsn_before @ '' renamed to '' @ quoted dsn_after) c))"

definition handle_rename_member :: "'w mvs \<Rightarrow> 'w handler" where
  "handle_rename_member sys c =
     (let dsname = arg_string ''dsn'' [] c; member_before = arg_string ''member-before'' [] c; member_after = arg_string ''member-after'' [] c in
      case zds_rename_members sys dsname member_before member_after blank_zds (world c) of (rc, z, w) \<Rightarrow> let c = c\<lparr>world := w\<rparr> in
        if rc \<noteq> 0 then (Returned RTNCD_FAILURE, err_line ('' Details: '' @ ds_message z)
          (err_line (rc_text ''Error: Could not rename member: '' (member_dsn dsname member_before) rc) c))
        else (Returned rc, out_line (''Data set member '' @ quoted member_before @ '' renamed to '' @ quoted member_after) c))"

definition handle_data_set_restore :: "'w mvs \<Rightarrow> 'w partial_handler" where
  "handle_data_set_restore sys c = (let dsn = arg_string ''dsn'' [] c in
     map_option (\<lambda>(rc, d, w). let c = c\<lparr>world := w\<rparr> in
       if rc \<noteq> 0 then (Returned RTNCD_FAILURE, err_line (''Details: '' @ c_string (diag_msg d)) (err_line (rc_text ''Error: could not restore data set: '' dsn rc) c))
       else (Returned rc, out_line (''Data set '' @ quoted dsn @ '' restored'') c))
     (zut_loop_dynalloc (mvs_dynalloc sys) [''alloc da('' @ in_quotes dsn @ '') shr'', ''free da('' @ in_quotes dsn @ '')''] blank_diag (world c)))"

definition copied_text :: "zds_copy_options \<Rightarrow> string \<Rightarrow> string \<Rightarrow> string" where
  "copied_text o' source target =
     (if co_target_created o' then ''New data set '' @ quoted target @ '' created and copied from '' @ quoted source
      else if co_member_created o' then ''New member '' @ quoted target @ '' created and copied from '' @ quoted source
      else if co_delete_target_members o' then ''Target members deleted and data set '' @ quoted target @ '' replaced with contents of '' @ quoted source
      else if co_replace o' then ''Data set '' @ quoted target @ '' has been updated with contents of '' @ quoted source
      else ''Data set '' @ quoted source @ '' copied to '' @ quoted target)"

definition handle_data_set_copy :: "'w mvs \<Rightarrow> 'w partial_handler" where
  "handle_data_set_copy sys c = (let source = arg_string ''source'' [] c; target = arg_string ''target'' [] c in
     map_option (\<lambda>(rc, o', z, w). let c = c\<lparr>world := w\<rparr> in
       if rc \<noteq> RTNCD_SUCCESS then (Returned RTNCD_FAILURE,
         (let c = err_line ''Error: copy failed'' c in if diag_msg_len (zd_diag z) > 0 then err_line (''  Details: '' @ ds_message z) c else c))
       else (Returned RTNCD_SUCCESS, out_line (copied_text o' source target) c))
     (zds_copy_dsn sys source target \<lparr>co_replace = io_get_bool_default ''replace'' False (args c),
        co_delete_target_members = io_get_bool_default ''delete-target-members'' False (args c), co_target_created = False, co_member_created = False\<rparr>
        blank_zds (world c)))"

section \<open>Compressing\<close>

text \<open>What \<open>fldata\<close> tells of a data set that can be opened, and the program that compresses.\<close>

definition compress_dds :: "string \<Rightarrow> string list" where
  "compress_dds dsn = [''alloc dd(a) da('' @ in_quotes dsn @ '') shr'', ''alloc dd(b) da('' @ in_quotes dsn @ '') shr'',
     ''alloc dd(sysprint) lrecl(80) recfm(f,b) blksize(80)'', ''alloc dd(sysin) lrecl(80) recfm(f,b) blksize(80)'']"

text \<open>A failure after the allocation: the messages, and the DDs are freed whatever comes of that.\<close>

definition compress_failed :: "'w mvs \<Rightarrow> zdiag \<Rightarrow> string \<Rightarrow> string list \<Rightarrow> 'w partial_handler" where
  "compress_failed sys d dsn messages c = map_option (\<lambda>(rc, d', w). (Returned RTNCD_FAILURE, (fold err_line messages c)\<lparr>world := w\<rparr>))
     (zut_free_dynalloc_dds (mvs_dynalloc sys) (compress_dds dsn) d (world c))"

definition dd_failed :: "string \<Rightarrow> string \<Rightarrow> int \<Rightarrow> zds_rec \<Rightarrow> string list" where
  "dd_failed lead dd rc z = [rc_text lead dd rc, ''  Details: '' @ ds_message z]"

definition compress_run :: "'w mvs \<Rightarrow> 's iconv_lib \<Rightarrow> (string \<Rightarrow> 'w \<Rightarrow> int \<times> 'w) \<Rightarrow> zdiag \<Rightarrow> string \<Rightarrow> zds_rec \<Rightarrow> 'w partial_handler" where
  "compress_run sys lib run d dsn z c = (case run ''IEBCOPY'' (world c) of (rc, w) \<Rightarrow> let c = c\<lparr>world := w\<rparr> in
     if rc \<noteq> RTNCD_SUCCESS then compress_failed sys d dsn [''Error: could not invoke IEBCOPY rc: '' @ quoted (show_int rc)] c
     else (case zds_read sys lib \<lparr>op_ddname = ''SYSPRINT'', op_dsname = dsn\<rparr> z w of
         None \<Rightarrow> None
       | Some (rc, z, output) \<Rightarrow>
         if rc \<noteq> 0 then compress_failed sys d dsn (dd_failed ''Error: could not read from dd: '' ''SYSPRINT'' rc z @ [output]) c
         else (let c = out_line (''Data set '' @ quoted dsn @ '' compressed'') c in
           map_option (\<lambda>(rc, d, w). let c = c\<lparr>world := w\<rparr> in
             if rc \<noteq> 0 then (Returned RTNCD_FAILURE, err_line (''  Details: '' @ c_string (diag_msg d)) (err_line ''Error: allocation failed'' c))
             else (Returned RTNCD_SUCCESS, c))
           (zut_free_dynalloc_dds (mvs_dynalloc sys) (compress_dds dsn) d (world c)))))"

definition handle_data_set_compress :: "'w mvs \<Rightarrow> 's iconv_lib \<Rightarrow> (string \<Rightarrow> 'w \<Rightarrow> bool) \<Rightarrow> (string \<Rightarrow> 'w \<Rightarrow> int \<times> 'w) \<Rightarrow> 'w partial_handler" where
  "handle_data_set_compress sys lib is_pds run c = (let dsn = map to_upper (arg_string ''dsn'' [] c) in
     if \<not> is_pds (dsn_path dsn) (world c) then Some (Returned RTNCD_FAILURE, err_line (''Error: data set '' @ quoted dsn @ '' is not a PDS'') c)
     else (case zut_loop_dynalloc (mvs_dynalloc sys) (compress_dds dsn) blank_diag (world c) of
         None \<Rightarrow> None
       | Some (rc, d, w) \<Rightarrow> (let c = c\<lparr>world := w\<rparr> in
           if rc \<noteq> 0 then Some (Returned RTNCD_FAILURE, err_line (''  Details: '' @ c_string (diag_msg d)) (err_line ''Error: allocation failed'' c))
           else (case zds_write sys lib \<lparr>op_ddname = ''sysin'', op_dsname = []\<rparr> ''        COPY OUTDD=B,INDD=A'' blank_zds w of
               None \<Rightarrow> None
             | Some (rc, z, w) \<Rightarrow> (let c = c\<lparr>world := w\<rparr> in
                 if rc \<noteq> 0 then compress_failed sys d dsn (dd_failed ''Error: could not write to dd: '' ''sysin'' rc z) c
                 else compress_run sys lib run d dsn z c)))))"

section \<open>Facts\<close>

lemma list_rows_stream [simp]:
  "output_stream (list_rows rows c) = output_stream c @ concat (map (\<lambda>r. r @ [newline]) rows)"
  "object_node (list_rows rows c) = object_node c"
  unfolding list_rows_def by (induction rows arbitrary: c) (simp_all add: out_line_def)

lemma show_warning_keeps [simp]:
  "output_stream (show_warning warn rc shown c) = output_stream c" "object_node (show_warning warn rc shown c) = object_node c"
  by (simp_all add: show_warning_def err_line_def split: option.splits)



text \<open>C15: A pattern of 42 to 44 characters passes the length check of the list command, which then appends three characters: the
  pattern overruns the filter field of 44 bytes.\<close>

theorem long_pattern_overruns:
  assumes "42 \<le> length (arg_string ''dsn'' [] c)" "length (arg_string ''dsn'' [] c) \<le> 44" "cs_storage (mvs_catalog sys (world c))"
  shows "handle_data_set_list sys c = None"
proof -
  have "\<not> default_max 8096 0 < min_buffer_size 5" "\<not> default_max 8096 0 < min_buffer_size 0"
    by (simp_all add: default_max_def min_buffer_size_def CSIFIELD_SIZE_def)
  then show ?thesis
    using assms by (simp add: handle_data_set_list_def Let_def zds_list_data_sets_def MAX_DS_LENGTH_def CSI_FIELD_COUNT_def ZDS_DEFAULT_BUFFER_SIZE_def)
qed

text \<open>On a volume, a streamed view whose read fails returns 0 once the allocation is freed.\<close>

theorem failed_view_returns_zero:
  assumes "io_has ''volser'' (args c)" "arg_string ''volser'' [] c \<noteq> []" "io_has ''pipe-path'' (args c)" "arg_string ''pipe-path'' [] c \<noteq> []"
    "\<not> io_get_bool_default ''return-etag'' False (args c)"
    "zut_loop_dynalloc (mvs_dynalloc sys) (volume_request ''input'' (arg_string ''dsn'' [] c) c) blank_diag (world c) = Some (0, d, w)"
    "zds_read_streamed sys pp lib \<lparr>op_ddname = ''INPUT'', op_dsname = arg_string ''dsn'' [] c\<rparr> (arg_string ''pipe-path'' [] c) (Some 0) (ds_request c) w = Some r"
    "dr_rc r \<noteq> 0"
    "zut_free_dynalloc_dds (mvs_dynalloc sys) (volume_request ''input'' (arg_string ''dsn'' [] c) c) blank_diag
       (send (arg_string ''pipe-path'' [] c) (dr_sent r) w) = Some (0, d', w')"
  shows "\<exists>c'. handle_data_set_view sys pp lib send redirecting c = Some (Returned 0, c') \<and> error_stream c' = error_stream c"
proof -
  have v: "volume_request ''input'' (arg_string ''dsn'' [] c) c \<noteq> []"
    using assms(1,2) by (simp add: volume_request_def Let_def)
  have r: "ds_request (c\<lparr>world := w\<rparr>) = ds_request c" for w
    by (simp add: ds_request_def request_encoding_def arg_string_def)
  show ?thesis
    using assms v by (simp add: handle_data_set_view_def ds_view_streamed_def streamed_etag_def free_and_return_def r show_unless_def set_object_def Let_def)
qed

definition listing_mvs :: "string list mvs" where
  "listing_mvs = noting_mvs\<lparr>mvs_catalog := \<lambda>w. demo_catalog\<rparr>"


theorem long_pattern_overruns_witness:
  "handle_data_set_list listing_mvs (new_ctx ''list'' [(''dsn'', mk_arg (VString (replicate 42 (CHR ''A''))))] []) = None"
proof -
  define c where "c = new_ctx ''list'' [(''dsn'', mk_arg (VString (replicate 42 (CHR ''A''))))] ([] :: string list)"
  have "length (arg_string ''dsn'' [] c) = 42"
    unfolding c_def by code_simp
  then show ?thesis
    using long_pattern_overruns [of c listing_mvs] unfolding c_def [symmetric] by (simp add: listing_mvs_def demo_catalog_def)
qed

definition viewing_mvs :: "string list mvs" where
  "viewing_mvs = noting_mvs\<lparr>mvs_dynalloc :=
     \<lambda>a b p w. (\<lparr>bpx_rc = 0, bpx_code = 0, bpx_text = [], bpx_ddname = [], bpx_dsname = []\<rparr>, w)\<rparr>"

theorem failed_view_returns_zero_witness:
  "\<exists>c'. handle_data_set_view viewing_mvs \<lparr>pp_fifo = (\<lambda>p w. FifoOpened []), pp_flush = (\<lambda>p w. (0, w))\<rparr> plain_iconv (\<lambda>p b w. w) False
     (new_ctx ''view'' [(''dsn'', mk_arg (VString ''A'')), (''volser'', mk_arg (VString ''V'')), (''pipe-path'', mk_arg (VString ''p''))] []) =
     Some (Returned 0, c') \<and> error_stream c' = []"
proof -
  define c where "c = new_ctx ''view'' [(''dsn'', mk_arg (VString ''A'')), (''volser'', mk_arg (VString ''V'')), (''pipe-path'', mk_arg (VString ''p''))] ([] :: string list)"
  have c: "arg_string ''dsn'' [] c = ''A''" "io_has ''volser'' (args c)" "arg_string ''volser'' [] c = ''V''" "io_has ''pipe-path'' (args c)"
      "arg_string ''pipe-path'' [] c = ''p''" "\<not> io_get_bool_default ''return-etag'' False (args c)" "error_stream c = []" "world c = []"
    unfolding c_def by code_simp+
  have v: "volume_request ''input'' ''A'' c = [''alloc dd(input) da('' @ in_quotes ''A'' @ '') shr vol(V)'']"
    using c by (simp add: volume_request_def Let_def)
  have a: "zut_loop_dynalloc (mvs_dynalloc viewing_mvs) (volume_request ''input'' ''A'' c) blank_diag [] = Some (0, blank_diag, [])"
    "zut_free_dynalloc_dds (mvs_dynalloc viewing_mvs) (volume_request ''input'' ''A'' c) blank_diag [] = Some (0, blank_diag, [])"
    unfolding v by code_simp+
  have t: "zds_resolve_dscb viewing_mvs \<lparr>op_ddname = ''INPUT'', op_dsname = ''A''\<rparr> [] = Some no_attributes"
    by (simp add: zds_resolve_dscb_def zds_get_dscb_attributes_def viewing_mvs_def noting_mvs_def no_catalog_def zds_list_data_sets_def default_max_def
      ZDS_DEFAULT_BUFFER_SIZE_def min_buffer_size_def CSIFIELD_SIZE_def CSI_FIELD_COUNT_def MAX_DS_LENGTH_def before_paren_def Let_def area_problem_def)
  have "stream_pieces viewing_mvs z path no_attributes [] = None" for z path
    by (simp add: stream_pieces_def viewing_mvs_def noting_mvs_def no_attributes_def)
  then obtain r where "zds_read_streamed viewing_mvs \<lparr>pp_fifo = (\<lambda>p w. FifoOpened []), pp_flush = (\<lambda>p w. (0, w))\<rparr> plain_iconv
      \<lparr>op_ddname = ''INPUT'', op_dsname = ''A''\<rparr> ''p'' (Some 0) (ds_request c) [] = Some r" "dr_rc r \<noteq> 0"
    by (simp add: zds_read_streamed_def t no_target_def ds_read_failed_def RTNCD_FAILURE_def)
  then show ?thesis
    using failed_view_returns_zero [of c viewing_mvs blank_diag "[]" _ plain_iconv r "\<lambda>p b w. w" blank_diag "[]" False] c a
    unfolding c_def [symmetric] by simp
qed

end
