(* ===== verification/Zjbm.thy ===== *)
theory Zjbm
  imports ZdsMembers ZutServices
begin

text \<open>
  The calls to the job entry subsystem (\<open>zjbm.c\<close>): extended status, modify, JES properties and JES symbols.  What
  the subsystem interface answers is a parameter; the chains of control blocks that it returns are lists.  \<open>None\<close> is
  a write past a buffer or a read through a null pointer.  \<open>service_rsn_secondary\<close>, which nothing reads, is left out,
  as are the calls that release the storage of an answer.
\<close>

unbundle bit_operations_syntax

section \<open>Data\<close>

definition ZJB_RTNCD_SERVICE_FAILURE :: int where
  "ZJB_RTNCD_SERVICE_FAILURE = -2"

definition ZJB_RTNCD_INSUFFICIENT_BUFFER :: int where
  "ZJB_RTNCD_INSUFFICIENT_BUFFER = -4"

definition ZJB_RTNCD_JOB_NOT_FOUND :: int where
  "ZJB_RTNCD_JOB_NOT_FOUND = -5"

definition ZJB_RTNCD_JES3_NOT_SUPPORTED :: int where
  "ZJB_RTNCD_JES3_NOT_SUPPORTED = -7"

definition ZJB_RTNCD_CORRELATOR_NOT_FOUND :: int where
  "ZJB_RTNCD_CORRELATOR_NOT_FOUND = -10"

definition ZJB_RSNCD_MAX_JOBS_REACHED :: int where
  "ZJB_RSNCD_MAX_JOBS_REACHED = -1"

text \<open>The control block of a request; its names have a fixed length and are all NUL at first.\<close>

record zjb_rec =
  zj_jobs_max :: int
  zj_dds_max :: int
  zj_buffer_size :: int
  zj_buffer_size_needed :: int
  zj_correlator :: string
  zj_jobid :: string
  zj_owner_name :: string
  zj_prefix_name :: string
  zj_status_name :: string
  zj_encoding :: zencode
  zj_diag :: zdiag

definition blank_zjb :: zjb_rec where
  "blank_zjb = \<lparr>zj_jobs_max = 0, zj_dds_max = 0, zj_buffer_size = 0, zj_buffer_size_needed = 0, zj_correlator = replicate 64 nul_char,
     zj_jobid = replicate 8 nul_char, zj_owner_name = replicate 8 nul_char, zj_prefix_name = replicate 8 nul_char,
     zj_status_name = replicate 8 nul_char, zj_encoding = \<lparr>codepage = [], source_codepage = [], data_type = eDataTypeText\<rparr>, zj_diag = blank_diag\<rparr>"

text \<open>The terse data of a job: completion indicator and code are one word.\<close>

record statjqtr =
  tr_name :: string
  tr_jid :: string
  tr_clas :: string
  tr_ouid :: string
  tr_jcor :: string
  tr_phaz :: byte
  tr_jtyp :: byte
  tr_mxrc :: u32

record statjq =
  jq_terse :: statjqtr
  jq_oss :: string

record zjb_job_info =
  ji_terse :: statjqtr
  ji_phase_text :: string
  ji_subsystem :: string

definition JOB_INFO_SIZE :: int where
  "JOB_INFO_SIZE = 236 + 65 + 5"

text \<open>The verbose data of an output data set.\<close>

record statsevb =
  sv_prcd :: string
  sv_stpd :: string
  sv_ddnd :: string
  sv_dsky :: int
  sv_dsn :: string

definition STATSEVB_SIZE :: int where
  "STATSEVB_SIZE = 241"

section \<open>The subsystem interface\<close>

datatype job_key = JobIdKey string | CorrelatorKey string

record stat_request =
  sq_key :: "job_key option"
  sq_owner :: "string option"
  sq_jobname :: "string option"
  sq_onmain :: bool

record 'a ssi_answer =
  sa_rc :: int
  sa_retn :: int
  sa_reas :: int
  sa_rea2 :: int
  sa_ojbi :: string
  sa_list :: "'a list"

datatype modify_type = ModifyPurge | ModifyCancel | ModifyHold | ModifyRelease

record modify_answer =
  ma_rc :: int
  ma_retn :: int
  ma_ssjmretn :: int
  ma_ssjmret2 :: int
  ma_count :: int

record proclib_answer =
  pa_rc :: int
  pa_retn :: int
  pa_ssjpretn :: int
  pa_libraries :: "string list list"
  pa_free_rc :: int

record symbol_answer =
  ya_rc :: int
  ya_retn :: int
  ya_reas :: int
  ya_value :: string

record 'w ssi =
  ssi_jesflag :: "'w \<Rightarrow> byte"
  ssi_status :: "stat_request \<Rightarrow> 'w \<Rightarrow> statjq ssi_answer"
  ssi_verbose :: "statjq \<Rightarrow> 'w \<Rightarrow> statsevb list ssi_answer"
  ssi_lookup :: "statjqtr \<Rightarrow> int \<times> int \<times> string"
  ssi_modify :: "modify_type \<Rightarrow> int \<Rightarrow> job_key \<Rightarrow> 'w \<Rightarrow> modify_answer \<times> 'w"
  ssi_proclib :: "'w \<Rightarrow> proclib_answer"
  ssi_symbol :: "string \<Rightarrow> 'w \<Rightarrow> symbol_answer"
  ssi_pointer :: int

text \<open>The comparison binds tighter than the bit operation: what is tested is a truth value, 0 or 1.\<close>

definition jes3actv :: byte where
  "jes3actv = 0x20"

definition get_ssibssnm :: "'w ssi \<Rightarrow> 'w \<Rightarrow> int" where
  "get_ssibssnm ss w = (if (if 0 \<noteq> ssi_jesflag ss w then 1 else 0) AND jes3actv \<noteq> 0 then ZJB_RTNCD_JES3_NOT_SUPPORTED else RTNCD_SUCCESS)"

lemma jes3_never_refused: "get_ssibssnm ss w = RTNCD_SUCCESS"
  by (simp add: get_ssibssnm_def jes3actv_def)

definition init_ssib_failed :: "zdiag \<Rightarrow> zdiag" where
  "init_ssib_failed d = d\<lparr>service_name := ''init_ssib'', detail_rc := ZJB_RTNCD_SERVICE_FAILURE\<rparr>"

text \<open>A job is looked for by its id when there is one, by its correlator otherwise.\<close>

definition key_of :: "zjb_rec \<Rightarrow> job_key" where
  "key_of z = (if hd (zj_jobid z) \<noteq> nul_char then JobIdKey (zj_jobid z) else CorrelatorKey (zj_correlator z))"

definition job_not_found :: "zjb_rec \<Rightarrow> zdiag" where
  "job_not_found z = (case key_of z of
     JobIdKey s \<Rightarrow> set_msg (''No jobs found matching jobid '' @ in_quotes (c_string s)) ((zj_diag z)\<lparr>detail_rc := ZJB_RTNCD_JOB_NOT_FOUND\<rparr>)
   | CorrelatorKey s \<Rightarrow> set_msg (''No jobs found matching correlator '' @ in_quotes (c_string s)) ((zj_diag z)\<lparr>detail_rc := ZJB_RTNCD_CORRELATOR_NOT_FOUND\<rparr>))"

definition codes_text :: "(string \<times> int) list \<Rightarrow> string" where
  "codes_text cs = drop 2 (concat (map (\<lambda>(name, i). '', '' @ name @ '' was: '' @ in_quotes (show_int i)) cs))"

section \<open>JES symbols\<close>

definition ZJBSYMB :: "'w ssi \<Rightarrow> zjb_rec \<Rightarrow> string \<Rightarrow> 'w \<Rightarrow> (int \<times> zjb_rec) + string" where
  "ZJBSYMB ss z symbol w = (let a = ssi_symbol ss symbol w in
     if ya_rc a \<noteq> 0 then Inl (RTNCD_FAILURE, z\<lparr>zj_diag := set_msg (''IAZSYMBL RC was: '' @ in_quotes (show_int (ya_rc a)) @ '', JSYMRETN was: '' @
         in_quotes (show_int (ya_retn a)) @ '', JSYMREAS: '' @ show_int (ya_reas a))
       ((zj_diag z)\<lparr>service_name := ''iazsymbl'', detail_rc := ZJB_RTNCD_SERVICE_FAILURE\<rparr>)\<rparr>)
     else Inr (ya_value a))"

section \<open>Modifying a job\<close>

definition modify_codes :: "modify_answer \<Rightarrow> string" where
  "modify_codes a = ''IEFSSREQ rc was: '' @ in_quotes (show_int (ma_rc a)) @ '' '' @
     codes_text [(''SSOBRETN'', ma_retn a), (''SSJMRETN'', ma_ssjmretn a), (''SSJMRET2'', ma_ssjmret2 a)]"

definition ZJBMMOD :: "'w ssi \<Rightarrow> zjb_rec \<Rightarrow> modify_type \<Rightarrow> int \<Rightarrow> 'w \<Rightarrow> int \<times> zjb_rec \<times> 'w" where
  "ZJBMMOD ss z t flags w =
     (let rc = get_ssibssnm ss w; d = (zj_diag z) in
      if rc \<noteq> 0 then (RTNCD_FAILURE, z\<lparr>zj_diag := set_msg (if rc = ZJB_RTNCD_JES3_NOT_SUPPORTED then ''JES3 is not supported'' else ''Failed to get SSIBSSNM'')
          (d\<lparr>service_name := ''init_ssib'', detail_rc := rc\<rparr>)\<rparr>, w)
      else (case ssi_modify ss t (if t = ModifyPurge \<or> t = ModifyCancel then flags else 0) (key_of z) w of (a, w) \<Rightarrow>
        if ma_rc a \<noteq> 0 \<or> ma_retn a \<noteq> 0 then
          (RTNCD_FAILURE, z\<lparr>zj_diag := set_msg (modify_codes a) (d\<lparr>service_name := ''IEFSSREQ'', service_rc := ma_retn a, service_rsn := ma_ssjmretn a\<rparr>)\<rparr>, w)
        else if ma_count a = 0 then (RTNCD_FAILURE, z\<lparr>zj_diag := job_not_found z\<rparr>, w)
        else (RTNCD_SUCCESS, z, w)))"

definition ZJBMPRG :: "'w ssi \<Rightarrow> zjb_rec \<Rightarrow> 'w \<Rightarrow> int \<times> zjb_rec \<times> 'w" where
  "ZJBMPRG ss z = ZJBMMOD ss z ModifyPurge 0x10"

definition ZJBMCNL :: "'w ssi \<Rightarrow> zjb_rec \<Rightarrow> int \<Rightarrow> 'w \<Rightarrow> int \<times> zjb_rec \<times> 'w" where
  "ZJBMCNL ss z flags = ZJBMMOD ss z ModifyCancel 0x10"

definition ZJBMHLD :: "'w ssi \<Rightarrow> zjb_rec \<Rightarrow> 'w \<Rightarrow> int \<times> zjb_rec \<times> 'w" where
  "ZJBMHLD ss z = ZJBMMOD ss z ModifyHold 0"

definition ZJBMRLS :: "'w ssi \<Rightarrow> zjb_rec \<Rightarrow> 'w \<Rightarrow> int \<times> zjb_rec \<times> 'w" where
  "ZJBMRLS ss z = ZJBMMOD ss z ModifyRelease 0"

section \<open>Jobs\<close>

definition ZJBMEMSG :: "'a ssi_answer \<Rightarrow> zdiag \<Rightarrow> zdiag" where
  "ZJBMEMSG a d = set_msg (if sa_retn a = 8 \<and> sa_reas a = 64 then ''Job ID '' @ in_quotes (c_string (take 8 (sa_ojbi a))) @ '' was not valid''
       else ''IEFSSREQ rc was: '' @ in_quotes (show_int (sa_rc a)) @ '' '' @
         codes_text [(''SSOBRETN'', sa_retn a), (''STATREAS'', sa_reas a), (''STATREA2'', sa_rea2 a)])
     (d\<lparr>service_name := ''IEFSSREQ'', detail_rc := ZJB_RTNCD_SERVICE_FAILURE, service_rc := sa_retn a, service_rsn := sa_reas a\<rparr>)"

text \<open>The subsystem name is copied into a field of five bytes.\<close>

definition subsystem_field :: "string \<Rightarrow> string" where
  "subsystem_field s = (let n = c_string (take 4 s) in n @ replicate (5 - length n) nul_char)"

text \<open>The jobs that fit the buffer are kept; the others are counted only.\<close>

fun job_loop :: "(statjqtr \<Rightarrow> int \<times> int \<times> string) \<Rightarrow> int \<Rightarrow> int \<Rightarrow> int \<Rightarrow> statjq list \<Rightarrow> int \<Rightarrow> int \<Rightarrow> zdiag \<Rightarrow> zjb_job_info list \<Rightarrow>
    int \<times> int option \<times> zdiag \<times> zjb_job_info list" where
  "job_loop lookup ptr jobs_max buffer_size [] n used d out = (RTNCD_SUCCESS, Some used, d, out)"
| "job_loop lookup ptr jobs_max buffer_size (j # js) n used d out =
     (if n \<ge> jobs_max then (RTNCD_WARNING, None, set_msg (''Reached maximum returned jobs requested '' @ show_int jobs_max) (d\<lparr>detail_rc := ZJB_RSNCD_MAX_JOBS_REACHED\<rparr>), out)
      else (let used = used + JOB_INFO_SIZE in
        if used \<le> buffer_size then (case lookup (jq_terse j) of (rc, ret, phase) \<Rightarrow>
          if rc \<noteq> 0 then (RTNCD_FAILURE, None, set_msg (''IAZTLKUP RC: '' @ in_quotes (show_int ptr) @ '' reason: '' @ in_quotes (show_int rc))
            (d\<lparr>service_name := ''iaztlkup'', detail_rc := ZJB_RTNCD_SERVICE_FAILURE\<rparr>), [])
          else job_loop lookup ptr jobs_max buffer_size js (n + 1) used (d\<lparr>detail_rc := ret\<rparr>)
            (out @ [\<lparr>ji_terse = jq_terse j, ji_phase_text = c_string (take 64 phase), ji_subsystem = subsystem_field (jq_oss j)\<rparr>]))
        else job_loop lookup ptr jobs_max buffer_size js (n + 1) used (d\<lparr>detail_rc := ZJB_RTNCD_INSUFFICIENT_BUFFER\<rparr>) out))"

definition ZJBMTCOM :: "'w ssi \<Rightarrow> zjb_rec \<Rightarrow> stat_request \<Rightarrow> 'w \<Rightarrow> int \<times> zjb_rec \<times> zjb_job_info list" where
  "ZJBMTCOM ss z q w =
     (if get_ssibssnm ss w \<noteq> 0 then (RTNCD_FAILURE, z\<lparr>zj_diag := init_ssib_failed (zj_diag z)\<rparr>, [])
      else (let a = ssi_status ss q w in
        if sa_rc a \<noteq> 0 \<or> sa_retn a \<noteq> 0 then (RTNCD_FAILURE, z\<lparr>zj_diag := ZJBMEMSG a (zj_diag z)\<rparr>, [])
        else (case job_loop (ssi_lookup ss) (ssi_pointer ss) (zj_jobs_max z) (zj_buffer_size z) (sa_list a) 0 0 (zj_diag z) [] of (rc, needed, d, out) \<Rightarrow>
          (rc, z\<lparr>zj_diag := d, zj_buffer_size_needed := (case needed of None \<Rightarrow> zj_buffer_size_needed z | Some n \<Rightarrow> n)\<rparr>, out))))"

definition no_request :: stat_request where
  "no_request = \<lparr>sq_key = None, sq_owner = None, sq_jobname = None, sq_onmain = False\<rparr>"

definition ZJBMVIEW :: "'w ssi \<Rightarrow> zjb_rec \<Rightarrow> 'w \<Rightarrow> int \<times> zjb_rec \<times> zjb_job_info list" where
  "ZJBMVIEW ss z = ZJBMTCOM ss z (no_request\<lparr>sq_key := Some (key_of z)\<rparr>)"

text \<open>The fields of the request follow one another without a NUL: the comparison with the prefix reads on into the
  status and what follows.\<close>

definition text_at_status :: "zjb_rec \<Rightarrow> string" where
  "text_at_status z = c_string (zj_status_name z @ codepage (zj_encoding z) @ [nul_char])"

definition text_at_prefix :: "zjb_rec \<Rightarrow> string" where
  "text_at_prefix z = c_string (zj_prefix_name z @ zj_status_name z @ codepage (zj_encoding z) @ [nul_char])"

definition ZJBMLIST :: "'w ssi \<Rightarrow> zjb_rec \<Rightarrow> 'w \<Rightarrow> int \<times> zjb_rec \<times> zjb_job_info list" where
  "ZJBMLIST ss z = ZJBMTCOM ss z (no_request\<lparr>sq_owner := Some (zj_owner_name z),
     sq_jobname := (if text_at_prefix z = replicate 8 (CHR '' '') then None else Some (zj_prefix_name z)),
     sq_onmain := (text_at_status z = ''ACTIVE  '')\<rparr>)"

section \<open>Output data sets\<close>

definition ZJBMGJQ :: "'w ssi \<Rightarrow> zjb_rec \<Rightarrow> stat_request \<Rightarrow> 'w \<Rightarrow> int \<times> zjb_rec \<times> statjq list" where
  "ZJBMGJQ ss z q w = (let a = ssi_status ss q w in
     if sa_rc a \<noteq> 0 \<or> sa_retn a \<noteq> 0 then (RTNCD_FAILURE, z\<lparr>zj_diag := ZJBMEMSG a (zj_diag z)\<rparr>, [])
     else (RTNCD_SUCCESS, z, sa_list a))"

fun dd_loop :: "int \<Rightarrow> int \<Rightarrow> statsevb list \<Rightarrow> int \<Rightarrow> int \<Rightarrow> zdiag \<Rightarrow> statsevb list \<Rightarrow> int \<times> int option \<times> zdiag \<times> statsevb list" where
  "dd_loop dds_max buffer_size [] n used d out = (RTNCD_SUCCESS, Some used, d, out)"
| "dd_loop dds_max buffer_size (v # vs) n used d out =
     (if n \<ge> dds_max then (RTNCD_WARNING, None, set_msg (''max DDs reached '' @ in_quotes (show_int dds_max) @ '', results truncated'')
         (d\<lparr>detail_rc := ZJB_RSNCD_MAX_JOBS_REACHED\<rparr>), out)
      else (let used = used + STATSEVB_SIZE in
        if used \<le> buffer_size then dd_loop dds_max buffer_size vs (n + 1) used d (out @ [v])
        else dd_loop dds_max buffer_size vs (n + 1) used (d\<lparr>detail_rc := ZJB_RTNCD_INSUFFICIENT_BUFFER\<rparr>) out))"

text \<open>The verbose data of the first job of the second answer are listed.\<close>

definition ZJBMLSDS :: "'w ssi \<Rightarrow> zjb_rec \<Rightarrow> 'w \<Rightarrow> (int \<times> zjb_rec \<times> statsevb list) option" where
  "ZJBMLSDS ss z w =
     (if get_ssibssnm ss w \<noteq> 0 then Some (RTNCD_FAILURE, z\<lparr>zj_diag := init_ssib_failed (zj_diag z)\<rparr>, [])
      else (case ZJBMGJQ ss z (no_request\<lparr>sq_key := Some (key_of z)\<rparr>) w of (rc, z, jobs) \<Rightarrow>
        if rc \<noteq> 0 then Some (rc, z, [])
        else (case jobs of
          [] \<Rightarrow> Some (RTNCD_FAILURE, z\<lparr>zj_diag := job_not_found z\<rparr>, [])
        | j # js \<Rightarrow> (let a = ssi_verbose ss j w in
            if sa_rc a \<noteq> 0 \<or> sa_retn a \<noteq> 0 then Some (RTNCD_FAILURE, z\<lparr>zj_diag :=
              set_msg (''IEFSSREQ rc was: '' @ in_quotes (show_int (sa_rc a)) @ '' '' @
                codes_text [(''SSOBRETN'', sa_retn a), (''STATREAS'', sa_reas a), (''STATREA2'', sa_rea2 a)])
              ((zj_diag z)\<lparr>service_name := ''IEFSSREQ'', service_rc := sa_retn a, service_rsn := sa_reas a\<rparr>)\<rparr>, [])
            else (case sa_list a of
              [] \<Rightarrow> None
            | vs # _ \<Rightarrow> (case dd_loop (zj_dds_max z) (zj_buffer_size z) vs 0 0 (zj_diag z) [] of (rc, needed, d, out) \<Rightarrow>
                Some (rc, z\<lparr>zj_diag := d, zj_buffer_size_needed := (case needed of None \<Rightarrow> zj_buffer_size_needed z | Some n \<Rightarrow> n)\<rparr>, out)))))))"

section \<open>Procedure libraries\<close>

definition DSN_ENTRY_SIZE :: nat where
  "DSN_ENTRY_SIZE = 44"

definition MAX_DSN_ENTRIES :: nat where
  "MAX_DSN_ENTRIES = 100"

text \<open>An entry is copied before its number is compared with the limit; the return code is the one of releasing the storage.\<close>

definition ZJBMLPRC :: "'w ssi \<Rightarrow> zjb_rec \<Rightarrow> nat \<Rightarrow> 'w \<Rightarrow> (int \<times> zjb_rec \<times> string list) option" where
  "ZJBMLPRC ss z buffer_size w =
     (if buffer_size < MAX_DSN_ENTRIES * DSN_ENTRY_SIZE then Some (RTNCD_FAILURE, z\<lparr>zj_diag :=
          set_msg (''buffer is NULL or buffer size is less than '' @ in_quotes (show_int (int (MAX_DSN_ENTRIES * DSN_ENTRY_SIZE))))
            ((zj_diag z)\<lparr>detail_rc := ZJB_RTNCD_INSUFFICIENT_BUFFER\<rparr>)\<rparr>, [])
      else if get_ssibssnm ss w \<noteq> 0 then Some (RTNCD_FAILURE, z\<lparr>zj_diag := init_ssib_failed (zj_diag z)\<rparr>, [])
      else (let a = ssi_proclib ss w; names = concat (pa_libraries a) in
        if pa_rc a \<noteq> 0 \<or> pa_retn a \<noteq> 0 then Some (RTNCD_FAILURE, z\<lparr>zj_diag :=
            set_msg (''IEFSSREQ rc was: '' @ in_quotes (show_int (pa_rc a)) @ '' '' @ codes_text [(''SSOBRETN'', pa_retn a), (''SSJPRETN'', pa_ssjpretn a)])
              ((zj_diag z)\<lparr>service_name := ''IEFSSREQ'', service_rc := pa_retn a, service_rsn := pa_ssjpretn a\<rparr>)\<rparr>, [])
        else if DSN_ENTRY_SIZE * length (take (MAX_DSN_ENTRIES + 1) names) > buffer_size then None
        else Some (pa_free_rc a, (if length names > MAX_DSN_ENTRIES
            then z\<lparr>zj_diag := set_msg (''max DSN entries reached '' @ in_quotes (show_int (int MAX_DSN_ENTRIES)) @ '', results truncated'')
              ((zj_diag z)\<lparr>detail_rc := ZJB_RTNCD_INSUFFICIENT_BUFFER\<rparr>)\<rparr> else z),
          map (take DSN_ENTRY_SIZE) (take (MAX_DSN_ENTRIES + 1) names))))"

section \<open>Facts\<close>

text \<open>Where every lookup succeeds, the loop keeps the jobs that fit, up to the limit.\<close>

lemma job_room: "n * JOB_INFO_SIZE \<le> b \<longleftrightarrow> n \<le> b div JOB_INFO_SIZE"
proof -
  have "b = 306 * (b div 306) + b mod 306" "0 \<le> b mod 306" "b mod 306 < 306"
    by simp_all
  then show ?thesis
    by (simp add: JOB_INFO_SIZE_def) linarith
qed

definition job_info :: "(statjqtr \<Rightarrow> int \<times> int \<times> string) \<Rightarrow> statjq \<Rightarrow> zjb_job_info" where
  "job_info lookup j = \<lparr>ji_terse = jq_terse j, ji_phase_text = c_string (take 64 (snd (snd (lookup (jq_terse j))))), ji_subsystem = subsystem_field (jq_oss j)\<rparr>"

lemma job_loop_keeps:
  assumes "\<forall>j \<in> set js. fst (lookup (jq_terse j)) = 0" "0 \<le> n" "used = n * JOB_INFO_SIZE"
    "length out = min (nat n) (nat (buffer_size div JOB_INFO_SIZE))" "n \<le> jobs_max"
  shows "\<exists>needed d'. job_loop lookup ptr jobs_max buffer_size js n used d out =
    (if n + int (length js) > jobs_max then RTNCD_WARNING else RTNCD_SUCCESS, needed, d',
     out @ take (min (nat (jobs_max - n)) (nat (buffer_size div JOB_INFO_SIZE) - length out)) (map (job_info lookup) js))"
  using assms
proof (induction js arbitrary: n used d out)
  case (Cons j js)
  show ?case
  proof (cases "n \<ge> jobs_max")
    case True
    then show ?thesis
      using Cons.prems by simp
  next
    case False
    let ?cap = "nat (buffer_size div JOB_INFO_SIZE)"
    obtain ret phase where l: "lookup (jq_terse j) = (0, ret, phase)"
      using Cons.prems(1) by (cases "lookup (jq_terse j)") auto
    have next_used: "used + JOB_INFO_SIZE = (n + 1) * JOB_INFO_SIZE"
      using Cons.prems(3) by (simp add: algebra_simps)
    then have fits: "used + JOB_INFO_SIZE \<le> buffer_size \<longleftrightarrow> nat n < ?cap"
      using Cons.prems(2) job_room [of "n + 1" buffer_size] by auto
    have n: "nat (n + 1) = Suc (nat n)" "nat (jobs_max - n) = Suc (nat (jobs_max - (n + 1)))" "0 \<le> n + 1" "n + 1 \<le> jobs_max"
      using Cons.prems(2) False by linarith+
    have rest: "\<forall>j \<in> set js. fst (lookup (jq_terse j)) = 0"
      using Cons.prems(1) by simp
    show ?thesis
    proof (cases "nat n < ?cap")
      case True
      have ji: "job_info lookup j = \<lparr>ji_terse = jq_terse j, ji_phase_text = c_string (take 64 phase), ji_subsystem = subsystem_field (jq_oss j)\<rparr>"
        using l by (simp add: job_info_def)
      have c: "?cap - length out = Suc (?cap - length (out @ [job_info lookup j]))"
        using Cons.prems(4) True unfolding length_append by simp linarith
      have "length (out @ [job_info lookup j]) = min (nat (n + 1)) ?cap"
        using Cons.prems(4) True n(1) unfolding length_append by simp linarith
      from Cons.IH [OF rest n(3) next_used this n(4)] obtain needed d' where
        "job_loop lookup ptr jobs_max buffer_size js (n + 1) (used + JOB_INFO_SIZE) (d\<lparr>detail_rc := ret\<rparr>) (out @ [job_info lookup j]) =
          (if n + 1 + int (length js) > jobs_max then RTNCD_WARNING else RTNCD_SUCCESS, needed, d', (out @ [job_info lookup j]) @
            take (min (nat (jobs_max - (n + 1))) (?cap - length (out @ [job_info lookup j]))) (map (job_info lookup) js))"
        by blast
      then show ?thesis
        using False fits True l by (intro exI [of _ needed] exI [of _ d']) (simp only: n(2) c, simp add: Let_def ji add.assoc)
    next
      case full: False
      then have c: "?cap - length out = 0" "length out = min (nat (n + 1)) ?cap"
        using Cons.prems(4) n(1) by linarith+
      from Cons.IH [OF rest n(3) next_used c(2) n(4)] obtain needed d' where
        "job_loop lookup ptr jobs_max buffer_size js (n + 1) (used + JOB_INFO_SIZE) (d\<lparr>detail_rc := ZJB_RTNCD_INSUFFICIENT_BUFFER\<rparr>) out =
          (if n + 1 + int (length js) > jobs_max then RTNCD_WARNING else RTNCD_SUCCESS, needed, d', out @
            take (min (nat (jobs_max - (n + 1))) (?cap - length out)) (map (job_info lookup) js))"
        by blast
      then show ?thesis
        using False fits full l by (intro exI [of _ needed] exI [of _ d']) (simp only: c(1), simp add: Let_def add.assoc)
    qed
  qed
qed simp

text \<open>A list of jobs has success as its return code although jobs are missing, when there are more than fit the buffer but
  not more than the limit.\<close>

lemma jobs_cut_silently:
  assumes "ssi_status ss q w = a" "sa_rc a = 0" "sa_retn a = 0" "\<forall>j \<in> set (sa_list a). fst (ssi_lookup ss (jq_terse j)) = 0"
    "int (length (sa_list a)) \<le> zj_jobs_max z"
  shows "\<exists>z'. ZJBMTCOM ss z q w = (RTNCD_SUCCESS, z', map (job_info (ssi_lookup ss)) (take (nat (zj_buffer_size z div JOB_INFO_SIZE)) (sa_list a)))"
proof -
  obtain needed d' where "job_loop (ssi_lookup ss) (ssi_pointer ss) (zj_jobs_max z) (zj_buffer_size z) (sa_list a) 0 0 (zj_diag z) [] =
      (if int (length (sa_list a)) > zj_jobs_max z then RTNCD_WARNING else RTNCD_SUCCESS, needed, d',
       take (min (nat (zj_jobs_max z)) (nat (zj_buffer_size z div JOB_INFO_SIZE))) (map (job_info (ssi_lookup ss)) (sa_list a)))"
    using job_loop_keeps [OF assms(4), of 0 0 "[]" "zj_buffer_size z" "zj_jobs_max z" "ssi_pointer ss" "zj_diag z"] assms(5) by auto
  moreover have "take (min (nat (zj_jobs_max z)) n) (sa_list a) = take n (sa_list a)" for n
    using assms(5) by (simp add: min_def take_all nat_le_iff not_le)
  ultimately show ?thesis
    using assms by (simp add: ZJBMTCOM_def jes3_never_refused RTNCD_SUCCESS_def Let_def take_map)
qed

end
