(* ===== verification/Zjb.thy ===== *)
theory Zjb
  imports Zjbm ZdsManage UssHandlers
begin

text \<open>
  The operations on jobs (\<open>zjb.cpp\<close>), on the calls of \<open>zjbm.c\<close>.  Dynamic allocation (SVC 99, \<open>dynalloc\<close>,
  \<open>dynfree\<close>), the current user and the passing of a second are parameters.  \<open>None\<close> is a field or a text unit that is
  overrun, or a wait that never ends.
\<close>

section \<open>The system\<close>

record svc99_answer =
  s9_rc :: int
  s9_error :: int
  s9_info :: int
  s9_ddname :: string

record 'w jobs =
  jb_ssi :: "'w ssi"
  jb_user :: "int \<times> string"
  jb_storage31 :: bool
  jb_svc99 :: "string \<Rightarrow> 'w \<Rightarrow> svc99_answer \<times> 'w"
  jb_dyninit :: int
  jb_dynalloc :: "'w \<Rightarrow> (int \<times> string) \<times> 'w"
  jb_dynfree :: "string \<Rightarrow> 'w \<Rightarrow> int \<times> 'w"
  jb_sleep :: "'w \<Rightarrow> 'w"

definition ZJB_RTNCD_SUBMIT_ERROR :: int where
  "ZJB_RTNCD_SUBMIT_ERROR = -3"

definition ZJB_RTNCD_UNEXPECTED_ERROR :: int where
  "ZJB_RTNCD_UNEXPECTED_ERROR = -6"

definition ZJB_RTNCD_VERBOSE_INFO_NOT_FOUND :: int where
  "ZJB_RTNCD_VERBOSE_INFO_NOT_FOUND = -8"

definition ZJB_RTNCD_JOB_DSN_KEY_NOT_FOUND :: int where
  "ZJB_RTNCD_JOB_DSN_KEY_NOT_FOUND = -9"

definition ZJB_DEFAULT_BUFFER_SIZE :: int where
  "ZJB_DEFAULT_BUFFER_SIZE = 128000"

definition ZJB_DEFAULT_MAX_JOBS :: int where
  "ZJB_DEFAULT_MAX_JOBS = 1000"

definition ZJB_DEFAULT_MAX_DDS :: int where
  "ZJB_DEFAULT_MAX_DDS = 100"

record zjob =
  zb_jobname :: string
  zb_jobid :: string
  zb_owner :: string
  zb_status :: string
  zb_full_status :: string
  zb_retcode :: string
  zb_correlator :: string
  zb_subsystem :: string
  zb_type :: string
  zb_jobclass :: string
  zb_phase :: int

record zjob_dd =
  dd_jobid :: string
  dd_ddn :: string
  dd_dsn :: string
  dd_stepname :: string
  dd_procstep :: string
  dd_key :: int

definition zjb_say :: "string \<Rightarrow> int \<Rightarrow> zjb_rec \<Rightarrow> zjb_rec" where
  "zjb_say msg detail z = z\<lparr>zj_diag := set_msg msg ((zj_diag z)\<lparr>detail_rc := detail\<rparr>)\<rparr>"

definition zjb_service :: "string \<Rightarrow> int \<Rightarrow> string \<Rightarrow> zjb_rec \<Rightarrow> zjb_rec" where
  "zjb_service name rc msg z = zjb_say msg ZJB_RTNCD_SERVICE_FAILURE (z\<lparr>zj_diag := (zj_diag z)\<lparr>service_name := name, service_rc := rc\<rparr>\<rparr>)"

section \<open>Which job\<close>

text \<open>What is longer than a job id is a correlator.\<close>

definition set_job :: "string \<Rightarrow> zjb_rec \<Rightarrow> zjb_rec" where
  "set_job jobid z = (if length jobid > 8 then z\<lparr>zj_correlator := zut_uppercase_pad_truncate jobid 64\<rparr>
     else z\<lparr>zj_jobid := zut_uppercase_pad_truncate jobid 8\<rparr>)"

definition zjb_delete :: "'w jobs \<Rightarrow> zjb_rec \<Rightarrow> string \<Rightarrow> 'w \<Rightarrow> int \<times> zjb_rec \<times> 'w" where
  "zjb_delete jb z jobid = ZJBMPRG (jb_ssi jb) (set_job jobid z)"

definition zjb_cancel :: "'w jobs \<Rightarrow> zjb_rec \<Rightarrow> string \<Rightarrow> 'w \<Rightarrow> int \<times> zjb_rec \<times> 'w" where
  "zjb_cancel jb z jobid = ZJBMCNL (jb_ssi jb) (set_job jobid z) 0"

definition zjb_hold :: "'w jobs \<Rightarrow> zjb_rec \<Rightarrow> string \<Rightarrow> 'w \<Rightarrow> int \<times> zjb_rec \<times> 'w" where
  "zjb_hold jb z jobid = ZJBMHLD (jb_ssi jb) (set_job jobid z)"

definition zjb_release :: "'w jobs \<Rightarrow> zjb_rec \<Rightarrow> string \<Rightarrow> 'w \<Rightarrow> int \<times> zjb_rec \<times> 'w" where
  "zjb_release jb z jobid = ZJBMRLS (jb_ssi jb) (set_job jobid z)"

section \<open>The data of a job\<close>

definition completion_indicator :: "u32 \<Rightarrow> byte" where
  "completion_indicator m = ucast (drop_bit 24 m)"

text \<open>The bytes of a big-endian word.\<close>

definition word_part :: "nat \<Rightarrow> u32 \<Rightarrow> byte" where
  "word_part i m = ucast (drop_bit (8 * (3 - i)) m)"

definition abend_text :: "u32 \<Rightarrow> string" where
  "abend_text m = (let full = m AND 0x00FFF000 in ''ABEND '' @
     [zut_get_hex_char (uint (drop_bit 4 (word_part 1 full))), zut_get_hex_char (uint (word_part 1 full AND 0x0F)),
      zut_get_hex_char (uint (drop_bit 4 (word_part 2 full)))])"

definition condition_text :: "u32 \<Rightarrow> string" where
  "condition_text m = (let s = show_int (uint (m AND 0x00000FFF)) in ''CC '' @ replicate (4 - length s) (CHR ''0'') @ s)"

definition job_status :: "string \<Rightarrow> string" where
  "job_status full_status = (if full_status = ''AWAIT MAIN SELECT'' then ''INPUT''
     else if full_status = ''EXECUTING'' then ''ACTIVE''
     else if full_status = ''AWAITING OUTPUT'' then ''OUTPUT''
     else full_status)"

definition job_retcode :: "string \<Rightarrow> u32 \<Rightarrow> string" where
  "job_retcode full_status m =
     (if completion_indicator m = 3 then ''JCL ERROR''
      else if completion_indicator m = 4 then ''CANCELED''
      else if completion_indicator m = 7 then ''SEC ERROR''
      else if full_status = ''AWAITING OUTPUT'' then (if completion_indicator m AND 0x80 \<noteq> 0 then abend_text m else condition_text m)
      else [])"

definition build_job :: "zjb_job_info \<Rightarrow> zjob" where
  "build_job i = (let t = ji_terse i; full_status = zut_rtrim '' '' (ji_phase_text i) in
     \<lparr>zb_jobname = tr_name t, zb_jobid = tr_jid t, zb_owner = (if hd (tr_ouid t) = nul_char then [] else tr_ouid t),
      zb_status = job_status full_status, zb_full_status = full_status, zb_retcode = job_retcode full_status (tr_mxrc t),
      zb_correlator = tr_jcor t, zb_subsystem = ji_subsystem i,
      zb_type = (if tr_jtyp t = 1 then ''STC'' else if tr_jtyp t = 2 then ''TSU'' else ''JOB''),
      zb_jobclass = tr_clas t, zb_phase = uint (tr_phaz t)\<rparr>)"

definition zjb_build_job_response :: "zjb_job_info list \<Rightarrow> zjob list" where
  "zjb_build_job_response = map build_job"

section \<open>Listing jobs\<close>

definition with_defaults :: "zjb_rec \<Rightarrow> zjb_rec" where
  "with_defaults z = z\<lparr>zj_buffer_size := (if zj_buffer_size z = 0 then ZJB_DEFAULT_BUFFER_SIZE else zj_buffer_size z),
     zj_jobs_max := (if zj_jobs_max z = 0 then ZJB_DEFAULT_MAX_JOBS else zj_jobs_max z)\<rparr>"

definition zjb_list_by_owner :: "'w jobs \<Rightarrow> zjb_rec \<Rightarrow> string \<Rightarrow> string \<Rightarrow> string \<Rightarrow> 'w \<Rightarrow> int \<times> zjb_rec \<times> zjob list" where
  "zjb_list_by_owner jb z owner_name prefix_name status_name w =
     (let owner = (if owner_name = [] then snd (zut_get_current_user (jb_user jb) owner_name) else owner_name);
          z = (with_defaults z)\<lparr>zj_owner_name := zut_uppercase_pad_truncate owner 8, zj_prefix_name := zut_uppercase_pad_truncate prefix_name 8,
            zj_status_name := zut_uppercase_pad_truncate status_name 8\<rparr> in
      case ZJBMLIST (jb_ssi jb) z w of (rc, z, infos) \<Rightarrow>
        if rc \<noteq> RTNCD_SUCCESS \<and> rc \<noteq> RTNCD_WARNING then (rc, z, []) else (rc, z, zjb_build_job_response infos))"

definition zjb_view :: "'w jobs \<Rightarrow> zjb_rec \<Rightarrow> string \<Rightarrow> 'w \<Rightarrow> int \<times> zjb_rec \<times> zjob option" where
  "zjb_view jb z jobid w = (case ZJBMVIEW (jb_ssi jb) (set_job jobid (with_defaults z)) w of (rc, z, infos) \<Rightarrow>
     if rc \<noteq> 0 then (rc, z, None)
     else (case zjb_build_job_response infos of
         [] \<Rightarrow> (RTNCD_FAILURE, zjb_say (''Could not locate job with id '' @ in_quotes (c_string jobid)) ZJB_RTNCD_JOB_NOT_FOUND z, None)
       | job # jobs \<Rightarrow> (RTNCD_SUCCESS, z, Some job)))"

text \<open>The view is repeated every second until the job has the status or the view fails.\<close>

definition waited :: "string \<Rightarrow> string \<Rightarrow> bool" where
  "waited status now \<longleftrightarrow> status = ''ACTIVE'' \<and> sublist ''OUTPUT'' now \<or> now = status"

partial_function (option) wait_loop :: "'w jobs \<Rightarrow> string \<Rightarrow> string \<Rightarrow> zjb_rec \<Rightarrow> 'w \<Rightarrow> (int \<times> zjb_rec \<times> 'w) option" where
  "wait_loop jb jobid status z w = (case zjb_view jb z jobid w of (rc, z, job) \<Rightarrow>
     let w = jb_sleep jb w in
     if rc \<noteq> 0 then Some (RTNCD_FAILURE, z, w)
     else (case job of
         None \<Rightarrow> Some (RTNCD_FAILURE, z, w)
       | Some j \<Rightarrow> if waited status (zb_status j) then Some (RTNCD_SUCCESS, z, w) else wait_loop jb jobid status z w))"

definition zjb_wait :: "'w jobs \<Rightarrow> zjb_rec \<Rightarrow> string \<Rightarrow> 'w \<Rightarrow> (int \<times> zjb_rec \<times> 'w) option" where
  "zjb_wait jb z status = wait_loop jb (zj_jobid z) status z"

section \<open>Output data sets\<close>

definition build_dd :: "string \<Rightarrow> statsevb \<Rightarrow> zjob_dd" where
  "build_dd jobid v = \<lparr>dd_jobid = jobid, dd_ddn = sv_ddnd v, dd_dsn = sv_dsn v, dd_stepname = sv_stpd v, dd_procstep = sv_prcd v, dd_key = sv_dsky v\<rparr>"

text \<open>A job that waits for its input has two data sets by convention.\<close>

definition input_dd :: "zjob \<Rightarrow> string \<Rightarrow> int \<Rightarrow> zjob_dd" where
  "input_dd job ddn key = \<lparr>dd_jobid = zb_jobid job, dd_ddn = ddn,
     dd_dsn = zut_rtrim '' '' (zb_owner job) @ ''.'' @ zut_rtrim '' '' (zb_jobname job) @ ''.'' @ zb_jobid job @ ''.'' @ ddn,
     dd_stepname = [], dd_procstep = [], dd_key = key\<rparr>"

definition zjb_list_dds :: "'w jobs \<Rightarrow> zjb_rec \<Rightarrow> string \<Rightarrow> 'w \<Rightarrow> (int \<times> zjb_rec \<times> zjob_dd list) option" where
  "zjb_list_dds jb z jobid w =
     (let z = set_job jobid (z\<lparr>zj_buffer_size := (if zj_buffer_size z = 0 then ZJB_DEFAULT_BUFFER_SIZE else zj_buffer_size z),
            zj_dds_max := (if zj_dds_max z = 0 then ZJB_DEFAULT_MAX_DDS else zj_dds_max z)\<rparr>) in
      case ZJBMLSDS (jb_ssi jb) z w of
        None \<Rightarrow> None
      | Some (rc, z, entries) \<Rightarrow>
        if rc \<noteq> RTNCD_SUCCESS \<and> rc \<noteq> RTNCD_WARNING then Some (rc, z, [])
        else if entries = [] then
          (case zjb_view jb z jobid w of
             (view_rc, z, Some job) \<Rightarrow> Some (rc, z, [input_dd job ''JESMSGLG'' 2, input_dd job ''JESJCL'' 3])
           | (view_rc, z, None) \<Rightarrow> Some (RTNCD_WARNING, zjb_say (''no output DDs found for '' @ in_quotes (c_string jobid)) ZJB_RTNCD_VERBOSE_INFO_NOT_FOUND z, []))
        else Some (rc, z, map (build_dd jobid) entries))"

definition zjb_get_job_dsn_by_key :: "'w jobs \<Rightarrow> zjb_rec \<Rightarrow> string \<Rightarrow> int \<Rightarrow> 'w \<Rightarrow> (int \<times> zjb_rec \<times> string) option" where
  "zjb_get_job_dsn_by_key jb z jobid key w = (case zjb_list_dds jb z jobid w of
     None \<Rightarrow> None
   | Some (rc, z, dds) \<Rightarrow>
     if rc \<noteq> 0 then Some (rc, z, [])
     else (case find (\<lambda>dd. key = dd_key dd) dds of
         Some dd \<Rightarrow> Some (RTNCD_SUCCESS, z, dd_dsn dd)
       | None \<Rightarrow> Some (RTNCD_WARNING, zjb_say (''Could not locate data set key '' @ in_quotes (show_int key) @ '' on job '' @ in_quotes (c_string jobid))
           ZJB_RTNCD_JOB_DSN_KEY_NOT_FOUND z, [])))"

section \<open>Allocating spool files\<close>

text \<open>The text unit of the name has room for 50 characters.\<close>

definition zjb_read_job_dynamic_allocation :: "'w jobs \<Rightarrow> zjb_rec \<Rightarrow> string \<Rightarrow> 'w \<Rightarrow> (int \<times> zjb_rec \<times> string \<times> 'w) option" where
  "zjb_read_job_dynamic_allocation jb z jobdsn w =
     (if \<not> jb_storage31 jb then
        Some (RTNCD_FAILURE, z\<lparr>zj_diag := set_msg (''Failed to allocate 31-bit memory for job parms when reading '' @ c_string jobdsn) (zj_diag z)\<rparr>, [], w)
      else if length (c_string jobdsn) > 50 then None
      else (case jb_svc99 jb (c_string jobdsn) w of (a, w) \<Rightarrow>
        if s9_rc a \<noteq> 0 \<and> s9_error a \<noteq> 0 then
          Some (RTNCD_FAILURE, zjb_service ''svc99'' (s9_rc a) (''Could not allocate job spool file '' @ in_quotes (c_string jobdsn) @ '', rc: '' @
            in_quotes (show_int (s9_rc a)) @ '' s99error: '' @ in_quotes (show_int (s9_error a)) @ '' s99info: '' @ in_quotes (show_int (s9_info a))) z, [], w)
        else if length (s9_ddname a) > 8 then None
        else Some (s9_rc a, z, c_string (s9_ddname a), w)))"

text \<open>A message that is already there is kept.\<close>

definition zjb_free_job_dynamic_allocation :: "'w jobs \<Rightarrow> zjb_rec \<Rightarrow> string \<Rightarrow> 'w \<Rightarrow> int \<times> zjb_rec \<times> 'w" where
  "zjb_free_job_dynamic_allocation jb z ddname w = (case jb_dynfree jb ddname w of (rc, w) \<Rightarrow>
     if rc \<noteq> 0 \<and> diag_msg_len (zj_diag z) = 0 then (RTNCD_FAILURE, zjb_service ''dynfree'' rc (''dynfree failed with '' @ show_int rc) z, w)
     else (rc, z, w))"

text \<open>Of the encoding the code page and the type of the data are handed on, the source code page is not.\<close>

definition spool_zds :: "zjb_rec \<Rightarrow> zds_rec" where
  "spool_zds z = blank_zds\<lparr>zd_encoding := \<lparr>codepage = codepage (zj_encoding z), source_codepage = [], data_type = data_type (zj_encoding z)\<rparr>\<rparr>"

definition zjb_read_job_content_by_dsn ::
  "'w jobs \<Rightarrow> 'w mvs \<Rightarrow> 's iconv_lib \<Rightarrow> zjb_rec \<Rightarrow> string \<Rightarrow> 'w \<Rightarrow> (int \<times> zjb_rec \<times> string \<times> 'w) option" where
  "zjb_read_job_content_by_dsn jb sys lib z dsn w = (case zjb_read_job_dynamic_allocation jb z dsn w of
     None \<Rightarrow> None
   | Some (rc, z, ddname, w) \<Rightarrow>
     if rc \<noteq> 0 then Some (rc, z, [], w)
     else (case zds_read sys lib \<lparr>op_ddname = ddname, op_dsname = dsn\<rparr> (spool_zds z) w of
         None \<Rightarrow> None
       | Some (rc, zds, response) \<Rightarrow>
         (case zjb_free_job_dynamic_allocation jb (z\<lparr>zj_diag := zd_diag zds\<rparr>) ddname w of (newrc, z, w) \<Rightarrow>
            Some (if newrc \<noteq> 0 \<and> rc = 0 then newrc else rc, z, response, w))))"

definition zjb_read_jobs_output_by_key ::
  "'w jobs \<Rightarrow> 'w mvs \<Rightarrow> 's iconv_lib \<Rightarrow> zjb_rec \<Rightarrow> string \<Rightarrow> int \<Rightarrow> 'w \<Rightarrow> (int \<times> zjb_rec \<times> string \<times> 'w) option" where
  "zjb_read_jobs_output_by_key jb sys lib z jobid key w = (case zjb_get_job_dsn_by_key jb z jobid key w of
     None \<Rightarrow> None
   | Some (rc, z, job_dsn) \<Rightarrow> if rc \<noteq> 0 then Some (rc, z, [], w) else zjb_read_job_content_by_dsn jb sys lib z job_dsn w)"

text \<open>The JCL of a job has the first three qualifiers of its first data set.\<close>

definition zjb_read_job_jcl :: "'w jobs \<Rightarrow> 'w mvs \<Rightarrow> 's iconv_lib \<Rightarrow> zjb_rec \<Rightarrow> string \<Rightarrow> 'w \<Rightarrow> (int \<times> zjb_rec \<times> string \<times> 'w) option" where
  "zjb_read_job_jcl jb sys lib z jobid w = (case zjb_list_dds jb z jobid w of
     None \<Rightarrow> None
   | Some (rc, z, dds) \<Rightarrow>
     if rc \<noteq> 0 then Some (rc, z, [], w)
     else (case getlines (CHR ''.'') (dd_dsn (hd dds)) of
         a # b # c # _ \<Rightarrow> zjb_read_job_content_by_dsn jb sys lib z (a @ ''.'' @ b @ ''.'' @ c @ ''.JCL'') w
       | _ \<Rightarrow> Some (RTNCD_FAILURE, zjb_say (''Unexpected data set name '' @ in_quotes (c_string (dd_dsn (hd dds))) @ '' for jobid '' @ c_string jobid)
           ZJB_RTNCD_UNEXPECTED_ERROR z, [], w)))"

section \<open>Submitting\<close>

text \<open>A symbol is copied into a field of its length and one byte more.\<close>

definition symbol_in :: "'w jobs \<Rightarrow> zjb_rec \<Rightarrow> string \<Rightarrow> nat \<Rightarrow> 'w \<Rightarrow> ((int \<times> zjb_rec) + string) option" where
  "symbol_in jb z symbol len w = (case ZJBSYMB (jb_ssi jb) z symbol w of
     Inl r \<Rightarrow> Some (Inl r)
   | Inr value \<Rightarrow> if length value > len then None else Some (Inr value))"

text \<open>After the write: the id of the job and its correlator are JES symbols.\<close>

definition submitted :: "'w jobs \<Rightarrow> zjb_rec \<Rightarrow> string \<Rightarrow> 'w \<Rightarrow> (int \<times> zjb_rec \<times> string \<times> 'w) option" where
  "submitted jb z ddname w = (case symbol_in jb z ''SYS_LASTJOBID'' 8 w of
     None \<Rightarrow> None
   | Some (Inl (rc, z)) \<Rightarrow> Some (rc, z, [], snd (jb_dynfree jb ddname w))
   | Some (Inr value) \<Rightarrow> (let jobid = c_string value in
       if jobid = [] then Some (RTNCD_FAILURE, zjb_say ''job submission failed'' ZJB_RTNCD_SUBMIT_ERROR
           (z\<lparr>zj_diag := (zj_diag z)\<lparr>service_name := ''intrdr''\<rparr>\<rparr>), jobid, snd (jb_dynfree jb ddname w))
       else (case symbol_in jb z ''SYS_CORR_LASTJOB'' 64 w of
         None \<Rightarrow> None
       | Some (Inl (rc, z)) \<Rightarrow> Some (rc, z, jobid, snd (jb_dynfree jb ddname w))
       | Some (Inr correlator) \<Rightarrow> (let z = z\<lparr>zj_correlator := correlator @ replicate (64 - length correlator) nul_char\<rparr> in
           case jb_dynfree jb ddname w of (rc, w) \<Rightarrow>
             if rc \<noteq> 0 then Some (RTNCD_FAILURE, zjb_service ''dynfree'' rc (''dynfree failed with '' @ show_int rc) z, jobid, w)
             else Some (RTNCD_SUCCESS, z, jobid, w)))))"

definition zjb_submit :: "'w jobs \<Rightarrow> 'w mvs \<Rightarrow> 's iconv_lib \<Rightarrow> zjb_rec \<Rightarrow> string \<Rightarrow> 'w \<Rightarrow> (int \<times> zjb_rec \<times> string \<times> 'w) option" where
  "zjb_submit jb sys lib z contents w =
     (if jb_dyninit jb \<noteq> 0 then
        Some (RTNCD_FAILURE, zjb_service ''dyninit'' (jb_dyninit jb) (''dyninit failed with '' @ show_int (jb_dyninit jb)) z, [], w)
      else (case jb_dynalloc jb w of ((rc, ddname), w) \<Rightarrow>
        if rc \<noteq> 0 then Some (RTNCD_FAILURE, zjb_service ''dynalloc'' rc (''dynalloc failed with '' @ show_int rc) z, [], w)
        else (case zds_write sys lib \<lparr>op_ddname = ddname, op_dsname = []\<rparr> contents blank_zds w of
            None \<Rightarrow> None
          | Some (rc, zds, w) \<Rightarrow>
            if rc \<noteq> 0 then Some (rc, z\<lparr>zj_diag := zd_diag zds\<rparr>, [], snd (jb_dynfree jb ddname w))
            else submitted jb z ddname w)))"

definition zjb_submit_dsn :: "'w jobs \<Rightarrow> 'w mvs \<Rightarrow> 's iconv_lib \<Rightarrow> zjb_rec \<Rightarrow> string \<Rightarrow> 'w \<Rightarrow> (int \<times> zjb_rec \<times> string \<times> 'w) option" where
  "zjb_submit_dsn jb sys lib z dsn w = (case zds_read sys lib \<lparr>op_ddname = [], op_dsname = dsn\<rparr> blank_zds w of
     None \<Rightarrow> None
   | Some (rc, zds, contents) \<Rightarrow>
     if rc \<noteq> 0 then Some (rc, z\<lparr>zj_diag := zd_diag zds\<rparr>, [], w) else zjb_submit jb sys lib z contents w)"

section \<open>Procedure libraries\<close>

definition zjb_list_proclib :: "'w jobs \<Rightarrow> zjb_rec \<Rightarrow> 'w \<Rightarrow> (int \<times> zjb_rec \<times> string list) option" where
  "zjb_list_proclib jb z w = map_option (\<lambda>(rc, z, names). (rc, z, if rc = RTNCD_SUCCESS then names else []))
     (ZJBMLPRC (jb_ssi jb) z (MAX_DSN_ENTRIES * DSN_ENTRY_SIZE) w)"

section \<open>Facts\<close>

text \<open>With the default limit of 1000 jobs and the default buffer a list of more than 418 jobs is cut, and success is reported.\<close>

lemma with_defaults_blank: "with_defaults blank_zjb = blank_zjb\<lparr>zj_buffer_size := 128000, zj_jobs_max := 1000\<rparr>"
  by (simp add: with_defaults_def blank_zjb_def ZJB_DEFAULT_BUFFER_SIZE_def ZJB_DEFAULT_MAX_JOBS_def)

lemma job_list_cut:
  assumes "\<And>q. ssi_status (jb_ssi jb) q w = a" "sa_rc a = 0" "sa_retn a = 0" "\<forall>j \<in> set (sa_list a). fst (ssi_lookup (jb_ssi jb) (jq_terse j)) = 0"
    "418 < length (sa_list a)" "length (sa_list a) \<le> 1000"
  shows "case zjb_list_by_owner jb blank_zjb owner_name prefix_name status_name w of (rc, z, jobs) \<Rightarrow> rc = RTNCD_SUCCESS \<and> length jobs = 418"
proof -
  define z where "z = (with_defaults blank_zjb)\<lparr>zj_owner_name := zut_uppercase_pad_truncate
      (if owner_name = [] then snd (zut_get_current_user (jb_user jb) owner_name) else owner_name) 8,
    zj_prefix_name := zut_uppercase_pad_truncate prefix_name 8, zj_status_name := zut_uppercase_pad_truncate status_name 8\<rparr>"
  have z: "zj_jobs_max z = 1000" "zj_buffer_size z = 128000"
    by (simp_all add: z_def with_defaults_blank)
  obtain q where q: "ZJBMLIST (jb_ssi jb) z w = ZJBMTCOM (jb_ssi jb) z q w"
    by (simp add: ZJBMLIST_def)
  obtain z' where "ZJBMLIST (jb_ssi jb) z w = (RTNCD_SUCCESS, z', map (job_info (ssi_lookup (jb_ssi jb))) (take 418 (sa_list a)))"
    using jobs_cut_silently [OF assms(1-4), of z q] assms(6) z q by (auto simp: JOB_INFO_SIZE_def)
  then show ?thesis
    using assms(5) by (simp add: zjb_list_by_owner_def z_def [symmetric] zjb_build_job_response_def)
qed

text \<open>A job is looked for by its id, or by its correlator when the text is longer than an id.\<close>

lemma upper_pad_length: "length (zut_uppercase_pad_truncate s n) = n"
  by (simp add: zut_uppercase_pad_truncate_def Let_def)

lemma set_job_key:
  assumes "zj_jobid z = replicate 8 nul_char"
  shows "key_of (set_job jobid z) = (if length jobid > 8 then CorrelatorKey (zut_uppercase_pad_truncate jobid 64)
    else if hd (zut_uppercase_pad_truncate jobid 8) = nul_char then CorrelatorKey (zj_correlator z)
    else JobIdKey (zut_uppercase_pad_truncate jobid 8))"
  using assms by (simp add: key_of_def set_job_def)

text \<open>A purge asks for one modification, of the job it names, and fails when none was made.\<close>

lemma delete_asks_once:
  assumes "ssi_modify (jb_ssi jb) ModifyPurge 0x10 (key_of (set_job jobid blank_zjb)) w = (a, w')" "ma_rc a = 0" "ma_retn a = 0"
  shows "\<exists>z. zjb_delete jb blank_zjb jobid w = (if ma_count a = 0 then RTNCD_FAILURE else RTNCD_SUCCESS, z, w')"
  using assms by (simp add: zjb_delete_def ZJBMPRG_def ZJBMMOD_def jes3_never_refused RTNCD_SUCCESS_def Let_def)

text \<open>What is read of a spool file does not depend on the source code page.\<close>

lemma source_codepage_ignored: "spool_zds (z\<lparr>zj_encoding := (zj_encoding z)\<lparr>source_codepage := s\<rparr>\<rparr>) = spool_zds z"
  by (simp add: spool_zds_def)

text \<open>A spool file that was allocated is freed once, whatever the read answers.\<close>

lemma spool_file_freed:
  assumes "zjb_read_job_dynamic_allocation jb z dsn w = Some (0, z1, ddname, w1)"
    "zds_read sys lib \<lparr>op_ddname = ddname, op_dsname = dsn\<rparr> (spool_zds z1) w1 = Some (rc, zds, s)"
  shows "\<exists>rc' z'. zjb_read_job_content_by_dsn jb sys lib z dsn w = Some (rc', z', s, snd (jb_dynfree jb ddname w1)) \<and> (rc \<noteq> 0 \<longrightarrow> rc' = rc)"
  using assms by (auto simp: zjb_read_job_content_by_dsn_def zjb_free_job_dynamic_allocation_def split: prod.splits)

text \<open>A wait ends when the job gets to the status, however long that takes.\<close>

lemma wait_ends:
  assumes "\<And>z k. k \<le> n \<Longrightarrow> \<exists>z' j. zjb_view jb z jobid ((jb_sleep jb ^^ k) w) = (0, z', Some j) \<and> (waited status (zb_status j) \<longleftrightarrow> k = n)"
  shows "\<exists>z'. wait_loop jb jobid status z w = Some (RTNCD_SUCCESS, z', (jb_sleep jb ^^ Suc n) w)"
  using assms
proof (induction n arbitrary: z w)
  case 0
  from this [of 0 z] show ?case
    by (auto simp: wait_loop.simps)
next
  case (Suc n)
  from Suc.prems [of 0 z] obtain z1 j where v: "zjb_view jb z jobid w = (0, z1, Some j)" "\<not> waited status (zb_status j)"
    by auto
  have "\<exists>z' j. zjb_view jb z jobid ((jb_sleep jb ^^ k) (jb_sleep jb w)) = (0, z', Some j) \<and> (waited status (zb_status j) \<longleftrightarrow> k = n)" if "k \<le> n" for z k
    using Suc.prems [of "Suc k" z] that by (simp add: funpow_swap1)
  from Suc.IH [OF this, of z1] show ?case
    using v by (simp add: wait_loop.simps [of _ _ _ _ w] funpow_swap1)
qed

text \<open>The 101st data set of the procedure libraries is written past the buffer.\<close>

lemma proclib_overrun:
  assumes "ssi_proclib (jb_ssi jb) w = a" "pa_rc a = 0" "pa_retn a = 0" "length (concat (pa_libraries a)) > 100"
  shows "zjb_list_proclib jb z w = None"
proof -
  have "length (take (MAX_DSN_ENTRIES + 1) (concat (pa_libraries a))) = 101"
    using assms(4) by (simp add: MAX_DSN_ENTRIES_def)
  then show ?thesis
    using assms by (simp add: zjb_list_proclib_def ZJBMLPRC_def jes3_never_refused RTNCD_SUCCESS_def MAX_DSN_ENTRIES_def DSN_ENTRY_SIZE_def Let_def)
qed

end
