(* ===== verification/JobHandlers.thy ===== *)
theory JobHandlers
  imports Zjb DsHandlers
begin

text \<open>
  The handlers of the job commands (\<open>commands/job.cpp\<close>), on the operations of \<open>zjb.cpp\<close>.  A handler is \<open>None\<close> where
  an operation overruns a field or a wait never ends.  The regular expressions of the C library are a parameter.
\<close>

definition job_message :: "zjb_rec \<Rightarrow> string" where
  "job_message z = c_string (diag_msg (zj_diag z))"

definition job_failed :: "string \<Rightarrow> zjb_rec \<Rightarrow> 'w ctx \<Rightarrow> outcome \<times> 'w ctx" where
  "job_failed line z c = (Returned RTNCD_FAILURE, err_line (''  Details: '' @ job_message z) (err_line line c))"

section \<open>Listing\<close>

definition trimmed_field :: "string \<Rightarrow> string \<Rightarrow> string \<times> ast option" where
  "trimmed_field key s = (key, Some (AString (zut_rtrim '' '' s)))"

definition shown_field :: "string \<Rightarrow> string \<Rightarrow> (string \<times> ast option) list" where
  "shown_field key s = (if s \<noteq> [] then [(key, Some (AString s))] else [])"

text \<open>The object of a job under the id that is shown for it.\<close>

definition job_object :: "string \<Rightarrow> zjob \<Rightarrow> ast" where
  "job_object jobid j = AObject ([(''id'', Some (AString jobid)), trimmed_field ''name'' (zb_jobname j)] @
     shown_field ''subsystem'' (zut_rtrim '' '' (zb_subsystem j)) @
     [trimmed_field ''owner'' (zb_owner j), (''status'', Some (AString (zb_status j))), (''type'', Some (AString (zb_type j))),
      trimmed_field ''class'' (zb_jobclass j)] @
     shown_field ''retcode'' (zb_retcode j) @ shown_field ''correlator'' (zut_rtrim '' '' (zb_correlator j)) @
     [(''phase'', Some (AInteger (zb_phase j))), (''phaseName'', Some (AString (zb_full_status j)))])"

definition job_row :: "bool \<Rightarrow> zjob \<Rightarrow> string" where
  "job_row emit_csv j = (if emit_csv then zut_format_as_csv [zb_jobid j, zb_jobname j, zb_owner j, zb_status j, zb_retcode j]
     else zb_jobid j @ '' '' @ zb_jobname j @ '' '' @ zb_owner j @ '' '' @ pad_right 7 (zb_status j) @ '' '' @ zb_retcode j)"

definition handle_job_list :: "'w jobs \<Rightarrow> 'w handler" where
  "handle_job_list jb c =
     (let owner_name = arg_string ''owner'' [] c; warn = io_get_bool_default ''warn'' True (args c);
          emit_csv = io_get_bool_default ''response-format-csv'' False (args c) in
      case zjb_list_by_owner jb (blank_zjb\<lparr>zj_jobs_max := request_limit c\<rparr>) owner_name (arg_string ''prefix'' ''*'' c) (arg_string ''status'' ''*'' c) (world c) of
        (rc, z, jobs) \<Rightarrow>
          if rc = RTNCD_SUCCESS \<or> rc = RTNCD_WARNING then
            (list_return warn rc, show_warning warn rc (Some ''Warning: results truncated'')
              (set_object (Some (list_object (map (\<lambda>j. job_object (zb_jobid j) j) jobs))) (list_rows (map (job_row emit_csv) jobs) c)))
          else job_failed (rc_text ''Error: could not list jobs for: '' owner_name rc) z c)"

definition dd_fields :: "zjob_dd \<Rightarrow> string list" where
  "dd_fields d = [dd_ddn d, dd_dsn d, show_int (dd_key d), dd_stepname d, dd_procstep d]"

definition dd_row :: "zjob_dd \<Rightarrow> string" where
  "dd_row d = pad_right 9 (dd_ddn d) @ '' '' @ dd_dsn d @ '' '' @ pad_right 4 (show_int (dd_key d)) @ '' '' @ dd_stepname d @ '' '' @ dd_procstep d"

text \<open>The vector of the fields is not emptied between the rows: a row in CSV starts with the fields of all rows before it.\<close>

fun dd_csv_rows :: "string list \<Rightarrow> zjob_dd list \<Rightarrow> string list" where
  "dd_csv_rows fs [] = []"
| "dd_csv_rows fs (d # ds) = zut_format_as_csv (fs @ dd_fields d) # dd_csv_rows (fs @ dd_fields d) ds"

definition dd_object :: "zjob_dd \<Rightarrow> ast" where
  "dd_object d = AObject [trimmed_field ''ddname'' (dd_ddn d), trimmed_field ''dsname'' (dd_dsn d), (''id'', Some (AInteger (dd_key d))),
     trimmed_field ''stepname'' (dd_stepname d), trimmed_field ''procstep'' (dd_procstep d)]"

definition handle_job_list_files :: "'w jobs \<Rightarrow> 'w partial_handler" where
  "handle_job_list_files jb c =
     (let jobid = arg_string ''jobid'' [] c; warn = io_get_bool_default ''warn'' True (args c);
          emit_csv = io_get_bool_default ''response-format-csv'' False (args c) in
      map_option (\<lambda>(rc, z, dds).
        if rc = RTNCD_SUCCESS \<or> rc = RTNCD_WARNING then
          (list_return warn rc, show_warning warn rc (Some (''Warning: '' @ job_message z))
            (set_object (Some (list_object (map dd_object dds))) (list_rows (if emit_csv then dd_csv_rows [] dds else map dd_row dds) c)))
        else job_failed (rc_text ''Error: could not list files for: '' jobid rc) z c)
      (zjb_list_dds jb (blank_zjb\<lparr>zj_dds_max := request_limit c\<rparr>) jobid (world c)))"

definition status_row :: "bool \<Rightarrow> zjob \<Rightarrow> string" where
  "status_row emit_csv j = (if emit_csv then zut_format_as_csv [zb_jobid j, zb_jobname j, zb_owner j, zb_status j, zb_retcode j, zb_correlator j, zb_full_status j]
     else zb_jobid j @ '' '' @ zb_jobname j @ '' '' @ zb_owner j @ '' '' @ pad_right 7 (zb_status j) @ '' '' @ pad_right 10 (zb_retcode j) @ '' '' @
       pad_right 33 (zut_rtrim '' '' (zb_correlator j)) @ '' '' @ zb_full_status j)"

definition handle_job_view_status :: "'w jobs \<Rightarrow> 'w handler" where
  "handle_job_view_status jb c =
     (let jobid = arg_string ''jobid'' [] c; emit_csv = io_get_bool_default ''response-format-csv'' False (args c) in
      case zjb_view jb blank_zjb jobid (world c) of
        (rc, z, Some j) \<Rightarrow> (Returned 0, set_object (Some (job_object jobid j)) (out_line (status_row emit_csv j) c))
      | (rc, z, None) \<Rightarrow> job_failed (rc_text ''Error: could not view job status for: '' jobid rc) z c)"

section \<open>Viewing\<close>

definition job_request :: "'w ctx \<Rightarrow> zjb_rec" where
  "job_request c = blank_zjb\<lparr>zj_encoding := zu_encoding (request_encoding c)\<rparr>"

text \<open>The content as text, or as bytes when an encoding is given and bytes are asked for.\<close>

definition show_content :: "string \<Rightarrow> 'w ctx \<Rightarrow> 'w ctx" where
  "show_content resp c = c\<lparr>output_stream := output_stream c @
     (if io_has ''encoding'' (args c) \<and> io_get_bool_default ''response-format-bytes'' False (args c) then zut_print_string_as_bytes resp else resp)\<rparr>"

definition handle_job_view_file :: "'w jobs \<Rightarrow> 'w mvs \<Rightarrow> 's iconv_lib \<Rightarrow> 'w partial_handler" where
  "handle_job_view_file jb sys lib c = (let dsn = map to_upper (arg_string ''dsn'' [] c) in
     map_option (\<lambda>(rc, z, resp, w). let c = c\<lparr>world := w\<rparr> in
       if rc \<noteq> 0 then job_failed (rc_text ''Error: could not view job file for: '' dsn rc) z c
       else (Returned RTNCD_SUCCESS, show_content resp c))
     (zjb_read_job_content_by_dsn jb sys lib (job_request c) dsn (world c)))"

definition handle_job_view_file_by_id :: "'w jobs \<Rightarrow> 'w mvs \<Rightarrow> 's iconv_lib \<Rightarrow> 'w partial_handler" where
  "handle_job_view_file_by_id jb sys lib c = (let jobid = arg_string ''jobid'' [] c; key = arg_int ''key'' 0 c in
     map_option (\<lambda>(rc, z, resp, w). let c = c\<lparr>world := w\<rparr> in
       if rc \<noteq> 0 then job_failed (''Error: could not view job file for: '' @ quoted jobid @ '' with key '' @ quoted (show_int key) @ '' rc: '' @ quoted (show_int rc)) z c
       else (Returned RTNCD_SUCCESS, show_content resp c))
     (zjb_read_jobs_output_by_key jb sys lib (job_request c) jobid (to_int key) (world c)))"

definition handle_job_view_jcl :: "'w jobs \<Rightarrow> 'w mvs \<Rightarrow> 's iconv_lib \<Rightarrow> 'w partial_handler" where
  "handle_job_view_jcl jb sys lib c = (let jobid = arg_string ''jobid'' [] c in
     map_option (\<lambda>(rc, z, resp, w). let c = c\<lparr>world := w\<rparr> in
       if rc \<noteq> 0 then job_failed (rc_text ''Error: could not view job file for: '' jobid rc) z c
       else (Returned 0, c\<lparr>output_stream := output_stream c @ resp\<rparr>))
     (zjb_read_job_jcl jb sys lib blank_zjb jobid (world c)))"

section \<open>Submitting\<close>

definition strip_cr_line :: "string \<Rightarrow> string" where
  "strip_cr_line l = (if l \<noteq> [] \<and> last l = CHR 0x0D then butlast l else l)"

text \<open>Lines of exactly 80 characters, without newlines.\<close>

definition card_image :: "string \<Rightarrow> string" where
  "card_image l = (let l = strip_cr_line l in take 80 l @ replicate (80 - length l) (CHR '' ''))"

definition card_images :: "string \<Rightarrow> string" where
  "card_images jcl = concat (map card_image (getlines newline jcl))"

text \<open>What is shown of a submitted job.\<close>

definition submitted_text :: "string \<Rightarrow> string \<Rightarrow> zjob \<Rightarrow> zjb_rec \<Rightarrow> 'w ctx \<Rightarrow> string" where
  "submitted_text identifier jobid job z c =
     (if io_get_bool_default ''only-jobid'' False (args c) then jobid
      else if io_get_bool_default ''only-correlator'' False (args c) then zj_correlator z
      else ''Submitted '' @ identifier @ '', '' @ zb_jobname job @ ''('' @ jobid @ '')'')"

definition submit_result :: "string \<Rightarrow> zjob \<Rightarrow> 'w ctx \<Rightarrow> 'w ctx" where
  "submit_result jobid job = set_object (Some (AObject [(''jobId'', Some (AString jobid)), (''jobName'', Some (AString (zb_jobname job)))]))"

definition wait_for_job :: "'w jobs \<Rightarrow> string \<Rightarrow> zjob \<Rightarrow> zjb_rec \<Rightarrow> 'w partial_handler" where
  "wait_for_job jb jobid job z c = (let wait = map to_upper (arg_string ''wait'' [] c) in
     if wait = ''OUTPUT'' \<or> wait = ''ACTIVE'' then
       map_option (\<lambda>(rc, z, w). let c = c\<lparr>world := w\<rparr> in
         if rc \<noteq> 0 then job_failed (rc_text ''Error: could not wait for job status: '' wait rc) z c
         else (Returned rc, submit_result jobid job c))
       (zjb_wait jb z wait (world c))
     else if wait \<noteq> [] then Some (Returned RTNCD_FAILURE, err_line (''Error: cannot wait for unknown status '' @ quoted wait) c)
     else Some (Returned 0, submit_result jobid job c))"

definition job_submit_common :: "'w jobs \<Rightarrow> 'w mvs \<Rightarrow> 's iconv_lib \<Rightarrow> string \<Rightarrow> string \<Rightarrow> bool \<Rightarrow> 'w partial_handler" where
  "job_submit_common jb sys lib jcl identifier strip_crlf c =
     (case zjb_submit jb sys lib blank_zjb (if strip_crlf then card_images jcl else jcl) (world c) of
        None \<Rightarrow> None
      | Some (rc, z, jobid, w) \<Rightarrow> (let c = c\<lparr>world := w\<rparr> in
          if rc \<noteq> 0 then Some (job_failed (rc_text ''Error: could not submit JCL: '' identifier rc) z c)
          else (case zjb_view jb z (zj_correlator z) w of
              (rc, z, None) \<Rightarrow> Some (job_failed (rc_text ''Error: could not get job status for: '' jobid rc) z c)
            | (rc, z, Some job) \<Rightarrow> wait_for_job jb jobid job z (out_line (submitted_text identifier jobid job z c) c))))"

definition handle_job_submit :: "'w jobs \<Rightarrow> 'w mvs \<Rightarrow> 's iconv_lib \<Rightarrow> 'w partial_handler" where
  "handle_job_submit jb sys lib c = (let dsn = arg_string ''dsn'' [] c in
     case zds_read sys lib (ds_target dsn) blank_zds (world c) of
       None \<Rightarrow> None
     | Some (rc, z, contents) \<Rightarrow>
       if rc \<noteq> 0 then Some (Returned RTNCD_FAILURE, err_line (''  Details: '' @ ds_message z) (err_line (rc_text ''Error: could not read data set: '' dsn rc) c))
       else job_submit_common jb sys lib contents dsn False c)"

definition handle_job_submit_uss :: "'w jobs \<Rightarrow> 'w mvs \<Rightarrow> 'w posix \<Rightarrow> 's iconv_lib \<Rightarrow> 'w partial_handler" where
  "handle_job_submit_uss jb sys px lib c = (let uss_file = arg_string ''file-path'' [] c in
     case zusf_read_from_uss_file px lib uss_file [] blank_zusf (world c) of (rc, z, response) \<Rightarrow>
       if rc \<noteq> 0 then Some (Returned RTNCD_FAILURE, err_line response (err_line (''  Details:'' @ [newline] @ message_of z)
           (err_line (rc_text ''Error: could not view USS file: '' uss_file rc) c)))
       else job_submit_common jb sys lib response uss_file False c)"

text \<open>The text is converted to the encoding of the request unless that is binary.\<close>

definition submitted_jcl :: "'s iconv_lib \<Rightarrow> bool \<Rightarrow> 'w ctx \<Rightarrow> string result" where
  "submitted_jcl lib is_a_tty c =
     (let text_in = zut_read_input is_a_tty (input_stream c); opts = zu_encoding (request_encoding c) in
      if io_has ''encoding'' (args c) \<and> zut_prepare_encoding (arg_string ''encoding'' [] c) (zu_encoding blank_zusf) \<noteq> None \<and>
        data_type opts \<noteq> eDataTypeBinary
      then fst (zut_encode lib text_in (if source_codepage opts \<noteq> [] then source_codepage opts else ''UTF-8'') (codepage opts) blank_diag)
      else Ok text_in)"

definition handle_job_submit_jcl :: "'w jobs \<Rightarrow> 'w mvs \<Rightarrow> 's iconv_lib \<Rightarrow> bool \<Rightarrow> 'w partial_handler" where
  "handle_job_submit_jcl jb sys lib is_a_tty c = (case submitted_jcl lib is_a_tty c of
     Inl err \<Rightarrow> Some (ThrewStd err, c)
   | Inr jcl \<Rightarrow> job_submit_common jb sys lib jcl ''JCL'' True c)"

section \<open>Changing a job\<close>

definition change_job :: "('w jobs \<Rightarrow> zjb_rec \<Rightarrow> string \<Rightarrow> 'w \<Rightarrow> int \<times> zjb_rec \<times> 'w) \<Rightarrow> string \<Rightarrow> string \<Rightarrow> 'w jobs \<Rightarrow> 'w handler" where
  "change_job change verb past jb c = (let jobid = arg_string ''jobid'' [] c in
     case change jb blank_zjb jobid (world c) of (rc, z, w) \<Rightarrow> let c = c\<lparr>world := w\<rparr> in
       if rc \<noteq> 0 then job_failed (rc_text (''Error: could not '' @ verb @ '' job: '') jobid rc) z c
       else (Returned RTNCD_SUCCESS, out_line (''Job '' @ jobid @ '' '' @ past @ '' '') c))"

definition handle_job_delete :: "'w jobs \<Rightarrow> 'w handler" where
  "handle_job_delete = change_job zjb_delete ''delete'' ''deleted''"

definition handle_job_cancel :: "'w jobs \<Rightarrow> 'w handler" where
  "handle_job_cancel = change_job zjb_cancel ''cancel'' ''cancelled''"

definition handle_job_hold :: "'w jobs \<Rightarrow> 'w handler" where
  "handle_job_hold = change_job zjb_hold ''hold'' ''held''"

definition handle_job_release :: "'w jobs \<Rightarrow> 'w handler" where
  "handle_job_release = change_job zjb_release ''release'' ''released''"

section \<open>Watching spool content\<close>

text \<open>A pattern between slashes is a regular expression.\<close>

definition parse_regex_pattern :: "string \<Rightarrow> bool \<times> string" where
  "parse_regex_pattern input = (if length input \<ge> 2 \<and> hd input = CHR ''/'' \<and> last input = CHR ''/''
     then (True, butlast (tl input)) else (False, input))"

datatype regex_answer = Matched int | NoMatch | MatchError string

type_synonym regex = "string \<Rightarrow> string + (string \<Rightarrow> regex_answer)"

text \<open>The line around a position.\<close>

definition line_at :: "nat \<Rightarrow> string \<Rightarrow> string" where
  "line_at start response = rev (takeWhile (\<lambda>ch. ch \<noteq> newline) (rev (take start response))) @ takeWhile (\<lambda>ch. ch \<noteq> newline) (drop start response)"

fun search_ci :: "string \<Rightarrow> string \<Rightarrow> string option" where
  "search_ci pattern [] = None"
| "search_ci pattern (ch # s) = (if prefix (map to_lower pattern) (map to_lower (ch # s)) then Some (take (length pattern) (ch # s)) else search_ci pattern s)"

text \<open>One look at the content: the text that matched, and what is reported of the pattern.\<close>

definition look_for :: "regex \<Rightarrow> bool \<Rightarrow> bool \<Rightarrow> string \<Rightarrow> string \<Rightarrow> string option \<times> string option" where
  "look_for re is_regex any_case pattern response =
     (if is_regex then
        (case re (c_string pattern) of
           Inl err \<Rightarrow> (None, Some (''Error: invalid regex pattern: '' @ quoted pattern @ '' - '' @ err))
         | Inr match \<Rightarrow> (case match (c_string response) of
             Matched start \<Rightarrow> (if start \<ge> 0 then Some (line_at (nat start) response) else None, None)
           | NoMatch \<Rightarrow> (None, None)
           | MatchError err \<Rightarrow> (None, Some (''Debug: regexec error: '' @ err))))
      else if any_case then (search_ci pattern response, None)
      else (if sublist pattern response then Some pattern else None, None))"

text \<open>The second argument is the number of seconds that have passed, the first how many are left.\<close>

fun watch_loop ::
  "nat \<Rightarrow> nat \<Rightarrow> (zjb_rec \<Rightarrow> 'w \<Rightarrow> (int \<times> zjb_rec \<times> string \<times> 'w) option) \<Rightarrow> (string \<Rightarrow> string option \<times> string option) \<Rightarrow> ('w \<Rightarrow> 'w) \<Rightarrow>
     zjb_rec \<Rightarrow> 'w ctx \<Rightarrow> (((int \<times> zjb_rec) + nat \<times> string option) \<times> 'w ctx) option" where
  "watch_loop 0 total_sleep read_content seek sleep z c = Some (Inr (total_sleep, None), c)"
| "watch_loop (Suc n) total_sleep read_content seek sleep z c =
     (case read_content z (world c) of
        None \<Rightarrow> None
      | Some (rc, z, response, w) \<Rightarrow> (let c = c\<lparr>world := w\<rparr> in
          if rc \<noteq> 0 then Some (Inl (rc, z), c)
          else (case seek response of (hit, report) \<Rightarrow>
            let c = (case report of None \<Rightarrow> c | Some l \<Rightarrow> err_line l c) in
            (case hit of
               Some matched \<Rightarrow> Some (Inr (total_sleep, Some matched), c)
             | None \<Rightarrow> watch_loop n (total_sleep + 1) read_content seek sleep z (c\<lparr>world := sleep (world c)\<rparr>)))))"

definition MAX_WAIT_SECONDS :: int where
  "MAX_WAIT_SECONDS = 60 * 5"

definition watch_text :: "bool \<Rightarrow> string \<Rightarrow> string" where
  "watch_text is_regex pattern = quoted (if is_regex then ''Regex'' else ''string'') @ '' pattern '' @ quoted pattern @ '' in job spool files ''"

definition watch_pattern :: "'w jobs \<Rightarrow> 'w mvs \<Rightarrow> 's iconv_lib \<Rightarrow> regex \<Rightarrow> bool \<Rightarrow> bool \<Rightarrow> string \<Rightarrow> int \<Rightarrow> 'w partial_handler" where
  "watch_pattern jb sys lib re is_regex any_case pattern seconds c =
     (let job_dsn = arg_string ''job-dsn'' [] c in
      map_option (\<lambda>(r, c). case r of
          Inl (rc, z) \<Rightarrow> job_failed (rc_text ''Error: could not read job content: '' job_dsn rc) z c
        | Inr (total_sleep, Some matched) \<Rightarrow> (Returned RTNCD_SUCCESS,
            out_line matched (out_line (watch_text is_regex pattern @ ''matched in '' @ show_int (int total_sleep) @ ''s on:'') c))
        | Inr (total_sleep, None) \<Rightarrow> (Returned RTNCD_FAILURE,
            err_line (''Error: '' @ watch_text is_regex pattern @ ''was not found in '' @ show_int (int total_sleep) @ ''s'') c))
      (watch_loop (nat seconds) 0 (\<lambda>z. zjb_read_job_content_by_dsn jb sys lib z job_dsn) (look_for re is_regex any_case pattern) (jb_sleep jb) blank_zjb c))"

definition handle_job_watch :: "'w jobs \<Rightarrow> 'w mvs \<Rightarrow> 's iconv_lib \<Rightarrow> regex \<Rightarrow> 'w partial_handler" where
  "handle_job_watch jb sys lib re c =
     (case io_get arg_get_int ''max-wait-seconds'' (args c) of
        Inl err \<Rightarrow> Some (ThrewStd err, c)
      | Inr seconds \<Rightarrow>
        if seconds > MAX_WAIT_SECONDS then
          Some (Returned RTNCD_FAILURE, err_line (''Error: max-wait-seconds must be less than '' @ show_int MAX_WAIT_SECONDS @ '' seconds'') c)
        else if seconds \<le> 0 then Some (Returned RTNCD_FAILURE, err_line ''Error: max-wait-seconds must be greater than 0 seconds'' c)
        else (case parse_regex_pattern (arg_string ''pattern'' [] c) of (is_regex, pattern) \<Rightarrow>
          if io_get_bool_default ''ignore-case'' False (args c) \<and> is_regex then
            Some (Returned RTNCD_FAILURE, err_line ''Error: ignore-case is not supported for regex patterns'' c)
          else watch_pattern jb sys lib re is_regex (io_get_bool_default ''ignore-case'' False (args c)) pattern seconds c))"

section \<open>Facts\<close>

text \<open>Every row in CSV has the fields of all data sets up to its own.\<close>

lemma csv_rows_pile_up:
  "length (dd_csv_rows fs dds) = length dds"
  "i < length dds \<Longrightarrow> dd_csv_rows fs dds ! i = zut_format_as_csv (fs @ concat (map dd_fields (take (Suc i) dds)))"
  by (induction fs dds arbitrary: i rule: dd_csv_rows.induct) (auto simp: nth_Cons split: nat.splits)

text \<open>Submitted JCL is one record of 80 characters for every line.\<close>

lemma card_image_length: "length (card_image l) = 80"
  by (simp add: card_image_def Let_def)

lemma card_images_length: "length (card_images jcl) = 80 * length (getlines newline jcl)"
  by (simp add: card_images_def length_concat card_image_length comp_def sum_list_triv)

text \<open>A watch ends after at most the seconds that were asked for, and it has found the pattern when it says so.\<close>

lemma watch_outcome:
  assumes "watch_loop n total_sleep read_content seek sleep z c = Some (Inr (t, hit), c')"
  shows "total_sleep \<le> t \<and> t \<le> total_sleep + n \<and> (hit = None \<longrightarrow> t = total_sleep + n) \<and>
    (hit \<noteq> None \<longrightarrow> (\<exists>response report. seek response = (hit, report)))"
  using assms
proof (induction n arbitrary: total_sleep z c)
  case (Suc n)
  obtain rc z1 response w where r: "read_content z (world c) = Some (rc, z1, response, w)" "rc = 0"
    using Suc.prems by (cases "read_content z (world c)") (auto simp: Let_def split: if_splits)
  obtain h report where h: "seek response = (h, report)"
    by fastforce
  show ?case
  proof (cases h)
    case None
    then show ?thesis
      using Suc.prems Suc.IH r h by (fastforce simp: Let_def)
  next
    case (Some x)
    then show ?thesis
      using Suc.prems r h by (auto simp: Let_def)
  qed
qed simp

lemma watch_ends:
  "(\<And>z w. read_content z w \<noteq> None) \<Longrightarrow> watch_loop n total_sleep read_content seek sleep z c \<noteq> None"
proof (induction n arbitrary: total_sleep z c)
  case (Suc n)
  obtain rc z1 response w where r: "read_content z (world c) = Some (rc, z1, response, w)"
    using Suc.prems [of z "world c"] by (cases "read_content z (world c)") auto
  then show ?case
    using Suc.IH [OF Suc.prems] by (auto simp: Let_def split: prod.split option.split)
qed simp

text \<open>The largest number of seconds is accepted, although the message asks for less.\<close>

lemma longest_watch:
  assumes "io_get arg_get_int ''max-wait-seconds'' (args c) = Ok 300" "\<not> io_get_bool_default ''ignore-case'' False (args c)"
    "parse_regex_pattern (arg_string ''pattern'' [] c) = (is_regex, pattern)"
  shows "handle_job_watch jb sys lib re c = watch_pattern jb sys lib re is_regex False pattern 300 c"
  using assms by (simp add: handle_job_watch_def MAX_WAIT_SECONDS_def)

text \<open>An id that no job has is refused with the message of the service, and nothing is said on the output.\<close>

lemma unknown_job_refused:
  assumes "ssi_modify (jb_ssi jb) ModifyPurge 0x10 (key_of (set_job (arg_string ''jobid'' [] c) blank_zjb)) (world c) = (a, world c)"
    "ma_rc a = 0" "ma_retn a = 0" "ma_count a = 0"
  shows "case handle_job_delete jb c of (r, c') \<Rightarrow> r = Returned RTNCD_FAILURE \<and> output_stream c' = output_stream c \<and> world c' = world c"
proof -
  obtain z where "zjb_delete jb blank_zjb (arg_string ''jobid'' [] c) (world c) = (RTNCD_FAILURE, z, world c)"
    using delete_asks_once [OF assms(1-3)] assms(4) by auto
  then show ?thesis
    by (simp add: handle_job_delete_def change_job_def job_failed_def err_line_def RTNCD_FAILURE_def Let_def)
qed

end
