(* ===== verification/SysHandlers.thy ===== *)
theory SysHandlers
  imports JobHandlers
begin

text \<open>
  Consoles (\<open>zcn.cpp\<close>, \<open>zcn.hpp\<close>), TSO commands (\<open>ztso.cpp\<close>) and the handlers of the console, TSO, system and tool
  commands and of the root command (\<open>commands/console.cpp\<close>, \<open>tso.cpp\<close>, \<open>system.cpp\<close>, \<open>tool.cpp\<close>, \<open>core.cpp\<close>).  The metal C
  services are parameters that take the world and change it.
\<close>

section \<open>Consoles\<close>

definition ZCN_RTNCD_SERVICE_FAILURE :: int where
  "ZCN_RTNCD_SERVICE_FAILURE = -2"

definition ZCN_DEFAULT_BUFFER_SIZE :: int where
  "ZCN_DEFAULT_BUFFER_SIZE = 4096"

definition ZCN_DEFAULT_TIMEOUT :: int where
  "ZCN_DEFAULT_TIMEOUT = 5"

definition ZCN_MAX_TIMEOUT :: int where
  "ZCN_MAX_TIMEOUT = 30"

record zcn_rec =
  zn_console_name :: string
  zn_buffer_size :: int
  zn_timeout :: int
  zn_ecb :: bool
  zn_diag :: zdiag

definition blank_zcn :: zcn_rec where
  "blank_zcn = \<lparr>zn_console_name = replicate 8 nul_char, zn_buffer_size = 0, zn_timeout = 0, zn_ecb = False, zn_diag = blank_diag\<rparr>"

record 'w zcn_services =
  zs_storage31 :: bool
  zs_act :: "zcn_rec \<Rightarrow> 'w \<Rightarrow> int \<times> zcn_rec \<times> 'w"
  zs_put :: "zcn_rec \<Rightarrow> string \<Rightarrow> 'w \<Rightarrow> int \<times> zcn_rec \<times> 'w"
  zs_get :: "zcn_rec \<Rightarrow> 'w \<Rightarrow> int \<times> zcn_rec \<times> string \<times> 'w"
  zs_dact :: "zcn_rec \<Rightarrow> 'w \<Rightarrow> int \<times> zcn_rec \<times> 'w"

definition clear_detail :: "zcn_rec \<Rightarrow> zcn_rec" where
  "clear_detail z = z\<lparr>zn_diag := (zn_diag z)\<lparr>detail_rc := 0\<rparr>\<rparr>"

definition zcn_activate :: "'w zcn_services \<Rightarrow> zcn_rec \<Rightarrow> string \<Rightarrow> 'w \<Rightarrow> int \<times> zcn_rec \<times> 'w" where
  "zcn_activate zs z console_name w =
     (let z = (clear_detail z)\<lparr>zn_console_name := zut_uppercase_pad_truncate console_name 8\<rparr> in
      if \<not> zs_storage31 zs then (ZCN_RTNCD_SERVICE_FAILURE, z\<lparr>zn_ecb := False\<rparr>, w)
      else (case zs_act zs (z\<lparr>zn_ecb := True\<rparr>) w of (rc, z, w) \<Rightarrow> (rc, if rc \<noteq> 0 then z\<lparr>zn_ecb := False\<rparr> else z, w)))"

definition zcn_put :: "'w zcn_services \<Rightarrow> zcn_rec \<Rightarrow> string \<Rightarrow> 'w \<Rightarrow> int \<times> zcn_rec \<times> 'w" where
  "zcn_put zs z command w = (let z = clear_detail z in
     if \<not> zs_storage31 zs then (RTNCD_FAILURE, z\<lparr>zn_diag := set_msg (''Failed to allocate 31-bit memory for command: '' @ c_string command) (zn_diag z)\<rparr>, w)
     else zs_put zs z (c_string command) w)"

definition response_request :: "zcn_rec \<Rightarrow> zcn_rec" where
  "response_request z = (clear_detail z)\<lparr>zn_buffer_size := (if zn_buffer_size z = 0 then ZCN_DEFAULT_BUFFER_SIZE else zn_buffer_size z),
     zn_timeout := min (if zn_timeout z \<le> 0 then ZCN_DEFAULT_TIMEOUT else zn_timeout z) ZCN_MAX_TIMEOUT\<rparr>"

definition zcn_get :: "'w zcn_services \<Rightarrow> zcn_rec \<Rightarrow> string \<Rightarrow> 'w \<Rightarrow> int \<times> zcn_rec \<times> string \<times> 'w" where
  "zcn_get zs z response w =
     (let z = response_request z in
      if \<not> zs_storage31 zs then (RTNCD_FAILURE, z\<lparr>zn_diag := set_msg ''Failed to allocate 31-bit memory for response'' (zn_diag z)\<rparr>, response, w)
      else (case zs_get zs z w of (rc, z, resp31, w) \<Rightarrow> (rc, z, if rc = 0 then response @ c_string resp31 else response, w)))"

definition zcn_deactivate :: "'w zcn_services \<Rightarrow> zcn_rec \<Rightarrow> 'w \<Rightarrow> int \<times> zcn_rec \<times> 'w" where
  "zcn_deactivate zs z w = zs_dact zs ((clear_detail z)\<lparr>zn_ecb := False\<rparr>) w"

text \<open>A session, which deactivates its console when it ends.\<close>

record zcn_session =
  ss_active :: bool
  ss_zcn :: zcn_rec

definition session_deactivate :: "'w zcn_services \<Rightarrow> zcn_session \<Rightarrow> 'w \<Rightarrow> int \<times> zcn_session \<times> 'w" where
  "session_deactivate zs s w = (if \<not> ss_active s then (0, s, w)
     else (case zcn_deactivate zs (ss_zcn s) w of (rc, z, w) \<Rightarrow> (rc, \<lparr>ss_active = False, ss_zcn = z\<rparr>, w)))"

definition session_activate :: "'w zcn_services \<Rightarrow> zcn_session \<Rightarrow> string \<Rightarrow> 'w \<Rightarrow> int \<times> zcn_session \<times> 'w" where
  "session_activate zs s name w =
     (case (if ss_active s then session_deactivate zs s w else (0, s, w)) of (rc, s, w) \<Rightarrow>
        if rc \<noteq> 0 then (rc, s, w)
        else (case zcn_activate zs (ss_zcn s) name w of (rc, z, w) \<Rightarrow> (rc, \<lparr>ss_active = (rc = 0), ss_zcn = z\<rparr>, w)))"

text \<open>The end of a handler: the destructor of the session runs.\<close>

definition end_session :: "'w zcn_services \<Rightarrow> zcn_session \<Rightarrow> outcome \<times> 'w ctx \<Rightarrow> outcome \<times> 'w ctx" where
  "end_session zs s r = (case r of (x, c) \<Rightarrow> (x, c\<lparr>world := snd (snd (session_deactivate zs s (world c)))\<rparr>))"

definition console_failed :: "string \<Rightarrow> string \<Rightarrow> int \<Rightarrow> zcn_rec \<Rightarrow> 'w ctx \<Rightarrow> outcome \<times> 'w ctx" where
  "console_failed lead name rc z c = (Returned RTNCD_FAILURE, err_line (''  Details: '' @ c_string (diag_msg (zn_diag z))) (err_line (rc_text lead name rc) c))"

definition console_finish :: "'w zcn_services \<Rightarrow> string \<Rightarrow> zcn_session \<Rightarrow> 'w handler" where
  "console_finish zs name s c = (case session_deactivate zs s (world c) of (rc, s, w) \<Rightarrow>
     end_session zs s (if rc \<noteq> 0 then console_failed ''Error: could not deactivate console: '' name rc (ss_zcn s) (c\<lparr>world := w\<rparr>)
       else (Returned rc, c\<lparr>world := w\<rparr>)))"

definition handle_console_issue :: "'w zcn_services \<Rightarrow> 'w handler" where
  "handle_console_issue zs c =
     (let name = arg_string ''console-name'' ''zowex'' c; timeout = arg_int ''timeout'' 0 c; command = arg_string ''command'' [] c;
          z = (if timeout > 0 then blank_zcn\<lparr>zn_timeout := to_int timeout\<rparr> else blank_zcn) in
      case session_activate zs \<lparr>ss_active = False, ss_zcn = z\<rparr> name (world c) of (rc, s, w) \<Rightarrow> let c = c\<lparr>world := w\<rparr> in
        if rc \<noteq> 0 then end_session zs s (console_failed ''Error: could not activate console: '' name rc (ss_zcn s) c)
        else (case zcn_put zs (ss_zcn s) command (world c) of (rc, z, w) \<Rightarrow> let s = s\<lparr>ss_zcn := z\<rparr>; c = c\<lparr>world := w\<rparr> in
          if rc \<noteq> 0 then end_session zs s (console_failed ''Error: could not write to console: '' name rc z c)
          else if \<not> io_get_bool_default ''wait'' True (args c) then console_finish zs name s c
          else (case zcn_get zs z [] (world c) of (rc, z, response, w) \<Rightarrow> let s = s\<lparr>ss_zcn := z\<rparr>; c = c\<lparr>world := w\<rparr> in
            if rc \<noteq> 0 then end_session zs s (console_failed ''Error: could not get from console: '' name rc z c)
            else console_finish zs name s (out_line response c))))"

section \<open>TSO\<close>

text \<open>The first line, in which \<open>tsocmd\<close> repeats the command, is dropped.\<close>

definition drop_first_line :: "string \<Rightarrow> string" where
  "drop_first_line s = (if newline \<in> set s then tl (dropWhile (\<lambda>ch. ch \<noteq> newline) s) else s)"

definition ztso_issue :: "run_answers \<Rightarrow> string list \<Rightarrow> string \<Rightarrow> nat list \<Rightarrow> (int \<times> string) option" where
  "ztso_issue a environ command fds = map_option (\<lambda>r. (run_rc r, drop_first_line (stdout_response r)))
     (zut_run_program_merged a environ ''tsocmd'' [command] fds)"

definition handle_tso_issue :: "run_answers \<Rightarrow> string list \<Rightarrow> nat list \<Rightarrow> 'w partial_handler" where
  "handle_tso_issue a environ fds c = map_option (\<lambda>(rc, response).
       (Returned rc, out_line response (if rc \<noteq> 0 then err_line (''  Details: '' @ response)
          (err_line (''Error running command, rc '' @ quoted (show_int rc)) c) else c)))
     (ztso_issue a environ (arg_string ''command'' [] c) fds)"

section \<open>System queries\<close>

definition handle_system_display_symbol :: "(string \<Rightarrow> int \<times> string) \<Rightarrow> bool \<Rightarrow> 'w handler" where
  "handle_system_display_symbol symbp storage c = (let symbol = CHR ''&'' # map to_upper (arg_string ''symbol'' [] c) in
     case zut_substitute_symbol symbp storage symbol [] of (rc, value) \<Rightarrow>
       if rc \<noteq> 0 then (Returned RTNCD_FAILURE, err_line (''Error: asasymbf with parm '' @ quoted symbol @ '' rc: '' @ quoted (show_int rc)) c)
       else (Returned RTNCD_SUCCESS, out_line value c))"

definition query_failed :: "string \<Rightarrow> int \<Rightarrow> zdiag \<Rightarrow> 'w ctx \<Rightarrow> outcome \<times> 'w ctx" where
  "query_failed lead rc d c = (Returned RTNCD_FAILURE, err_line (''  Details: '' @ c_string (diag_msg d)) (err_line (lead @ quoted (show_int rc)) c))"

definition handle_system_list_parmlib :: "int \<times> int \<times> string list \<Rightarrow> zdiag \<Rightarrow> 'w handler" where
  "handle_system_list_parmlib answer d c = (case zut_list_parmlib answer [] of (rc, parmlibs) \<Rightarrow>
     if rc \<noteq> 0 then query_failed ''Error: could not list parmlibs rc: '' rc d c else (Returned rc, list_rows parmlibs c))"

definition handle_system_list_proclib :: "'w jobs \<Rightarrow> 'w partial_handler" where
  "handle_system_list_proclib jb c = map_option (\<lambda>(rc, z, proclib).
       if rc \<noteq> 0 then query_failed ''Error: could not list proclib, rc: '' rc (zj_diag z) c else (Returned RTNCD_SUCCESS, list_rows proclib c))
     (zjb_list_proclib jb blank_zjb (world c))"

text \<open>The service is asked with the filter in upper case.\<close>

definition handle_system_list_subsystems :: "(string \<Rightarrow> int \<times> byte list list) \<Rightarrow> zdiag \<Rightarrow> 'w handler" where
  "handle_system_list_subsystems service d c =
     (case zut_list_subsystems (service (map to_upper (arg_string ''filter'' ''*'' c))) [] of (rc, subsystems) \<Rightarrow>
        if rc \<noteq> 0 then query_failed ''Error: could not list subsystems, rc: '' rc d c else (Returned RTNCD_SUCCESS, list_rows subsystems c))"

section \<open>Tools\<close>

definition allocation_failed :: "zdiag \<Rightarrow> 'w ctx \<Rightarrow> outcome \<times> 'w ctx" where
  "allocation_failed d c = (Returned RTNCD_FAILURE, err_line (''  Details: '' @ c_string (diag_msg d)) (err_line ''Error: allocation failed'' c))"

text \<open>The DDs are freed at the end, and what that answers is not looked at.\<close>

definition free_dds :: "'w mvs \<Rightarrow> string list \<Rightarrow> zdiag \<Rightarrow> outcome \<times> 'w ctx \<Rightarrow> (outcome \<times> 'w ctx) option" where
  "free_dds sys dds d r = (case r of (x, c) \<Rightarrow>
     map_option (\<lambda>(rc, d, w). (x, c\<lparr>world := w\<rparr>)) (zut_free_dynalloc_dds (mvs_dynalloc sys) dds d (world c)))"

definition with_dds :: "'w mvs \<Rightarrow> string list \<Rightarrow> (zdiag \<Rightarrow> 'w partial_handler) \<Rightarrow> 'w partial_handler" where
  "with_dds sys dds use c = (case zut_loop_dynalloc (mvs_dynalloc sys) dds blank_diag (world c) of
     None \<Rightarrow> None
   | Some (rc, d, w) \<Rightarrow> if rc \<noteq> 0 then Some (allocation_failed d (c\<lparr>world := w\<rparr>)) else use d (c\<lparr>world := w\<rparr>))"

definition convert_dds :: "string \<Rightarrow> string \<Rightarrow> string \<Rightarrow> string \<Rightarrow> string list" where
  "convert_dds sysprint sysout adata_dsn chdr_dsn =
     [''alloc fi(sysprint) path('' @ in_quotes sysprint @ '') pathopts(owronly,ocreat,otrunc) pathmode(sirusr,siwusr,sirgrp) filedata(text) msg(2)'',
      ''alloc fi(sysout) path('' @ in_quotes sysout @ '') pathopts(owronly,ocreat,otrunc) pathmode(sirusr,siwusr,sirgrp) filedata(text) msg(2)'',
      ''alloc fi(sysadata) da('' @ in_quotes adata_dsn @ '') shr msg(2)'', ''alloc fi(edcdsect) da('' @ in_quotes chdr_dsn @ '') shr msg(2)'']"

definition handle_tool_convert_dsect :: "'w mvs \<Rightarrow> string \<Rightarrow> ('w \<Rightarrow> int \<times> 'w) \<Rightarrow> 'w partial_handler" where
  "handle_tool_convert_dsect sys login convert c =
     (let adata_dsn = arg_string ''adata-dsn'' [] c; chdr_dsn = arg_string ''chdr-dsn'' [] c; user = map to_lower login;
          sysprint = (let s = arg_string ''sysprint'' [] c in if s = [] then ''/tmp/'' @ user @ ''_sysprint.txt'' else s);
          sysout = (let s = arg_string ''sysout'' [] c in if s = [] then ''/tmp/'' @ user @ ''_sysout.txt'' else s);
          dds = convert_dds sysprint sysout adata_dsn chdr_dsn in
      with_dds sys dds (\<lambda>d c. case convert (world c) of (rc, w) \<Rightarrow> let c = c\<lparr>world := w\<rparr> in
          free_dds sys dds d (if rc \<noteq> 0 then (Returned RTNCD_FAILURE,
              out_line (''  See '' @ quoted sysprint @ '' and '' @ quoted sysout @ '' for more details'')
                (err_line (''Error: convert failed with rc: '' @ quoted (show_int rc)) c))
            else (Returned rc, out_line (''Copy it via `cp '' @ [CHR 0x22] @ ''//'' @ quoted chdr_dsn @ [CHR 0x22] @ '' <member>.h`'')
              (out_line (''DSECT converted to '' @ quoted chdr_dsn) c))))
        (out_line (adata_dsn @ '' '' @ chdr_dsn @ '' '' @ sysprint @ '' '' @ sysout) c))"

definition handle_tool_dynalloc :: "'w mvs \<Rightarrow> 'w partial_handler" where
  "handle_tool_dynalloc sys c = (let parm = arg_string ''parm'' [] c in
     map_option (\<lambda>(r, w). let c = c\<lparr>world := w\<rparr> in
       if bpx_rc r \<noteq> 0 then (Returned RTNCD_FAILURE, err_line (''  Details: '' @ bpx_text r)
           (err_line (''Error: bpxwdyn with parm '' @ quoted parm @ '' rc: '' @ quoted (show_int (bpx_rc r))) c))
       else (Returned (bpx_rc r), out_line (bpx_text r) c))
     (zut_bpxwdyn (mvs_dynalloc sys) parm (world c)))"

text \<open>The control statements are written to the DD \<open>sysin\<close>; the result of that is not kept, and the check that
  follows looks at the return code of the allocation, which is 0.\<close>

definition write_sysin :: "'w mvs \<Rightarrow> 's iconv_lib \<Rightarrow> string \<Rightarrow> 'w \<Rightarrow> 'w option" where
  "write_sysin sys lib data w = map_option (\<lambda>(rc, z, w). w) (zds_write sys lib \<lparr>op_ddname = ''sysin'', op_dsname = []\<rparr> data blank_zds w)"

definition show_dd_content :: "'w mvs \<Rightarrow> 's iconv_lib \<Rightarrow> string list \<Rightarrow> string \<Rightarrow> string \<Rightarrow> zdiag \<Rightarrow> 'w partial_handler" where
  "show_dd_content sys lib dds dd dsn d c = (case zds_read sys lib \<lparr>op_ddname = dd, op_dsname = dsn\<rparr> blank_zds (world c) of
     None \<Rightarrow> None
   | Some (rc, z, content) \<Rightarrow> free_dds sys dds d
       (if rc \<noteq> 0 then (Returned RTNCD_FAILURE, err_line (''  Details: '' @ ds_message z) (err_line (rc_text ''Error: could not read from dd: '' dd rc) c))
        else (Returned RTNCD_SUCCESS, out_line content c)))"

definition handle_tool_search :: "'w mvs \<Rightarrow> 's iconv_lib \<Rightarrow> (string \<Rightarrow> 'w \<Rightarrow> int \<times> 'w) \<Rightarrow> 'w partial_handler" where
  "handle_tool_search sys lib search c =
     (let pattern = arg_string ''string'' [] c; parms = map to_upper (arg_string ''parms'' [] c);
          dds = [''alloc dd(newdd) da('' @ in_quotes (arg_string ''dsn'' [] c) @ '') shr'',
            ''alloc dd(outdd) '' @ arg_string ''outdd-attributes'' ''space(50,100)'' c, ''alloc dd(sysin)''] in
      with_dds sys dds (\<lambda>d c. case write_sysin sys lib ('' SRCHFOR '' @ quoted pattern @ [newline]) (world c) of
          None \<Rightarrow> None
        | Some w \<Rightarrow> (case search (c_string parms) w of (rc, w) \<Rightarrow> let c = c\<lparr>world := w\<rparr> in
            if rc \<notin> {RTNCD_SUCCESS, RTNCD_WARNING, 1, 6} then
              free_dds sys dds d (Returned RTNCD_FAILURE, err_line (''Error: could not invoke ISRSUPC rc: '' @ quoted (show_int rc)) c)
            else show_dd_content sys lib dds ''OUTDD'' [] d c)) c)"

definition handle_tool_amblist :: "'w mvs \<Rightarrow> 's iconv_lib \<Rightarrow> (string \<Rightarrow> 'w \<Rightarrow> int \<times> 'w) \<Rightarrow> 'w partial_handler" where
  "handle_tool_amblist sys lib run c =
     (let dsn = arg_string ''dsn'' [] c; statements = map to_upper ('' '' @ arg_string ''control-statements'' [] c);
          dds = [''alloc dd(syslib) da('' @ in_quotes dsn @ '') shr'', ''alloc dd(sysprint) lrecl(80) recfm(f,b) blksize(80)'',
            ''alloc dd(sysin) lrecl(80) recfm(f,b) blksize(80)''] in
      with_dds sys dds (\<lambda>d c. case write_sysin sys lib statements (world c) of
          None \<Rightarrow> None
        | Some w \<Rightarrow> (case run ''AMBLIST'' w of (rc, w) \<Rightarrow> let c = c\<lparr>world := w\<rparr> in
            if rc \<noteq> RTNCD_SUCCESS then free_dds sys dds d (Returned RTNCD_FAILURE, err_line (''Error: could not invoke AMBLIST rc: '' @ quoted (show_int rc)) c)
            else show_dd_content sys lib dds ''SYSPRINT'' dsn d c)) c)"

text \<open>Escapes of parameters.\<close>

fun parse_escape_chars :: "string \<Rightarrow> string" where
  "parse_escape_chars (a # b # s) =
     (if a = CHR 0x5C then (if b = CHR ''n'' then [newline] else if b = CHR ''t'' then [CHR 0x09] else if b = CHR 0x5C then [CHR 0x5C]
          else if b = CHR 0x22 then [CHR 0x22] else [a, b]) @ parse_escape_chars s
      else a # parse_escape_chars (b # s))"
| "parse_escape_chars s = s"

definition show_allocations :: "string list \<Rightarrow> 'w ctx \<Rightarrow> 'w ctx" where
  "show_allocations dds c = (if dds = [] then c else fold (\<lambda>dd. err_line (''    '' @ dd)) dds (err_line ''  Allocations: '' c))"

text \<open>The input DD is written and the output DD is read as text files of the C++ library; nothing is checked but that they open.\<close>

definition fill_indd :: "'w mvs \<Rightarrow> 'w ctx \<Rightarrow> 'w ctx option" where
  "fill_indd sys c = (let indd = arg_string ''in-dd'' [] c; path = c_string (''DD:'' @ indd) in
     if indd = [] then Some c
     else (case mvs_open_write sys path ''w'' (world c) of (opened, w) \<Rightarrow>
       if \<not> opened then None
       else if io_has ''in-dd-parms'' (args c) then
         Some (c\<lparr>world := snd (mvs_write sys path (parse_escape_chars (arg_string ''in-dd-parms'' [] c) @ [newline]) w)\<rparr>)
       else Some (c\<lparr>world := w\<rparr>)))"

definition show_outdd :: "'w mvs \<Rightarrow> string list \<Rightarrow> int \<Rightarrow> 'w handler" where
  "show_outdd sys dds rc c = (let outdd = arg_string ''out-dd'' [] c in
     if outdd = [] then (Returned rc, c)
     else (case mvs_read sys (c_string (''DD:'' @ outdd)) ''r'' (world c) of
         None \<Rightarrow> (Returned RTNCD_FAILURE, show_allocations dds (err_line (''Error: could not open output '' @ quoted (''DD:'' @ outdd)) c))
       | Some content \<Rightarrow> (Returned rc, list_rows (getlines newline content) c)))"

text \<open>The dynamic arguments become allocations in the order of the map they are in, which is an argument.\<close>

definition run_dds :: "(argument_map \<Rightarrow> argument_map) \<Rightarrow> 'w ctx \<Rightarrow> string list" where
  "run_dds arrange c = map (\<lambda>(k, a). ''alloc dd('' @ k @ '') '' @ get_string_value a []) (arrange (dynamic_arguments (args c)))"

definition handle_tool_run ::
  "'w mvs \<Rightarrow> (argument_map \<Rightarrow> argument_map) \<Rightarrow> (zdiag \<Rightarrow> string \<Rightarrow> string \<Rightarrow> 'w \<Rightarrow> int \<times> zdiag \<times> 'w) \<Rightarrow> 'w partial_handler" where
  "handle_tool_run sys arrange run c =
     (let program = map to_upper (arg_string ''program'' [] c); dds = run_dds arrange c in
      with_dds sys dds (\<lambda>d c. case fill_indd sys c of
          None \<Rightarrow> free_dds sys dds d (Returned RTNCD_FAILURE, show_allocations dds
              (err_line (''Error: could not open input '' @ quoted (''DD:'' @ arg_string ''in-dd'' [] c))
                (c\<lparr>world := snd (mvs_open_write sys (c_string (''DD:'' @ arg_string ''in-dd'' [] c)) ''w'' (world c))\<rparr>)))
        | Some c \<Rightarrow> (case run d (c_string program) (c_string (parse_escape_chars (arg_string ''parms'' [] c))) (world c) of (rc, d, w) \<Rightarrow>
            let c = c\<lparr>world := w\<rparr>;
                c = (if rc \<noteq> 0 \<and> diag_msg_len d > 0 then show_allocations dds (err_line (''  Details: '' @ c_string (diag_msg d))
                  (err_line (''Error: program '' @ quoted program @ '' ended with rc: '' @ quoted (show_int rc)) c)) else c) in
            free_dds sys dds d (show_outdd sys dds rc c))) c)"

section \<open>The root command\<close>

definition handle_version :: "string \<Rightarrow> string \<Rightarrow> string \<Rightarrow> 'w handler" where
  "handle_version release build_date build_time c = (Returned 0,
     set_object (Some (AObject [(''version'', Some (AString release)), (''buildDate'', Some (AString build_date))]))
       (list_rows [''Zowe Remote SSH CLI (zowex)'', ''Version: '' @ release, ''Build Date: '' @ build_date @ '' '' @ build_time,
         ''Copyright Contributors to the Zowe Project.''] c))"

definition handle_version_simple :: "string \<Rightarrow> 'w handler" where
  "handle_version_simple release c = (Returned 0, out_line release c)"

definition plugin_rows :: "plugin_metadata \<Rightarrow> string list" where
  "plugin_rows m = [display_name m @ (if filename m = [] then [] else '' ('' @ filename m @ '')''),
     ''  Version: '' @ (if Plugin.version m = [] then ''n/a'' else Plugin.version m), []]"

text \<open>The names in the directory, none when it cannot be opened, come sorted.\<close>

definition handle_plugins_list :: "string list option \<Rightarrow> (string list \<Rightarrow> string list) \<Rightarrow> plugin_metadata list \<Rightarrow> 'w handler" where
  "handle_plugins_list entries sorted_names loaded c =
     (let files = sorted_names (filter (\<lambda>n. n \<noteq> ''.'' \<and> n \<noteq> ''..'' \<and> n \<noteq> []) (case entries of None \<Rightarrow> [] | Some ns \<Rightarrow> ns));
          unregistered = filter (\<lambda>n. n \<notin> filename ` set loaded) files in
      (Returned 0, list_rows (concat (map plugin_rows loaded) @
         (if unregistered = [] then [] else ''The following unregistered plug-ins were found in the plugins/ dir:'' # concat (map (\<lambda>n. [n, []]) unregistered))) c))"

section \<open>Facts\<close>

text \<open>A console is asked with a timeout of at least one and at most 30 seconds.\<close>

lemma console_asked_in_time: "0 < zn_timeout (response_request z)" "zn_timeout (response_request z) \<le> 30" "zn_buffer_size (response_request z) \<noteq> 0"
  by (simp_all add: response_request_def ZCN_DEFAULT_TIMEOUT_def ZCN_MAX_TIMEOUT_def ZCN_DEFAULT_BUFFER_SIZE_def)

text \<open>A session that has been deactivated is not deactivated again when it ends.\<close>

lemma deactivated_once:
  assumes "session_deactivate zs s w = (rc, s', w')"
  shows "end_session zs s' (x, c) = (x, c)"
  using assms by (auto simp: session_deactivate_def end_session_def split: if_splits prod.splits)

text \<open>What the write of the control statements returns has no influence on what follows.\<close>

lemma sysin_result_lost:
  assumes "zds_write sys lib \<lparr>op_ddname = ''sysin'', op_dsname = []\<rparr> data blank_zds w = Some (rc, z, w')"
  shows "write_sysin sys lib data w = Some w'"
  using assms by (simp add: write_sysin_def)

text \<open>Every text can be written with escapes.\<close>

fun escape_chars :: "string \<Rightarrow> string" where
  "escape_chars [] = []"
| "escape_chars (ch # s) = (if ch = newline then [CHR 0x5C, CHR ''n''] else if ch = CHR 0x5C then [CHR 0x5C, CHR 0x5C] else [ch]) @ escape_chars s"

lemma escapes_undone: "parse_escape_chars (escape_chars s) = s"
proof (induction s)
  case (Cons ch s)
  have "parse_escape_chars (ch # t) = ch # parse_escape_chars t" if "ch \<noteq> CHR 0x5C" for t
    using that by (cases t) auto
  with Cons show ?case
    by auto
qed simp

end
