(* ===== verification/Interactive.thy ===== *)
theory Interactive
  imports Parser SysHandlers
begin

text \<open>
  The root command of the program (\<open>handle_command\<close>, \<open>interactive_mode\<close>, \<open>execute_command\<close> of \<open>commands/core.cpp\<close>).
  The commands that the interactive mode runs change the world; what they print goes to the streams of the root command.
\<close>

definition should_quit :: "string \<Rightarrow> bool" where
  "should_quit input \<longleftrightarrow> input \<in> {''quit'', ''exit'', ''QUIT'', ''EXIT''}"

text \<open>\<open>getline\<close>: once the end of the input has been seen the string keeps what it holds.\<close>

record line_state =
  ls_command :: string
  ls_eof :: bool
  ls_rest :: string

definition next_line :: "line_state \<Rightarrow> line_state" where
  "next_line s = (if ls_eof s then s
     else if newline \<in> set (ls_rest s) then
       \<lparr>ls_command = takeWhile (\<lambda>ch. ch \<noteq> newline) (ls_rest s), ls_eof = False, ls_rest = tl (dropWhile (\<lambda>ch. ch \<noteq> newline) (ls_rest s))\<rparr>
     else \<lparr>ls_command = ls_rest s, ls_eof = True, ls_rest = []\<rparr>)"

definition show_console :: "console list \<Rightarrow> 'w ctx \<Rightarrow> 'w ctx" where
  "show_console ls c = fold (\<lambda>l c. case l of
       Cout s \<Rightarrow> c\<lparr>output_stream := output_stream c @ s\<rparr>
     | Cerr s \<Rightarrow> c\<lparr>error_stream := error_stream c @ s\<rparr>) ls c"

definition transmission_end :: char where
  "transmission_end = CHR 0x37"

definition answer_end :: "bool \<Rightarrow> int \<Rightarrow> 'w ctx \<Rightarrow> 'w ctx" where
  "answer_end tty rc c = (if tty then c else
     c\<lparr>output_stream := output_stream c @ CHR ''['' # show_int rc @ '']'' @ [newline, transmission_end],
       error_stream := error_stream c @ [transmission_end]\<rparr>)"

definition prompt :: "bool \<Rightarrow> 'w ctx \<Rightarrow> 'w ctx" where
  "prompt tty c = (if tty then c\<lparr>output_stream := output_stream c @ CHR 0x0D # ''> ''\<rparr> else c)"

partial_function (option) interactive_loop :: "cli_env \<Rightarrow> 'w command \<Rightarrow> bool \<Rightarrow> line_state \<Rightarrow> int \<Rightarrow> 'w ctx \<Rightarrow> (int \<times> 'w ctx) option" where
  "interactive_loop e root tty s rc c =
     (let c = prompt tty c; s = next_line s in
      if should_quit (ls_command s) then Some (rc, c)
      else (case parse_line e root (ls_command s) (world c) of
          None \<Rightarrow> None
        | Some (r, ls, w) \<Rightarrow> interactive_loop e root tty s (exit_code r) (answer_end tty (exit_code r) (show_console ls (c\<lparr>world := w\<rparr>)))))"

definition interactive_mode :: "cli_env \<Rightarrow> 'w command \<Rightarrow> bool \<Rightarrow> 'w partial_handler" where
  "interactive_mode e root tty c = map_option (\<lambda>(rc, c). (Returned rc, out_line ''...terminated'' c))
     (interactive_loop e root tty \<lparr>ls_command = [], ls_eof = False, ls_rest = input_stream c\<rparr> 0
       (out_line (''Started, enter command or '' @ quoted ''quit'' @ '' to quit...'') c))"

definition handle_command :: "string \<Rightarrow> cli_env \<Rightarrow> 'w command \<Rightarrow> bool \<Rightarrow> 'w partial_handler" where
  "handle_command release e root tty c =
     (let interactive = io_get_bool_default ''interactive'' False (args c); asked = io_get_bool_default ''version'' False (args c) in
      if asked \<and> \<not> interactive then Some (handle_version_simple release c)
      else (let c = (if asked then snd (handle_version_simple release c) else c) in
        if interactive then interactive_mode e root tty c
        else Some (Returned 0, c\<lparr>output_stream := output_stream c @ generate_help (show_value e) [] root\<rparr>)))"

definition execute_command :: "cli_env \<Rightarrow> 'w command \<Rightarrow> string list \<Rightarrow> 'w \<Rightarrow> (int result \<times> console list \<times> 'w) option" where
  "execute_command e root argv w = map_option (\<lambda>(r, ls, i, w). (map_sum id exit_code r, ls, w)) (parse_argv e root argv w)"

section \<open>The interactive mode and the end of its input\<close>

text \<open>The lines before the end are taken one by one.\<close>

lemma next_line_takes:
  assumes "newline \<notin> set l" "\<not> ls_eof s" "ls_rest s = l @ newline # others"
  shows "next_line s = \<lparr>ls_command = l, ls_eof = False, ls_rest = others\<rparr>"
proof -
  have "takeWhile (\<lambda>ch. ch \<noteq> newline) (l @ newline # others) = l" "dropWhile (\<lambda>ch. ch \<noteq> newline) (l @ newline # others) = newline # others"
    using assms(1) by (induction l) auto
  then show ?thesis
    using assms by (simp add: next_line_def)
qed

text \<open>The loop ends at a line that says so, and only there: without one the end of the input makes it repeat its last
  line for ever.\<close>

lemma getlines_next: "newline \<in> set s \<Longrightarrow>
    getlines newline s = takeWhile (\<lambda>ch. ch \<noteq> newline) s # getlines newline (tl (dropWhile (\<lambda>ch. ch \<noteq> newline) s))"
  by (induction s) auto

lemma getlines_last: "newline \<notin> set s \<Longrightarrow> getlines newline s = (if s = [] then [] else [s])"
  by (induction s) auto

text \<open>A line that ends the loop is the one it holds, or one of those that are left.\<close>

definition quit_ahead :: "line_state \<Rightarrow> bool" where
  "quit_ahead s = (if ls_eof s then should_quit (ls_command s) else (\<exists>l \<in> set (getlines newline (ls_rest s)). should_quit l))"

lemma quit_ahead_next:
  "should_quit (ls_command (next_line s)) \<Longrightarrow> quit_ahead s"
  "quit_ahead (next_line s) \<Longrightarrow> quit_ahead s"
  by (cases "ls_eof s"; cases "newline \<in> set (ls_rest s)";
      auto simp: next_line_def quit_ahead_def getlines_next getlines_last should_quit_def split: if_splits)+

lemma interactive_ends_at_quit:
  assumes "interactive_loop e root tty s rc c = Some r"
  shows "quit_ahead s"
  using _ assms
proof (rule interactive_loop.raw_induct)
  fix f e root tty s rc c r
  assume IH: "\<And>e root tty s rc c r. f e root tty s rc c = Some r \<Longrightarrow> quit_ahead s"
    and r: "(let c = prompt tty c; s = next_line s in
      if should_quit (ls_command s) then Some (rc, c)
      else (case parse_line e root (ls_command s) (world c) of
          None \<Rightarrow> None
        | Some (r, ls, w) \<Rightarrow> f e root tty s (exit_code r) (answer_end tty (exit_code r) (show_console ls (c\<lparr>world := w\<rparr>))))) = Some r"
  show "quit_ahead s"
  proof (cases "should_quit (ls_command (next_line s))")
    case True
    then show ?thesis
      by (rule quit_ahead_next)
  next
    case False
    with r have "quit_ahead (next_line s)"
      by (auto simp: Let_def intro: IH split: option.splits prod.splits)
    then show ?thesis
      by (rule quit_ahead_next)
  qed
qed

corollary interactive_needs_quit:
  assumes "\<forall>l \<in> set (getlines newline (input_stream c)). \<not> should_quit l"
  shows "interactive_mode e root tty c = None"
proof (cases "interactive_mode e root tty c")
  case (Some r)
  from interactive_ends_at_quit [of e root tty "\<lparr>ls_command = [], ls_eof = False, ls_rest = input_stream c\<rparr>"] Some assms show ?thesis
    by (auto simp: interactive_mode_def quit_ahead_def out_line_def)
qed simp

end
