(* ===== verification/Server.thy ===== *)
theory Server
  imports RpcServer SysHandlers "HOL-Library.List_Lexorder" "HOL-Library.Char_ord"
begin

text \<open>
  The server command (\<open>commands/server.cpp\<close>): its options, the environment variable that replaces one of them, the
  status message the client waits for, with the checksums of the installed files, and the requests that are read from
  the input.  The pool the requests go to is in \<open>WorkerPool\<close>.  Signals and the thread that logs are not modelled.
\<close>

section \<open>Options\<close>

record server_options =
  so_num_workers :: int
  so_verbose :: bool
  so_request_timeout :: int
  so_exec_dir :: string

definition default_options :: server_options where
  "default_options = \<lparr>so_num_workers = 10, so_verbose = False, so_request_timeout = 60, so_exec_dir = ''.''\<rparr>"

definition get_executable_dir :: "string \<Rightarrow> string" where
  "get_executable_dir argv0 = (let full_path = c_string argv0 in
     if CHR ''/'' \<in> set full_path then rev (tl (dropWhile (\<lambda>ch. ch \<noteq> CHR ''/'') (rev full_path))) else ''.'')"

text \<open>\<open>stoll\<close>: the number and what follows it.\<close>

datatype stoll_answer = InvalidArgument | OutOfRange | Number int string

definition stoll :: "string \<Rightarrow> stoll_answer" where
  "stoll s = (let t = dropWhile c_space s; neg = (t \<noteq> [] \<and> hd t = CHR ''-'');
       u = (if t \<noteq> [] \<and> (hd t = CHR ''-'' \<or> hd t = CHR ''+'') then tl t else t) in
     if u = [] \<or> \<not> is_digit (hd u) then InvalidArgument
     else (case read_decimal 0 u of (v, rest) \<Rightarrow> let n = (if neg then - v else v) in
       if n < LONG_MIN \<or> n > LONG_MAX then OutOfRange else Number n rest))"

definition workers_from_env :: "string \<Rightarrow> int result" where
  "workers_from_env s = (let s = c_string s in case stoll s of
     InvalidArgument \<Rightarrow> Throw (''Invalid value for num workers: '' @ quoted s)
   | OutOfRange \<Rightarrow> Throw (''Value out of range for num workers: '' @ quoted s)
   | Number n rest \<Rightarrow> if rest \<noteq> [] then Throw (''Invalid value for num workers: '' @ quoted s) else Ok n)"

text \<open>The options the server is started with, or the message of the refusal.\<close>

definition read_options :: "string option \<Rightarrow> string \<Rightarrow> argument_map \<Rightarrow> server_options result" where
  "read_options num_workers_env exec_dir a =
     (let d = default_options;
          opts = \<lparr>so_num_workers = io_get_default arg_get_int ''num-workers'' (so_num_workers d) a, so_verbose = io_get_bool_default ''verbose'' (so_verbose d) a,
            so_request_timeout = io_get_default arg_get_int ''request-timeout'' (so_request_timeout d) a, so_exec_dir = exec_dir\<rparr> in
      case (case num_workers_env of None \<Rightarrow> Ok (so_num_workers opts) | Some s \<Rightarrow> workers_from_env s) of
        Inl err \<Rightarrow> Throw err
      | Inr n \<Rightarrow>
        if n \<le> 0 then Throw ''Number of workers must be greater than 0''
        else if so_request_timeout opts \<le> 0 then Throw ''Request timeout must be greater than 0 seconds''
        else Ok (opts\<lparr>so_num_workers := n\<rparr>))"

text \<open>The server itself answers with what it throws, if anything.\<close>

definition handle_server :: "string option \<Rightarrow> string \<Rightarrow> (server_options \<Rightarrow> 'w \<Rightarrow> string option \<times> 'w) \<Rightarrow> 'w handler" where
  "handle_server num_workers_env exec_dir run c = (case read_options num_workers_env exec_dir (args c) of
     Inl err \<Rightarrow> (Returned 1, err_line err c)
   | Inr opts \<Rightarrow> (case run opts (world c) of
       (None, w) \<Rightarrow> (Returned 0, c\<lparr>world := w\<rparr>)
     | (Some err, w) \<Rightarrow> (Returned 1, err_line (''Fatal error: '' @ err) (c\<lparr>world := w\<rparr>))))"

section \<open>The ready message\<close>

fun stream_words :: "string \<Rightarrow> string list" where
  "stream_words [] = []"
| "stream_words (ch # s) = (if c_space ch then stream_words s
     else (if s = [] \<or> c_space (hd s) then [ch] # stream_words s
       else (case stream_words s of [] \<Rightarrow> [[ch]] | w # ws \<Rightarrow> (ch # w) # ws)))"

text \<open>A line has a checksum and a file name; a later line of the same file replaces the earlier.\<close>

definition add_checksum :: "string \<Rightarrow> (string \<times> string) list \<Rightarrow> (string \<times> string) list" where
  "add_checksum line checksums = (case stream_words line of
     checksum # name # ws \<Rightarrow> AList.update name checksum checksums
   | _ \<Rightarrow> checksums)"

definition load_checksums :: "'w posix \<Rightarrow> 's iconv_lib \<Rightarrow> string \<Rightarrow> 'w \<Rightarrow> (string \<times> string) list" where
  "load_checksums px lib exec_dir w =
     (case zusf_read_from_uss_file px lib (exec_dir @ ''/checksums.asc'') [] (blank_zusf\<lparr>zu_encoding := (zu_encoding blank_zusf)\<lparr>source_codepage := ''IBM-1047''\<rparr>\<rparr>) w of
       (rc, z, content) \<Rightarrow> if rc \<noteq> 0 then [] else sort_key fst (fold add_checksum (getlines newline content) []))"

definition checksums_value :: "(string \<times> string) list \<Rightarrow> jvalue" where
  "checksums_value checksums = (if checksums = [] then JNull else JObject (map (map_prod id JString) checksums))"

definition ready_status :: "(string \<times> string) list \<Rightarrow> string \<Rightarrow> jvalue" where
  "ready_status checksums release = JObject [(''status'', JString ''ready''), (''message'', JString ''zowex server is ready to accept input''),
     (''data'', JObject [(''checksums'', checksums_value checksums), (''version'', JString release)])]"

definition print_ready_message :: "'w env \<Rightarrow> 'w posix \<Rightarrow> 's iconv_lib \<Rightarrow> string \<Rightarrow> string \<Rightarrow> 'w \<Rightarrow> output_line list result" where
  "print_ready_message e px lib exec_dir release w =
     map_sum id (\<lambda>s. [Stdout s]) (serialize_json e (ready_status (load_checksums px lib exec_dir w) release))"

text \<open>The requests that are handed to the pool: the lines of the input that are not empty.\<close>

definition requests_read :: "string \<Rightarrow> string list" where
  "requests_read input = filter (\<lambda>line. line \<noteq> []) (getlines newline input)"

section \<open>Facts\<close>

text \<open>A server starts with at least one worker and a positive timeout.\<close>

lemma options_positive:
  assumes "read_options env dir a = Ok opts"
  shows "so_num_workers opts > 0" "so_request_timeout opts > 0" "so_exec_dir opts = dir"
  using assms by (auto simp: read_options_def Let_def split: option.splits sum.splits if_splits)

text \<open>The environment has the last word on the number of workers, as far as it is a number that fits.\<close>

lemma environment_decides:
  assumes "read_options (Some s) dir a = Ok opts"
  shows "\<exists>n. stoll (c_string s) = Number n [] \<and> so_num_workers opts = n"
  using assms by (auto simp: read_options_def workers_from_env_def Let_def split: sum.splits if_splits stoll_answer.splits)

text \<open>Every request is a line, and the order is the one of the input.\<close>

lemma requests_in_order:
  assumes "\<forall>l \<in> set ls. newline \<notin> set l \<and> l \<noteq> []"
  shows "requests_read (concat (map (\<lambda>l. l @ [newline]) ls)) = ls"
proof -
  have one: "getlines newline (l @ newline # s) = l # getlines newline s" if "newline \<notin> set l" for l s
    using that by (induction l) auto
  have "getlines newline (concat (map (\<lambda>l. l @ [newline]) ls)) = ls"
    using assms by (induction ls) (auto simp: one)
  then show ?thesis
    using assms by (simp add: requests_read_def filter_id_conv)
qed

lemma executable_dir: "CHR ''/'' \<notin> set name \<Longrightarrow> nul_char \<notin> set (dir @ ''/'' @ name) \<Longrightarrow> get_executable_dir (dir @ ''/'' @ name) = dir"
proof -
  assume n: "CHR ''/'' \<notin> set name" "nul_char \<notin> set (dir @ ''/'' @ name)"
  have "dropWhile (\<lambda>ch. ch \<noteq> CHR ''/'') (rev name @ CHR ''/'' # rev dir) = CHR ''/'' # rev dir"
    using n(1) by (subst dropWhile_append2) auto
  moreover have "c_string (dir @ ''/'' @ name) = dir @ ''/'' @ name"
    using n(2) unfolding c_string_def by (intro takeWhile_eq_all_conv [THEN iffD2]) auto
  ultimately show ?thesis
    by (simp add: get_executable_dir_def Let_def)
qed

end
