(* ===== verification/Spec2Isabelle.thy ===== *)
theory Spec2Isabelle
  imports Base64 WorkerPool JsonApi Rpc Plugin CommandTree Commands ZusfOps ListingSpec DsHandlers Interactive Server
begin

text \<open>
  A verification development for the native back end of the Zowe native protocol, the C++ program \<open>zowex\<close> under
  \<open>src/native/c\<close>.  It is a command for z/OS: as a command line tool it runs one command on data sets, USS files, jobs,
  consoles, TSO and the system; as a server it reads JSON-RPC requests line by line from its input, runs them on a
  pool of workers and writes the answers to its output.

  The parts and how they meet.  A request line goes to the pool (\<open>server/worker.cpp\<close>), from a worker to
  \<open>RpcServer::process_request\<close> (\<open>server/rpc_server.cpp\<close>), is read as JSON (\<open>zjson.hpp\<close>), checked against the schema of its
  command (\<open>server/validator.cpp\<close>), turned into arguments by the builder of the command (\<open>server/builder.cpp\<close>) and given
  to the handler of the command; what the handler prints and the object it sets become the result, which is checked
  against the response schema.  A command line goes through the lexer (\<open>lexer.hpp\<close>) and the parser (\<open>parser.hpp\<close>) to the
  same handlers (\<open>commands/*.cpp\<close>).  The handlers call the operations on data sets (\<open>zds.cpp\<close>), USS files
  (\<open>zusf.cpp\<close>), jobs (\<open>zjb.cpp\<close>, \<open>zjbm.c\<close>), consoles (\<open>zcn.cpp\<close>) and utilities (\<open>zut.cpp\<close>), which call services of z/OS.

  Conventions of the model.  A definition has the name of the function it models.  State is passed explicitly: an
  operation takes the world, of an arbitrary type, and gives the changed one back with its return code and its
  diagnostics.  The services of z/OS and of the C library that the sources call are fields of records of functions on the
  world (\<open>'w posix\<close>, \<open>'w mvs\<close>, \<open>'w jobs\<close>, \<open>'w ssi\<close>, \<open>'s iconv_lib\<close>, \<open>'w env\<close>), arguments of every definition that uses
  them.  Exceptions are the left side of a sum (\<open>'a result\<close>, \<open>'a expected\<close>); an undefined access, a write past a field or
  a loop that does not end is \<open>None\<close>.  Strings are lists of characters in the coding of the sources, C strings end
  at the first NUL (\<open>c_string\<close>).  Integers are words where the code shifts, wraps or cuts them and \<open>int\<close> elsewhere; the
  counter \<open>ready_count\<close> of the pool is an unbounded integer.
\<close>

text \<open>
  Theories, in the order of the parts:

  \<^item> \<open>Prelude\<close>: lemmas on lists, maps, words and characters that the others share, and their collections.
  \<^item> \<open>Base64\<close> (\<open>zbase64.h\<close>): encoder, decoder and the streaming forms with their left-over bytes, interpreted as a
    locale of codecs; the round trip and the allocated length.
  \<^item> \<open>Json\<close>, \<open>JsonApi\<close>, \<open>Rpc\<close> (\<open>zjson.hpp\<close>, \<open>server/rpcio.hpp\<close>): values, escaping, the conversion to and from the handles of
    the z/OS parser, the structs of the protocol and their round trip.
  \<^item> \<open>Plugin\<close>, \<open>Context\<close> (\<open>extend/plugin.*\<close>, \<open>server/rpcio.cpp\<close>): arguments, results and the context of a handler with its
    streams and its deferred notification.
  \<^item> \<open>Validator\<close>, \<open>Schemas\<close>, \<open>Builder\<close>, \<open>Dispatcher\<close>, \<open>RpcServer\<close>, \<open>Commands\<close> (\<open>server/\<close>): the way of a request, with the
    equivalence of the validation loop and a declarative reading of a schema, the single answer line, the refusals that
    run nothing, the validated results, and the table of all commands.
  \<^item> \<open>Worker\<close>, \<open>WorkerPool\<close> (\<open>server/worker.*\<close>): each critical section is a definition; a step relation interleaves the
    threads, and invariants of the reachable states are proved by rule induction.
  \<^item> \<open>Lexer\<close>, \<open>Levenshtein\<close>, \<open>Cli\<close>, \<open>Parser\<close>, \<open>ParserStep\<close>, \<open>ParserBuilt\<close>, \<open>ParserResult\<close>, \<open>CommandTree\<close>, \<open>Interactive\<close>
    (\<open>lexer.hpp\<close>, \<open>parser.hpp\<close>, \<open>commands/*.cpp\<close>, \<open>commands/core.cpp\<close>): tokens, argument definitions, help, the parsing loop,
    what a successful parse hands to a handler, the registered tree and the interactive mode.
  \<^item> \<open>Zut\<close>, \<open>ZutProcess\<close>, \<open>ZutServices\<close> (\<open>zut.cpp\<close>): text, checksums, e-tags, conversion, processes, allocation.
  \<^item> \<open>Posix\<close>, \<open>Uss\<close>, \<open>Ccsid\<close>, \<open>Zusf\<close>, \<open>ZusfTree\<close>, \<open>MapFs\<close>, \<open>ZusfData\<close>, \<open>ZusfStore\<close>, \<open>ZusfOps\<close>, \<open>ZusfList\<close>, \<open>ListingSpec\<close>,
    \<open>UssHandlers\<close> (\<open>zusf.cpp\<close>, \<open>commands/uss.cpp\<close>): the file interface as a record, its laws as locales, a file system of maps
    that satisfies them, and the operations, transfers, listings and handlers on it.
  \<^item> \<open>ZdsNames\<close>, \<open>ZdsDscb\<close>, \<open>ZdsMembers\<close>, \<open>ZdsCatalog\<close>, \<open>ZdsAsa\<close>, \<open>ZdsIo\<close>, \<open>ZdsManage\<close>, \<open>ZdsStream\<close>, \<open>DsHandlers\<close> (\<open>zds.cpp\<close>,
    \<open>commands/ds.cpp\<close>): names, attributes, directories, the catalog search, records and control characters, reading and
    writing with e-tags, copies, streamed transfer, handlers.
  \<^item> \<open>Zjbm\<close>, \<open>Zjb\<close>, \<open>JobHandlers\<close> (\<open>zjbm.c\<close>, \<open>zjb.cpp\<close>, \<open>commands/job.cpp\<close>): requests to the job entry subsystem, jobs, spool
    files, submission, handlers.
  \<^item> \<open>SysHandlers\<close>, \<open>Server\<close> (\<open>zcn.cpp\<close>, \<open>ztso.cpp\<close>, the other handlers, \<open>commands/server.cpp\<close>).
\<close>

text \<open>
  What the groups of lemmas show.  Each component has the behaviour of its operations on every branch that a property
  needs, an independent specification where it has a contract (least number of edits, Adler-32, the tree below a
  directory, the layout of a directory block, the match relation of a pattern, conformance to a schema), and the
  invariant of its state where it has one.  Several theorems state what the code does where that is not what
  it means to do: they are named for it (\<open>self_copy_loses_members\<close>, \<open>copied_bytes_become_tracks\<close>,
  \<open>streamed_blank_lines_misplaced\<close>, \<open>long_pattern_overruns\<close>, \<open>chmod_over_rpc_refused\<close>).

  Bounds and fuel.  Loops over data are structural or have a measure.  Loops that may not end (the parser on a
  tree with a positional flag, recursion over a file tree, waiting for a job, the interactive mode) are partial functions
  into \<open>option\<close>; that they end is proved (\<open>parsing_ends\<close>, \<open>deletion_is_confined\<close>, \<open>wait_ends\<close>) or, for the interactive mode
  without \<open>quit\<close>, refuted.  Reading JSON through handles has fuel because the handles may form a cycle.

  Hypotheses.  Laws of the file interface, of iconv and of the directory services are stated as locales or as premises that a
  witness meets with a concrete system.  The step relation of the pool covers every critical section, not the memory
  model below it; log calls have no effect in the model.

  Not modelled: the metal C services (\<open>zam.c\<close>, \<open>zdsm.c\<close>, \<open>zcnm.c\<close>, \<open>zutm.c\<close>, \<open>zjsonm.c\<close>), which are inline assembler around
  system services and enter as arguments; the control block layouts of \<open>chdsect\<close>; loading a shared object; reading
  the system log; logging, signals and shutdown; the tests and examples, the Python bindings and the TypeScript clients.
\<close>

end
